(* ===== verification/Prelude.thy ===== *)
theory Prelude
  imports Main "HOL-Library.Sublist"
begin

text \<open>
  The prelude of the development: the error values of the Go code, the shape of an effectful
  operation (a function from a state to a result and the next state), the combinators that the
  handlers are composed with, and the generic facts about them.

  A Go function that returns \<^verbatim>\<open>(T, error)\<close> without touching shared state is a HOL function
  into \<open>err + 'a\<close>.  One that reads or writes the database is an \<open>eff\<close>: an error ends the
  function at that point but does not undo the statements that ran before it (only
  \<open>transaction\<close> does, as \<^verbatim>\<open>tx.Rollback\<close> does in the source).
\<close>

named_theorems preserved \<open>introduction rules for preservation of a state predicate\<close>
named_theorems eff_simps \<open>unfolding of the effect combinators at a state\<close>

section \<open>Errors\<close>

text \<open>
  Only the distinctions the code inspects are kept: \<^verbatim>\<open>pgx.ErrNoRows\<close> (\<open>errors.Is\<close>), the HTTP
  status of a failed delivery (\<open>errors.As\<close>), constraint violations of a statement, and otherwise
  the message.  \<open>Wrapped\<close> is \<^verbatim>\<open>fmt.Errorf("...: %w", err)\<close>.
\<close>

datatype err =
    NoRows
  | UniqueViolation string
  | ForeignKeyViolation string
  | HTTPDeliveryError int string
  | Msg string
  | Wrapped string err

fun errors_is_no_rows :: "err \<Rightarrow> bool" where
  "errors_is_no_rows NoRows = True"
| "errors_is_no_rows (Wrapped _ e) = errors_is_no_rows e"
| "errors_is_no_rows _ = False"

fun errors_as_http :: "err \<Rightarrow> int option" where
  "errors_as_http (HTTPDeliveryError code _) = Some code"
| "errors_as_http (Wrapped _ e) = errors_as_http e"
| "errors_as_http _ = None"

definition wrap_err :: "string \<Rightarrow> err + 'a \<Rightarrow> err + 'a" where
  "wrap_err m r = (case r of Inl e \<Rightarrow> Inl (Wrapped m e) | Inr x \<Rightarrow> Inr x)"

lemma wrap_err_simps [simp]:
  "wrap_err m (Inl e) = Inl (Wrapped m e)"
  "wrap_err m (Inr x) = Inr x"
  by (simp_all add: wrap_err_def)

definition is_ok :: "err + 'a \<Rightarrow> bool" where
  "is_ok r = (case r of Inl _ \<Rightarrow> False | Inr _ \<Rightarrow> True)"

lemma is_ok_simps [simp]: "\<not> is_ok (Inl e)" "is_ok (Inr x)"
  by (simp_all add: is_ok_def)

lemma is_okE: "is_ok r \<Longrightarrow> (\<And>x. r = Inr x \<Longrightarrow> P) \<Longrightarrow> P"
  by (cases r) auto

section \<open>Pure results in sequence\<close>

definition bind_res :: "err + 'a \<Rightarrow> ('a \<Rightarrow> err + 'b) \<Rightarrow> err + 'b" where
  "bind_res r k = (case r of Inl e \<Rightarrow> Inl e | Inr x \<Rightarrow> k x)"

lemma bind_res_simps [simp]:
  "bind_res (Inl e) k = Inl e"
  "bind_res (Inr x) k = k x"
  by (simp_all add: bind_res_def)

lemma bind_res_ok: "bind_res r k = Inr y \<longleftrightarrow> (\<exists>x. r = Inr x \<and> k x = Inr y)"
  by (cases r) auto

section \<open>Effects\<close>

type_synonym ('s, 'a) eff = "'s \<Rightarrow> (err + 'a) \<times> 's"

definition ret :: "'a \<Rightarrow> ('s, 'a) eff" where
  "ret x s = (Inr x, s)"

definition fail :: "err \<Rightarrow> ('s, 'a) eff" where
  "fail e s = (Inl e, s)"

definition of_res :: "err + 'a \<Rightarrow> ('s, 'a) eff" where
  "of_res r s = (r, s)"

definition query :: "('s \<Rightarrow> err + 'a) \<Rightarrow> ('s, 'a) eff" where
  "query f s = (f s, s)"

text \<open>One SQL statement: it either fails and changes nothing or returns a value and the new state.\<close>

definition statement :: "('s \<Rightarrow> err + ('a \<times> 's)) \<Rightarrow> ('s, 'a) eff" where
  "statement f s = (case f s of Inl e \<Rightarrow> (Inl e, s) | Inr (x, s') \<Rightarrow> (Inr x, s'))"

definition bind_eff :: "('s, 'a) eff \<Rightarrow> ('a \<Rightarrow> ('s, 'b) eff) \<Rightarrow> ('s, 'b) eff" where
  "bind_eff m k s = (case m s of (Inl e, s') \<Rightarrow> (Inl e, s') | (Inr x, s') \<Rightarrow> k x s')"

text \<open>\<open>handle m h k\<close> is \<^verbatim>\<open>x, err := m(); if err != nil { h(err) } else { k(x) }\<close>.\<close>

definition handle :: "('s, 'a) eff \<Rightarrow> (err \<Rightarrow> ('s, 'b) eff) \<Rightarrow> ('a \<Rightarrow> ('s, 'b) eff) \<Rightarrow> ('s, 'b) eff" where
  "handle m h k s = (case m s of (Inl e, s') \<Rightarrow> h e s' | (Inr x, s') \<Rightarrow> k x s')"

definition wrap_eff :: "string \<Rightarrow> ('s, 'a) eff \<Rightarrow> ('s, 'a) eff" where
  "wrap_eff m f = handle f (\<lambda>e. fail (Wrapped m e)) ret"

text \<open>\<^verbatim>\<open>Begin ... defer Rollback ... Commit\<close>: the writes are kept only if the body succeeds.\<close>

definition transaction :: "('s, 'a) eff \<Rightarrow> ('s, 'a) eff" where
  "transaction m s = (case m s of (Inl e, _) \<Rightarrow> (Inl e, s) | (Inr x, s') \<Rightarrow> (Inr x, s'))"

fun for_each :: "('a \<Rightarrow> ('s, unit) eff) \<Rightarrow> 'a list \<Rightarrow> ('s, unit) eff" where
  "for_each f [] = ret ()"
| "for_each f (x # xs) = bind_eff (f x) (\<lambda>_. for_each f xs)"

lemma eff_apply [eff_simps]:
  "ret x s = (Inr x, s)"
  "fail e s = (Inl e, s)"
  "of_res r s = (r, s)"
  "query f s = (f s, s)"
  by (simp_all add: ret_def fail_def of_res_def query_def)

lemma statement_apply [eff_simps]:
  "statement f s = (case f s of Inl e \<Rightarrow> (Inl e, s) | Inr p \<Rightarrow> (Inr (fst p), snd p))"
  by (auto simp: statement_def split: sum.splits)

lemma bind_apply [eff_simps]:
  "bind_eff m k s = (case fst (m s) of Inl e \<Rightarrow> (Inl e, snd (m s)) | Inr x \<Rightarrow> k x (snd (m s)))"
  by (auto simp: bind_eff_def split: prod.splits sum.splits)

lemma handle_apply [eff_simps]:
  "handle m h k s = (case fst (m s) of Inl e \<Rightarrow> h e (snd (m s)) | Inr x \<Rightarrow> k x (snd (m s)))"
  by (auto simp: handle_def split: prod.splits sum.splits)

lemma wrap_eff_apply [eff_simps]:
  "wrap_eff w m s = (wrap_err w (fst (m s)), snd (m s))"
  by (auto simp: wrap_eff_def handle_apply eff_apply wrap_err_def split: sum.splits)

lemma wrap_eff_ok: "wrap_eff w m s = (Inr x, s') \<longleftrightarrow> m s = (Inr x, s')"
  by (cases "m s") (auto simp: wrap_eff_apply wrap_err_def split: sum.splits)

lemma transaction_apply [eff_simps]:
  "transaction m s = (case fst (m s) of Inl e \<Rightarrow> (Inl e, s) | Inr x \<Rightarrow> (Inr x, snd (m s)))"
  by (auto simp: transaction_def split: prod.splits sum.splits)

text \<open>A failed transaction leaves the state as it was.\<close>

lemma transaction_rollback: "fst (transaction m s) = Inl e \<Longrightarrow> snd (transaction m s) = s"
  by (auto simp: transaction_apply split: sum.splits)

section \<open>Preservation of a state predicate\<close>

definition preserves :: "('s \<Rightarrow> bool) \<Rightarrow> ('s, 'a) eff \<Rightarrow> bool" where
  "preserves P m \<longleftrightarrow> (\<forall>s. P s \<longrightarrow> P (snd (m s)))"

lemma preservesI: "(\<And>s. P s \<Longrightarrow> P (snd (m s))) \<Longrightarrow> preserves P m"
  by (simp add: preserves_def)

lemma preservesD: "preserves P m \<Longrightarrow> P s \<Longrightarrow> P (snd (m s))"
  by (simp add: preserves_def)

lemma preserves_basic [preserved, intro, simp]:
  "preserves P (ret x)" "preserves P (fail e)" "preserves P (of_res r)" "preserves P (query f)"
  by (simp_all add: preserves_def eff_simps)

lemma preserves_statement:
  "(\<And>s x s'. P s \<Longrightarrow> f s = Inr (x, s') \<Longrightarrow> P s') \<Longrightarrow> preserves P (statement f)"
  by (auto simp: preserves_def statement_def split: sum.splits prod.splits)

lemma preserves_guard_statement:
  "(\<And>s x s'. \<not> b \<Longrightarrow> P s \<Longrightarrow> f s = Inr (x, s') \<Longrightarrow> P s') \<Longrightarrow> preserves P (if b then fail e else statement f)"
  by (auto intro: preserves_statement)

lemma preserves_bind [preserved]:
  "preserves P m \<Longrightarrow> (\<And>x. preserves P (k x)) \<Longrightarrow> preserves P (bind_eff m k)"
  unfolding preserves_def by (auto simp: bind_apply split: sum.splits)

lemma preserves_handle [preserved]:
  "preserves P m \<Longrightarrow> (\<And>e. preserves P (h e)) \<Longrightarrow> (\<And>x. preserves P (k x)) \<Longrightarrow> preserves P (handle m h k)"
  unfolding preserves_def by (auto simp: handle_apply split: sum.splits)

lemma preserves_wrap [preserved]: "preserves P m \<Longrightarrow> preserves P (wrap_eff w m)"
  by (simp add: preserves_def wrap_eff_apply)

lemma preserves_transaction [preserved]: "preserves P m \<Longrightarrow> preserves P (transaction m)"
  unfolding preserves_def by (auto simp: transaction_apply split: sum.splits)

lemma preserves_if [preserved]:
  "(b \<Longrightarrow> preserves P m) \<Longrightarrow> (\<not> b \<Longrightarrow> preserves P n) \<Longrightarrow> preserves P (if b then m else n)"
  by simp

lemma preserves_option [preserved]:
  "(r = None \<Longrightarrow> preserves P m) \<Longrightarrow> (\<And>x. r = Some x \<Longrightarrow> preserves P (k x)) \<Longrightarrow>
   preserves P (case r of None \<Rightarrow> m | Some x \<Rightarrow> k x)"
  by (cases r) auto

lemma preserves_sum [preserved]:
  "(\<And>e. r = Inl e \<Longrightarrow> preserves P (h e)) \<Longrightarrow> (\<And>x. r = Inr x \<Longrightarrow> preserves P (k x)) \<Longrightarrow>
   preserves P (case r of Inl e \<Rightarrow> h e | Inr x \<Rightarrow> k x)"
  by (cases r) auto

lemma preserves_prod [preserved]:
  "(\<And>x y. preserves P (k x y)) \<Longrightarrow> preserves P (case r of (x, y) \<Rightarrow> k x y)"
  by (cases r) auto

lemma preserves_let [preserved]: "(\<And>x. preserves P (k x)) \<Longrightarrow> preserves P (Let v k)"
  by simp

lemma preserves_for_each [preserved]:
  "(\<And>x. x \<in> set xs \<Longrightarrow> preserves P (f x)) \<Longrightarrow> preserves P (for_each f xs)"
  by (induction xs) (auto intro: preserves_bind)

section \<open>Tables\<close>

text \<open>
  A table is the list of its rows.  \<open>update_where\<close>, \<open>delete_where\<close> and \<open>count_where\<close> are the
  SQL statements over a row predicate.
\<close>

definition update_where :: "('r \<Rightarrow> bool) \<Rightarrow> ('r \<Rightarrow> 'r) \<Rightarrow> 'r list \<Rightarrow> 'r list" where
  "update_where p f rs = map (\<lambda>r. if p r then f r else r) rs"

definition delete_where :: "('r \<Rightarrow> bool) \<Rightarrow> 'r list \<Rightarrow> 'r list" where
  "delete_where p rs = filter (\<lambda>r. \<not> p r) rs"

definition count_where :: "('r \<Rightarrow> bool) \<Rightarrow> 'r list \<Rightarrow> nat" where
  "count_where p rs = length (filter p rs)"

definition select_one :: "('r \<Rightarrow> bool) \<Rightarrow> 'r list \<Rightarrow> err + 'r" where
  "select_one p rs = (case find p rs of None \<Rightarrow> Inl NoRows | Some r \<Rightarrow> Inr r)"

lemma update_where_map:
  "(\<And>r. p r \<Longrightarrow> g (f r) = g r) \<Longrightarrow> map g (update_where p f rs) = map g rs"
  by (auto simp: update_where_def)

lemma distinct_map_delete_where: "distinct (map g rs) \<Longrightarrow> distinct (map g (delete_where p rs))"
  by (simp add: delete_where_def distinct_map_filter)

lemma set_delete_where [simp]: "set (delete_where p rs) = {r \<in> set rs. \<not> p r}"
  by (auto simp: delete_where_def)

lemma set_update_where: "set (update_where p f rs) = {r \<in> set rs. \<not> p r} \<union> f ` {r \<in> set rs. p r}"
  by (auto simp: update_where_def)

lemma update_where_mem: "r \<in> set rs \<Longrightarrow> p r \<Longrightarrow> f r \<in> set (update_where p f rs)"
  by (auto simp: set_update_where)

lemma count_where_pos: "count_where p rs > 0 \<longleftrightarrow> (\<exists>r \<in> set rs. p r)"
  by (auto simp: count_where_def filter_empty_conv)

lemma count_where_update:
  "(\<And>r. q r \<Longrightarrow> p (f r) = p r) \<Longrightarrow> count_where p (update_where q f rs) = count_where p rs"
  by (induction rs) (auto simp: count_where_def update_where_def)

lemma find_someD: "find p rs = Some r \<Longrightarrow> p r \<and> r \<in> set rs"
  by (auto simp: find_Some_iff)

lemma find_noneD: "find p rs = None \<Longrightarrow> r \<in> set rs \<Longrightarrow> \<not> p r"
  by (simp add: find_None_iff)

lemma select_one_ok: "select_one p rs = Inr r \<Longrightarrow> p r \<and> r \<in> set rs"
  by (auto simp: select_one_def split: option.splits dest: find_someD)

lemma select_one_err: "select_one p rs = Inl e \<Longrightarrow> e = NoRows \<and> (\<forall>r \<in> set rs. \<not> p r)"
  by (auto simp: select_one_def find_None_iff split: option.splits)

lemma distinct_map_inj: "distinct (map g rs) \<Longrightarrow> r \<in> set rs \<Longrightarrow> r' \<in> set rs \<Longrightarrow> g r = g r' \<Longrightarrow> r = r'"
  by (auto simp: distinct_map inj_on_def)

end
