(* ===== verification/GoStrings.thy ===== *)
theory GoStrings
  imports Prelude "HOL-Library.Char_ord"
begin

text \<open>
  The functions of Go's \<^verbatim>\<open>strings\<close> and \<^verbatim>\<open>strconv\<close> packages that the source calls.  A Go string is
  a sequence of bytes: here a \<open>string\<close>, whose characters are the 8-bit values.  White space is
  that of \<^verbatim>\<open>unicode.IsSpace\<close>, as UTF-8 byte sequences.  Case folding (\<open>go_lower\<close>, \<open>equal_fold\<close>)
  is that of the ASCII letters, which is what the protocol names it is applied to consist of.
\<close>

section \<open>Prefixes, cutting and searching\<close>

abbreviation has_prefix :: "string \<Rightarrow> string \<Rightarrow> bool" where
  "has_prefix s p \<equiv> prefix p s"

abbreviation has_suffix :: "string \<Rightarrow> string \<Rightarrow> bool" where
  "has_suffix s p \<equiv> suffix p s"

definition trim_prefix :: "string \<Rightarrow> string \<Rightarrow> string" where
  "trim_prefix s p = (if has_prefix s p then drop (length p) s else s)"

definition trim_suffix :: "string \<Rightarrow> string \<Rightarrow> string" where
  "trim_suffix s p = (if has_suffix s p then take (length s - length p) s else s)"

fun contains :: "string \<Rightarrow> string \<Rightarrow> bool" where
  "contains [] sub = (sub = [])"
| "contains (c # s) sub = (prefix sub (c # s) \<or> contains s sub)"

text \<open>\<^verbatim>\<open>before, after, found := strings.Cut(s, c)\<close> for a one-byte separator.\<close>

definition cut_before :: "char \<Rightarrow> string \<Rightarrow> string" where
  "cut_before c s = takeWhile (\<lambda>x. x \<noteq> c) s"

definition cut_after :: "char \<Rightarrow> string \<Rightarrow> string" where
  "cut_after c s = tl (dropWhile (\<lambda>x. x \<noteq> c) s)"

definition cut_found :: "char \<Rightarrow> string \<Rightarrow> bool" where
  "cut_found c s \<longleftrightarrow> c \<in> set s"

text \<open>\<open>s[i+1:]\<close> for \<open>i = strings.LastIndex(s, c)\<close>, when \<open>i >= 0\<close>; and \<open>s[:i]\<close>.\<close>

definition after_last :: "char \<Rightarrow> string \<Rightarrow> string option" where
  "after_last c s = (if c \<in> set s then Some (rev (takeWhile (\<lambda>x. x \<noteq> c) (rev s))) else None)"

definition before_last :: "char \<Rightarrow> string \<Rightarrow> string" where
  "before_last c s = rev (tl (dropWhile (\<lambda>x. x \<noteq> c) (rev s)))"

fun split_on :: "char \<Rightarrow> string \<Rightarrow> string list" where
  "split_on c [] = [[]]"
| "split_on c (x # s) =
     (if x = c then [] # split_on c s
      else case split_on c s of [] \<Rightarrow> [[x]] | w # ws \<Rightarrow> (x # w) # ws)"

fun join :: "string \<Rightarrow> string list \<Rightarrow> string" where
  "join sep [] = []"
| "join sep [w] = w"
| "join sep (w # ws) = w @ sep @ join sep ws"

definition replace_char :: "char \<Rightarrow> string \<Rightarrow> string \<Rightarrow> string" where
  "replace_char c r s = concat (map (\<lambda>x. if x = c then r else [x]) s)"

lemma prefix_append_self [simp]: "prefix p (p @ s)"
  by simp

lemma contains_iff: "contains s sub \<longleftrightarrow> sublist sub s"
  by (induction s) (auto simp: sublist_Cons_right)

lemma takeWhile_sep: "c \<notin> set s \<Longrightarrow> takeWhile (\<lambda>x. x \<noteq> c) (s @ c # t) = s"
  by (induction s) auto

lemma dropWhile_sep: "c \<notin> set s \<Longrightarrow> dropWhile (\<lambda>x. x \<noteq> c) (s @ c # t) = c # t"
  by (induction s) auto

lemma takeWhile_no_sep: "c \<notin> set s \<Longrightarrow> takeWhile (\<lambda>x. x \<noteq> c) s = s"
  by (induction s) auto

lemma dropWhile_no_sep: "c \<notin> set s \<Longrightarrow> dropWhile (\<lambda>x. x \<noteq> c) s = []"
  by (induction s) auto

lemma cut_rejoin: "cut_found c s \<Longrightarrow> cut_before c s @ c # cut_after c s = s"
proof -
  assume "cut_found c s"
  then have ne: "dropWhile (\<lambda>x. x \<noteq> c) s \<noteq> []"
    by (auto simp: cut_found_def dropWhile_eq_Nil_conv)
  have "hd (dropWhile (\<lambda>x. x \<noteq> c) s) = c"
    using hd_dropWhile [OF ne] by simp
  with ne have "c # cut_after c s = dropWhile (\<lambda>x. x \<noteq> c) s"
    by (metis cut_after_def list.collapse)
  then show ?thesis by (simp add: cut_before_def)
qed

lemma cut_not_found: "\<not> cut_found c s \<Longrightarrow> cut_before c s = s \<and> cut_after c s = []"
  by (simp add: cut_found_def cut_before_def cut_after_def takeWhile_no_sep dropWhile_no_sep)

lemma cut_before_no_sep: "c \<notin> set (cut_before c s)"
  by (auto simp: cut_before_def dest: set_takeWhileD)

lemma cut_before_append [simp]: "c \<notin> set s \<Longrightarrow> cut_before c (s @ c # t) = s"
  by (simp add: cut_before_def takeWhile_sep)

lemma cut_after_append [simp]: "c \<notin> set s \<Longrightarrow> cut_after c (s @ c # t) = t"
  by (simp add: cut_after_def dropWhile_sep)

lemma cut_found_append [simp]: "cut_found c (s @ c # t)"
  by (simp add: cut_found_def)

lemma after_last_no_sep: "after_last c s = Some t \<Longrightarrow> c \<notin> set t"
  by (auto simp: after_last_def dest: set_takeWhileD split: if_splits)

lemma after_last_append: "c \<notin> set t \<Longrightarrow> after_last c (s @ c # t) = Some t"
  using takeWhile_sep [of c "rev t" "rev s"] by (simp add: after_last_def)

lemma split_on_nonempty [simp]: "split_on c s \<noteq> []"
  by (induction s) (auto split: list.splits)

lemma split_on_no_sep: "w \<in> set (split_on c s) \<Longrightarrow> c \<notin> set w"
  by (induction s arbitrary: w) (auto split: list.splits if_splits)

lemma split_on_id: "c \<notin> set w \<Longrightarrow> split_on c w = [w]"
  by (induction w) auto

lemma split_on_append: "split_on c (a @ c # b) = split_on c a @ split_on c b"
proof (induction a)
  case (Cons x a)
  then show ?case by (cases "split_on c a") (auto split: list.split)
qed simp

lemma split_on_join: "cs \<noteq> [] \<Longrightarrow> \<forall>w \<in> set cs. c \<notin> set w \<Longrightarrow> split_on c (join [c] cs) = cs"
  by (induction "[c]" cs rule: join.induct) (auto simp: split_on_id split_on_append)

lemma join_split_on: "join [c] (split_on c s) = s"
proof (induction s)
  case Nil
  show ?case by simp
next
  case (Cons x s)
  obtain w ws where s: "split_on c s = w # ws"
    by (meson split_on_nonempty neq_Nil_conv)
  show ?case
    using Cons.IH s by (cases ws) auto
qed

section \<open>Trimming\<close>

text \<open>\<^verbatim>\<open>strings.TrimRight(s, cutset)\<close> and \<^verbatim>\<open>strings.Trim(s, cutset)\<close> for a one-byte cutset.\<close>

definition trim_right_char :: "char \<Rightarrow> string \<Rightarrow> string" where
  "trim_right_char c s = rev (dropWhile (\<lambda>x. x = c) (rev s))"

definition trim_char :: "char \<Rightarrow> string \<Rightarrow> string" where
  "trim_char c s = trim_right_char c (dropWhile (\<lambda>x. x = c) s)"

abbreviation trim_right_slash :: "string \<Rightarrow> string" where
  "trim_right_slash s \<equiv> trim_right_char (CHR ''/'') s"

lemma trim_right_char_ends: "trim_right_char c s = [] \<or> last (trim_right_char c s) \<noteq> c"
  by (metis (mono_tags, lifting) hd_dropWhile last_rev rev_is_Nil_conv rev_rev_ident trim_right_char_def)

lemma trim_right_char_idem [simp]: "trim_right_char c (trim_right_char c s) = trim_right_char c s"
  by (simp add: trim_right_char_def dropWhile_idem)

lemma trim_right_char_snoc [simp]: "trim_right_char c (s @ [c]) = trim_right_char c s"
  by (simp add: trim_right_char_def)

lemma trim_right_char_append:
  "t \<noteq> [] \<Longrightarrow> last t \<noteq> c \<Longrightarrow> trim_right_char c (s @ t) = s @ t"
  by (cases t rule: rev_cases) (auto simp: trim_right_char_def)

lemma trim_right_char_id: "s = [] \<or> last s \<noteq> c \<Longrightarrow> trim_right_char c s = s"
  by (cases s rule: rev_cases) (auto simp: trim_right_char_def)

lemma trim_right_char_prefix: "prefix (trim_right_char c s) s"
  by (metis rev_rev_ident suffix_dropWhile suffix_to_prefix trim_right_char_def)

lemma trim_right_char_replicate: "\<exists>n. s = trim_right_char c s @ replicate n c"
proof (induction s rule: rev_induct)
  case Nil
  then show ?case by (simp add: trim_right_char_def)
next
  case (snoc x s)
  show ?case
  proof (cases "x = c")
    case True
    from snoc obtain n where "s = trim_right_char c s @ replicate n c" by blast
    then have "s @ [c] = trim_right_char c s @ replicate (Suc n) c"
      by (metis append_assoc replicate_Suc replicate_append_same)
    with True show ?thesis by (metis trim_right_char_snoc)
  next
    case False
    then have "trim_right_char c (s @ [x]) = s @ [x]"
      by (simp add: trim_right_char_def)
    then show ?thesis by (metis append_Nil2 replicate_0)
  qed
qed

text \<open>The UTF-8 encodings of the white space of \<^verbatim>\<open>unicode.IsSpace\<close>.\<close>

definition go_spaces :: "string list" where
  "go_spaces =
     [[CHR 0x20], [CHR 0x09], [CHR 0x0A], [CHR 0x0B], [CHR 0x0C], [CHR 0x0D],
      [CHR 0xC2, CHR 0x85], [CHR 0xC2, CHR 0xA0], [CHR 0xE1, CHR 0x9A, CHR 0x80],
      [CHR 0xE2, CHR 0x80, CHR 0x80], [CHR 0xE2, CHR 0x80, CHR 0x81], [CHR 0xE2, CHR 0x80, CHR 0x82],
      [CHR 0xE2, CHR 0x80, CHR 0x83], [CHR 0xE2, CHR 0x80, CHR 0x84], [CHR 0xE2, CHR 0x80, CHR 0x85],
      [CHR 0xE2, CHR 0x80, CHR 0x86], [CHR 0xE2, CHR 0x80, CHR 0x87], [CHR 0xE2, CHR 0x80, CHR 0x88],
      [CHR 0xE2, CHR 0x80, CHR 0x89], [CHR 0xE2, CHR 0x80, CHR 0x8A], [CHR 0xE2, CHR 0x80, CHR 0xA8],
      [CHR 0xE2, CHR 0x80, CHR 0xA9], [CHR 0xE2, CHR 0x80, CHR 0xAF], [CHR 0xE2, CHR 0x81, CHR 0x9F],
      [CHR 0xE3, CHR 0x80, CHR 0x80]]"

definition lead_space :: "string \<Rightarrow> string option" where
  "lead_space s = find (\<lambda>p. prefix p s) go_spaces"

definition trail_space :: "string \<Rightarrow> string option" where
  "trail_space s = find (\<lambda>p. suffix p s) go_spaces"

lemma go_spaces_nonempty: "p \<in> set go_spaces \<Longrightarrow> 0 < length p"
  by (auto simp: go_spaces_def)

lemma lead_spaceD: "lead_space s = Some p \<Longrightarrow> prefix p s \<and> 0 < length p"
  using go_spaces_nonempty by (auto simp: lead_space_def dest!: find_someD)

lemma trail_spaceD: "trail_space s = Some p \<Longrightarrow> suffix p s \<and> 0 < length p"
  using go_spaces_nonempty by (auto simp: trail_space_def dest!: find_someD)

lemma lead_space_prefix: "lead_space s = None \<Longrightarrow> prefix t s \<Longrightarrow> lead_space t = None"
  by (auto simp: lead_space_def find_None_iff prefix_def)

function trim_left_space :: "string \<Rightarrow> string" where
  "trim_left_space s = (case lead_space s of None \<Rightarrow> s | Some p \<Rightarrow> trim_left_space (drop (length p) s))"
  by pat_completeness auto
termination
  by (relation "measure length") (auto dest!: lead_spaceD simp: prefix_def)

function trim_right_space :: "string \<Rightarrow> string" where
  "trim_right_space s =
     (case trail_space s of None \<Rightarrow> s | Some p \<Rightarrow> trim_right_space (take (length s - length p) s))"
  by pat_completeness auto
termination
  by (relation "measure length") (auto dest!: trail_spaceD simp: suffix_def)

declare trim_left_space.simps [simp del] trim_right_space.simps [simp del]

definition trim_space :: "string \<Rightarrow> string" where
  "trim_space s = trim_right_space (trim_left_space s)"

lemma trim_left_space_done: "lead_space (trim_left_space s) = None"
  by (induction s rule: trim_left_space.induct) (subst trim_left_space.simps, auto split: option.splits)

lemma trim_right_space_done: "trail_space (trim_right_space s) = None"
  by (induction s rule: trim_right_space.induct) (subst trim_right_space.simps, auto split: option.splits)

lemma trim_left_space_id: "lead_space s = None \<Longrightarrow> trim_left_space s = s"
  by (subst trim_left_space.simps) simp

lemma trim_right_space_id: "trail_space s = None \<Longrightarrow> trim_right_space s = s"
  by (subst trim_right_space.simps) simp

lemma trim_right_space_prefix: "prefix (trim_right_space s) s"
proof (induction s rule: trim_right_space.induct)
  case (1 s)
  show ?case
    using 1 by (subst trim_right_space.simps)
      (auto split: option.splits intro: prefix_order.trans take_is_prefix)
qed

lemma trim_space_clean: "lead_space (trim_space s) = None \<and> trail_space (trim_space s) = None"
  using lead_space_prefix [OF trim_left_space_done trim_right_space_prefix]
  by (simp add: trim_space_def trim_right_space_done)

lemma trim_space_idem [simp]: "trim_space (trim_space s) = trim_space s"
  using trim_space_clean [of s] by (simp add: trim_space_def [of "trim_space s"] trim_left_space_id trim_right_space_id)

lemma trim_space_id: "lead_space s = None \<Longrightarrow> trail_space s = None \<Longrightarrow> trim_space s = s"
  by (simp add: trim_space_def trim_left_space_id trim_right_space_id)

text \<open>A string of printable ASCII characters is its own trimming.\<close>

definition graphic :: "char \<Rightarrow> bool" where
  "graphic c \<longleftrightarrow> 0x21 \<le> (of_char c :: nat) \<and> (of_char c :: nat) \<le> 0x7E"

lemma go_spaces_not_graphic: "p \<in> set go_spaces \<Longrightarrow> \<not> graphic (hd p) \<and> \<not> graphic (last p)"
  by (auto simp: go_spaces_def graphic_def)

lemma trim_space_graphic:
  assumes "s \<noteq> []" "graphic (hd s)" "graphic (last s)"
  shows "trim_space s = s"
proof (rule trim_space_id)
  have "\<not> prefix p s" if p: "p \<in> set go_spaces" for p
  proof
    assume "prefix p s"
    then have "hd p = hd s" using go_spaces_nonempty [OF p] by (auto simp: prefix_def)
    with go_spaces_not_graphic [OF p] assms show False by simp
  qed
  then show "lead_space s = None" by (auto simp: lead_space_def find_None_iff)
  have "\<not> suffix p s" if p: "p \<in> set go_spaces" for p
  proof
    assume "suffix p s"
    then have "last p = last s" using go_spaces_nonempty [OF p] by (auto simp: suffix_def)
    with go_spaces_not_graphic [OF p] assms show False by simp
  qed
  then show "trail_space s = None" by (auto simp: trail_space_def find_None_iff)
qed

lemma trim_space_Nil [simp]: "trim_space [] = []"
proof (rule trim_space_id)
  have "\<And>p. p \<in> set go_spaces \<Longrightarrow> p \<noteq> []" using go_spaces_nonempty by fastforce
  then show "lead_space [] = None" "trail_space [] = None"
    by (auto simp: lead_space_def trail_space_def find_None_iff)
qed

text \<open>\<^verbatim>\<open>strings.TrimRight(strings.TrimSpace(s), "/")\<close>, the form IRIs are compared in.\<close>

definition canon_iri :: "string \<Rightarrow> string" where
  "canon_iri s = trim_right_slash (trim_space s)"

lemma canon_iri_Nil [simp]: "canon_iri [] = []"
  by (simp add: canon_iri_def trim_right_char_def)

lemma canon_iri_no_slash: "canon_iri s = [] \<or> last (canon_iri s) \<noteq> CHR ''/''"
  unfolding canon_iri_def by (rule trim_right_char_ends)

lemma canon_iri_graphic:
  assumes "s \<noteq> []" "graphic (hd s)" "graphic (last s)" "last s \<noteq> CHR ''/''"
  shows "canon_iri s = s" "canon_iri (s @ ''/'') = s"
proof -
  show "canon_iri s = s"
    using assms by (simp add: canon_iri_def trim_space_graphic trim_right_char_id)
  have "trim_space (s @ ''/'') = s @ ''/''"
    by (rule trim_space_graphic) (use assms in \<open>auto simp: graphic_def\<close>)
  then show "canon_iri (s @ ''/'') = s"
    using assms by (simp add: canon_iri_def trim_right_char_id)
qed

text \<open>\<^verbatim>\<open>strings.Fields\<close>: the maximal runs of non-space, in order.\<close>

function go_fields_from :: "string \<Rightarrow> string \<Rightarrow> string list" where
  "go_fields_from w s =
     (case s of
        [] \<Rightarrow> (if w = [] then [] else [rev w])
      | c # s' \<Rightarrow>
         (case lead_space s of
            None \<Rightarrow> go_fields_from (c # w) s'
          | Some p \<Rightarrow> (if w = [] then [] else [rev w]) @ go_fields_from [] (drop (length p) s)))"
  by pat_completeness auto
termination
  by (relation "measure (\<lambda>(w, s). length s)") (auto dest!: lead_spaceD)

declare go_fields_from.simps [simp del]

definition go_fields :: "string \<Rightarrow> string list" where
  "go_fields s = go_fields_from [] s"

lemma go_fields_from_nonempty: "f \<in> set (go_fields_from w s) \<Longrightarrow> f \<noteq> []"
proof (induction w s rule: go_fields_from.induct)
  case (1 w s)
  then show ?case
    by (subst (asm) go_fields_from.simps) (auto split: list.splits option.splits if_splits)
qed

lemma go_fields_nonempty: "f \<in> set (go_fields s) \<Longrightarrow> f \<noteq> []"
  by (auto simp: go_fields_def dest: go_fields_from_nonempty)

section \<open>Case folding\<close>

definition lower_char :: "char \<Rightarrow> char" where
  "lower_char c = (if 65 \<le> (of_char c :: nat) \<and> (of_char c :: nat) \<le> 90 then char_of ((of_char c :: nat) + 32) else c)"

definition go_lower :: "string \<Rightarrow> string" where
  "go_lower s = map lower_char s"

definition equal_fold :: "string \<Rightarrow> string \<Rightarrow> bool" where
  "equal_fold a b \<longleftrightarrow> go_lower a = go_lower b"

definition upper_char :: "char \<Rightarrow> char" where
  "upper_char c = (if 97 \<le> (of_char c :: nat) \<and> (of_char c :: nat) \<le> 122 then char_of ((of_char c :: nat) - 32) else c)"

lemma lower_char_idem [simp]: "lower_char (lower_char c) = lower_char c"
  by (auto simp: lower_char_def of_char_of)

lemma go_lower_idem [simp]: "go_lower (go_lower s) = go_lower s"
  by (simp add: go_lower_def)

lemma go_lower_length [simp]: "length (go_lower s) = length s"
  by (simp add: go_lower_def)

lemma go_lower_eq_Nil [simp]: "go_lower s = [] \<longleftrightarrow> s = []"
  by (simp add: go_lower_def)

lemma go_lower_append: "go_lower (s @ t) = go_lower s @ go_lower t"
  by (simp add: go_lower_def)

lemma equal_fold_equiv:
  "equal_fold a a" "equal_fold a b \<Longrightarrow> equal_fold b a" "equal_fold a b \<Longrightarrow> equal_fold b c \<Longrightarrow> equal_fold a c"
  by (simp_all add: equal_fold_def)

lemma equal_fold_lower [simp]: "equal_fold (go_lower a) b = equal_fold a b"
  by (simp add: equal_fold_def)

section \<open>Decimal integers\<close>

text \<open>\<^verbatim>\<open>strconv.FormatInt(n, 10)\<close> and \<^verbatim>\<open>strconv.ParseInt(s, 10, 64)\<close>; \<^verbatim>\<open>Atoi\<close> is the latter.\<close>

fun nat_digits :: "nat \<Rightarrow> string" where
  "nat_digits n = (if n < 10 then [char_of (48 + n)] else nat_digits (n div 10) @ [char_of (48 + n mod 10)])"

declare nat_digits.simps [simp del]

definition itoa :: "int \<Rightarrow> string" where
  "itoa i = (if i < 0 then CHR ''-'' # nat_digits (nat (- i)) else nat_digits (nat i))"

definition is_digit :: "char \<Rightarrow> bool" where
  "is_digit c \<longleftrightarrow> 48 \<le> (of_char c :: nat) \<and> (of_char c :: nat) \<le> 57"

definition digits_value :: "string \<Rightarrow> nat" where
  "digits_value s = foldl (\<lambda>n c. 10 * n + (of_char c - 48)) 0 s"

definition parse_digits :: "string \<Rightarrow> nat option" where
  "parse_digits s = (if s \<noteq> [] \<and> list_all is_digit s then Some (digits_value s) else None)"

definition in_int64 :: "int \<Rightarrow> bool" where
  "in_int64 i \<longleftrightarrow> - (2 ^ 63) \<le> i \<and> i < 2 ^ 63"

definition parse_int64 :: "string \<Rightarrow> int option" where
  "parse_int64 s =
     (case (case s of
              c # r \<Rightarrow> if c = CHR ''-'' then map_option (\<lambda>n. - int n) (parse_digits r)
                       else if c = CHR ''+'' then map_option int (parse_digits r)
                       else map_option int (parse_digits s)
            | [] \<Rightarrow> None) of
        None \<Rightarrow> None
      | Some i \<Rightarrow> if in_int64 i then Some i else None)"

lemma nat_digits_nonempty: "nat_digits n \<noteq> []"
  by (subst nat_digits.simps) simp

lemma nat_digits_are_digits: "list_all is_digit (nat_digits n)"
proof (induction n rule: nat_digits.induct)
  case (1 n)
  have d: "is_digit (char_of (48 + k))" if "k < 10" for k :: nat
    using that by (simp add: is_digit_def of_char_of)
  show ?case
  proof (cases "n < 10")
    case True
    with d show ?thesis by (subst nat_digits.simps) simp
  next
    case False
    with 1 d [of "n mod 10"] show ?thesis by (subst nat_digits.simps) simp
  qed
qed

lemma digits_value_nat_digits: "digits_value (nat_digits n) = n"
proof (induction n rule: nat_digits.induct)
  case (1 n)
  show ?case
  proof (cases "n < 10")
    case True
    then show ?thesis by (subst nat_digits.simps) (simp add: digits_value_def of_char_of)
  next
    case False
    with 1 have "digits_value (nat_digits (n div 10)) = n div 10" by simp
    with False show ?thesis
      by (subst nat_digits.simps) (simp add: digits_value_def of_char_of)
  qed
qed

lemma parse_digits_nat_digits [simp]: "parse_digits (nat_digits n) = Some n"
  by (simp add: parse_digits_def nat_digits_nonempty nat_digits_are_digits digits_value_nat_digits)

lemma nat_digits_hd: "\<exists>c r. nat_digits n = c # r \<and> is_digit c"
  using nat_digits_nonempty [of n] nat_digits_are_digits [of n] by (cases "nat_digits n") auto

lemma parse_int64_itoa: "in_int64 i \<Longrightarrow> parse_int64 (itoa i) = Some i"
proof (cases "i < 0")
  case True
  assume "in_int64 i"
  with True show ?thesis by (simp add: itoa_def parse_int64_def)
next
  case False
  assume i: "in_int64 i"
  obtain c r where cr: "nat_digits (nat i) = c # r" "is_digit c"
    using nat_digits_hd by blast
  then have "c \<noteq> CHR ''-''" "c \<noteq> CHR ''+''" by (auto simp: is_digit_def)
  with cr have "parse_int64 (nat_digits (nat i)) = Some i"
    using False i parse_digits_nat_digits [of "nat i"] by (simp add: parse_int64_def)
  with False show ?thesis by (simp add: itoa_def)
qed

lemma parse_int64_bounds: "parse_int64 s = Some i \<Longrightarrow> in_int64 i"
  by (auto simp: parse_int64_def split: option.splits if_splits)

end
