(* ===== verification/GoJson.thy ===== *)
theory GoJson
  imports GoStrings
begin

text \<open>
  JSON values and the typed views that \<^verbatim>\<open>encoding/json\<close> gives of them.  \<^verbatim>\<open>json.RawMessage\<close> is a
  value; \<^verbatim>\<open>json.Unmarshal(raw, &x)\<close> into a Go type is one of the functions below, \<open>None\<close> being the
  returned error.  \<^verbatim>\<open>null\<close> unmarshals into every type without an error and leaves the zero value.
  An object keeps its members in order: into a Go map the last duplicate wins, into a struct the
  members are assigned in order and match a field's name without regard to case.
\<close>

datatype json =
    JNull
  | JBool bool
  | JNum string
  | JStr string
  | JArr "json list"
  | JObj "(string \<times> json) list"

type_synonym obj = "(string \<times> json) list"

definition obj_get :: "obj \<Rightarrow> string \<Rightarrow> json option" where
  "obj_get ob k = map_of (rev ob) k"

definition obj_set :: "obj \<Rightarrow> string \<Rightarrow> json \<Rightarrow> obj" where
  "obj_set ob k v = filter (\<lambda>m. fst m \<noteq> k) ob @ [(k, v)]"

text \<open>\<^verbatim>\<open>var s string\<close>, \<^verbatim>\<open>var m map[string]json.RawMessage\<close>, \<^verbatim>\<open>var arr []json.RawMessage\<close>.\<close>

fun um_string :: "json \<Rightarrow> string option" where
  "um_string (JStr s) = Some s"
| "um_string JNull = Some []"
| "um_string _ = None"

fun um_object :: "json \<Rightarrow> obj option" where
  "um_object (JObj ob) = Some ob"
| "um_object JNull = Some []"
| "um_object _ = None"

fun um_array :: "json \<Rightarrow> json list option" where
  "um_array (JArr xs) = Some xs"
| "um_array JNull = Some []"
| "um_array _ = None"

text \<open>\<^verbatim>\<open>var n int64\<close>: the literal must be an integer in range.\<close>

fun um_int64 :: "json \<Rightarrow> int option" where
  "um_int64 (JNum lit) = parse_int64 lit"
| "um_int64 JNull = Some 0"
| "um_int64 _ = None"

text \<open>
  A field of a struct: members whose name folds to the field's are assigned in order, \<^verbatim>\<open>null\<close>
  assigns nothing, and one member of another type makes the whole call return an error.
\<close>

fun struct_field :: "(json \<Rightarrow> 'a option) \<Rightarrow> string \<Rightarrow> 'a \<Rightarrow> obj \<Rightarrow> 'a option" where
  "struct_field view f x [] = Some x"
| "struct_field view f x ((k, v) # ob) =
     (if \<not> equal_fold k f \<or> v = JNull then struct_field view f x ob
      else case view v of None \<Rightarrow> None | Some y \<Rightarrow> struct_field view f y ob)"

text \<open>\<^verbatim>\<open>var obj struct{ F string `json:"f"` }\<close>.\<close>

definition um_struct_string :: "string \<Rightarrow> json \<Rightarrow> string option" where
  "um_struct_string f j =
     (case j of JObj ob \<Rightarrow> struct_field um_string f [] ob | JNull \<Rightarrow> Some [] | _ \<Rightarrow> None)"

definition um_struct_int64 :: "string \<Rightarrow> json \<Rightarrow> int option" where
  "um_struct_int64 f j =
     (case j of JObj ob \<Rightarrow> struct_field um_int64 f 0 ob | JNull \<Rightarrow> Some 0 | _ \<Rightarrow> None)"

text \<open>A member of type \<^verbatim>\<open>json.RawMessage\<close>, which accepts every value, \<^verbatim>\<open>null\<close> included.\<close>

definition um_struct_raw :: "string \<Rightarrow> json \<Rightarrow> json option option" where
  "um_struct_raw f j =
     (case j of
        JObj ob \<Rightarrow> Some (map_option snd (find (\<lambda>m. equal_fold (fst m) f) (rev ob)))
      | JNull \<Rightarrow> Some None
      | _ \<Rightarrow> None)"

text \<open>\<^verbatim>\<open>el.(string)\<close> on a decoded \<^verbatim>\<open>any\<close>.\<close>

fun as_string :: "json \<Rightarrow> string option" where
  "as_string (JStr s) = Some s"
| "as_string _ = None"

fun as_object :: "json \<Rightarrow> obj option" where
  "as_object (JObj ob) = Some ob"
| "as_object _ = None"

lemma obj_get_set [simp]: "obj_get (obj_set ob k v) k' = (if k' = k then Some v else obj_get ob k')"
proof -
  have "map_of (filter (\<lambda>m. fst m \<noteq> k) xs) k' = (if k' = k then None else map_of xs k')" for xs :: obj
    by (induction xs) auto
  then show ?thesis by (simp add: obj_get_def obj_set_def rev_filter)
qed

lemma obj_get_Nil [simp]: "obj_get [] k = None"
  by (simp add: obj_get_def)

lemma obj_get_Cons:
  "obj_get ((k', v) # ob) k = (case obj_get ob k of Some w \<Rightarrow> Some w | None \<Rightarrow> if k' = k then Some v else None)"
  by (auto simp: obj_get_def map_add_def split: option.splits)

lemma um_string_JStr: "um_string j = Some s \<Longrightarrow> s \<noteq> [] \<Longrightarrow> j = JStr s"
  by (cases j) auto

lemma um_struct_string_obj:
  "um_struct_string f j = Some s \<Longrightarrow> s \<noteq> [] \<Longrightarrow> \<exists>ob. j = JObj ob"
  by (cases j) (auto simp: um_struct_string_def)

fun_cases um_stringE: "um_string j = Some s"
fun_cases um_objectE: "um_object j = Some ob"
fun_cases um_arrayE: "um_array j = Some xs"

end
