(* ===== verification/As2.thy ===== *)
theory As2
  imports GoJson
begin

text \<open>
  \<^verbatim>\<open>internal/as2\<close>: reading Activity Streams 2.0 documents.  An activity is the decoded object
  (\<^verbatim>\<open>map[string]json.RawMessage\<close>); the functions extract the actor, the object and the type in
  the string, object and array shapes that JSON-LD allows.  The lemmas say which shapes yield which
  identifier, and that \<open>ObjectAttributedToMatches\<close> is membership in the list of authors.
\<close>

section \<open>Identifiers\<close>

text \<open>The two attempts that the readers share: a non-empty string, an object with a non-empty id.\<close>

definition string_ref :: "json \<Rightarrow> string option" where
  "string_ref raw = (case um_string raw of Some s \<Rightarrow> if s \<noteq> [] then Some s else None | None \<Rightarrow> None)"

definition id_ref :: "json \<Rightarrow> string option" where
  "id_ref raw = (case um_struct_string ''id'' raw of Some s \<Rightarrow> if s \<noteq> [] then Some s else None | None \<Rightarrow> None)"

definition string_or_id :: "json \<Rightarrow> string option" where
  "string_or_id raw = (case string_ref raw of Some s \<Rightarrow> Some s | None \<Rightarrow> id_ref raw)"

lemma string_or_id_nonempty: "string_or_id raw = Some s \<Longrightarrow> s \<noteq> []"
  by (auto simp: string_or_id_def string_ref_def id_ref_def split: option.splits if_splits)

lemma string_or_id_str [simp]: "string_or_id (JStr s) = (if s \<noteq> [] then Some s else None)"
  by (auto simp: string_or_id_def string_ref_def id_ref_def um_struct_string_def)

definition ActorIRIFromActivity :: "obj \<Rightarrow> err + string" where
  "ActorIRIFromActivity m =
     (case obj_get m ''actor'' of
        None \<Rightarrow> Inl (Msg ''missing actor'')
      | Some raw \<Rightarrow>
          (case string_or_id raw of
             Some s \<Rightarrow> Inr s
           | None \<Rightarrow> Inl (Msg ''actor must be an id string or an object with id'')))"

definition ObjectIRI :: "obj \<Rightarrow> err + string" where
  "ObjectIRI m =
     (case obj_get m ''object'' of
        None \<Rightarrow> Inl (Msg ''missing object'')
      | Some raw \<Rightarrow>
          (case string_or_id raw of
             Some s \<Rightarrow> Inr s
           | None \<Rightarrow> Inl (Msg ''object must be id string or object with id'')))"

definition UndoObjectTarget :: "obj \<Rightarrow> err + string" where
  "UndoObjectTarget m = ObjectIRI m"

definition LastPathSegment :: "string \<Rightarrow> string" where
  "LastPathSegment iri0 =
     (let iri = canon_iri iri0
      in case after_last (CHR ''#'') iri of
           Some t \<Rightarrow> t
         | None \<Rightarrow> (case after_last (CHR ''/'') iri of Some t \<Rightarrow> t | None \<Rightarrow> iri))"

lemma ObjectIRI_nonempty: "ObjectIRI m = Inr s \<Longrightarrow> s \<noteq> []"
  by (auto simp: ObjectIRI_def dest: string_or_id_nonempty split: option.splits)

lemma ActorIRI_nonempty: "ActorIRIFromActivity m = Inr s \<Longrightarrow> s \<noteq> []"
  by (auto simp: ActorIRIFromActivity_def dest: string_or_id_nonempty split: option.splits)

section \<open>Types\<close>

definition NormalizeActivityType :: "string \<Rightarrow> string" where
  "NormalizeActivityType t0 =
     (let t = trim_space t0
      in if t = [] then []
         else case after_last (CHR ''#'') t of Some u \<Rightarrow> u | None \<Rightarrow> t)"

text \<open>The first element of an array that is a non-empty string.\<close>

fun first_string :: "json list \<Rightarrow> string option" where
  "first_string [] = None"
| "first_string (el # arr) =
     (case as_string el of Some s \<Rightarrow> if s \<noteq> [] then Some s else first_string arr | None \<Rightarrow> first_string arr)"

definition PrimaryActivityType :: "obj \<Rightarrow> string" where
  "PrimaryActivityType m =
     (case obj_get m ''type'' of
        None \<Rightarrow> []
      | Some raw \<Rightarrow>
          (case string_ref raw of
             Some s \<Rightarrow> NormalizeActivityType s
           | None \<Rightarrow>
               (case um_array raw of
                  Some arr \<Rightarrow> (case first_string arr of Some s \<Rightarrow> NormalizeActivityType s | None \<Rightarrow> [])
                | None \<Rightarrow> [])))"

lemma NormalizeActivityType_no_hash: "CHR ''#'' \<notin> set (NormalizeActivityType t)"
  by (auto simp: NormalizeActivityType_def Let_def dest: after_last_no_sep split: option.splits)
     (auto simp: after_last_def split: if_splits)

lemma NormalizeActivityType_plain:
  "t \<noteq> [] \<Longrightarrow> graphic (hd t) \<Longrightarrow> graphic (last t) \<Longrightarrow> CHR ''#'' \<notin> set t \<Longrightarrow> NormalizeActivityType t = t"
  by (simp add: NormalizeActivityType_def trim_space_graphic after_last_def)

lemma NormalizeActivityType_fragment:
  assumes "t \<noteq> []" "graphic (last t)" "CHR ''#'' \<notin> set t" "p \<noteq> []" "graphic (hd p)"
  shows "NormalizeActivityType (p @ CHR ''#'' # t) = t"
proof -
  have "trim_space (p @ CHR ''#'' # t) = p @ CHR ''#'' # t"
    by (rule trim_space_graphic) (use assms in auto)
  then show ?thesis
    using after_last_append [OF assms(3), of p] by (simp add: NormalizeActivityType_def)
qed

section \<open>Objects\<close>

definition stringField :: "obj \<Rightarrow> string \<Rightarrow> err + string" where
  "stringField m key =
     (case obj_get m key of
        None \<Rightarrow> Inl (Msg (''missing '' @ key))
      | Some raw \<Rightarrow>
          (case string_ref raw of Some s \<Rightarrow> Inr s | None \<Rightarrow> Inl (Msg (''invalid '' @ key))))"

text \<open>The loop over an array-valued type: the first string that normalises to a non-empty name.\<close>

fun first_type :: "json list \<Rightarrow> string" where
  "first_type [] = []"
| "first_type (el # arr) =
     (case as_string el of
        Some s \<Rightarrow> if NormalizeActivityType s \<noteq> [] then NormalizeActivityType s else first_type arr
      | None \<Rightarrow> first_type arr)"

definition object_type :: "obj \<Rightarrow> string" where
  "object_type ob =
     (case obj_get ob ''type'' of
        None \<Rightarrow> []
      | Some t \<Rightarrow>
          (case um_string t of
             Some ts \<Rightarrow> NormalizeActivityType ts
           | None \<Rightarrow> (case um_array t of Some ta \<Rightarrow> first_type ta | None \<Rightarrow> [])))"

text \<open>
  The argument is the raw value, \<open>None\<close> for bytes that hold no JSON value (empty or malformed);
  the result is the id, the type, and the embedded object when there is one.
\<close>

definition ObjectFieldIDType :: "json option \<Rightarrow> err + (string \<times> string \<times> json option)" where
  "ObjectFieldIDType objectRaw =
     (case objectRaw of
        None \<Rightarrow> Inl (Msg ''empty object'')
      | Some raw \<Rightarrow>
          (case string_ref raw of
             Some s \<Rightarrow> Inr (s, [], None)
           | None \<Rightarrow>
               (case um_object raw of
                  None \<Rightarrow> Inl (Msg ''object: not an object'')
                | Some ob \<Rightarrow>
                    (case stringField ob ''id'' of
                       Inl e \<Rightarrow> Inl e
                     | Inr i \<Rightarrow> Inr (i, object_type ob, Some raw)))))"

definition TombstoneOrObjectID :: "json option \<Rightarrow> err + string" where
  "TombstoneOrObjectID objectRaw =
     (case ObjectFieldIDType objectRaw of Inl e \<Rightarrow> Inl e | Inr (i, _, _) \<Rightarrow> Inr i)"

lemma stringField_nonempty: "stringField m k = Inr s \<Longrightarrow> s \<noteq> []"
  by (auto simp: stringField_def string_ref_def split: option.splits if_splits)

lemma ObjectFieldIDType_id_nonempty: "ObjectFieldIDType r = Inr (i, t, raw) \<Longrightarrow> i \<noteq> []"
  by (auto simp: ObjectFieldIDType_def string_ref_def dest: stringField_nonempty
      split: option.splits if_splits sum.splits)

lemma ObjectFieldIDType_embedded:
  "ObjectFieldIDType r = Inr (i, t, Some raw) \<Longrightarrow>
   r = Some raw \<and> (\<exists>ob. raw = JObj ob \<and> stringField ob ''id'' = Inr i \<and> t = object_type ob)"
  by (cases raw)
     (auto simp: ObjectFieldIDType_def string_ref_def stringField_def split: option.splits if_splits sum.splits)

lemma ObjectFieldIDType_link:
  "ObjectFieldIDType r = Inr (i, t, None) \<Longrightarrow> r = Some (JStr i) \<and> t = []"
  by (auto simp: ObjectFieldIDType_def string_ref_def dest: um_string_JStr
      split: option.splits if_splits sum.splits)

section \<open>Authorship\<close>

fun refContainsActor :: "json \<Rightarrow> string \<Rightarrow> bool" where
  "refContainsActor (JStr s) actorIRI = (s \<noteq> [] \<and> canon_iri s = actorIRI)"
| "refContainsActor (JObj m) actorIRI =
     ((case stringField m ''id'' of Inl _ \<Rightarrow> canon_iri [] | Inr i \<Rightarrow> canon_iri i) = actorIRI)"
| "refContainsActor JNull actorIRI = (canon_iri [] = actorIRI)"
| "refContainsActor (JArr arr) actorIRI = list_ex (\<lambda>el. refContainsActor el actorIRI) arr"
| "refContainsActor _ actorIRI = False"

definition ObjectAttributedToMatches :: "json \<Rightarrow> string \<Rightarrow> bool" where
  "ObjectAttributedToMatches objectJSON actorIRI0 =
     (let actorIRI = canon_iri actorIRI0
      in if actorIRI = [] then False
         else case um_object objectJSON of
                None \<Rightarrow> False
              | Some ob \<Rightarrow>
                  (case obj_get ob ''attributedTo'' of
                     None \<Rightarrow> True
                   | Some raw \<Rightarrow> refContainsActor raw actorIRI))"

text \<open>The authors a document names, in every shape.\<close>

fun author_refs :: "json \<Rightarrow> string list" where
  "author_refs (JStr s) = (if s = [] then [] else [s])"
| "author_refs (JObj m) = (case stringField m ''id'' of Inl _ \<Rightarrow> [] | Inr i \<Rightarrow> [i])"
| "author_refs (JArr arr) = concat (map author_refs arr)"
| "author_refs _ = []"

lemma refContainsActor_iff:
  "a \<noteq> [] \<Longrightarrow> refContainsActor raw a \<longleftrightarrow> (\<exists>r \<in> set (author_refs raw). canon_iri r = a)"
  by (induction raw) (auto simp: list_ex_iff split: sum.splits)

section \<open>References of an addressing field\<close>

text \<open>
  \<^verbatim>\<open>flattenJSONLDRefs\<close> occurs twice in the source, in \<^verbatim>\<open>internal/inboxproc\<close> and in \<^verbatim>\<open>aphttp\<close>, with
  the same body, and so does the loop over the five addressing fields (\<^verbatim>\<open>audienceIRIs\<close>,
  \<^verbatim>\<open>audienceEntries\<close>).
\<close>

fun flattenJSONLDRefs :: "json \<Rightarrow> string list" where
  "flattenJSONLDRefs (JStr s) = (if s \<noteq> [] then [s] else [])"
| "flattenJSONLDRefs (JArr arr) = concat (map flattenJSONLDRefs arr)"
| "flattenJSONLDRefs raw = (case id_ref raw of Some i \<Rightarrow> [i] | None \<Rightarrow> [])"

text \<open>Trim, drop the empty references and the repeated ones; \<open>seen\<close> grows with the output.\<close>

fun add_refs :: "string list \<Rightarrow> string list \<Rightarrow> string list" where
  "add_refs out [] = out"
| "add_refs out (r # rs) =
     (let ref = trim_space r
      in add_refs (if ref = [] \<or> ref \<in> set out then out else out @ [ref]) rs)"

definition audience_keys :: "string list" where
  "audience_keys = [''to'', ''cc'', ''bto'', ''bcc'', ''audience'']"

definition audienceIRIs :: "obj \<Rightarrow> string list" where
  "audienceIRIs fs =
     foldl (\<lambda>out key. case obj_get fs key of None \<Rightarrow> out | Some raw \<Rightarrow> add_refs out (flattenJSONLDRefs raw))
       [] audience_keys"

definition audienceEntries :: "obj \<Rightarrow> string list" where
  "audienceEntries m =
     foldl (\<lambda>out key. case obj_get m key of None \<Rightarrow> out | Some raw \<Rightarrow> add_refs out (flattenJSONLDRefs raw))
       [] audience_keys"

lemma add_refs_distinct: "distinct out \<Longrightarrow> distinct (add_refs out rs)"
  by (induction out rs rule: add_refs.induct) (auto simp: Let_def)

lemma set_add_refs: "set (add_refs out rs) = set out \<union> {trim_space r |r. r \<in> set rs \<and> trim_space r \<noteq> []}"
  by (induction out rs rule: add_refs.induct) (auto simp: Let_def)

lemma audience_foldl:
  "set (foldl (\<lambda>out key. case obj_get m key of None \<Rightarrow> out | Some raw \<Rightarrow> add_refs out (flattenJSONLDRefs raw)) out ks) =
   set out \<union> {trim_space r |r k raw. k \<in> set ks \<and> obj_get m k = Some raw \<and> r \<in> set (flattenJSONLDRefs raw) \<and> trim_space r \<noteq> []}"
proof (induction ks arbitrary: out)
  case Nil
  show ?case by simp
next
  case (Cons k ks)
  show ?case
    by (cases "obj_get m k") (auto simp: Cons.IH set_add_refs)
qed

lemma audience_foldl_distinct:
  "distinct out \<Longrightarrow>
   distinct (foldl (\<lambda>out key. case obj_get m key of None \<Rightarrow> out | Some raw \<Rightarrow> add_refs out (flattenJSONLDRefs raw)) out ks)"
  by (induction ks arbitrary: out) (auto simp: add_refs_distinct split: option.splits)

end
