(* ===== verification/GoCrypto.thy ===== *)
theory GoCrypto
  imports GoStrings "HOL-Library.Word"
begin

text \<open>
  \<^verbatim>\<open>base64.StdEncoding\<close> and \<^verbatim>\<open>sha256.Sum256\<close>, on byte strings.  Decoding is that of Go: carriage
  returns and newlines are skipped, padding is required, bits left over in the last quantum are not
  checked.  The lemmas are the round trip of the encoding and the length of a digest.
\<close>

unbundle bit_operations_syntax

section \<open>Base64\<close>

definition b64_digit :: "nat \<Rightarrow> char" where
  "b64_digit n =
     (if n < 26 then char_of (65 + n) else if n < 52 then char_of (71 + n)
      else if n < 62 then char_of (n - 4) else if n = 62 then CHR ''+'' else CHR ''/'')"

definition b64_value :: "char \<Rightarrow> nat option" where
  "b64_value c = (let n = (of_char c :: nat) in
     if 65 \<le> n \<and> n \<le> 90 then Some (n - 65)
     else if 97 \<le> n \<and> n \<le> 122 then Some (n - 71)
     else if 48 \<le> n \<and> n \<le> 57 then Some (n + 4)
     else if n = 43 then Some 62
     else if n = 47 then Some 63
     else None)"

fun base64_encode :: "string \<Rightarrow> string" where
  "base64_encode [] = []"
| "base64_encode [a] =
     (let x = (of_char a :: nat) in [b64_digit (x div 4), b64_digit (x mod 4 * 16), CHR ''='', CHR ''=''])"
| "base64_encode [a, b] =
     (let x = (of_char a :: nat); y = (of_char b :: nat)
      in [b64_digit (x div 4), b64_digit (x mod 4 * 16 + y div 16), b64_digit (y mod 16 * 4), CHR ''=''])"
| "base64_encode (a # b # c # s) =
     (let x = (of_char a :: nat); y = (of_char b :: nat); z = (of_char c :: nat)
      in [b64_digit (x div 4), b64_digit (x mod 4 * 16 + y div 16),
          b64_digit (y mod 16 * 4 + z div 64), b64_digit (z mod 64)] @ base64_encode s)"

fun b64_quanta :: "string \<Rightarrow> string option" where
  "b64_quanta [] = Some []"
| "b64_quanta (p # q # r # t # s) =
     (case (b64_value p, b64_value q) of
        (Some x, Some y) \<Rightarrow>
          (if r = CHR ''='' then
             (if t = CHR ''='' \<and> s = [] then Some [char_of (x * 4 + y div 16)] else None)
           else case b64_value r of
             None \<Rightarrow> None
           | Some z \<Rightarrow>
               (if t = CHR ''='' then
                  (if s = [] then Some [char_of (x * 4 + y div 16), char_of (y mod 16 * 16 + z div 4)] else None)
                else case b64_value t of
                  None \<Rightarrow> None
                | Some w \<Rightarrow>
                    map_option (append [char_of (x * 4 + y div 16), char_of (y mod 16 * 16 + z div 4),
                                        char_of (z mod 4 * 64 + w)]) (b64_quanta s)))
      | _ \<Rightarrow> None)"
| "b64_quanta _ = None"

definition base64_decode :: "string \<Rightarrow> string option" where
  "base64_decode s = b64_quanta (filter (\<lambda>c. c \<noteq> CHR 0x0D \<and> c \<noteq> CHR 0x0A) s)"

lemma b64_value_digit [simp]: "n < 64 \<Longrightarrow> b64_value (b64_digit n) = Some n"
  by (auto simp: b64_value_def b64_digit_def of_char_of Let_def)

definition b64_char :: "char \<Rightarrow> bool" where
  "b64_char c \<longleftrightarrow> (\<exists>n<64. c = b64_digit n) \<or> c = CHR ''=''"

lemma b64_digit_cases: "n < 64 \<Longrightarrow> b64_digit n \<noteq> CHR ''='' \<and> b64_digit n \<noteq> CHR 0x0D \<and> b64_digit n \<noteq> CHR 0x0A"
  using b64_value_digit [of n] by (auto simp: b64_value_def simp del: b64_value_digit)

lemma of_char_less: "(of_char c :: nat) < 256"
  by (rule nat_of_char_less_256)

lemma div_less_64 [simp]:
  "(of_char c :: nat) div 4 < 64" "(of_char c :: nat) div 16 < 16" "(of_char c :: nat) div 64 < 4"
  by (rule less_mult_imp_div_less, use of_char_less [of c] in simp)+

lemma b64_part_high [simp]: "(of_char a :: nat) mod 4 * 16 + of_char b div 16 < 64"
proof -
  have "(of_char a :: nat) mod 4 < 4" by simp
  with div_less_64(2) [of b] show ?thesis by linarith
qed

lemma b64_part_mid [simp]: "(of_char b :: nat) mod 16 * 4 + of_char c div 64 < 64"
proof -
  have "(of_char b :: nat) mod 16 < 16" by simp
  with div_less_64(3) [of c] show ?thesis by linarith
qed

lemma b64_part_end [simp]: "(of_char a :: nat) mod 4 * 16 < 64" "(of_char b :: nat) mod 16 * 4 < 64"
proof -
  have "(of_char a :: nat) mod 4 < 4" "(of_char b :: nat) mod 16 < 16" by simp_all
  then show "(of_char a :: nat) mod 4 * 16 < 64" "(of_char b :: nat) mod 16 * 4 < 64" by linarith+
qed

lemma join_bits [simp]:
  "(x mod 4 * 16 + (of_char b :: nat) div 16) div 16 = x mod 4"
  "(x mod 4 * 16 + (of_char b :: nat) div 16) mod 16 = of_char b div 16"
  "(y mod 16 * 4 + (of_char c :: nat) div 64) div 4 = y mod 16"
  "(y mod 16 * 4 + (of_char c :: nat) div 64) mod 4 = of_char c div 64"
proof -
  have "z < 16 \<Longrightarrow> (x mod 4 * 16 + z) div 16 = x mod 4 \<and> (x mod 4 * 16 + z) mod 16 = z" for z by simp
  from this [OF div_less_64(2)] show
    "(x mod 4 * 16 + (of_char b :: nat) div 16) div 16 = x mod 4"
    "(x mod 4 * 16 + (of_char b :: nat) div 16) mod 16 = of_char b div 16" by blast+
  have "z < 4 \<Longrightarrow> (y mod 16 * 4 + z) div 4 = y mod 16 \<and> (y mod 16 * 4 + z) mod 4 = z" for z by simp
  from this [OF div_less_64(3)] show
    "(y mod 16 * 4 + (of_char c :: nat) div 64) div 4 = y mod 16"
    "(y mod 16 * 4 + (of_char c :: nat) div 64) mod 4 = of_char c div 64" by blast+
qed

lemma char_join [simp]: "(char_of ((of_char c :: nat) div 4 * 4 + of_char c mod 4) :: char) = c"
  "(char_of ((of_char c :: nat) div 16 * 16 + of_char c mod 16) :: char) = c"
  "(char_of ((of_char c :: nat) div 64 * 64 + of_char c mod 64) :: char) = c"
  by (simp_all only: div_mult_mod_eq char_of_char)

lemma b64_quanta_encode: "b64_quanta (base64_encode s) = Some s"
  by (induction s rule: base64_encode.induct) (simp_all add: Let_def b64_digit_cases)

lemma b64_char_digit [simp]: "b64_char (b64_digit n)" "b64_char (CHR ''='')"
proof -
  have "b64_digit n = b64_digit (min n 63)" by (auto simp: b64_digit_def min_def)
  then show "b64_char (b64_digit n)" unfolding b64_char_def by (intro disjI1 exI [of _ "min n 63"]) auto
qed (simp add: b64_char_def)

lemma base64_encode_chars: "x \<in> set (base64_encode s) \<Longrightarrow> b64_char x"
  by (induction s rule: base64_encode.induct) (auto simp: Let_def)

lemma b64_char_no_newline: "b64_char c \<Longrightarrow> c \<noteq> CHR 0x0D \<and> c \<noteq> CHR 0x0A"
  using b64_digit_cases by (auto simp: b64_char_def)

lemma base64_decode_encode [simp]: "base64_decode (base64_encode s) = Some s"
proof -
  have "filter (\<lambda>c. c \<noteq> CHR 0x0D \<and> c \<noteq> CHR 0x0A) (base64_encode s) = base64_encode s"
    by (rule filter_True) (use base64_encode_chars b64_char_no_newline in blast)
  then show ?thesis by (simp add: base64_decode_def b64_quanta_encode)
qed

lemma base64_encode_eq_Nil [simp]: "base64_encode s = [] \<longleftrightarrow> s = []"
  by (cases s rule: base64_encode.cases) (simp_all add: Let_def)

section \<open>SHA-256\<close>

definition sha256_k :: "32 word list" where
  "sha256_k = [
     1116352408, 1899447441, 3049323471, 3921009573, 961987163, 1508970993, 2453635748, 2870763221,
     3624381080, 310598401, 607225278, 1426881987, 1925078388, 2162078206, 2614888103, 3248222580,
     3835390401, 4022224774, 264347078, 604807628, 770255983, 1249150122, 1555081692, 1996064986,
     2554220882, 2821834349, 2952996808, 3210313671, 3336571891, 3584528711, 113926993, 338241895,
     666307205, 773529912, 1294757372, 1396182291, 1695183700, 1986661051, 2177026350, 2456956037,
     2730485921, 2820302411, 3259730800, 3345764771, 3516065817, 3600352804, 4094571909, 275423344,
     430227734, 506948616, 659060556, 883997877, 958139571, 1322822218, 1537002063, 1747873779,
     1955562222, 2024104815, 2227730452, 2361852424, 2428436474, 2756734187, 3204031479, 3329325298]"

definition sha256_init :: "32 word list" where
  "sha256_init = [
     1779033703, 3144134277, 1013904242, 2773480762, 1359893119, 2600822924, 528734635, 1541459225]"

definition be_bytes :: "nat \<Rightarrow> int \<Rightarrow> string" where
  "be_bytes k n = map (\<lambda>i. char_of (n div 256 ^ (k - 1 - i) mod 256)) [0..<k]"

definition sha256_pad :: "string \<Rightarrow> string" where
  "sha256_pad m = m @ [CHR 0x80] @ replicate ((119 - length m mod 64) mod 64) (CHR 0x00) @
     be_bytes 8 (8 * int (length m) mod 2 ^ 64)"

fun be_words :: "string \<Rightarrow> 32 word list" where
  "be_words (a # b # c # d # s) =
     word_of_int (((of_char a * 256 + of_char b) * 256 + of_char c) * 256 + of_char d) # be_words s"
| "be_words _ = []"

definition rotr :: "nat \<Rightarrow> 32 word \<Rightarrow> 32 word" where
  "rotr n x = drop_bit n x OR push_bit (32 - n) x"

text \<open>The message schedule, built backwards: the head is the newest word.\<close>

fun sha256_schedule :: "nat \<Rightarrow> 32 word list \<Rightarrow> 32 word list" where
  "sha256_schedule 0 ws = rev ws"
| "sha256_schedule (Suc n) ws =
     (let x = ws ! 14; y = ws ! 1;
          s0 = rotr 7 x XOR rotr 18 x XOR drop_bit 3 x;
          s1 = rotr 17 y XOR rotr 19 y XOR drop_bit 10 y
      in sha256_schedule n ((ws ! 15 + s0 + ws ! 6 + s1) # ws))"

fun sha256_round :: "32 word list \<Rightarrow> 32 word \<times> 32 word \<Rightarrow> 32 word list" where
  "sha256_round [a, b, c, d, e, f, g, h] (k, w) =
     (let S1 = rotr 6 e XOR rotr 11 e XOR rotr 25 e;
          ch = (e AND f) XOR (NOT e AND g);
          t1 = h + S1 + ch + k + w;
          S0 = rotr 2 a XOR rotr 13 a XOR rotr 22 a;
          maj = (a AND b) XOR (a AND c) XOR (b AND c)
      in [t1 + S0 + maj, a, b, c, d + t1, e, f, g])"
| "sha256_round hs _ = hs"

definition sha256_block :: "32 word list \<Rightarrow> 32 word list \<Rightarrow> 32 word list" where
  "sha256_block hs ws = map2 (+) hs (foldl sha256_round hs (zip sha256_k (sha256_schedule 48 (rev ws))))"

fun sha256_blocks :: "nat \<Rightarrow> 32 word list \<Rightarrow> 32 word list \<Rightarrow> 32 word list" where
  "sha256_blocks 0 hs ws = hs"
| "sha256_blocks (Suc n) hs ws = sha256_blocks n (sha256_block hs (take 16 ws)) (drop 16 ws)"

definition sha256 :: "string \<Rightarrow> string" where
  "sha256 m =
     (let p = sha256_pad m
      in concat (map (\<lambda>w. be_bytes 4 (uint w)) (sha256_blocks (length p div 64) sha256_init (be_words p))))"

lemma sha256_round_length: "length hs = 8 \<Longrightarrow> length (sha256_round hs kw) = 8"
  by (cases "(hs, kw)" rule: sha256_round.cases) (simp_all add: Let_def)

lemma sha256_block_length: "length hs = 8 \<Longrightarrow> length (sha256_block hs ws) = 8"
proof -
  have "length hs = 8 \<Longrightarrow> length (foldl sha256_round hs kws) = 8" for hs kws
    by (induction kws arbitrary: hs) (simp_all add: sha256_round_length)
  then show "length hs = 8 \<Longrightarrow> ?thesis" by (simp add: sha256_block_def)
qed

lemma sha256_blocks_length: "length hs = 8 \<Longrightarrow> length (sha256_blocks n hs ws) = 8"
  by (induction n arbitrary: hs ws) (simp_all add: sha256_block_length)

lemma concat_length_const: "(\<And>x. x \<in> set xs \<Longrightarrow> length (f x) = k) \<Longrightarrow> length (concat (map f xs)) = k * length xs"
  by (induction xs) auto

lemma sha256_length [simp]: "length (sha256 m) = 32"
  unfolding sha256_def Let_def
  by (subst concat_length_const [of _ _ 4]) (simp_all add: be_bytes_def sha256_blocks_length sha256_init_def)

lemma sha256_nonempty [simp]: "sha256 m \<noteq> []"
  using sha256_length [of m] by (cases "sha256 m") auto

end
