(* ===== verification/GoUrl.thy ===== *)
theory GoUrl
  imports GoStrings
begin

text \<open>
  The part of Go's \<^verbatim>\<open>net/url\<close> that the source relies on: percent escaping and unescaping in the
  modes it uses, \<^verbatim>\<open>url.Parse\<close>, \<^verbatim>\<open>(*URL).Hostname\<close>, \<^verbatim>\<open>EscapedPath\<close> and \<^verbatim>\<open>String\<close> (of a URL whose
  fragment is empty, which every caller ensures first).  The functions follow the branches of the
  library's own code; a parse error is \<open>None\<close>, since no caller looks at its text.
\<close>

section \<open>Escaping\<close>

datatype enc_mode = EncPath | EncPathSegment | EncHost | EncZone | EncUserPassword | EncQuery | EncFragment

definition is_alnum :: "char \<Rightarrow> bool" where
  "is_alnum c \<longleftrightarrow> (let n = (of_char c :: nat) in (48 \<le> n \<and> n \<le> 57) \<or> (65 \<le> n \<and> n \<le> 90) \<or> (97 \<le> n \<and> n \<le> 122))"

definition should_escape :: "enc_mode \<Rightarrow> char \<Rightarrow> bool" where
  "should_escape m c =
     (if is_alnum c then False
      else if (m = EncHost \<or> m = EncZone) \<and>
              c \<in> set [CHR ''!'', CHR ''$'', CHR ''&'', CHR 0x27, CHR ''('', CHR '')'', CHR ''*'', CHR ''+'',
                       CHR '','', CHR '';'', CHR ''='', CHR '':'', CHR ''['', CHR '']'', CHR ''<'', CHR ''>'', CHR 0x22]
      then False
      else if c \<in> set ''-_.~'' then False
      else if c \<in> set ''$&+,/:;=?@'' then
        (case m of
           EncPath \<Rightarrow> c = CHR ''?''
         | EncPathSegment \<Rightarrow> c \<in> set ''/;,?''
         | EncUserPassword \<Rightarrow> c \<in> set ''@/?:''
         | EncQuery \<Rightarrow> True
         | EncFragment \<Rightarrow> False
         | _ \<Rightarrow> True)
      else if m = EncFragment \<and> c \<in> set ''!()*'' then False
      else True)"

definition hex_digit :: "nat \<Rightarrow> char" where
  "hex_digit n = (if n < 10 then char_of (48 + n) else char_of (55 + n))"

definition unhex :: "char \<Rightarrow> nat option" where
  "unhex c = (let n = (of_char c :: nat) in
     if 48 \<le> n \<and> n \<le> 57 then Some (n - 48)
     else if 97 \<le> n \<and> n \<le> 102 then Some (n - 87)
     else if 65 \<le> n \<and> n \<le> 70 then Some (n - 55)
     else None)"

definition escape_char :: "enc_mode \<Rightarrow> char \<Rightarrow> string" where
  "escape_char m c =
     (if c = CHR '' '' \<and> m = EncQuery then ''+''
      else if should_escape m c
      then [CHR ''%'', hex_digit (of_char c div 16), hex_digit (of_char c mod 16)]
      else [c])"

definition url_escape :: "enc_mode \<Rightarrow> string \<Rightarrow> string" where
  "url_escape m s = concat (map (escape_char m) s)"

fun url_unescape :: "enc_mode \<Rightarrow> string \<Rightarrow> string option" where
  "url_unescape m [] = Some []"
| "url_unescape m (c # s) =
     (if c = CHR ''%'' then
        (case s of
           h # l # r \<Rightarrow>
             (case (unhex h, unhex l) of
                (Some a, Some b) \<Rightarrow>
                  (if m = EncHost \<and> a < 8 \<and> \<not> (h = CHR ''2'' \<and> l = CHR ''5'') then None
                   else if m = EncZone \<and> \<not> (h = CHR ''2'' \<and> l = CHR ''5'') \<and>
                           char_of (16 * a + b) \<noteq> CHR '' '' \<and> should_escape EncHost (char_of (16 * a + b)) then None
                   else map_option (Cons (char_of (16 * a + b))) (url_unescape m r))
              | _ \<Rightarrow> None)
         | _ \<Rightarrow> None)
      else if c = CHR ''+'' \<and> m = EncQuery then map_option (Cons (CHR '' '')) (url_unescape m s)
      else if (m = EncHost \<or> m = EncZone) \<and> (of_char c :: nat) < 128 \<and> should_escape m c then None
      else map_option (Cons c) (url_unescape m s))"

text \<open>\<^verbatim>\<open>url.PathEscape\<close> and \<^verbatim>\<open>url.PathUnescape\<close>.\<close>

definition path_escape :: "string \<Rightarrow> string" where
  "path_escape s = url_escape EncPathSegment s"

definition path_unescape :: "string \<Rightarrow> string option" where
  "path_unescape s = url_unescape EncPathSegment s"

lemma unhex_hex_digit [simp]: "n < 16 \<Longrightarrow> unhex (hex_digit n) = Some n"
  by (auto simp: unhex_def hex_digit_def of_char_of Let_def)

lemma char_of_hex [simp]: "(char_of (16 * ((of_char c :: nat) div 16) + of_char c mod 16) :: char) = c"
proof -
  have "16 * ((of_char c :: nat) div 16) + of_char c mod 16 = of_char c"
    by (rule mult_div_mod_eq)
  then show ?thesis by simp
qed

lemma of_char_div_less [simp]: "(of_char c :: nat) div 16 < 16"
  by (rule less_mult_imp_div_less) (use nat_of_char_less_256 [of c] in simp)

lemma url_unescape_plain:
  "m \<noteq> EncHost \<Longrightarrow> m \<noteq> EncZone \<Longrightarrow> m \<noteq> EncQuery \<Longrightarrow> CHR ''%'' \<notin> set s \<Longrightarrow> url_unescape m s = Some s"
  by (induction s) auto

lemma should_escape_percent [simp]: "should_escape m (CHR ''%'')"
  by (cases m) (simp_all add: should_escape_def is_alnum_def)

lemma url_unescape_escape_append:
  "m \<in> {EncPath, EncPathSegment, EncUserPassword, EncFragment} \<Longrightarrow>
   url_unescape m (url_escape m s @ t) = map_option (append s) (url_unescape m t)"
proof (induction s)
  case Nil
  then show ?case by (simp add: url_escape_def option.map_id0 option.map_ident)
next
  case (Cons c s)
  then have IH: "url_unescape m (concat (map (escape_char m) s) @ t) = map_option (append s) (url_unescape m t)"
    by (simp add: url_escape_def)
  have q: "m \<noteq> EncQuery" "m \<noteq> EncHost" "m \<noteq> EncZone" using Cons.prems by auto
  have c: "\<not> should_escape m c \<Longrightarrow> c \<noteq> CHR ''%''"
    using should_escape_percent by metis
  show ?case
    using IH q c
    by (cases "should_escape m c")
       (auto simp: url_escape_def escape_char_def option.map_comp o_def)
qed

lemma path_unescape_escape [simp]: "path_unescape (path_escape s) = Some s"
  using url_unescape_escape_append [of EncPathSegment s "[]"]
  by (simp add: path_unescape_def path_escape_def)

text \<open>A path and a segment differ in what is escaped only: both unescape alike.\<close>

lemma url_unescape_path_mode: "url_unescape EncPath s = url_unescape EncPathSegment s"
  by (induction s rule: length_induct) (case_tac xs, auto split: list.splits option.splits)

lemma url_unescape_path_escape: "url_unescape EncPath (path_escape s @ t) = map_option (append s) (url_unescape EncPath t)"
  using url_unescape_escape_append [of EncPathSegment s t]
  by (simp add: url_unescape_path_mode path_escape_def)

text \<open>Escaping a segment leaves no byte that separates parts of a URL.\<close>

lemma set_url_escape:
  "c \<in> set (url_escape m s) \<Longrightarrow> m \<noteq> EncQuery \<Longrightarrow>
   (c \<in> set s \<and> \<not> should_escape m c) \<or> c = CHR ''%'' \<or> (\<exists>n<16. c = hex_digit n)"
  by (fastforce simp: url_escape_def escape_char_def split: if_splits)

lemma hex_digit_alnum: "n < 16 \<Longrightarrow> is_alnum (hex_digit n)"
  by (auto simp: hex_digit_def is_alnum_def of_char_of Let_def)

lemma path_escape_bytes:
  "c \<in> set (path_escape s) \<Longrightarrow> is_alnum c \<or> c \<in> set ''-_.~$&+:=@%''"
proof -
  assume "c \<in> set (path_escape s)"
  then consider "\<not> should_escape EncPathSegment c" | "c = CHR ''%''" | n where "n < 16" "c = hex_digit n"
    unfolding path_escape_def using set_url_escape by blast
  then show ?thesis
  proof cases
    case 1
    then show ?thesis by (auto simp: should_escape_def split: if_splits)
  next
    case 2
    then show ?thesis by simp
  next
    case 3
    then show ?thesis using hex_digit_alnum by blast
  qed
qed

lemma path_escape_no_slash: "CHR ''/'' \<notin> set (path_escape s)"
  using path_escape_bytes [of "CHR ''/''" s] by (auto simp: is_alnum_def)

lemma path_escape_eq_Nil [simp]: "path_escape s = [] \<longleftrightarrow> s = []"
  by (cases s) (auto simp: path_escape_def url_escape_def escape_char_def)

lemma path_escape_inj: "path_escape s = path_escape t \<Longrightarrow> s = t"
  by (metis option.inject path_unescape_escape)

section \<open>URLs\<close>

record url =
  u_scheme :: string
  u_opaque :: string
  u_user :: "(string \<times> string option) option"
  u_host :: string
  u_path :: string
  u_rawpath :: string
  u_omithost :: bool
  u_forcequery :: bool
  u_rawquery :: string
  u_fragment :: string

definition empty_url :: url where
  "empty_url = \<lparr>u_scheme = [], u_opaque = [], u_user = None, u_host = [], u_path = [], u_rawpath = [],
     u_omithost = False, u_forcequery = False, u_rawquery = [], u_fragment = []\<rparr>"

definition has_ctl_byte :: "string \<Rightarrow> bool" where
  "has_ctl_byte s \<longleftrightarrow> list_ex (\<lambda>c. (of_char c :: nat) < 32 \<or> (of_char c :: nat) = 127) s"

text \<open>\<^verbatim>\<open>getScheme\<close>: \<open>None\<close> is the error "missing protocol scheme".\<close>

fun scheme_scan :: "string \<Rightarrow> string \<Rightarrow> string \<Rightarrow> (string \<times> string) option" where
  "scheme_scan raw pre [] = Some ([], raw)"
| "scheme_scan raw pre (c # r) =
     (let n = (of_char c :: nat) in
      if (97 \<le> n \<and> n \<le> 122) \<or> (65 \<le> n \<and> n \<le> 90) then scheme_scan raw (pre @ [c]) r
      else if (48 \<le> n \<and> n \<le> 57) \<or> c \<in> set ''+-.'' then
        (if pre = [] then Some ([], raw) else scheme_scan raw (pre @ [c]) r)
      else if c = CHR '':'' then (if pre = [] then None else Some (pre, r))
      else Some ([], raw))"

definition get_scheme :: "string \<Rightarrow> (string \<times> string) option" where
  "get_scheme raw = scheme_scan raw [] raw"

definition valid_optional_port :: "string \<Rightarrow> bool" where
  "valid_optional_port p = (case p of [] \<Rightarrow> True | c # r \<Rightarrow> c = CHR '':'' \<and> list_all is_digit r)"

text \<open>The position of the first \<^verbatim>\<open>%25\<close>, as the part before it.\<close>

fun before_zone :: "string \<Rightarrow> string option" where
  "before_zone [] = None"
| "before_zone (c # s) = (if prefix ''%25'' (c # s) then Some [] else map_option (Cons c) (before_zone s))"

definition parse_host :: "string \<Rightarrow> string option" where
  "parse_host host =
     (if has_prefix host ''['' then
        (if CHR '']'' \<notin> set host then None
         else let close = length (before_last (CHR '']'') host);
                  colon_port = drop (Suc close) host
              in if \<not> valid_optional_port colon_port then None
                 else case before_zone (take close host) of
                        Some z \<Rightarrow>
                          (case (url_unescape EncHost z, url_unescape EncZone (drop (length z) (take close host)),
                                 url_unescape EncHost (drop close host)) of
                             (Some a, Some b, Some c) \<Rightarrow> Some (a @ b @ c)
                           | _ \<Rightarrow> None)
                      | None \<Rightarrow> url_unescape EncHost host)
      else if CHR '':'' \<in> set host \<and> \<not> valid_optional_port (drop (length (before_last (CHR '':'') host)) host) then None
      else url_unescape EncHost host)"

definition valid_userinfo :: "string \<Rightarrow> bool" where
  "valid_userinfo s = list_all (\<lambda>c. is_alnum c \<or> c \<in> set ''-._:~!$&'' \<or> c = CHR 0x27 \<or> c \<in> set ''()*+,;=%@'') s"

definition parse_userinfo :: "string \<Rightarrow> (string \<times> string option) option" where
  "parse_userinfo ui =
     (if \<not> valid_userinfo ui then None
      else if \<not> cut_found (CHR '':'') ui then map_option (\<lambda>n. (n, None)) (url_unescape EncUserPassword ui)
      else (case (url_unescape EncUserPassword (cut_before (CHR '':'') ui),
                  url_unescape EncUserPassword (cut_after (CHR '':'') ui)) of
              (Some n, Some p) \<Rightarrow> Some (n, Some p)
            | _ \<Rightarrow> None))"

definition parse_authority :: "string \<Rightarrow> ((string \<times> string option) option \<times> string) option" where
  "parse_authority a =
     (case after_last (CHR ''@'') a of
        None \<Rightarrow> map_option (\<lambda>h. (None, h)) (parse_host a)
      | Some hp \<Rightarrow>
          (case parse_host hp of
             None \<Rightarrow> None
           | Some h \<Rightarrow> map_option (\<lambda>ui. (Some ui, h)) (parse_userinfo (before_last (CHR ''@'') a))))"

definition set_path :: "string \<Rightarrow> url \<Rightarrow> url option" where
  "set_path p u =
     (case url_unescape EncPath p of
        None \<Rightarrow> None
      | Some path \<Rightarrow> Some (u\<lparr>u_path := path, u_rawpath := (if p = url_escape EncPath path then [] else p)\<rparr>))"

text \<open>The query is split off the rest, then the authority, then the path.\<close>

definition cut_query :: "string \<Rightarrow> string \<times> bool \<times> string" where
  "cut_query rest =
     (if has_suffix rest ''?'' \<and> count_list rest (CHR ''?'') = 1 then (butlast rest, True, [])
      else (cut_before (CHR ''?'') rest, False, cut_after (CHR ''?'') rest))"

definition parse_rest :: "string \<Rightarrow> string \<Rightarrow> url \<Rightarrow> url option" where
  "parse_rest scheme rest u =
     (if \<not> has_prefix rest ''/'' \<and> scheme \<noteq> [] then Some (u\<lparr>u_opaque := rest\<rparr>)
      else if \<not> has_prefix rest ''/'' \<and> CHR '':'' \<in> set (cut_before (CHR ''/'') rest) then None
      else if (scheme \<noteq> [] \<or> \<not> has_prefix rest ''///'') \<and> has_prefix rest ''//'' then
        (let auth_path = drop 2 rest;
             auth = cut_before (CHR ''/'') auth_path;
             path = drop (length auth) auth_path
         in case parse_authority auth of
              None \<Rightarrow> None
            | Some (ui, h) \<Rightarrow> set_path path (u\<lparr>u_user := ui, u_host := h\<rparr>))
      else if scheme \<noteq> [] \<and> has_prefix rest ''/'' then set_path rest (u\<lparr>u_omithost := True\<rparr>)
      else set_path rest u)"

definition url_parse_no_fragment :: "string \<Rightarrow> url option" where
  "url_parse_no_fragment raw =
     (if has_ctl_byte raw then None
      else if raw = ''*'' then Some (empty_url\<lparr>u_path := ''*''\<rparr>)
      else case get_scheme raw of
             None \<Rightarrow> None
           | Some (sch, rest0) \<Rightarrow>
               (case cut_query rest0 of
                  (rest, force, q) \<Rightarrow>
                    parse_rest (go_lower sch) rest
                      (empty_url\<lparr>u_scheme := go_lower sch, u_forcequery := force, u_rawquery := q\<rparr>)))"

definition url_parse :: "string \<Rightarrow> url option" where
  "url_parse raw =
     (case url_parse_no_fragment (cut_before (CHR ''#'') raw) of
        None \<Rightarrow> None
      | Some u \<Rightarrow>
          (let frag = cut_after (CHR ''#'') raw
           in if frag = [] then Some u
              else case url_unescape EncFragment frag of
                     None \<Rightarrow> None
                   | Some f \<Rightarrow> Some (u\<lparr>u_fragment := f\<rparr>)))"

definition url_hostname :: "url \<Rightarrow> string" where
  "url_hostname u =
     (let hp = u_host u;
          port = drop (length (before_last (CHR '':'') hp)) hp;
          host = (if CHR '':'' \<in> set hp \<and> valid_optional_port port then before_last (CHR '':'') hp else hp)
      in if has_prefix host ''['' \<and> has_suffix host '']'' then butlast (tl host) else host)"

definition valid_encoded_path :: "string \<Rightarrow> bool" where
  "valid_encoded_path s =
     list_all (\<lambda>c. c \<in> set ''!$&()*+,;=:@[]%'' \<or> c = CHR 0x27 \<or> \<not> should_escape EncPath c) s"

definition url_escaped_path :: "url \<Rightarrow> string" where
  "url_escaped_path u =
     (if u_rawpath u \<noteq> [] \<and> valid_encoded_path (u_rawpath u) \<and> url_unescape EncPath (u_rawpath u) = Some (u_path u)
      then u_rawpath u
      else if u_path u = ''*'' then ''*''
      else url_escape EncPath (u_path u))"

definition userinfo_string :: "string \<times> string option \<Rightarrow> string" where
  "userinfo_string ui =
     (case ui of (n, p) \<Rightarrow>
        url_escape EncUserPassword n @ (case p of None \<Rightarrow> [] | Some w \<Rightarrow> CHR '':'' # url_escape EncUserPassword w))"

text \<open>\<^verbatim>\<open>u.String()\<close> with \<^verbatim>\<open>u.Fragment == ""\<close>.\<close>

definition url_string :: "url \<Rightarrow> string" where
  "url_string u =
     (let sch = (if u_scheme u \<noteq> [] then u_scheme u @ '':'' else []);
          auth = (if u_scheme u \<noteq> [] \<or> u_host u \<noteq> [] \<or> u_user u \<noteq> None
                  then if u_omithost u \<and> u_host u = [] \<and> u_user u = None then []
                       else (if u_host u \<noteq> [] \<or> u_path u \<noteq> [] \<or> u_user u \<noteq> None then ''//'' else []) @
                            (case u_user u of None \<Rightarrow> [] | Some ui \<Rightarrow> userinfo_string ui @ ''@'') @
                            url_escape EncHost (u_host u)
                  else []);
          path = url_escaped_path u;
          sep = (if path \<noteq> [] \<and> hd path \<noteq> CHR ''/'' \<and> u_host u \<noteq> [] then ''/'' else []);
          dot = (if sch @ auth @ sep = [] \<and> CHR '':'' \<in> set (cut_before (CHR ''/'') path) then ''./'' else []);
          body = (if u_opaque u \<noteq> [] then sch @ u_opaque u else sch @ auth @ sep @ dot @ path)
      in body @ (if u_forcequery u \<or> u_rawquery u \<noteq> [] then CHR ''?'' # u_rawquery u else []))"

section \<open>Absolute http(s) URLs\<close>

text \<open>
  The URLs the program builds and compares: a host of letters, digits, hyphens and dots, and a
  path that unescapes.  Parsing them is characterised once, and the component theories use that.
\<close>

definition plain_host :: "string \<Rightarrow> bool" where
  "plain_host h \<longleftrightarrow> h \<noteq> [] \<and> list_all (\<lambda>c. is_alnum c \<or> c = CHR ''-'' \<or> c = CHR ''.'') h"

definition plain_path :: "string \<Rightarrow> bool" where
  "plain_path p \<longleftrightarrow> (p = [] \<or> hd p = CHR ''/'') \<and>
     list_all (\<lambda>c. is_alnum c \<or> c \<in> set ''-_.~$&+:=@%/'') p"

definition http_url :: "string \<Rightarrow> string \<Rightarrow> string \<Rightarrow> string" where
  "http_url s h p = s @ ''://'' @ h @ p"

lemma is_alnum_not:
  "is_alnum c \<Longrightarrow> c \<noteq> CHR ''/'' \<and> c \<noteq> CHR '':'' \<and> c \<noteq> CHR ''@'' \<and> c \<noteq> CHR ''#'' \<and> c \<noteq> CHR ''?'' \<and>
     c \<noteq> CHR ''%'' \<and> c \<noteq> CHR ''['' \<and> c \<noteq> CHR '']'' \<and> c \<noteq> CHR ''+'' \<and> c \<noteq> CHR ''.'' \<and> c \<noteq> CHR ''-''"
  by (auto simp: is_alnum_def)

lemma is_alnum_not_ctl: "is_alnum c \<Longrightarrow> \<not> (of_char c :: nat) < 32 \<and> (of_char c :: nat) \<noteq> 127"
  by (auto simp: is_alnum_def Let_def)

lemma plain_hostD:
  assumes "plain_host h" "c \<in> set h"
  shows "c \<noteq> CHR ''/'' \<and> c \<noteq> CHR '':'' \<and> c \<noteq> CHR ''@'' \<and> c \<noteq> CHR ''#'' \<and> c \<noteq> CHR ''?'' \<and> c \<noteq> CHR ''%'' \<and>
     c \<noteq> CHR ''['' \<and> \<not> (of_char c :: nat) < 32 \<and> (of_char c :: nat) \<noteq> 127"
proof -
  have "is_alnum c \<or> c = CHR ''-'' \<or> c = CHR ''.''"
    using assms by (auto simp: plain_host_def list_all_iff)
  then show ?thesis
    by (elim disjE) (use is_alnum_not [of c] is_alnum_not_ctl [of c] in blast, simp_all)
qed

lemma plain_pathD:
  assumes "plain_path p" "c \<in> set p"
  shows "c \<noteq> CHR ''#'' \<and> c \<noteq> CHR ''?'' \<and> \<not> (of_char c :: nat) < 32 \<and> (of_char c :: nat) \<noteq> 127"
proof -
  have "is_alnum c \<or> c \<in> set ''-_.~$&+:=@%/''"
    using assms by (auto simp: plain_path_def list_all_iff)
  then show ?thesis
  proof
    assume "is_alnum c"
    then show ?thesis using is_alnum_not [of c] is_alnum_not_ctl [of c] by blast
  qed auto
qed

lemma unescape_plain_host: "plain_host h \<Longrightarrow> url_unescape EncHost h = Some h"
proof -
  assume h: "plain_host h"
  have "c \<noteq> CHR ''%'' \<and> c \<noteq> CHR ''+'' \<and> \<not> should_escape EncHost c" if "c \<in> set h" for c
  proof -
    have "is_alnum c \<or> c = CHR ''-'' \<or> c = CHR ''.''"
      using that h by (auto simp: plain_host_def list_all_iff)
    then show ?thesis
      by (elim disjE) (use is_alnum_not [of c] should_escape_def [of EncHost c] in presburger,
        simp_all add: should_escape_def)
  qed
  then have "\<forall>c \<in> set h. c \<noteq> CHR ''%'' \<and> c \<noteq> CHR ''+'' \<and> \<not> should_escape EncHost c" by blast
  then show ?thesis by (induction h) auto
qed

lemma parse_host_plain: "plain_host h \<Longrightarrow> parse_host h = Some h"
proof -
  assume h: "plain_host h"
  then obtain c r where "h = c # r" by (auto simp: plain_host_def neq_Nil_conv)
  with plain_hostD [OF h] have "\<not> has_prefix h ''[''" by auto
  moreover have "CHR '':'' \<notin> set h" using plain_hostD [OF h] by blast
  ultimately show ?thesis by (simp add: parse_host_def unescape_plain_host [OF h])
qed

lemma parse_authority_plain: "plain_host h \<Longrightarrow> parse_authority h = Some (None, h)"
  using plain_hostD [of h "CHR ''@''"] by (auto simp: parse_authority_def after_last_def parse_host_plain)

lemma get_scheme_http:
  "s \<in> {''https'', ''http''} \<Longrightarrow> get_scheme (s @ CHR '':'' # r) = Some (s, r)"
  by (auto simp: get_scheme_def)

lemma url_parse_http:
  assumes s: "s \<in> {''https'', ''http''}" and h: "plain_host h" and p: "plain_path p"
    and unesc: "url_unescape EncPath p = Some path"
  shows "url_parse (http_url s h p) =
    Some (empty_url\<lparr>u_scheme := s, u_host := h, u_path := path,
                    u_rawpath := (if p = url_escape EncPath path then [] else p)\<rparr>)"
proof -
  let ?rest = "CHR ''/'' # CHR ''/'' # h @ p"
  have raw: "http_url s h p = s @ CHR '':'' # ?rest" by (simp add: http_url_def)
  have no: "CHR ''#'' \<notin> set (http_url s h p)" "CHR ''?'' \<notin> set ?rest"
    using s plain_hostD [OF h] plain_pathD [OF p] by (auto simp: http_url_def)
  have ctl: "\<not> has_ctl_byte (http_url s h p)"
  proof -
    have "\<forall>c \<in> set s \<union> set ''://'' \<union> set h \<union> set p. \<not> ((of_char c :: nat) < 32 \<or> (of_char c :: nat) = 127)"
      using s plain_hostD [OF h] plain_pathD [OF p] by fastforce
    then show ?thesis unfolding http_url_def has_ctl_byte_def list_ex_iff by (simp add: ball_Un)
  qed
  have star: "http_url s h p \<noteq> ''*''" using s by (auto simp: http_url_def)
  have lower: "go_lower s = s" using s by (auto simp: go_lower_def lower_char_def)
  have q: "cut_query ?rest = (?rest, False, [])"
    using no(2) by (simp add: cut_query_def cut_before_def cut_after_def takeWhile_no_sep
      dropWhile_no_sep count_notin)
  have slash: "CHR ''/'' \<notin> set h" using plain_hostD [OF h] by blast
  have auth: "cut_before (CHR ''/'') (h @ p) = h"
    using p slash by (cases p) (auto simp: plain_path_def cut_before_def takeWhile_no_sep takeWhile_sep)
  have "url_parse_no_fragment (http_url s h p) =
      set_path p (empty_url\<lparr>u_scheme := s, u_host := h\<rparr>)"
    using s ctl star
    by (simp add: url_parse_no_fragment_def raw get_scheme_http [OF s] lower q)
       (auto simp: parse_rest_def auth parse_authority_plain [OF h] empty_url_def Let_def)
  then show ?thesis
    using no(1) by (simp add: url_parse_def cut_not_found cut_found_def set_path_def unesc Let_def)
qed

lemma url_hostname_plain: "plain_host (u_host u) \<Longrightarrow> url_hostname u = u_host u"
proof -
  assume h: "plain_host (u_host u)"
  then obtain c r where "u_host u = c # r" by (auto simp: plain_host_def neq_Nil_conv)
  with plain_hostD [OF h] have "\<not> has_prefix (u_host u) ''[''" by auto
  moreover have "CHR '':'' \<notin> set (u_host u)" using plain_hostD [OF h] by blast
  ultimately show ?thesis by (simp add: url_hostname_def Let_def)
qed

lemma plain_path_escape: "plain_path (CHR ''/'' # CHR ''@'' # path_escape u)"
proof -
  have "is_alnum c \<or> c \<in> set ''-_.~$&+:=@%/''" if "c \<in> set (path_escape u)" for c
    using path_escape_bytes [OF that] by (elim disjE) auto
  then show ?thesis unfolding plain_path_def list_all_iff by simp
qed

end
