(* ===== verification/HttpSig.thy ===== *)
theory HttpSig
  imports GoCrypto GoUrl
begin

text \<open>
  \<^verbatim>\<open>internal/httpsig\<close>: the \<^verbatim>\<open>Digest\<close> header, the parser of the \<^verbatim>\<open>Signature\<close> header, the signing
  string, the verification of an inbound request and the signing of an outbound one.

  RSA (\<^verbatim>\<open>crypto/rsa\<close>), the clock and the HTTP date format (\<^verbatim>\<open>http.ParseTime\<close>, \<^verbatim>\<open>http.TimeFormat\<close>)
  are the fields of \<open>sigenv\<close>.  \<open>sigenv_ok\<close> is what the code relies on: a signature made with a
  private key verifies under its public key, and a formatted time parses to the same second.

  The lemmas show that a digest made here verifies and binds the body, that the parser reads back
  what the signer prints, what an accepted request guarantees, that a signed request is accepted
  by the receiver, and which part of a request a signature does not protect.
\<close>

section \<open>Requests\<close>

type_synonym header = "string \<Rightarrow> string list"

definition token_char :: "char \<Rightarrow> bool" where
  "token_char c \<longleftrightarrow> is_alnum c \<or> c \<in> set ''!#$%&*+-.^_`|~'' \<or> c = CHR 0x27"

fun canonical_from :: "bool \<Rightarrow> string \<Rightarrow> string" where
  "canonical_from up [] = []"
| "canonical_from up (c # s) = (if up then upper_char c else lower_char c) # canonical_from (c = CHR ''-'') s"

text \<open>\<^verbatim>\<open>http.CanonicalHeaderKey\<close>: a key with a byte that is no token character stays as it is.\<close>

definition CanonicalHeaderKey :: "string \<Rightarrow> string" where
  "CanonicalHeaderKey k = (if list_all token_char k then canonical_from True k else k)"

definition header_values :: "header \<Rightarrow> string \<Rightarrow> string list" where
  "header_values h k = h (CanonicalHeaderKey k)"

definition header_get :: "header \<Rightarrow> string \<Rightarrow> string" where
  "header_get h k = (case header_values h k of [] \<Rightarrow> [] | v # _ \<Rightarrow> v)"

definition header_set :: "header \<Rightarrow> string \<Rightarrow> string \<Rightarrow> header" where
  "header_set h k v = h(CanonicalHeaderKey k := [v])"

record request =
  r_method :: string
  r_url :: url
  r_host :: string
  r_header :: header

text \<open>\<^verbatim>\<open>req.Header.Get\<close> and \<^verbatim>\<open>req.Header.Set\<close>.\<close>

abbreviation req_get :: "request \<Rightarrow> string \<Rightarrow> string" where
  "req_get r k \<equiv> header_get (r_header r) k"

definition req_set :: "request \<Rightarrow> string \<Rightarrow> string \<Rightarrow> request" where
  "req_set r k v = r\<lparr>r_header := header_set (r_header r) k v\<rparr>"

record ('pub, 'priv) sigenv =
  rsa_sign :: "'priv \<Rightarrow> string \<Rightarrow> string option"
  rsa_verify :: "'pub \<Rightarrow> string \<Rightarrow> string \<Rightarrow> bool"
  parse_time :: "string \<Rightarrow> int option"
  format_time :: "int \<Rightarrow> string"
  now :: int

section \<open>Digest\<close>

definition digestPrefix :: string where
  "digestPrefix = ''SHA-256=''"

definition DigestHeader :: "string \<Rightarrow> string" where
  "DigestHeader body = digestPrefix @ base64_encode (sha256 body)"

definition byte_diff :: "string \<Rightarrow> string \<Rightarrow> nat" where
  "byte_diff want got = foldl (\<lambda>d p. d OR (of_char (fst p) XOR of_char (snd p))) 0 (zip want got)"

definition VerifyDigest :: "string \<Rightarrow> string \<Rightarrow> err + unit" where
  "VerifyDigest digestHeader0 body =
     (let digestHeader = trim_space digestHeader0
      in if digestHeader = [] then Inl (Msg ''missing Digest header'')
         else if \<not> has_prefix digestHeader digestPrefix then Inl (Msg ''Digest must use SHA-256'')
         else case base64_decode (trim_prefix digestHeader digestPrefix) of
                None \<Rightarrow> Inl (Wrapped ''digest base64'' (Msg ''illegal base64 data''))
              | Some got \<Rightarrow>
                  (let want = sha256 body
                   in if length got \<noteq> length want then Inl (Msg ''digest length mismatch'')
                      else if byte_diff want got \<noteq> 0 then Inl (Msg ''digest does not match request body'')
                      else Inr ()))"

section \<open>The Signature header\<close>

text \<open>The value after an opening quote: the bytes up to the closing one, and what follows it.\<close>

function quoted_value :: "string \<Rightarrow> string \<Rightarrow> (string \<times> string) option" where
  "quoted_value acc [] = None"
| "quoted_value acc (c # s) =
     (if c = CHR 0x5C \<and> s \<noteq> [] then quoted_value (acc @ [hd s]) (tl s)
      else if c = CHR 0x22 then Some (acc, s)
      else quoted_value (acc @ [c]) s)"
  by pat_completeness auto
termination by (relation "measure (\<lambda>(acc, s). length s)") auto

lemma quoted_value_length: "quoted_value acc s = Some (v, r) \<Longrightarrow> length r < length s"
proof (induction acc s rule: quoted_value.induct)
  case (2 acc c s)
  show ?case
  proof (cases "c = CHR 0x5C \<and> s \<noteq> []")
    case True
    with 2(1,3) have "length r < length (tl s)" by simp
    then show ?thesis by simp
  next
    case False
    with 2(2,3) show ?thesis by (auto split: if_splits)
  qed
qed simp

definition sig_sep :: "char \<Rightarrow> bool" where
  "sig_sep c \<longleftrightarrow> c = CHR '' '' \<or> c = CHR '','' \<or> c = CHR 0x09"

text \<open>
  The loop over the parameters; the map is the list of the assignments in the order they are made,
  so the last one of a key counts.
\<close>

function parse_params :: "string \<Rightarrow> err + (string \<times> string) list" where
  "parse_params raw =
     (let s = dropWhile sig_sep raw
      in if s = [] then Inr []
         else if \<not> cut_found (CHR ''='') s then Inl (Msg ''signature param: expected ='')
         else let key = go_lower (trim_space (cut_before (CHR ''='') s)); v = cut_after (CHR ''='') s
              in if v = [] then Inl (Msg ''signature param: missing value'')
                 else if hd v = CHR 0x22
                 then (case quoted_value [] (tl v) of
                         None \<Rightarrow> Inl (Msg ''unclosed quote in signature header'')
                       | Some (val, rest) \<Rightarrow> bind_res (parse_params rest) (\<lambda>ps. Inr ((key, val) # ps)))
                 else bind_res (parse_params (dropWhile (\<lambda>c. c \<noteq> CHR '','') v))
                        (\<lambda>ps. Inr ((key, trim_space (takeWhile (\<lambda>c. c \<noteq> CHR '','') v)) # ps)))"
  by pat_completeness auto

lemma cut_after_length: "cut_found c s \<Longrightarrow> length (cut_after c s) < length s"
  using cut_rejoin [of c s] by (metis add_Suc_right length_Cons length_append less_add_Suc2)

termination parse_params
proof (relation "measure length", goal_cases)
  case 1
  then show ?case by simp
next
  case (2 raw s key v x val rest)
  have "length rest < length (tl v)" using 2(8,9) quoted_value_length [of "[]" "tl v" val rest] by simp
  also have "\<dots> \<le> length v" by simp
  also have "\<dots> < length s" using 2(3,5) cut_after_length by simp
  also have "\<dots> \<le> length raw" using 2(1) by (simp add: length_dropWhile_le)
  finally show ?case by simp
next
  case (3 raw s key v)
  have "length (dropWhile (\<lambda>c. c \<noteq> CHR '','') v) \<le> length v" by (rule length_dropWhile_le)
  also have "\<dots> < length s" using 3(3,5) cut_after_length by simp
  also have "\<dots> \<le> length raw" using 3(1) by (simp add: length_dropWhile_le)
  finally show ?case by simp
qed

declare parse_params.simps [simp del]

definition ParseSignatureHeader :: "string \<Rightarrow> err + (string \<times> string) list" where
  "ParseSignatureHeader raw =
     (case parse_params (trim_space raw) of
        Inl e \<Rightarrow> Inl e
      | Inr ps \<Rightarrow> if ps = [] then Inl (Msg ''empty signature header'') else Inr ps)"

definition param :: "(string \<times> string) list \<Rightarrow> string \<Rightarrow> string" where
  "param ps k = (case map_of (rev ps) k of None \<Rightarrow> [] | Some v \<Rightarrow> v)"

section \<open>The signing string\<close>

definition request_target :: "request \<Rightarrow> string" where
  "request_target r =
     (let path0 = url_escaped_path (r_url r);
          path = (if path0 = [] then ''/'' else path0)
      in go_lower (r_method r) @ '' '' @
         (if u_rawquery (r_url r) \<noteq> [] then path @ ''?'' @ u_rawquery (r_url r) else path))"

definition signing_line :: "request \<Rightarrow> string \<Rightarrow> err + string" where
  "signing_line r name =
     (let lower = go_lower (trim_space name)
      in if lower = ''(request-target)'' then Inr (''(request-target): '' @ request_target r)
         else let vals0 = header_values (r_header r) lower;
                  vals = (if vals0 = [] \<and> lower = ''host'' \<and> r_host r \<noteq> [] then [r_host r] else vals0)
              in if vals = [] then Inl (Msg ''missing signed header'')
                 else Inr (lower @ '': '' @ join '', '' vals))"

fun signing_lines :: "request \<Rightarrow> string list \<Rightarrow> err + string list" where
  "signing_lines r [] = Inr []"
| "signing_lines r (n # ns) =
     (case signing_line r n of
        Inl e \<Rightarrow> Inl e
      | Inr l \<Rightarrow> bind_res (signing_lines r ns) (\<lambda>ls. Inr (l # ls)))"

definition BuildSigningString :: "request \<Rightarrow> string list \<Rightarrow> err + string" where
  "BuildSigningString r headerNames = bind_res (signing_lines r headerNames) (\<lambda>ls. Inr (join [CHR 0x0A] ls))"

section \<open>Verification\<close>

definition maxClockSkew :: int where
  "maxClockSkew = 300 * 10 ^ 9"

text \<open>\<^verbatim>\<open>time.Since\<close> is a duration of 64 bits and saturates.\<close>

definition duration_between :: "int \<Rightarrow> int \<Rightarrow> int" where
  "duration_between t' t = max (- (2 ^ 63)) (min (2 ^ 63 - 1) (t' - t))"

definition verifyDateHeader :: "('pub, 'priv) sigenv \<Rightarrow> string \<Rightarrow> err + unit" where
  "verifyDateHeader env date0 =
     (let date = trim_space date0
      in if date = [] then Inl (Msg ''missing Date header (required with HTTP Signatures)'')
         else case parse_time env date of
                None \<Rightarrow> Inl (Wrapped ''Date header'' (Msg ''parse''))
              | Some t \<Rightarrow>
                  (let d = duration_between (now env) t
                   in if d > maxClockSkew \<or> d < - maxClockSkew then Inl (Msg ''Date outside allowed skew'')
                      else Inr ()))"

text \<open>
  \<^verbatim>\<open>VerifyRequest\<close> and \<^verbatim>\<open>VerifyGet\<close> share the steps from the \<^verbatim>\<open>Signature\<close> header on; they differ in
  the check between the header list and the signing string.
\<close>

definition verify_signature :: "('pub, 'priv) sigenv \<Rightarrow> (string list \<Rightarrow> err + unit) \<Rightarrow> request \<Rightarrow> 'pub \<Rightarrow> err + unit" where
  "verify_signature env check_list r pub =
     (let sigRaw = req_get r ''Signature''
      in if sigRaw = [] then Inl (Msg ''missing Signature header'')
         else bind_res (wrap_err ''signature header'' (ParseSignatureHeader sigRaw)) (\<lambda>params.
           let alg = param params ''algorithm''
           in if alg \<noteq> ''rsa-sha256'' \<and> alg \<noteq> ''hs2019'' then Inl (Msg ''unsupported signature algorithm'')
              else let sigB64 = param params ''signature''
                   in if sigB64 = [] then Inl (Msg ''missing signature value'')
                      else let headerList = go_fields (param params ''headers'')
                           in if headerList = [] then Inl (Msg ''missing headers list in signature'')
                              else bind_res (check_list headerList) (\<lambda>_.
                                   bind_res (BuildSigningString r headerList) (\<lambda>signingString.
                                   case base64_decode sigB64 of
                                     None \<Rightarrow> Inl (Wrapped ''signature base64'' (Msg ''illegal base64 data''))
                                   | Some sig \<Rightarrow>
                                       if \<not> rsa_verify env pub (sha256 signingString) sig
                                       then Inl (Wrapped ''signature verify'' (Msg ''verification error''))
                                       else verifyDateHeader env (req_get r ''Date'')))))"

definition VerifyRequest :: "('pub, 'priv) sigenv \<Rightarrow> request \<Rightarrow> string \<Rightarrow> 'pub \<Rightarrow> err + unit" where
  "VerifyRequest env r body pub =
     bind_res (VerifyDigest (req_get r ''Digest'') body) (\<lambda>_. verify_signature env (\<lambda>_. Inr ()) r pub)"

definition VerifyGet :: "('pub, 'priv) sigenv \<Rightarrow> request \<Rightarrow> 'pub \<Rightarrow> err + unit" where
  "VerifyGet env r pub =
     verify_signature env
       (\<lambda>hs. if list_ex (\<lambda>h. equal_fold (trim_space h) ''digest'') hs
             then Inl (Msg ''GET signature must not cover digest'') else Inr ()) r pub"

section \<open>Signing\<close>

definition HeaderOrder :: "string list" where
  "HeaderOrder = [''(request-target)'', ''host'', ''date'', ''digest'', ''content-type'']"

definition GETHeaderOrder :: "string list" where
  "GETHeaderOrder = [''(request-target)'', ''host'', ''date'', ''accept'']"

definition qparam :: "string \<Rightarrow> string \<Rightarrow> string" where
  "qparam k v = k @ [CHR ''='', CHR 0x22] @ v @ [CHR 0x22]"

definition signature_value :: "string \<Rightarrow> string list \<Rightarrow> string \<Rightarrow> string" where
  "signature_value keyID order sig =
     qparam ''keyId'' keyID @ '','' @ qparam ''algorithm'' ''rsa-sha256'' @ '','' @
     qparam ''headers'' (join '' '' order) @ '','' @ qparam ''signature'' (base64_encode sig)"

definition sign_with :: "('pub, 'priv) sigenv \<Rightarrow> string list \<Rightarrow> request \<Rightarrow> string \<Rightarrow> 'priv \<Rightarrow> err + request" where
  "sign_with env order req keyID priv =
     bind_res (BuildSigningString req order) (\<lambda>signing.
       case rsa_sign env priv (sha256 signing) of
         None \<Rightarrow> Inl (Msg ''rsa'')
       | Some sig \<Rightarrow> Inr (req_set req ''Signature'' (signature_value keyID order sig)))"

definition SignPost :: "('pub, 'priv) sigenv \<Rightarrow> request \<Rightarrow> string \<Rightarrow> string \<Rightarrow> 'priv \<Rightarrow> err + request" where
  "SignPost env req body keyID priv =
     (if u_host (r_url req) = [] then Inl (Msg ''request URL must include host for signing'')
      else let req1 = req_set req ''Host'' (u_host (r_url req));
               req2 = (if trim_space (req_get req1 ''Content-Type'') = []
                       then req_set req1 ''Content-Type'' ''application/activity+json'' else req1);
               req3 = req_set req2 ''Digest'' (DigestHeader body);
               req4 = req_set req3 ''Date'' (format_time env (now env))
           in sign_with env HeaderOrder req4 keyID priv)"

definition SignGet :: "('pub, 'priv) sigenv \<Rightarrow> request \<Rightarrow> string \<Rightarrow> 'priv \<Rightarrow> err + request" where
  "SignGet env req keyID priv =
     (if u_host (r_url req) = [] then Inl (Msg ''request URL must include host for signing'')
      else let req1 = req_set req ''Host'' (u_host (r_url req));
               req2 = (if trim_space (req_get req1 ''Accept'') = []
                       then req_set req1 ''Accept''
                              (''application/activity+json, application/ld+json; profile='' @ [CHR 0x22] @
                               ''https://www.w3.org/ns/activitystreams'' @ [CHR 0x22])
                       else req1);
               req3 = req_set req2 ''Date'' (format_time env (now env))
           in sign_with env GETHeaderOrder req3 keyID priv)"

definition NewSignedPost ::
  "('pub, 'priv) sigenv \<Rightarrow> string \<Rightarrow> string \<Rightarrow> string \<Rightarrow> 'priv \<Rightarrow> err + request" where
  "NewSignedPost env targetURL body keyID priv =
     (case url_parse targetURL of
        None \<Rightarrow> Inl (Msg ''parse'')
      | Some u \<Rightarrow>
          (case url_parse (url_string u) of
             None \<Rightarrow> Inl (Msg ''parse'')
           | Some _ \<Rightarrow>
               SignPost env \<lparr>r_method = ''POST'', r_url = u, r_host = u_host u, r_header = (\<lambda>_. [])\<rparr> body keyID priv))"

section \<open>Digests\<close>

lemma or_nat_eq_0: "a OR b = (0 :: nat) \<longleftrightarrow> a = 0 \<and> b = 0"
  by (auto simp: bit_eq_iff bit_or_iff)

lemma foldl_or_eq_0: "foldl (\<lambda>d p. d OR f p) (n :: nat) ps = 0 \<longleftrightarrow> n = 0 \<and> (\<forall>p \<in> set ps. f p = 0)"
  by (induction ps arbitrary: n) (auto simp: or_nat_eq_0)

lemma xor_nat_eq_0: "a XOR b = (0 :: nat) \<longleftrightarrow> a = b"
  by (auto simp: bit_eq_iff bit_xor_iff)

lemma byte_diff_eq_0: "length got = length want \<Longrightarrow> byte_diff want got = 0 \<longleftrightarrow> got = want"
proof -
  assume l: "length got = length want"
  have "byte_diff want got = 0 \<longleftrightarrow> (\<forall>p \<in> set (zip want got). (of_char (fst p) :: nat) = of_char (snd p))"
    unfolding byte_diff_def foldl_or_eq_0 xor_nat_eq_0 by simp
  also have "\<dots> \<longleftrightarrow> list_all2 (\<lambda>a b. (of_char a :: nat) = of_char b) want got"
    using l by (auto simp: list_all2_iff)
  also have "\<dots> \<longleftrightarrow> got = want"
    by (auto simp: list_all2_conv_all_nth intro: nth_equalityI)
  finally show ?thesis .
qed

lemma VerifyDigest_iff:
  "VerifyDigest h body = Inr () \<longleftrightarrow>
   has_prefix (trim_space h) digestPrefix \<and> base64_decode (trim_prefix (trim_space h) digestPrefix) = Some (sha256 body)"
  by (auto simp: VerifyDigest_def Let_def byte_diff_eq_0 digestPrefix_def split: option.splits)

lemma b64_char_graphic: "b64_char c \<Longrightarrow> graphic c"
  by (auto simp: b64_char_def b64_digit_def graphic_def of_char_of)

lemma last_base64_graphic: "s \<noteq> [] \<Longrightarrow> graphic (last (base64_encode s))"
  using base64_encode_chars [of "last (base64_encode s)" s] by (auto intro: b64_char_graphic)

lemma DigestHeader_trim: "trim_space (DigestHeader body) = DigestHeader body"
  using last_base64_graphic [of "sha256 body"]
  by (intro trim_space_graphic) (auto simp: DigestHeader_def digestPrefix_def graphic_def)

lemma VerifyDigest_DigestHeader: "VerifyDigest (DigestHeader body) body = Inr ()"
  by (simp add: VerifyDigest_iff DigestHeader_trim) (simp add: DigestHeader_def trim_prefix_def)

section \<open>The signature header that is printed is the one that is parsed\<close>

lemma quoted_value_plain:
  "CHR 0x22 \<notin> set v \<Longrightarrow> CHR 0x5C \<notin> set v \<Longrightarrow> quoted_value acc (v @ CHR 0x22 # s) = Some (acc @ v, s)"
  by (induction v arbitrary: acc) auto

definition plain_key :: "string \<Rightarrow> bool" where
  "plain_key k \<longleftrightarrow> k \<noteq> [] \<and> list_all is_alnum k"

definition plain_value :: "string \<Rightarrow> bool" where
  "plain_value v \<longleftrightarrow> CHR 0x22 \<notin> set v \<and> CHR 0x5C \<notin> set v"

lemma plain_key_trim: "plain_key k \<Longrightarrow> trim_space k = k"
proof (rule trim_space_graphic)
  assume k: "plain_key k"
  then have "is_alnum (hd k)" "is_alnum (last k)" by (auto simp: plain_key_def list_all_iff)
  then show "graphic (hd k)" "graphic (last k)" by (auto simp: is_alnum_def graphic_def Let_def)
qed (simp add: plain_key_def)

lemma plain_key_sep:
  assumes "plain_key k"
  shows "CHR ''='' \<notin> set k" "dropWhile sig_sep (k @ s) = k @ s"
proof -
  show "CHR ''='' \<notin> set k" using assms by (auto simp: plain_key_def list_all_iff is_alnum_def)
  obtain c r where "k = c # r" using assms by (auto simp: plain_key_def neq_Nil_conv)
  moreover from this assms have "\<not> sig_sep c" by (auto simp: plain_key_def is_alnum_def sig_sep_def)
  ultimately show "dropWhile sig_sep (k @ s) = k @ s" by simp
qed

lemma parse_params_qparam:
  assumes "plain_key k" "plain_value v"
  shows "parse_params (qparam k v @ s) = bind_res (parse_params s) (\<lambda>ps. Inr ((go_lower k, v) # ps))"
proof -
  have q: "qparam k v @ s = k @ CHR ''='' # CHR 0x22 # v @ CHR 0x22 # s" by (simp add: qparam_def)
  show ?thesis
    using plain_key_sep [OF assms(1)] assms(2)
    by (subst parse_params.simps)
       (simp add: q Let_def plain_key_trim [OF assms(1)] quoted_value_plain plain_value_def)
qed

lemma parse_params_comma: "parse_params (CHR '','' # s) = parse_params s"
  by (subst (1 2) parse_params.simps) (simp add: sig_sep_def)

lemma parse_params_Nil: "parse_params [] = Inr []"
  by (subst parse_params.simps) simp

lemma b64_char_no_quote: "b64_char c \<Longrightarrow> c \<noteq> CHR 0x22 \<and> c \<noteq> CHR 0x5C"
proof -
  have "b64_value (CHR 0x22) = None" "b64_value (CHR 0x5C) = None" by (simp_all add: b64_value_def)
  then have "n < 64 \<Longrightarrow> b64_digit n \<noteq> CHR 0x22 \<and> b64_digit n \<noteq> CHR 0x5C" for n
    using b64_value_digit [of n] by (metis option.distinct(1))
  moreover assume "b64_char c"
  ultimately show ?thesis by (auto simp: b64_char_def)
qed

lemma plain_value_base64: "plain_value (base64_encode s)"
  using base64_encode_chars [of _ s] b64_char_no_quote by (auto simp: plain_value_def)

lemma plain_value_headers:
  "plain_value (join '' '' HeaderOrder)" "plain_value (join '' '' GETHeaderOrder)"
  by (simp_all add: plain_value_def HeaderOrder_def GETHeaderOrder_def)

lemma signature_value_trim: "trim_space (signature_value keyID order sig) = signature_value keyID order sig"
  by (rule trim_space_graphic) (simp_all add: signature_value_def qparam_def graphic_def)

lemma ParseSignatureHeader_signature_value:
  assumes "plain_value keyID" "plain_value (join '' '' order)"
  shows "ParseSignatureHeader (signature_value keyID order sig) =
    Inr [(''keyid'', keyID), (''algorithm'', ''rsa-sha256''), (''headers'', join '' '' order),
         (''signature'', base64_encode sig)]"
proof -
  have k: "plain_key ''keyId''" "plain_key ''algorithm''" "plain_key ''headers''" "plain_key ''signature''"
    and a: "plain_value ''rsa-sha256''"
    by (simp_all add: plain_key_def is_alnum_def plain_value_def)
  have l: "go_lower ''keyId'' = ''keyid''" "go_lower ''algorithm'' = ''algorithm''"
    "go_lower ''headers'' = ''headers''" "go_lower ''signature'' = ''signature''"
    by code_simp+
  have last: "parse_params (qparam ''signature'' (base64_encode sig)) = Inr [(''signature'', base64_encode sig)]"
    using parse_params_qparam [OF k(4) plain_value_base64 [of sig], of "[]"] by (simp add: parse_params_Nil l)
  have "parse_params (signature_value keyID order sig) =
      Inr [(''keyid'', keyID), (''algorithm'', ''rsa-sha256''), (''headers'', join '' '' order),
           (''signature'', base64_encode sig)]"
    unfolding signature_value_def
    by (simp only: parse_params_qparam [OF k(1) assms(1)] parse_params_qparam [OF k(2) a]
        parse_params_qparam [OF k(3) assms(2)] parse_params_comma append_Cons append_Nil last l bind_res_simps)
  then show ?thesis by (simp add: ParseSignatureHeader_def signature_value_trim)
qed

section \<open>What an accepted request guarantees\<close>

lemma verifyDateHeader_ok:
  "verifyDateHeader env date = Inr () \<longleftrightarrow>
   trim_space date \<noteq> [] \<and> (\<exists>t. parse_time env (trim_space date) = Some t \<and> \<bar>now env - t\<bar> \<le> maxClockSkew)"
  by (auto simp: verifyDateHeader_def duration_between_def maxClockSkew_def Let_def split: option.splits if_splits)

definition signed_by :: "('pub, 'priv) sigenv \<Rightarrow> request \<Rightarrow> 'pub \<Rightarrow> string list \<Rightarrow> bool" where
  "signed_by env r pub names \<longleftrightarrow>
     (\<exists>ps ss sig. ParseSignatureHeader (req_get r ''Signature'') = Inr ps \<and>
        param ps ''algorithm'' \<in> {''rsa-sha256'', ''hs2019''} \<and>
        names = go_fields (param ps ''headers'') \<and> names \<noteq> [] \<and>
        BuildSigningString r names = Inr ss \<and> base64_decode (param ps ''signature'') = Some sig \<and>
        rsa_verify env pub (sha256 ss) sig)"

lemma verify_signature_ok:
  assumes "verify_signature env chk r pub = Inr ()"
  shows "\<exists>names. signed_by env r pub names \<and> chk names = Inr () \<and> verifyDateHeader env (req_get r ''Date'') = Inr ()"
  using assms unfolding verify_signature_def signed_by_def
  by (auto simp: Let_def bind_res_ok wrap_err_def split: if_splits sum.splits option.splits)

lemma verify_signatureI:
  assumes "ParseSignatureHeader (req_get r ''Signature'') = Inr ps"
    "param ps ''algorithm'' \<in> {''rsa-sha256'', ''hs2019''}" "param ps ''signature'' \<noteq> []"
    "go_fields (param ps ''headers'') \<noteq> []" "chk (go_fields (param ps ''headers'')) = Inr ()"
    "BuildSigningString r (go_fields (param ps ''headers'')) = Inr ss"
    "base64_decode (param ps ''signature'') = Some sig" "rsa_verify env pub (sha256 ss) sig"
    "verifyDateHeader env (req_get r ''Date'') = Inr ()"
  shows "verify_signature env chk r pub = Inr ()"
proof -
  have "req_get r ''Signature'' \<noteq> []"
  proof
    assume "req_get r ''Signature'' = []"
    then show False using assms(1) by (simp add: ParseSignatureHeader_def parse_params_Nil)
  qed
  then show ?thesis using assms unfolding verify_signature_def by (simp add: Let_def)
qed

text \<open>
  C3: A request that passes verification carries a signature by the key over the signing string
  of the headers it names, a digest equal to the SHA-256 of the body, and a date at most five
  minutes from now.
\<close>

theorem VerifyRequest_sound:
  assumes "VerifyRequest env r body pub = Inr ()"
  shows "(\<exists>names. signed_by env r pub names) \<and>
     base64_decode (trim_prefix (trim_space (req_get r ''Digest'')) digestPrefix) = Some (sha256 body) \<and>
     (\<exists>t. parse_time env (trim_space (req_get r ''Date'')) = Some t \<and> \<bar>now env - t\<bar> \<le> maxClockSkew)"
proof (intro conjI)
  from assms have d: "VerifyDigest (req_get r ''Digest'') body = Inr ()"
    and v: "verify_signature env (\<lambda>_. Inr ()) r pub = Inr ()"
    by (auto simp: VerifyRequest_def bind_res_ok)
  from verify_signature_ok [OF v] show "\<exists>names. signed_by env r pub names"
    "\<exists>t. parse_time env (trim_space (req_get r ''Date'')) = Some t \<and> \<bar>now env - t\<bar> \<le> maxClockSkew"
    by (auto simp: verifyDateHeader_ok)
  from d show "base64_decode (trim_prefix (trim_space (req_get r ''Digest'')) digestPrefix) = Some (sha256 body)"
    by (simp add: VerifyDigest_iff)
qed

section \<open>A signed request is accepted by its receiver\<close>

definition keypair_ok :: "('pub, 'priv) sigenv \<Rightarrow> 'pub \<Rightarrow> 'priv \<Rightarrow> bool" where
  "keypair_ok env pub priv \<longleftrightarrow> (\<forall>h s. rsa_sign env priv h = Some s \<longrightarrow> s \<noteq> [] \<and> rsa_verify env pub h s)"

definition clock_ok :: "('pub, 'priv) sigenv \<Rightarrow> bool" where
  "clock_ok env \<longleftrightarrow>
     (let d = trim_space (format_time env (now env))
      in d \<noteq> [] \<and> (case parse_time env d of None \<Rightarrow> False | Some t \<Rightarrow> \<bar>now env - t\<bar> \<le> 10 ^ 9))"

text \<open>
  What reaches the server: the \<^verbatim>\<open>Host\<close> header moves to \<^verbatim>\<open>r.Host\<close> and the URL keeps its path and
  query only; method and the other headers are those that were sent.
\<close>

definition transmitted :: "request \<Rightarrow> request \<Rightarrow> bool" where
  "transmitted r rcv \<longleftrightarrow>
     r_method rcv = r_method r \<and> request_target rcv = request_target r \<and>
     r_host rcv = u_host (r_url r) \<and> r_header rcv = (r_header r)(''Host'' := [])"

lemma canonical_keys [simp]:
  "CanonicalHeaderKey ''Host'' = ''Host''" "CanonicalHeaderKey ''host'' = ''Host''"
  "CanonicalHeaderKey ''Date'' = ''Date''" "CanonicalHeaderKey ''date'' = ''Date''"
  "CanonicalHeaderKey ''Digest'' = ''Digest''" "CanonicalHeaderKey ''digest'' = ''Digest''"
  "CanonicalHeaderKey ''Content-Type'' = ''Content-Type''" "CanonicalHeaderKey ''content-type'' = ''Content-Type''"
  "CanonicalHeaderKey ''Accept'' = ''Accept''" "CanonicalHeaderKey ''accept'' = ''Accept''"
  "CanonicalHeaderKey ''Signature'' = ''Signature''"
  by code_simp+

lemma HeaderOrder_names:
  "map (\<lambda>n. go_lower (trim_space n)) HeaderOrder = HeaderOrder" "go_fields (join '' '' HeaderOrder) = HeaderOrder"
  "map (\<lambda>n. go_lower (trim_space n)) GETHeaderOrder = GETHeaderOrder"
  "go_fields (join '' '' GETHeaderOrder) = GETHeaderOrder"
  by code_simp+

lemma header_simps [simp]:
  "r_method (req_set r k v) = r_method r" "r_url (req_set r k v) = r_url r" "r_host (req_set r k v) = r_host r"
  "r_header (req_set r k v) = (r_header r)(CanonicalHeaderKey k := [v])"
  "request_target (req_set r k v) = request_target r"
  by (simp_all add: req_set_def header_set_def request_target_def Let_def)

lemma signing_names [simp]:
  "go_lower (trim_space ''(request-target)'') = ''(request-target)''" "go_lower (trim_space ''host'') = ''host''"
  "go_lower (trim_space ''date'') = ''date''" "go_lower (trim_space ''digest'') = ''digest''"
  "go_lower (trim_space ''content-type'') = ''content-type''" "go_lower (trim_space ''accept'') = ''accept''"
  by code_simp+

lemma signing_line_transmitted:
  assumes "transmitted (req_set r ''Signature'' v) rcv" "r_header r ''Host'' = [u_host (r_url r)]"
    "u_host (r_url r) \<noteq> []" "n \<in> set HeaderOrder \<union> set GETHeaderOrder"
  shows "signing_line rcv n = signing_line r n"
proof -
  have n: "n \<in> {''(request-target)'', ''host'', ''date'', ''digest'', ''content-type'', ''accept''}"
    using assms(4) by (auto simp: HeaderOrder_def GETHeaderOrder_def)
  have rt: "request_target rcv = request_target r" and h: "r_host rcv = u_host (r_url r)"
    and hd: "r_header rcv = (r_header r)(''Signature'' := [v], ''Host'' := [])"
    using assms(1) by (simp_all add: transmitted_def)
  from n show ?thesis
    unfolding insert_iff empty_iff
    by (elim disjE FalseE) (simp_all add: signing_line_def header_values_def rt h hd assms(2,3))
qed

lemma BuildSigningString_cong:
  "(\<And>n. n \<in> set ns \<Longrightarrow> signing_line r' n = signing_line r n) \<Longrightarrow> BuildSigningString r' ns = BuildSigningString r ns"
proof -
  assume "\<And>n. n \<in> set ns \<Longrightarrow> signing_line r' n = signing_line r n"
  then have "signing_lines r' ns = signing_lines r ns" by (induction ns) (simp_all split: sum.split)
  then show ?thesis by (simp add: BuildSigningString_def)
qed

lemma sign_with_accepted:
  assumes sg: "sign_with env order r keyID priv = Inr r'" and tr: "transmitted r' rcv"
    and order: "order = HeaderOrder \<or> order = GETHeaderOrder" and chk: "chk order = Inr ()"
    and host: "r_header r ''Host'' = [u_host (r_url r)]" "u_host (r_url r) \<noteq> []"
    and date: "r_header r ''Date'' = [format_time env (now env)]"
    and key: "keypair_ok env pub priv" "plain_value keyID" and clock: "clock_ok env"
    and later: "\<bar>n - now env\<bar> \<le> 299 * 10 ^ 9"
  shows "verify_signature (env\<lparr>now := n\<rparr>) chk rcv pub = Inr ()"
proof -
  from sg obtain ss sig where b: "BuildSigningString r order = Inr ss"
    and s: "rsa_sign env priv (sha256 ss) = Some sig"
    and r': "r' = req_set r ''Signature'' (signature_value keyID order sig)"
    by (auto simp: sign_with_def bind_res_ok split: option.splits)
  have fields: "go_fields (join '' '' order) = order" "plain_value (join '' '' order)" "order \<noteq> []"
    using order HeaderOrder_names plain_value_headers by (force, force, auto simp: HeaderOrder_def GETHeaderOrder_def)
  have hv: "req_get rcv ''Signature'' = signature_value keyID order sig"
    "req_get rcv ''Date'' = format_time env (now env)"
    using tr date by (auto simp: transmitted_def r' header_get_def header_values_def)
  let ?ps = "[(''keyid'', keyID), (''algorithm'', ''rsa-sha256''), (''headers'', join '' '' order),
         (''signature'', base64_encode sig)]"
  have ps: "param ?ps ''algorithm'' = ''rsa-sha256''" "param ?ps ''headers'' = join '' '' order"
    "param ?ps ''signature'' = base64_encode sig"
    by (simp_all add: param_def)
  have v: "sig \<noteq> []" "rsa_verify env pub (sha256 ss) sig" using key(1) s by (auto simp: keypair_ok_def)
  have bs: "BuildSigningString rcv order = Inr ss"
    unfolding b [symmetric] using order tr host
    by (intro BuildSigningString_cong signing_line_transmitted) (auto simp: r')
  have d: "verifyDateHeader (env\<lparr>now := n\<rparr>) (format_time env (now env)) = Inr ()"
    using clock later by (auto simp: verifyDateHeader_ok clock_ok_def maxClockSkew_def Let_def split: option.splits)
  show ?thesis
    by (rule verify_signatureI [where ps = ?ps and ss = ss and sig = sig])
       (simp_all add: hv ParseSignatureHeader_signature_value [OF key(2) fields(2)] ps fields v bs d chk)
qed

lemma SignPost_verifies:
  assumes "SignPost env r body keyID priv = Inr r'" "transmitted r' rcv"
    and "keypair_ok env pub priv" "plain_value keyID" "clock_ok env" "\<bar>n - now env\<bar> \<le> 299 * 10 ^ 9"
  shows "VerifyRequest (env\<lparr>now := n\<rparr>) rcv body pub = Inr ()"
proof -
  obtain r4 where sg: "sign_with env HeaderOrder r4 keyID priv = Inr r'"
    and r4: "r_header r4 ''Host'' = [u_host (r_url r4)]" "u_host (r_url r4) \<noteq> []"
      "r_header r4 ''Date'' = [format_time env (now env)]" "r_header r4 ''Digest'' = [DigestHeader body]"
    using assms(1) by (auto simp: SignPost_def Let_def split: if_splits)
  have "req_get rcv ''Digest'' = DigestHeader body"
    using assms(2) sg r4(4)
    by (auto simp: sign_with_def bind_res_ok transmitted_def header_get_def header_values_def split: option.splits)
  with sign_with_accepted [OF sg assms(2) _ _ r4(1,2,3) assms(3-6), of "\<lambda>_. Inr ()"]
  show ?thesis by (simp add: VerifyRequest_def VerifyDigest_DigestHeader)
qed

text \<open>
  What the server signs, the receiver accepts: a signed POST, as it arrives at the other
  server, passes verification with the matching public key for 299 seconds.
\<close>

theorem SignPost_accepted:
  assumes "SignPost env r body keyID priv = Inr r'" "transmitted r' rcv"
    and "keypair_ok env pub priv" "plain_value keyID" "clock_ok env" "\<bar>n - now env\<bar> \<le> 299 * 10 ^ 9"
  shows "VerifyRequest (env\<lparr>now := n\<rparr>) rcv body pub = Inr ()"
  by (rule SignPost_verifies [OF assms])

text \<open>
  A signed GET, as it arrives at the other server, passes the verification of signed GETs
  with the matching public key for 299 seconds.
\<close>

theorem SignGet_accepted:
  assumes "SignGet env r keyID priv = Inr r'" "transmitted r' rcv"
    and "keypair_ok env pub priv" "plain_value keyID" "clock_ok env" "\<bar>n - now env\<bar> \<le> 299 * 10 ^ 9"
  shows "VerifyGet (env\<lparr>now := n\<rparr>) rcv pub = Inr ()"
proof -
  obtain r4 where sg: "sign_with env GETHeaderOrder r4 keyID priv = Inr r'"
    and r4: "r_header r4 ''Host'' = [u_host (r_url r4)]" "u_host (r_url r4) \<noteq> []"
      "r_header r4 ''Date'' = [format_time env (now env)]"
    using assms(1) by (auto simp: SignGet_def Let_def split: if_splits)
  have "\<not> list_ex (\<lambda>h. equal_fold (trim_space h) ''digest'') GETHeaderOrder" by code_simp
  with sign_with_accepted [OF sg assms(2) _ _ r4 assms(3-6),
      of "\<lambda>hs. if list_ex (\<lambda>h. equal_fold (trim_space h) ''digest'') hs
                then Inl (Msg ''GET signature must not cover digest'') else Inr ()"]
  show ?thesis by (simp add: VerifyGet_def)
qed

section \<open>What a signature does not protect\<close>

lemma canonical_from_lower: "go_lower (canonical_from b k) = go_lower k"
proof (induction k arbitrary: b)
  case (Cons c k)
  have "lower_char (upper_char c) = lower_char c"
    by (auto simp: lower_char_def upper_char_def of_char_of)
  with Cons show ?case by (simp add: go_lower_def)
qed simp

lemma CanonicalHeaderKey_lower:
  assumes "CanonicalHeaderKey (go_lower n) = ''Digest''"
  shows "go_lower n = ''digest''"
proof -
  have "go_lower (CanonicalHeaderKey (go_lower n)) = go_lower n"
    using canonical_from_lower [of True "go_lower n"] by (simp add: CanonicalHeaderKey_def)
  with assms have "go_lower ''Digest'' = go_lower n" by simp
  moreover have "go_lower ''Digest'' = ''digest''" by code_simp
  ultimately show ?thesis by simp
qed

lemma signed_by_other_digest:
  assumes "signed_by env r pub names" "\<forall>n \<in> set names. go_lower (trim_space n) \<noteq> ''digest''"
  shows "signed_by env (req_set r ''Digest'' v) pub names"
proof -
  have "BuildSigningString (req_set r ''Digest'' v) names = BuildSigningString r names"
  proof (rule BuildSigningString_cong)
    fix n assume "n \<in> set names"
    with assms(2) have "CanonicalHeaderKey (go_lower (trim_space n)) \<noteq> ''Digest''"
      using CanonicalHeaderKey_lower by blast
    then show "signing_line (req_set r ''Digest'' v) n = signing_line r n"
      by (simp add: signing_line_def header_values_def Let_def)
  qed
  with assms(1) show ?thesis by (simp add: signed_by_def header_get_def header_values_def)
qed

text \<open>
  C39: The header list of a signature need not name the digest; then the signature authenticates
  no body: whoever holds the request can replace the body and its digest, and it still passes.
\<close>

theorem VerifyRequest_other_body:
  assumes ok: "VerifyRequest env r body pub = Inr ()" and sb: "signed_by env r pub names"
    and nd: "\<forall>n \<in> set names. go_lower (trim_space n) \<noteq> ''digest''"
  shows "VerifyRequest env (req_set r ''Digest'' (DigestHeader body')) body' pub = Inr ()"
proof -
  let ?r = "req_set r ''Digest'' (DigestHeader body')"
  have "verifyDateHeader env (req_get r ''Date'') = Inr ()"
    using verify_signature_ok [of env "\<lambda>_. Inr ()" r pub] ok by (auto simp: VerifyRequest_def bind_res_ok)
  then have date: "verifyDateHeader env (req_get ?r ''Date'') = Inr ()"
    by (simp add: header_get_def header_values_def)
  obtain ps ss sig where p: "ParseSignatureHeader (req_get ?r ''Signature'') = Inr ps"
    "param ps ''algorithm'' \<in> {''rsa-sha256'', ''hs2019''}"
    "names = go_fields (param ps ''headers'')" "names \<noteq> []" "BuildSigningString ?r names = Inr ss"
    "base64_decode (param ps ''signature'') = Some sig" "rsa_verify env pub (sha256 ss) sig"
    using signed_by_other_digest [OF sb nd, of "DigestHeader body'"] by (auto simp: signed_by_def)
  have "param ps ''signature'' \<noteq> []"
    using ok p(1) by (auto simp: VerifyRequest_def bind_res_ok verify_signature_def header_get_def
      header_values_def Let_def wrap_err_def split: if_splits sum.splits)
  with p have "verify_signature env (\<lambda>_. Inr ()) ?r pub = Inr ()"
    by (intro verify_signatureI [where ps = ps and ss = ss and sig = sig] date) auto
  then show ?thesis 
    by (simp add: VerifyRequest_def VerifyDigest_DigestHeader header_get_def header_values_def)
qed

end
