(* ===== verification/GoNet.thy ===== *)
theory GoNet
  imports GoStrings "HOL-Library.Word"
begin

text \<open>
  What the source uses of Go's \<^verbatim>\<open>net\<close> package: addresses (4 or 16 bytes), \<^verbatim>\<open>net.ParseIP\<close>, the
  predicates on addresses and \<^verbatim>\<open>net.SplitHostPort\<close>.
\<close>

unbundle bit_operations_syntax

type_synonym byte = "8 word"
type_synonym ip = "byte list"

section \<open>Address classes\<close>

definition To4 :: "ip \<Rightarrow> ip option" where
  "To4 a = (if length a = 4 then Some a
            else if length a = 16 \<and> take 10 a = replicate 10 0 \<and> a ! 10 = 0xff \<and> a ! 11 = 0xff
            then Some (drop 12 a) else None)"

definition ipv6_loopback :: ip where
  "ipv6_loopback = replicate 15 0 @ [1]"

definition IsLoopback :: "ip \<Rightarrow> bool" where
  "IsLoopback a = (case To4 a of Some b \<Rightarrow> b ! 0 = 127 | None \<Rightarrow> a = ipv6_loopback)"

definition IsPrivate :: "ip \<Rightarrow> bool" where
  "IsPrivate a =
     (case To4 a of
        Some b \<Rightarrow> b ! 0 = 10 \<or> (b ! 0 = 172 \<and> (b ! 1) AND 0xf0 = 16) \<or> (b ! 0 = 192 \<and> b ! 1 = 168)
      | None \<Rightarrow> length a = 16 \<and> (a ! 0) AND 0xfe = 0xfc)"

definition IsLinkLocalUnicast :: "ip \<Rightarrow> bool" where
  "IsLinkLocalUnicast a =
     (case To4 a of
        Some b \<Rightarrow> b ! 0 = 169 \<and> b ! 1 = 254
      | None \<Rightarrow> length a = 16 \<and> a ! 0 = 0xfe \<and> (a ! 1) AND 0xc0 = 0x80)"

definition IsLinkLocalMulticast :: "ip \<Rightarrow> bool" where
  "IsLinkLocalMulticast a =
     (case To4 a of
        Some b \<Rightarrow> b ! 0 = 224 \<and> b ! 1 = 0 \<and> b ! 2 = 0
      | None \<Rightarrow> length a = 16 \<and> a ! 0 = 0xff \<and> (a ! 1) AND 0x0f = 0x02)"

section \<open>\<open>net.ParseIP\<close>\<close>

definition ipv4_octet :: "string \<Rightarrow> byte option" where
  "ipv4_octet s =
     (if s = [] \<or> \<not> list_all is_digit s \<or> (length s > 1 \<and> hd s = CHR ''0'') \<or> digits_value s > 255 then None
      else Some (word_of_nat (digits_value s)))"

definition parse_ipv4 :: "string \<Rightarrow> ip option" where
  "parse_ipv4 s =
     (case map ipv4_octet (split_on (CHR ''.'') s) of
        [Some a, Some b, Some c, Some d] \<Rightarrow> Some [a, b, c, d]
      | _ \<Rightarrow> None)"

definition hex_val :: "char \<Rightarrow> nat option" where
  "hex_val c = (let n = (of_char c :: nat) in
     if 48 \<le> n \<and> n \<le> 57 then Some (n - 48)
     else if 97 \<le> n \<and> n \<le> 102 then Some (n - 87)
     else if 65 \<le> n \<and> n \<le> 70 then Some (n - 55)
     else None)"

definition hex_value :: "string \<Rightarrow> nat" where
  "hex_value s = foldl (\<lambda>n c. 16 * n + the (hex_val c)) 0 s"

text \<open>
  The loop over the fields of an IPv6 address: \<open>k\<close> fields are left, \<open>el\<close> is the position of
  \<^verbatim>\<open>::\<close> and \<open>bs\<close> the bytes so far.
\<close>

fun ipv6_fields :: "nat \<Rightarrow> nat option \<Rightarrow> ip \<Rightarrow> string \<Rightarrow> (nat option \<times> ip) option" where
  "ipv6_fields 0 el bs s = (if s = [] then Some (el, bs) else None)"
| "ipv6_fields (Suc k) el bs s =
     (let h = takeWhile (\<lambda>c. hex_val c \<noteq> None) s; r = dropWhile (\<lambda>c. hex_val c \<noteq> None) s
      in if length h > 4 \<or> h = [] then None
         else if has_prefix r ''.'' then
           (if (el = None \<and> length bs \<noteq> 12) \<or> length bs + 4 > 16 then None
            else map_option (\<lambda>v4. (el, bs @ v4)) (parse_ipv4 s))
         else let bs' = bs @ [word_of_nat (hex_value h div 256), word_of_nat (hex_value h mod 256)]
              in case r of
                   [] \<Rightarrow> Some (el, bs')
                 | c # r' \<Rightarrow>
                     (if c \<noteq> CHR '':'' \<or> r' = [] then None
                      else if hd r' = CHR '':'' then
                        (if el \<noteq> None then None
                         else if tl r' = [] then Some (Some (length bs'), bs')
                         else ipv6_fields k (Some (length bs')) bs' (tl r'))
                      else ipv6_fields k el bs' r'))"

definition ipv6_expand :: "nat option \<times> ip \<Rightarrow> ip option" where
  "ipv6_expand p =
     (case p of (el, bs) \<Rightarrow>
        (if length bs < 16
         then (case el of None \<Rightarrow> None | Some e \<Rightarrow> Some (take e bs @ replicate (16 - length bs) 0 @ drop e bs))
         else if el \<noteq> None then None else Some bs))"

definition parse_ipv6 :: "string \<Rightarrow> ip option" where
  "parse_ipv6 s =
     (if has_prefix s ''::'' then
        (if drop 2 s = [] then Some (replicate 16 0)
         else Option.bind (ipv6_fields 8 (Some 0) [] (drop 2 s)) ipv6_expand)
      else Option.bind (ipv6_fields 8 None [] s) ipv6_expand)"

text \<open>
  The first of \<^verbatim>\<open>. : %\<close> decides the family; an address with a zone is none for \<^verbatim>\<open>ParseIP\<close>, and an
  IPv4 address is returned in its 16-byte form.
\<close>

definition ParseIP :: "string \<Rightarrow> ip option" where
  "ParseIP s =
     (case find (\<lambda>c. c = CHR ''.'' \<or> c = CHR '':'' \<or> c = CHR ''%'') s of
        None \<Rightarrow> None
      | Some c \<Rightarrow>
          (if c = CHR ''.'' then map_option (\<lambda>a. replicate 10 0 @ [0xff, 0xff] @ a) (parse_ipv4 s)
           else if c = CHR '':'' \<and> CHR ''%'' \<notin> set s then parse_ipv6 s
           else None))"

section \<open>\<open>net.SplitHostPort\<close>\<close>

definition split_host_port :: "string \<Rightarrow> err + (string \<times> string)" where
  "split_host_port hp =
     (case after_last (CHR '':'') hp of
        None \<Rightarrow> Inl (Msg ''missing port in address'')
      | Some port \<Rightarrow>
          (let i = length hp - length port - 1
           in if has_prefix hp ''['' then
                (if CHR '']'' \<notin> set hp then Inl (Msg ''missing ']' in address'')
                 else let e = length (cut_before (CHR '']'') hp)
                      in if e + 1 = length hp then Inl (Msg ''missing port in address'')
                         else if e + 1 \<noteq> i then
                           Inl (Msg (if hp ! (e + 1) = CHR '':'' then ''too many colons in address'' else ''missing port in address''))
                         else if CHR ''['' \<in> set (drop 1 hp) then Inl (Msg ''unexpected '[' in address'')
                         else if CHR '']'' \<in> set (drop (e + 1) hp) then Inl (Msg ''unexpected ']' in address'')
                         else Inr (take (e - 1) (drop 1 hp), port))
              else let host = take i hp
                   in if CHR '':'' \<in> set host then Inl (Msg ''too many colons in address'')
                      else if CHR ''['' \<in> set hp then Inl (Msg ''unexpected '[' in address'')
                      else if CHR '']'' \<in> set hp then Inl (Msg ''unexpected ']' in address'')
                      else Inr (host, port)))"

end
