(* ===== verification/Config.thy ===== *)
theory Config
  imports GoUrl
begin

text \<open>
  \<^verbatim>\<open>internal/config/config.go\<close>: the process configuration, its loading from the environment and the
  IRIs it gives to local actors.  The environment is the argument \<open>env\<close> of the definitions that
  read it (\<open>env k = []\<close> for an unset variable, as \<^verbatim>\<open>os.Getenv\<close> answers).  A receiver that the code
  compares with \<^verbatim>\<open>nil\<close> is an option.  The lemmas show what \<open>Load\<close> guarantees, that a profile IRI and
  its alias resolve to the local user they were made from and that nothing else than a configured
  user is ever answered.
\<close>

section \<open>The record\<close>

record config =
  HTTPListen :: string
  MetricsListen :: string
  DatabaseURL :: string
  RedisURL :: string
  QueueBackend :: string
  PublicBaseURL :: string
  LocalUsername :: string
  LocalUsernames :: "string list"
  FollowAutoAccept :: bool
  ActorPrivateKeyPath :: string
  ActorPublicKeyPath :: string
  InboxMaxBody :: int
  CreateObjectMaxFetchBytes :: int
  FetchAllowHTTP :: bool
  FetchRelaxLocal :: bool
  OutboxPostSecret :: string
  MediaUploadSecret :: string
  MediaMaxUploadBytes :: int
  MediaMaxAttachmentsPerStatus :: int
  MediaAllowedMIMETypes :: "string list"
  MediaAsyncUpload :: bool
  MediaDescriptionLimit :: int
  RequireAuthorizedFetch :: bool
  SignOutboundGET :: bool
  InstanceActorPrivateKeyPath :: string
  BlobBackend :: string
  BlobFSRoot :: string
  BlobS3Bucket :: string
  BlobS3Endpoint :: string
  BlobS3Region :: string
  WorkerConcurrency :: int
  WorkerPollInterval :: int
  DeliveryMaxAttempts :: int
  DeliveryBackoffInitialSec :: int
  DeliveryBackoffMaxSec :: int
  InstanceName :: string
  InstanceDescription :: string
  OpenRegistrations :: bool
  SoftwareVersion :: string
  CORSAllowOrigins :: "string list"

section \<open>Reading the environment\<close>

definition getenv :: "(string \<Rightarrow> string) \<Rightarrow> string \<Rightarrow> string \<Rightarrow> string" where
  "getenv env k def = (let v = env k in if v = [] then def else v)"

definition getenvInt :: "(string \<Rightarrow> string) \<Rightarrow> string \<Rightarrow> int \<Rightarrow> int" where
  "getenvInt env k def =
     (let v = env k
      in if v = [] then def
         else case parse_int64 v of None \<Rightarrow> def | Some n \<Rightarrow> n)"

text \<open>
  \<^verbatim>\<open>time.ParseDuration\<close>, in nanoseconds.  The fraction of a number is scaled exactly here, where the
  library rounds through a \<^verbatim>\<open>float64\<close>.
\<close>

definition duration_unit :: "string \<Rightarrow> nat option" where
  "duration_unit u = map_of
     [(''ns'', 1), (''us'', 10 ^ 3), ([CHR 0xC2, CHR 0xB5, CHR ''s''], 10 ^ 3),
      ([CHR 0xCE, CHR 0xBC, CHR ''s''], 10 ^ 3), (''ms'', 10 ^ 6), (''s'', 10 ^ 9),
      (''m'', 60 * 10 ^ 9), (''h'', 3600 * 10 ^ 9)] u"

function duration_sum :: "nat \<Rightarrow> string \<Rightarrow> nat option" where
  "duration_sum d s =
     (if s = [] then Some d
      else let v = takeWhile is_digit s; s1 = dropWhile is_digit s;
               dotted = has_prefix s1 ''.'';
               f = (if dotted then takeWhile is_digit (tl s1) else []);
               s2 = (if dotted then dropWhile is_digit (tl s1) else s1);
               u = takeWhile (\<lambda>c. c \<noteq> CHR ''.'' \<and> \<not> is_digit c) s2
           in if v = [] \<and> f = [] then None
              else if u = [] then None
              else case duration_unit u of
                     None \<Rightarrow> None
                   | Some unit \<Rightarrow>
                       (let n = digits_value v * unit + digits_value f * unit div 10 ^ length f
                        in if d + n > 2 ^ 63 then None
                           else duration_sum (d + n) (dropWhile (\<lambda>c. c \<noteq> CHR ''.'' \<and> \<not> is_digit c) s2)))"
  by pat_completeness auto

lemma dropWhile_length_less: "takeWhile P s \<noteq> [] \<Longrightarrow> length (dropWhile P s) < length s"
  by (cases s) (auto simp: le_imp_less_Suc length_dropWhile_le split: if_splits)

lemma length_drop_digits: "length (dropWhile is_digit (tl (dropWhile is_digit s))) \<le> length s"
proof -
  have "length (dropWhile is_digit (tl (dropWhile is_digit s))) \<le> length (tl (dropWhile is_digit s))"
    by (rule length_dropWhile_le)
  also have "\<dots> \<le> length (dropWhile is_digit s)" by simp
  also have "\<dots> \<le> length s" by (rule length_dropWhile_le)
  finally show ?thesis .
qed

termination duration_sum
proof (relation "measure (\<lambda>(d, s). length s)", goal_cases)
  case 1
  then show ?case by simp
next
  case (2 d s v s1 dotted f s2 u unit n)
  from 2(9) have "length (dropWhile (\<lambda>c. c \<noteq> CHR ''.'' \<and> \<not> is_digit c) s2) < length s2"
    unfolding 2(7) by (rule dropWhile_length_less)
  also have "length s2 \<le> length s"
    unfolding 2(2-6) using length_drop_digits [of s] length_dropWhile_le [of is_digit s] by simp
  finally show ?case by simp
qed

declare duration_sum.simps [simp del]

definition ParseDuration :: "string \<Rightarrow> int option" where
  "ParseDuration orig =
     (let neg = has_prefix orig ''-'';
          s = (if neg \<or> has_prefix orig ''+'' then tl orig else orig)
      in if s = ''0'' then Some 0
         else if s = [] then None
         else case duration_sum 0 s of
                None \<Rightarrow> None
              | Some d \<Rightarrow> if neg then Some (- int d) else if d > 2 ^ 63 - 1 then None else Some (int d))"

definition getenvDuration :: "(string \<Rightarrow> string) \<Rightarrow> string \<Rightarrow> int \<Rightarrow> int" where
  "getenvDuration env k def =
     (let v = env k
      in if v = [] then def
         else case ParseDuration v of None \<Rightarrow> def | Some d \<Rightarrow> d)"

definition truthyEnv :: "(string \<Rightarrow> string) \<Rightarrow> string \<Rightarrow> bool" where
  "truthyEnv env key = (let v = go_lower (trim_space (env key)) in v = ''1'' \<or> v = ''true'' \<or> v = ''yes'')"

text \<open>The comma-separated lists: every part trimmed, the empty ones dropped.\<close>

definition comma_parts :: "string \<Rightarrow> string list" where
  "comma_parts v = (if v = [] then [] else filter (\<lambda>p. p \<noteq> []) (map trim_space (split_on (CHR '','') v)))"

text \<open>\<open>env_config\<close> is the record that \<open>Load\<close> fills, \<open>Load\<close> its checks.\<close>

definition env_config :: "(string \<Rightarrow> string) \<Rightarrow> config" where
  "env_config env =
     (let usernames0 = comma_parts (trim_space (env ''AP_LOCAL_USERNAMES''));
          usernames = (if usernames0 = [] then [getenv env ''AP_LOCAL_USERNAME'' ''admin''] else usernames0);
          auto = go_lower (trim_space (env ''AP_FOLLOW_AUTO_ACCEPT''));
          cors = comma_parts (trim_space (env ''AP_CORS_ALLOW_ORIGINS''))
      in \<lparr>HTTPListen = getenv env ''AP_HTTP_LISTEN'' '':8080'',
               MetricsListen = env ''AP_METRICS_LISTEN'',
               DatabaseURL = env ''AP_DATABASE_URL'',
               RedisURL = env ''AP_REDIS_URL'',
               QueueBackend = go_lower (getenv env ''AP_QUEUE_BACKEND'' ''sql''),
               PublicBaseURL = trim_right_slash (env ''AP_PUBLIC_BASE_URL''),
               LocalUsername = hd usernames,
               LocalUsernames = usernames,
               FollowAutoAccept = (auto \<noteq> ''0'' \<and> auto \<noteq> ''false'' \<and> auto \<noteq> ''no''),
               ActorPrivateKeyPath = env ''AP_ACTOR_PRIVATE_KEY_PATH'',
               ActorPublicKeyPath = env ''AP_ACTOR_PUBLIC_KEY_PATH'',
               InboxMaxBody = getenvInt env ''AP_INBOX_MAX_BODY_BYTES'' 1048576,
               CreateObjectMaxFetchBytes = getenvInt env ''AP_INBOX_CREATE_OBJECT_MAX_FETCH_BYTES'' 1048576,
               FetchAllowHTTP = truthyEnv env ''AP_FETCH_ALLOW_HTTP'',
               FetchRelaxLocal = truthyEnv env ''AP_FETCH_RELAX_LOCAL'',
               OutboxPostSecret = env ''AP_OUTBOX_POST_SECRET'',
               MediaUploadSecret = env ''AP_MEDIA_UPLOAD_SECRET'',
               MediaMaxUploadBytes = getenvInt env ''AP_MEDIA_MAX_UPLOAD_BYTES'' 10485760,
               MediaMaxAttachmentsPerStatus = getenvInt env ''AP_MEDIA_MAX_ATTACHMENTS_PER_STATUS'' 4,
               MediaAllowedMIMETypes = comma_parts (go_lower (trim_space (env ''AP_MEDIA_ALLOWED_MIME_TYPES''))),
               MediaAsyncUpload = truthyEnv env ''AP_MEDIA_ASYNC_UPLOAD'',
               MediaDescriptionLimit = getenvInt env ''AP_MEDIA_DESCRIPTION_LIMIT'' 1500,
               RequireAuthorizedFetch = truthyEnv env ''AP_REQUIRE_AUTHORIZED_FETCH'',
               SignOutboundGET = truthyEnv env ''AP_SIGN_GET'',
               InstanceActorPrivateKeyPath = env ''AP_INSTANCE_ACTOR_PRIVATE_KEY_PATH'',
               BlobBackend = go_lower (getenv env ''AP_BLOB_BACKEND'' ''filesystem''),
               BlobFSRoot = getenv env ''AP_BLOB_FS_ROOT'' ''./blobdata'',
               BlobS3Bucket = env ''AP_BLOB_S3_BUCKET'',
               BlobS3Endpoint = env ''AP_BLOB_S3_ENDPOINT'',
               BlobS3Region = getenv env ''AP_BLOB_S3_REGION'' ''us-east-1'',
               WorkerConcurrency = getenvInt env ''AP_WORKER_CONCURRENCY'' 2,
               WorkerPollInterval = getenvDuration env ''AP_WORKER_POLL_INTERVAL'' 2000000000,
               DeliveryMaxAttempts = getenvInt env ''AP_DELIVERY_MAX_ATTEMPTS'' 25,
               DeliveryBackoffInitialSec = getenvInt env ''AP_DELIVERY_BACKOFF_INITIAL_SEC'' 30,
               DeliveryBackoffMaxSec = getenvInt env ''AP_DELIVERY_BACKOFF_MAX_SEC'' 86400,
               InstanceName = trim_space (env ''AP_INSTANCE_NAME''),
               InstanceDescription = trim_space (env ''AP_INSTANCE_DESCRIPTION''),
               OpenRegistrations = truthyEnv env ''AP_OPEN_REGISTRATIONS'',
               SoftwareVersion = getenv env ''AP_SOFTWARE_VERSION'' ''dev'',
               CORSAllowOrigins = cors\<rparr>)"

definition Load :: "(string \<Rightarrow> string) \<Rightarrow> err + config" where
  "Load env =
     (let c = env_config env
      in if QueueBackend c \<noteq> ''sql'' \<and> QueueBackend c \<noteq> ''redis''
         then Inl (Msg ''AP_QUEUE_BACKEND must be sql or redis'')
         else if BlobBackend c \<noteq> ''filesystem'' \<and> BlobBackend c \<noteq> ''s3''
         then Inl (Msg ''AP_BLOB_BACKEND must be filesystem or s3'')
         else if PublicBaseURL c \<noteq> [] \<and> url_parse (PublicBaseURL c) = None
         then Inl (Wrapped ''AP_PUBLIC_BASE_URL'' (Msg ''parse''))
         else Inr c)"

section \<open>Media limits\<close>

definition DefaultMediaAllowedMIMETypes :: "string list" where
  "DefaultMediaAllowedMIMETypes = [''image/jpeg'', ''image/png'', ''image/gif'', ''image/webp'']"

definition EffectiveMediaAllowedMIMETypes :: "config option \<Rightarrow> string list" where
  "EffectiveMediaAllowedMIMETypes co =
     (case co of
        None \<Rightarrow> DefaultMediaAllowedMIMETypes
      | Some c \<Rightarrow>
          (if MediaAllowedMIMETypes c = [] then DefaultMediaAllowedMIMETypes
           else let out = filter (\<lambda>m. m \<noteq> []) (map (\<lambda>m. trim_space (go_lower m)) (MediaAllowedMIMETypes c))
                in if out = [] then DefaultMediaAllowedMIMETypes else out))"

definition EffectiveMediaMaxAttachmentsPerStatus :: "config option \<Rightarrow> int" where
  "EffectiveMediaMaxAttachmentsPerStatus co =
     (let n = (case co of
                 None \<Rightarrow> 4
               | Some c \<Rightarrow> if MediaMaxAttachmentsPerStatus c > 0 then MediaMaxAttachmentsPerStatus c else 4)
      in if n < 1 then 1 else n)"

section \<open>Local identities\<close>

definition IsLocalUsername :: "config \<Rightarrow> string \<Rightarrow> bool" where
  "IsLocalUsername c name =
     (list_ex (\<lambda>u. u = name) (LocalUsernames c) \<or>
      (LocalUsernames c = [] \<and> LocalUsername c \<noteq> [] \<and> LocalUsername c = name))"

definition LocalActorProfileURL :: "config \<Rightarrow> string \<Rightarrow> string" where
  "LocalActorProfileURL c username = trim_right_slash (PublicBaseURL c) @ ''/@'' @ path_escape username"

definition LocalActorOutboxURL :: "config \<Rightarrow> string \<Rightarrow> string" where
  "LocalActorOutboxURL c username =
     trim_right_slash (PublicBaseURL c) @ ''/@'' @ path_escape username @ ''/outbox''"

definition LocalActorFollowersURL :: "config \<Rightarrow> string \<Rightarrow> string" where
  "LocalActorFollowersURL c username =
     trim_right_slash (PublicBaseURL c) @ ''/@'' @ path_escape username @ ''/followers''"

definition LocalActorFollowingURL :: "config \<Rightarrow> string \<Rightarrow> string" where
  "LocalActorFollowingURL c username =
     trim_right_slash (PublicBaseURL c) @ ''/@'' @ path_escape username @ ''/following''"

definition LocalActorInboxURL :: "config \<Rightarrow> string \<Rightarrow> string" where
  "LocalActorInboxURL c username =
     trim_right_slash (PublicBaseURL c) @ ''/@'' @ path_escape username @ ''/inbox''"

definition LocalSharedInboxURL :: "config \<Rightarrow> string" where
  "LocalSharedInboxURL c = trim_right_slash (PublicBaseURL c) @ ''/inbox''"

definition InstanceActorIRI :: "config \<Rightarrow> string" where
  "InstanceActorIRI c = trim_right_slash (PublicBaseURL c) @ ''/.well-known/actor''"

definition InstanceActorKeyID :: "config \<Rightarrow> string" where
  "InstanceActorKeyID c = InstanceActorIRI c @ ''#main-key''"

definition WebFingerTemplateURL :: "config \<Rightarrow> string" where
  "WebFingerTemplateURL c =
     trim_right_slash (trim_space (PublicBaseURL c)) @ ''/.well-known/webfinger?resource={uri}''"

definition InstanceDisplayName :: "config \<Rightarrow> string" where
  "InstanceDisplayName c =
     (if trim_space (InstanceName c) \<noteq> [] then trim_space (InstanceName c)
      else case url_parse (trim_space (PublicBaseURL c)) of
             Some u \<Rightarrow> if url_hostname u \<noteq> [] then url_hostname u else ''activitypub-core''
           | None \<Rightarrow> ''activitypub-core'')"

definition IsLocalActorFollowersOrFollowingCollectionIRI :: "config option \<Rightarrow> string \<Rightarrow> bool" where
  "IsLocalActorFollowersOrFollowingCollectionIRI co ref =
     (case co of
        None \<Rightarrow> False
      | Some c \<Rightarrow>
          (if trim_space (PublicBaseURL c) = [] then False
           else case url_parse (trim_space ref) of
             None \<Rightarrow> False
           | Some wantU \<Rightarrow>
               (if u_host wantU = [] then False
                else case url_parse (trim_right_slash (PublicBaseURL c)) of
                  None \<Rightarrow> False
                | Some baseU \<Rightarrow>
                    (if url_hostname baseU = [] then False
                     else if \<not> equal_fold (url_hostname wantU) (url_hostname baseU) then False
                     else let wantPath = trim_char (CHR ''/'') (u_path wantU);
                              usernames = (if LocalUsernames c = [] \<and> trim_space (LocalUsername c) \<noteq> []
                                           then [LocalUsername c] else LocalUsernames c);
                              same = (\<lambda>iri. case url_parse iri of
                                        None \<Rightarrow> False
                                      | Some fu \<Rightarrow> trim_char (CHR ''/'') (u_path fu) = wantPath)
                          in list_ex (\<lambda>u. same (LocalActorFollowersURL c u) \<or> same (LocalActorFollowingURL c u))
                               usernames))))"

definition IsAddressingThisInstanceInbox :: "config option \<Rightarrow> string \<Rightarrow> bool" where
  "IsAddressingThisInstanceInbox co ref =
     (case co of
        None \<Rightarrow> False
      | Some c \<Rightarrow>
          (if trim_space (PublicBaseURL c) = [] then False
           else let r = trim_right_slash (trim_space ref)
                in if r = [] then False
                   else if r = trim_right_slash (LocalSharedInboxURL c) then True
                   else if list_ex (\<lambda>u. r = trim_right_slash (LocalActorInboxURL c u)) (LocalUsernames c) then True
                   else if LocalUsernames c = [] \<and> trim_space (LocalUsername c) \<noteq> []
                   then r = trim_right_slash (LocalActorInboxURL c (LocalUsername c))
                   else False))"

definition LocalUsernameForActorURL :: "config \<Rightarrow> string \<Rightarrow> string option" where
  "LocalUsernameForActorURL c actorURL =
     (let want = trim_right_slash (trim_space actorURL)
      in case find (\<lambda>u. trim_right_slash (LocalActorProfileURL c u) = want) (LocalUsernames c) of
           Some u \<Rightarrow> Some u
         | None \<Rightarrow>
             (if LocalUsernames c = [] \<and> LocalUsername c \<noteq> [] \<and>
                 trim_right_slash (LocalActorProfileURL c (LocalUsername c)) = want
              then Some (LocalUsername c) else None))"

definition LocalUsernameForInboundFollowObject :: "config \<Rightarrow> string \<Rightarrow> string option" where
  "LocalUsernameForInboundFollowObject c objectIRI0 =
     (case LocalUsernameForActorURL c objectIRI0 of
        Some u \<Rightarrow> Some u
      | None \<Rightarrow>
          (let objectIRI = trim_space objectIRI0
           in if objectIRI = [] \<or> PublicBaseURL c = [] then None
              else case url_parse objectIRI of
                None \<Rightarrow> None
              | Some ob \<Rightarrow>
                  (if u_host ob = [] then None
                   else case url_parse (PublicBaseURL c) of
                     None \<Rightarrow> None
                   | Some base \<Rightarrow>
                       (if url_hostname base = [] then None
                        else if \<not> equal_fold (url_hostname ob) (url_hostname base) then None
                        else let path = trim_char (CHR ''/'') (u_path ob)
                             in if path = [] then None
                                else if has_prefix path ''@'' then
                                  (case path_unescape (cut_before (CHR ''/'') (trim_prefix path ''@'')) of
                                     None \<Rightarrow> None
                                   | Some hnd \<Rightarrow>
                                       if hnd \<noteq> [] \<and> IsLocalUsername c hnd then Some hnd else None)
                                else let parts = split_on (CHR ''/'') path
                                     in if length parts \<ge> 2 \<and> parts ! 0 = ''users'' then
                                          (case path_unescape (parts ! 1) of
                                             None \<Rightarrow> None
                                           | Some hnd \<Rightarrow>
                                               if hnd \<noteq> [] \<and> IsLocalUsername c hnd then Some hnd else None)
                                        else None))))"

definition RefAddressesLocalRecipient :: "config \<Rightarrow> string \<Rightarrow> bool" where
  "RefAddressesLocalRecipient c ref =
     (if LocalUsernameForInboundFollowObject c ref \<noteq> None then True
      else if PublicBaseURL c = [] then False
      else let inst = trim_space (InstanceActorIRI c)
           in if inst = [] then False
              else case (url_parse inst, url_parse (trim_space ref)) of
                     (Some uInst, Some uRef) \<Rightarrow>
                       u_host uInst \<noteq> [] \<and> u_host uRef \<noteq> [] \<and>
                       equal_fold (url_hostname uInst) (url_hostname uRef) \<and>
                       trim_right_slash (u_path uInst) = trim_right_slash (u_path uRef)
                   | _ \<Rightarrow> False)"

section \<open>What \<open>Load\<close> guarantees\<close>

lemma comma_parts_nonempty: "p \<in> set (comma_parts v) \<Longrightarrow> p \<noteq> [] \<and> trim_space p = p"
  by (auto simp: comma_parts_def split: if_splits)

definition config_wf :: "config \<Rightarrow> bool" where
  "config_wf c \<longleftrightarrow>
     LocalUsernames c \<noteq> [] \<and> [] \<notin> set (LocalUsernames c) \<and> LocalUsername c = hd (LocalUsernames c) \<and>
     QueueBackend c \<in> {''sql'', ''redis''} \<and> BlobBackend c \<in> {''filesystem'', ''s3''} \<and>
     trim_right_slash (PublicBaseURL c) = PublicBaseURL c \<and>
     (PublicBaseURL c \<noteq> [] \<longrightarrow> url_parse (PublicBaseURL c) \<noteq> None)"

text \<open>A loaded configuration has at least one local user, no empty one, and known backends.\<close>

lemma env_config_usernames:
  "LocalUsernames (env_config env) \<noteq> []" "[] \<notin> set (LocalUsernames (env_config env))"
  "LocalUsername (env_config env) = hd (LocalUsernames (env_config env))"
  using comma_parts_nonempty [of "[]" "trim_space (env ''AP_LOCAL_USERNAMES'')"]
  by (auto simp: env_config_def Let_def getenv_def)

lemma env_config_base: "trim_right_slash (PublicBaseURL (env_config env)) = PublicBaseURL (env_config env)"
  by (simp add: env_config_def Let_def)

lemma Load_ok: "Load env = Inr c \<Longrightarrow> c = env_config env"
  by (simp add: Load_def Let_def split: if_splits)

lemma Load_checks:
  "Load env = Inr c \<Longrightarrow> QueueBackend c \<in> {''sql'', ''redis''} \<and> BlobBackend c \<in> {''filesystem'', ''s3''} \<and>
     (PublicBaseURL c \<noteq> [] \<longrightarrow> url_parse (PublicBaseURL c) \<noteq> None)"
  by (cases "PublicBaseURL c = []") (auto simp: Load_def Let_def split: if_splits)

lemma Load_config_wf: "Load env = Inr c \<Longrightarrow> config_wf c"
  using Load_ok [of env c] Load_checks [of env c] env_config_usernames [of env] env_config_base [of env]
  unfolding config_wf_def by blast

lemma EffectiveMediaAllowedMIMETypes_nonempty: "EffectiveMediaAllowedMIMETypes co \<noteq> []"
  by (auto simp: EffectiveMediaAllowedMIMETypes_def DefaultMediaAllowedMIMETypes_def Let_def
    split: option.splits)

lemma EffectiveMediaMaxAttachments_pos: "EffectiveMediaMaxAttachmentsPerStatus co \<ge> 1"
  by (auto simp: EffectiveMediaMaxAttachmentsPerStatus_def Let_def split: option.splits)

section \<open>Resolving local IRIs\<close>

lemma IsLocalUsername_iff:
  "LocalUsernames c \<noteq> [] \<Longrightarrow> IsLocalUsername c u \<longleftrightarrow> u \<in> set (LocalUsernames c)"
  by (auto simp: IsLocalUsername_def list_ex_iff)

lemma LocalUsernameForActorURL_local:
  "LocalUsernameForActorURL c iri = Some u \<Longrightarrow> IsLocalUsername c u"
  by (auto simp: LocalUsernameForActorURL_def IsLocalUsername_def list_ex_iff Let_def
    dest: find_someD split: option.splits if_splits)

lemma LocalUsernameForInboundFollowObject_local:
  "LocalUsernameForInboundFollowObject c iri = Some u \<Longrightarrow> IsLocalUsername c u"
  by (auto simp: LocalUsernameForInboundFollowObject_def Let_def
    dest: LocalUsernameForActorURL_local split: option.splits if_splits)

lemma path_escape_last: "u \<noteq> [] \<Longrightarrow> last (path_escape u) \<noteq> CHR ''/''"
  by (metis last_in_set path_escape_eq_Nil path_escape_no_slash)

lemma trim_profile:
  "u \<noteq> [] \<Longrightarrow> trim_right_slash (LocalActorProfileURL c u) = LocalActorProfileURL c u"
  by (simp add: LocalActorProfileURL_def trim_right_char_id path_escape_last)

lemma LocalActorProfileURL_inj: "LocalActorProfileURL c u = LocalActorProfileURL c v \<Longrightarrow> u = v"
  by (simp add: LocalActorProfileURL_def path_escape_inj)

text \<open>A base IRI of a scheme and a plain host, without a port or a path.\<close>

definition plain_base :: "config \<Rightarrow> string \<Rightarrow> string \<Rightarrow> bool" where
  "plain_base c s h \<longleftrightarrow> s \<in> {''https'', ''http''} \<and> plain_host h \<and> PublicBaseURL c = http_url s h []"

lemma plain_base_trim: "plain_base c s h \<Longrightarrow> trim_right_slash (PublicBaseURL c) = PublicBaseURL c"
  unfolding plain_base_def http_url_def
  by (rule trim_right_char_id) (use plain_hostD [of h "last h"] in \<open>auto simp: plain_host_def\<close>)

lemma profile_http:
  "plain_base c s h \<Longrightarrow> LocalActorProfileURL c u = http_url s h (''/@'' @ path_escape u)"
  by (simp add: LocalActorProfileURL_def plain_base_trim) (simp add: plain_base_def http_url_def)

lemma graphic_path_escape: "c \<in> set (path_escape u) \<Longrightarrow> graphic c"
proof -
  assume "c \<in> set (path_escape u)"
  from path_escape_bytes [OF this] show ?thesis
    by (auto simp: graphic_def is_alnum_def Let_def)
qed

lemma trim_space_profile:
  assumes "plain_base c s h" "u \<noteq> []"
  shows "trim_space (LocalActorProfileURL c u) = LocalActorProfileURL c u"
proof (rule trim_space_graphic)
  show "LocalActorProfileURL c u \<noteq> []" by (simp add: LocalActorProfileURL_def)
  have "hd (LocalActorProfileURL c u) = CHR ''h''"
    using assms(1) by (auto simp: profile_http [OF assms(1)] plain_base_def http_url_def)
  then show "graphic (hd (LocalActorProfileURL c u))" by (simp add: graphic_def)
  show "graphic (last (LocalActorProfileURL c u))"
    using assms graphic_path_escape [of "last (path_escape u)" u] by (simp add: LocalActorProfileURL_def)
qed

text \<open>
  The profile IRI that is published for a local user resolves to that user, with and without
  trailing slashes.
\<close>

lemma find_unique: "x \<in> set xs \<Longrightarrow> P x \<Longrightarrow> (\<And>y. P y \<Longrightarrow> y = x) \<Longrightarrow> find P xs = Some x"
proof (induction xs)
  case Nil
  from Nil.prems(1) show ?case by simp
next
  case (Cons a xs)
  show ?case
  proof (cases "P a")
    case True
    then show ?thesis using Cons.prems(3) [OF True] by simp
  next
    case False
    then have "x \<in> set xs" using Cons.prems(1,2) by auto
    from Cons.IH [OF this Cons.prems(2)] Cons.prems(3) False show ?thesis by simp
  qed
qed

text \<open>
  The profile URL the server publishes for an account is resolved back to that account.
\<close>

theorem LocalUsernameForActorURL_profile:
  assumes "config_wf c" "plain_base c s h" "u \<in> set (LocalUsernames c)"
  shows "LocalUsernameForActorURL c (LocalActorProfileURL c u) = Some u"
proof -
  have u: "u \<noteq> []" using assms by (auto simp: config_wf_def)
  have "find (\<lambda>v. trim_right_slash (LocalActorProfileURL c v) = LocalActorProfileURL c u) (LocalUsernames c) = Some u"
  proof (rule find_unique)
    fix v assume v: "trim_right_slash (LocalActorProfileURL c v) = LocalActorProfileURL c u"
    show "v = u"
    proof (cases "v = []")
      case True
      have "LocalActorProfileURL c [] = trim_right_slash (PublicBaseURL c) @ ''/@''"
        using path_escape_eq_Nil [of "[]"] by (simp add: LocalActorProfileURL_def)
      then have "trim_right_slash (LocalActorProfileURL c []) = LocalActorProfileURL c []"
        using trim_right_char_append [of "''/@''" "CHR ''/''" "trim_right_slash (PublicBaseURL c)"] by simp
      with v True have "LocalActorProfileURL c v = LocalActorProfileURL c u" by simp
      then show ?thesis by (rule LocalActorProfileURL_inj)
    next
      case False
      with v have "LocalActorProfileURL c v = LocalActorProfileURL c u" by (simp add: trim_profile)
      then show ?thesis by (rule LocalActorProfileURL_inj)
    qed
  qed (use assms u in \<open>simp_all add: trim_profile\<close>)
  then show ?thesis
    by (simp add: LocalUsernameForActorURL_def trim_space_profile [OF assms(2) u] trim_profile [OF u])
qed

text \<open>An IRI that matches a local profile starts like one: the aliases are resolved by their path.\<close>

lemma LocalUsernameForActorURL_match:
  "LocalUsernameForActorURL c iri = Some u \<Longrightarrow>
   trim_right_slash (LocalActorProfileURL c u) = trim_right_slash (trim_space iri)"
  unfolding LocalUsernameForActorURL_def Let_def
  using find_someD [of "\<lambda>u. trim_right_slash (LocalActorProfileURL c u) = trim_right_slash (trim_space iri)"]
  by (simp split: option.splits if_splits)

lemma LocalUsernameForActorURL_prefix:
  assumes "LocalUsernameForActorURL c iri = Some u" "config_wf c"
  shows "trim_right_slash (trim_space iri) = trim_right_slash (PublicBaseURL c) @ ''/@'' @ path_escape u"
proof -
  have "u \<noteq> []"
    using LocalUsernameForActorURL_local [OF assms(1)] assms(2)
    by (auto simp: config_wf_def IsLocalUsername_def list_ex_iff)
  from trim_profile [OF this, of c] LocalUsernameForActorURL_match [OF assms(1)] show ?thesis
    unfolding LocalActorProfileURL_def by argo
qed

text \<open>
  Third-party forms of the same identity: any IRI of this host whose path is \<^verbatim>\<open>/users/<name>\<close> resolves to
  the local user, for either scheme, provided the name contains no slash and no percent sign
  (the code decodes such a name twice).
\<close>

definition simple_name :: "string \<Rightarrow> bool" where
  "simple_name u \<longleftrightarrow> u \<noteq> [] \<and> CHR ''/'' \<notin> set u \<and> CHR ''%'' \<notin> set u"

lemma path_unescape_simple: "simple_name u \<Longrightarrow> path_unescape u = Some u"
  by (simp add: simple_name_def path_unescape_def url_unescape_plain)

lemma plain_path_users: "plain_path (''/users/'' @ path_escape u)"
  using plain_path_escape [of u] by (auto simp: plain_path_def is_alnum_def Let_def)

lemma trim_char_no: "s \<noteq> [] \<Longrightarrow> hd s \<noteq> c \<Longrightarrow> last s \<noteq> c \<Longrightarrow> trim_char c (c # s) = s"
  by (cases s) (auto simp: trim_char_def trim_right_char_id)

lemma trim_space_http:
  "s \<in> {''https'', ''http''} \<Longrightarrow> p \<noteq> [] \<Longrightarrow> graphic (last p) \<Longrightarrow> trim_space (http_url s h p) = http_url s h p"
proof (rule trim_space_graphic)
  assume a: "s \<in> {''https'', ''http''}" "p \<noteq> []" "graphic (last p)"
  then show "http_url s h p \<noteq> []" "graphic (last (http_url s h p))" by (auto simp: http_url_def)
  from a have "hd (http_url s h p) = CHR ''h''" by (auto simp: http_url_def)
  then show "graphic (hd (http_url s h p))" by (simp add: graphic_def)
qed

lemma LocalUsernameForActorURL_users:
  assumes "config_wf c" "plain_base c s h" "s' \<in> {''https'', ''http''}" "simple_name u"
  shows "LocalUsernameForActorURL c (http_url s' h (''/users/'' @ path_escape u)) = None"
proof (rule ccontr)
  assume "\<not> ?thesis"
  then obtain v where v: "LocalUsernameForActorURL c (http_url s' h (''/users/'' @ path_escape u)) = Some v" by auto
  have u: "u \<noteq> []" using assms by (simp add: simple_name_def)
  have tr: "trim_space (http_url s' h (''/users/'' @ path_escape u)) = http_url s' h (''/users/'' @ path_escape u)"
    using assms(3) u graphic_path_escape [of "last (path_escape u)" u] by (intro trim_space_http) auto
  have "trim_right_slash (http_url s' h (''/users/'' @ path_escape u)) = http_url s' h (''/users/'' @ path_escape u)"
    unfolding http_url_def using u path_escape_last [of u] by (intro trim_right_char_id) auto
  with LocalUsernameForActorURL_prefix [OF v assms(1)] tr
  have "http_url s' h (''/users/'' @ path_escape u) = http_url s h [] @ ''/@'' @ path_escape v"
    using assms(2) plain_base_trim [OF assms(2)] by (simp add: plain_base_def)
  then show False using assms(2,3) by (auto simp: http_url_def plain_base_def)
qed

lemma LocalUsernameForInboundFollowObject_users:
  assumes "config_wf c" "plain_base c s h" "s' \<in> {''https'', ''http''}"
    "u \<in> set (LocalUsernames c)" "simple_name u"
  shows "LocalUsernameForInboundFollowObject c (http_url s' h (''/users/'' @ path_escape u)) = Some u"
proof -
  let ?p = "''/users/'' @ path_escape u" and ?iri = "http_url s' h (''/users/'' @ path_escape u)"
  have u: "u \<noteq> []" "CHR ''/'' \<notin> set u" using assms(5) by (auto simp: simple_name_def)
  have h: "plain_host h" using assms(2) by (simp add: plain_base_def)
  have tr: "trim_space ?iri = ?iri"
    using assms(3) u graphic_path_escape [of "last (path_escape u)" u] by (intro trim_space_http) auto
  have ne: "?iri \<noteq> []" "PublicBaseURL c \<noteq> []" using assms(2) by (auto simp: http_url_def plain_base_def)
  have path: "url_unescape EncPath ?p = Some (''/users/'' @ u)"
    using url_unescape_path_escape [of u "[]"] by simp
  have parse: "url_parse ?iri = Some (empty_url\<lparr>u_scheme := s', u_host := h, u_path := ''/users/'' @ u,
      u_rawpath := (if ?p = url_escape EncPath (''/users/'' @ u) then [] else ?p)\<rparr>)"
    by (rule url_parse_http [OF assms(3) h plain_path_users path])
  have base: "url_parse (PublicBaseURL c) = Some (empty_url\<lparr>u_scheme := s, u_host := h, u_path := [], u_rawpath := []\<rparr>)"
    using url_parse_http [of s h "[]" "[]"] assms(2)
    by (simp add: plain_base_def plain_path_def url_escape_def)
  have tc: "trim_char (CHR ''/'') (''/users/'' @ u) = ''users/'' @ u"
  proof -
    have "last u \<noteq> CHR ''/''" using u last_in_set [of u] by metis
    with u trim_char_no [of "''users/'' @ u" "CHR ''/''"] show ?thesis by simp
  qed
  have sp: "split_on (CHR ''/'') (''users/'' @ u) = [''users'', u]"
    using split_on_append [of "CHR ''/''" "''users''" u] split_on_id [of "CHR ''/''" "''users''"] split_on_id [OF u(2)] by simp
  have at: "\<not> has_prefix (''users/'' @ u) ''@''" by simp
  have hn: "url_hostname ob = h" if "u_host ob = h" for ob
    using url_hostname_plain [of ob] h that by simp
  have loc: "IsLocalUsername c u" using assms(1,4) by (auto simp: IsLocalUsername_iff config_wf_def)
  have hne: "h \<noteq> []" using h by (simp add: plain_host_def)
  show ?thesis
    unfolding LocalUsernameForInboundFollowObject_def
      LocalUsernameForActorURL_users [OF assms(1,2,3,5)] Let_def tr parse base
    using ne hne by (simp add: tc sp hn equal_fold_equiv path_unescape_simple [OF assms(5)] loc u at
      del: append.simps)
qed

end
