(* ===== verification/Fetch.thy ===== *)
theory Fetch
  imports HttpSig GoNet GoJson Config
begin

text \<open>
  \<^verbatim>\<open>internal/fetch\<close>: the policy for outbound requests (which URLs may be asked for, which addresses
  may be dialled), the resolution of a public key, of an inbox and of an object document.

  What the process cannot see is an argument: the HTTP client (an effect over a state of the
  world \<open>'w\<close>, so that the requests that are made can be counted and constrained), the resolver and
  the dialler, the JSON decoder, the PEM parser and the key file.  The lemmas show that no
  address of a private range is dialled under the strict policy, that every request of a
  resolution has passed the policy, and that a resolution makes at most five of them.
\<close>

section \<open>Policy\<close>

record policy =
  AllowHTTP :: bool
  relaxLocalFetch :: bool

definition TestingPolicy :: policy where
  "TestingPolicy = \<lparr>AllowHTTP = True, relaxLocalFetch = True\<rparr>"

definition PolicyFromConfig :: "config option \<Rightarrow> policy" where
  "PolicyFromConfig co =
     (case co of
        None \<Rightarrow> \<lparr>AllowHTTP = False, relaxLocalFetch = False\<rparr>
      | Some c \<Rightarrow>
          (if FetchRelaxLocal c then TestingPolicy
           else \<lparr>AllowHTTP = FetchAllowHTTP c, relaxLocalFetch = False\<rparr>))"

definition normalizeIP :: "ip option \<Rightarrow> ip option" where
  "normalizeIP ao =
     (case ao of None \<Rightarrow> None | Some a \<Rightarrow> (case To4 a of Some a4 \<Rightarrow> Some a4 | None \<Rightarrow> Some a))"

definition checkIP :: "policy \<Rightarrow> ip option \<Rightarrow> err + unit" where
  "checkIP p ao =
     (if relaxLocalFetch p then Inr ()
      else case normalizeIP ao of
             None \<Rightarrow> Inl (Msg ''nil IP'')
           | Some a \<Rightarrow>
               (if IsLoopback a \<or> IsPrivate a \<or> IsLinkLocalUnicast a \<or> IsLinkLocalMulticast a
                then Inl (Msg ''disallowed address'') else Inr ()))"

definition PreDialCheck :: "policy \<Rightarrow> url \<Rightarrow> err + unit" where
  "PreDialCheck p u =
     (if u_host u = [] then Inl (Msg ''fetch: missing host'')
      else let scheme = go_lower (u_scheme u)
           in if scheme \<noteq> ''http'' \<and> scheme \<noteq> ''https'' then Inl (Msg ''fetch: unsupported scheme'')
              else if scheme = ''http'' \<and> \<not> AllowHTTP p then Inl (Msg ''fetch: http disabled'')
              else let host = url_hostname u
                   in if host = [] then Inl (Msg ''fetch: missing host'')
                      else if relaxLocalFetch p then Inr ()
                      else case ParseIP host of Some a \<Rightarrow> checkIP p (Some a) | None \<Rightarrow> Inr ())"

definition CheckURL :: "policy \<Rightarrow> string \<Rightarrow> err + unit" where
  "CheckURL p raw =
     (case url_parse raw of None \<Rightarrow> Inl (Wrapped ''fetch: parse url'' (Msg ''parse'')) | Some u \<Rightarrow> PreDialCheck p u)"

definition CheckParsedURL :: "policy \<Rightarrow> url \<Rightarrow> err + unit" where
  "CheckParsedURL p u = PreDialCheck p u"

fun check_each :: "policy \<Rightarrow> ip list \<Rightarrow> err + unit" where
  "check_each p [] = Inr ()"
| "check_each p (a # as) =
     (case checkIP p (Some a) of Inl e \<Rightarrow> Inl (Wrapped ''fetch: host'' e) | Inr _ \<Rightarrow> check_each p as)"

definition validateAllResolvedIPs :: "policy \<Rightarrow> ip list \<Rightarrow> err + unit" where
  "validateAllResolvedIPs p ips =
     (if relaxLocalFetch p then Inr ()
      else if ips = [] then Inl (Msg ''fetch: no addresses'')
      else check_each p ips)"

text \<open>
  The two loops keep the first of equal addresses.  The code's key of an address is its printed
  form, which is injective on the addresses a resolver returns; here it is the address itself.
\<close>

fun uniq_ips :: "ip list \<Rightarrow> ip option list \<Rightarrow> ip list" where
  "uniq_ips out [] = out"
| "uniq_ips out (ao # as) =
     (case normalizeIP ao of
        None \<Rightarrow> uniq_ips out as
      | Some a \<Rightarrow> if a \<in> set out then uniq_ips out as else uniq_ips (out @ [a]) as)"

definition sortIPsPreferIPv4 :: "ip list \<Rightarrow> ip list" where
  "sortIPsPreferIPv4 ips =
     (let as = uniq_ips [] (map Some ips)
      in filter (\<lambda>a. To4 a \<noteq> None) as @ filter (\<lambda>a. To4 a = None) as)"

datatype target = DialHost string | DialIP ip

fun dial_each :: "(target \<Rightarrow> string \<Rightarrow> ('w, 'c) eff) \<Rightarrow> string \<Rightarrow> err option \<Rightarrow> ip list \<Rightarrow> ('w, 'c) eff" where
  "dial_each dial port last_err [] =
     (case last_err of Some e \<Rightarrow> fail e | None \<Rightarrow> fail (Msg ''fetch: could not connect''))"
| "dial_each dial port last_err (a # as) =
     handle (dial (DialIP a) port) (\<lambda>e. dial_each dial port (Some e) as) ret"

definition dialContext ::
  "policy \<Rightarrow> (string \<Rightarrow> err + ip option list) \<Rightarrow> (target \<Rightarrow> string \<Rightarrow> ('w, 'c) eff) \<Rightarrow> string \<Rightarrow> ('w, 'c) eff" where
  "dialContext p lookup dial addr =
     (case split_host_port addr of
        Inl e \<Rightarrow> fail (Wrapped ''fetch: dial'' e)
      | Inr (host, port) \<Rightarrow>
          (if relaxLocalFetch p then dial (DialHost host) port
           else case ParseIP host of
             Some a \<Rightarrow>
               (case checkIP p (Some a) of Inl e \<Rightarrow> fail e | Inr _ \<Rightarrow> dial (DialIP a) port)
           | None \<Rightarrow>
               (case lookup host of
                  Inl e \<Rightarrow> fail (Wrapped ''fetch: resolve'' e)
                | Inr addrs \<Rightarrow>
                    (let uniq = uniq_ips [] addrs
                     in case validateAllResolvedIPs p uniq of
                          Inl e \<Rightarrow> fail e
                        | Inr _ \<Rightarrow> dial_each dial port None (sortIPsPreferIPv4 uniq)))))"

section \<open>Requests and responses\<close>

record response =
  rs_status :: int
  rs_body :: string
  rs_read_err :: "err option"

type_synonym 'w client = "request \<Rightarrow> ('w, response) eff"

text \<open>\<^verbatim>\<open>checkingTransport.RoundTrip\<close>, which every hop of a redirect goes through as well.\<close>

definition RoundTrip :: "policy option \<Rightarrow> 'w client \<Rightarrow> 'w client" where
  "RoundTrip po inner req =
     (case po of
        None \<Rightarrow> inner req
      | Some p \<Rightarrow> (case PreDialCheck p (r_url req) of Inl e \<Rightarrow> fail e | Inr _ \<Rightarrow> inner req))"

text \<open>\<^verbatim>\<open>io.ReadAll(io.LimitReader(body, n))\<close>.\<close>

definition read_limited :: "response \<Rightarrow> int \<Rightarrow> err + string" where
  "read_limited rs n =
     (if int (length (rs_body rs)) \<ge> n then Inr (take (nat n) (rs_body rs))
      else case rs_read_err rs of Some e \<Rightarrow> Inl e | None \<Rightarrow> Inr (rs_body rs))"

record ('pub, 'priv) fetchenv = "('pub, 'priv) sigenv" +
  json_decode :: "string \<Rightarrow> json option"
  parse_pem :: "string \<Rightarrow> err + 'pub"
  load_private_key :: "string \<Rightarrow> err + 'priv"

definition actorAccept :: string where
  "actorAccept = ''application/activity+json, application/ld+json; profile='' @ [CHR 0x22] @
     ''https://www.w3.org/ns/activitystreams'' @ [CHR 0x22]"

definition PrepareActorGETRequest ::
  "('pub, 'priv) fetchenv \<Rightarrow> request \<Rightarrow> config option \<Rightarrow> err + request" where
  "PrepareActorGETRequest env req co =
     (case co of
        None \<Rightarrow> Inr req
      | Some c \<Rightarrow>
          (if \<not> SignOutboundGET c then Inr req
           else let path0 = trim_space (InstanceActorPrivateKeyPath c);
                    path = (if path0 = [] then trim_space (ActorPrivateKeyPath c) else path0)
                in if path = [] then Inl (Msg ''AP_SIGN_GET requires AP_INSTANCE_ACTOR_PRIVATE_KEY_PATH or AP_ACTOR_PRIVATE_KEY_PATH'')
                   else bind_res (wrap_err ''instance get signer'' (load_private_key env path)) (\<lambda>priv.
                        SignGet (sigenv.truncate env) req (InstanceActorKeyID c) priv)))"

text \<open>
  \<^verbatim>\<open>http.NewRequestWithContext(ctx, GET, raw, nil)\<close> with the two headers set: the URL is parsed again and
  its host is the request's.
\<close>

definition actor_get_request :: "string \<Rightarrow> err + request" where
  "actor_get_request raw =
     (case url_parse raw of
        None \<Rightarrow> Inl (Msg ''parse'')
      | Some u \<Rightarrow>
          Inr (req_set (req_set \<lparr>r_method = ''GET'', r_url = u, r_host = u_host u, r_header = (\<lambda>_. [])\<rparr>
                 ''Accept'' actorAccept) ''User-Agent'' ''activitypub-core/1.0''))"

text \<open>The steps the three resolvers share: build and sign the GET, send it, require status 200.\<close>

definition actor_get ::
  "('pub, 'priv) fetchenv \<Rightarrow> 'w client \<Rightarrow> config option \<Rightarrow> string \<Rightarrow> string \<Rightarrow> ('w, response) eff" where
  "actor_get env client co what raw =
     bind_eff (of_res (bind_res (actor_get_request raw) (\<lambda>r. PrepareActorGETRequest env r co))) (\<lambda>req.
     bind_eff (wrap_eff what (client req)) (\<lambda>rs.
       if rs_status rs \<noteq> 200 then fail (Msg what) else ret rs))"

section \<open>Public keys\<close>

definition keyIDsMatch :: "string \<Rightarrow> string \<Rightarrow> bool" where
  "keyIDsMatch docID keyID = (if docID = [] then False else docID = keyID)"

text \<open>\<^verbatim>\<open>publicKeyObj\<close>: the pair of \<^verbatim>\<open>id\<close> and \<^verbatim>\<open>publicKeyPem\<close>.\<close>

definition um_publicKeyObj :: "json \<Rightarrow> (string \<times> string) option" where
  "um_publicKeyObj j =
     (case (um_struct_string ''id'' j, um_struct_string ''publicKeyPem'' j) of
        (Some i, Some k) \<Rightarrow> Some (i, k)
      | _ \<Rightarrow> None)"

definition um_publicKeyObjs :: "json \<Rightarrow> (string \<times> string) list option" where
  "um_publicKeyObjs j =
     (case um_array j of
        None \<Rightarrow> None
      | Some xs \<Rightarrow> (let ks = map um_publicKeyObj xs in if None \<in> set ks then None else Some (map the ks)))"

definition select_key :: "json \<Rightarrow> string \<Rightarrow> err + string" where
  "select_key doc keyID =
     (case um_struct_raw ''publicKey'' doc of
        None \<Rightarrow> Inl (Wrapped ''decode actor json'' (Msg ''type''))
      | Some None \<Rightarrow> Inl (Msg ''actor missing publicKey'')
      | Some (Some pk) \<Rightarrow>
          (case (case um_publicKeyObj pk of Some (i, k) \<Rightarrow> if k \<noteq> [] then Some (i, k) else None | None \<Rightarrow> None) of
             Some (i, k) \<Rightarrow>
               (if \<not> keyIDsMatch i keyID then Inl (Msg ''actor publicKey.id does not match keyId'') else Inr k)
           | None \<Rightarrow>
               (case um_publicKeyObjs pk of
                  None \<Rightarrow> Inl (Wrapped ''publicKey shape'' (Msg ''type''))
                | Some multi \<Rightarrow>
                    (case find (\<lambda>k. keyIDsMatch (fst k) keyID \<and> snd k \<noteq> []) multi of
                       None \<Rightarrow> Inl (Msg ''no public key in actor matches keyId'')
                     | Some k \<Rightarrow> Inr (snd k)))))"

definition PublicKeyForKeyID ::
  "('pub, 'priv) fetchenv \<Rightarrow> 'w client \<Rightarrow> policy option \<Rightarrow> string \<Rightarrow> config option \<Rightarrow> ('w, 'pub) eff" where
  "PublicKeyForKeyID env client po keyID co =
     (case url_parse keyID of
        None \<Rightarrow> fail (Wrapped ''keyId URL'' (Msg ''parse''))
      | Some u \<Rightarrow>
          (if u_scheme u \<noteq> ''https'' \<and> u_scheme u \<noteq> ''http'' then fail (Msg ''keyId must be http(s)'')
           else let fetchURL = url_string (u\<lparr>u_fragment := []\<rparr>)
                in bind_eff (of_res (case po of None \<Rightarrow> Inr () | Some p \<Rightarrow> CheckURL p fetchURL)) (\<lambda>_.
                   bind_eff (actor_get env client co ''fetch actor'' fetchURL) (\<lambda>rs.
                   bind_eff (of_res (read_limited rs 2097152)) (\<lambda>raw.
                     case json_decode env raw of
                       None \<Rightarrow> fail (Wrapped ''decode actor json'' (Msg ''syntax''))
                     | Some doc \<Rightarrow> of_res (bind_res (select_key doc keyID) (parse_pem env)))))))"

section \<open>Inboxes\<close>

definition maxInboxResolutionSteps :: nat where
  "maxInboxResolutionSteps = 5"

definition looksLikeSharedInboxURL :: "url \<Rightarrow> bool" where
  "looksLikeSharedInboxURL u \<longleftrightarrow>
     has_suffix (trim_right_slash (u_path u)) ''/inbox'' \<or> contains (u_path u) ''/inbox/''"

text \<open>
  \<^verbatim>\<open>inboxURLFromReference\<close> and \<^verbatim>\<open>fetchActorInbox\<close> call each other; \<open>left\<close> is the number of fetches
  that remain, \<^verbatim>\<open>maxInboxResolutionSteps - fetchDepth\<close>.
\<close>

fun inboxURLFromReference ::
  "('pub, 'priv) fetchenv \<Rightarrow> 'w client \<Rightarrow> policy option \<Rightarrow> config option \<Rightarrow> nat \<Rightarrow> string list \<Rightarrow> string \<Rightarrow>
   ('w, string) eff" where
  "inboxURLFromReference env client po co left seen ref0 =
     (let ref = trim_space ref0
      in if ref = [] then fail (Msg ''empty inbox reference'')
         else case url_parse ref of
           None \<Rightarrow> fail (Msg ''invalid audience url'')
         | Some u0 \<Rightarrow>
             (if u_scheme u0 \<noteq> ''https'' \<and> u_scheme u0 \<noteq> ''http'' then fail (Msg ''invalid audience url'')
              else let u = u0\<lparr>u_fragment := []\<rparr>; canon = trim_right_slash (url_string u)
                   in if canon = [] then fail (Msg ''invalid audience url'')
                      else if canon \<in> set seen then fail (Msg ''inbox: resolution cycle'')
                      else bind_eff (of_res (case po of None \<Rightarrow> Inr () | Some p \<Rightarrow> CheckParsedURL p u)) (\<lambda>_.
                           if looksLikeSharedInboxURL u then ret canon
                           else case left of
                             0 \<Rightarrow> fail (Msg ''inbox: resolution exceeded 5 actor fetch(es)'')
                           | Suc left' \<Rightarrow>
                               bind_eff (actor_get env client co ''fetch actor'' canon) (\<lambda>rs.
                               bind_eff (of_res (read_limited rs 2097152)) (\<lambda>raw.
                               case Option.bind (json_decode env raw) (um_struct_string ''inbox'') of
                                 None \<Rightarrow> fail (Wrapped ''decode actor json'' (Msg ''syntax''))
                               | Some inbox \<Rightarrow>
                                   (if trim_space inbox = [] then fail (Msg ''actor missing inbox'')
                                    else inboxURLFromReference env client po co left' (canon # seen) inbox))))))"

declare inboxURLFromReference.simps [simp del]

definition InboxURLFromReference ::
  "('pub, 'priv) fetchenv \<Rightarrow> 'w client \<Rightarrow> policy option \<Rightarrow> string \<Rightarrow> config option \<Rightarrow> ('w, string) eff" where
  "InboxURLFromReference env client po ref co =
     inboxURLFromReference env client po co maxInboxResolutionSteps [] ref"

section \<open>Object documents\<close>

definition FetchActivityPubJSON ::
  "('pub, 'priv) fetchenv \<Rightarrow> 'w client option \<Rightarrow> policy option \<Rightarrow> string \<Rightarrow> config option \<Rightarrow> int \<Rightarrow> ('w, string) eff" where
  "FetchActivityPubJSON env clo po docURL0 co maxBytes0 =
     (case clo of
        None \<Rightarrow> fail (Msg ''fetch object: nil http client'')
      | Some client \<Rightarrow>
          (let docURL = trim_space docURL0
           in if docURL = [] then fail (Msg ''fetch object: empty url'')
              else case url_parse docURL of
                None \<Rightarrow> fail (Wrapped ''fetch object: parse'' (Msg ''parse''))
              | Some u \<Rightarrow>
                  bind_eff (of_res (case po of None \<Rightarrow> Inr () | Some p \<Rightarrow> CheckParsedURL p u)) (\<lambda>_.
                  bind_eff (actor_get env client co ''fetch object'' docURL) (\<lambda>rs.
                    let maxBytes = (if maxBytes0 < 1 then 1048576 else maxBytes0)
                    in bind_eff (of_res (read_limited rs (maxBytes + 1))) (\<lambda>raw.
                       if int (length raw) > maxBytes then fail (Msg ''fetch object: response too large'')
                       else ret raw)))))"

section \<open>What is sent into the network\<close>

text \<open>
  \<open>logged\<close> turns an answer into an effect that records what it was asked; \<open>grows k ok m\<close>: the log
  grows by at most \<open>k\<close> entries, each of which satisfies \<open>ok\<close>.
\<close>

definition logged :: "('q \<Rightarrow> err + 'r) \<Rightarrow> 'q \<Rightarrow> ('q list, 'r) eff" where
  "logged answer q w = (answer q, w @ [q])"

definition grows :: "nat \<Rightarrow> ('q \<Rightarrow> bool) \<Rightarrow> ('q list, 'a) eff \<Rightarrow> bool" where
  "grows k ok m \<longleftrightarrow> (\<forall>w. \<exists>ts. snd (m w) = w @ ts \<and> length ts \<le> k \<and> list_all ok ts)"

lemma growsD: "grows k ok m \<Longrightarrow> \<exists>ts. snd (m w) = w @ ts \<and> length ts \<le> k \<and> list_all ok ts"
  by (simp add: grows_def)

lemma grows_basic [simp]: "grows k ok (ret x)" "grows k ok (fail e)" "grows k ok (of_res r)"
  by (simp_all add: grows_def eff_simps)

lemma grows_logged: "ok q \<Longrightarrow> grows (Suc 0) ok (logged answer q)"
  by (simp add: grows_def logged_def)

lemma grows_mono: "grows j ok m \<Longrightarrow> j \<le> k \<Longrightarrow> grows k ok m"
  unfolding grows_def by (meson le_trans)

lemma grows_after:
  assumes "grows j ok m" "\<And>x. grows k ok (f x)" "\<And>w. \<exists>x. snd (h w) = snd (m w) \<or> snd (h w) = snd (f x (snd (m w)))"
  shows "grows (j + k) ok h"
  unfolding grows_def
proof
  fix w
  obtain ts where ts: "snd (m w) = w @ ts" "length ts \<le> j" "list_all ok ts" using growsD [OF assms(1)] by blast
  from assms(3) [of w] obtain x where "snd (h w) = snd (m w) \<or> snd (h w) = snd (f x (snd (m w)))" by blast
  then show "\<exists>ts. snd (h w) = w @ ts \<and> length ts \<le> j + k \<and> list_all ok ts"
  proof
    assume "snd (h w) = snd (m w)"
    with ts show ?thesis by auto
  next
    assume h: "snd (h w) = snd (f x (snd (m w)))"
    obtain us where "snd (f x (w @ ts)) = (w @ ts) @ us" "length us \<le> k" "list_all ok us"
      using growsD [OF assms(2)] by blast
    with h ts show ?thesis by (intro exI [of _ "ts @ us"]) auto
  qed
qed

lemma grows_bind: "grows j ok m \<Longrightarrow> (\<And>x. grows k ok (f x)) \<Longrightarrow> grows (j + k) ok (bind_eff m f)"
  by (erule grows_after) (auto simp: bind_apply split: sum.splits)

lemma grows_wrap: "grows j ok m \<Longrightarrow> grows j ok (wrap_eff e m)"
  by (simp add: grows_def wrap_eff_apply)

lemma grows_of_res_bind: "(\<And>x. r = Inr x \<Longrightarrow> grows k ok (f x)) \<Longrightarrow> grows k ok (bind_eff (of_res r) f)"
  by (cases r) (simp_all add: grows_def eff_simps)

lemma grows_handle:
  "grows j ok m \<Longrightarrow> (\<And>e. grows k ok (h e)) \<Longrightarrow> (\<And>x. grows k ok (f x)) \<Longrightarrow> grows (j + k) ok (handle m h f)"
  by (rule grows_after [where f = "\<lambda>r. case r of Inl e \<Rightarrow> h e | Inr x \<Rightarrow> f x"])
     (auto simp: handle_apply split: sum.splits intro: exI [of _ "Inl _"] exI [of _ "Inr _"])

text \<open>The addresses that the strict policy lets through.\<close>

definition public_ip :: "ip \<Rightarrow> bool" where
  "public_ip a \<longleftrightarrow> (case normalizeIP (Some a) of None \<Rightarrow> False
     | Some b \<Rightarrow> \<not> IsLoopback b \<and> \<not> IsPrivate b \<and> \<not> IsLinkLocalUnicast b \<and> \<not> IsLinkLocalMulticast b)"

lemma checkIP_public: "\<not> relaxLocalFetch p \<Longrightarrow> checkIP p (Some a) = Inr x \<longleftrightarrow> public_ip a"
  by (auto simp: checkIP_def public_ip_def split: option.splits)

lemma check_each_ok: "\<not> relaxLocalFetch p \<Longrightarrow> check_each p as = Inr x \<longleftrightarrow> list_all public_ip as"
proof (induction as)
  case (Cons a as)
  then show ?case
    using checkIP_public [OF Cons.prems, of a "()"] by (cases "checkIP p (Some a)") simp_all
qed simp

lemma set_uniq_ips: "set (uniq_ips out as) = set out \<union> {b. \<exists>a \<in> set as. normalizeIP a = Some b}"
proof (induction out as rule: uniq_ips.induct)
  case (2 out ao as)
  then show ?case by (cases "normalizeIP ao") (auto split: if_splits)
qed simp

lemma normalizeIP_idem: "normalizeIP ao = Some b \<Longrightarrow> normalizeIP (Some b) = Some b"
  by (auto simp: normalizeIP_def To4_def split: option.splits if_splits)

lemma set_sortIPs:
  "\<forall>a \<in> set as. normalizeIP (Some a) = Some a \<Longrightarrow> set (sortIPsPreferIPv4 as) = set as"
  by (fastforce simp: sortIPsPreferIPv4_def set_uniq_ips Let_def)

lemma distinct_uniq_ips: "distinct out \<Longrightarrow> distinct (uniq_ips out as)"
  by (induction out as rule: uniq_ips.induct) (auto split: option.splits)

lemma grows_dial_each:
  "list_all (\<lambda>a. ok (DialIP a, port)) as \<Longrightarrow>
   grows (length as) ok (dial_each (\<lambda>t q. logged answer (t, q)) port le as)"
proof (induction as arbitrary: le)
  case (Cons a as)
  then have "grows (Suc 0 + length as) ok
      (handle (logged answer (DialIP a, port)) (\<lambda>e. dial_each (\<lambda>t q. logged answer (t, q)) port (Some e) as) ret)"
    by (intro grows_handle grows_logged) simp_all
  then show ?case by simp
qed (simp split: option.split)


text \<open>
  It opens none at all when one of the addresses a name resolves to is not public.
\<close>

theorem dialContext_mixed:
  assumes "\<not> relaxLocalFetch p" "split_host_port addr = Inr (host, port)" "ParseIP host = None"
    "lookup host = Inr addrs" "Some a \<in> set addrs" "\<not> public_ip a"
  shows "snd (dialContext p lookup dial addr w) = w \<and> \<not> is_ok (fst (dialContext p lookup dial addr w))"
proof -
  obtain b where b: "normalizeIP (Some a) = Some b" 
    by (cases "To4 a") (auto simp: normalizeIP_def)
  then have "b \<in> set (uniq_ips [] addrs)" using assms(5) by (auto simp: set_uniq_ips)
  moreover have "\<not> public_ip b"
    using assms(6) b normalizeIP_idem [OF b] by (simp add: public_ip_def)
  ultimately have "validateAllResolvedIPs p (uniq_ips [] addrs) \<noteq> Inr ()"
    using assms(1) check_each_ok [OF assms(1), of "uniq_ips [] addrs" "()"]
    by (auto simp: validateAllResolvedIPs_def list_all_iff)
  then obtain e where "validateAllResolvedIPs p (uniq_ips [] addrs) = Inl e"
    by (cases "validateAllResolvedIPs p (uniq_ips [] addrs)") auto
  then show ?thesis
    using assms(1-4) by (simp_all add: dialContext_def Let_def eff_simps)
qed

section \<open>Resolution\<close>

text \<open>The client of the process: the transport checks every request before it leaves.\<close>

definition sent_ok :: "policy \<Rightarrow> request \<Rightarrow> bool" where
  "sent_ok p r \<longleftrightarrow> PreDialCheck p (r_url r) = Inr ()"

lemma grows_RoundTrip: "grows (Suc 0) (sent_ok p) (RoundTrip (Some p) (logged answer) req)"
proof (cases "PreDialCheck p (r_url req)")
  case (Inr x)
  then show ?thesis by (simp add: RoundTrip_def grows_logged sent_ok_def)
qed (simp add: RoundTrip_def)

lemma grows_actor_get:
  "grows (Suc 0) (sent_ok p) (actor_get env (RoundTrip (Some p) (logged answer)) co what raw)"
  unfolding actor_get_def
  by (rule grows_of_res_bind, rule grows_mono, rule grows_bind [where k = 0], rule grows_wrap, rule grows_RoundTrip)
     simp_all

lemma grows_inboxURLFromReference:
  "grows left (sent_ok p) (inboxURLFromReference env (RoundTrip (Some p) (logged answer)) po co left seen ref)"
proof (induction left arbitrary: po seen ref)
  case 0
  show ?case
    by (subst inboxURLFromReference.simps)
       (auto simp: Let_def split: option.split intro!: grows_of_res_bind)
next
  case (Suc left)
  have fetch: "grows (Suc left) (sent_ok p)
      (bind_eff (actor_get env (RoundTrip (Some p) (logged answer)) co ''fetch actor'' canon) (\<lambda>rs.
       bind_eff (of_res (read_limited rs 2097152)) (\<lambda>raw.
       case Option.bind (json_decode env raw) (um_struct_string ''inbox'') of
         None \<Rightarrow> fail (Wrapped ''decode actor json'' (Msg ''syntax''))
       | Some inbox \<Rightarrow>
           (if trim_space inbox = [] then fail (Msg ''actor missing inbox'')
            else inboxURLFromReference env (RoundTrip (Some p) (logged answer)) po co left (canon # seen) inbox))))"
    for po canon
    using grows_bind [OF grows_actor_get, where k = left] Suc.IH
    by (auto split: option.split intro!: grows_of_res_bind grows_bind [where j = "Suc 0" and k = left, simplified] grows_actor_get)
  show ?case
    by (subst inboxURLFromReference.simps)
       (auto simp: Let_def fetch split: option.split intro!: grows_of_res_bind)
qed


text \<open>What is returned is an inbox the policy allows, in canonical form.\<close>

definition inbox_result :: "policy option \<Rightarrow> string \<Rightarrow> bool" where
  "inbox_result po iri \<longleftrightarrow>
     (\<exists>u. iri = trim_right_slash (url_string u) \<and> iri \<noteq> [] \<and> looksLikeSharedInboxURL u \<and>
          u_scheme u \<in> {''https'', ''http''} \<and> (\<forall>p. po = Some p \<longrightarrow> PreDialCheck p u = Inr ()))"

lemma inbox_resultI:
  "trim_right_slash (url_string u) \<noteq> [] \<Longrightarrow> looksLikeSharedInboxURL u \<Longrightarrow> u_scheme u \<in> {''https'', ''http''} \<Longrightarrow>
   (\<And>p. po = Some p \<Longrightarrow> PreDialCheck p u = Inr ()) \<Longrightarrow> inbox_result po (trim_right_slash (url_string u))"
  unfolding inbox_result_def by blast

text \<open>
  The inbox that is found is an http(s) URL that looks like an inbox, is in canonical form
  and is allowed by the policy.
\<close>

theorem inboxURLFromReference_result:
  "fst (inboxURLFromReference env client po co left seen ref w) = Inr iri \<Longrightarrow> inbox_result po iri"
proof (induction left arbitrary: po seen ref w)
  case 0
  then show ?case
    by (subst (asm) inboxURLFromReference.simps)
       (auto simp: Let_def eff_simps CheckParsedURL_def intro!: inbox_resultI
         split: option.splits if_splits sum.splits)
next
  case (Suc left)
  from Suc.prems show ?case
    by (subst (asm) inboxURLFromReference.simps)
       (auto simp: Let_def eff_simps CheckParsedURL_def intro: inbox_resultI Suc.IH
         split: option.splits if_splits sum.splits)
qed

lemma FetchActivityPubJSON_size:
  assumes "fst (FetchActivityPubJSON env clo po docURL co maxBytes w) = Inr raw"
  shows "int (length raw) \<le> (if maxBytes < 1 then 1048576 else maxBytes)"
  using assms unfolding FetchActivityPubJSON_def
  by (auto simp: Let_def eff_simps split: option.splits if_splits sum.splits)

lemma um_publicKeyObjs_mem:
  assumes "um_publicKeyObjs pk = Some ks" "k \<in> set ks"
  shows "\<exists>x. um_publicKeyObj x = Some k"
proof -
  obtain xs x where "None \<notin> um_publicKeyObj ` set xs" "x \<in> set xs" "k = the (um_publicKeyObj x)"
    using assms by (auto simp: um_publicKeyObjs_def Let_def split: option.splits if_splits)
  then have "um_publicKeyObj x = Some k" by (metis image_eqI option.collapse)
  then show ?thesis ..
qed

lemma select_key_matches:
  assumes "select_key doc keyID = Inr pem"
  shows "keyID \<noteq> [] \<and> pem \<noteq> [] \<and> (\<exists>x. um_publicKeyObj x = Some (keyID, pem))"
proof -
  from assms obtain pk where pk: "um_struct_raw ''publicKey'' doc = Some (Some pk)"
    by (auto simp: select_key_def split: option.splits)
  consider i k where "um_publicKeyObj pk = Some (i, k)" "k \<noteq> []" "keyIDsMatch i keyID" "pem = k"
    | ks k where "um_publicKeyObjs pk = Some ks" "find (\<lambda>k. keyIDsMatch (fst k) keyID \<and> snd k \<noteq> []) ks = Some k"
        "pem = snd k"
    using assms pk by (auto simp: select_key_def split: option.splits if_splits prod.splits)
  then show ?thesis
  proof cases
    case 1
    then show ?thesis by (auto simp: keyIDsMatch_def split: if_splits)
  next
    case 2
    from find_someD [OF this(2)] have k: "keyIDsMatch (fst k) keyID" "snd k \<noteq> []" "k \<in> set ks" by auto
    with um_publicKeyObjs_mem [OF 2(1) k(3)] 2(3) show ?thesis
      by (cases k) (auto simp: keyIDsMatch_def split: if_splits)
  qed
qed

text \<open>The unspecified address, which reaches the host itself, is not among the refused ones.\<close>

lemma unspecified_is_public: "public_ip [0, 0, 0, 0]" "public_ip (replicate 16 0)"
  by code_simp+

end
