(* ===== verification/Db.thy ===== *)
theory Db
  imports GoJson
begin

text \<open>
  The database of \<^verbatim>\<open>db/migrations\<close>: one record per table the modelled code reads or writes, the
  constraints that the schema declares (\<open>db_wf\<close>) and the statements the store is built from.
  A statement that violates a unique or foreign key fails and changes nothing; \<open>upsert_on\<close> is
  \<^verbatim>\<open>INSERT ... ON CONFLICT (key) DO UPDATE\<close> on a table that has a second unique column, which
  the clause does not cover.  \<^verbatim>\<open>now()\<close> is the field \<open>d_now\<close>; serial columns draw from \<open>d_seq\<close>.
  Failures of the connection are not modelled.

  The locale \<open>upsert_table\<close> is the contract that the tables of follow, like, announce and block
  edges, of objects and of bookmarks share; it is interpreted on each of them.
\<close>

section \<open>Rows\<close>

record actor_row =
  a_id :: int
  a_username :: string
  a_domain :: string
  a_url :: string
  a_inbox :: string
  a_outbox :: string
  a_pem :: string
  a_priv :: "string option"

record activity_row =
  v_id :: int
  v_activity_id :: string
  v_actor :: int
  v_type :: string
  v_raw :: json
  v_deleted :: "int option"

record object_row =
  ob_id :: int
  ob_url :: string
  ob_actor :: int
  ob_type :: string
  ob_raw :: json
  ob_deleted :: "int option"

record follow_row =
  f_id :: int
  f_follower :: int
  f_followee :: int
  f_state :: string
  f_activity :: string

record edge_row =
  e_id :: int
  e_actor :: int
  e_object :: string
  e_activity :: string

record bookmark_row =
  bm_id :: int
  bm_actor :: int
  bm_status :: int
  bm_created :: int

record account_row =
  la_actor :: int
  la_hash :: string

datatype job_status = Pending | Processing | Done | Failed

record job_row =
  j_id :: int
  j_type :: string
  j_payload :: json
  j_key :: "string option"
  j_status :: job_status
  j_run_after :: int
  j_locked :: "int option"
  j_attempts :: int
  j_finished :: "int option"
  j_error :: "string option"

text \<open>
  The tables of the client API: OAuth applications, codes and tokens (secrets and tokens only as
  hashes), lists with their members, filters, uploaded media.
\<close>

record app_row =
  ap_id :: int
  ap_client_id :: string
  ap_secret_hash :: string
  ap_redirect_uris :: string
  ap_name :: string
  ap_website :: string
  ap_scopes :: string

record code_row =
  oc_id :: int
  oc_code :: string
  oc_app :: int
  oc_actor :: int
  oc_redirect_uri :: string
  oc_scopes :: string
  oc_challenge :: "string option"
  oc_method :: "string option"
  oc_expires :: int

record token_row =
  tk_id :: int
  tk_hash :: string
  tk_app :: int
  tk_actor :: "int option"
  tk_scopes :: string

record list_row =
  ml_id :: int
  ml_owner :: int
  ml_title :: string

record filter_row =
  mf_id :: int
  mf_owner :: int
  mf_phrase :: string
  mf_whole_word :: bool
  mf_irreversible :: bool
  mf_expires :: "int option"
  mf_home :: bool
  mf_notifications :: bool
  mf_public :: bool
  mf_thread :: bool
  mf_account :: bool

record media_row =
  md_id :: int
  md_actor :: int
  md_key :: string
  md_type :: string
  md_size :: int
  md_description :: "string option"
  md_sensitive :: bool
  md_state :: string

datatype table = TActors | TActivities | TObjects | TFollows | TLikes | TAnnounces | TBlocks | TBookmarks | TJobs
  | TApps | TCodes | TTokens | TLists | TFilters | TMedia

text \<open>The tables can be enumerated, so that the sequences of two databases can be compared.\<close>

instantiation table :: enum
begin

definition enum_table :: "table list" where
  "enum_table = [TActors, TActivities, TObjects, TFollows, TLikes, TAnnounces, TBlocks, TBookmarks, TJobs,
     TApps, TCodes, TTokens, TLists, TFilters, TMedia]"

definition enum_all_table :: "(table \<Rightarrow> bool) \<Rightarrow> bool" where
  "enum_all_table P \<longleftrightarrow> list_all P enum_class.enum"

definition enum_ex_table :: "(table \<Rightarrow> bool) \<Rightarrow> bool" where
  "enum_ex_table P \<longleftrightarrow> list_ex P enum_class.enum"

instance
proof
  have mem: "t \<in> set (enum_class.enum :: table list)" for t by (cases t) (simp_all add: enum_table_def)
  show "UNIV = set (enum_class.enum :: table list)" using mem by auto
  show "distinct (enum_class.enum :: table list)" by (simp add: enum_table_def)
  fix P :: "table \<Rightarrow> bool"
  show "enum_class.enum_all P \<longleftrightarrow> Ball UNIV P" using mem by (auto simp: enum_all_table_def list_all_iff)
  show "enum_class.enum_ex P \<longleftrightarrow> Bex UNIV P" using mem by (auto simp: enum_ex_table_def list_ex_iff)
qed

end

record db =
  d_now :: int
  d_seq :: "table \<Rightarrow> int"
  d_actors :: "actor_row list"
  d_activities :: "activity_row list"
  d_objects :: "object_row list"
  d_follows :: "follow_row list"
  d_likes :: "edge_row list"
  d_announces :: "edge_row list"
  d_blocks :: "edge_row list"
  d_bookmarks :: "bookmark_row list"
  d_accounts :: "account_row list"
  d_jobs :: "job_row list"
  d_apps :: "app_row list"
  d_codes :: "code_row list"
  d_tokens :: "token_row list"
  d_lists :: "list_row list"
  d_members :: "(int \<times> int) list"
  d_filters :: "filter_row list"
  d_media :: "media_row list"

definition nextval :: "table \<Rightarrow> db \<Rightarrow> int \<times> db" where
  "nextval t d = (d_seq d t, d\<lparr>d_seq := (d_seq d)(t := d_seq d t + 1)\<rparr>)"

definition actor_exists :: "db \<Rightarrow> int \<Rightarrow> bool" where
  "actor_exists d i = list_ex (\<lambda>a. a_id a = i) (d_actors d)"

definition activity_exists :: "db \<Rightarrow> int \<Rightarrow> bool" where
  "activity_exists d i = list_ex (\<lambda>v. v_id v = i) (d_activities d)"

section \<open>Statements\<close>

text \<open>\<^verbatim>\<open>ORDER BY id DESC\<close> and \<^verbatim>\<open>LIMIT n\<close>.\<close>

definition order_desc :: "('r \<Rightarrow> int) \<Rightarrow> 'r list \<Rightarrow> 'r list" where
  "order_desc f rs = rev (sort_key f rs)"

definition limit_rows :: "int \<Rightarrow> 'r list \<Rightarrow> 'r list" where
  "limit_rows n rs = take (nat n) rs"

definition insert_on :: "('r \<Rightarrow> 'a) \<Rightarrow> string \<Rightarrow> 'r \<Rightarrow> 'r list \<Rightarrow> err + 'r list" where
  "insert_on alt name new rs =
     (if list_ex (\<lambda>r. alt r = alt new) rs then Inl (UniqueViolation name) else Inr (rs @ [new]))"

definition upsert_on ::
  "('r \<Rightarrow> 'k) \<Rightarrow> ('r \<Rightarrow> 'a) \<Rightarrow> string \<Rightarrow> ('r \<Rightarrow> 'r) \<Rightarrow> 'r \<Rightarrow> 'r list \<Rightarrow> err + 'r list" where
  "upsert_on key alt name upd new rs =
     (case find (\<lambda>r. key r = key new) rs of
        None \<Rightarrow> insert_on alt name new rs
      | Some old \<Rightarrow>
          (if list_ex (\<lambda>r. key r \<noteq> key new \<and> alt r = alt (upd old)) rs then Inl (UniqueViolation name)
           else Inr (update_where (\<lambda>r. key r = key new) upd rs)))"

locale upsert_table =
  fixes key :: "'r \<Rightarrow> 'k" and alt :: "'r \<Rightarrow> 'a" and upd :: "'r \<Rightarrow> 'r \<Rightarrow> 'r"
  assumes key_upd: "key (upd new old) = key old"
begin

lemma upsert_cases:
  assumes "upsert_on key alt name (upd new) new rs = Inr rs'"
  obtains (inserted) "key new \<notin> key ` set rs" "alt new \<notin> alt ` set rs" "rs' = rs @ [new]"
  | (updated) old where "old \<in> set rs" "key old = key new"
      "\<forall>r \<in> set rs. key r \<noteq> key new \<longrightarrow> alt r \<noteq> alt (upd new old)"
      "rs' = update_where (\<lambda>r. key r = key new) (upd new) rs"
proof (cases "find (\<lambda>r. key r = key new) rs")
  case None
  with assms show ?thesis
    by (intro inserted) (auto simp: upsert_on_def insert_on_def list_ex_iff find_None_iff split: if_splits)
next
  case (Some old)
  with find_someD [OF Some] assms show ?thesis
    by (intro updated [of old]) (auto simp: upsert_on_def list_ex_iff split: if_splits)
qed

lemma map_key_update: "map key (update_where P (upd new) rs) = map key rs"
  by (rule update_where_map) (rule key_upd)

lemma upsert_distinct_key:
  "upsert_on key alt name (upd new) new rs = Inr rs' \<Longrightarrow> distinct (map key rs) \<Longrightarrow> distinct (map key rs')"
  by (erule upsert_cases) (auto simp: map_key_update)

lemma upsert_key_mem:
  "upsert_on key alt name (upd new) new rs = Inr rs' \<Longrightarrow> key ` set rs' = insert (key new) (key ` set rs)"
proof (erule upsert_cases)
  fix old assume "old \<in> set rs" "key old = key new"
    and r: "rs' = update_where (\<lambda>r. key r = key new) (upd new) rs"
  have "key ` set rs' = key ` set rs"
    unfolding r by (metis map_key_update set_map)
  with \<open>old \<in> set rs\<close> \<open>key old = key new\<close> show ?thesis by (metis image_eqI insert_absorb)
qed auto

lemma upsert_set:
  assumes "upsert_on key alt name (upd new) new rs = Inr rs'" "r' \<in> set rs'"
  shows "r' \<in> set rs \<and> key r' \<noteq> key new \<or> r' = new \<or> (\<exists>old \<in> set rs. key old = key new \<and> r' = upd new old)"
  using assms(1)
proof (cases rule: upsert_cases)
  case inserted
  with assms(2) show ?thesis by (auto simp: image_iff)
next
  case (updated old)
  with assms(2) show ?thesis by (auto simp: set_update_where)
qed

lemma upsert_keeps:
  assumes "upsert_on key alt name (upd new) new rs = Inr rs'" "r \<in> set rs" "key r \<noteq> key new"
  shows "r \<in> set rs'"
  using assms by (elim upsert_cases) (auto simp: set_update_where)

lemma upsert_distinct_alt:
  assumes "upsert_on key alt name (upd new) new rs = Inr rs'"
    and d: "distinct (map key rs)" "distinct (map alt rs)"
  shows "distinct (map alt rs')"
  using assms(1)
proof (cases rule: upsert_cases)
  case inserted
  with d show ?thesis by auto
next
  case (updated old)
  have same: "r = old" if "r \<in> set rs" "key r = key new" for r
    using distinct_map_inj [OF d(1) that(1) updated(1)] that updated(2) by simp
  have "inj_on alt (set rs')"
  proof (rule inj_onI)
    have mem: "z = upd new old \<or> (z \<in> set rs \<and> key z \<noteq> key new)" if "z \<in> set rs'" for z
      using that same unfolding updated(4) set_update_where by auto
    fix x y assume xy: "x \<in> set rs'" "y \<in> set rs'" "alt x = alt y"
    show "x = y"
      using mem [OF xy(1)] mem [OF xy(2)] xy(3) updated(3) distinct_map_inj [OF d(2), of x y] by metis
  qed
  moreover have "distinct rs'"
    using map_key_update [of "\<lambda>r. key r = key new" new rs] d(1) unfolding updated(4)
    by (metis distinct_map)
  ultimately show ?thesis by (simp add: distinct_map)
qed

lemma delete_distinct:
  "distinct (map key rs) \<Longrightarrow> distinct (map key (delete_where P rs))"
  "distinct (map alt rs) \<Longrightarrow> distinct (map alt (delete_where P rs))"
  by (rule distinct_map_delete_where, assumption)+

lemma upsert_present:
  assumes "upsert_on key alt name (upd new) new rs = Inr rs'" "\<And>old. alt (upd new old) = alt new"
  shows "\<exists>r \<in> set rs'. key r = key new \<and> alt r = alt new"
  using assms(1)
proof (cases rule: upsert_cases)
  case (updated old)
  then have "upd new old \<in> set rs'" by (auto simp: set_update_where)
  with updated(2) key_upd [of new old] assms(2) show ?thesis by auto
qed simp

end

section \<open>The constraints of the schema\<close>

definition actors_wf :: "int \<Rightarrow> actor_row list \<Rightarrow> bool" where
  "actors_wf n rs \<longleftrightarrow> distinct (map a_id rs) \<and> distinct (map a_url rs) \<and>
     distinct (map (\<lambda>a. (a_username a, a_domain a)) rs) \<and> (\<forall>r \<in> set rs. a_id r < n)"

definition activities_wf :: "int set \<Rightarrow> int \<Rightarrow> activity_row list \<Rightarrow> bool" where
  "activities_wf as n rs \<longleftrightarrow> distinct (map v_id rs) \<and> distinct (map v_activity_id rs) \<and>
     (\<forall>r \<in> set rs. v_id r < n \<and> v_actor r \<in> as)"

definition objects_wf :: "int set \<Rightarrow> object_row list \<Rightarrow> bool" where
  "objects_wf as rs \<longleftrightarrow> distinct (map ob_url rs) \<and> (\<forall>r \<in> set rs. ob_actor r \<in> as)"

definition follow_pair :: "follow_row \<Rightarrow> int \<times> int" where
  "follow_pair r = (f_follower r, f_followee r)"

definition follows_wf :: "int set \<Rightarrow> int \<Rightarrow> follow_row list \<Rightarrow> bool" where
  "follows_wf as n rs \<longleftrightarrow> distinct (map follow_pair rs) \<and> distinct (map f_activity rs) \<and> distinct (map f_id rs) \<and>
     (\<forall>r \<in> set rs. f_id r < n \<and> f_follower r \<in> as \<and> f_followee r \<in> as)"

definition edge_pair :: "edge_row \<Rightarrow> int \<times> string" where
  "edge_pair r = (e_actor r, e_object r)"

definition edges_wf :: "int set \<Rightarrow> edge_row list \<Rightarrow> bool" where
  "edges_wf as rs \<longleftrightarrow> distinct (map edge_pair rs) \<and> distinct (map e_activity rs) \<and>
     (\<forall>r \<in> set rs. e_actor r \<in> as)"

definition bookmark_pair :: "bookmark_row \<Rightarrow> int \<times> int" where
  "bookmark_pair r = (bm_actor r, bm_status r)"

definition bookmarks_wf :: "int set \<Rightarrow> int set \<Rightarrow> bookmark_row list \<Rightarrow> bool" where
  "bookmarks_wf as vs rs \<longleftrightarrow> distinct (map bookmark_pair rs) \<and>
     (\<forall>r \<in> set rs. bm_actor r \<in> as \<and> bm_status r \<in> vs)"

definition accounts_wf :: "int set \<Rightarrow> account_row list \<Rightarrow> bool" where
  "accounts_wf as rs \<longleftrightarrow> distinct (map la_actor rs) \<and> (\<forall>r \<in> set rs. la_actor r \<in> as)"

text \<open>The partial unique index covers the jobs whose key is neither null nor empty.\<close>

definition keyed_jobs :: "job_row list \<Rightarrow> job_row list" where
  "keyed_jobs rs = filter (\<lambda>j. j_key j \<noteq> None \<and> j_key j \<noteq> Some []) rs"

definition jobs_wf :: "int \<Rightarrow> job_row list \<Rightarrow> bool" where
  "jobs_wf n rs \<longleftrightarrow> distinct (map j_id rs) \<and> distinct (map j_key (keyed_jobs rs)) \<and> (\<forall>r \<in> set rs. j_id r < n)"

definition actor_ids :: "db \<Rightarrow> int set" where
  "actor_ids d = a_id ` set (d_actors d)"

definition activity_ids :: "db \<Rightarrow> int set" where
  "activity_ids d = v_id ` set (d_activities d)"

definition db_wf :: "db \<Rightarrow> bool" where
  "db_wf d \<longleftrightarrow>
     actors_wf (d_seq d TActors) (d_actors d) \<and>
     activities_wf (actor_ids d) (d_seq d TActivities) (d_activities d) \<and>
     objects_wf (actor_ids d) (d_objects d) \<and>
     follows_wf (actor_ids d) (d_seq d TFollows) (d_follows d) \<and>
     edges_wf (actor_ids d) (d_likes d) \<and> edges_wf (actor_ids d) (d_announces d) \<and>
     edges_wf (actor_ids d) (d_blocks d) \<and>
     bookmarks_wf (actor_ids d) (activity_ids d) (d_bookmarks d) \<and>
     accounts_wf (actor_ids d) (d_accounts d) \<and>
     jobs_wf (d_seq d TJobs) (d_jobs d)"

lemma actor_exists_iff: "actor_exists d i \<longleftrightarrow> i \<in> actor_ids d"
  by (auto simp: actor_exists_def actor_ids_def list_ex_iff)

lemma activity_exists_iff: "activity_exists d i \<longleftrightarrow> i \<in> activity_ids d"
  by (auto simp: activity_exists_def activity_ids_def list_ex_iff)

lemma ids_update [simp]:
  "actor_ids (d\<lparr>d_seq := s\<rparr>) = actor_ids d" "actor_ids (d\<lparr>d_activities := v\<rparr>) = actor_ids d"
  "actor_ids (d\<lparr>d_objects := ob\<rparr>) = actor_ids d" "actor_ids (d\<lparr>d_follows := f\<rparr>) = actor_ids d"
  "actor_ids (d\<lparr>d_likes := e\<rparr>) = actor_ids d" "actor_ids (d\<lparr>d_announces := e\<rparr>) = actor_ids d"
  "actor_ids (d\<lparr>d_blocks := e\<rparr>) = actor_ids d" "actor_ids (d\<lparr>d_bookmarks := b\<rparr>) = actor_ids d"
  "actor_ids (d\<lparr>d_accounts := l\<rparr>) = actor_ids d" "actor_ids (d\<lparr>d_jobs := j\<rparr>) = actor_ids d"
  "actor_ids (d\<lparr>d_now := t\<rparr>) = actor_ids d"
  "actor_ids (d\<lparr>d_apps := x_apps\<rparr>) = actor_ids d" "activity_ids (d\<lparr>d_apps := x_apps\<rparr>) = activity_ids d"
  "actor_ids (d\<lparr>d_codes := x_codes\<rparr>) = actor_ids d" "activity_ids (d\<lparr>d_codes := x_codes\<rparr>) = activity_ids d"
  "actor_ids (d\<lparr>d_tokens := x_tokens\<rparr>) = actor_ids d" "activity_ids (d\<lparr>d_tokens := x_tokens\<rparr>) = activity_ids d"
  "actor_ids (d\<lparr>d_lists := x_lists\<rparr>) = actor_ids d" "activity_ids (d\<lparr>d_lists := x_lists\<rparr>) = activity_ids d"
  "actor_ids (d\<lparr>d_members := x_members\<rparr>) = actor_ids d" "activity_ids (d\<lparr>d_members := x_members\<rparr>) = activity_ids d"
  "actor_ids (d\<lparr>d_filters := x_filters\<rparr>) = actor_ids d" "activity_ids (d\<lparr>d_filters := x_filters\<rparr>) = activity_ids d"
  "actor_ids (d\<lparr>d_media := x_media\<rparr>) = actor_ids d" "activity_ids (d\<lparr>d_media := x_media\<rparr>) = activity_ids d"
  "activity_ids (d\<lparr>d_seq := s\<rparr>) = activity_ids d" "activity_ids (d\<lparr>d_actors := a\<rparr>) = activity_ids d"
  "activity_ids (d\<lparr>d_objects := ob\<rparr>) = activity_ids d" "activity_ids (d\<lparr>d_follows := f\<rparr>) = activity_ids d"
  "activity_ids (d\<lparr>d_likes := e\<rparr>) = activity_ids d" "activity_ids (d\<lparr>d_announces := e\<rparr>) = activity_ids d"
  "activity_ids (d\<lparr>d_blocks := e\<rparr>) = activity_ids d" "activity_ids (d\<lparr>d_bookmarks := b\<rparr>) = activity_ids d"
  "activity_ids (d\<lparr>d_accounts := l\<rparr>) = activity_ids d" "activity_ids (d\<lparr>d_jobs := j\<rparr>) = activity_ids d"
  "activity_ids (d\<lparr>d_now := t\<rparr>) = activity_ids d"
  by (simp_all add: actor_ids_def activity_ids_def)

text \<open>Rows are added to the actors table and never removed: the references to it stay valid.\<close>

lemma wf_more_actors:
  assumes "as \<subseteq> as'"
  shows "activities_wf as n vs \<Longrightarrow> activities_wf as' n vs" "objects_wf as obs \<Longrightarrow> objects_wf as' obs"
    "follows_wf as n fs \<Longrightarrow> follows_wf as' n fs" "edges_wf as es \<Longrightarrow> edges_wf as' es"
    "bookmarks_wf as xs bs \<Longrightarrow> bookmarks_wf as' xs bs" "accounts_wf as ls \<Longrightarrow> accounts_wf as' ls"
  using assms
  by (auto simp: activities_wf_def objects_wf_def follows_wf_def edges_wf_def bookmarks_wf_def accounts_wf_def)

lemma wf_more_activities: "xs \<subseteq> xs' \<Longrightarrow> bookmarks_wf as xs bs \<Longrightarrow> bookmarks_wf as xs' bs"
  by (auto simp: bookmarks_wf_def)

lemma wf_delete:
  "follows_wf as n fs \<Longrightarrow> follows_wf as n (delete_where p fs)"
  "edges_wf as es \<Longrightarrow> edges_wf as (delete_where q es)"
  "bookmarks_wf as xs bs \<Longrightarrow> bookmarks_wf as xs (delete_where u bs)"
  by (auto simp: follows_wf_def edges_wf_def bookmarks_wf_def intro: distinct_map_delete_where)

end
