(* ===== verification/StoreEdges.thy ===== *)
theory StoreEdges
  imports Db
begin

text \<open>
  \<^verbatim>\<open>store/follows.go\<close>, \<^verbatim>\<open>store/federated_interactions.go\<close>, \<^verbatim>\<open>store/federated_objects.go\<close>,
  \<^verbatim>\<open>store/social_counts.go\<close> and \<^verbatim>\<open>store/bookmarks.go\<close>: the edges between actors and objects, the
  copies of federated objects and the bookmarks.  Every operation is a statement over the tables of
  \<open>Db\<close>; \<open>upsert_table\<close> is interpreted on the five tables that are written by an upsert, and every
  operation preserves the constraints (\<open>db_wf\<close>).
\<close>

definition CanonicalActorURL :: "string \<Rightarrow> string" where
  "CanonicalActorURL s = trim_right_slash (trim_space s)"

section \<open>Follows\<close>

definition FollowStatePending :: string where "FollowStatePending = ''pending''"
definition FollowStateAccepted :: string where "FollowStateAccepted = ''accepted''"
definition FollowStateRejected :: string where "FollowStateRejected = ''rejected''"
definition FollowStatePendingRemote :: string where "FollowStatePendingRemote = ''pending_remote''"
definition FollowStateUndone :: string where "FollowStateUndone = ''undone''"

definition follow_upd :: "follow_row \<Rightarrow> follow_row \<Rightarrow> follow_row" where
  "follow_upd new old = old\<lparr>f_state := f_state new, f_activity := f_activity new\<rparr>"

definition UpsertFollow :: "int \<Rightarrow> int \<Rightarrow> string \<Rightarrow> string \<Rightarrow> (db, unit) eff" where
  "UpsertFollow followerID followeeID followActivityID state =
     (if followActivityID = [] then fail (Msg ''follow activity id required'')
      else statement (\<lambda>d0.
        case nextval TFollows d0 of (i, d) \<Rightarrow>
          (let new = \<lparr>f_id = i, f_follower = followerID, f_followee = followeeID, f_state = state,
                      f_activity = followActivityID\<rparr>
           in bind_res (upsert_on follow_pair f_activity ''follows'' (follow_upd new) new (d_follows d)) (\<lambda>rs.
              if \<not> actor_exists d followerID \<or> \<not> actor_exists d followeeID
              then Inl (ForeignKeyViolation ''follows'') else Inr ((), d\<lparr>d_follows := rs\<rparr>)))))"

definition SetFollowStateByFollowActivityID :: "string \<Rightarrow> string \<Rightarrow> (db, unit) eff" where
  "SetFollowStateByFollowActivityID followActivityID state =
     statement (\<lambda>d. Inr ((), d\<lparr>d_follows :=
       update_where (\<lambda>f. f_activity f = followActivityID) (\<lambda>f. f\<lparr>f_state := state\<rparr>) (d_follows d)\<rparr>))"

definition SetFollowStateByFollowActivityIDForFollower :: "string \<Rightarrow> string \<Rightarrow> int \<Rightarrow> (db, unit) eff" where
  "SetFollowStateByFollowActivityIDForFollower followActivityID state followerActorID =
     statement (\<lambda>d. Inr ((), d\<lparr>d_follows :=
       update_where (\<lambda>f. f_activity f = followActivityID \<and> f_follower f = followerActorID)
         (\<lambda>f. f\<lparr>f_state := state\<rparr>) (d_follows d)\<rparr>))"

definition active_state :: "string \<Rightarrow> bool" where
  "active_state s = (s = ''accepted'' \<or> s = ''pending'' \<or> s = ''pending_remote'')"

definition LookupActiveFollowForUndo :: "int \<Rightarrow> int \<Rightarrow> (db, (string \<times> string) option) eff" where
  "LookupActiveFollowForUndo followerID followeeID =
     query (\<lambda>d. case find (\<lambda>f. f_follower f = followerID \<and> f_followee f = followeeID \<and> active_state (f_state f))
                  (d_follows d) of
        None \<Rightarrow> Inr None
      | Some f \<Rightarrow>
          (case find (\<lambda>a. a_id a = f_followee f) (d_actors d) of
             None \<Rightarrow> Inr None
           | Some a \<Rightarrow> Inr (Some (f_activity f, trim_right_slash (a_url a)))))"

definition DeleteFollowByPair :: "int \<Rightarrow> int \<Rightarrow> (db, unit) eff" where
  "DeleteFollowByPair followerID followeeID =
     statement (\<lambda>d. Inr ((), d\<lparr>d_follows :=
       delete_where (\<lambda>f. f_follower f = followerID \<and> f_followee f = followeeID) (d_follows d)\<rparr>))"

definition DeleteFollowByFollowActivityID :: "string \<Rightarrow> (db, unit) eff" where
  "DeleteFollowByFollowActivityID followActivityIRI =
     statement (\<lambda>d. Inr ((), d\<lparr>d_follows := delete_where (\<lambda>f. f_activity f = followActivityIRI) (d_follows d)\<rparr>))"

text \<open>\<^verbatim>\<open>tag.RowsAffected()\<close> is the value of the next four; the store's functions drop it.\<close>

definition delete_follows :: "string \<Rightarrow> int \<Rightarrow> (db, nat) eff" where
  "delete_follows iri actor =
     statement (\<lambda>d. let p = (\<lambda>f. f_activity f = iri \<and> f_follower f = actor)
       in Inr (count_where p (d_follows d), d\<lparr>d_follows := delete_where p (d_follows d)\<rparr>))"

definition own_edge :: "string \<Rightarrow> int \<Rightarrow> edge_row \<Rightarrow> bool" where
  "own_edge iri actor e \<longleftrightarrow> e_activity e = iri \<and> e_actor e = actor"

definition delete_likes :: "string \<Rightarrow> int \<Rightarrow> (db, nat) eff" where
  "delete_likes iri actor =
     statement (\<lambda>d. Inr (count_where (own_edge iri actor) (d_likes d),
                         d\<lparr>d_likes := delete_where (own_edge iri actor) (d_likes d)\<rparr>))"

definition delete_announces :: "string \<Rightarrow> int \<Rightarrow> (db, nat) eff" where
  "delete_announces iri actor =
     statement (\<lambda>d. Inr (count_where (own_edge iri actor) (d_announces d),
                         d\<lparr>d_announces := delete_where (own_edge iri actor) (d_announces d)\<rparr>))"

definition delete_blocks :: "string \<Rightarrow> int \<Rightarrow> (db, nat) eff" where
  "delete_blocks iri actor =
     statement (\<lambda>d. Inr (count_where (own_edge iri actor) (d_blocks d),
                         d\<lparr>d_blocks := delete_where (own_edge iri actor) (d_blocks d)\<rparr>))"

definition DeleteFollowByFollowActivityIDForFollower :: "string \<Rightarrow> int \<Rightarrow> (db, unit) eff" where
  "DeleteFollowByFollowActivityIDForFollower iri followerActorID = bind_eff (delete_follows iri followerActorID) (\<lambda>_. ret ())"

definition FollowExistsBetween :: "int \<Rightarrow> int \<Rightarrow> (db, bool) eff" where
  "FollowExistsBetween followerID followeeID =
     query (\<lambda>d. Inr (count_where (\<lambda>f. f_follower f = followerID \<and> f_followee f = followeeID \<and> active_state (f_state f))
       (d_follows d) > 0))"

definition GetFollowState :: "int \<Rightarrow> int \<Rightarrow> (db, string) eff" where
  "GetFollowState followerID followeeID =
     query (\<lambda>d. case select_one (\<lambda>f. f_follower f = followerID \<and> f_followee f = followeeID) (d_follows d) of
       Inl e \<Rightarrow> Inl e | Inr f \<Rightarrow> Inr (f_state f))"

section \<open>Likes, announces, blocks\<close>

definition edge_upd :: "edge_row \<Rightarrow> edge_row \<Rightarrow> edge_row" where
  "edge_upd new old = old\<lparr>e_activity := e_activity new\<rparr>"

definition upsert_edge :: "string \<Rightarrow> int \<Rightarrow> int \<Rightarrow> string \<Rightarrow> string \<Rightarrow> edge_row list \<Rightarrow> err + edge_row list" where
  "upsert_edge name i actor ob act rs =
     (let new = \<lparr>e_id = i, e_actor = actor, e_object = ob, e_activity = act\<rparr>
      in upsert_on edge_pair e_activity name (edge_upd new) new rs)"

definition UpsertFederatedLike :: "int \<Rightarrow> string \<Rightarrow> string \<Rightarrow> (db, unit) eff" where
  "UpsertFederatedLike actorID objectURL likeActivityID =
     (if objectURL = [] \<or> likeActivityID = [] then fail (Msg ''like object url and activity id required'')
      else statement (\<lambda>d0. case nextval TLikes d0 of (i, d) \<Rightarrow>
        bind_res (upsert_edge ''federated_likes'' i actorID objectURL likeActivityID (d_likes d)) (\<lambda>rs.
          if \<not> actor_exists d actorID then Inl (ForeignKeyViolation ''federated_likes'')
          else Inr ((), d\<lparr>d_likes := rs\<rparr>))))"

definition UpsertFederatedAnnounce :: "int \<Rightarrow> string \<Rightarrow> string \<Rightarrow> (db, unit) eff" where
  "UpsertFederatedAnnounce actorID objectURL announceActivityID =
     (if objectURL = [] \<or> announceActivityID = [] then fail (Msg ''announce object url and activity id required'')
      else statement (\<lambda>d0. case nextval TAnnounces d0 of (i, d) \<Rightarrow>
        bind_res (upsert_edge ''federated_announces'' i actorID objectURL announceActivityID (d_announces d)) (\<lambda>rs.
          if \<not> actor_exists d actorID then Inl (ForeignKeyViolation ''federated_announces'')
          else Inr ((), d\<lparr>d_announces := rs\<rparr>))))"

definition UpsertFederatedBlock :: "int \<Rightarrow> string \<Rightarrow> string \<Rightarrow> (db, unit) eff" where
  "UpsertFederatedBlock blockerActorID blockedActorURL blockActivityID =
     (if blockedActorURL = [] \<or> blockActivityID = [] then fail (Msg ''block target and activity id required'')
      else statement (\<lambda>d0. case nextval TBlocks d0 of (i, d) \<Rightarrow>
        bind_res (upsert_edge ''federated_blocks'' i blockerActorID (CanonicalActorURL blockedActorURL)
                    blockActivityID (d_blocks d)) (\<lambda>rs.
          if \<not> actor_exists d blockerActorID then Inl (ForeignKeyViolation ''federated_blocks'')
          else Inr ((), d\<lparr>d_blocks := rs\<rparr>))))"

definition DeleteFederatedLikeByActivityID :: "string \<Rightarrow> int \<Rightarrow> (db, unit) eff" where
  "DeleteFederatedLikeByActivityID iri actor = bind_eff (delete_likes iri actor) (\<lambda>_. ret ())"

definition DeleteFederatedAnnounceByActivityID :: "string \<Rightarrow> int \<Rightarrow> (db, unit) eff" where
  "DeleteFederatedAnnounceByActivityID iri actor = bind_eff (delete_announces iri actor) (\<lambda>_. ret ())"

definition DeleteFederatedBlockByActivityID :: "string \<Rightarrow> int \<Rightarrow> (db, unit) eff" where
  "DeleteFederatedBlockByActivityID iri actor = bind_eff (delete_blocks iri actor) (\<lambda>_. ret ())"

section \<open>Counts\<close>

definition CountFederatedLikesOnObjectURL :: "string \<Rightarrow> (db, nat) eff" where
  "CountFederatedLikesOnObjectURL objectURL =
     query (\<lambda>d. Inr (count_where (\<lambda>e. e_object e = CanonicalActorURL objectURL) (d_likes d)))"

definition CountFederatedAnnouncesOnObjectURL :: "string \<Rightarrow> (db, nat) eff" where
  "CountFederatedAnnouncesOnObjectURL objectURL =
     query (\<lambda>d. Inr (count_where (\<lambda>e. e_object e = CanonicalActorURL objectURL) (d_announces d)))"

definition edge_activity_id :: "int \<Rightarrow> string \<Rightarrow> edge_row list \<Rightarrow> err + string" where
  "edge_activity_id actorID objectURL rs =
     (case select_one (\<lambda>e. e_actor e = actorID \<and> e_object e = CanonicalActorURL objectURL) rs of
        Inl e \<Rightarrow> Inl e | Inr e \<Rightarrow> Inr (e_activity e))"

definition FederatedLikeActivityID :: "int \<Rightarrow> string \<Rightarrow> (db, string) eff" where
  "FederatedLikeActivityID actorID objectURL = query (\<lambda>d. edge_activity_id actorID objectURL (d_likes d))"

definition FederatedAnnounceActivityID :: "int \<Rightarrow> string \<Rightarrow> (db, string) eff" where
  "FederatedAnnounceActivityID actorID objectURL = query (\<lambda>d. edge_activity_id actorID objectURL (d_announces d))"

definition ActorHasLikedObject :: "int \<Rightarrow> string \<Rightarrow> (db, bool) eff" where
  "ActorHasLikedObject actorID objectURL =
     query (\<lambda>d. Inr (count_where (\<lambda>e. e_actor e = actorID \<and> e_object e = CanonicalActorURL objectURL) (d_likes d) > 0))"

definition ActorHasAnnouncedObject :: "int \<Rightarrow> string \<Rightarrow> (db, bool) eff" where
  "ActorHasAnnouncedObject actorID objectURL =
     query (\<lambda>d. Inr (count_where (\<lambda>e. e_actor e = actorID \<and> e_object e = CanonicalActorURL objectURL) (d_announces d) > 0))"

definition clamp_limit :: "int \<Rightarrow> int \<Rightarrow> int \<Rightarrow> int" where
  "clamp_limit def cap n = (let m = (if n \<le> 0 then def else n) in if m > cap then cap else m)"

definition ListActorIDsWhoLikedObject :: "string \<Rightarrow> int \<Rightarrow> (db, int list) eff" where
  "ListActorIDsWhoLikedObject objectURL lim =
     query (\<lambda>d. Inr (map e_actor (limit_rows (clamp_limit 40 80 lim)
       (order_desc e_id (filter (\<lambda>e. e_object e = CanonicalActorURL objectURL) (d_likes d))))))"

definition ListActorIDsWhoAnnouncedObject :: "string \<Rightarrow> int \<Rightarrow> (db, int list) eff" where
  "ListActorIDsWhoAnnouncedObject objectURL lim =
     query (\<lambda>d. Inr (map e_actor (limit_rows (clamp_limit 40 80 lim)
       (order_desc e_id (filter (\<lambda>e. e_object e = CanonicalActorURL objectURL) (d_announces d))))))"

section \<open>Federated objects\<close>

definition object_upd :: "object_row \<Rightarrow> object_row \<Rightarrow> object_row" where
  "object_upd new old = old\<lparr>ob_actor := ob_actor new, ob_type := ob_type new, ob_raw := ob_raw new, ob_deleted := None\<rparr>"

definition UpsertFederatedObject :: "string \<Rightarrow> int \<Rightarrow> string \<Rightarrow> json \<Rightarrow> (db, unit) eff" where
  "UpsertFederatedObject objectURL ownerActorID typ0 rawJSON =
     (if objectURL = [] then fail (Msg ''object url required'')
      else let typ = (if typ0 = [] then ''Object'' else typ0)
           in statement (\<lambda>d0. case nextval TObjects d0 of (i, d) \<Rightarrow>
                (let new = \<lparr>ob_id = i, ob_url = objectURL, ob_actor = ownerActorID, ob_type = typ,
                            ob_raw = rawJSON, ob_deleted = None\<rparr>
                 in bind_res (upsert_on ob_url ob_url ''objects'' (object_upd new) new (d_objects d)) (\<lambda>rs.
                    if \<not> actor_exists d ownerActorID then Inl (ForeignKeyViolation ''objects'')
                    else Inr ((), d\<lparr>d_objects := rs\<rparr>)))))"

definition SoftDeleteFederatedObjectByURL :: "string \<Rightarrow> (db, unit) eff" where
  "SoftDeleteFederatedObjectByURL objectURL =
     (if objectURL = [] then fail (Msg ''object url required'')
      else statement (\<lambda>d. Inr ((), d\<lparr>d_objects :=
        update_where (\<lambda>r. ob_url r = objectURL \<and> ob_deleted r = None) (\<lambda>r. r\<lparr>ob_deleted := Some (d_now d)\<rparr>)
          (d_objects d)\<rparr>)))"

definition ObjectOwnerActorID :: "string \<Rightarrow> (db, int) eff" where
  "ObjectOwnerActorID objectURL =
     query (\<lambda>d. case select_one (\<lambda>r. ob_url r = objectURL \<and> ob_deleted r = None) (d_objects d) of
       Inl e \<Rightarrow> Inl e | Inr r \<Rightarrow> Inr (ob_actor r))"

section \<open>Bookmarks\<close>

definition bookmark_upd :: "bookmark_row \<Rightarrow> bookmark_row \<Rightarrow> bookmark_row" where
  "bookmark_upd new old = old\<lparr>bm_created := bm_created new\<rparr>"

definition UpsertStatusBookmark :: "int \<Rightarrow> int \<Rightarrow> (db, unit) eff" where
  "UpsertStatusBookmark actorID statusActivityID =
     (if actorID < 1 \<or> statusActivityID < 1 then fail (Msg ''bookmark: invalid id'')
      else statement (\<lambda>d0. case nextval TBookmarks d0 of (i, d) \<Rightarrow>
        (let new = \<lparr>bm_id = i, bm_actor = actorID, bm_status = statusActivityID, bm_created = d_now d\<rparr>
         in bind_res (upsert_on bookmark_pair bookmark_pair ''status_bookmarks'' (bookmark_upd new) new
                        (d_bookmarks d)) (\<lambda>rs.
            if \<not> actor_exists d actorID \<or> \<not> activity_exists d statusActivityID
            then Inl (ForeignKeyViolation ''status_bookmarks'') else Inr ((), d\<lparr>d_bookmarks := rs\<rparr>)))))"

definition DeleteStatusBookmark :: "int \<Rightarrow> int \<Rightarrow> (db, nat) eff" where
  "DeleteStatusBookmark actorID statusActivityID =
     statement (\<lambda>d. let p = (\<lambda>b. bm_actor b = actorID \<and> bm_status b = statusActivityID)
       in Inr (count_where p (d_bookmarks d), d\<lparr>d_bookmarks := delete_where p (d_bookmarks d)\<rparr>))"

definition StatusBookmarked :: "int \<Rightarrow> int \<Rightarrow> (db, bool) eff" where
  "StatusBookmarked actorID statusActivityID =
     query (\<lambda>d. Inr (count_where (\<lambda>b. bm_actor b = actorID \<and> bm_status b = statusActivityID) (d_bookmarks d) > 0))"

text \<open>\<^verbatim>\<open>ORDER BY created_at DESC, id DESC\<close>: a stable sort by the second key first.\<close>

definition ListBookmarkedStatusActivityIDs :: "int \<Rightarrow> int \<Rightarrow> (db, int list) eff" where
  "ListBookmarkedStatusActivityIDs actorID lim =
     query (\<lambda>d. Inr (map bm_status (limit_rows (clamp_limit 20 80 lim)
       (rev (sort_key bm_created (sort_key bm_id (filter (\<lambda>b. bm_actor b = actorID) (d_bookmarks d))))))))"

section \<open>The contract of the upserted tables\<close>

interpretation follow_tab: upsert_table follow_pair f_activity follow_upd
  by unfold_locales (simp add: follow_pair_def follow_upd_def)

interpretation edge_tab: upsert_table edge_pair e_activity edge_upd
  by unfold_locales (simp add: edge_pair_def edge_upd_def)

interpretation object_tab: upsert_table ob_url ob_url object_upd
  by unfold_locales (simp add: object_upd_def)

interpretation bookmark_tab: upsert_table bookmark_pair bookmark_pair bookmark_upd
  by unfold_locales (simp add: bookmark_pair_def bookmark_upd_def)

lemma follows_wf_upsert:
  assumes w: "follows_wf as n rs"
    and u: "upsert_on follow_pair f_activity name (follow_upd new) new rs = Inr rs'"
    and new: "f_id new = n" "f_follower new \<in> as" "f_followee new \<in> as"
  shows "follows_wf as (n + 1) rs'"
proof -
  have "distinct (map f_id rs')"
    using u
  proof (cases rule: follow_tab.upsert_cases)
    case inserted
    with w new show ?thesis by (auto simp: follows_wf_def)
  next
    case (updated old)
    with w show ?thesis by (simp add: follows_wf_def follow_upd_def update_where_map)
  qed
  moreover have "\<forall>r \<in> set rs'. f_id r < n + 1 \<and> f_follower r \<in> as \<and> f_followee r \<in> as"
    using follow_tab.upsert_set [OF u] w new by (fastforce simp: follows_wf_def follow_upd_def)
  ultimately show ?thesis
    using w follow_tab.upsert_distinct_key [OF u] follow_tab.upsert_distinct_alt [OF u]
    by (simp add: follows_wf_def)
qed

lemma edges_wf_upsert:
  assumes "edges_wf as rs" "upsert_edge name i actor ob act rs = Inr rs'" "actor \<in> as"
  shows "edges_wf as rs'"
proof -
  let ?new = "\<lparr>e_id = i, e_actor = actor, e_object = ob, e_activity = act\<rparr>"
  have u: "upsert_on edge_pair e_activity name (edge_upd ?new) ?new rs = Inr rs'"
    using assms(2) by (simp add: upsert_edge_def Let_def)
  have "\<forall>r \<in> set rs'. e_actor r \<in> as"
    using edge_tab.upsert_set [OF u] assms(1,3) by (fastforce simp: edges_wf_def edge_upd_def)
  then show ?thesis
    using assms(1) edge_tab.upsert_distinct_key [OF u] edge_tab.upsert_distinct_alt [OF u]
    by (simp add: edges_wf_def)
qed

lemma objects_wf_upsert:
  assumes "objects_wf as rs" "upsert_on ob_url ob_url name (object_upd new) new rs = Inr rs'" "ob_actor new \<in> as"
  shows "objects_wf as rs'"
  using assms object_tab.upsert_set [OF assms(2)] object_tab.upsert_distinct_key [OF assms(2)]
  by (fastforce simp: objects_wf_def object_upd_def)

lemma bookmarks_wf_upsert:
  assumes "bookmarks_wf as vs rs" "upsert_on bookmark_pair bookmark_pair name (bookmark_upd new) new rs = Inr rs'"
    "bm_actor new \<in> as" "bm_status new \<in> vs"
  shows "bookmarks_wf as vs rs'"
  using assms bookmark_tab.upsert_set [OF assms(2)] bookmark_tab.upsert_distinct_key [OF assms(2)]
  by (fastforce simp: bookmarks_wf_def bookmark_upd_def)

section \<open>Every operation keeps the constraints\<close>

lemma UpsertFollow_wf [preserved]: "preserves db_wf (UpsertFollow a b act st)"
  unfolding UpsertFollow_def
  by (rule preserves_guard_statement)
     (auto simp: db_wf_def nextval_def Let_def bind_res_ok actor_exists_iff split: if_splits
       intro!: follows_wf_upsert)

lemma edge_upserts_wf [preserved]:
  "preserves db_wf (UpsertFederatedLike a ob act)" "preserves db_wf (UpsertFederatedAnnounce a ob act)"
  "preserves db_wf (UpsertFederatedBlock a ob act)"
  unfolding UpsertFederatedLike_def UpsertFederatedAnnounce_def UpsertFederatedBlock_def
  by (rule preserves_guard_statement,
      force simp: db_wf_def nextval_def bind_res_ok actor_exists_iff split: if_splits intro: edges_wf_upsert)+

lemma UpsertFederatedObject_wf [preserved]: "preserves db_wf (UpsertFederatedObject u a t raw)"
  unfolding UpsertFederatedObject_def Let_def
  by (rule preserves_guard_statement)
     (auto simp: db_wf_def nextval_def bind_res_ok actor_exists_iff split: if_splits intro: objects_wf_upsert)

lemma UpsertStatusBookmark_wf [preserved]: "preserves db_wf (UpsertStatusBookmark a v)"
  unfolding UpsertStatusBookmark_def Let_def
  by (rule preserves_guard_statement)
     (auto simp: db_wf_def nextval_def bind_res_ok actor_exists_iff activity_exists_iff split: if_splits
       intro: bookmarks_wf_upsert)

lemma deletes_wf [preserved]:
  "preserves db_wf (delete_follows iri a)" "preserves db_wf (delete_likes iri a)"
  "preserves db_wf (delete_announces iri a)" "preserves db_wf (delete_blocks iri a)"
  "preserves db_wf (DeleteFollowByPair a b)" "preserves db_wf (DeleteFollowByFollowActivityID iri)"
  "preserves db_wf (DeleteStatusBookmark a v)"
  unfolding delete_follows_def delete_likes_def delete_announces_def delete_blocks_def DeleteFollowByPair_def
    DeleteFollowByFollowActivityID_def DeleteStatusBookmark_def Let_def
  by (rule preserves_statement, auto simp: db_wf_def intro: wf_delete)+

lemma store_deletes_wf [preserved]:
  "preserves db_wf (DeleteFollowByFollowActivityIDForFollower iri a)"
  "preserves db_wf (DeleteFederatedLikeByActivityID iri a)"
  "preserves db_wf (DeleteFederatedAnnounceByActivityID iri a)"
  "preserves db_wf (DeleteFederatedBlockByActivityID iri a)"
  unfolding DeleteFollowByFollowActivityIDForFollower_def DeleteFederatedLikeByActivityID_def
    DeleteFederatedAnnounceByActivityID_def DeleteFederatedBlockByActivityID_def
  by (intro preserved)+

lemma follows_wf_state:
  "follows_wf as n rs \<Longrightarrow> follows_wf as n (update_where p (\<lambda>f. f\<lparr>f_state := st\<rparr>) rs)"
  by (auto simp: follows_wf_def follow_pair_def update_where_map set_update_where)

lemma set_state_wf [preserved]:
  "preserves db_wf (SetFollowStateByFollowActivityID iri st)"
  "preserves db_wf (SetFollowStateByFollowActivityIDForFollower iri st a)"
  unfolding SetFollowStateByFollowActivityID_def SetFollowStateByFollowActivityIDForFollower_def
  by (rule preserves_statement, auto simp: db_wf_def intro: follows_wf_state)+

lemma SoftDeleteFederatedObjectByURL_wf [preserved]: "preserves db_wf (SoftDeleteFederatedObjectByURL u)"
  unfolding SoftDeleteFederatedObjectByURL_def
  by (rule preserves_guard_statement)
     (auto simp: db_wf_def objects_wf_def update_where_map set_update_where)

section \<open>What the operations do\<close>

text \<open>After an upsert there is exactly one edge of the pair, with the new state and activity.\<close>

lemma UpsertFollow_ok:
  assumes "UpsertFollow a b act st d = (Inr (), d')"
  shows "\<exists>i. upsert_on follow_pair f_activity ''follows''
      (follow_upd \<lparr>f_id = i, f_follower = a, f_followee = b, f_state = st, f_activity = act\<rparr>)
      \<lparr>f_id = i, f_follower = a, f_followee = b, f_state = st, f_activity = act\<rparr> (d_follows d) = Inr (d_follows d')"
  using assms by (auto simp: UpsertFollow_def eff_simps nextval_def bind_res_ok Let_def
      split: if_splits sum.splits)

lemma filter_key_singleton:
  "distinct (map k rs) \<Longrightarrow> r \<in> set rs \<Longrightarrow> filter (\<lambda>x. k x = k r) rs = [r]"
proof (induction rs)
  case (Cons x rs)
  then show ?case
    by (cases "x = r") (auto simp: filter_empty_conv image_iff)
qed simp

lemma UpsertFollow_result:
  assumes "db_wf d" "UpsertFollow a b act st d = (Inr (), d')"
  shows "\<exists>f. filter (\<lambda>f. f_follower f = a \<and> f_followee f = b) (d_follows d') = [f] \<and> f_state f = st \<and> f_activity f = act"
proof -
  obtain i where u: "upsert_on follow_pair f_activity ''follows''
      (follow_upd \<lparr>f_id = i, f_follower = a, f_followee = b, f_state = st, f_activity = act\<rparr>)
      \<lparr>f_id = i, f_follower = a, f_followee = b, f_state = st, f_activity = act\<rparr> (d_follows d) = Inr (d_follows d')"
    (is "upsert_on _ _ _ (follow_upd ?new) _ _ = _")
    using UpsertFollow_ok [OF assms(2)] by blast
  have dk: "distinct (map follow_pair (d_follows d'))"
    using assms(1) follow_tab.upsert_distinct_key [OF u] by (simp add: db_wf_def follows_wf_def)
  have "\<exists>f \<in> set (d_follows d'). follow_pair f = (a, b) \<and> f_state f = st \<and> f_activity f = act"
    using u
  proof (cases rule: follow_tab.upsert_cases)
    case (updated old)
    then have "follow_upd ?new old \<in> set (d_follows d')" by (auto simp: set_update_where)
    with updated(2) show ?thesis by (intro bexI) (auto simp: follow_upd_def follow_pair_def)
  qed (simp add: follow_pair_def)
  then obtain f where f: "f \<in> set (d_follows d')" "follow_pair f = (a, b)" "f_state f = st" "f_activity f = act" by blast
  from filter_key_singleton [OF dk f(1)] f(2-) show ?thesis by (simp add: follow_pair_def)
qed

text \<open>An inbound like keeps the IRI as it came, while the counts ask for its canonical form.\<close>

lemma UpsertFederatedLike_ok:
  assumes "UpsertFederatedLike a ob act d = (Inr (), d')"
  shows "\<exists>i. upsert_edge ''federated_likes'' i a ob act (d_likes d) = Inr (d_likes d')"
  using assms by (auto simp: UpsertFederatedLike_def eff_simps nextval_def bind_res_ok
      split: if_splits sum.splits)

text \<open>
  A like whose object IRI is not in canonical form is accepted, but the number of likes of that
  object does not change.
\<close>

theorem like_not_counted:
  assumes "UpsertFederatedLike a ob act d = (Inr (), d')" "CanonicalActorURL ob \<noteq> ob"
  shows "fst (CountFederatedLikesOnObjectURL ob d') = fst (CountFederatedLikesOnObjectURL ob d)"
proof -
  obtain i where "upsert_edge ''federated_likes'' i a ob act (d_likes d) = Inr (d_likes d')"
    using UpsertFederatedLike_ok [OF assms(1)] by blast
  then have "upsert_on edge_pair e_activity ''federated_likes''
      (edge_upd \<lparr>e_id = i, e_actor = a, e_object = ob, e_activity = act\<rparr>)
      \<lparr>e_id = i, e_actor = a, e_object = ob, e_activity = act\<rparr> (d_likes d) = Inr (d_likes d')"
    by (simp add: upsert_edge_def Let_def)
  then have "count_where (\<lambda>e. e_object e = CanonicalActorURL ob) (d_likes d') =
      count_where (\<lambda>e. e_object e = CanonicalActorURL ob) (d_likes d)"
  proof (cases rule: edge_tab.upsert_cases)
    case inserted
    with assms(2) show ?thesis by (simp add: count_where_def)
  next
    case (updated old)
    show ?thesis unfolding updated(4) by (rule count_where_update) (simp add: edge_upd_def)
  qed
  then show ?thesis by (simp add: CountFederatedLikesOnObjectURL_def eff_simps)
qed

end
