(* ===== verification/StoreActors.thy ===== *)
theory StoreActors
  imports StoreEdges Config
begin

text \<open>
  \<^verbatim>\<open>store/federation.go\<close>, \<^verbatim>\<open>store/activity.go\<close>, \<^verbatim>\<open>store/create_lookup.go\<close>, \<^verbatim>\<open>store/federation_get.go\<close>,
  \<^verbatim>\<open>store/actor_keys.go\<close>, \<^verbatim>\<open>store/local_accounts.go\<close>, \<^verbatim>\<open>store/local_actor_domain.go\<close>,
  \<^verbatim>\<open>store/augment_local_usernames.go\<close> and \<^verbatim>\<open>store/resolve_local_followee.go\<close>: actors, activities and
  the accounts of this instance.  A query without \<^verbatim>\<open>ORDER BY\<close> answers with the first matching row of
  the table.  \<^verbatim>\<open>bcrypt\<close> is the pair of arguments \<open>bcrypt_hash\<close>, \<open>bcrypt_check\<close>.
\<close>

section \<open>The SQL functions that the statements use\<close>

definition sql_trim :: "string \<Rightarrow> string" where
  "sql_trim s = trim_char (CHR '' '') s"

abbreviation sql_lower :: "string \<Rightarrow> string" where
  "sql_lower s \<equiv> go_lower s"

definition hex_lower :: "nat \<Rightarrow> char" where
  "hex_lower n = (if n < 10 then char_of (48 + n) else char_of (87 + n))"

definition json_escape :: "char \<Rightarrow> string" where
  "json_escape c =
     (if c = CHR 0x22 then [CHR 0x5C, CHR 0x22]
      else if c = CHR 0x5C then [CHR 0x5C, CHR 0x5C]
      else if c = CHR 0x08 then [CHR 0x5C, CHR ''b'']
      else if c = CHR 0x0C then [CHR 0x5C, CHR ''f'']
      else if c = CHR 0x0A then [CHR 0x5C, CHR ''n'']
      else if c = CHR 0x0D then [CHR 0x5C, CHR ''r'']
      else if c = CHR 0x09 then [CHR 0x5C, CHR ''t'']
      else if (of_char c :: nat) < 32
      then CHR 0x5C # ''u00'' @ [hex_lower (of_char c div 16), hex_lower (of_char c mod 16)]
      else [c])"

definition json_quote :: "string \<Rightarrow> string" where
  "json_quote s = CHR 0x22 # concat (map json_escape s) @ [CHR 0x22]"

fun jsonb_text :: "json \<Rightarrow> string" where
  "jsonb_text JNull = ''null''"
| "jsonb_text (JBool b) = (if b then ''true'' else ''false'')"
| "jsonb_text (JNum l) = l"
| "jsonb_text (JStr s) = json_quote s"
| "jsonb_text (JArr xs) = ''['' @ join '', '' (map jsonb_text xs) @ '']''"
| "jsonb_text (JObj ms) = ''{'' @ join '', '' (map (\<lambda>(k, v). json_quote k @ '': '' @ jsonb_text v) ms) @ ''}''"

text \<open>\<^verbatim>\<open>j -> k\<close> and \<^verbatim>\<open>j ->> k\<close>; \<open>None\<close> is SQL's \<^verbatim>\<open>NULL\<close>.\<close>

fun json_arrow :: "json option \<Rightarrow> string \<Rightarrow> json option" where
  "json_arrow (Some (JObj ms)) k = obj_get ms k"
| "json_arrow _ k = None"

definition json_arrow_text :: "json option \<Rightarrow> string \<Rightarrow> string option" where
  "json_arrow_text j k =
     (case json_arrow j k of
        None \<Rightarrow> None
      | Some JNull \<Rightarrow> None
      | Some (JStr s) \<Rightarrow> Some s
      | Some v \<Rightarrow> Some (jsonb_text v))"

definition raw_object_text :: "activity_row \<Rightarrow> string \<Rightarrow> string option" where
  "raw_object_text v k = json_arrow_text (json_arrow (Some (v_raw v)) ''object'') k"

section \<open>Actors\<close>

definition LocalActorPublicKeyPlaceholder :: string where
  "LocalActorPublicKeyPlaceholder = ''(local-public-key-unconfigured)''"

definition actor_name :: "actor_row \<Rightarrow> string \<times> string" where
  "actor_name a = (a_username a, a_domain a)"

definition has_private_key :: "actor_row \<Rightarrow> bool" where
  "has_private_key a = (case a_priv a of None \<Rightarrow> False | Some k \<Rightarrow> sql_trim k \<noteq> [])"

definition local_upd :: "actor_row \<Rightarrow> actor_row \<Rightarrow> actor_row" where
  "local_upd new old = old\<lparr>a_url := a_url new, a_inbox := a_inbox new, a_outbox := a_outbox new,
     a_pem := (if has_private_key old then a_pem old else a_pem new)\<rparr>"

definition remote_upd :: "actor_row \<Rightarrow> actor_row \<Rightarrow> actor_row" where
  "remote_upd new old = old\<lparr>a_pem := a_pem new\<rparr>"

text \<open>\<^verbatim>\<open>RETURNING id\<close>: the id of the row that was inserted or updated.\<close>

definition returning_id :: "(actor_row \<Rightarrow> bool) \<Rightarrow> actor_row list \<Rightarrow> err + int" where
  "returning_id p rs = (case select_one p rs of Inl e \<Rightarrow> Inl e | Inr a \<Rightarrow> Inr (a_id a))"

definition upsert_actor ::
  "(actor_row \<Rightarrow> 'k) \<Rightarrow> (actor_row \<Rightarrow> 'a) \<Rightarrow> (actor_row \<Rightarrow> actor_row \<Rightarrow> actor_row) \<Rightarrow> (int \<Rightarrow> actor_row) \<Rightarrow> (db, int) eff"
where
  "upsert_actor key alt upd row =
     statement (\<lambda>d0. case nextval TActors d0 of (i, d) \<Rightarrow>
       bind_res (upsert_on key alt ''actors'' (upd (row i)) (row i) (d_actors d)) (\<lambda>rs.
       bind_res (returning_id (\<lambda>a. key a = key (row i)) rs) (\<lambda>ident.
         Inr (ident, d\<lparr>d_actors := rs\<rparr>))))"

definition UpsertLocalActor :: "config \<Rightarrow> string \<Rightarrow> string \<Rightarrow> (db, int) eff" where
  "UpsertLocalActor cfg username publicKeyPEM =
     (if PublicBaseURL cfg = [] then fail (Msg ''AP_PUBLIC_BASE_URL required for local actor'')
      else case url_parse (PublicBaseURL cfg) of
        None \<Rightarrow> fail (Wrapped ''AP_PUBLIC_BASE_URL'' (Msg ''parse''))
      | Some base \<Rightarrow>
          (let domain = url_hostname base
           in if domain = [] then fail (Msg ''AP_PUBLIC_BASE_URL missing host'')
              else let root = trim_right_slash (PublicBaseURL cfg);
                       pem = (if trim_space publicKeyPEM = [] then LocalActorPublicKeyPlaceholder else publicKeyPEM)
                   in wrap_eff ''ensure local actor'' (upsert_actor actor_name a_url local_upd (\<lambda>i.
                        \<lparr>a_id = i, a_username = username, a_domain = domain,
                         a_url = root @ ''/@'' @ path_escape username,
                         a_inbox = LocalActorInboxURL cfg username,
                         a_outbox = root @ ''/@'' @ path_escape username @ ''/outbox'',
                         a_pem = pem, a_priv = None\<rparr>))))"

definition EnsureLocalActor :: "config \<Rightarrow> string \<Rightarrow> string \<Rightarrow> (db, int) eff" where
  "EnsureLocalActor cfg username publicKeyPEM =
     (if \<not> IsLocalUsername cfg username then fail (Msg ''username is not a configured local account'')
      else UpsertLocalActor cfg username publicKeyPEM)"

text \<open>The last segment of the path, decoded; an escape that does not decode gives the empty name.\<close>

definition remote_username :: "url \<Rightarrow> string" where
  "remote_username u =
     (let path = trim_char (CHR ''/'') (u_path u)
      in if path = [] then []
         else case path_unescape (last (split_on (CHR ''/'') path)) of None \<Rightarrow> [] | Some n \<Rightarrow> n)"

definition EnsureRemoteActor :: "string \<Rightarrow> string \<Rightarrow> (db, int) eff" where
  "EnsureRemoteActor actorURL publicKeyPEM =
     (case url_parse actorURL of
        None \<Rightarrow> fail (Msg ''invalid actor URL'')
      | Some u \<Rightarrow>
          (if u_scheme u = [] \<or> u_host u = [] then fail (Msg ''invalid actor URL'')
           else if remote_username u = [] then fail (Msg ''could not derive username from actor URL'')
           else wrap_eff ''ensure remote actor'' (upsert_actor a_url actor_name remote_upd (\<lambda>i.
                  \<lparr>a_id = i, a_username = remote_username u, a_domain = url_hostname u,
                   a_url = trim_right_slash actorURL, a_inbox = [], a_outbox = [],
                   a_pem = publicKeyPEM, a_priv = None\<rparr>))))"

definition ActorIDByActorURL :: "string \<Rightarrow> (db, int) eff" where
  "ActorIDByActorURL actorURL =
     query (\<lambda>d. returning_id (\<lambda>a. trim_right_slash (a_url a) = CanonicalActorURL actorURL) (d_actors d))"

definition ActorProfileByID :: "int \<Rightarrow> (db, string \<times> string \<times> string) eff" where
  "ActorProfileByID i =
     query (\<lambda>d. case select_one (\<lambda>a. a_id a = i) (d_actors d) of
       Inl e \<Rightarrow> Inl e | Inr a \<Rightarrow> Inr (a_url a, a_username a, a_domain a))"

definition actorURLByDBID :: "int \<Rightarrow> (db, string) eff" where
  "actorURLByDBID actorDBID =
     query (\<lambda>d. wrap_err ''actor'' (case select_one (\<lambda>a. a_id a = actorDBID) (d_actors d) of
       Inl e \<Rightarrow> Inl e | Inr a \<Rightarrow> Inr (a_url a)))"

section \<open>Keys and accounts\<close>

definition same_account :: "string \<Rightarrow> string \<Rightarrow> actor_row \<Rightarrow> bool" where
  "same_account domain username a \<longleftrightarrow>
     sql_lower (a_domain a) = sql_lower domain \<and> sql_lower (a_username a) = sql_lower username"

definition ActorPublicKeyPEMForLocalUser :: "string \<Rightarrow> string \<Rightarrow> (db, string) eff" where
  "ActorPublicKeyPEMForLocalUser instanceDomain0 username0 =
     (let instanceDomain = trim_space instanceDomain0; username = trim_space username0
      in if instanceDomain = [] \<or> username = [] then fail (Msg ''domain and username required'')
         else query (\<lambda>d. case select_one (same_account instanceDomain username) (d_actors d) of
                Inl e \<Rightarrow> Inl e | Inr a \<Rightarrow> Inr (trim_space (a_pem a))))"

definition ActorHasStoredPrivateKey :: "string \<Rightarrow> string \<Rightarrow> (db, bool) eff" where
  "ActorHasStoredPrivateKey instanceDomain0 username0 =
     (let instanceDomain = trim_space instanceDomain0; username = trim_space username0
      in if instanceDomain = [] \<or> username = [] then fail (Msg ''domain and username required'')
         else query (\<lambda>d. case select_one (same_account instanceDomain username) (d_actors d) of
                Inl e \<Rightarrow> Inl e | Inr a \<Rightarrow> Inr (has_private_key a)))"

text \<open>Scanning a \<^verbatim>\<open>NULL\<close> into a string is an error.\<close>

definition ActorPrivateKeyPEMForLocalUser :: "string \<Rightarrow> string \<Rightarrow> (db, string) eff" where
  "ActorPrivateKeyPEMForLocalUser instanceDomain0 username0 =
     (let instanceDomain = trim_space instanceDomain0; username = trim_space username0
      in if instanceDomain = [] \<or> username = [] then fail (Msg ''domain and username required'')
         else query (\<lambda>d. case select_one (same_account instanceDomain username) (d_actors d) of
                Inl e \<Rightarrow> Inl e
              | Inr a \<Rightarrow> (case a_priv a of None \<Rightarrow> Inl (Msg ''cannot scan NULL into *string'') | Some k \<Rightarrow> Inr (trim_space k))))"

definition SetActorRSAKeypair :: "int \<Rightarrow> string \<Rightarrow> string \<Rightarrow> (db, unit) eff" where
  "SetActorRSAKeypair actorID privateKeyPEM0 publicKeyPEM0 =
     (let privateKeyPEM = trim_space privateKeyPEM0; publicKeyPEM = trim_space publicKeyPEM0
      in if privateKeyPEM = [] \<or> publicKeyPEM = [] then fail (Msg ''private and public PEM required'')
         else statement (\<lambda>d. Inr ((), d\<lparr>d_actors :=
                update_where (\<lambda>a. a_id a = actorID)
                  (\<lambda>a. a\<lparr>a_priv := Some privateKeyPEM, a_pem := publicKeyPEM\<rparr>) (d_actors d)\<rparr>)))"

definition account_upd :: "account_row \<Rightarrow> account_row \<Rightarrow> account_row" where
  "account_upd new old = old\<lparr>la_hash := la_hash new\<rparr>"

definition UpsertLocalAccountPassword :: "(string \<Rightarrow> err + string) \<Rightarrow> int \<Rightarrow> string \<Rightarrow> (db, unit) eff" where
  "UpsertLocalAccountPassword bcrypt_hash actorID plainPassword =
     (if plainPassword = [] then fail (Msg ''password required'')
      else case bcrypt_hash plainPassword of
        Inl e \<Rightarrow> fail e
      | Inr hash \<Rightarrow>
          statement (\<lambda>d.
            let new = \<lparr>la_actor = actorID, la_hash = hash\<rparr>
            in bind_res (upsert_on la_actor la_actor ''local_accounts'' (account_upd new) new (d_accounts d)) (\<lambda>rs.
               if \<not> actor_exists d actorID then Inl (ForeignKeyViolation ''local_accounts'')
               else Inr ((), d\<lparr>d_accounts := rs\<rparr>))))"

definition AuthenticateLocalAccount :: "(string \<Rightarrow> string \<Rightarrow> bool) \<Rightarrow> string \<Rightarrow> string \<Rightarrow> string \<Rightarrow> (db, int) eff" where
  "AuthenticateLocalAccount bcrypt_check domain username plainPassword =
     query (\<lambda>d.
       let joined = [(a, l). a \<leftarrow> d_actors d, l \<leftarrow> d_accounts d, la_actor l = a_id a]
       in case select_one (\<lambda>p. a_username (fst p) = username \<and> a_domain (fst p) = domain) joined of
            Inl e \<Rightarrow> Inl e
          | Inr (a, l) \<Rightarrow>
              (if \<not> bcrypt_check (la_hash l) plainPassword then Inl (Msg ''invalid credentials'') else Inr (a_id a)))"

definition LocalAccountExists :: "int \<Rightarrow> (db, bool) eff" where
  "LocalAccountExists actorID = query (\<lambda>d. Inr (count_where (\<lambda>l. la_actor l = actorID) (d_accounts d) > 0))"

definition ListLocalActorsOnDomain :: "string \<Rightarrow> (db, (string \<times> int) list) eff" where
  "ListLocalActorsOnDomain domain =
     query (\<lambda>d. Inr (map (\<lambda>a. (a_username a, a_id a)) (filter (\<lambda>a. a_domain a = domain) (d_actors d))))"

definition LocalActorIDForInstanceUsernameCI :: "string \<Rightarrow> string \<Rightarrow> (db, int) eff" where
  "LocalActorIDForInstanceUsernameCI instanceHost username =
     query (\<lambda>d. returning_id (same_account (trim_space instanceHost) (trim_space username)) (d_actors d))"

definition LocalActorUsernameExists :: "string \<Rightarrow> string \<Rightarrow> (db, bool) eff" where
  "LocalActorUsernameExists domain username =
     query (\<lambda>d. Inr (count_where (\<lambda>a. a_domain a = domain \<and> a_username a = username) (d_actors d) > 0))"

text \<open>
  The configuration is updated in place: the names of the database that it lacks are appended.
  Iteration over the map is in the order of the rows here, in no fixed order in Go.
\<close>

fun append_missing :: "string list \<Rightarrow> string list \<Rightarrow> string list" where
  "append_missing have [] = have"
| "append_missing have (u # us) = append_missing (if u \<in> set have then have else have @ [u]) us"

definition mergeCfgLocalUsernames :: "config \<Rightarrow> string list \<Rightarrow> config" where
  "mergeCfgLocalUsernames cfg fromDB =
     (let names = (if LocalUsernames cfg = [] \<and> trim_space (LocalUsername cfg) \<noteq> []
                   then [LocalUsername cfg] else LocalUsernames cfg)
      in cfg\<lparr>LocalUsernames := append_missing names fromDB\<rparr>)"

definition AugmentLocalUsernamesFromDB :: "config \<Rightarrow> (db, config) eff" where
  "AugmentLocalUsernamesFromDB cfg =
     (let pub = trim_space (PublicBaseURL cfg)
      in if pub = [] then ret cfg
         else case url_parse pub of
           None \<Rightarrow> ret cfg
         | Some base \<Rightarrow>
             (if url_hostname base = [] then ret cfg
              else bind_eff (wrap_eff ''augment local usernames'' (ListLocalActorsOnDomain (url_hostname base))) (\<lambda>ps.
                   ret (mergeCfgLocalUsernames cfg (map fst ps)))))"

section \<open>Activities\<close>

definition GetActivityByID :: "int \<Rightarrow> (db, activity_row) eff" where
  "GetActivityByID i = query (\<lambda>d. wrap_err ''activity'' (select_one (\<lambda>v. v_id v = i) (d_activities d)))"

definition InsertInboundActivity :: "int \<Rightarrow> string \<Rightarrow> string \<Rightarrow> json \<Rightarrow> (db, bool \<times> int) eff" where
  "InsertInboundActivity remoteActorDBID activityID activityType0 rawJSON =
     (let t = trim_space activityType0; activityType = (if t = [] then ''unknown'' else t)
      in statement (\<lambda>d0. case nextval TActivities d0 of (i, d) \<Rightarrow>
           (if list_ex (\<lambda>v. v_activity_id v = activityID) (d_activities d) then Inr ((False, 0), d)
            else if \<not> actor_exists d remoteActorDBID then Inl (ForeignKeyViolation ''activities'')
            else Inr ((True, i), d\<lparr>d_activities := d_activities d @
                   [\<lparr>v_id = i, v_activity_id = activityID, v_actor = remoteActorDBID, v_type = activityType,
                     v_raw = rawJSON, v_deleted = None\<rparr>]\<rparr>))))"

definition is_create :: "activity_row \<Rightarrow> bool" where
  "is_create v \<longleftrightarrow> sql_lower (v_type v) = ''create''"

definition ListRecentCreateActivitiesForActor :: "int \<Rightarrow> int \<Rightarrow> (db, activity_row list) eff" where
  "ListRecentCreateActivitiesForActor actorID lim =
     query (\<lambda>d. Inr (limit_rows (clamp_limit 20 80 lim) (order_desc v_id
       (filter (\<lambda>v. v_actor v = actorID \<and> is_create v \<and> v_deleted v = None) (d_activities d)))))"

text \<open>The rows of \<^verbatim>\<open>activities a JOIN actors act ON act.id = a.actor_id\<close> with a local author.\<close>

definition author_on_domain :: "db \<Rightarrow> string \<Rightarrow> activity_row \<Rightarrow> bool" where
  "author_on_domain d domain v \<longleftrightarrow>
     list_ex (\<lambda>a. a_id a = v_actor v \<and> sql_lower (a_domain a) = sql_lower domain) (d_actors d)"

definition listed_visibility :: "activity_row \<Rightarrow> bool" where
  "listed_visibility v \<longleftrightarrow>
     (case raw_object_text v ''_visibility'' of None \<Rightarrow> ''public'' | Some s \<Rightarrow> s) \<in> {''public'', ''unlisted''}"

definition ListRecentPublicCreateActivities :: "string \<Rightarrow> int \<Rightarrow> (db, activity_row list) eff" where
  "ListRecentPublicCreateActivities instanceDomain0 lim =
     (let instanceDomain = trim_space instanceDomain0
      in if instanceDomain = [] then fail (Msg ''instance domain required'')
         else query (\<lambda>d. Inr (limit_rows (clamp_limit 20 80 lim) (order_desc v_id
                (filter (\<lambda>v. is_create v \<and> v_deleted v = None \<and> author_on_domain d instanceDomain v \<and>
                             listed_visibility v) (d_activities d))))))"

definition ActivityIDByActorAndActivityIRI :: "int \<Rightarrow> string \<Rightarrow> (db, int) eff" where
  "ActivityIDByActorAndActivityIRI actorID activityIRI =
     query (\<lambda>d. case select_one (\<lambda>v. v_actor v = actorID \<and> v_activity_id v = activityIRI) (d_activities d) of
       Inl e \<Rightarrow> Inl e | Inr v \<Rightarrow> Inr (v_id v))"

definition SoftDeleteActivityForActor :: "int \<Rightarrow> int \<Rightarrow> (db, bool) eff" where
  "SoftDeleteActivityForActor activityDBID actorID =
     statement (\<lambda>d. let p = (\<lambda>v. v_id v = activityDBID \<and> v_actor v = actorID \<and> is_create v \<and> v_deleted v = None)
       in Inr (count_where p (d_activities d) > 0,
               d\<lparr>d_activities := update_where p (\<lambda>v. v\<lparr>v_deleted := Some (d_now d)\<rparr>) (d_activities d)\<rparr>))"

definition ListCreateActivitiesReplyingToNoteIRI :: "string \<Rightarrow> int \<Rightarrow> (db, activity_row list) eff" where
  "ListCreateActivitiesReplyingToNoteIRI parentNoteIRI lim =
     query (\<lambda>d. Inr (limit_rows (clamp_limit 40 200 lim) (sort_key v_id
       (filter (\<lambda>v. is_create v \<and> v_deleted v = None \<and>
          raw_object_text v ''inReplyTo'' = Some (CanonicalActorURL parentNoteIRI)) (d_activities d)))))"

definition ListRecentCreatesForMemberActors :: "int list \<Rightarrow> string \<Rightarrow> int \<Rightarrow> (db, activity_row list) eff" where
  "ListRecentCreatesForMemberActors memberActorIDs instanceDomain0 lim =
     (if memberActorIDs = [] then ret []
      else let instanceDomain = trim_space instanceDomain0
           in if instanceDomain = [] then fail (Msg ''instance domain required'')
              else query (\<lambda>d. Inr (limit_rows (clamp_limit 20 80 lim) (order_desc v_id
                     (filter (\<lambda>v. is_create v \<and> v_deleted v = None \<and> v_actor v \<in> set memberActorIDs \<and>
                                  author_on_domain d instanceDomain v \<and> listed_visibility v) (d_activities d))))))"

definition ListRecentLikeActivitiesForActor :: "int \<Rightarrow> int \<Rightarrow> (db, activity_row list) eff" where
  "ListRecentLikeActivitiesForActor actorID lim =
     query (\<lambda>d. Inr (limit_rows (clamp_limit 20 80 lim) (order_desc v_id
       (filter (\<lambda>v. v_actor v = actorID \<and> sql_lower (v_type v) = ''like'') (d_activities d)))))"

definition FindCreateActivityByObjectNoteIRI :: "string \<Rightarrow> (db, activity_row) eff" where
  "FindCreateActivityByObjectNoteIRI noteIRI =
     query (\<lambda>d. case order_desc v_id (filter (\<lambda>v. is_create v \<and> v_deleted v = None \<and>
              raw_object_text v ''id'' = Some (CanonicalActorURL noteIRI)) (d_activities d)) of
       [] \<Rightarrow> Inl NoRows | v # _ \<Rightarrow> Inr v)"

section \<open>Lookups of the federation GET handlers\<close>

definition actor_url_of :: "db \<Rightarrow> int \<Rightarrow> string" where
  "actor_url_of d i = (case find (\<lambda>a. a_id a = i) (d_actors d) of None \<Rightarrow> [] | Some a \<Rightarrow> a_url a)"

definition GetActivityJSONByIRIs :: "string list \<Rightarrow> (db, (json \<times> string) option) eff" where
  "GetActivityJSONByIRIs candidateIRIs =
     (if candidateIRIs = [] then ret None
      else query (\<lambda>d. Inr (case find (\<lambda>v. v_activity_id v \<in> set candidateIRIs \<and> v_deleted v = None \<and>
                                        actor_exists d (v_actor v)) (d_activities d) of
             None \<Rightarrow> None | Some v \<Rightarrow> Some (v_raw v, actor_url_of d (v_actor v)))))"

definition GetObjectJSONByIRIs :: "string list \<Rightarrow> (db, (json \<times> string) option) eff" where
  "GetObjectJSONByIRIs candidateIRIs =
     (if candidateIRIs = [] then ret None
      else query (\<lambda>d. Inr (case find (\<lambda>r. ob_url r \<in> set candidateIRIs \<and> ob_deleted r = None \<and>
                                        actor_exists d (ob_actor r)) (d_objects d) of
             None \<Rightarrow> None | Some r \<Rightarrow> Some (ob_raw r, actor_url_of d (ob_actor r)))))"

definition DeletedCreateNoteForFederationGET :: "string list \<Rightarrow> (db, string \<times> string) eff" where
  "DeletedCreateNoteForFederationGET candidateIRIs =
     (if candidateIRIs = [] then ret ([], [])
      else query (\<lambda>d. Inr (case find (\<lambda>v. is_create v \<and> v_deleted v \<noteq> None \<and> actor_exists d (v_actor v) \<and>
               (v_activity_id v \<in> set candidateIRIs \<or>
                (case raw_object_text v ''id'' of None \<Rightarrow> False | Some i \<Rightarrow> i \<in> set candidateIRIs))) (d_activities d) of
             None \<Rightarrow> ([], [])
           | Some v \<Rightarrow>
               (case raw_object_text v ''id'' of
                  None \<Rightarrow> ([], [])
                | Some i \<Rightarrow> if i = [] then ([], []) else (i, actor_url_of d (v_actor v))))))"

definition DeletedObjectForFederationGET :: "string list \<Rightarrow> (db, string \<times> string) eff" where
  "DeletedObjectForFederationGET candidateIRIs =
     (if candidateIRIs = [] then ret ([], [])
      else query (\<lambda>d. Inr (case find (\<lambda>r. ob_url r \<in> set candidateIRIs \<and> ob_deleted r \<noteq> None \<and>
                                        actor_exists d (ob_actor r)) (d_objects d) of
             None \<Rightarrow> ([], []) | Some r \<Rightarrow> (ob_url r, actor_url_of d (ob_actor r)))))"

section \<open>The followee of an inbound Follow\<close>

definition not_local_actor :: err where
  "not_local_actor = Msg ''follow object is not a local actor''"

definition not_an_actor :: err where
  "not_an_actor = Msg ''follow object must be an actor, not followers/following collection''"

definition followee_handle :: "string \<Rightarrow> string option" where
  "followee_handle path =
     (if has_prefix path ''@'' then Some (cut_before (CHR ''/'') (trim_prefix path ''@''))
      else let parts = split_on (CHR ''/'') path
           in if length parts \<ge> 2 \<and> parts ! 0 = ''users'' then Some (parts ! 1) else None)"

definition ResolveLocalFolloweeFromObjectIRI :: "config option \<Rightarrow> string \<Rightarrow> (db, int \<times> string) eff" where
  "ResolveLocalFolloweeFromObjectIRI co objectIRI0 =
     (let objectIRI = trim_space objectIRI0
      in case co of
        None \<Rightarrow> fail not_local_actor
      | Some cfg \<Rightarrow>
          (if objectIRI = [] then fail not_local_actor
           else case url_parse (trim_space (PublicBaseURL cfg)) of
             None \<Rightarrow> fail not_local_actor
           | Some base \<Rightarrow>
               (let instDomain = url_hostname base
                in if instDomain = [] then fail not_local_actor
                   else if IsLocalActorFollowersOrFollowingCollectionIRI co objectIRI then fail not_an_actor
                   else let canon = CanonicalActorURL objectIRI
                        in query (\<lambda>d.
      case find (\<lambda>a. trim_right_slash (a_url a) = canon \<and> sql_lower (a_domain a) = sql_lower instDomain) (d_actors d) of
        Some a \<Rightarrow> Inr (a_id a, a_username a)
      | None \<Rightarrow>
          (case LocalUsernameForInboundFollowObject cfg canon of
             Some u \<Rightarrow>
               wrap_err ''followee actor''
                 (case fst (ActorIDByActorURL (LocalActorProfileURL cfg u) d) of Inl e \<Rightarrow> Inl e | Inr i \<Rightarrow> Inr (i, u))
           | None \<Rightarrow>
               (case url_parse objectIRI of
                  None \<Rightarrow> Inl not_local_actor
                | Some ob \<Rightarrow>
                    (if \<not> equal_fold (url_hostname ob) instDomain then Inl not_local_actor
                     else let path = trim_char (CHR ''/'') (u_path ob)
                          in if path = [] then Inl not_local_actor
                             else if contains path ''/followers'' \<or> contains path ''/following'' then Inl not_an_actor
                             else case followee_handle path of
                               None \<Rightarrow> Inl not_local_actor
                             | Some raw \<Rightarrow>
                                 (case path_unescape raw of
                                    None \<Rightarrow> Inl not_local_actor
                                  | Some h \<Rightarrow>
                                      (if trim_space h = [] then Inl not_local_actor
                                       else case find (same_account instDomain h) (d_actors d) of
                                         None \<Rightarrow> Inl not_local_actor
                                       | Some a \<Rightarrow> Inr (a_id a, a_username a))))))))))"

section \<open>Every operation keeps the constraints\<close>

interpretation local_tab: upsert_table actor_name a_url local_upd
  by unfold_locales (simp add: actor_name_def local_upd_def)

interpretation remote_tab: upsert_table a_url actor_name remote_upd
  by unfold_locales (simp add: remote_upd_def)

interpretation account_tab: upsert_table la_actor la_actor account_upd
  by unfold_locales (simp add: account_upd_def)

lemma map_id_upsert:
  assumes "upsert_on key alt name upd new rs = Inr rs'" "\<And>old. a_id (upd old) = a_id old"
  shows "map a_id rs' = map a_id rs \<or> rs' = rs @ [new]"
  using assms(1)
  by (auto simp: upsert_on_def insert_on_def update_where_map assms(2) split: option.splits if_splits)

lemma actors_wf_names: "actors_wf n rs \<longleftrightarrow> distinct (map a_id rs) \<and> distinct (map a_url rs) \<and>
     distinct (map actor_name rs) \<and> (\<forall>i \<in> set (map a_id rs). i < n)"
  by (simp add: actors_wf_def actor_name_def [abs_def])

lemma actors_wf_upsert:
  assumes w: "actors_wf n rs" and new: "a_id new = n"
    and u: "upsert_on key alt name upd new rs = Inr rs'" "\<And>old. a_id (upd old) = a_id old"
    and d: "distinct (map a_url rs')" "distinct (map actor_name rs')"
  shows "actors_wf (n + 1) rs'" "a_id ` set rs \<subseteq> a_id ` set rs'"
proof -
  from map_id_upsert [OF u]
  have "(distinct (map a_id rs') \<and> (\<forall>i \<in> set (map a_id rs'). i < n + 1)) \<and> set (map a_id rs) \<subseteq> set (map a_id rs')"
  proof
    assume "map a_id rs' = map a_id rs"
    moreover from w have "distinct (map a_id rs)" "\<forall>i \<in> set (map a_id rs). i < n" by (auto simp: actors_wf_names)
    ultimately show ?thesis by fastforce
  next
    assume "rs' = rs @ [new]"
    with w new show ?thesis by (fastforce simp: actors_wf_names)
  qed
  then show "actors_wf (n + 1) rs'" "a_id ` set rs \<subseteq> a_id ` set rs'" using d by (simp_all add: actors_wf_names)
qed

lemma db_wf_actors:
  assumes "db_wf d" "actors_wf (d_seq d TActors + 1) rs" "actor_ids d \<subseteq> a_id ` set rs"
  shows "db_wf (d\<lparr>d_seq := (d_seq d)(TActors := d_seq d TActors + 1), d_actors := rs\<rparr>)"
  using assms wf_more_actors [OF assms(3)] by (simp add: db_wf_def actor_ids_def)

lemma returning_id_ok: "returning_id p rs = Inr i \<longleftrightarrow> (\<exists>a. select_one p rs = Inr a \<and> i = a_id a)"
  by (auto simp: returning_id_def split: sum.splits)

lemma upsert_actor_ok:
  assumes "upsert_actor key alt upd row d = (Inr i, d')"
  shows "upsert_on key alt ''actors'' (upd (row (d_seq d TActors))) (row (d_seq d TActors)) (d_actors d) = Inr (d_actors d')"
    "d' = d\<lparr>d_seq := (d_seq d)(TActors := d_seq d TActors + 1), d_actors := d_actors d'\<rparr>"
    "\<exists>a \<in> set (d_actors d'). key a = key (row (d_seq d TActors)) \<and> a_id a = i"
proof -
  from assms obtain rs a where "upsert_on key alt ''actors'' (upd (row (d_seq d TActors))) (row (d_seq d TActors)) (d_actors d) = Inr rs"
    "select_one (\<lambda>a. key a = key (row (d_seq d TActors))) rs = Inr a" "i = a_id a"
    "d' = d\<lparr>d_seq := (d_seq d)(TActors := d_seq d TActors + 1), d_actors := rs\<rparr>"
    by (auto simp: upsert_actor_def statement_def nextval_def bind_res_ok returning_id_ok split: sum.splits)
  with select_one_ok [of _ rs a] show
    "upsert_on key alt ''actors'' (upd (row (d_seq d TActors))) (row (d_seq d TActors)) (d_actors d) = Inr (d_actors d')"
    "d' = d\<lparr>d_seq := (d_seq d)(TActors := d_seq d TActors + 1), d_actors := d_actors d'\<rparr>"
    "\<exists>a \<in> set (d_actors d'). key a = key (row (d_seq d TActors)) \<and> a_id a = i"
    by auto
qed

lemma upsert_actor_wf:
  assumes row: "\<And>i. a_id (row i) = i" and upd: "\<And>new old. a_id (upd new old) = a_id old"
    and d: "\<And>n rs new rs'. actors_wf n rs \<Longrightarrow> upsert_on key alt ''actors'' (upd new) new rs = Inr rs' \<Longrightarrow>
      distinct (map a_url rs') \<and> distinct (map actor_name rs')"
  shows "preserves db_wf (upsert_actor key alt upd row)"
  unfolding upsert_actor_def
proof (rule preserves_statement, goal_cases)
  case (1 s x s')
  let ?n = "d_seq s TActors"
  from 1(2) obtain rs where u: "upsert_on key alt ''actors'' (upd (row ?n)) (row ?n) (d_actors s) = Inr rs"
    and s': "s' = s\<lparr>d_seq := (d_seq s)(TActors := ?n + 1), d_actors := rs\<rparr>"
    by (auto simp: nextval_def bind_res_ok)
  have w: "actors_wf ?n (d_actors s)" using 1(1) by (simp add: db_wf_def)
  from actors_wf_upsert [OF w row u upd] d [OF w u] 1(1) show ?case
    unfolding s' by (intro db_wf_actors) (simp_all add: actor_ids_def)
qed

lemma UpsertLocalActor_wf [preserved]: "preserves db_wf (UpsertLocalActor cfg u pem)"
proof -
  have "preserves db_wf (upsert_actor actor_name a_url local_upd row)" if "\<And>i. a_id (row i) = i" for row
    by (rule upsert_actor_wf [OF that])
       (auto simp: local_upd_def actors_wf_names dest: local_tab.upsert_distinct_alt local_tab.upsert_distinct_key)
  then show ?thesis unfolding UpsertLocalActor_def by (intro preserved preserves_basic) simp
qed

lemma EnsureLocalActor_wf [preserved]: "preserves db_wf (EnsureLocalActor cfg u pem)"
  unfolding EnsureLocalActor_def by (intro preserved preserves_basic)

lemma EnsureRemoteActor_wf [preserved]: "preserves db_wf (EnsureRemoteActor url pem)"
proof -
  have "preserves db_wf (upsert_actor a_url actor_name remote_upd row)" if "\<And>i. a_id (row i) = i" for row
    by (rule upsert_actor_wf [OF that])
       (auto simp: remote_upd_def actors_wf_names dest: remote_tab.upsert_distinct_alt remote_tab.upsert_distinct_key)
  then show ?thesis unfolding EnsureRemoteActor_def by (intro preserved preserves_basic) simp
qed

lemma SetActorRSAKeypair_wf [preserved]: "preserves db_wf (SetActorRSAKeypair i k p)"
  unfolding SetActorRSAKeypair_def Let_def
  by (rule preserves_guard_statement)
     (auto simp: db_wf_def actors_wf_names actor_ids_def update_where_map actor_name_def image_image
       simp flip: set_map)

lemma UpsertLocalAccountPassword_wf [preserved]: "preserves db_wf (UpsertLocalAccountPassword bh i p)"
  unfolding UpsertLocalAccountPassword_def
proof (intro preserved preserves_basic preserves_statement, goal_cases)
  case (1 hash s x s')
  then obtain rs where u: "upsert_on la_actor la_actor ''local_accounts''
      (account_upd \<lparr>la_actor = i, la_hash = hash\<rparr>) \<lparr>la_actor = i, la_hash = hash\<rparr> (d_accounts s) = Inr rs"
    and s': "s' = s\<lparr>d_accounts := rs\<rparr>" "i \<in> actor_ids s"
    by (auto simp: bind_res_ok actor_exists_iff Let_def split: if_splits)
  have "accounts_wf (actor_ids s) (d_accounts s)" using 1 by (simp add: db_wf_def)
  then have "accounts_wf (actor_ids s) rs"
    using account_tab.upsert_set [OF u] account_tab.upsert_distinct_key [OF u] s'(2)
    by (fastforce simp: accounts_wf_def account_upd_def)
  with 1 show ?case unfolding s' by (simp add: db_wf_def)
qed

lemma activities_wf_snoc:
  assumes "activities_wf as n rs" "v_id v = n" "v_actor v \<in> as" "v_activity_id v \<notin> v_activity_id ` set rs"
  shows "activities_wf as (n + 1) (rs @ [v])"
proof -
  have "n \<notin> v_id ` set rs" "\<forall>r \<in> set rs. v_id r < n + 1" using assms(1) by (fastforce simp: activities_wf_def)+
  with assms show ?thesis by (simp add: activities_wf_def)
qed

lemma activities_wf_seq: "activities_wf as n rs \<Longrightarrow> activities_wf as (n + 1) rs"
  by (fastforce simp: activities_wf_def)

text \<open>The three outcomes: already stored, unknown author, stored with a fresh id.\<close>

definition inbound_row :: "int \<Rightarrow> int \<Rightarrow> string \<Rightarrow> string \<Rightarrow> json \<Rightarrow> activity_row" where
  "inbound_row i a iri t raw = \<lparr>v_id = i, v_activity_id = iri, v_actor = a,
     v_type = (if trim_space t = [] then ''unknown'' else trim_space t), v_raw = raw, v_deleted = None\<rparr>"

lemma InsertInboundActivity_cases:
  obtains (known) "iri \<in> v_activity_id ` set (d_activities d)"
      "InsertInboundActivity a iri t raw d =
        (Inr (False, 0), d\<lparr>d_seq := (d_seq d)(TActivities := d_seq d TActivities + 1)\<rparr>)"
  | (no_actor) "a \<notin> actor_ids d" "InsertInboundActivity a iri t raw d = (Inl (ForeignKeyViolation ''activities''), d)"
  | (stored) "iri \<notin> v_activity_id ` set (d_activities d)" "a \<in> actor_ids d"
      "InsertInboundActivity a iri t raw d =
        (Inr (True, d_seq d TActivities), d\<lparr>d_seq := (d_seq d)(TActivities := d_seq d TActivities + 1),
           d_activities := d_activities d @ [inbound_row (d_seq d TActivities) a iri t raw]\<rparr>)"
proof (cases "iri \<in> v_activity_id ` set (d_activities d)")
  case True
  then show ?thesis
    by (intro known) (auto simp: InsertInboundActivity_def eff_simps nextval_def Let_def list_ex_iff)
next
  case False
  show ?thesis
  proof (cases "a \<in> actor_ids d")
    case True
    with False show ?thesis
      by (intro stored) (auto simp: InsertInboundActivity_def eff_simps nextval_def Let_def list_ex_iff
        actor_exists_iff inbound_row_def)
  next
    case no: False
    with False show ?thesis
      by (intro no_actor) (auto simp: InsertInboundActivity_def eff_simps nextval_def Let_def list_ex_iff
        actor_exists_iff)
  qed
qed

lemma InsertInboundActivity_wf [preserved]: "preserves db_wf (InsertInboundActivity a iri t raw)"
proof (rule preservesI)
  fix d assume w: "db_wf d"
  show "db_wf (snd (InsertInboundActivity a iri t raw d))"
  proof (cases rule: InsertInboundActivity_cases [of iri d a t raw])
    case known
    with w show ?thesis by (simp add: db_wf_def activities_wf_seq)
  next
    case no_actor
    with w show ?thesis by simp
  next
    case stored
    let ?v = "inbound_row (d_seq d TActivities) a iri t raw"
    have "activities_wf (actor_ids d) (d_seq d TActivities + 1) (d_activities d @ [?v])"
      using w stored(1,2) by (intro activities_wf_snoc) (simp_all add: db_wf_def inbound_row_def)
    moreover have "bookmarks_wf (actor_ids d) (v_id ` set (d_activities d @ [?v])) (d_bookmarks d)"
      by (rule wf_more_activities [of "activity_ids d"]) (use w in \<open>auto simp: db_wf_def activity_ids_def\<close>)
    ultimately show ?thesis using w stored(3) by (simp add: db_wf_def activity_ids_def)
  qed
qed

text \<open>A second delivery of an activity is recognised and stores nothing.\<close>

lemma InsertInboundActivity_twice:
  assumes "InsertInboundActivity a iri t raw d = (Inr (True, i), d')"
  shows "fst (InsertInboundActivity b iri t' raw' d') = Inr (False, 0)"
    and "d_activities (snd (InsertInboundActivity b iri t' raw' d')) = d_activities d'"
proof -
  have "iri \<in> v_activity_id ` set (d_activities d')"
    using assms by (cases rule: InsertInboundActivity_cases [of iri d a t raw]) (auto simp: inbound_row_def)
  then show "fst (InsertInboundActivity b iri t' raw' d') = Inr (False, 0)"
    "d_activities (snd (InsertInboundActivity b iri t' raw' d')) = d_activities d'"
    by (auto simp: InsertInboundActivity_def eff_simps nextval_def Let_def list_ex_iff)
qed

lemma SoftDeleteActivityForActor_wf [preserved]: "preserves db_wf (SoftDeleteActivityForActor v a)"
  unfolding SoftDeleteActivityForActor_def
  by (rule preserves_statement)
     (auto simp: db_wf_def activities_wf_def activity_ids_def update_where_map set_update_where Let_def
       image_Un simp flip: set_map intro: wf_more_activities)

section \<open>What the operations answer\<close>

lemma EnsureRemoteActor_result:
  assumes "EnsureRemoteActor url pem d = (Inr i, d')"
  shows "\<exists>a \<in> set (d_actors d'). a_id a = i \<and> a_url a = trim_right_slash url"
proof -
  obtain row where "upsert_actor a_url actor_name remote_upd row d = (Inr i, d')" "\<And>n. a_url (row n) = trim_right_slash url"
    using assms by (auto simp: EnsureRemoteActor_def wrap_eff_ok eff_apply split: option.splits if_splits)
  with upsert_actor_ok(3) [OF this(1)] show ?thesis by auto
qed

lemma UpsertLocalActor_result:
  assumes "UpsertLocalActor cfg u pem d = (Inr i, d')"
  shows "\<exists>a \<in> set (d_actors d'). a_id a = i \<and> a_username a = u"
proof -
  obtain row where "upsert_actor actor_name a_url local_upd row d = (Inr i, d')" "\<And>n. a_username (row n) = u"
    using assms by (auto simp: UpsertLocalActor_def wrap_eff_ok eff_apply Let_def split: option.splits if_splits)
  with upsert_actor_ok(3) [OF this(1)] show ?thesis by (auto simp: actor_name_def)
qed

lemma append_missing_set: "set (append_missing have us) = set have \<union> set us"
  by (induction us arbitrary: "have") auto

lemma append_missing_distinct: "distinct have \<Longrightarrow> distinct (append_missing have us)"
  by (induction us arbitrary: "have") auto

lemma append_missing_prefix: "prefix have (append_missing have us)"
proof (induction us arbitrary: "have")
  case (Cons u us)
  show ?case
    using Cons [of "if u \<in> set have then have else have @ [u]"]
    by (auto intro: prefix_order.trans [of "have" "have @ [u]"] split: if_splits)
qed simp

text \<open>Merging never forgets a name: a user is local afterwards iff it was or the database has it.\<close>

lemma mergeCfgLocalUsernames_local:
  assumes "trim_space (LocalUsername cfg) = [] \<longrightarrow> LocalUsername cfg = [] \<or> LocalUsernames cfg \<noteq> []"
    and "us \<noteq> []"
  shows "IsLocalUsername (mergeCfgLocalUsernames cfg us) u \<longleftrightarrow> IsLocalUsername cfg u \<or> u \<in> set us"
  using assms append_missing_set [of "LocalUsernames cfg" us] append_missing_set [of "[LocalUsername cfg]" us]
  by (auto simp: IsLocalUsername_def mergeCfgLocalUsernames_def list_ex_iff Let_def split: if_splits)

text \<open>The followee is a row of the table, found by its IRI or its name on this instance's domain.\<close>

lemma ResolveLocalFollowee_sound:
  assumes "fst (ResolveLocalFolloweeFromObjectIRI (Some cfg) iri d) = Inr (i, u)"
  shows "\<exists>a \<in> set (d_actors d). a_id a = i \<and>
     ((a_username a = u \<and> (\<exists>base. url_parse (trim_space (PublicBaseURL cfg)) = Some base \<and>
          sql_lower (a_domain a) = sql_lower (url_hostname base))) \<or>
      (IsLocalUsername cfg u \<and> trim_right_slash (a_url a) = CanonicalActorURL (LocalActorProfileURL cfg u)))"
proof -
  obtain base where base: "url_parse (trim_space (PublicBaseURL cfg)) = Some base"
    using assms by (auto simp: ResolveLocalFolloweeFromObjectIRI_def Let_def eff_simps split: if_splits option.splits)
  define c where "c = CanonicalActorURL (trim_space iri)"
  define here where "here = (\<lambda>a :: actor_row. trim_right_slash (a_url a) = c \<and> sql_lower (a_domain a) = sql_lower (url_hostname base))"
  show ?thesis
  proof (cases "find here (d_actors d)")
    case (Some a)
    with assms base have "a_id a = i" "a_username a = u"
      by (auto simp: ResolveLocalFolloweeFromObjectIRI_def Let_def eff_simps here_def c_def split: if_splits)
    with find_someD [OF Some] base show ?thesis by (auto simp: here_def)
  next
    case none: None
    show ?thesis
    proof (cases "LocalUsernameForInboundFollowObject cfg c")
      case (Some v)
      with assms base none have r: "fst (ActorIDByActorURL (LocalActorProfileURL cfg u) d) = Inr i" "v = u"
        by (auto simp: ResolveLocalFolloweeFromObjectIRI_def Let_def eff_simps here_def c_def wrap_err_def
          split: if_splits sum.splits)
      from r(1) obtain a where "select_one (\<lambda>a. trim_right_slash (a_url a) = CanonicalActorURL (LocalActorProfileURL cfg u))
          (d_actors d) = Inr a" "a_id a = i"
        by (auto simp: ActorIDByActorURL_def eff_simps returning_id_ok)
      with select_one_ok [OF this(1)] LocalUsernameForInboundFollowObject_local [OF Some] r(2) show ?thesis by blast
    next
      case None
      with assms base none obtain h a where "find (same_account (url_hostname base) h) (d_actors d) = Some a"
        "a_id a = i" "a_username a = u"
        by (auto simp: ResolveLocalFolloweeFromObjectIRI_def Let_def eff_simps here_def c_def
          split: if_splits option.splits)
      with find_someD [OF this(1)] base show ?thesis by (auto simp: same_account_def)
    qed
  qed
qed

end
