(* ===== verification/Queue.thy ===== *)
theory Queue
  imports StoreEdges "HOL-Library.Multiset"
begin

text \<open>
  \<^verbatim>\<open>queue/queue.go\<close>, \<^verbatim>\<open>queue/sqlqueue\<close> and \<^verbatim>\<open>queue/redisqueue\<close>.  \<open>backend\<close> is the interface
  \<^verbatim>\<open>queue.Backend\<close> (with \<^verbatim>\<open>SQLDelayedNack\<close>, which the worker looks for by a type assertion, as an
  optional field).  The SQL queue works on the table \<open>d_jobs\<close> of \<open>Db\<close>, one transaction per
  operation; the Redis queue on a list (\<^verbatim>\<open>RPUSH\<close> / \<^verbatim>\<open>BRPOP\<close>), whose elements stay decoded here.

  \<open>queue_spec\<close> is what the rest of the program relies on, over the multiset of waiting jobs; both
  backends are interpretations of it.  \<open>job_step\<close> is the life cycle of a job of the SQL queue, which
  every operation refines.
\<close>

section \<open>The interface\<close>

definition TypeNoop :: string where "TypeNoop = ''noop''"
definition TypeDeliverActivity :: string where "TypeDeliverActivity = ''deliver_activity''"
definition TypeProcessInboxActivity :: string where "TypeProcessInboxActivity = ''process_inbox_activity''"

text \<open>The zero time is \<open>None\<close>.\<close>

record job =
  jb_type :: string
  jb_payload :: json
  jb_key :: string
  jb_run_after :: "int option"

record lease =
  ls_id :: int
  ls_type :: string
  ls_payload :: json
  ls_attempts :: int

record 's backend =
  q_enqueue :: "job \<Rightarrow> ('s, unit) eff"
  q_dequeue :: "('s, lease option) eff"
  q_ack :: "int \<Rightarrow> ('s, unit) eff"
  q_nack :: "int \<Rightarrow> bool \<Rightarrow> ('s, unit) eff"
  q_nack_schedule :: "(int \<Rightarrow> bool \<Rightarrow> int option \<Rightarrow> string \<Rightarrow> ('s, unit) eff) option"

section \<open>The SQL queue\<close>

definition nullif_empty :: "string \<Rightarrow> string option" where
  "nullif_empty s = (if s = [] then None else Some s)"

definition new_job :: "int \<Rightarrow> db \<Rightarrow> job \<Rightarrow> job_row" where
  "new_job i d jb = \<lparr>j_id = i, j_type = jb_type jb, j_payload = jb_payload jb, j_key = nullif_empty (jb_key jb),
     j_status = Pending, j_run_after = (case jb_run_after jb of None \<Rightarrow> d_now d | Some t \<Rightarrow> t),
     j_locked = None, j_attempts = 0, j_finished = None, j_error = None\<rparr>"

definition SqlEnqueue :: "job \<Rightarrow> (db, unit) eff" where
  "SqlEnqueue jb =
     statement (\<lambda>d0. case nextval TJobs d0 of (i, d) \<Rightarrow>
       (let new = new_job i d jb
        in if j_key new \<noteq> None \<and> list_ex (\<lambda>j. j_key j = j_key new) (d_jobs d)
           then Inl (UniqueViolation ''queue_jobs_idempotency_key_uq'')
           else Inr ((), d\<lparr>d_jobs := d_jobs d @ [new]\<rparr>)))"

text \<open>\<^verbatim>\<open>EnqueueTx\<close> runs the same statement inside the caller's transaction.\<close>

definition EnqueueTx :: "job \<Rightarrow> (db, unit) eff" where
  "EnqueueTx jb = SqlEnqueue jb"

definition due :: "int \<Rightarrow> job_row \<Rightarrow> bool" where
  "due t j \<longleftrightarrow> j_status j = Pending \<and> j_run_after j \<le> t"

text \<open>\<^verbatim>\<open>ORDER BY run_after, id ... LIMIT 1\<close>.\<close>

definition next_due :: "db \<Rightarrow> job_row option" where
  "next_due d =
     (case sort_key j_run_after (sort_key j_id (filter (due (d_now d)) (d_jobs d))) of
        [] \<Rightarrow> None | j # _ \<Rightarrow> Some j)"

definition SqlDequeue :: "(db, lease option) eff" where
  "SqlDequeue =
     transaction (statement (\<lambda>d.
       case next_due d of
         None \<Rightarrow> Inr (None, d)
       | Some j \<Rightarrow>
           Inr (Some \<lparr>ls_id = j_id j, ls_type = j_type j, ls_payload = j_payload j, ls_attempts = j_attempts j\<rparr>,
                d\<lparr>d_jobs := update_where (\<lambda>r. j_id r = j_id j)
                     (\<lambda>r. r\<lparr>j_status := Processing, j_locked := Some (d_now d)\<rparr>) (d_jobs d)\<rparr>)))"

definition processing :: "int \<Rightarrow> job_row \<Rightarrow> bool" where
  "processing i j \<longleftrightarrow> j_id j = i \<and> j_status j = Processing"

definition SqlAck :: "int \<Rightarrow> (db, unit) eff" where
  "SqlAck i =
     bind_eff (statement (\<lambda>d. Inr (count_where (processing i) (d_jobs d),
         d\<lparr>d_jobs := update_where (processing i)
            (\<lambda>j. j\<lparr>j_status := Done, j_finished := Some (d_now d)\<rparr>) (d_jobs d)\<rparr>))) (\<lambda>n.
     if n = 0 then fail (Msg ''ack: no row'') else ret ())"

definition SqlNack :: "int \<Rightarrow> bool \<Rightarrow> (db, unit) eff" where
  "SqlNack i requeue =
     statement (\<lambda>d. Inr ((), d\<lparr>d_jobs := update_where (processing i)
       (\<lambda>j. if requeue then j\<lparr>j_status := Pending, j_locked := None, j_attempts := j_attempts j + 1, j_run_after := d_now d\<rparr>
            else j\<lparr>j_status := Failed, j_finished := Some (d_now d)\<rparr>) (d_jobs d)\<rparr>))"

definition SqlNackSchedule :: "int \<Rightarrow> bool \<Rightarrow> int option \<Rightarrow> string \<Rightarrow> (db, unit) eff" where
  "SqlNackSchedule i permanent runAfter lastErr0 =
     (let lastErr = take 4096 lastErr0
      in statement (\<lambda>d. Inr ((), d\<lparr>d_jobs := update_where (processing i)
           (\<lambda>j. if permanent
                then j\<lparr>j_status := Failed, j_finished := Some (d_now d), j_error := nullif_empty lastErr\<rparr>
                else j\<lparr>j_status := Pending, j_locked := None, j_attempts := j_attempts j + 1,
                       j_run_after := (case runAfter of None \<Rightarrow> d_now d | Some t \<Rightarrow> t),
                       j_error := nullif_empty lastErr\<rparr>) (d_jobs d)\<rparr>)))"

definition sql_backend :: "db backend" where
  "sql_backend = \<lparr>q_enqueue = SqlEnqueue, q_dequeue = SqlDequeue, q_ack = SqlAck, q_nack = SqlNack,
     q_nack_schedule = Some SqlNackSchedule\<rparr>"

section \<open>The Redis queue\<close>

record redis_job =
  rj_id :: int
  rj_type :: string
  rj_payload :: json

record redis =
  rd_id :: int
  rd_list :: "redis_job list"

definition RedisEnqueue :: "job \<Rightarrow> (redis, unit) eff" where
  "RedisEnqueue jb =
     statement (\<lambda>s. let i = rd_id s + 1
       in Inr ((), s\<lparr>rd_id := i,
            rd_list := rd_list s @ [\<lparr>rj_id = i, rj_type = jb_type jb, rj_payload = jb_payload jb\<rparr>]\<rparr>))"

text \<open>\<^verbatim>\<open>BRPOP\<close> takes from the end that \<^verbatim>\<open>RPUSH\<close> appends to.\<close>

definition RedisDequeue :: "(redis, lease option) eff" where
  "RedisDequeue =
     statement (\<lambda>s. if rd_list s = [] then Inr (None, s)
       else let rj = last (rd_list s)
            in Inr (Some \<lparr>ls_id = rj_id rj, ls_type = rj_type rj, ls_payload = rj_payload rj, ls_attempts = 0\<rparr>,
                    s\<lparr>rd_list := butlast (rd_list s)\<rparr>))"

definition RedisAck :: "int \<Rightarrow> (redis, unit) eff" where
  "RedisAck i = ret ()"

definition RedisNack :: "int \<Rightarrow> bool \<Rightarrow> (redis, unit) eff" where
  "RedisNack i requeue = (if requeue then fail (Msg ''redisqueue: Nack requeue not supported in MVP'') else ret ())"

definition redis_backend :: "redis backend" where
  "redis_backend = \<lparr>q_enqueue = RedisEnqueue, q_dequeue = RedisDequeue, q_ack = RedisAck, q_nack = RedisNack,
     q_nack_schedule = None\<rparr>"

section \<open>What a queue promises\<close>

text \<open>A history of calls, with the jobs it accepted and the jobs it handed out.\<close>

datatype queue_call = Enq job | Deq

type_synonym waiting = "(string \<times> json) multiset"

fun run_calls ::
  "(job \<Rightarrow> ('s, unit) eff) \<Rightarrow> ('s, lease option) eff \<Rightarrow> queue_call list \<Rightarrow> 's \<Rightarrow> waiting \<times> waiting \<times> 's" where
  "run_calls enq deq [] s = ({#}, {#}, s)"
| "run_calls enq deq (Enq jb # cs) s =
     (case enq jb s of (r, s') \<Rightarrow>
        (case run_calls enq deq cs s' of (acc, out, t) \<Rightarrow>
           (if is_ok r then add_mset (jb_type jb, jb_payload jb) acc else acc, out, t)))"
| "run_calls enq deq (Deq # cs) s =
     (case deq s of (r, s') \<Rightarrow>
        (case run_calls enq deq cs s' of (acc, out, t) \<Rightarrow>
           (acc, (case r of Inr (Some l) \<Rightarrow> add_mset (ls_type l, ls_payload l) out | _ \<Rightarrow> out), t)))"

locale queue_spec =
  fixes enq :: "job \<Rightarrow> ('s, unit) eff" and deq :: "('s, lease option) eff"
    and inv :: "'s \<Rightarrow> bool" and bag :: "'s \<Rightarrow> waiting"
  assumes enq_inv: "inv s \<Longrightarrow> inv (snd (enq jb s))"
    and deq_inv: "inv s \<Longrightarrow> inv (snd (deq s))"
    and enq_ok: "inv s \<Longrightarrow> enq jb s = (Inr (), s') \<Longrightarrow> bag s' = add_mset (jb_type jb, jb_payload jb) (bag s)"
    and enq_err: "inv s \<Longrightarrow> enq jb s = (Inl e, s') \<Longrightarrow> bag s' = bag s"
    and deq_some: "inv s \<Longrightarrow> deq s = (Inr (Some l), s') \<Longrightarrow> bag s = add_mset (ls_type l, ls_payload l) (bag s')"
    and deq_none: "inv s \<Longrightarrow> deq s = (r, s') \<Longrightarrow> (\<And>l. r \<noteq> Inr (Some l)) \<Longrightarrow> bag s' = bag s"
begin

lemma run_inv: "inv s \<Longrightarrow> inv (snd (snd (run_calls enq deq cs s)))"
proof (induction cs arbitrary: s)
  case (Cons c cs)
  show ?case
  proof (cases c)
    case (Enq jb)
    with Cons.IH [OF enq_inv [OF Cons.prems, of jb]] show ?thesis by (simp add: case_prod_beta)
  next
    case Deq
    with Cons.IH [OF deq_inv [OF Cons.prems]] show ?thesis by (simp add: case_prod_beta)
  qed
qed simp

text \<open>No job is lost, invented or handed out twice: what came in is what went out and what waits.\<close>

lemma conservation:
  "inv s \<Longrightarrow> run_calls enq deq cs s = (acc, out, s') \<Longrightarrow> bag s + acc = out + bag s'"
proof (induction cs arbitrary: s acc out s')
  case (Cons c cs)
  show ?case
  proof (cases c)
    case (Enq jb)
    obtain r t where e: "enq jb s = (r, t)" by force
    obtain acc' out' u where rc: "run_calls enq deq cs t = (acc', out', u)" by (metis prod_cases3)
    have "bag t + acc' = out' + bag u" using Cons.IH [OF _ rc] enq_inv [OF Cons.prems(1), of jb] e by simp
    then show ?thesis
      using Cons.prems Enq e rc enq_ok [OF Cons.prems(1), of jb t] enq_err [OF Cons.prems(1), of jb]
      by (cases r) auto
  next
    case Deq
    obtain r t where e: "deq s = (r, t)" by force
    obtain acc' out' u where rc: "run_calls enq deq cs t = (acc', out', u)" by (metis prod_cases3)
    have IH: "bag t + acc' = out' + bag u" using Cons.IH [OF _ rc] deq_inv [OF Cons.prems(1)] e by simp
    show ?thesis
    proof (cases "\<exists>l. r = Inr (Some l)")
      case True
      with IH show ?thesis using Cons.prems Deq e rc deq_some [OF Cons.prems(1)] by auto
    next
      case False
      then have "bag t = bag s" using deq_none [OF Cons.prems(1) e] by blast
      with IH False show ?thesis using Cons.prems Deq e rc by (auto split: sum.splits option.splits)
    qed
  qed
qed simp

end

definition sql_waiting :: "db \<Rightarrow> waiting" where
  "sql_waiting d = image_mset (\<lambda>j. (j_type j, j_payload j)) (mset (filter (\<lambda>j. j_status j = Pending) (d_jobs d)))"

definition redis_waiting :: "redis \<Rightarrow> waiting" where
  "redis_waiting s = image_mset (\<lambda>j. (rj_type j, rj_payload j)) (mset (rd_list s))"

lemma jobs_wf_update:
  assumes "jobs_wf n js" "\<And>j. j_id (f j) = j_id j \<and> j_key (f j) = j_key j"
  shows "jobs_wf n (update_where p f js)"
proof -
  have k: "map j_key (keyed_jobs (update_where p f js)) = map j_key (keyed_jobs js)"
    using assms(2) by (induction js) (auto simp: keyed_jobs_def update_where_def)
  have i: "map j_id (update_where p f js) = map j_id js" using assms(2) by (simp add: update_where_map)
  have "\<forall>i \<in> set (map j_id js). i < n" using assms(1) by (auto simp: jobs_wf_def)
  then have "\<forall>j \<in> set (update_where p f js). j_id j < n" unfolding i [symmetric] by auto
  with assms(1) k i show ?thesis by (simp add: jobs_wf_def)
qed

lemma jobs_wf_snoc:
  assumes "jobs_wf n js" "j_id j = n"
    "j_key j \<noteq> None \<Longrightarrow> j_key j \<noteq> Some [] \<Longrightarrow> j_key j \<notin> j_key ` set js"
  shows "jobs_wf (n + 1) (js @ [j])"
proof -
  have "n \<notin> j_id ` set js" using assms(1) by (fastforce simp: jobs_wf_def)
  moreover have "\<forall>r \<in> set js. j_id r < n + 1" using assms(1) by (fastforce simp: jobs_wf_def)
  ultimately show ?thesis using assms by (auto simp: jobs_wf_def keyed_jobs_def)
qed

lemma next_due_some:
  "next_due d = Some j \<Longrightarrow> j \<in> set (d_jobs d) \<and> due (d_now d) j"
proof -
  assume "next_due d = Some j"
  then obtain js where "sort_key j_run_after (sort_key j_id (filter (due (d_now d)) (d_jobs d))) = j # js"
    by (auto simp: next_due_def split: list.splits)
  then have "j \<in> set (sort_key j_run_after (sort_key j_id (filter (due (d_now d)) (d_jobs d))))"
    by (metis list.set_intros(1))
  then show ?thesis by simp
qed

lemma list_ex_image: "list_ex (\<lambda>x. f x = k) xs \<longleftrightarrow> k \<in> f ` set xs"
  by (induction xs) auto

lemma new_job_simps [simp]:
  "new_job i (d\<lparr>d_seq := s\<rparr>) jb = new_job i d jb" "j_key (new_job i d jb) = nullif_empty (jb_key jb)"
  "j_id (new_job i d jb) = i" "j_status (new_job i d jb) = Pending" "j_type (new_job i d jb) = jb_type jb"
  "j_payload (new_job i d jb) = jb_payload jb"
  by (simp_all add: new_job_def split: option.split)

lemma SqlEnqueue_apply:
  "SqlEnqueue jb d =
     (if jb_key jb \<noteq> [] \<and> Some (jb_key jb) \<in> j_key ` set (d_jobs d)
      then (Inl (UniqueViolation ''queue_jobs_idempotency_key_uq''), d)
      else (Inr (), d\<lparr>d_seq := (d_seq d)(TJobs := d_seq d TJobs + 1),
        d_jobs := d_jobs d @ [new_job (d_seq d TJobs) d jb]\<rparr>))"
  by (simp add: SqlEnqueue_def statement_apply nextval_def list_ex_image new_job_simps nullif_empty_def)

lemma SqlEnqueue_wf [preserved]: "preserves db_wf (SqlEnqueue jb)"
proof (rule preservesI)
  fix d assume w: "db_wf d"
  show "db_wf (snd (SqlEnqueue jb d))"
  proof (cases "jb_key jb \<noteq> [] \<and> Some (jb_key jb) \<in> j_key ` set (d_jobs d)")
    case False
    have "jobs_wf (d_seq d TJobs + 1) (d_jobs d @ [new_job (d_seq d TJobs) d jb])"
    proof (rule jobs_wf_snoc)
      let ?k = "j_key (new_job (d_seq d TJobs) d jb)"
      assume "?k \<noteq> None" "?k \<noteq> Some []"
      then have "?k = Some (jb_key jb)" "jb_key jb \<noteq> []" by (auto simp: nullif_empty_def split: if_splits)
      with False show "?k \<notin> j_key ` set (d_jobs d)" by simp
    qed (use w in \<open>simp_all add: db_wf_def new_job_def\<close>)
    with w show ?thesis by (simp only: SqlEnqueue_apply False if_False snd_conv) (simp add: db_wf_def)
  qed (use w in \<open>simp add: SqlEnqueue_apply\<close>)
qed

lemma EnqueueTx_wf [preserved]: "preserves db_wf (EnqueueTx jb)"
  unfolding EnqueueTx_def by (rule SqlEnqueue_wf)

lemma queue_ops_wf [preserved]:
  "preserves db_wf SqlDequeue" "preserves db_wf (SqlAck i)" "preserves db_wf (SqlNack i b)"
  "preserves db_wf (SqlNackSchedule i p t e)"
  unfolding SqlDequeue_def SqlAck_def SqlNack_def SqlNackSchedule_def Let_def
  by (intro preserved preserves_basic preserves_statement;
      force simp: db_wf_def split: option.splits intro: jobs_wf_update)+

lemma mset_filter_update:
  assumes "distinct (map k js)" "j \<in> set js" "P j" "\<not> P (f j)"
  shows "mset (filter P js) = add_mset j (mset (filter P (update_where (\<lambda>r. k r = k j) f js)))"
  using assms
proof (induction js)
  case (Cons x js)
  show ?case
  proof (cases "x = j")
    case True
    with Cons.prems(1) have "update_where (\<lambda>r. k r = k j) f js = js"
      unfolding update_where_def by (intro map_idI) (auto simp: image_iff)
    with True Cons.prems show ?thesis by (simp add: update_where_def)
  next
    case False
    with Cons.prems have "k x \<noteq> k j" "j \<in> set js" by auto
    with Cons show ?thesis by (simp add: update_where_def)
  qed
qed simp

interpretation sql_queue: queue_spec SqlEnqueue SqlDequeue db_wf sql_waiting
proof (unfold_locales, goal_cases)
  case (1 s jb)
  then show ?case by (rule preservesD [OF SqlEnqueue_wf])
next
  case (2 s)
  then show ?case by (rule preservesD [OF queue_ops_wf(1)])
next
  case (3 s jb s')
  then have "s' = s\<lparr>d_seq := (d_seq s)(TJobs := d_seq s TJobs + 1),
      d_jobs := d_jobs s @ [new_job (d_seq s TJobs) s jb]\<rparr>"
    by (simp add: SqlEnqueue_apply split: if_splits)
  then show ?case by (simp add: sql_waiting_def new_job_def)
next
  case (4 s jb e s')
  then show ?case by (simp add: SqlEnqueue_apply split: if_splits)
next
  case (5 s l s')
  then obtain j where j: "next_due s = Some j" "ls_type l = j_type j" "ls_payload l = j_payload j"
    "s' = s\<lparr>d_jobs := update_where (\<lambda>r. j_id r = j_id j)
            (\<lambda>r. r\<lparr>j_status := Processing, j_locked := Some (d_now s)\<rparr>) (d_jobs s)\<rparr>"
    by (auto simp: SqlDequeue_def eff_simps split: option.splits)
  with mset_filter_update [of j_id "d_jobs s" j "\<lambda>j. j_status j = Pending"
      "\<lambda>r. r\<lparr>j_status := Processing, j_locked := Some (d_now s)\<rparr>"] next_due_some [OF j(1)] 5(1)
  show ?case by (simp add: sql_waiting_def due_def db_wf_def jobs_wf_def)
next
  case (6 s r s')
  then show ?case by (cases "next_due s") (auto simp: SqlDequeue_def eff_simps)
qed

interpretation redis_queue: queue_spec RedisEnqueue RedisDequeue "\<lambda>_. True" redis_waiting
proof (unfold_locales, goal_cases)
  case (5 s l s')
  then have ne: "rd_list s \<noteq> []" and l: "ls_type l = rj_type (last (rd_list s))" "ls_payload l = rj_payload (last (rd_list s))"
    and s': "s' = s\<lparr>rd_list := butlast (rd_list s)\<rparr>"
    by (auto simp: RedisDequeue_def eff_simps Let_def split: if_splits)
  have "mset (rd_list s) = add_mset (last (rd_list s)) (mset (butlast (rd_list s)))"
    using ne by (metis append_butlast_last_id mset_append mset_single_iff add_mset_add_single mset.simps(1) mset.simps(2))
  with l s' show ?case by (simp add: redis_waiting_def)
qed (auto simp: RedisEnqueue_def RedisDequeue_def eff_simps Let_def redis_waiting_def split: if_splits)

section \<open>The life cycle of a job\<close>

inductive job_step :: "job_row \<Rightarrow> job_row \<Rightarrow> bool" where
  claim: "j_status j = Pending \<Longrightarrow> job_step j (j\<lparr>j_status := Processing, j_locked := Some t\<rparr>)"
| finish: "j_status j = Processing \<Longrightarrow> job_step j (j\<lparr>j_status := Done, j_finished := Some t\<rparr>)"
| kill: "j_status j = Processing \<Longrightarrow> job_step j (j\<lparr>j_status := Failed, j_finished := Some t, j_error := e\<rparr>)"
| retry: "j_status j = Processing \<Longrightarrow>
    job_step j (j\<lparr>j_status := Pending, j_locked := None, j_attempts := j_attempts j + 1, j_run_after := t, j_error := e\<rparr>)"

inductive_cases job_stepE: "job_step j j'"

abbreviation job_steps :: "job_row \<Rightarrow> job_row \<Rightarrow> bool" where
  "job_steps \<equiv> job_step\<^sup>*\<^sup>*"

text \<open>A job that is done or failed stays as it is.\<close>

lemma job_step_final: "job_step j j' \<Longrightarrow> j_status j \<noteq> Done \<and> j_status j \<noteq> Failed"
  by (auto elim: job_stepE)

lemma job_steps_final: "job_steps j j' \<Longrightarrow> j_status j \<in> {Done, Failed} \<Longrightarrow> j' = j"
  by (induction rule: converse_rtranclp_induct) (auto dest: job_step_final)

text \<open>What identifies a job never changes, and attempts only grow.\<close>

lemma job_steps_ident:
  "job_steps j j' \<Longrightarrow> j_id j' = j_id j \<and> j_type j' = j_type j \<and> j_payload j' = j_payload j \<and> j_key j' = j_key j \<and>
     j_attempts j \<le> j_attempts j'"
  by (induction rule: rtranclp_induct) (auto elim: job_stepE)

text \<open>A lock is held exactly while a job is processed or after it has ended.\<close>

definition job_ok :: "job_row \<Rightarrow> bool" where
  "job_ok j \<longleftrightarrow>
     (case j_status j of
        Pending \<Rightarrow> j_locked j = None \<and> j_finished j = None
      | Processing \<Rightarrow> j_locked j \<noteq> None \<and> j_finished j = None
      | _ \<Rightarrow> j_locked j \<noteq> None \<and> j_finished j \<noteq> None)"

lemma job_step_ok: "job_step j j' \<Longrightarrow> job_ok j \<Longrightarrow> job_ok j'"
  by (auto simp: job_ok_def elim!: job_stepE)

lemma job_steps_ok: "job_steps j j' \<Longrightarrow> job_ok j \<Longrightarrow> job_ok j'"
  by (induction rule: rtranclp_induct) (auto intro: job_step_ok)

lemma new_job_ok: "job_ok (new_job i d jb)"
  by (simp add: job_ok_def new_job_def)

text \<open>
  One call of the queue moves each stored job by at most one step and forgets none.
\<close>

definition jobs_refine :: "job_row list \<Rightarrow> job_row list \<Rightarrow> bool" where
  "jobs_refine js js' \<longleftrightarrow> (\<exists>new ks. js' = ks @ new \<and> list_all job_ok new \<and> list_all2 job_step\<^sup>=\<^sup>= js ks)"

lemma list_all2_update_where:
  "(\<And>j. j \<in> set js \<Longrightarrow> p j \<Longrightarrow> R j (f j)) \<Longrightarrow> list_all2 R\<^sup>=\<^sup>= js (update_where p f js)"
  unfolding update_where_def by (induction js) auto

lemma jobs_refine_update:
  "(\<And>j. j \<in> set js \<Longrightarrow> p j \<Longrightarrow> job_step j (f j)) \<Longrightarrow> jobs_refine js (update_where p f js)"
  unfolding jobs_refine_def
  by (rule exI [of _ "[]"], rule exI [of _ "update_where p f js"]) (simp add: list_all2_update_where)

lemma jobs_refine_refl: "jobs_refine js js"
  unfolding jobs_refine_def
  by (rule exI [of _ "[]"], rule exI [of _ js]) (auto intro: list_all2_refl)

lemma jobs_refine_new: "job_ok j \<Longrightarrow> jobs_refine js (js @ [j])"
  unfolding jobs_refine_def
  by (rule exI [of _ "[j]"], rule exI [of _ js]) (auto intro: list_all2_refl)

lemma SqlEnqueue_refines: "jobs_refine (d_jobs d) (d_jobs (snd (SqlEnqueue jb d)))"
  by (simp add: SqlEnqueue_apply jobs_refine_refl jobs_refine_new new_job_ok)

lemma SqlDequeue_refines:
  assumes "db_wf d"
  shows "jobs_refine (d_jobs d) (d_jobs (snd (SqlDequeue d)))"
proof (cases "next_due d")
  case None
  then show ?thesis by (simp add: SqlDequeue_def eff_simps jobs_refine_refl)
next
  case (Some j)
  have "job_step r (r\<lparr>j_status := Processing, j_locked := Some (d_now d)\<rparr>)" if "r \<in> set (d_jobs d)" "j_id r = j_id j" for r
  proof -
    have "distinct (map j_id (d_jobs d))" using assms by (simp add: db_wf_def jobs_wf_def)
    with that next_due_some [OF Some] have "r = j" by (blast intro: distinct_map_inj)
    then show ?thesis using next_due_some [OF Some] by (auto simp: due_def intro: job_step.claim)
  qed
  with Some show ?thesis by (simp add: SqlDequeue_def eff_simps) (rule jobs_refine_update)
qed

lemma SqlAck_refines: "jobs_refine (d_jobs d) (d_jobs (snd (SqlAck i d)))"
proof -
  have "jobs_refine (d_jobs d) (update_where (processing i)
      (\<lambda>j. j\<lparr>j_status := Done, j_finished := Some (d_now d)\<rparr>) (d_jobs d))"
    by (rule jobs_refine_update) (auto simp: processing_def intro: job_step.finish)
  then show ?thesis by (simp add: SqlAck_def eff_simps)
qed

lemma job_step_kill0:
  "j_status j = Processing \<Longrightarrow> job_step j (j\<lparr>j_status := Failed, j_finished := Some t\<rparr>)"
  using job_step.kill [where j = j and t = t and e = "j_error j"] by simp

lemma job_step_retry0:
  "j_status j = Processing \<Longrightarrow>
   job_step j (j\<lparr>j_status := Pending, j_locked := None, j_attempts := j_attempts j + 1, j_run_after := t\<rparr>)"
  using job_step.retry [where j = j and t = t and e = "j_error j"] by simp

lemma SqlNack_refines: "jobs_refine (d_jobs d) (d_jobs (snd (SqlNack i b d)))"
  by (simp add: SqlNack_def eff_simps)
     (rule jobs_refine_update, auto simp: processing_def intro: job_step_kill0 job_step_retry0)

lemma SqlNackSchedule_refines: "jobs_refine (d_jobs d) (d_jobs (snd (SqlNackSchedule i p t e d)))"
  by (simp add: SqlNackSchedule_def eff_simps Let_def)
     (rule jobs_refine_update, auto simp: processing_def intro: job_step.kill job_step.retry)

section \<open>Histories\<close>

text \<open>The calls of the workers and of the clients of the queue in any order, and the clock.\<close>

datatype sql_call =
  CallEnqueue job | CallDequeue | CallAck int | CallNack int bool
  | CallNackSchedule int bool "int option" string | Clock int

fun run_sql :: "sql_call \<Rightarrow> db \<Rightarrow> db" where
  "run_sql (CallEnqueue jb) d = snd (SqlEnqueue jb d)"
| "run_sql CallDequeue d = snd (SqlDequeue d)"
| "run_sql (CallAck i) d = snd (SqlAck i d)"
| "run_sql (CallNack i b) d = snd (SqlNack i b d)"
| "run_sql (CallNackSchedule i p t e) d = snd (SqlNackSchedule i p t e d)"
| "run_sql (Clock t) d = d\<lparr>d_now := t\<rparr>"

lemma run_sql_refines: "db_wf d \<Longrightarrow> jobs_refine (d_jobs d) (d_jobs (run_sql c d))"
  by (cases c) (simp_all add: SqlEnqueue_refines SqlDequeue_refines SqlAck_refines SqlNack_refines
      SqlNackSchedule_refines jobs_refine_refl)

lemma run_sql_wf: "db_wf d \<Longrightarrow> db_wf (run_sql c d)"
proof (cases c)
  case (Clock t)
  assume "db_wf d"
  with Clock show ?thesis by (simp add: db_wf_def)
qed (simp_all add: preservesD [OF SqlEnqueue_wf] preservesD [OF queue_ops_wf(1)] preservesD [OF queue_ops_wf(2)]
      preservesD [OF queue_ops_wf(3)] preservesD [OF queue_ops_wf(4)])

lemma jobs_refine_mem:
  assumes "jobs_refine js js'" "j \<in> set js"
  shows "\<exists>j' \<in> set js'. job_steps j j'"
proof -
  obtain new ks where "js' = ks @ new" "list_all2 job_step\<^sup>=\<^sup>= js ks"
    using assms(1) by (auto simp: jobs_refine_def)
  moreover from this(2) assms(2) obtain k where "k \<in> set ks" "job_step\<^sup>=\<^sup>= j k"
    by (induction rule: list_all2_induct) auto
  ultimately show ?thesis by auto
qed

text \<open>
  C17: Whatever calls are made on the SQL queue, in any order, no job is lost and each moves only
  along the life cycle: it keeps its id and payload, its attempts never decrease, and once done
  or failed it never changes.
\<close>

theorem job_life_cycle:
  assumes "db_wf d" "j \<in> set (d_jobs d)"
  shows "\<exists>j' \<in> set (d_jobs (fold run_sql cs d)). job_steps j j' \<and>
     j_id j' = j_id j \<and> j_payload j' = j_payload j \<and> j_attempts j \<le> j_attempts j' \<and>
     (j_status j \<in> {Done, Failed} \<longrightarrow> j' = j)"
proof -
  have "\<exists>j' \<in> set (d_jobs (fold run_sql cs d)). job_steps j j'"
    using assms
  proof (induction cs arbitrary: d j)
    case (Cons c cs)
    from jobs_refine_mem [OF run_sql_refines [OF Cons.prems(1)] Cons.prems(2), of c]
    obtain k where "k \<in> set (d_jobs (run_sql c d))" "job_steps j k" by blast
    with Cons.IH [OF run_sql_wf [OF Cons.prems(1)], of k c] show ?case by (auto intro: rtranclp_trans)
  qed auto
  then show ?thesis using job_steps_ident [of j] job_steps_final [of j] by blast
qed

lemma next_due_none: "next_due d = None \<longleftrightarrow> filter (due (d_now d)) (d_jobs d) = []"
  by (auto simp: next_due_def split: list.splits dest: arg_cong [of _ "[]" set])

text \<open>
  C18: Every job that is due is handed out: after as many dequeues as there are due jobs, what
  was handed out is exactly the due jobs and none is due any more.
\<close>

theorem due_jobs_handed_out:
  assumes "db_wf d" "length (filter (due (d_now d)) (d_jobs d)) \<le> n"
    and "run_calls SqlEnqueue SqlDequeue (replicate n Deq) d = (acc, out, d')"
  shows "out = image_mset (\<lambda>j. (j_type j, j_payload j)) (mset (filter (due (d_now d)) (d_jobs d))) \<and>
     filter (due (d_now d)) (d_jobs d') = []"
  using assms
proof (induction n arbitrary: d acc out)
  case (Suc n)
  obtain r d1 where e: "SqlDequeue d = (r, d1)" by force
  obtain acc1 out1 d2 where rc: "run_calls SqlEnqueue SqlDequeue (replicate n Deq) d1 = (acc1, out1, d2)"
    by (metis prod_cases3)
  have w: "db_wf d1" using preservesD [OF queue_ops_wf(1) Suc.prems(1)] e by simp
  have d2: "d2 = d'" "out = (case r of Inr (Some l) \<Rightarrow> add_mset (ls_type l, ls_payload l) out1 | _ \<Rightarrow> out1)"
    using Suc.prems(3) e rc by auto
  note rc' = rc [unfolded d2(1)]
  show ?case
  proof (cases "next_due d")
    case None
    then have n: "r = Inr None" "d1 = d" using e by (auto simp: SqlDequeue_def eff_simps)
    from None have f: "filter (due (d_now d)) (d_jobs d) = []" by (simp only: next_due_none)
    have "out1 = {#} \<and> filter (due (d_now d)) (d_jobs d') = []"
      using Suc.IH [OF w _ rc', unfolded n(2) f] by simp
    then show ?thesis by (simp only: d2(2) n(1) f) simp
  next
    case (Some j)
    let ?claim = "\<lambda>r. r\<lparr>j_status := Processing, j_locked := Some (d_now d)\<rparr>"
    from Some e have r: "r = Inr (Some \<lparr>ls_id = j_id j, ls_type = j_type j, ls_payload = j_payload j, ls_attempts = j_attempts j\<rparr>)"
      and d1: "d1 = d\<lparr>d_jobs := update_where (\<lambda>r. j_id r = j_id j) ?claim (d_jobs d)\<rparr>"
      by (auto simp: SqlDequeue_def eff_simps)
    have m: "mset (filter (due (d_now d)) (d_jobs d)) = add_mset j (mset (filter (due (d_now d)) (d_jobs d1)))"
      using mset_filter_update [of j_id "d_jobs d" j "due (d_now d)" ?claim] next_due_some [OF Some] Suc.prems(1)
      by (simp add: d1 due_def db_wf_def jobs_wf_def)
    have nw: "d_now d1 = d_now d" by (simp add: d1)
    have "size (mset (filter (due (d_now d)) (d_jobs d))) = Suc (size (mset (filter (due (d_now d)) (d_jobs d1))))"
      by (simp only: m size_add_mset)
    then have "length (filter (due (d_now d1)) (d_jobs d1)) \<le> n"
      using Suc.prems(2) by (simp only: size_mset nw)
    from Suc.IH [OF w this rc'] have IH: "out1 = image_mset (\<lambda>j. (j_type j, j_payload j)) (mset (filter (due (d_now d)) (d_jobs d1)))"
      "filter (due (d_now d)) (d_jobs d') = []" by (simp_all only: nw)
    show ?thesis unfolding m d2(2) r IH by simp
  qed
qed simp

text \<open>
  C19: Between enqueues and dequeues in any order the SQL queue neither loses, invents nor
  repeats a job: what waited and was accepted is what was handed out and still waits.
\<close>

theorem sql_queue_conserves:
  assumes "db_wf d" "run_calls SqlEnqueue SqlDequeue cs d = (acc, out, d')"
  shows "sql_waiting d + acc = out + sql_waiting d'"
  by (rule sql_queue.conservation [OF assms])

text \<open>
  The Redis queue hands out the job that was enqueued last, so it is not first in, first
  out.
\<close>

theorem RedisDequeue_youngest:
  assumes "RedisEnqueue a s = (r, s1)" "RedisEnqueue b s1 = (r', s2)" "RedisDequeue s2 = (Inr (Some l), s3)"
  shows "ls_type l = jb_type b \<and> ls_payload l = jb_payload b"
  using assms by (auto simp: RedisEnqueue_def RedisDequeue_def eff_simps Let_def)

end
