(* ===== verification/InboxProc.thy ===== *)
theory InboxProc
  imports As2 Fetch StoreActors Queue
begin

text \<open>
  \<^verbatim>\<open>internal/inboxproc\<close>: the side effects of a stored activity.  The state of the process is \<open>sys\<close>:
  the database, the Redis list, the state of the network and the configuration (which
  \<^verbatim>\<open>AugmentLocalUsernamesFromDB\<close> updates in place).  A handler is an \<open>eff\<close> over it: the statements
  before an error stay.  The pool and the configuration are never nil here; a nil HTTP client is
  \<open>None\<close>.

  The lemmas: which activities have side effects at all, that every handler keeps the constraints
  of the database, that an Update or Delete changes objects of its own actor only, that an Accept or
  Reject comes from the followee, that an Undo removes edges of its own actor only, and where
  ownership is not checked.
\<close>

section \<open>The state of a process\<close>

record 'w sys =
  s_db :: db
  s_redis :: redis
  s_net :: 'w
  s_cfg :: config

definition on_db :: "(db, 'a) eff \<Rightarrow> ('w sys, 'a) eff" where
  "on_db m s = (case m (s_db s) of (r, d) \<Rightarrow> (r, s\<lparr>s_db := d\<rparr>))"

definition on_redis :: "(redis, 'a) eff \<Rightarrow> ('w sys, 'a) eff" where
  "on_redis m s = (case m (s_redis s) of (r, d) \<Rightarrow> (r, s\<lparr>s_redis := d\<rparr>))"

definition on_net :: "('w, 'a) eff \<Rightarrow> ('w sys, 'a) eff" where
  "on_net m s = (case m (s_net s) of (r, d) \<Rightarrow> (r, s\<lparr>s_net := d\<rparr>))"

definition lift_sql :: "db backend \<Rightarrow> 'w sys backend" where
  "lift_sql b = \<lparr>q_enqueue = (\<lambda>j. on_db (q_enqueue b j)), q_dequeue = on_db (q_dequeue b), q_ack = (\<lambda>i. on_db (q_ack b i)),
     q_nack = (\<lambda>i r. on_db (q_nack b i r)),
     q_nack_schedule = map_option (\<lambda>f i p t e. on_db (f i p t e)) (q_nack_schedule b)\<rparr>"

definition lift_redis :: "redis backend \<Rightarrow> 'w sys backend" where
  "lift_redis b = \<lparr>q_enqueue = (\<lambda>j. on_redis (q_enqueue b j)), q_dequeue = on_redis (q_dequeue b), q_ack = (\<lambda>i. on_redis (q_ack b i)),
     q_nack = (\<lambda>i r. on_redis (q_nack b i r)),
     q_nack_schedule = map_option (\<lambda>f i p t e. on_redis (f i p t e)) (q_nack_schedule b)\<rparr>"

lemma on_db_apply [eff_simps]: "on_db m s = (fst (m (s_db s)), s\<lparr>s_db := snd (m (s_db s))\<rparr>)"
  by (simp add: on_db_def case_prod_beta)

lemma on_net_apply [eff_simps]: "on_net m s = (fst (m (s_net s)), s\<lparr>s_net := snd (m (s_net s))\<rparr>)"
  by (simp add: on_net_def case_prod_beta)

definition db_inv :: "(db \<Rightarrow> bool) \<Rightarrow> 'w sys \<Rightarrow> bool" where
  "db_inv P s \<longleftrightarrow> P (s_db s)"

lemma preserves_on_db [preserved]: "preserves P m \<Longrightarrow> preserves (db_inv P) (on_db m)"
  by (simp add: preserves_def on_db_apply db_inv_def)

lemma preserves_on_net [preserved]: "preserves (db_inv P) (on_net m)"
  by (simp add: preserves_def on_net_apply db_inv_def)

lemma preserves_on_redis [preserved]: "preserves (db_inv P) (on_redis m)"
  by (simp add: preserves_def on_redis_def db_inv_def case_prod_beta)

section \<open>Addressing\<close>

definition isASPublicRef :: "string \<Rightarrow> bool" where
  "isASPublicRef s =
     (let lower = go_lower (trim_space s)
      in if lower = ''public'' \<or> lower = ''as:public'' then True
         else contains lower ''#public'' \<or> has_suffix lower ''/public'' \<or> contains lower ''activitystreams#public'')"

definition local_ref :: "config \<Rightarrow> string \<Rightarrow> bool" where
  "local_ref cfg r0 =
     (let r = trim_space r0
      in if r = [] then False
         else isASPublicRef r \<or> IsAddressingThisInstanceInbox (Some cfg) r \<or> RefAddressesLocalRecipient cfg r)"

definition activityShouldApplySideEffects :: "config option \<Rightarrow> obj \<Rightarrow> bool" where
  "activityShouldApplySideEffects co fs =
     (case co of
        None \<Rightarrow> True
      | Some cfg \<Rightarrow>
          (if PublicBaseURL cfg = [] then True
           else let refs = audienceIRIs fs
                in if refs = [] then True else list_ex (local_ref cfg) refs))"

definition actorsMatch :: "string \<Rightarrow> string \<Rightarrow> bool" where
  "actorsMatch a b \<longleftrightarrow> trim_right_slash (trim_space a) = trim_right_slash (trim_space b)"

section \<open>Create, Update, Delete\<close>

record ('pub, 'priv, 'w) procenv =
  pe_fetch :: "('pub, 'priv) fetchenv"
  pe_client :: "'w client option"
  pe_policy :: "policy option"

text \<open>The checks that the three handlers share: the actor field names the actor the row belongs to.\<close>

definition check_actor :: "string \<Rightarrow> activity_row \<Rightarrow> obj \<Rightarrow> ('w sys, string) eff" where
  "check_actor verb row fs =
     bind_eff (of_res (ActorIRIFromActivity fs)) (\<lambda>actorIRI.
     bind_eff (on_db (actorURLByDBID (v_actor row))) (\<lambda>signerURL.
       if \<not> actorsMatch actorIRI signerURL then fail (Msg (verb @ '': activity actor does not match stored actor''))
       else ret actorIRI))"

text \<open>An object that came as an IRI is fetched and must carry that IRI as its id.\<close>

definition create_object ::
  "('pub, 'priv, 'w) procenv \<Rightarrow> config \<Rightarrow> string \<times> string \<times> json option \<Rightarrow>
   ('w sys, string \<times> string \<times> json option) eff" where
  "create_object env cfg ob =
     (case ob of (i, typ, rawJSON) \<Rightarrow>
       if rawJSON = None \<and> i \<noteq> [] \<and> pe_client env \<noteq> None then
         (let maxB = (if CreateObjectMaxFetchBytes cfg > 0 then CreateObjectMaxFetchBytes cfg else 1048576);
              pol = (case pe_policy env of None \<Rightarrow> PolicyFromConfig (Some cfg) | Some p \<Rightarrow> p)
          in bind_eff (wrap_eff ''create fetch object''
                (on_net (FetchActivityPubJSON (pe_fetch env) (pe_client env) (Some pol) i (Some cfg) maxB))) (\<lambda>body.
             bind_eff (wrap_eff ''create fetched object'' (of_res (ObjectFieldIDType (json_decode (pe_fetch env) body))))
               (\<lambda>(i2, typ2, raw2).
                if \<not> actorsMatch i2 i then fail (Msg ''create: fetched object id does not match IRI'')
                else ret (i2, typ2, raw2))))
       else ret (i, typ, rawJSON))"

definition handleCreate :: "('pub, 'priv, 'w) procenv \<Rightarrow> config \<Rightarrow> activity_row \<Rightarrow> obj \<Rightarrow> ('w sys, unit) eff" where
  "handleCreate env cfg row fs =
     (case obj_get fs ''object'' of
        None \<Rightarrow> fail (Msg ''create missing object'')
      | Some rawObj \<Rightarrow>
          bind_eff (of_res (ObjectFieldIDType (Some rawObj))) (\<lambda>ob0.
          bind_eff (create_object env cfg ob0) (\<lambda>(i, typ, rawOpt).
          case rawOpt of
            None \<Rightarrow> ret ()
          | Some rawJSON \<Rightarrow>
              (if \<not> activityShouldApplySideEffects (Some cfg) fs then ret ()
               else bind_eff (check_actor ''create'' row fs) (\<lambda>actorIRI.
                    if \<not> ObjectAttributedToMatches rawJSON actorIRI
                    then fail (Msg ''create: attributedTo does not match actor'')
                    else on_db (UpsertFederatedObject i (v_actor row) typ rawJSON))))))"

definition handleUpdate :: "config \<Rightarrow> activity_row \<Rightarrow> obj \<Rightarrow> ('w sys, unit) eff" where
  "handleUpdate cfg row fs =
     (case obj_get fs ''object'' of
        None \<Rightarrow> fail (Msg ''update missing object'')
      | Some rawObj \<Rightarrow>
          bind_eff (of_res (ObjectFieldIDType (Some rawObj))) (\<lambda>(i, typ, rawOpt).
          case rawOpt of
            None \<Rightarrow> ret ()
          | Some rawJSON \<Rightarrow>
              (if \<not> activityShouldApplySideEffects (Some cfg) fs then ret ()
               else bind_eff (check_actor ''update'' row fs) (\<lambda>actorIRI.
                    if \<not> ObjectAttributedToMatches rawJSON actorIRI
                    then fail (Msg ''update: attributedTo does not match actor'')
                    else handle (on_db (ObjectOwnerActorID i))
                           (\<lambda>e. if errors_is_no_rows e then on_db (UpsertFederatedObject i (v_actor row) typ rawJSON)
                                else fail e)
                           (\<lambda>owner. if owner \<noteq> v_actor row then fail (Msg ''update: actor does not own object'')
                                    else on_db (UpsertFederatedObject i (v_actor row) typ rawJSON))))))"

definition handleDelete :: "config \<Rightarrow> activity_row \<Rightarrow> obj \<Rightarrow> ('w sys, unit) eff" where
  "handleDelete cfg row fs =
     (case obj_get fs ''object'' of
        None \<Rightarrow> fail (Msg ''delete missing object'')
      | Some rawObj \<Rightarrow>
          bind_eff (of_res (TombstoneOrObjectID (Some rawObj))) (\<lambda>targetID.
          if \<not> activityShouldApplySideEffects (Some cfg) fs then ret ()
          else bind_eff (check_actor ''delete'' row fs) (\<lambda>_.
               handle (on_db (ObjectOwnerActorID targetID))
                 (\<lambda>e. if errors_is_no_rows e then ret () else fail e)
                 (\<lambda>owner. if owner \<noteq> v_actor row then fail (Msg ''delete: actor does not own object'')
                          else on_db (SoftDeleteFederatedObjectByURL targetID)))))"

section \<open>Follow, Accept, Reject\<close>

definition buildAcceptFollow :: "string \<Rightarrow> string \<Rightarrow> json" where
  "buildAcceptFollow followeeProfile followActivityIRI =
     (let frag = (case url_parse followActivityIRI of
                    None \<Rightarrow> ''req''
                  | Some u \<Rightarrow> (if trim_char (CHR ''/'') (u_path u) = [] then ''req''
                              else replace_char (CHR ''/'') ''-'' (trim_char (CHR ''/'') (u_path u))));
          acceptID = trim_right_slash followeeProfile @ ''/accepts/follows/'' @ path_escape frag
      in JObj [(''@context'', JStr ''https://www.w3.org/ns/activitystreams''), (''actor'', JStr followeeProfile),
               (''id'', JStr acceptID), (''object'', JStr followActivityIRI), (''type'', JStr ''Accept'')])"

text \<open>\<^verbatim>\<open>json.Marshal(DeliverPayload{...})\<close>: the two names are omitted when empty.\<close>

definition marshal_deliver :: "string \<Rightarrow> json \<Rightarrow> string \<Rightarrow> string \<Rightarrow> json" where
  "marshal_deliver inbox body localUser signUser =
     JObj ([(''inboxUrl'', JStr inbox), (''body'', body)] @
           (if localUser = [] then [] else [(''localUsername'', JStr localUser)]) @
           (if signUser = [] then [] else [(''signingUsername'', JStr signUser)]))"

definition accept_job :: "string \<Rightarrow> string \<Rightarrow> string \<Rightarrow> string \<Rightarrow> job" where
  "accept_job inbox followeeURL followeeUser followIRI =
     \<lparr>jb_type = TypeDeliverActivity,
      jb_payload = marshal_deliver inbox (buildAcceptFollow followeeURL followIRI) followeeUser followeeUser,
      jb_key = ''accept:'' @ followIRI @ '':'' @ inbox, jb_run_after = None\<rparr>"

definition actor_url_query :: "int \<Rightarrow> (db, string) eff" where
  "actor_url_query i =
     query (\<lambda>d. case select_one (\<lambda>a. a_id a = i) (d_actors d) of Inl e \<Rightarrow> Inl e | Inr a \<Rightarrow> Inr (a_url a))"

text \<open>A nil client cannot resolve an inbox: calling a method of it panics; here it is an error.\<close>

definition resolve_inbox :: "('pub, 'priv, 'w) procenv \<Rightarrow> config \<Rightarrow> string \<Rightarrow> ('w sys, string) eff" where
  "resolve_inbox env cfg ref =
     (case pe_client env of
        None \<Rightarrow> fail (Msg ''nil http client'')
      | Some c \<Rightarrow> on_net (InboxURLFromReference (pe_fetch env) c (pe_policy env) ref (Some cfg)))"

definition handleFollow ::
  "('pub, 'priv, 'w) procenv \<Rightarrow> 'w sys backend \<Rightarrow> config \<Rightarrow> activity_row \<Rightarrow> obj \<Rightarrow> ('w sys, unit) eff" where
  "handleFollow env q cfg row fs =
     bind_eff (of_res (ObjectIRI fs)) (\<lambda>objectIRI.
     bind_eff (on_db (ResolveLocalFolloweeFromObjectIRI (Some cfg) objectIRI)) (\<lambda>(followeeID, followeeUser).
     bind_eff (on_db (UpsertFollow (v_actor row) followeeID (v_activity_id row) FollowStatePending)) (\<lambda>_.
     if \<not> FollowAutoAccept cfg then ret ()
     else bind_eff (on_db (actor_url_query followeeID)) (\<lambda>followeeActorURL.
          if LocalUsernameForActorURL cfg followeeActorURL = None then fail (Msg ''followee id not local'')
          else bind_eff (on_db (actor_url_query (v_actor row))) (\<lambda>followerActorURL.
               bind_eff (wrap_eff ''follower inbox'' (resolve_inbox env cfg followerActorURL)) (\<lambda>inbox.
               bind_eff (q_enqueue q (accept_job inbox followeeActorURL followeeUser (v_activity_id row))) (\<lambda>_.
                 on_db (SetFollowStateByFollowActivityIDForFollower (v_activity_id row) FollowStateAccepted (v_actor row)))))))))"

definition follow_parties :: "string \<Rightarrow> (db, int \<times> int) eff" where
  "follow_parties target =
     query (\<lambda>d. case select_one (\<lambda>f. f_activity f = target) (d_follows d) of
       Inl e \<Rightarrow> Inl e | Inr f \<Rightarrow> Inr (f_follower f, f_followee f))"

definition answer_follow :: "string \<Rightarrow> string \<Rightarrow> activity_row \<Rightarrow> obj \<Rightarrow> ('w sys, unit) eff" where
  "answer_follow verb state row fs =
     bind_eff (of_res (ObjectIRI fs)) (\<lambda>target.
     handle (on_db (follow_parties target))
       (\<lambda>e. if errors_is_no_rows e then ret () else fail e)
       (\<lambda>(followerID, followeeID).
          if followeeID \<noteq> v_actor row then fail (Msg (verb @ '': activity actor is not the followee for this follow''))
          else on_db (SetFollowStateByFollowActivityIDForFollower target state followerID)))"

definition handleAccept :: "activity_row \<Rightarrow> obj \<Rightarrow> ('w sys, unit) eff" where
  "handleAccept row fs = answer_follow ''accept'' FollowStateAccepted row fs"

definition handleReject :: "activity_row \<Rightarrow> obj \<Rightarrow> ('w sys, unit) eff" where
  "handleReject row fs = answer_follow ''reject'' FollowStateRejected row fs"

section \<open>Like, Announce, Block\<close>

definition handleLike :: "config \<Rightarrow> activity_row \<Rightarrow> obj \<Rightarrow> ('w sys, unit) eff" where
  "handleLike cfg row fs =
     bind_eff (of_res (ObjectIRI fs)) (\<lambda>objectURL.
       if \<not> activityShouldApplySideEffects (Some cfg) fs then ret ()
       else on_db (UpsertFederatedLike (v_actor row) objectURL (v_activity_id row)))"

definition handleAnnounce :: "config \<Rightarrow> activity_row \<Rightarrow> obj \<Rightarrow> ('w sys, unit) eff" where
  "handleAnnounce cfg row fs =
     bind_eff (of_res (ObjectIRI fs)) (\<lambda>objectURL.
       if \<not> activityShouldApplySideEffects (Some cfg) fs then ret ()
       else on_db (UpsertFederatedAnnounce (v_actor row) objectURL (v_activity_id row)))"

definition handleBlock :: "config \<Rightarrow> activity_row \<Rightarrow> obj \<Rightarrow> ('w sys, unit) eff" where
  "handleBlock cfg row fs =
     bind_eff (of_res (ObjectIRI fs)) (\<lambda>blockedURL.
       if blockedURL = [] then fail (Msg ''block: empty object'')
       else if \<not> activityShouldApplySideEffects (Some cfg) fs then ret ()
       else on_db (UpsertFederatedBlock (v_actor row) blockedURL (v_activity_id row)))"

section \<open>Undo\<close>

text \<open>A bare IRI: the first of the four tables that holds an edge of it, if the actor owns the edge.\<close>

definition undoBareActivityIRI :: "int \<Rightarrow> string \<Rightarrow> (db, unit) eff" where
  "undoBareActivityIRI actorID activityIRI =
     bind_eff (wrap_eff ''undo follow'' (delete_follows activityIRI actorID)) (\<lambda>n. if n > 0 then ret ()
     else bind_eff (wrap_eff ''undo like'' (delete_likes activityIRI actorID)) (\<lambda>n. if n > 0 then ret ()
     else bind_eff (wrap_eff ''undo announce'' (delete_announces activityIRI actorID)) (\<lambda>n. if n > 0 then ret ()
     else bind_eff (wrap_eff ''undo block'' (delete_blocks activityIRI actorID)) (\<lambda>_. ret ()))))"

definition jsonStringFromMap :: "obj \<Rightarrow> string \<Rightarrow> err + string" where
  "jsonStringFromMap m key =
     (case obj_get m key of
        None \<Rightarrow> Inl (Msg (''missing '' @ key))
      | Some raw \<Rightarrow>
          (case um_string raw of
             None \<Rightarrow> Inl (Msg (''invalid '' @ key))
           | Some s \<Rightarrow> if s = [] then Inl (Msg (''invalid '' @ key)) else Inr s))"

fun first_as_string :: "json list \<Rightarrow> string option" where
  "first_as_string [] = None"
| "first_as_string (el # arr) = (case as_string el of Some s \<Rightarrow> Some s | None \<Rightarrow> first_as_string arr)"

definition undoTargetType :: "obj \<Rightarrow> string" where
  "undoTargetType m =
     (case obj_get m ''type'' of
        None \<Rightarrow> []
      | Some raw \<Rightarrow>
          (case um_string raw of
             Some s \<Rightarrow> NormalizeActivityType s
           | None \<Rightarrow>
               (case um_array raw of
                  None \<Rightarrow> []
                | Some arr \<Rightarrow> (case first_as_string arr of None \<Rightarrow> [] | Some s \<Rightarrow> NormalizeActivityType s))))"

definition deleteUndoTarget :: "int \<Rightarrow> obj \<Rightarrow> string \<Rightarrow> (db, unit) eff" where
  "deleteUndoTarget actorID ob i =
     (let t = undoTargetType ob
      in if equal_fold t ''Follow'' then DeleteFollowByFollowActivityIDForFollower i actorID
         else if equal_fold t ''Like'' then DeleteFederatedLikeByActivityID i actorID
         else if equal_fold t ''Announce'' then DeleteFederatedAnnounceByActivityID i actorID
         else if equal_fold t ''Block'' then DeleteFederatedBlockByActivityID i actorID
         else ret ())"

definition handleUndo :: "activity_row \<Rightarrow> obj \<Rightarrow> ('w sys, unit) eff" where
  "handleUndo row fs =
     (case obj_get fs ''object'' of
        None \<Rightarrow> fail (Msg ''undo missing object'')
      | Some raw \<Rightarrow>
          (case string_ref raw of
             Some s \<Rightarrow> on_db (undoBareActivityIRI (v_actor row) s)
           | None \<Rightarrow>
               (case um_object raw of
                  None \<Rightarrow> fail (Wrapped ''undo object'' (Msg ''type''))
                | Some ob \<Rightarrow>
                    bind_eff (of_res (jsonStringFromMap ob ''id'')) (\<lambda>i.
                      on_db (deleteUndoTarget (v_actor row) ob i)))))"

section \<open>Dispatch\<close>

definition activity_kind :: "activity_row \<Rightarrow> obj \<Rightarrow> string" where
  "activity_kind row fs =
     (let t = PrimaryActivityType fs
      in trim_space (if t = [] then NormalizeActivityType (v_type row) else t))"

definition augment_cfg :: "('w sys, config) eff" where
  "augment_cfg s =
     (case AugmentLocalUsernamesFromDB (s_cfg s) (s_db s) of
        (Inl e, d) \<Rightarrow> (Inl (Wrapped ''augment local usernames'' e), s\<lparr>s_db := d\<rparr>)
      | (Inr cfg, d) \<Rightarrow> (Inr cfg, s\<lparr>s_db := d, s_cfg := cfg\<rparr>))"

definition dispatch ::
  "('pub, 'priv, 'w) procenv \<Rightarrow> 'w sys backend \<Rightarrow> config \<Rightarrow> string \<Rightarrow> activity_row \<Rightarrow> obj \<Rightarrow> ('w sys, unit) eff" where
  "dispatch env q cfg kind row fs =
     (if kind = ''create'' then handleCreate env cfg row fs
      else if kind = ''update'' then handleUpdate cfg row fs
      else if kind = ''delete'' then handleDelete cfg row fs
      else if kind = ''follow'' then handleFollow env q cfg row fs
      else if kind = ''accept'' then handleAccept row fs
      else if kind = ''reject'' then handleReject row fs
      else if kind = ''undo'' then handleUndo row fs
      else if kind = ''like'' then handleLike cfg row fs
      else if kind = ''announce'' then handleAnnounce cfg row fs
      else if kind = ''block'' then handleBlock cfg row fs
      else ret ())"

definition ProcessInboxActivity ::
  "('pub, 'priv, 'w) procenv \<Rightarrow> 'w sys backend \<Rightarrow> int \<Rightarrow> ('w sys, unit) eff" where
  "ProcessInboxActivity env q activityDBID =
     bind_eff augment_cfg (\<lambda>cfg.
     bind_eff (on_db (GetActivityByID activityDBID)) (\<lambda>row.
       case um_object (v_raw row) of
         None \<Rightarrow> fail (Wrapped ''decode activity json'' (Msg ''type''))
       | Some fs \<Rightarrow>
           (let t = activity_kind row fs;
                pol = (case pe_policy env of None \<Rightarrow> PolicyFromConfig (Some cfg) | Some p \<Rightarrow> p)
            in if t = [] then fail (Msg ''activity missing type'')
               else dispatch (env\<lparr>pe_policy := Some pol\<rparr>) q cfg (go_lower t) row fs)))"

section \<open>The constraints of the database\<close>

lemma lookups_wf [preserved]:
  "preserves P (actorURLByDBID i)" "preserves P (ObjectOwnerActorID u)" "preserves P (actor_url_query i)"
  "preserves P (follow_parties t)" "preserves P (GetActivityByID v)"
  by (simp_all add: actorURLByDBID_def ObjectOwnerActorID_def actor_url_query_def follow_parties_def GetActivityByID_def)

lemma ResolveLocalFollowee_keeps [preserved]: "preserves P (ResolveLocalFolloweeFromObjectIRI co i)"
  unfolding ResolveLocalFolloweeFromObjectIRI_def by (intro preserved)

lemma resolve_inbox_keeps [preserved]: "preserves (db_inv P) (resolve_inbox env cfg ref)"
  unfolding resolve_inbox_def by (intro preserved)

lemma check_actor_keeps [preserved]: "preserves (db_inv P) (check_actor v row fs)"
  unfolding check_actor_def by (intro preserved)

lemma create_object_keeps [preserved]: "preserves (db_inv P) (create_object env cfg ob)"
  unfolding create_object_def by (intro preserved)

lemma undo_wf [preserved]: "preserves db_wf (undoBareActivityIRI a i)" "preserves db_wf (deleteUndoTarget a ob i)"
  unfolding undoBareActivityIRI_def deleteUndoTarget_def by (intro preserved)+

lemma handlers_wf [preserved]:
  "preserves (db_inv db_wf) (handleCreate env cfg row fs)"
  "preserves (db_inv db_wf) (handleUpdate cfg row fs)"
  "preserves (db_inv db_wf) (handleDelete cfg row fs)"
  "preserves (db_inv db_wf) (handleAccept row fs)"
  "preserves (db_inv db_wf) (handleReject row fs)"
  "preserves (db_inv db_wf) (handleLike cfg row fs)"
  "preserves (db_inv db_wf) (handleAnnounce cfg row fs)"
  "preserves (db_inv db_wf) (handleBlock cfg row fs)"
  "preserves (db_inv db_wf) (handleUndo row fs)"
  unfolding handleCreate_def handleUpdate_def handleDelete_def handleAccept_def handleReject_def answer_follow_def
    handleLike_def handleAnnounce_def handleBlock_def handleUndo_def
  by (intro preserved)+

definition keeps_on_enqueue :: "(db \<Rightarrow> bool) \<Rightarrow> 'w sys backend \<Rightarrow> bool" where
  "keeps_on_enqueue P q \<longleftrightarrow> (\<forall>j. preserves (db_inv P) (q_enqueue q j))"

lemma keeps_on_enqueueD [preserved]: "keeps_on_enqueue P q \<Longrightarrow> preserves (db_inv P) (q_enqueue q j)"
  by (simp add: keeps_on_enqueue_def)

lemma handleFollow_wf [preserved]:
  "keeps_on_enqueue db_wf q \<Longrightarrow> preserves (db_inv db_wf) (handleFollow env q cfg row fs)"
  unfolding handleFollow_def by (intro preserved)

lemma AugmentLocalUsernames_keeps: "preserves P (AugmentLocalUsernamesFromDB cfg)"
  unfolding AugmentLocalUsernamesFromDB_def ListLocalActorsOnDomain_def by (intro preserved)

lemma augment_cfg_keeps [preserved]: "preserves (db_inv P) augment_cfg"
proof (rule preservesI)
  fix s :: "'a sys" assume "db_inv P s"
  then have "P (snd (AugmentLocalUsernamesFromDB (s_cfg s) (s_db s)))"
    by (auto simp: db_inv_def intro: preservesD [OF AugmentLocalUsernames_keeps])
  then show "db_inv P (snd (augment_cfg s))"
    by (auto simp: augment_cfg_def db_inv_def split: sum.splits prod.splits)
qed

lemma dispatch_wf [preserved]:
  "keeps_on_enqueue db_wf q \<Longrightarrow> preserves (db_inv db_wf) (dispatch env q cfg kind row fs)"
  unfolding dispatch_def by (intro preserved)

lemma ProcessInboxActivity_wf:
  "keeps_on_enqueue db_wf q \<Longrightarrow> preserves (db_inv db_wf) (ProcessInboxActivity env q i)"
  unfolding ProcessInboxActivity_def by (intro preserved)

lemma sql_keeps_on_enqueue: "keeps_on_enqueue db_wf (lift_sql sql_backend)"
  unfolding keeps_on_enqueue_def by (simp add: lift_sql_def sql_backend_def) (intro allI preserved)

lemma redis_keeps_on_enqueue: "keeps_on_enqueue P (lift_redis b)"
  unfolding keeps_on_enqueue_def by (simp add: lift_redis_def) (intro allI preserved)

section \<open>Objects belong to their actor\<close>

text \<open>An Update or a Delete leaves every live object of another actor as it is.\<close>

lemma upsert_object_apply:
  "UpsertFederatedObject u a t raw d = (Inr (), d') \<Longrightarrow>
   \<exists>i. upsert_on ob_url ob_url ''objects''
      (object_upd \<lparr>ob_id = i, ob_url = u, ob_actor = a, ob_type = (if t = [] then ''Object'' else t), ob_raw = raw, ob_deleted = None\<rparr>)
      \<lparr>ob_id = i, ob_url = u, ob_actor = a, ob_type = (if t = [] then ''Object'' else t), ob_raw = raw, ob_deleted = None\<rparr>
      (d_objects d) = Inr (d_objects d')"
  by (auto simp: UpsertFederatedObject_def Let_def eff_simps nextval_def bind_res_ok split: if_splits sum.splits)

lemma UpsertFederatedObject_err: "UpsertFederatedObject u a t raw d = (Inl e, d') \<Longrightarrow> d' = d"
  by (auto simp: UpsertFederatedObject_def Let_def eff_simps split: if_splits sum.splits)

lemma UpsertFederatedObject_keeps_others:
  assumes "r \<in> set (d_objects d)" "ob_url r \<noteq> u"
  shows "r \<in> set (d_objects (snd (UpsertFederatedObject u a t raw d)))"
proof (cases "UpsertFederatedObject u a t raw d")
  case (Pair x d')
  show ?thesis
  proof (cases x)
    case (Inl e)
    with Pair have "d' = d" by (auto dest: UpsertFederatedObject_err)
    with Pair assms(1) show ?thesis by simp
  next
    case (Inr y)
    with Pair upsert_object_apply [of u a t raw d d'] obtain i where
      "upsert_on ob_url ob_url ''objects''
      (object_upd \<lparr>ob_id = i, ob_url = u, ob_actor = a, ob_type = (if t = [] then ''Object'' else t), ob_raw = raw, ob_deleted = None\<rparr>)
      \<lparr>ob_id = i, ob_url = u, ob_actor = a, ob_type = (if t = [] then ''Object'' else t), ob_raw = raw, ob_deleted = None\<rparr>
      (d_objects d) = Inr (d_objects d')" by auto
    from object_tab.upsert_keeps [OF this assms(1)] assms(2) Pair show ?thesis by simp
  qed
qed

lemma UpsertFederatedObject_result:
  assumes "UpsertFederatedObject u a t raw d = (Inr (), d')"
  shows "\<exists>r \<in> set (d_objects d'). ob_url r = u \<and> ob_actor r = a \<and> ob_raw r = raw \<and> ob_deleted r = None"
proof -
  obtain i where u: "upsert_on ob_url ob_url ''objects''
      (object_upd \<lparr>ob_id = i, ob_url = u, ob_actor = a, ob_type = (if t = [] then ''Object'' else t), ob_raw = raw, ob_deleted = None\<rparr>)
      \<lparr>ob_id = i, ob_url = u, ob_actor = a, ob_type = (if t = [] then ''Object'' else t), ob_raw = raw, ob_deleted = None\<rparr>
      (d_objects d) = Inr (d_objects d')" (is "upsert_on _ _ _ (object_upd ?new) _ _ = _")
    using upsert_object_apply [OF assms] by blast
  from u show ?thesis
  proof (cases rule: object_tab.upsert_cases)
    case (updated old)
    then have "object_upd ?new old \<in> set (d_objects d')" by (auto simp: set_update_where)
    with updated(2) show ?thesis by (intro bexI) (auto simp: object_upd_def)
  qed simp
qed

definition foreign_live :: "int \<Rightarrow> object_row \<Rightarrow> bool" where
  "foreign_live a r \<longleftrightarrow> ob_actor r \<noteq> a \<and> ob_deleted r = None"

lemma ObjectOwner_cases:
  assumes "db_wf d" "r \<in> set (d_objects d)" "ob_deleted r = None" "ob_url r = u"
  shows "ObjectOwnerActorID u d = (Inr (ob_actor r), d)"
proof -
  have "find (\<lambda>r. ob_url r = u \<and> ob_deleted r = None) (d_objects d) = Some r"
  proof (cases "find (\<lambda>r. ob_url r = u \<and> ob_deleted r = None) (d_objects d)")
    case None
    with find_noneD [OF None assms(2)] assms show ?thesis by simp
  next
    case (Some x)
    with find_someD [OF Some] assms have "ob_url x = ob_url r" "x \<in> set (d_objects d)" by auto
    with assms Some distinct_map_inj [of ob_url "d_objects d" x r] show ?thesis
      by (simp add: db_wf_def objects_wf_def)
  qed
  then show ?thesis by (simp add: ObjectOwnerActorID_def eff_simps select_one_def)
qed

definition has_object :: "object_row \<Rightarrow> db \<Rightarrow> bool" where
  "has_object r d \<longleftrightarrow> db_wf d \<and> r \<in> set (d_objects d)"

lemma has_objectI: "preserves db_wf m \<Longrightarrow> (\<And>d. r \<in> set (d_objects d) \<Longrightarrow> r \<in> set (d_objects (snd (m d)))) \<Longrightarrow>
    preserves (has_object r) m"
  by (auto simp: preserves_def has_object_def)

lemma object_writes_keep:
  assumes "ob_url r \<noteq> u"
  shows "preserves (has_object r) (UpsertFederatedObject u a t raw)"
    and "preserves (has_object r) (SoftDeleteFederatedObjectByURL u)"
proof -
  show "preserves (has_object r) (UpsertFederatedObject u a t raw)"
    using assms by (intro has_objectI UpsertFederatedObject_wf UpsertFederatedObject_keeps_others) auto
  show "preserves (has_object r) (SoftDeleteFederatedObjectByURL u)"
    using assms
    by (intro has_objectI SoftDeleteFederatedObjectByURL_wf)
      (auto simp: SoftDeleteFederatedObjectByURL_def eff_simps set_update_where)
qed

text \<open>A statement guarded by the owner check.\<close>

lemma owner_guard:
  assumes f: "foreign_live a r"
    and m: "ob_url r \<noteq> u \<Longrightarrow> preserves (db_inv (has_object r)) m"
    and h: "\<And>e. ob_url r \<noteq> u \<Longrightarrow> preserves (db_inv (has_object r)) (h e)"
  shows "preserves (db_inv (has_object r))
     (handle (on_db (ObjectOwnerActorID u)) h (\<lambda>owner. if owner \<noteq> a then fail er else m))"
proof (cases "ob_url r = u")
  case True
  show ?thesis
  proof (rule preservesI)
    fix s :: "'a sys" assume p: "db_inv (has_object r) s"
    then have "ObjectOwnerActorID u (s_db s) = (Inr (ob_actor r), s_db s)"
      using f True by (intro ObjectOwner_cases) (auto simp: db_inv_def has_object_def foreign_live_def)
    with f p show "db_inv (has_object r) (snd (handle (on_db (ObjectOwnerActorID u)) h (\<lambda>owner. if owner \<noteq> a then fail er else m) s))"
      by (simp add: handle_apply on_db_apply eff_apply foreign_live_def)
  qed
next
  case False
  with m h show ?thesis by (intro preserved) auto
qed

lemma foreign_objects_kept:
  assumes "foreign_live (v_actor row) r"
  shows "preserves (db_inv (has_object r)) (handleUpdate cfg row fs)"
    and "preserves (db_inv (has_object r)) (handleDelete cfg row fs)"
  unfolding handleUpdate_def handleDelete_def
  by ((intro preserved owner_guard assms object_writes_keep)+; assumption)+

section \<open>An Undo is about edges of its own actor\<close>

definition has_edges_but :: "int \<Rightarrow> db \<Rightarrow> db \<Rightarrow> bool" where
  "has_edges_but a d0 d \<longleftrightarrow>
     filter (\<lambda>f. f_follower f \<noteq> a) (d_follows d) = filter (\<lambda>f. f_follower f \<noteq> a) (d_follows d0) \<and>
     filter (\<lambda>e. e_actor e \<noteq> a) (d_likes d) = filter (\<lambda>e. e_actor e \<noteq> a) (d_likes d0) \<and>
     filter (\<lambda>e. e_actor e \<noteq> a) (d_announces d) = filter (\<lambda>e. e_actor e \<noteq> a) (d_announces d0) \<and>
     filter (\<lambda>e. e_actor e \<noteq> a) (d_blocks d) = filter (\<lambda>e. e_actor e \<noteq> a) (d_blocks d0) \<and>
     set (d_follows d) \<subseteq> set (d_follows d0) \<and> set (d_likes d) \<subseteq> set (d_likes d0) \<and>
     set (d_announces d) \<subseteq> set (d_announces d0) \<and> set (d_blocks d) \<subseteq> set (d_blocks d0) \<and>
     d_objects d = d_objects d0 \<and> d_actors d = d_actors d0 \<and> d_activities d = d_activities d0 \<and> d_jobs d = d_jobs d0"

lemma filter_delete_where: "(\<And>r. p r \<Longrightarrow> \<not> q r) \<Longrightarrow> filter q (delete_where p rs) = filter q rs"
  by (induction rs) (auto simp: delete_where_def)

lemma filter_own_edges:
  "filter (\<lambda>e. e_actor e \<noteq> a) (delete_where (own_edge i a) es) = filter (\<lambda>e. e_actor e \<noteq> a) es"
  "filter (\<lambda>f. f_follower f \<noteq> a) (delete_where (\<lambda>f. f_activity f = i \<and> f_follower f = a) fs) =
   filter (\<lambda>f. f_follower f \<noteq> a) fs"
  by (rule filter_delete_where; simp add: own_edge_def)+

lemma deletes_own_edges [preserved]:
  "preserves (has_edges_but a d0) (delete_follows i a)" "preserves (has_edges_but a d0) (delete_likes i a)"
  "preserves (has_edges_but a d0) (delete_announces i a)" "preserves (has_edges_but a d0) (delete_blocks i a)"
  by (auto simp: delete_follows_def delete_likes_def delete_announces_def delete_blocks_def preserves_def
      statement_apply Let_def has_edges_but_def filter_own_edges)

lemma handleUndo_own_edges: "preserves (db_inv (has_edges_but (v_actor row) d0)) (handleUndo row fs)"
  unfolding handleUndo_def undoBareActivityIRI_def deleteUndoTarget_def DeleteFollowByFollowActivityIDForFollower_def
    DeleteFederatedLikeByActivityID_def DeleteFederatedAnnounceByActivityID_def DeleteFederatedBlockByActivityID_def
  by (intro preserved)

text \<open>The first table with an edge of the IRI loses it.\<close>

definition own_follow :: "string \<Rightarrow> int \<Rightarrow> follow_row \<Rightarrow> bool" where
  "own_follow i a f \<longleftrightarrow> f_activity f = i \<and> f_follower f = a"

definition undo_first :: "int \<Rightarrow> string \<Rightarrow> db \<Rightarrow> db" where
  "undo_first a i d =
     (if \<exists>f \<in> set (d_follows d). own_follow i a f then d\<lparr>d_follows := delete_where (own_follow i a) (d_follows d)\<rparr>
      else if \<exists>e \<in> set (d_likes d). own_edge i a e then d\<lparr>d_likes := delete_where (own_edge i a) (d_likes d)\<rparr>
      else if \<exists>e \<in> set (d_announces d). own_edge i a e then d\<lparr>d_announces := delete_where (own_edge i a) (d_announces d)\<rparr>
      else d\<lparr>d_blocks := delete_where (own_edge i a) (d_blocks d)\<rparr>)"

lemma delete_where_none: "(\<And>r. r \<in> set rs \<Longrightarrow> \<not> p r) \<Longrightarrow> delete_where p rs = rs"
  by (simp add: delete_where_def)

lemma deletes_apply:
  "delete_follows i a d = (Inr (count_where (own_follow i a) (d_follows d)), d\<lparr>d_follows := delete_where (own_follow i a) (d_follows d)\<rparr>)"
  "delete_likes i a d = (Inr (count_where (own_edge i a) (d_likes d)), d\<lparr>d_likes := delete_where (own_edge i a) (d_likes d)\<rparr>)"
  "delete_announces i a d = (Inr (count_where (own_edge i a) (d_announces d)), d\<lparr>d_announces := delete_where (own_edge i a) (d_announces d)\<rparr>)"
  "delete_blocks i a d = (Inr (count_where (own_edge i a) (d_blocks d)), d\<lparr>d_blocks := delete_where (own_edge i a) (d_blocks d)\<rparr>)"
  by (simp_all add: delete_follows_def delete_likes_def delete_announces_def delete_blocks_def statement_apply
      own_follow_def [abs_def] Let_def)

lemma undoBare_apply: "undoBareActivityIRI a i d = (Inr (), undo_first a i d)"
proof -
  have p: "count_where q rs = 0 \<longleftrightarrow> (\<forall>r \<in> set rs. \<not> q r)" for q :: "'x \<Rightarrow> bool" and rs
    using count_where_pos [of q rs] by auto
  show ?thesis
    by (auto simp: undoBareActivityIRI_def eff_simps deletes_apply undo_first_def count_where_pos p delete_where_none)
qed

definition holds_edge :: "int \<Rightarrow> string \<Rightarrow> db \<Rightarrow> bool list" where
  "holds_edge a i d = [list_ex (own_follow i a) (d_follows d), list_ex (own_edge i a) (d_likes d),
     list_ex (own_edge i a) (d_announces d), list_ex (own_edge i a) (d_blocks d)]"

lemma holds_delete: "\<not> list_ex p (delete_where p rs)"
  by (simp add: list_ex_iff)

lemma undo_first_edges:
  assumes "length (filter id (holds_edge a i d)) \<le> 1"
  shows "\<not> list_ex id (holds_edge a i (undo_first a i d))"
  using assms by (auto simp: holds_edge_def undo_first_def list_ex_iff split: if_splits)

lemma handleUndo_bare:
  assumes "obj_get fs ''object'' = Some raw" "string_ref raw = Some i"
    and "length (filter id (holds_edge (v_actor row) i (s_db s))) \<le> 1"
  shows "fst (handleUndo row fs s) = Inr () \<and> \<not> list_ex id (holds_edge (v_actor row) i (s_db (snd (handleUndo row fs s))))"
  using undo_first_edges [OF assms(3)] assms(1,2) by (simp add: handleUndo_def on_db_apply undoBare_apply)

section \<open>Only the followee answers a Follow\<close>

definition answered :: "string \<Rightarrow> string \<Rightarrow> int \<Rightarrow> follow_row \<Rightarrow> follow_row" where
  "answered target st a f = (if f_activity f = target \<and> f_followee f = a then f\<lparr>f_state := st\<rparr> else f)"

lemma answer_follow_apply:
  assumes w: "db_wf (s_db s)" and t: "ObjectIRI fs = Inr target"
  shows "s_db (snd (answer_follow verb st row fs s)) =
      (s_db s)\<lparr>d_follows := map (answered target st (v_actor row)) (d_follows (s_db s))\<rparr>"
proof (cases "find (\<lambda>f. f_activity f = target) (d_follows (s_db s))")
  case None
  then have "map (answered target st (v_actor row)) (d_follows (s_db s)) = d_follows (s_db s)"
    by (intro map_idI) (auto simp: answered_def dest: find_noneD)
  with None t show ?thesis
    by (simp add: answer_follow_def eff_simps follow_parties_def on_db_apply select_one_def)
next
  case (Some f)
  have only: "g = f" if "g \<in> set (d_follows (s_db s))" "f_activity g = target" for g
    using w find_someD [OF Some] that distinct_map_inj [of f_activity "d_follows (s_db s)" g f]
    by (simp add: db_wf_def follows_wf_def)
  have "update_where (\<lambda>g. f_activity g = target \<and> f_follower g = f_follower f) (\<lambda>f. f\<lparr>f_state := st\<rparr>) (d_follows (s_db s)) =
     map (answered target st (v_actor row)) (d_follows (s_db s))" if "f_followee f = v_actor row"
    unfolding update_where_def
  proof (rule map_cong [OF refl])
    fix g assume "g \<in> set (d_follows (s_db s))"
    with only [of g] that
    show "(if f_activity g = target \<and> f_follower g = f_follower f then g\<lparr>f_state := st\<rparr> else g) =
      answered target st (v_actor row) g"
      by (cases "f_activity g = target") (simp_all add: answered_def)
  qed
  moreover have "map (answered target st (v_actor row)) (d_follows (s_db s)) = d_follows (s_db s)"
    if "f_followee f \<noteq> v_actor row"
  proof (rule map_idI)
    fix g assume "g \<in> set (d_follows (s_db s))"
    with only [of g] that show "answered target st (v_actor row) g = g"
      by (cases "f_activity g = target") (simp_all add: answered_def)
  qed
  ultimately show ?thesis using Some t
    by (simp add: answer_follow_def eff_simps follow_parties_def on_db_apply select_one_def
        SetFollowStateByFollowActivityIDForFollower_def)
qed

section \<open>Activities for other servers\<close>

lemma elsewhere_keeps:
  assumes "\<not> activityShouldApplySideEffects (Some cfg) fs"
  shows "preserves (db_inv P) (handleCreate env cfg row fs)" "preserves (db_inv P) (handleUpdate cfg row fs)"
    "preserves (db_inv P) (handleDelete cfg row fs)" "preserves (db_inv P) (handleLike cfg row fs)"
    "preserves (db_inv P) (handleAnnounce cfg row fs)" "preserves (db_inv P) (handleBlock cfg row fs)"
  unfolding handleCreate_def handleUpdate_def handleDelete_def handleLike_def handleAnnounce_def handleBlock_def
  by (simp only: assms not_False_eq_True if_True; intro preserved)+

section \<open>An accepted Follow\<close>

lemma bind_eff_ok: "bind_eff m k s = (Inr y, s'') \<longleftrightarrow> (\<exists>x s'. m s = (Inr x, s') \<and> k x s' = (Inr y, s''))"
  by (auto simp: bind_eff_def split: prod.splits sum.splits)

lemma on_db_ok: "on_db m s = (Inr x, s') \<longleftrightarrow> (\<exists>d. m (s_db s) = (Inr x, d) \<and> s' = s\<lparr>s_db := d\<rparr>)"
  by (auto simp: on_db_def split: prod.splits)

lemma resolve_inbox_db: "resolve_inbox env cfg ref s = (r, s') \<Longrightarrow> s_db s' = s_db s"
  using preservesD [OF resolve_inbox_keeps [of "\<lambda>d. d = s_db s" env cfg ref], of s] by (simp add: db_inv_def)

lemma actor_url_query_ok: "actor_url_query i d = (Inr u, d') \<Longrightarrow> d' = d \<and> (\<exists>a \<in> set (d_actors d). a_id a = i \<and> a_url a = u)"
  by (auto simp: actor_url_query_def eff_simps split: sum.splits dest: select_one_ok)

definition accept_queued :: "db \<Rightarrow> string \<Rightarrow> string \<Rightarrow> string \<Rightarrow> bool" where
  "accept_queued d followeeURL user iri \<longleftrightarrow>
     (\<exists>j \<in> set (d_jobs d). \<exists>inbox. j_status j = Pending \<and> j_type j = TypeDeliverActivity \<and>
        j_payload j = marshal_deliver inbox (buildAcceptFollow followeeURL iri) user user)"

lemma handleFollow_ok_steps:
  assumes "handleFollow env q cfg row fs s = (Inr (), s')" "FollowAutoAccept cfg"
  obtains iri followee user d0 d1 url furl inbox s1 s2 where
    "ObjectIRI fs = Inr iri" "ResolveLocalFolloweeFromObjectIRI (Some cfg) iri (s_db s) = (Inr (followee, user), d0)"
    "UpsertFollow (v_actor row) followee (v_activity_id row) FollowStatePending d0 = (Inr (), d1)"
    "actor_url_query followee d1 = (Inr url, d1)" "LocalUsernameForActorURL cfg url \<noteq> None"
    "actor_url_query (v_actor row) d1 = (Inr furl, d1)"
    "s_db s1 = d1" "q_enqueue q (accept_job inbox url user (v_activity_id row)) s1 = (Inr (), s2)"
    "on_db (SetFollowStateByFollowActivityIDForFollower (v_activity_id row) FollowStateAccepted (v_actor row)) s2 = (Inr (), s')"
proof -
  from assms obtain iri followee user d0 d1 where
    1: "ObjectIRI fs = Inr iri" "ResolveLocalFolloweeFromObjectIRI (Some cfg) iri (s_db s) = (Inr (followee, user), d0)"
    "UpsertFollow (v_actor row) followee (v_activity_id row) FollowStatePending d0 = (Inr (), d1)"
    and rest: "bind_eff (on_db (actor_url_query followee)) (\<lambda>followeeActorURL.
          if LocalUsernameForActorURL cfg followeeActorURL = None then fail (Msg ''followee id not local'')
          else bind_eff (on_db (actor_url_query (v_actor row))) (\<lambda>followerActorURL.
               bind_eff (wrap_eff ''follower inbox'' (resolve_inbox env cfg followerActorURL)) (\<lambda>inbox.
               bind_eff (q_enqueue q (accept_job inbox followeeActorURL user (v_activity_id row))) (\<lambda>_.
                 on_db (SetFollowStateByFollowActivityIDForFollower (v_activity_id row) FollowStateAccepted (v_actor row))))))
       (s\<lparr>s_db := d1\<rparr>) = (Inr (), s')"
    by (auto simp: handleFollow_def bind_eff_ok on_db_ok eff_apply split: prod.splits)
  from rest obtain url furl d2 d3 inbox s1 s2 where
    2: "actor_url_query followee d1 = (Inr url, d2)" "LocalUsernameForActorURL cfg url \<noteq> None"
    "actor_url_query (v_actor row) d2 = (Inr furl, d3)"
    "resolve_inbox env cfg furl (s\<lparr>s_db := d3\<rparr>) = (Inr inbox, s1)"
    "q_enqueue q (accept_job inbox url user (v_activity_id row)) s1 = (Inr (), s2)"
    "on_db (SetFollowStateByFollowActivityIDForFollower (v_activity_id row) FollowStateAccepted (v_actor row)) s2 = (Inr (), s')"
    by (auto simp: bind_eff_ok on_db_ok [where m = "actor_url_query i" for i] eff_apply wrap_eff_ok split: if_splits)
  have "d2 = d1" "d3 = d1" using actor_url_query_ok [OF 2(1)] actor_url_query_ok [OF 2(3)] by simp_all
  moreover have "s_db s1 = d3" using resolve_inbox_db [OF 2(4)] by simp
  ultimately show ?thesis using 1 2 by (intro that) simp_all
qed

lemma ResolveLocalFollowee_db: "ResolveLocalFolloweeFromObjectIRI co i d = (r, d') \<Longrightarrow> d' = d"
  using preservesD [OF ResolveLocalFollowee_keeps [of "\<lambda>x. x = d" co i], of d] by simp

lemma SetFollowState_pair:
  assumes "filter (\<lambda>f. f_follower f = a \<and> f_followee f = b) fs = [f]" "f_activity f = act"
  shows "\<exists>g. filter (\<lambda>f. f_follower f = a \<and> f_followee f = b)
      (update_where (\<lambda>f. f_activity f = act \<and> f_follower f = a) (\<lambda>f. f\<lparr>f_state := st\<rparr>) fs) = [g] \<and>
      f_state g = st \<and> f_activity g = act"
proof -
  have m: "filter (\<lambda>f. f_follower f = a \<and> f_followee f = b) (map h fs) =
      map h (filter (\<lambda>f. f_follower f = a \<and> f_followee f = b) fs)"
    if "\<And>f. f_follower (h f) = f_follower f \<and> f_followee (h f) = f_followee f" for h fs
    by (induction fs) (auto simp: that)
  from assms have "f_follower f = a" by (metis (mono_tags, lifting) filter_eq_ConsD)
  with assms show ?thesis by (simp add: update_where_def m)
qed

lemma handleFollow_accepts:
  assumes w: "db_wf (s_db s)" and a: "FollowAutoAccept cfg"
    and ok: "handleFollow env (lift_sql sql_backend) cfg row fs s = (Inr (), s')"
  shows "\<exists>iri followee user url f. ObjectIRI fs = Inr iri \<and>
     fst (ResolveLocalFolloweeFromObjectIRI (Some cfg) iri (s_db s)) = Inr (followee, user) \<and>
     filter (\<lambda>f. f_follower f = v_actor row \<and> f_followee f = followee) (d_follows (s_db s')) = [f] \<and>
     f_state f = FollowStateAccepted \<and> f_activity f = v_activity_id row \<and>
     accept_queued (s_db s') url user (v_activity_id row)"
  using handleFollow_ok_steps [OF ok a]
proof cases
  case (1 iri followee user d0 d1 url furl inbox s1 s2)
  note r = ResolveLocalFollowee_db [OF 1(2)]
  obtain f where f: "filter (\<lambda>f. f_follower f = v_actor row \<and> f_followee f = followee) (d_follows d1) = [f]"
    "f_activity f = v_activity_id row"
    using UpsertFollow_result [of d0, OF _ 1(3)] w r by auto
  from 1(7,8) have s2: "s_db s2 = d1\<lparr>d_seq := (d_seq d1)(TJobs := d_seq d1 TJobs + 1),
        d_jobs := d_jobs d1 @ [new_job (d_seq d1 TJobs) d1 (accept_job inbox url user (v_activity_id row))]\<rparr>"
    by (auto simp: lift_sql_def sql_backend_def on_db_ok SqlEnqueue_apply split: if_splits)
  have s': "s_db s' = (s_db s2)\<lparr>d_follows := update_where
      (\<lambda>f. f_activity f = v_activity_id row \<and> f_follower f = v_actor row) (\<lambda>f. f\<lparr>f_state := FollowStateAccepted\<rparr>) (d_follows (s_db s2))\<rparr>"
    using 1(9) by (auto simp: on_db_ok SetFollowStateByFollowActivityIDForFollower_def statement_apply)
  from SetFollowState_pair [OF f, of FollowStateAccepted] obtain g where
    "filter (\<lambda>f. f_follower f = v_actor row \<and> f_followee f = followee) (d_follows (s_db s')) = [g]"
    "f_state g = FollowStateAccepted" "f_activity g = v_activity_id row"
    unfolding s' s2 by auto
  moreover have "accept_queued (s_db s') url user (v_activity_id row)"
    unfolding accept_queued_def s' s2
    by (intro bexI [where x = "new_job (d_seq d1 TJobs) d1 (accept_job inbox url user (v_activity_id row))"])
      (auto simp: accept_job_def)
  ultimately show ?thesis using 1(1,2) by auto
qed

section \<open>A Create stores its object\<close>

text \<open>Whatever row had the IRI before, also one of another actor.\<close>

lemma of_res_ok: "of_res r s = (Inr x, s') \<longleftrightarrow> r = Inr x \<and> s' = s"
  by (auto simp: of_res_def)

lemma handleCreate_stores:
  assumes "handleCreate env cfg row fs s = (Inr (), s')" "activityShouldApplySideEffects (Some cfg) fs"
    and "ObjectFieldIDType (obj_get fs ''object'') = Inr (i, typ, Some js)"
  shows "(\<exists>r \<in> set (d_objects (s_db s')). ob_url r = i \<and> ob_actor r = v_actor row \<and> ob_raw r = js \<and> ob_deleted r = None) \<and>
     (\<exists>actorIRI signer. ActorIRIFromActivity fs = Inr actorIRI \<and> ObjectAttributedToMatches js actorIRI \<and>
        fst (actorURLByDBID (v_actor row) (s_db s)) = Inr signer \<and> actorsMatch actorIRI signer)"
proof (cases "obj_get fs ''object''")
  case None
  with assms show ?thesis by (simp add: handleCreate_def eff_apply)
next
  case (Some raw)
  have "snd (actorURLByDBID a d) = d" for a d by (simp add: actorURLByDBID_def eff_apply)
  with assms Some show ?thesis
    by (auto simp: handleCreate_def create_object_def check_actor_def bind_eff_ok on_db_ok eff_apply of_res_ok
        split: if_splits dest: UpsertFederatedObject_result)
qed

end
