(* ===== verification/Worker.thy ===== *)
theory Worker
  imports InboxProc
begin

text \<open>
  \<^verbatim>\<open>internal/worker\<close> and the loop of \<^verbatim>\<open>cmd/apw\<close>: a leased job is processed, then acknowledged or
  given back.  A failed delivery is retried with exponential backoff, up to a number of attempts, or
  given up at once on a permanent status; every other failed job is queued again.

  The lemmas: the backoff is \<open>min (initial * 2 ^ failures) maximum\<close> and never leaves these bounds;
  what happens to a failed delivery on the SQL queue; no delivery is attempted more often than the
  configuration allows, whatever the workers do; a payload the code queues is read back as it was;
  a job that is not a delivery is queued again for as long as it fails.
\<close>

section \<open>Signing and posting\<close>

record ('pub, 'priv, 'w) workenv = "('pub, 'priv, 'w) procenv" +
  we_has_pool :: bool
  we_render :: "json \<Rightarrow> string"
  we_parse_private_key :: "string \<Rightarrow> err + 'priv"
  we_base_client :: "'w client"

record deliver_payload =
  InboxURL :: string
  dp_Body :: "json option"
  dp_LocalUsername :: string
  dp_SigningUsername :: string

text \<open>\<^verbatim>\<open>json.Unmarshal(raw, &p)\<close>: one member of a wrong type fails the whole call.\<close>

definition unmarshal_deliver :: "json \<Rightarrow> deliver_payload option" where
  "unmarshal_deliver raw =
     (case (um_struct_string ''inboxUrl'' raw, um_struct_raw ''body'' raw,
            um_struct_string ''localUsername'' raw, um_struct_string ''signingUsername'' raw) of
        (Some i, Some b, Some l, Some g) \<Rightarrow>
          Some \<lparr>InboxURL = i, dp_Body = b, dp_LocalUsername = l, dp_SigningUsername = g\<rparr>
      | _ \<Rightarrow> None)"

definition signingUsernameForDelivery :: "deliver_payload \<Rightarrow> config \<Rightarrow> string" where
  "signingUsernameForDelivery p cfg =
     (if trim_space (dp_SigningUsername p) \<noteq> [] then trim_space (dp_SigningUsername p)
      else if trim_space (dp_LocalUsername p) \<noteq> [] then trim_space (dp_LocalUsername p)
      else LocalUsername cfg)"

text \<open>
  The policy is checked before the request leaves.  The transport below it, with the redirects that
  \<^verbatim>\<open>http.Client\<close> follows, is the parameter.
\<close>

definition NewHTTPClient :: "('pub, 'priv, 'w, 'z) workenv_scheme \<Rightarrow> config \<Rightarrow> 'w client" where
  "NewHTTPClient env cfg = RoundTrip (Some (PolicyFromConfig (Some cfg))) (we_base_client env)"

text \<open>The account must exist, in the database or, without one, in the configuration.\<close>

definition check_signer :: "('pub, 'priv, 'w, 'z) workenv_scheme \<Rightarrow> config \<Rightarrow> string \<Rightarrow> string \<Rightarrow> ('w sys, unit) eff" where
  "check_signer env cfg domain user =
     (if we_has_pool env then
        bind_eff (wrap_eff ''deliver_activity'' (on_db (LocalActorUsernameExists domain user))) (\<lambda>ok.
          if \<not> ok then fail (Msg ''deliver_activity: signing user is not a local account'') else ret ())
      else if \<not> IsLocalUsername cfg user
      then fail (Msg ''deliver_activity: signing user is not a configured local account'')
      else ret ())"

definition stored_key :: "('pub, 'priv, 'w, 'z) workenv_scheme \<Rightarrow> string \<Rightarrow> string \<Rightarrow> ('w sys, 'priv option) eff" where
  "stored_key env domain user =
     (if we_has_pool env then
        handle (on_db (ActorPrivateKeyPEMForLocalUser domain user)) (\<lambda>_. ret None)
          (\<lambda>pem. if trim_space pem = [] then ret None
                 else of_res (wrap_err ''deliver_activity: parse actor private key''
                        (case we_parse_private_key env pem of Inl e \<Rightarrow> Inl e | Inr k \<Rightarrow> Inr (Some k))))
      else ret None)"

definition delivery_key :: "('pub, 'priv, 'w, 'z) workenv_scheme \<Rightarrow> config \<Rightarrow> string \<Rightarrow> string \<Rightarrow> ('w sys, 'priv) eff" where
  "delivery_key env cfg domain user =
     bind_eff (stored_key env domain user) (\<lambda>k. case k of
        Some priv \<Rightarrow> ret priv
      | None \<Rightarrow>
          (if ActorPrivateKeyPath cfg = []
           then fail (Msg ''AP_ACTOR_PRIVATE_KEY_PATH required for deliver_activity when per-actor keys are not set'')
           else of_res (load_private_key (pe_fetch env) (ActorPrivateKeyPath cfg))))"

definition delivery_result :: "response \<Rightarrow> err + unit" where
  "delivery_result resp =
     (if rs_status resp < 200 \<or> rs_status resp > 299
      then Inl (HTTPDeliveryError (rs_status resp) (trim_space (take 4096 (rs_body resp))))
      else Inr ())"

definition sigenv_of :: "('pub, 'priv, 'z) sigenv_scheme \<Rightarrow> ('pub, 'priv) sigenv" where
  "sigenv_of env = sigenv.truncate env"

definition DeliverActivity ::
  "('pub, 'priv, 'w, 'z) workenv_scheme \<Rightarrow> config \<Rightarrow> 'w client \<Rightarrow> json \<Rightarrow> ('w sys, unit) eff" where
  "DeliverActivity env cfg client raw =
     (if PublicBaseURL cfg = [] then fail (Msg ''AP_PUBLIC_BASE_URL required for deliver_activity (keyId)'')
      else case unmarshal_deliver raw of
        None \<Rightarrow> fail (Wrapped ''deliver_activity payload'' (Msg ''type''))
      | Some p \<Rightarrow>
          (case dp_Body p of
             None \<Rightarrow> fail (Msg ''deliver_activity: inboxUrl and body required'')
           | Some body \<Rightarrow>
               (if InboxURL p = [] then fail (Msg ''deliver_activity: inboxUrl and body required'')
                else let user = signingUsernameForDelivery p cfg
                     in if user = [] then fail (Msg ''deliver_activity: signing user required'')
                        else case url_parse (PublicBaseURL cfg) of
                          None \<Rightarrow> fail (Wrapped ''deliver_activity: public base url'' (Msg ''parse''))
                        | Some base \<Rightarrow>
                            bind_eff (check_signer env cfg (url_hostname base) user) (\<lambda>_.
                            bind_eff (delivery_key env cfg (url_hostname base) user) (\<lambda>priv.
                            bind_eff (of_res (NewSignedPost (sigenv_of (pe_fetch env)) (InboxURL p) (we_render env body)
                                        (LocalActorProfileURL cfg user @ ''#main-key'') priv)) (\<lambda>req.
                            bind_eff (on_net (client req)) (\<lambda>resp. of_res (delivery_result resp))))))))"

section \<open>A failed delivery\<close>

definition deliveryPermanent4xx :: "int \<Rightarrow> bool" where
  "deliveryPermanent4xx code \<longleftrightarrow> code \<in> {400, 401, 403, 404, 405, 410, 422}"

text \<open>\<^verbatim>\<open>time.Duration\<close> is a signed 64-bit number of nanoseconds; products wrap.\<close>

definition wrap64 :: "int \<Rightarrow> int" where
  "wrap64 x = (x + 2 ^ 63) mod 2 ^ 64 - 2 ^ 63"

fun backoff_loop :: "nat \<Rightarrow> int \<Rightarrow> int \<Rightarrow> int" where
  "backoff_loop 0 maxD d = d"
| "backoff_loop (Suc n) maxD d =
     (if d \<ge> maxD then maxD
      else let d' = wrap64 (d * 2) in backoff_loop n maxD (if d' > maxD then maxD else d'))"

definition backoff_init :: "config \<Rightarrow> int" where
  "backoff_init cfg = (if DeliveryBackoffInitialSec cfg < 1 then 30 else DeliveryBackoffInitialSec cfg)"

definition backoff_max :: "config \<Rightarrow> int" where
  "backoff_max cfg = (if DeliveryBackoffMaxSec cfg < backoff_init cfg then backoff_init cfg else DeliveryBackoffMaxSec cfg)"

definition nextDelivery_delay :: "int \<Rightarrow> config \<Rightarrow> int" where
  "nextDelivery_delay priorFailures cfg =
     (let e = (if priorFailures > 20 then 20 else priorFailures)
      in backoff_loop (nat e) (wrap64 (backoff_max cfg * 1000000000)) (wrap64 (backoff_init cfg * 1000000000)))"

definition nextDeliveryRunAfter :: "int \<Rightarrow> int \<Rightarrow> config \<Rightarrow> int" where
  "nextDeliveryRunAfter t priorFailures cfg = t + nextDelivery_delay priorFailures cfg"

text \<open>\<^verbatim>\<open>err.Error()\<close>, for the column \<^verbatim>\<open>last_error\<close>.\<close>

fun error_text :: "err \<Rightarrow> string" where
  "error_text NoRows = ''no rows in result set''"
| "error_text (UniqueViolation n) = ''ERROR: duplicate key value violates unique constraint: '' @ n"
| "error_text (ForeignKeyViolation n) = ''ERROR: violates foreign key constraint: '' @ n"
| "error_text (HTTPDeliveryError code body) = ''delivery POST '' @ itoa code @ '': '' @ trim_space body"
| "error_text (Msg m) = m"
| "error_text (Wrapped m e) = m @ '': '' @ error_text e"

definition delivery_max :: "config \<Rightarrow> int" where
  "delivery_max cfg = (if DeliveryMaxAttempts cfg < 1 then 25 else DeliveryMaxAttempts cfg)"

definition permanent_failure :: "err \<Rightarrow> bool" where
  "permanent_failure e = (case errors_as_http e of None \<Rightarrow> False | Some code \<Rightarrow> deliveryPermanent4xx code)"

definition HandleDeliveryJobFailure :: "int \<Rightarrow> 's backend \<Rightarrow> lease \<Rightarrow> err \<Rightarrow> config \<Rightarrow> 's \<Rightarrow> 's" where
  "HandleDeliveryJobFailure t q lease jobErr cfg s =
     (let lastErr = error_text jobErr
      in case q_nack_schedule q of
           None \<Rightarrow> snd (q_nack q (ls_id lease) True s)
         | Some nack \<Rightarrow>
             (if permanent_failure jobErr then snd (nack (ls_id lease) True None lastErr s)
              else if ls_attempts lease + 1 \<ge> delivery_max cfg then snd (nack (ls_id lease) True None lastErr s)
              else snd (nack (ls_id lease) False (Some (nextDeliveryRunAfter t (ls_attempts lease) cfg)) lastErr s)))"

section \<open>One job\<close>

definition with_cfg :: "(config \<Rightarrow> ('w sys, 'a) eff) \<Rightarrow> ('w sys, 'a) eff" where
  "with_cfg k s = k (s_cfg s) s"

definition process_inbox_payload :: "json \<Rightarrow> err + int" where
  "process_inbox_payload raw =
     (case um_struct_int64 ''activityDbId'' raw of
        None \<Rightarrow> Inl (Wrapped ''process_inbox_activity payload'' (Msg ''type''))
      | Some i \<Rightarrow> if i < 1 then Inl (Msg ''process_inbox_activity: activityDbId required'') else Inr i)"

definition ProcessLease :: "('pub, 'priv, 'w) workenv \<Rightarrow> 'w sys backend \<Rightarrow> lease \<Rightarrow> ('w sys, unit) eff" where
  "ProcessLease env q lease = with_cfg (\<lambda>cfg.
     if ls_type lease = TypeNoop then ret ()
     else if ls_type lease = TypeDeliverActivity then DeliverActivity env cfg (NewHTTPClient env cfg) (ls_payload lease)
     else if ls_type lease = TypeProcessInboxActivity then
       (if \<not> we_has_pool env then fail (Msg ''process_inbox_activity requires AP_DATABASE_URL (postgres pool)'')
        else bind_eff (of_res (process_inbox_payload (ls_payload lease))) (\<lambda>i.
               ProcessInboxActivity
                 \<lparr>pe_fetch = pe_fetch env,
                  pe_client = Some (case pe_client env of None \<Rightarrow> NewHTTPClient env cfg | Some c \<Rightarrow> c),
                  pe_policy = None\<rparr> q i))
     else ret ())"

definition worker_step :: "('pub, 'priv, 'w) workenv \<Rightarrow> 'w sys backend \<Rightarrow> 'w sys \<Rightarrow> 'w sys" where
  "worker_step env q s =
     (case q_dequeue q s of
        (Inl e, s1) \<Rightarrow> s1
      | (Inr None, s1) \<Rightarrow> s1
      | (Inr (Some lease), s1) \<Rightarrow>
          (case ProcessLease env q lease s1 of
             (Inl e, s2) \<Rightarrow>
               (if ls_type lease = TypeDeliverActivity
                then HandleDeliveryJobFailure (now (pe_fetch env)) q lease e (s_cfg s2) s2
                else snd (q_nack q (ls_id lease) True s2))
           | (Inr _, s2) \<Rightarrow> snd (q_ack q (ls_id lease) s2)))"

section \<open>The backoff\<close>

lemma wrap64_id: "- (2 ^ 63) \<le> x \<Longrightarrow> x < 2 ^ 63 \<Longrightarrow> wrap64 x = x"
  by (simp add: wrap64_def)

lemma backoff_loop_exact:
  "0 < d \<Longrightarrow> d \<le> m \<Longrightarrow> m < 2 ^ 62 \<Longrightarrow> backoff_loop n m d = min (d * 2 ^ n) m"
proof (induction n arbitrary: d)
  case (Suc n)
  show ?case
  proof (cases "d \<ge> m")
    case True
    have "d * 1 \<le> d * 2 ^ Suc n" using Suc.prems(1) by (intro mult_left_mono one_le_power) simp_all
    with True Suc.prems show ?thesis by simp
  next
    case False
    have w: "wrap64 (d * 2) = d * 2" using False Suc.prems by (intro wrap64_id) simp_all
    show ?thesis
    proof (cases "d * 2 > m")
      case True
      have "d * 2 * 1 \<le> d * 2 * 2 ^ n" using Suc.prems(1) by (intro mult_left_mono one_le_power) simp_all
      with True have "m \<le> d * 2 ^ Suc n" by (simp add: mult.assoc)
      moreover have "m * 1 \<le> m * 2 ^ n" using Suc.prems(1,2) by (intro mult_left_mono one_le_power) simp_all
      ultimately show ?thesis using True False w Suc.IH [of m] Suc.prems by (simp add: min_absorb2)
    next
      case le: False
      with False w Suc.IH [of "d * 2"] Suc.prems show ?thesis by (simp add: mult.assoc)
    qed
  qed
qed simp

lemma backoff_bounds: "1 \<le> backoff_init cfg" "backoff_init cfg \<le> backoff_max cfg"
  by (simp_all add: backoff_init_def backoff_max_def)

text \<open>
  The delay before a retry doubles with each failure, from the configured first delay up to
  the configured maximum, without overflow.
\<close>

theorem nextDelivery_delay_exact:
  assumes "0 \<le> f" "backoff_max cfg * 1000000000 < 2 ^ 62"
  shows "nextDelivery_delay f cfg =
     min (backoff_init cfg * 1000000000 * 2 ^ nat (min f 20)) (backoff_max cfg * 1000000000)"
proof -
  have w: "wrap64 (backoff_max cfg * 1000000000) = backoff_max cfg * 1000000000"
    "wrap64 (backoff_init cfg * 1000000000) = backoff_init cfg * 1000000000"
    using assms(2) backoff_bounds [of cfg] by (intro wrap64_id; simp)+
  have "nat (if f > 20 then 20 else f) = nat (min f 20)" by simp
  then show ?thesis
    unfolding nextDelivery_delay_def Let_def w
    using backoff_loop_exact [of "backoff_init cfg * 1000000000" "backoff_max cfg * 1000000000" "nat (min f 20)"]
      assms(2) backoff_bounds [of cfg] by simp
qed

section \<open>Payloads\<close>

definition deliver_fields :: "string list" where
  "deliver_fields = [''inboxUrl'', ''body'', ''localUsername'', ''signingUsername'']"

lemma unmarshal_marshal_deliver:
  "unmarshal_deliver (marshal_deliver i b l g) = Some \<lparr>InboxURL = i, dp_Body = Some b, dp_LocalUsername = l, dp_SigningUsername = g\<rparr>"
proof -
  have "\<not> equal_fold x y" if "x \<in> set deliver_fields" "y \<in> set deliver_fields" "x \<noteq> y" for x y
  proof -
    have "list_all (\<lambda>x. list_all (\<lambda>y. x = y \<or> \<not> equal_fold x y) deliver_fields) deliver_fields" by code_simp
    with that show ?thesis by (auto simp: list_all_iff)
  qed
  moreover have "equal_fold x x" for x by (simp add: equal_fold_def)
  ultimately show ?thesis
    by (auto simp: unmarshal_deliver_def marshal_deliver_def um_struct_string_def um_struct_raw_def deliver_fields_def)
qed

section \<open>What happens to the job\<close>

text \<open>The statements of the other tables leave the jobs alone.\<close>

definition jobs_are :: "job_row list \<Rightarrow> int \<Rightarrow> db \<Rightarrow> bool" where
  "jobs_are js n d \<longleftrightarrow> d_jobs d = js \<and> d_seq d TJobs = n"

lemma jobs_same [preserved]:
  "preserves (jobs_are js n) (UpsertFederatedObject u a t raw)"
  "preserves (jobs_are js n) (SoftDeleteFederatedObjectByURL u)"
  "preserves (jobs_are js n) (UpsertFollow a b act st)"
  "preserves (jobs_are js n) (SetFollowStateByFollowActivityIDForFollower act st a)"
  "preserves (jobs_are js n) (UpsertFederatedLike a u act)"
  "preserves (jobs_are js n) (UpsertFederatedAnnounce a u act)"
  "preserves (jobs_are js n) (UpsertFederatedBlock a u act)"
  "preserves (jobs_are js n) (delete_follows act a)" "preserves (jobs_are js n) (delete_likes act a)"
  "preserves (jobs_are js n) (delete_announces act a)" "preserves (jobs_are js n) (delete_blocks act a)"
  unfolding UpsertFederatedObject_def SoftDeleteFederatedObjectByURL_def UpsertFollow_def
    SetFollowStateByFollowActivityIDForFollower_def UpsertFederatedLike_def UpsertFederatedAnnounce_def
    UpsertFederatedBlock_def delete_follows_def delete_likes_def delete_announces_def delete_blocks_def Let_def
  by (auto intro!: preserves_statement simp: jobs_are_def nextval_def bind_res_ok split: if_splits)

lemma undo_same_jobs [preserved]:
  "preserves (jobs_are js n) (undoBareActivityIRI a i)" "preserves (jobs_are js n) (deleteUndoTarget a ob i)"
  unfolding undoBareActivityIRI_def deleteUndoTarget_def DeleteFollowByFollowActivityIDForFollower_def
    DeleteFederatedLikeByActivityID_def DeleteFederatedAnnounceByActivityID_def DeleteFederatedBlockByActivityID_def
  by (intro preserved)+

definition jobs_inv :: "(job_row list \<Rightarrow> int \<Rightarrow> int \<Rightarrow> bool) \<Rightarrow> 'w sys \<Rightarrow> bool" where
  "jobs_inv P s \<longleftrightarrow> P (d_jobs (s_db s)) (d_seq (s_db s) TJobs) (delivery_max (s_cfg s))"

lemma jobs_inv_on_db [preserved]:
  assumes "\<And>js n. preserves (jobs_are js n) m"
  shows "preserves (jobs_inv P) (on_db m)"
proof -
  have "d_jobs (snd (m d)) = d_jobs d \<and> d_seq (snd (m d)) TJobs = d_seq d TJobs" for d
    using assms [of "d_jobs d" "d_seq d TJobs"] by (simp add: preserves_def jobs_are_def)
  then show ?thesis by (simp add: preserves_def jobs_inv_def on_db_apply)
qed

lemma jobs_inv_on_net [preserved]: "preserves (jobs_inv P) (on_net m)"
  by (simp add: preserves_def jobs_inv_def on_net_apply)

lemma jobs_inv_parts [preserved]:
  "preserves (jobs_inv P) (resolve_inbox env cfg ref)" "preserves (jobs_inv P) (check_actor v row fs)"
  "preserves (jobs_inv P) (create_object env cfg ob)"
  unfolding resolve_inbox_def check_actor_def create_object_def by (intro preserved)+

definition keeps_jobs_inv :: "(job_row list \<Rightarrow> int \<Rightarrow> int \<Rightarrow> bool) \<Rightarrow> 'w sys backend \<Rightarrow> bool" where
  "keeps_jobs_inv P q \<longleftrightarrow> (\<forall>j. preserves (jobs_inv P) (q_enqueue q j))"

lemma keeps_jobs_invD [preserved]: "keeps_jobs_inv P q \<Longrightarrow> preserves (jobs_inv P) (q_enqueue q j)"
  by (simp add: keeps_jobs_inv_def)

lemma delivery_max_merge: "delivery_max (mergeCfgLocalUsernames cfg names) = delivery_max cfg"
  by (simp add: delivery_max_def mergeCfgLocalUsernames_def)

lemma AugmentLocalUsernames_max:
  "AugmentLocalUsernamesFromDB cfg d = (Inr cfg', d') \<Longrightarrow> delivery_max cfg' = delivery_max cfg"
  by (auto simp: AugmentLocalUsernamesFromDB_def eff_apply bind_eff_ok delivery_max_merge Let_def
      split: if_splits option.splits)

lemma jobs_inv_augment [preserved]: "preserves (jobs_inv P) augment_cfg"
proof (rule preservesI)
  fix s :: "'a sys" assume p: "jobs_inv P s"
  obtain r d where a: "AugmentLocalUsernamesFromDB (s_cfg s) (s_db s) = (r, d)" by (cases rule: prod.exhaust)
  then have "d = s_db s"
    using preservesD [OF AugmentLocalUsernames_keeps [of "\<lambda>x. x = s_db s" "s_cfg s"], of "s_db s"] by simp
  with a p AugmentLocalUsernames_max [of "s_cfg s" "s_db s"] show "jobs_inv P (snd (augment_cfg s))"
    by (cases r) (auto simp: augment_cfg_def jobs_inv_def)
qed

lemma ProcessInboxActivity_jobs:
  assumes "keeps_jobs_inv P q"
  shows "preserves (jobs_inv P) (ProcessInboxActivity env q i)"
  unfolding ProcessInboxActivity_def dispatch_def handleCreate_def handleUpdate_def handleDelete_def
    handleFollow_def handleAccept_def handleReject_def answer_follow_def handleLike_def handleAnnounce_def
    handleBlock_def handleUndo_def
  by (intro preserved assms)

lemma DeliverActivity_keeps:
  shows "preserves (jobs_inv P) (DeliverActivity env cfg client raw)"
    and "preserves (db_inv Q) (DeliverActivity env cfg client raw)"
  unfolding DeliverActivity_def check_signer_def delivery_key_def stored_key_def LocalActorUsernameExists_def
    ActorPrivateKeyPEMForLocalUser_def Let_def
  by (intro preserved)+

lemma preserves_with_cfg [preserved]: "(\<And>c. preserves P (k c)) \<Longrightarrow> preserves P (with_cfg k)"
  by (simp add: preserves_def with_cfg_def)

lemma ProcessLease_jobs:
  "keeps_jobs_inv P q \<Longrightarrow> preserves (jobs_inv P) (ProcessLease env q lease)"
  unfolding ProcessLease_def by (intro preserved DeliverActivity_keeps ProcessInboxActivity_jobs)

lemma ProcessLease_wf:
  "keeps_on_enqueue db_wf q \<Longrightarrow> preserves (db_inv db_wf) (ProcessLease env q lease)"
  unfolding ProcessLease_def by (intro preserved DeliverActivity_keeps ProcessInboxActivity_wf)

text \<open>The attempts of a delivery stay below the limit.\<close>

definition attempts_below :: "int \<Rightarrow> job_row list \<Rightarrow> bool" where
  "attempts_below mx js \<longleftrightarrow>
     (\<forall>j \<in> set js. j_type j = TypeDeliverActivity \<longrightarrow> j_status j \<in> {Pending, Processing} \<longrightarrow> j_attempts j < mx)"

definition lease_of :: "lease \<Rightarrow> job_row list \<Rightarrow> int \<Rightarrow> bool" where
  "lease_of l js n \<longleftrightarrow> ls_id l < n \<and>
     (\<forall>j \<in> set js. j_id j = ls_id l \<longrightarrow> j_attempts j = ls_attempts l \<and> j_type j = ls_type l)"

definition leased :: "lease \<Rightarrow> job_row list \<Rightarrow> int \<Rightarrow> int \<Rightarrow> bool" where
  "leased l js n mx \<longleftrightarrow> attempts_below mx js \<and> lease_of l js n"

lemma delivery_max_pos: "0 < delivery_max cfg"
  by (simp add: delivery_max_def)

lemma new_job_attempts [simp]: "j_attempts (new_job i d jb) = 0"
  by (simp add: new_job_def)

lemma lift_sql_simps [simp]:
  "q_enqueue (lift_sql sql_backend) j = on_db (SqlEnqueue j)" "q_dequeue (lift_sql sql_backend) = on_db SqlDequeue"
  "q_ack (lift_sql sql_backend) i = on_db (SqlAck i)" "q_nack (lift_sql sql_backend) i r = on_db (SqlNack i r)"
  "q_nack_schedule (lift_sql sql_backend) = Some (\<lambda>i p t e. on_db (SqlNackSchedule i p t e))"
  by (simp_all add: lift_sql_def sql_backend_def)

lemma sql_keeps_leased: "keeps_jobs_inv (leased l) (lift_sql sql_backend)"
  unfolding keeps_jobs_inv_def
  by (auto simp: preserves_def jobs_inv_def on_db_apply SqlEnqueue_apply leased_def attempts_below_def lease_of_def
      delivery_max_pos)

lemma attempts_below_update:
  "attempts_below mx js \<Longrightarrow>
   (\<And>j. j \<in> set js \<Longrightarrow> p j \<Longrightarrow> j_type (f j) = TypeDeliverActivity \<Longrightarrow> j_status (f j) \<in> {Pending, Processing} \<Longrightarrow>
      j_attempts (f j) < mx) \<Longrightarrow>
   attempts_below mx (update_where p f js)"
  by (auto simp: attempts_below_def set_update_where)

lemma SqlDequeue_lease:
  assumes w: "db_wf d" and b: "attempts_below mx (d_jobs d)" and r: "SqlDequeue d = (Inr (Some l), d')"
  shows "leased l (d_jobs d') (d_seq d' TJobs) mx"
proof -
  from r obtain j where j: "next_due d = Some j"
    "l = \<lparr>ls_id = j_id j, ls_type = j_type j, ls_payload = j_payload j, ls_attempts = j_attempts j\<rparr>"
    "d' = d\<lparr>d_jobs := update_where (\<lambda>r. j_id r = j_id j) (\<lambda>r. r\<lparr>j_status := Processing, j_locked := Some (d_now d)\<rparr>) (d_jobs d)\<rparr>"
    by (auto simp: SqlDequeue_def eff_simps split: option.splits)
  note m = next_due_some [OF j(1)]
  have u: "k = j" if "k \<in> set (d_jobs d)" "j_id k = j_id j" for k
    using w that m distinct_map_inj [of j_id "d_jobs d" k j] by (simp add: db_wf_def jobs_wf_def)
  have "attempts_below mx (d_jobs d')"
    unfolding j(3)
  proof (simp, rule attempts_below_update [OF b])
    fix k assume "k \<in> set (d_jobs d)" "j_id k = j_id j"
      and t: "j_type (k\<lparr>j_status := Processing, j_locked := Some (d_now d)\<rparr>) = TypeDeliverActivity"
    then have "k = j" by (intro u)
    with b m t show "j_attempts (k\<lparr>j_status := Processing, j_locked := Some (d_now d)\<rparr>) < mx"
      by (simp add: attempts_below_def due_def)
  qed
  moreover have "lease_of l (d_jobs d') (d_seq d' TJobs)"
    unfolding lease_of_def
  proof (intro conjI ballI impI)
    show "ls_id l < d_seq d' TJobs" using w m by (simp add: j(2,3) db_wf_def jobs_wf_def)
    fix k assume "k \<in> set (d_jobs d')" "j_id k = ls_id l"
    then have "k = j\<lparr>j_status := Processing, j_locked := Some (d_now d)\<rparr>"
      using u by (auto simp: j(2,3) set_update_where)
    then show "j_attempts k = ls_attempts l" "j_type k = ls_type l" by (simp_all add: j(2))
  qed
  ultimately show ?thesis by (simp add: leased_def)
qed

lemma failure_attempts:
  assumes "jobs_inv (leased l) s" "ls_type l = TypeDeliverActivity"
  shows "attempts_below (delivery_max (s_cfg s))
     (d_jobs (s_db (HandleDeliveryJobFailure t (lift_sql sql_backend) l e (s_cfg s) s)))"
  using assms
  by (auto simp: HandleDeliveryJobFailure_def Let_def on_db_apply SqlNackSchedule_def statement_apply jobs_inv_def
      leased_def lease_of_def processing_def intro!: attempts_below_update split: option.splits)

lemma HandleDeliveryJobFailure_cfg: "s_cfg (HandleDeliveryJobFailure t (lift_sql sql_backend) l e cfg s) = s_cfg s"
  by (simp add: HandleDeliveryJobFailure_def Let_def on_db_apply)

lemma worker_step_attempts:
  fixes s :: "'w sys" and env :: "('pub, 'priv, 'w) workenv"
  assumes w: "db_wf (s_db s)" and b: "attempts_below (delivery_max (s_cfg s)) (d_jobs (s_db s))"
  defines "s' \<equiv> worker_step env (lift_sql sql_backend) s"
  shows "attempts_below (delivery_max (s_cfg s')) (d_jobs (s_db s'))"
proof (cases "SqlDequeue (s_db s)")
  case (Pair r d)
  have deq: "on_db SqlDequeue s = (r, s\<lparr>s_db := d\<rparr>)"
    by (simp add: on_db_apply Pair)
  show ?thesis
  proof (cases "\<exists>l. r = Inr (Some l)")
    case False
    then have "d = s_db s" using Pair
      by (auto simp: SqlDequeue_def eff_simps split: option.splits)
    with False deq b show ?thesis
      by (auto simp: s'_def worker_step_def split: sum.splits option.splits)
  next
    case True
    then obtain l where l: "r = Inr (Some l)" by blast
    let ?s1 = "s\<lparr>s_db := d\<rparr>"
    have i1: "jobs_inv (leased l) ?s1"
      using SqlDequeue_lease [OF w b] Pair l by (simp add: jobs_inv_def)
    obtain r2 s2 where p: "ProcessLease env (lift_sql sql_backend) l ?s1 = (r2, s2)" by (cases rule: prod.exhaust)
    then have i2: "jobs_inv (leased l) s2"
      using preservesD [OF ProcessLease_jobs [OF sql_keeps_leased] i1, of env l] by simp
    then have b2: "attempts_below (delivery_max (s_cfg s2)) (d_jobs (s_db s2))"
      by (simp add: jobs_inv_def leased_def)
    show ?thesis
    proof (cases r2)
      case (Inr u)
      then have "s' = snd (on_db (SqlAck (ls_id l)) s2)"
        by (simp add: s'_def worker_step_def deq l p)
      then show ?thesis using b2
        by (auto simp: on_db_apply SqlAck_def eff_simps intro!: attempts_below_update)
    next
      case (Inl e)
      show ?thesis
      proof (cases "ls_type l = TypeDeliverActivity")
        case True
        have "s' = HandleDeliveryJobFailure (now (pe_fetch env)) (lift_sql sql_backend) l e (s_cfg s2) s2"
          using True Inl by (simp add: s'_def worker_step_def deq l p)
        then show ?thesis using failure_attempts [OF i2 True] by (simp add: HandleDeliveryJobFailure_cfg)
      next
        case False
        then have "s' = snd (on_db (SqlNack (ls_id l) True) s2)"
          using Inl by (simp add: s'_def worker_step_def deq l p)
        moreover have "attempts_below (delivery_max (s_cfg s2)) (d_jobs (snd (SqlNack (ls_id l) True (s_db s2))))"
          using b2 i2 False
          by (auto simp: SqlNack_def statement_apply jobs_inv_def leased_def lease_of_def processing_def
              intro!: attempts_below_update)
        ultimately show ?thesis by (simp add: on_db_apply)
      qed
    qed
  qed
qed

lemma worker_step_wf:
  fixes s :: "'w sys" and env :: "('pub, 'priv, 'w) workenv"
  assumes "db_wf (s_db s)"
  shows "db_wf (s_db (worker_step env (lift_sql sql_backend) s))"
proof -
  have d: "db_inv db_wf (snd (on_db SqlDequeue s))" if "db_inv db_wf s" for s :: "'w sys"
    using that by (rule preservesD [rotated]) (intro preserved)
  have p: "db_inv db_wf (snd (ProcessLease env (lift_sql sql_backend) l s))" if "db_inv db_wf s" for l and s :: "'w sys"
    using that by (rule preservesD [OF ProcessLease_wf [OF sql_keeps_on_enqueue]])
  have n: "db_inv db_wf (snd (on_db (SqlAck i) s))" "db_inv db_wf (snd (on_db (SqlNack i b) s))"
    "db_inv db_wf (snd (on_db (SqlNackSchedule i b t e) s))" if "db_inv db_wf s" for i b t e and s :: "'w sys"
    using that by (auto intro: preservesD [rotated] preserved)
  have h: "db_inv db_wf (HandleDeliveryJobFailure t (lift_sql sql_backend) l e c s)" if "db_inv db_wf s" for t l e c and s :: "'w sys"
    using n that by (simp add: HandleDeliveryJobFailure_def Let_def)
  have "db_inv db_wf (worker_step env (lift_sql sql_backend) s)"
    using d [of s] p h n assms unfolding worker_step_def
    by (auto simp: db_inv_def split: prod.splits sum.splits option.splits) (metis snd_conv)+
  then show ?thesis by (simp add: db_inv_def)
qed

text \<open>Any number of turns of the loop.\<close>

definition worker_runs :: "('pub, 'priv, 'w) workenv \<Rightarrow> nat \<Rightarrow> 'w sys \<Rightarrow> 'w sys" where
  "worker_runs env n = (worker_step env (lift_sql sql_backend) ^^ n)"

text \<open>
  C20: Any number of turns of the worker keep the constraints of the schema, and every delivery
  that waits or runs has failed fewer times than the configured maximum.
\<close>

theorem worker_loop_invariant:
  assumes "db_wf (s_db s)" "attempts_below (delivery_max (s_cfg s)) (d_jobs (s_db s))"
  shows "db_wf (s_db (worker_runs env n s)) \<and>
     attempts_below (delivery_max (s_cfg (worker_runs env n s))) (d_jobs (s_db (worker_runs env n s)))"
  using assms
  by (induction n) (simp_all add: worker_runs_def worker_step_wf worker_step_attempts)

text \<open>A failed delivery is given up for good or scheduled again, and no other job changes.\<close>

definition given_up :: "config \<Rightarrow> lease \<Rightarrow> err \<Rightarrow> bool" where
  "given_up cfg l e \<longleftrightarrow> permanent_failure e \<or> ls_attempts l + 1 \<ge> delivery_max cfg"

lemma HandleDeliveryJobFailure_sql:
  "s_db (HandleDeliveryJobFailure t (lift_sql sql_backend) l e cfg s) =
     (s_db s)\<lparr>d_jobs := update_where (processing (ls_id l))
        (\<lambda>j. if given_up cfg l e
             then j\<lparr>j_status := Failed, j_finished := Some (d_now (s_db s)), j_error := nullif_empty (take 4096 (error_text e))\<rparr>
             else j\<lparr>j_status := Pending, j_locked := None, j_attempts := j_attempts j + 1,
                    j_run_after := t + nextDelivery_delay (ls_attempts l) cfg,
                    j_error := nullif_empty (take 4096 (error_text e))\<rparr>) (d_jobs (s_db s))\<rparr>"
  by (auto simp: HandleDeliveryJobFailure_def Let_def on_db_apply SqlNackSchedule_def statement_apply given_up_def
      nextDeliveryRunAfter_def)


text \<open>
  A job of another type that fails is due again at once, with no delay and no limit on its
  attempts.
\<close>

theorem worker_step_requeues:
  fixes s :: "'w sys" and env :: "('pub, 'priv, 'w) workenv"
  assumes "SqlDequeue (s_db s) = (Inr (Some l), d1)" "ls_type l \<noteq> TypeDeliverActivity"
    and "ProcessLease env (lift_sql sql_backend) l (s\<lparr>s_db := d1\<rparr>) = (Inl e, s2)"
    and j: "j \<in> set (d_jobs (s_db s2))" "processing (ls_id l) j"
  shows "\<exists>j' \<in> set (d_jobs (s_db (worker_step env (lift_sql sql_backend) s))).
     j_id j' = ls_id l \<and> j_attempts j' = j_attempts j + 1 \<and> due (d_now (s_db s2)) j'"
proof -
  have "worker_step env (lift_sql sql_backend) s = snd (on_db (SqlNack (ls_id l) True) s2)"
    using assms(1-3) by (simp add: worker_step_def on_db_apply)
  then have "j\<lparr>j_status := Pending, j_locked := None, j_attempts := j_attempts j + 1, j_run_after := d_now (s_db s2)\<rparr>
      \<in> set (d_jobs (s_db (worker_step env (lift_sql sql_backend) s)))"
    using update_where_mem [where p = "processing (ls_id l)", OF j] by (simp add: on_db_apply SqlNack_def statement_apply)
  with j(2) show ?thesis by (intro bexI) (auto simp: due_def processing_def)
qed

text \<open>The Redis queue has no delayed nack, and its nack does not put the job back.\<close>

lemma redis_failure_lost: "HandleDeliveryJobFailure t redis_backend l e cfg s = s"
  by (simp add: HandleDeliveryJobFailure_def redis_backend_def RedisNack_def eff_simps)

end
