(* ===== verification/Paging.thy ===== *)
theory Paging
  imports StoreActors
begin

text \<open>
  The paged collections: \<^verbatim>\<open>OutboxPage\<close> (\<^verbatim>\<open>store/federation.go\<close>), \<^verbatim>\<open>FollowersPage\<close> and
  \<^verbatim>\<open>FollowingPage\<close> (\<^verbatim>\<open>store/collections.go\<close>).  All three select rows below and above two cursors,
  newest first, and answer the last id of a full page as the next cursor.  \<open>all_pages\<close> is a client that
  follows the cursors; the lemmas show that it sees every row once, newest first.
\<close>

section \<open>One page\<close>

definition in_window :: "('r \<Rightarrow> int) \<Rightarrow> int option \<Rightarrow> int option \<Rightarrow> 'r \<Rightarrow> bool" where
  "in_window ident maxID sinceID r \<longleftrightarrow>
     (case maxID of None \<Rightarrow> True | Some m \<Rightarrow> ident r < m) \<and> (case sinceID of None \<Rightarrow> True | Some s \<Rightarrow> ident r > s)"

definition page_rows :: "('r \<Rightarrow> int) \<Rightarrow> int \<Rightarrow> int option \<Rightarrow> int option \<Rightarrow> 'r list \<Rightarrow> 'r list" where
  "page_rows ident lim maxID sinceID rs =
     limit_rows lim (order_desc ident (filter (in_window ident maxID sinceID) rs))"

definition next_cursor :: "('r \<Rightarrow> int) \<Rightarrow> int \<Rightarrow> 'r list \<Rightarrow> int option" where
  "next_cursor ident lim page = (if int (length page) = lim \<and> page \<noteq> [] then Some (ident (last page)) else None)"

definition OutboxPage ::
  "int \<Rightarrow> int \<Rightarrow> int option \<Rightarrow> int option \<Rightarrow> (db, nat \<times> string list \<times> int option) eff" where
  "OutboxPage localActorDBID limit0 maxID sinceID =
     query (\<lambda>d.
       let lim = clamp_limit 50 200 limit0;
           rows = filter (\<lambda>v. v_actor v = localActorDBID) (d_activities d);
           page = page_rows v_id lim maxID sinceID rows
       in Inr (length rows, map v_activity_id page, next_cursor v_id lim page))"

definition FollowersPage ::
  "int \<Rightarrow> int \<Rightarrow> int option \<Rightarrow> int option \<Rightarrow> (db, nat \<times> string list \<times> int option) eff" where
  "FollowersPage followeeActorID limit0 maxID sinceID =
     query (\<lambda>d.
       let lim = clamp_limit 50 200 limit0;
           rows = filter (\<lambda>f. f_followee f = followeeActorID \<and> f_state f = ''accepted'') (d_follows d);
           joined = filter (\<lambda>f. actor_exists d (f_follower f)) rows;
           page = page_rows f_id lim maxID sinceID joined
       in Inr (length rows, map (\<lambda>f. actor_url_of d (f_follower f)) page, next_cursor f_id lim page))"

definition FollowingPage ::
  "int \<Rightarrow> int \<Rightarrow> int option \<Rightarrow> int option \<Rightarrow> (db, nat \<times> string list \<times> int option) eff" where
  "FollowingPage followerActorID limit0 maxID sinceID =
     query (\<lambda>d.
       let lim = clamp_limit 50 200 limit0;
           rows = filter (\<lambda>f. f_follower f = followerActorID \<and> f_state f = ''accepted'') (d_follows d);
           joined = filter (\<lambda>f. actor_exists d (f_followee f)) rows;
           page = page_rows f_id lim maxID sinceID joined
       in Inr (length rows, map (\<lambda>f. actor_url_of d (f_followee f)) page, next_cursor f_id lim page))"

section \<open>Following the cursors\<close>

text \<open>A client that asks for the first page and then for the page below each cursor it is given.\<close>

fun all_pages :: "nat \<Rightarrow> (int option \<Rightarrow> err + (nat \<times> 'i list \<times> int option)) \<Rightarrow> int option \<Rightarrow> 'i list" where
  "all_pages 0 ask c = []"
| "all_pages (Suc n) ask c =
     (case ask c of
        Inl _ \<Rightarrow> []
      | Inr (_, items, None) \<Rightarrow> items
      | Inr (_, items, Some m) \<Rightarrow> items @ all_pages n ask (Some m))"

lemma order_desc_filter: "order_desc f (filter P rs) = filter P (order_desc f rs)"
  by (simp add: order_desc_def filter_sort [symmetric] rev_filter)

lemma set_order_desc [simp]: "set (order_desc f rs) = set rs"
  by (simp add: order_desc_def)

lemma length_order_desc [simp]: "length (order_desc f rs) = length rs"
  by (simp add: order_desc_def)

lemma order_desc_strict:
  "distinct (map f rs) \<Longrightarrow> sorted_wrt (\<lambda>x y. f x > f y) (order_desc f rs)"
proof -
  assume d: "distinct (map f rs)"
  then have "distinct (map f (sort_key f rs))" by (simp add: distinct_map)
  moreover have "sorted (map f (sort_key f rs))" by simp
  ultimately have "sorted_wrt (<) (map f (sort_key f rs))" by (simp add: strict_sorted_iff)
  then show ?thesis by (simp add: order_desc_def sorted_wrt_rev sorted_wrt_map)
qed

lemma filter_below_last:
  fixes f :: "'r \<Rightarrow> int"
  assumes "sorted_wrt (\<lambda>x y. f x > f y) L" "0 < k" "k \<le> length L"
  shows "filter (\<lambda>r. f r < f (last (take k L))) L = drop k L"
proof -
  let ?m = "f (last (take k L))"
  have l: "last (take k L) = L ! (k - 1)" 
    using assms(2,3) by (subst last_conv_nth) auto
  have "L = take k L @ drop k L" by simp
  then have "filter (\<lambda>r. f r < ?m) L = filter (\<lambda>r. f r < ?m) (take k L) @ filter (\<lambda>r. f r < ?m) (drop k L)"
    by (metis filter_append)
  moreover have "filter (\<lambda>r. f r < ?m) (take k L) = []"
  proof -
    have "\<not> f (L ! i) < ?m" if "i < k" for i
    proof (cases "i = k - 1")
      case False
      with that assms(1,3) have "f (L ! (k - 1)) < f (L ! i)" by (auto simp: sorted_wrt_iff_nth_less)
      then show ?thesis by (simp add: l)
    qed (simp add: l)
    then show ?thesis using assms(3) by (auto simp: filter_empty_conv in_set_conv_nth)
  qed
  moreover have "filter (\<lambda>r. f r < ?m) (drop k L) = drop k L"
  proof (rule filter_True, rule ballI)
    fix r assume "r \<in> set (drop k L)"
    then obtain j where "j < length (drop k L)" "r = drop k L ! j" by (auto simp: in_set_conv_nth)
    with assms show "f r < ?m" by (auto simp: l sorted_wrt_iff_nth_less)
  qed
  ultimately show ?thesis by simp
qed

lemma all_pages_complete:
  assumes d: "distinct (map ident rs)" and lim: "0 < lim"
    and ask: "\<And>c. ask c = (let page = page_rows ident lim c None rs in Inr (t, map item page, next_cursor ident lim page))"
    and n: "length (filter (in_window ident c None) rs) < n"
  shows "all_pages n ask c = map item (order_desc ident (filter (in_window ident c None) rs))"
  using n
proof (induction n arbitrary: c)
  case (Suc n)
  define L where "L = order_desc ident (filter (in_window ident c None) rs)"
  define k where "k = nat lim"
  have k: "0 < k" "int k = lim" using lim by (simp_all add: k_def)
  have sorted: "sorted_wrt (\<lambda>x y. ident x > ident y) L"
    unfolding L_def using d by (intro order_desc_strict) (simp add: distinct_map_filter)
  have page: "page_rows ident lim c None rs = take k L" by (simp add: page_rows_def limit_rows_def L_def k_def)
  show ?case
  proof (cases "k \<le> length L")
    case False
    then have "next_cursor ident lim (take k L) = None" using k by (auto simp: next_cursor_def)
    with False show ?thesis by (simp add: ask page L_def [symmetric])
  next
    case True
    let ?m = "ident (last (take k L))"
    have ne: "take k L \<noteq> []" using True k by auto
    have nc: "next_cursor ident lim (take k L) = Some ?m" using True k ne by (simp add: next_cursor_def)
    have below: "order_desc ident (filter (in_window ident (Some ?m) None) rs) = drop k L"
    proof -
      have "last (take k L) \<in> set (filter (in_window ident c None) rs)"
        using ne by (metis L_def in_set_takeD last_in_set set_order_desc)
      then have "in_window ident (Some ?m) None = (\<lambda>r. in_window ident c None r \<and> ident r < ?m)"
        by (auto simp: in_window_def fun_eq_iff split: option.splits)
      then have "filter (in_window ident (Some ?m) None) rs = filter (\<lambda>r. ident r < ?m) (filter (in_window ident c None) rs)"
        by (simp add: conj_commute)
      then have "order_desc ident (filter (in_window ident (Some ?m) None) rs) = filter (\<lambda>r. ident r < ?m) L"
        by (simp only: L_def order_desc_filter)
      with filter_below_last [OF sorted k(1) True] show ?thesis by simp
    qed
    have "length (filter (in_window ident (Some ?m) None) rs) = length (drop k L)"
      by (metis below length_order_desc)
    also have "\<dots> < n" using Suc.prems k True by (simp add: L_def) 
    finally have "all_pages n ask (Some ?m) = map item (drop k L)" using Suc.IH below by simp
    moreover have "ask c = Inr (t, map item (take k L), Some ?m)" by (simp add: ask page nc Let_def)
    ultimately show ?thesis by (simp add: L_def [symmetric] flip: map_append)
  qed
qed simp

text \<open>A limit below one is the default, and no page is larger than the cap.\<close>

lemma in_window_all [simp]: "in_window ident None None = (\<lambda>_. True)"
  by (simp add: in_window_def fun_eq_iff)

lemma clamp_limit_bounds: "0 < def \<Longrightarrow> def \<le> cap \<Longrightarrow> 0 < clamp_limit def cap n \<and> clamp_limit def cap n \<le> cap"
  by (auto simp: clamp_limit_def Let_def)

lemma page_rows_length: "0 \<le> lim \<Longrightarrow> int (length (page_rows ident lim m s rs)) \<le> lim"
  by (simp add: page_rows_def limit_rows_def)

text \<open>
  Following the cursors of the outbox pages, whatever the page size, lists every activity of
  the actor exactly once, newest first.
\<close>

theorem OutboxPage_complete:
  assumes "db_wf d" "length (d_activities d) < n"
  shows "all_pages n (\<lambda>c. fst (OutboxPage a lim c None d)) None =
    map v_activity_id (order_desc v_id (filter (\<lambda>v. v_actor v = a) (d_activities d)))"
proof -
  let ?rows = "filter (\<lambda>v. v_actor v = a) (d_activities d)"
  have "length ?rows < n" using assms(2) by (rule le_less_trans [OF length_filter_le])
  then show "all_pages n (\<lambda>c. fst (OutboxPage a lim c None d)) None =
      map v_activity_id (order_desc v_id ?rows)"
    using assms(1) clamp_limit_bounds [of 50 200 lim]
    by (subst all_pages_complete [where rs = ?rows and t = "length ?rows" and lim = "clamp_limit 50 200 lim"])
       (simp_all add: OutboxPage_def eff_apply Let_def db_wf_def activities_wf_def distinct_map_filter)
qed

lemma follows_joined:
  assumes "db_wf d"
  shows "filter (\<lambda>f. actor_exists d (f_follower f)) (filter P (d_follows d)) = filter P (d_follows d)"
    "filter (\<lambda>f. actor_exists d (f_followee f)) (filter P (d_follows d)) = filter P (d_follows d)"
proof -
  have e: "actor_exists d (f_follower f) \<and> actor_exists d (f_followee f)" if "f \<in> set (filter P (d_follows d))" for f
    using assms that by (auto simp: db_wf_def follows_wf_def actor_exists_iff)
  show "filter (\<lambda>f. actor_exists d (f_follower f)) (filter P (d_follows d)) = filter P (d_follows d)"
    "filter (\<lambda>f. actor_exists d (f_followee f)) (filter P (d_follows d)) = filter P (d_follows d)"
    by (rule filter_True, use e in blast)+
qed

text \<open>
  Following the cursors of the follower pages lists every accepted follower exactly once,
  newest first.
\<close>

theorem FollowersPage_complete:
  assumes "db_wf d" "length (d_follows d) < n"
  shows "all_pages n (\<lambda>c. fst (FollowersPage a lim c None d)) None =
    map (\<lambda>f. actor_url_of d (f_follower f))
      (order_desc f_id (filter (\<lambda>f. f_followee f = a \<and> f_state f = ''accepted'') (d_follows d)))"
proof -
  let ?rows = "filter (\<lambda>f. f_followee f = a \<and> f_state f = ''accepted'') (d_follows d)"
  have "length ?rows < n" using assms(2) by (rule le_less_trans [OF length_filter_le])
  then show "all_pages n (\<lambda>c. fst (FollowersPage a lim c None d)) None =
      map (\<lambda>f. actor_url_of d (f_follower f)) (order_desc f_id ?rows)"
    using assms(1) clamp_limit_bounds [of 50 200 lim]
    by (subst all_pages_complete [where rs = ?rows and t = "length ?rows" and lim = "clamp_limit 50 200 lim"])
       (simp_all add: FollowersPage_def eff_apply Let_def follows_joined db_wf_def follows_wf_def
         distinct_map_filter del: filter_filter)
qed

lemma FollowingPage_complete:
  assumes "db_wf d" "length (d_follows d) < n"
  shows "all_pages n (\<lambda>c. fst (FollowingPage a lim c None d)) None =
    map (\<lambda>f. actor_url_of d (f_followee f))
      (order_desc f_id (filter (\<lambda>f. f_follower f = a \<and> f_state f = ''accepted'') (d_follows d)))"
proof -
  let ?rows = "filter (\<lambda>f. f_follower f = a \<and> f_state f = ''accepted'') (d_follows d)"
  have "length ?rows < n" using assms(2) by (rule le_less_trans [OF length_filter_le])
  then show "all_pages n (\<lambda>c. fst (FollowingPage a lim c None d)) None =
      map (\<lambda>f. actor_url_of d (f_followee f)) (order_desc f_id ?rows)"
    using assms(1) clamp_limit_bounds [of 50 200 lim]
    by (subst all_pages_complete [where rs = ?rows and t = "length ?rows" and lim = "clamp_limit 50 200 lim"])
       (simp_all add: FollowingPage_def eff_apply Let_def follows_joined db_wf_def follows_wf_def
         distinct_map_filter del: filter_filter)
qed

end
