(* ===== verification/Sample.thy ===== *)
theory Sample
  imports Worker Paging
begin

text \<open>
  A small instance on which the properties are tried: a server \<^verbatim>\<open>a.example\<close> with the account
  \<^verbatim>\<open>alice\<close>, two accounts of \<^verbatim>\<open>b.example\<close> that it knows, and a few rows in each table.  Signatures
  are accepted when they name the key they were made with, and the network answers every request
  with the actor document of \<^verbatim>\<open>bob\<close>.
\<close>

definition sample_cfg :: config where
  "sample_cfg = \<lparr>HTTPListen = [], MetricsListen = [], DatabaseURL = [], RedisURL = [], QueueBackend = ''sql'',
     PublicBaseURL = ''https://a.example'', LocalUsername = ''alice'', LocalUsernames = [''alice''],
     FollowAutoAccept = True, ActorPrivateKeyPath = ''key.pem'', ActorPublicKeyPath = [],
     InboxMaxBody = 1048576, CreateObjectMaxFetchBytes = 1048576, FetchAllowHTTP = False,
     FetchRelaxLocal = False, OutboxPostSecret = [], MediaUploadSecret = [], MediaMaxUploadBytes = 0,
     MediaMaxAttachmentsPerStatus = 0, MediaAllowedMIMETypes = [], MediaAsyncUpload = False,
     MediaDescriptionLimit = 0, RequireAuthorizedFetch = False, SignOutboundGET = False,
     InstanceActorPrivateKeyPath = [], BlobBackend = ''filesystem'', BlobFSRoot = [], BlobS3Bucket = [],
     BlobS3Endpoint = [], BlobS3Region = [], WorkerConcurrency = 1, WorkerPollInterval = 1000000000,
     DeliveryMaxAttempts = 3, DeliveryBackoffInitialSec = 30, DeliveryBackoffMaxSec = 3600,
     InstanceName = [], InstanceDescription = [], OpenRegistrations = False, SoftwareVersion = [],
     CORSAllowOrigins = []\<rparr>"

definition alice :: actor_row where
  "alice = \<lparr>a_id = 1, a_username = ''alice'', a_domain = ''a.example'', a_url = ''https://a.example/@alice'',
     a_inbox = ''https://a.example/@alice/inbox'', a_outbox = ''https://a.example/@alice/outbox'',
     a_pem = ''pub'', a_priv = Some ''priv''\<rparr>"

definition bob :: actor_row where
  "bob = \<lparr>a_id = 2, a_username = ''bob'', a_domain = ''b.example'', a_url = ''https://b.example/bob'',
     a_inbox = [], a_outbox = [], a_pem = ''pub'', a_priv = None\<rparr>"

definition carol :: actor_row where
  "carol = \<lparr>a_id = 3, a_username = ''carol'', a_domain = ''b.example'', a_url = ''https://b.example/carol'',
     a_inbox = [], a_outbox = [], a_pem = ''pub'', a_priv = None\<rparr>"

definition carols_note :: object_row where
  "carols_note = \<lparr>ob_id = 1, ob_url = ''https://b.example/notes/1'', ob_actor = 3, ob_type = ''Note'',
     ob_raw = JObj [(''id'', JStr ''https://b.example/notes/1''), (''content'', JStr ''carol was here'')], ob_deleted = None\<rparr>"

definition follow_of_alice :: follow_row where
  "follow_of_alice = \<lparr>f_id = 1, f_follower = 2, f_followee = 1, f_state = ''pending'', f_activity = ''https://b.example/f/1''\<rparr>"

definition follow_of_carol :: follow_row where
  "follow_of_carol = \<lparr>f_id = 2, f_follower = 1, f_followee = 3, f_state = ''pending_remote'', f_activity = ''https://a.example/f/2''\<rparr>"

definition carols_like :: edge_row where
  "carols_like = \<lparr>e_id = 1, e_actor = 3, e_object = ''https://a.example/n/1'', e_activity = ''https://b.example/l/1''\<rparr>"

definition deliver_row :: job_row where
  "deliver_row = \<lparr>j_id = 1, j_type = TypeDeliverActivity,
     j_payload = marshal_deliver ''https://b.example/inbox'' (JObj [(''type'', JStr ''Accept'')]) ''alice'' [],
     j_key = Some ''k'', j_status = Processing, j_run_after = 0, j_locked = Some 5, j_attempts = 1, j_finished = None,
     j_error = None\<rparr>"

definition waiting_row :: job_row where
  "waiting_row = \<lparr>j_id = 2, j_type = TypeProcessInboxActivity, j_payload = JObj [(''activityDbId'', JNum ''1'')],
     j_key = None, j_status = Pending, j_run_after = 0, j_locked = None, j_attempts = 0, j_finished = None, j_error = None\<rparr>"

definition bobs_activity :: "string \<Rightarrow> obj \<Rightarrow> activity_row" where
  "bobs_activity t fs = \<lparr>v_id = 1, v_activity_id = ''https://b.example/a/1'', v_actor = 2, v_type = t, v_raw = JObj fs, v_deleted = None\<rparr>"

definition sample_db :: db where
  "sample_db = \<lparr>d_now = 10, d_seq = (\<lambda>_. 10), d_actors = [alice, bob, carol],
     d_activities = [bobs_activity ''Like'' []], d_objects = [carols_note],
     d_follows = [follow_of_alice, follow_of_carol], d_likes = [carols_like], d_announces = [], d_blocks = [],
     d_bookmarks = [], d_accounts = [], d_jobs = [deliver_row, waiting_row],
     d_apps = [], d_codes = [], d_tokens = [], d_lists = [], d_members = [], d_filters = [], d_media = []\<rparr>"

lemmas sample_rows = alice_def bob_def carol_def carols_note_def follow_of_alice_def follow_of_carol_def
  carols_like_def deliver_row_def waiting_row_def bobs_activity_def

lemma sample_db_wf: "db_wf sample_db"
  unfolding db_wf_def actors_wf_def activities_wf_def objects_wf_def follows_wf_def edges_wf_def bookmarks_wf_def
    accounts_wf_def jobs_wf_def keyed_jobs_def actor_ids_def activity_ids_def follow_pair_def edge_pair_def
  by (simp add: sample_db_def sample_rows)

section \<open>The environment\<close>

definition bob_document :: json where
  "bob_document = JObj [(''id'', JStr ''https://b.example/bob''), (''inbox'', JStr ''https://b.example/inbox''),
     (''publicKey'', JObj [(''id'', JStr ''https://b.example/bob#key''), (''publicKeyPem'', JStr ''pub'')])]"

definition post_document :: json where
  "post_document = JObj [(''id'', JStr ''https://a.example/c/1''), (''type'', JStr ''Create''),
     (''actor'', JStr ''https://a.example/@alice''), (''to'', JStr ''https://b.example/bob''),
     (''object'', JStr ''https://a.example/n/1'')]"

definition like_document :: json where
  "like_document = JObj [(''id'', JStr ''https://b.example/likes/1''), (''type'', JStr ''Like''),
     (''actor'', JStr ''https://b.example/bob''), (''object'', JStr ''https://a.example/n/1'')]"

definition sample_sigenv :: "(string, string) sigenv" where
  "sample_sigenv = \<lparr>rsa_sign = (\<lambda>k h. Some (k @ ''!'')), rsa_verify = (\<lambda>k h g. g = k @ ''!''),
     parse_time = (\<lambda>s. if s = ''noon'' then Some 0 else None), format_time = (\<lambda>_. ''noon''), now = 0\<rparr>"

definition sample_fetchenv :: "(string, string) fetchenv" where
  "sample_fetchenv = sigenv.extend sample_sigenv
     (fetchenv.fields (\<lambda>s. if s = ''actor'' then Some bob_document else if s = ''like'' then Some like_document
       else if s = ''post'' then Some post_document else None) (\<lambda>_. Inr ''key'') (\<lambda>_. Inr ''key''))"

definition sample_client :: "request list client" where
  "sample_client = logged (\<lambda>_. Inr \<lparr>rs_status = 200, rs_body = ''actor'', rs_read_err = None\<rparr>)"

definition sample_procenv :: "(string, string, request list) procenv" where
  "sample_procenv = \<lparr>pe_fetch = sample_fetchenv, pe_client = Some sample_client, pe_policy = None\<rparr>"

definition sample_env :: "(string, string, request list) workenv" where
  "sample_env = \<lparr>pe_fetch = sample_fetchenv, pe_client = Some sample_client, pe_policy = None,
     we_has_pool = True, we_render = (\<lambda>_. ''body''), we_parse_private_key = (\<lambda>_. Inr ''key''), we_base_client = sample_client\<rparr>"

definition sample_sys :: "request list sys" where
  "sample_sys = \<lparr>s_db = sample_db, s_redis = \<lparr>rd_id = 0, rd_list = []\<rparr>, s_net = [], s_cfg = sample_cfg\<rparr>"

lemma sample_sys_wf: "db_wf (s_db sample_sys)"
  by (simp add: sample_sys_def sample_db_wf)

end
