(* ===== verification/StoreClient.thy ===== *)
theory StoreClient
  imports StoreActors GoCrypto
begin

text \<open>
  \<^verbatim>\<open>store/oauth.go\<close>, \<^verbatim>\<open>store/mastodon_lists.go\<close>, \<^verbatim>\<open>store/mastodon_filters.go\<close>,
  \<^verbatim>\<open>store/mastodon_media.go\<close> and \<^verbatim>\<open>store/mastodon_conversations.go\<close>: the tables behind the client
  API.  Random bytes and the clock of the process are arguments.  Secrets and tokens are stored as
  their SHA-256.

  The contract \<open>owned_rows\<close> says what a statement restricted to a row's id and owner promises; it is
  interpreted on lists, filters and media.  The lemmas: an authorization code is spent once, only
  before it expires and only with the redirect URI it was issued for; a token resolves to the
  account it was issued to; no statement of one account touches the rows of another.
\<close>

section \<open>OAuth\<close>

definition hashSecret :: "string \<Rightarrow> string" where
  "hashSecret raw = sha256 raw"

text \<open>\<^verbatim>\<open>base64.RawURLEncoding\<close>: the URL alphabet and no padding.\<close>

definition base64_raw_url :: "string \<Rightarrow> string" where
  "base64_raw_url s = map (\<lambda>c. if c = CHR ''+'' then CHR ''-'' else if c = CHR ''/'' then CHR ''_'' else c)
     (filter (\<lambda>c. c \<noteq> CHR ''='') (base64_encode s))"

definition randomTokenURL :: "string \<Rightarrow> string" where
  "randomTokenURL bytes = base64_raw_url bytes"

definition InsertOAuthApplication ::
  "string \<Rightarrow> string \<Rightarrow> string \<Rightarrow> string \<Rightarrow> string \<Rightarrow> string \<Rightarrow> (db, app_row \<times> string) eff" where
  "InsertOAuthApplication rnd1 rnd2 name redirectURIs website scopes =
     (if trim_space redirectURIs = [] then fail (Msg ''redirect_uris required'')
      else let clientID = randomTokenURL rnd1; clientSecret = randomTokenURL rnd2
           in statement (\<lambda>d0. case nextval TApps d0 of (i, d) \<Rightarrow>
                (let new = \<lparr>ap_id = i, ap_client_id = clientID, ap_secret_hash = hashSecret clientSecret,
                            ap_redirect_uris = redirectURIs, ap_name = name, ap_website = website, ap_scopes = scopes\<rparr>
                 in bind_res (insert_on ap_client_id ''oauth_applications'' new (d_apps d)) (\<lambda>rs.
                      Inr ((new, clientSecret), d\<lparr>d_apps := rs\<rparr>)))))"

definition OAuthApplicationByClientID :: "string \<Rightarrow> (db, app_row) eff" where
  "OAuthApplicationByClientID clientID = query (\<lambda>d. select_one (\<lambda>a. ap_client_id a = clientID) (d_apps d))"

definition VerifyClientSecret :: "app_row \<Rightarrow> string \<Rightarrow> bool" where
  "VerifyClientSecret app clientSecret =
     (if clientSecret = [] then False else ap_secret_hash app = hashSecret clientSecret)"

definition uri_sep :: "char \<Rightarrow> bool" where
  "uri_sep c \<longleftrightarrow> c = CHR '' '' \<or> c = CHR 0x0A \<or> c = CHR 0x09"

text \<open>\<^verbatim>\<open>strings.FieldsFunc\<close>: the maximal runs without a separator.\<close>

fun fields_func :: "(char \<Rightarrow> bool) \<Rightarrow> string \<Rightarrow> string \<Rightarrow> string list" where
  "fields_func p w [] = (if w = [] then [] else [rev w])"
| "fields_func p w (c # s) =
     (if p c then (if w = [] then [] else [rev w]) @ fields_func p [] s else fields_func p (c # w) s)"

definition RedirectURIAllowed :: "string \<Rightarrow> string \<Rightarrow> bool" where
  "RedirectURIAllowed registered0 candidate0 =
     (let registered = trim_space registered0; candidate = trim_space candidate0
      in if registered = [] \<or> candidate = [] then False
         else list_ex (\<lambda>part. trim_space part = candidate) (fields_func uri_sep [] registered))"

definition code_ttl :: int where
  "code_ttl = 600 * 10 ^ 9"

definition app_exists :: "db \<Rightarrow> int \<Rightarrow> bool" where
  "app_exists d i = list_ex (\<lambda>a. ap_id a = i) (d_apps d)"

definition InsertAuthorizationCode ::
  "string \<Rightarrow> int \<Rightarrow> int \<Rightarrow> int \<Rightarrow> string \<Rightarrow> string \<Rightarrow> string \<Rightarrow> string \<Rightarrow> (db, string) eff" where
  "InsertAuthorizationCode rnd t appID actorID redirectURI scopes challenge challengeMethod =
     (let code = randomTokenURL rnd
      in statement (\<lambda>d0. case nextval TCodes d0 of (i, d) \<Rightarrow>
           (let new = \<lparr>oc_id = i, oc_code = code, oc_app = appID, oc_actor = actorID, oc_redirect_uri = redirectURI,
                       oc_scopes = scopes, oc_challenge = (if challenge = [] then None else Some challenge),
                       oc_method = (if challengeMethod = [] then None else Some challengeMethod),
                       oc_expires = t + code_ttl\<rparr>
            in bind_res (insert_on oc_code ''oauth_authorization_codes'' new (d_codes d)) (\<lambda>rs.
                 if \<not> app_exists d appID \<or> \<not> actor_exists d actorID
                 then Inl (ForeignKeyViolation ''oauth_authorization_codes'')
                 else Inr (code, d\<lparr>d_codes := rs\<rparr>)))))"

record auth_code =
  ApplicationID :: int
  ac_ActorID :: int
  RedirectURI :: string
  ac_Scopes :: string
  Challenge :: string
  ChallengeMeth :: string

definition coalesce :: "string option \<Rightarrow> string" where
  "coalesce x = (case x of None \<Rightarrow> [] | Some s \<Rightarrow> s)"

definition valid_code :: "string \<Rightarrow> string \<Rightarrow> db \<Rightarrow> code_row \<Rightarrow> bool" where
  "valid_code code redirectURI d c \<longleftrightarrow> oc_code c = code \<and> oc_redirect_uri c = redirectURI \<and> oc_expires c > d_now d"

definition ConsumeAuthorizationCode :: "string \<Rightarrow> string \<Rightarrow> (db, auth_code) eff" where
  "ConsumeAuthorizationCode code redirectURI =
     statement (\<lambda>d. bind_res (select_one (valid_code code redirectURI d) (d_codes d)) (\<lambda>c.
       Inr (\<lparr>ApplicationID = oc_app c, ac_ActorID = oc_actor c, RedirectURI = oc_redirect_uri c, ac_Scopes = oc_scopes c,
             Challenge = coalesce (oc_challenge c), ChallengeMeth = coalesce (oc_method c)\<rparr>,
            d\<lparr>d_codes := delete_where (valid_code code redirectURI d) (d_codes d)\<rparr>)))"

definition insert_token :: "string \<Rightarrow> int \<Rightarrow> int option \<Rightarrow> string \<Rightarrow> (db, string) eff" where
  "insert_token rnd appID actor scopes =
     (let rawToken = randomTokenURL rnd
      in statement (\<lambda>d0. case nextval TTokens d0 of (i, d) \<Rightarrow>
           (let new = \<lparr>tk_id = i, tk_hash = hashSecret rawToken, tk_app = appID, tk_actor = actor, tk_scopes = scopes\<rparr>
            in bind_res (insert_on tk_hash ''oauth_access_tokens'' new (d_tokens d)) (\<lambda>rs.
                 if \<not> app_exists d appID \<or> (case actor of None \<Rightarrow> False | Some a \<Rightarrow> \<not> actor_exists d a)
                 then Inl (ForeignKeyViolation ''oauth_access_tokens'')
                 else Inr (rawToken, d\<lparr>d_tokens := rs\<rparr>)))))"

definition InsertAccessToken :: "string \<Rightarrow> int \<Rightarrow> int \<Rightarrow> string \<Rightarrow> (db, string) eff" where
  "InsertAccessToken rnd appID actorID scopes = insert_token rnd appID (Some actorID) scopes"

definition InsertAccessTokenTx :: "string \<Rightarrow> int \<Rightarrow> int \<Rightarrow> string \<Rightarrow> (db, string) eff" where
  "InsertAccessTokenTx rnd appID actorID scopes = insert_token rnd appID (Some actorID) scopes"

definition InsertAppAccessTokenTx :: "string \<Rightarrow> int \<Rightarrow> string \<Rightarrow> (db, string) eff" where
  "InsertAppAccessTokenTx rnd appID scopes = insert_token rnd appID None scopes"

definition ActorIDForAccessToken :: "string \<Rightarrow> (db, int \<times> int \<times> string) eff" where
  "ActorIDForAccessToken rawToken =
     query (\<lambda>d. case select_one (\<lambda>t. tk_hash t = hashSecret rawToken) (d_tokens d) of
       Inl e \<Rightarrow> Inl e
     | Inr t \<Rightarrow> Inr ((case tk_actor t of None \<Rightarrow> 0 | Some a \<Rightarrow> a), tk_app t, tk_scopes t))"

definition ActorForMastodon :: "int \<Rightarrow> (db, actor_row) eff" where
  "ActorForMastodon actorID = query (\<lambda>d. select_one (\<lambda>a. a_id a = actorID) (d_actors d))"

definition ListAcceptedFollowerActorURLs :: "int \<Rightarrow> (db, string list) eff" where
  "ListAcceptedFollowerActorURLs followeeActorID =
     query (\<lambda>d. Inr [a_url a. f \<leftarrow> d_follows d, f_followee f = followeeActorID \<and> f_state f = ''accepted'',
                              a \<leftarrow> d_actors d, a_id a = f_follower f])"

section \<open>Lists\<close>

definition own_list :: "int \<Rightarrow> int \<Rightarrow> list_row \<Rightarrow> bool" where
  "own_list listID ownerActorID l \<longleftrightarrow> ml_id l = listID \<and> ml_owner l = ownerActorID"

definition InsertMastodonList :: "int \<Rightarrow> string \<Rightarrow> (db, int) eff" where
  "InsertMastodonList ownerActorID title0 =
     (let title = (if trim_space title0 = [] then ''New list'' else trim_space title0)
      in statement (\<lambda>d0. case nextval TLists d0 of (i, d) \<Rightarrow>
           (if \<not> actor_exists d ownerActorID then Inl (ForeignKeyViolation ''mastodon_lists'')
            else Inr (i, d\<lparr>d_lists := d_lists d @ [\<lparr>ml_id = i, ml_owner = ownerActorID, ml_title = title\<rparr>]\<rparr>))))"

definition GetMastodonList :: "int \<Rightarrow> int \<Rightarrow> (db, list_row) eff" where
  "GetMastodonList listID ownerActorID = query (\<lambda>d. select_one (own_list listID ownerActorID) (d_lists d))"

definition UpdateMastodonListTitle :: "int \<Rightarrow> int \<Rightarrow> string \<Rightarrow> (db, unit) eff" where
  "UpdateMastodonListTitle listID ownerActorID title0 =
     (let title = trim_space title0
      in if title = [] then fail (Msg ''title required'')
         else bind_eff (statement (\<lambda>d. Inr (count_where (own_list listID ownerActorID) (d_lists d),
                d\<lparr>d_lists := update_where (own_list listID ownerActorID) (\<lambda>l. l\<lparr>ml_title := title\<rparr>) (d_lists d)\<rparr>))) (\<lambda>n.
              if n = 0 then fail (Msg ''not found'') else ret ()))"

text \<open>The members go with the list (\<^verbatim>\<open>ON DELETE CASCADE\<close>).\<close>

definition DeleteMastodonList :: "int \<Rightarrow> int \<Rightarrow> (db, bool) eff" where
  "DeleteMastodonList listID ownerActorID =
     statement (\<lambda>d. let hit = count_where (own_list listID ownerActorID) (d_lists d) > 0
       in Inr (hit, d\<lparr>d_lists := delete_where (own_list listID ownerActorID) (d_lists d),
                     d_members := (if hit then delete_where (\<lambda>m. fst m = listID) (d_members d) else d_members d)\<rparr>))"

definition ListMastodonLists :: "int \<Rightarrow> (db, list_row list) eff" where
  "ListMastodonLists ownerActorID =
     query (\<lambda>d. Inr (order_desc ml_id (filter (\<lambda>l. ml_owner l = ownerActorID) (d_lists d))))"

definition AddMastodonListMember :: "int \<Rightarrow> int \<Rightarrow> int \<Rightarrow> (db, unit) eff" where
  "AddMastodonListMember listID ownerActorID memberActorID =
     bind_eff (GetMastodonList listID ownerActorID) (\<lambda>_.
       statement (\<lambda>d.
         if (listID, memberActorID) \<in> set (d_members d) then Inr ((), d)
         else if \<not> actor_exists d memberActorID then Inl (ForeignKeyViolation ''mastodon_list_members'')
         else Inr ((), d\<lparr>d_members := d_members d @ [(listID, memberActorID)]\<rparr>)))"

definition RemoveMastodonListMember :: "int \<Rightarrow> int \<Rightarrow> int \<Rightarrow> (db, unit) eff" where
  "RemoveMastodonListMember listID ownerActorID memberActorID =
     bind_eff (GetMastodonList listID ownerActorID) (\<lambda>_.
       statement (\<lambda>d. Inr ((), d\<lparr>d_members := delete_where (\<lambda>m. m = (listID, memberActorID) \<and>
         list_ex (own_list listID ownerActorID) (d_lists d)) (d_members d)\<rparr>)))"

definition ListMastodonListMemberActorIDs :: "int \<Rightarrow> int \<Rightarrow> (db, int list) eff" where
  "ListMastodonListMemberActorIDs listID ownerActorID =
     bind_eff (GetMastodonList listID ownerActorID) (\<lambda>_.
       query (\<lambda>d. Inr (sort (map snd (filter (\<lambda>m. fst m = listID \<and> list_ex (own_list listID ownerActorID) (d_lists d))
         (d_members d))))))"

section \<open>Filters\<close>

record filter_contexts =
  fc_home :: bool
  fc_notifications :: bool
  fc_public :: bool
  fc_thread :: bool
  fc_account :: bool

text \<open>No context at all means home, public and thread.\<close>

definition default_contexts :: "filter_contexts \<Rightarrow> filter_contexts" where
  "default_contexts c =
     (if \<not> fc_home c \<and> \<not> fc_notifications c \<and> \<not> fc_public c \<and> \<not> fc_thread c \<and> \<not> fc_account c
      then c\<lparr>fc_home := True, fc_public := True, fc_thread := True\<rparr> else c)"

definition set_filter :: "string \<Rightarrow> bool \<Rightarrow> bool \<Rightarrow> int option \<Rightarrow> filter_contexts \<Rightarrow> filter_row \<Rightarrow> filter_row" where
  "set_filter phrase whole irr expires c f =
     f\<lparr>mf_phrase := phrase, mf_whole_word := whole, mf_irreversible := irr, mf_expires := expires, mf_home := fc_home c,
       mf_notifications := fc_notifications c, mf_public := fc_public c, mf_thread := fc_thread c, mf_account := fc_account c\<rparr>"

definition own_filter :: "int \<Rightarrow> int \<Rightarrow> filter_row \<Rightarrow> bool" where
  "own_filter filterID ownerActorID f \<longleftrightarrow> mf_id f = filterID \<and> mf_owner f = ownerActorID"

definition InsertMastodonFilter ::
  "int \<Rightarrow> string \<Rightarrow> bool \<Rightarrow> bool \<Rightarrow> int option \<Rightarrow> filter_contexts \<Rightarrow> (db, int) eff" where
  "InsertMastodonFilter ownerActorID phrase0 whole irr expires c0 =
     (let phrase = trim_space phrase0; c = default_contexts c0
      in if phrase = [] then fail (Msg ''phrase required'')
         else statement (\<lambda>d0. case nextval TFilters d0 of (i, d) \<Rightarrow>
                (if \<not> actor_exists d ownerActorID then Inl (ForeignKeyViolation ''mastodon_filters'')
                 else Inr (i, d\<lparr>d_filters := d_filters d @
                   [\<lparr>mf_id = i, mf_owner = ownerActorID, mf_phrase = phrase, mf_whole_word = whole, mf_irreversible = irr,
                     mf_expires = expires, mf_home = fc_home c, mf_notifications = fc_notifications c,
                     mf_public = fc_public c, mf_thread = fc_thread c, mf_account = fc_account c\<rparr>]\<rparr>))))"

definition active_filter :: "int \<Rightarrow> filter_row \<Rightarrow> bool" where
  "active_filter t f \<longleftrightarrow> (case mf_expires f of None \<Rightarrow> True | Some e \<Rightarrow> e > t)"

definition ListMastodonFiltersForActor :: "int \<Rightarrow> (db, filter_row list) eff" where
  "ListMastodonFiltersForActor ownerActorID =
     query (\<lambda>d. Inr (sort_key mf_id (filter (\<lambda>f. mf_owner f = ownerActorID \<and> active_filter (d_now d) f) (d_filters d))))"

definition GetMastodonFilter :: "int \<Rightarrow> int \<Rightarrow> (db, filter_row) eff" where
  "GetMastodonFilter filterID ownerActorID = query (\<lambda>d. select_one (own_filter filterID ownerActorID) (d_filters d))"

definition UpdateMastodonFilter ::
  "int \<Rightarrow> int \<Rightarrow> string \<Rightarrow> bool \<Rightarrow> bool \<Rightarrow> int option \<Rightarrow> filter_contexts \<Rightarrow> (db, unit) eff" where
  "UpdateMastodonFilter filterID ownerActorID phrase0 whole irr expires c0 =
     (let phrase = trim_space phrase0; c = default_contexts c0
      in if phrase = [] then fail (Msg ''phrase required'')
         else bind_eff (statement (\<lambda>d. Inr (count_where (own_filter filterID ownerActorID) (d_filters d),
                d\<lparr>d_filters := update_where (own_filter filterID ownerActorID)
                    (set_filter phrase whole irr expires c) (d_filters d)\<rparr>))) (\<lambda>n.
              if n = 0 then fail (Msg ''not found'') else ret ()))"

definition DeleteMastodonFilter :: "int \<Rightarrow> int \<Rightarrow> (db, bool) eff" where
  "DeleteMastodonFilter filterID ownerActorID =
     statement (\<lambda>d. Inr (count_where (own_filter filterID ownerActorID) (d_filters d) > 0,
       d\<lparr>d_filters := delete_where (own_filter filterID ownerActorID) (d_filters d)\<rparr>))"

section \<open>Media\<close>

definition MediaProcessingPending :: string where "MediaProcessingPending = ''pending''"
definition MediaProcessingComplete :: string where "MediaProcessingComplete = ''complete''"
definition MediaProcessingFailed :: string where "MediaProcessingFailed = ''failed''"

definition nullif_trim :: "string \<Rightarrow> string option" where
  "nullif_trim s = (if sql_trim s = [] then None else Some (sql_trim s))"

definition own_media :: "int \<Rightarrow> int \<Rightarrow> media_row \<Rightarrow> bool" where
  "own_media mediaID actorID m \<longleftrightarrow> md_id m = mediaID \<and> md_actor m = actorID"

definition InsertMastodonMedia ::
  "int \<Rightarrow> string \<Rightarrow> string \<Rightarrow> int \<Rightarrow> string \<Rightarrow> bool \<Rightarrow> string \<Rightarrow> (db, int) eff" where
  "InsertMastodonMedia actorID blobKey contentType byteSize description sensitive state0 =
     (let state = (if state0 = [] then MediaProcessingComplete else state0)
      in statement (\<lambda>d0. case nextval TMedia d0 of (i, d) \<Rightarrow>
           (if \<not> actor_exists d actorID then Inl (ForeignKeyViolation ''mastodon_media'')
            else Inr (i, d\<lparr>d_media := d_media d @
              [\<lparr>md_id = i, md_actor = actorID, md_key = blobKey, md_type = contentType, md_size = byteSize,
                md_description = nullif_trim description, md_sensitive = sensitive, md_state = state\<rparr>]\<rparr>))))"

definition GetMastodonMediaByID :: "int \<Rightarrow> (db, media_row) eff" where
  "GetMastodonMediaByID mediaID = query (\<lambda>d. select_one (\<lambda>m. md_id m = mediaID) (d_media d))"

definition GetMastodonMediaForActor :: "int \<Rightarrow> int \<Rightarrow> (db, media_row) eff" where
  "GetMastodonMediaForActor mediaID actorID = query (\<lambda>d. select_one (own_media mediaID actorID) (d_media d))"

definition LookupMastodonMediaIDByBlobKey :: "int \<Rightarrow> string \<Rightarrow> (db, int) eff" where
  "LookupMastodonMediaIDByBlobKey actorID blobKey =
     query (\<lambda>d. case select_one (\<lambda>m. md_actor m = actorID \<and> md_key m = blobKey) (d_media d) of
       Inl e \<Rightarrow> Inl e | Inr m \<Rightarrow> Inr (md_id m))"

definition update_media :: "(media_row \<Rightarrow> bool) \<Rightarrow> (media_row \<Rightarrow> media_row) \<Rightarrow> (db, unit) eff" where
  "update_media p f =
     bind_eff (statement (\<lambda>d. Inr (count_where p (d_media d), d\<lparr>d_media := update_where p f (d_media d)\<rparr>))) (\<lambda>n.
       if n = 0 then fail (Msg ''not found'') else ret ())"

definition UpdateMastodonMediaDescription :: "int \<Rightarrow> int \<Rightarrow> string \<Rightarrow> (db, unit) eff" where
  "UpdateMastodonMediaDescription mediaID actorID description =
     update_media (own_media mediaID actorID) (\<lambda>m. m\<lparr>md_description := nullif_trim description\<rparr>)"

definition UpdateMastodonMediaMetadata :: "int \<Rightarrow> int \<Rightarrow> string option \<Rightarrow> bool option \<Rightarrow> (db, unit) eff" where
  "UpdateMastodonMediaMetadata mediaID actorID description sensitive =
     (case (description, sensitive) of
        (None, None) \<Rightarrow> ret ()
      | (Some s, Some b) \<Rightarrow>
          update_media (own_media mediaID actorID) (\<lambda>m. m\<lparr>md_description := nullif_trim s, md_sensitive := b\<rparr>)
      | (Some s, None) \<Rightarrow> UpdateMastodonMediaDescription mediaID actorID s
      | (None, Some b) \<Rightarrow> update_media (own_media mediaID actorID) (\<lambda>m. m\<lparr>md_sensitive := b\<rparr>))"

definition SetMastodonMediaProcessingState :: "int \<Rightarrow> string \<Rightarrow> (db, unit) eff" where
  "SetMastodonMediaProcessingState mediaID state = update_media (\<lambda>m. md_id m = mediaID) (\<lambda>m. m\<lparr>md_state := state\<rparr>)"

section \<open>Direct messages\<close>

text \<open>\<^verbatim>\<open>'_directRecipientActorIds' @> [viewer]\<close>: an array with the number among its elements.\<close>

definition has_recipient :: "int \<Rightarrow> json option \<Rightarrow> bool" where
  "has_recipient viewer j =
     (case j of Some (JArr xs) \<Rightarrow> list_ex (\<lambda>x. case x of JNum lit \<Rightarrow> parse_int64 lit = Some viewer | _ \<Rightarrow> False) xs | _ \<Rightarrow> False)"

definition ListRecentDirectCreatesInvolvingActor :: "int \<Rightarrow> string \<Rightarrow> int \<Rightarrow> (db, activity_row list) eff" where
  "ListRecentDirectCreatesInvolvingActor viewerActorID instanceDomain0 lim =
     (let instanceDomain = trim_space instanceDomain0
      in if instanceDomain = [] then fail (Msg ''instance domain required'')
         else query (\<lambda>d. Inr (limit_rows (clamp_limit 20 80 lim) (order_desc v_id
                (filter (\<lambda>v. is_create v \<and> v_deleted v = None \<and> author_on_domain d instanceDomain v \<and>
                   raw_object_text v ''_visibility'' = Some ''direct'' \<and>
                   (v_actor v = viewerActorID \<or>
                    has_recipient viewerActorID (json_arrow (json_arrow (Some (v_raw v)) ''object'') ''_directRecipientActorIds'')))
                  (d_activities d))))))"

section \<open>The contract of owned rows\<close>

locale owned_rows =
  fixes ident owner :: "'r \<Rightarrow> int" and own :: "int \<Rightarrow> int \<Rightarrow> 'r \<Rightarrow> bool"
  assumes own_iff: "own i a r \<longleftrightarrow> ident r = i \<and> owner r = a"
begin

definition others :: "int \<Rightarrow> 'r list \<Rightarrow> 'r list" where
  "others a rs = filter (\<lambda>r. owner r \<noteq> a) rs"

lemma others_delete: "others a (delete_where (own i a) rs) = others a rs"
  by (induction rs) (auto simp: others_def delete_where_def own_iff)

lemma others_update:
  "(\<And>r. owner (f r) = owner r) \<Longrightarrow> others a (update_where (own i a) f rs) = others a rs"
  by (induction rs) (auto simp: others_def update_where_def own_iff)

lemma others_insert: "owner r = a \<Longrightarrow> others a (rs @ [r]) = others a rs"
  by (simp add: others_def)

lemma idents_update: "(\<And>r. ident (f r) = ident r) \<Longrightarrow> map ident (update_where p f rs) = map ident rs"
  by (rule update_where_map)

lemma at_most_one:
  "distinct (map ident rs) \<Longrightarrow> count_where (own i a) rs \<le> 1"
proof (induction rs)
  case (Cons r rs)
  show ?case
  proof (cases "own i a r")
    case True
    with Cons.prems have "\<forall>x \<in> set rs. \<not> own i a x" by (auto simp: own_iff image_iff)
    with True show ?thesis by (simp add: count_where_def filter_empty_conv)
  next
    case False
    with Cons show ?thesis by (simp add: count_where_def)
  qed
qed (simp add: count_where_def)

end

interpretation lists: owned_rows ml_id ml_owner own_list
  by unfold_locales (simp add: own_list_def)

interpretation filters: owned_rows mf_id mf_owner own_filter
  by unfold_locales (simp add: own_filter_def)

interpretation media: owned_rows md_id md_actor own_media
  by unfold_locales (simp add: own_media_def)

text \<open>What belongs to the other accounts: their lists with the members, their filters and media.\<close>

definition others_rows :: "int \<Rightarrow> db \<Rightarrow> list_row list \<times> filter_row list \<times> media_row list" where
  "others_rows a d = (lists.others a (d_lists d), filters.others a (d_filters d), media.others a (d_media d))"

definition others_are :: "int \<Rightarrow> list_row list \<times> filter_row list \<times> media_row list \<Rightarrow> db \<Rightarrow> bool" where
  "others_are a x d \<longleftrightarrow> others_rows a d = x"

lemma preserves_select [preserved]:
  "preserves P (GetMastodonList i a)" "preserves P (GetMastodonFilter i a)" "preserves P (GetMastodonMediaForActor i a)"
  by (simp_all add: GetMastodonList_def GetMastodonFilter_def GetMastodonMediaForActor_def)

text \<open>
  What a client of one account writes leaves the lists, filters and media of all other
  accounts as they are.
\<close>

theorem client_writes_own:
  "preserves (others_are a x) (InsertMastodonList a t) \<and>
   preserves (others_are a x) (UpdateMastodonListTitle i a t) \<and>
   preserves (others_are a x) (DeleteMastodonList i a) \<and>
   preserves (others_are a x) (InsertMastodonFilter a ph w irr ex c) \<and>
   preserves (others_are a x) (UpdateMastodonFilter i a ph w irr ex c) \<and>
   preserves (others_are a x) (DeleteMastodonFilter i a) \<and>
   preserves (others_are a x) (InsertMastodonMedia a k ct n ds se st) \<and>
   preserves (others_are a x) (UpdateMastodonMediaMetadata i a ds' se')"
  unfolding InsertMastodonList_def UpdateMastodonListTitle_def DeleteMastodonList_def InsertMastodonFilter_def
    UpdateMastodonFilter_def DeleteMastodonFilter_def InsertMastodonMedia_def UpdateMastodonMediaMetadata_def
    UpdateMastodonMediaDescription_def update_media_def Let_def
  by (intro conjI preserved preserves_statement preserves_basic;
      auto simp: others_are_def others_rows_def nextval_def lists.others_delete filters.others_delete lists.others_insert
        filters.others_insert media.others_insert lists.others_update filters.others_update media.others_update
        set_filter_def split: if_splits)

lemma list_members_own:
  assumes "(i, m) \<in> set (d_members d)" "\<not> list_ex (own_list i a) (d_lists d)"
  shows "(i, m) \<in> set (d_members (snd (RemoveMastodonListMember j a n d)))"
    and "d_members (snd (AddMastodonListMember i a n d)) = d_members d"
    and "(i, m) \<in> set (d_members (snd (DeleteMastodonList j a d)))"
  using assms
  by (auto simp: RemoveMastodonListMember_def AddMastodonListMember_def DeleteMastodonList_def GetMastodonList_def
      eff_simps Let_def list_ex_iff count_where_pos own_list_def split: sum.splits dest!: select_one_ok)

section \<open>Authorization codes\<close>

lemma ConsumeAuthorizationCode_ok:
  assumes "ConsumeAuthorizationCode code u d = (Inr r, d')"
  shows "\<exists>c \<in> set (d_codes d). valid_code code u d c \<and> ApplicationID r = oc_app c \<and> ac_ActorID r = oc_actor c \<and>
      ac_Scopes r = oc_scopes c \<and> Challenge r = coalesce (oc_challenge c) \<and> ChallengeMeth r = coalesce (oc_method c) \<and>
      d' = d\<lparr>d_codes := delete_where (valid_code code u d) (d_codes d)\<rparr>"
  using assms by (auto simp: ConsumeAuthorizationCode_def statement_apply bind_res_ok split: sum.splits dest!: select_one_ok)

lemma ConsumeAuthorizationCode_once:
  assumes "distinct (map oc_code (d_codes d))" "ConsumeAuthorizationCode code u d = (Inr r, d')"
  shows "ConsumeAuthorizationCode code u' d' = (Inl NoRows, d')"
proof -
  obtain c where c: "c \<in> set (d_codes d)" "valid_code code u d c"
    and d': "d' = d\<lparr>d_codes := delete_where (valid_code code u d) (d_codes d)\<rparr>"
    using ConsumeAuthorizationCode_ok [OF assms(2)] by blast
  have "oc_code x \<noteq> code" if "x \<in> set (d_codes d')" for x
    using that distinct_map_inj [OF assms(1), of x c] c by (auto simp: d' valid_code_def)
  then have "find (valid_code code u' d') (d_codes d') = None"
    by (auto simp: find_None_iff valid_code_def)
  then show ?thesis by (simp add: ConsumeAuthorizationCode_def statement_apply select_one_def)
qed

section \<open>Tokens\<close>

lemma find_append: "find p (xs @ ys) = (case find p xs of None \<Rightarrow> find p ys | Some x \<Rightarrow> Some x)"
  by (induction xs) auto

lemma insert_token_ok:
  assumes "insert_token rnd app actor scopes d = (Inr tok, d')"
  shows "ActorIDForAccessToken tok d' = (Inr ((case actor of None \<Rightarrow> 0 | Some a \<Rightarrow> a), app, scopes), d')"
    and "tok = randomTokenURL rnd"
    and "\<And>tok' x. ActorIDForAccessToken tok' d = (Inr x, d) \<Longrightarrow> ActorIDForAccessToken tok' d' = (Inr x, d')"
proof -
  define new where "new = \<lparr>tk_id = d_seq d TTokens, tk_hash = hashSecret (randomTokenURL rnd), tk_app = app,
      tk_actor = actor, tk_scopes = scopes\<rparr>"
  have t: "tok = randomTokenURL rnd"
    and n: "\<forall>r \<in> set (d_tokens d). tk_hash r \<noteq> tk_hash new" "d_tokens d' = d_tokens d @ [new]"
    using assms by (auto simp: new_def insert_token_def Let_def statement_apply nextval_def bind_res_ok insert_on_def
        list_ex_iff split: sum.splits if_splits)
  then have h: "tk_hash new = hashSecret tok" "tk_actor new = actor" "tk_app new = app" "tk_scopes new = scopes"
    by (simp_all add: new_def)
  have "find (\<lambda>t. tk_hash t = hashSecret tok) (d_tokens d @ [new]) = Some new"
  proof -
    have "find (\<lambda>t. tk_hash t = hashSecret tok) (d_tokens d) = None"
      using n(1) h by (auto simp: find_None_iff)
    with h(1) show ?thesis by (simp add: find_append)
  qed
  with n h show "ActorIDForAccessToken tok d' = (Inr ((case actor of None \<Rightarrow> 0 | Some a \<Rightarrow> a), app, scopes), d')"
    by (simp add: ActorIDForAccessToken_def eff_apply select_one_def)
  show "tok = randomTokenURL rnd" by (rule t)
  show "\<And>tok' x. ActorIDForAccessToken tok' d = (Inr x, d) \<Longrightarrow> ActorIDForAccessToken tok' d' = (Inr x, d')"
    using n(2) by (auto simp: ActorIDForAccessToken_def eff_apply select_one_def find_append split: option.splits)
qed

section \<open>Redirect URIs\<close>

lemma fields_func_plain:
  "\<forall>c \<in> set s. \<not> p c \<Longrightarrow> fields_func p w s = (if w = [] \<and> s = [] then [] else [rev w @ s])"
  by (induction s arbitrary: w) auto

lemma fields_func_parts:
  "x \<in> set (fields_func p w s) \<Longrightarrow> \<forall>c \<in> set w. \<not> p c \<Longrightarrow> x \<noteq> [] \<and> (\<forall>c \<in> set x. \<not> p c)"
  by (induction p w s rule: fields_func.induct) (auto split: if_splits)

lemma fields_func_snoc:
  "\<forall>c \<in> set w. \<not> p c \<Longrightarrow> p c \<Longrightarrow>
   fields_func p w (s @ c # t) = fields_func p w s @ fields_func p [] t"
  by (induction p w s rule: fields_func.induct) auto

text \<open>An application that registered one URI can use that URI only.\<close>

lemma RedirectURIAllowed_single:
  assumes "uri \<noteq> []" "trim_space uri = uri" "\<forall>c \<in> set uri. \<not> uri_sep c"
  shows "RedirectURIAllowed uri candidate \<longleftrightarrow> trim_space candidate = uri"
  using assms by (auto simp: RedirectURIAllowed_def Let_def fields_func_plain)

text \<open>What is allowed is one of the registered parts, and never contains a separator.\<close>

lemma RedirectURIAllowed_part:
  assumes "RedirectURIAllowed registered candidate"
  shows "\<exists>part \<in> set (fields_func uri_sep [] (trim_space registered)). trim_space part = trim_space candidate \<and>
      (\<forall>c \<in> set part. \<not> uri_sep c)"
  using assms fields_func_parts [of _ uri_sep "[]" "trim_space registered"]
  by (auto simp: RedirectURIAllowed_def Let_def list_ex_iff split: if_splits)

end
