(* ===== verification/GoQuery.thy ===== *)
theory GoQuery
  imports GoUrl GoJson "HOL-Library.Char_ord" "HOL-Library.List_Lexorder"
begin

text \<open>
  \<^verbatim>\<open>url.Values\<close>, \<^verbatim>\<open>url.ParseQuery\<close> and \<^verbatim>\<open>Encode\<close>; \<^verbatim>\<open>json.Marshal\<close> of a map, which orders the keys;
  \<^verbatim>\<open>html.EscapeString\<close>.  Values are the list of their pairs: the order among the values of one key is
  the order of the list, and nothing the code does depends on the order of the keys.
\<close>

section \<open>Query strings\<close>

type_synonym qvalues = "(string \<times> string) list"

definition values_get :: "qvalues \<Rightarrow> string \<Rightarrow> string" where
  "values_get vs k = (case map_of vs k of None \<Rightarrow> [] | Some v \<Rightarrow> v)"

definition values_del :: "qvalues \<Rightarrow> string \<Rightarrow> qvalues" where
  "values_del vs k = filter (\<lambda>p. fst p \<noteq> k) vs"

definition values_set :: "qvalues \<Rightarrow> string \<Rightarrow> string \<Rightarrow> qvalues" where
  "values_set vs k v = values_del vs k @ [(k, v)]"

definition query_escape :: "string \<Rightarrow> string" where
  "query_escape s = url_escape EncQuery s"

definition query_unescape :: "string \<Rightarrow> string option" where
  "query_unescape s = url_unescape EncQuery s"

text \<open>A setting that does not decode is skipped and remembered as the error of the whole.\<close>

definition parse_setting :: "string \<Rightarrow> (string \<times> string) option" where
  "parse_setting s =
     (if CHR '';'' \<in> set s then None
      else case (query_unescape (cut_before (CHR ''='') s), query_unescape (cut_after (CHR ''='') s)) of
             (Some k, Some v) \<Rightarrow> Some (k, v) | _ \<Rightarrow> None)"

definition query_settings :: "string \<Rightarrow> string list" where
  "query_settings s = filter (\<lambda>w. w \<noteq> []) (split_on (CHR ''&'') s)"

definition query_values :: "string \<Rightarrow> qvalues" where
  "query_values s = List.map_filter parse_setting (query_settings s)"

definition parse_query :: "string \<Rightarrow> qvalues option" where
  "parse_query s = (if None \<in> set (map parse_setting (query_settings s)) then None else Some (query_values s))"

definition setting :: "string \<times> string \<Rightarrow> string" where
  "setting p = query_escape (fst p) @ ''='' @ query_escape (snd p)"

definition values_encode :: "qvalues \<Rightarrow> string" where
  "values_encode vs = join ''&'' (map setting (sort_key fst vs))"

lemma query_unescape_escape_append:
  "url_unescape EncQuery (url_escape EncQuery s @ t) = map_option (append s) (url_unescape EncQuery t)"
proof (induction s)
  case (Cons c s)
  have IH: "url_unescape EncQuery (concat (map (escape_char EncQuery) s) @ t) = map_option (append s) (url_unescape EncQuery t)"
    using Cons.IH by (simp add: url_escape_def)
  have "should_escape EncQuery (CHR ''+'')" by (simp add: should_escape_def is_alnum_def)
  then have plus: "\<not> should_escape EncQuery c \<Longrightarrow> c \<noteq> CHR ''+'' \<and> c \<noteq> CHR ''%''"
    using should_escape_percent by metis
  show ?case
  proof (cases "c = CHR '' ''")
    case True
    then show ?thesis using IH by (simp add: url_escape_def escape_char_def option.map_comp comp_def)
  next
    case False
    then show ?thesis using IH plus
      by (cases "should_escape EncQuery c") (simp_all add: url_escape_def escape_char_def option.map_comp comp_def)
  qed
qed (simp add: url_escape_def option.map_id0 option.map_ident)

lemma query_unescape_escape: "query_unescape (query_escape s) = Some s"
  using query_unescape_escape_append [of s "[]"] by (simp add: query_unescape_def query_escape_def)

lemma set_query_escape: "c \<in> set (query_escape s) \<Longrightarrow> is_alnum c \<or> c \<in> set ''-_.~+%''"
proof -
  assume "c \<in> set (query_escape s)"
  then obtain x where x: "x \<in> set s" "c \<in> set (escape_char EncQuery x)" by (auto simp: query_escape_def url_escape_def)
  have "is_alnum x \<or> x \<in> set ''-_.~''" if "\<not> should_escape EncQuery x"
    using that by (auto simp: should_escape_def split: if_splits)
  with x(2) show ?thesis
    by (auto simp: escape_char_def hex_digit_alnum less_mult_imp_div_less split: if_splits)
qed

lemma query_escape_no_sep: "CHR ''&'' \<notin> set (query_escape s)" "CHR ''='' \<notin> set (query_escape s)" "CHR '';'' \<notin> set (query_escape s)"
  using set_query_escape [of _ s] by (auto simp: is_alnum_def dest!: set_query_escape)

lemma cut_plain:
  "c \<notin> set x \<Longrightarrow> cut_before c (x @ c # y) = x" "c \<notin> set x \<Longrightarrow> cut_after c (x @ c # y) = y"
  by (induction x) (auto simp: cut_before_def cut_after_def)

lemma parse_setting_setting: "parse_setting (setting p) = Some p"
  using query_escape_no_sep by (simp add: parse_setting_def setting_def cut_plain query_unescape_escape)

text \<open>What is encoded is parsed back, ordered by key.\<close>

lemma query_values_encode: "query_values (values_encode vs) = sort_key fst vs"
proof (cases "vs = []")
  case True
  then show ?thesis by (simp add: values_encode_def query_values_def query_settings_def map_filter_simps)
next
  case False
  let ?ws = "map setting (sort_key fst vs)"
  have "CHR ''&'' \<notin> set w" if "w \<in> set ?ws" for w
    using that query_escape_no_sep(1) by (auto simp: setting_def)
  moreover have "?ws \<noteq> []" using False by (metis length_0_conv length_map length_sort)
  ultimately have "split_on (CHR ''&'') (values_encode vs) = ?ws"
    unfolding values_encode_def by (intro split_on_join ballI)
  moreover have "filter (\<lambda>w. w \<noteq> []) ?ws = ?ws" by (auto simp: filter_id_conv setting_def)
  ultimately have "query_values (values_encode vs) = List.map_filter parse_setting ?ws"
    by (simp add: query_values_def query_settings_def)
  then show ?thesis by (simp add: map_filter_def parse_setting_setting comp_def)
qed

lemma map_of_sort_key: "map_of (sort_key fst vs) = map_of (vs :: qvalues)"
proof
  fix k
  have "map_of xs k = (case filter (\<lambda>p. fst p = k) xs of [] \<Rightarrow> None | p # _ \<Rightarrow> Some (snd p))" for xs :: qvalues
    by (induction xs) auto
  moreover have "filter (\<lambda>p. fst p = k) (sort_key fst vs) = filter (\<lambda>p. fst p = k) vs"
    using sort_key_stable [of fst k vs] by (simp add: eq_commute)
  ultimately show "map_of (sort_key fst vs) k = map_of vs k" by simp
qed

lemma values_get_encode [simp]: "values_get (query_values (values_encode vs)) k = values_get vs k"
  by (simp add: query_values_encode values_get_def map_of_sort_key)

lemma values_get_set [simp]: "values_get (values_set vs k v) k' = (if k' = k then v else values_get vs k')"
proof -
  have "map_of (filter (\<lambda>p. fst p \<noteq> k) vs) k' = (if k' = k then None else map_of vs k')" by (induction vs) auto
  then show ?thesis by (auto simp: values_get_def values_set_def values_del_def map_add_def split: option.splits)
qed

lemma values_get_del [simp]: "values_get (values_del vs k) k' = (if k' = k then [] else values_get vs k')"
proof -
  have "map_of (filter (\<lambda>p. fst p \<noteq> k) vs) k' = (if k' = k then None else map_of vs k')" by (induction vs) auto
  then show ?thesis by (simp add: values_get_def values_del_def)
qed

section \<open>Maps as JSON\<close>

text \<open>\<^verbatim>\<open>json.Marshal\<close> of a \<^verbatim>\<open>map[string]json.RawMessage\<close>: each key once, in order.\<close>

definition marshal_map :: "obj \<Rightarrow> json" where
  "marshal_map fs = JObj (map (\<lambda>k. (k, case obj_get fs k of None \<Rightarrow> JNull | Some v \<Rightarrow> v)) (sort (remdups (map fst fs))))"

lemma obj_get_none_iff: "obj_get fs k = None \<longleftrightarrow> k \<notin> fst ` set fs"
  by (simp add: obj_get_def map_of_eq_None_iff)

lemma map_of_map_keys: "map_of (map (\<lambda>k. (k, f k)) ks) k = (if k \<in> set ks then Some (f k) else None)"
  by (induction ks) auto

lemma obj_get_marshal_map: "um_object (marshal_map fs) = Some gs \<Longrightarrow> obj_get gs k = obj_get fs k"
proof -
  assume "um_object (marshal_map fs) = Some gs"
  then have "gs = map (\<lambda>k. (k, case obj_get fs k of None \<Rightarrow> JNull | Some v \<Rightarrow> v)) (sort (remdups (map fst fs)))"
    by (simp add: marshal_map_def)
  then have "obj_get gs k = (if k \<in> fst ` set fs then Some (case obj_get fs k of None \<Rightarrow> JNull | Some v \<Rightarrow> v) else None)"
    by (simp add: obj_get_def rev_map map_of_map_keys)
  then show ?thesis using obj_get_none_iff [of fs k] by (auto split: option.splits)
qed

section \<open>HTML\<close>

definition html_escape :: "string \<Rightarrow> string" where
  "html_escape s = concat (map (\<lambda>c. if c = CHR ''&'' then ''&amp;'' else if c = CHR 0x27 then ''&#39;''
     else if c = CHR ''<'' then ''&lt;'' else if c = CHR ''>'' then ''&gt;'' else if c = CHR 0x22 then ''&#34;'' else [c]) s)"

lemma html_escape_safe: "c \<in> set (html_escape s) \<Longrightarrow> c \<noteq> CHR ''<'' \<and> c \<noteq> CHR ''>'' \<and> c \<noteq> CHR 0x22 \<and> c \<noteq> CHR 0x27"
  by (auto simp: html_escape_def split: if_splits)

end
