(* ===== verification/Http.thy ===== *)
theory Http
  imports Worker StoreClient GoQuery Paging
begin

text \<open>
  What the HTTP handlers of \<^verbatim>\<open>aphttp\<close> share (\<^verbatim>\<open>handlers.go\<close>, \<^verbatim>\<open>handle.go\<close>, \<^verbatim>\<open>authorized_fetch.go\<close>,
  \<^verbatim>\<open>actor_json.go\<close>): the request as it arrives, the reply, the handler with what it was built from,
  the fields of an activity, and the check of a signed request.  A handler is an effect over the
  process whose value is the reply: the status, the content type, the location of a redirect and
  the body.  The path value of a route is an argument.
\<close>

section \<open>Requests and replies\<close>

record incoming = request +
  in_body :: string
  in_read_err :: "err option"

datatype body = NoBody | Text string | Html string | Doc json | Bytes string

record reply =
  rp_status :: int
  rp_type :: string
  rp_location :: string
  rp_body :: body

definition http_error :: "int \<Rightarrow> string \<Rightarrow> reply" where
  "http_error code msg = \<lparr>rp_status = code, rp_type = ''text/plain; charset=utf-8'', rp_location = [], rp_body = Text msg\<rparr>"

definition not_found :: reply where
  "not_found = http_error 404 ''404 page not found''"

definition status_only :: "int \<Rightarrow> reply" where
  "status_only code = \<lparr>rp_status = code, rp_type = [], rp_location = [], rp_body = NoBody\<rparr>"

definition redirect_to :: "int \<Rightarrow> string \<Rightarrow> reply" where
  "redirect_to code loc = \<lparr>rp_status = code, rp_type = ''text/html; charset=utf-8'', rp_location = loc, rp_body = NoBody\<rparr>"

definition in_header :: "('a) request_scheme \<Rightarrow> string \<Rightarrow> string" where
  "in_header r k = header_get (r_header r) k"

definition query_of :: "('a) request_scheme \<Rightarrow> qvalues" where
  "query_of r = query_values (u_rawquery (r_url r))"

text \<open>\<^verbatim>\<open>io.ReadAll(io.LimitReader(r.Body, n))\<close>.\<close>

definition read_body :: "'a incoming_scheme \<Rightarrow> int \<Rightarrow> err + string" where
  "read_body r n = read_limited \<lparr>rs_status = 200, rs_body = in_body r, rs_read_err = in_read_err r\<rparr> n"

section \<open>The handler\<close>

datatype 'w queue_impl = SqlQueue | OtherQueue "'w sys backend"

record ('pub, 'priv, 'w) handler =
  hd_env :: "('pub, 'priv) fetchenv"
  hd_client :: "'w client"
  hd_policy :: policy
  hd_inboxMaxBody :: int
  hd_store :: bool
  hd_queue :: "'w queue_impl option"
  hd_ids :: "(string \<times> int) list option"
  hd_actorPEM :: string
  hd_instancePEM :: string
  hd_encode_pub :: "'pub \<Rightarrow> err + string"

text \<open>An assignment to a Go map.\<close>

definition ids_set :: "(string \<times> int) list \<Rightarrow> string \<Rightarrow> int \<Rightarrow> (string \<times> int) list" where
  "ids_set ids k v = (k, v) # filter (\<lambda>p. fst p \<noteq> k) ids"

text \<open>
  \<^verbatim>\<open>New\<close> with a store: the configured accounts are upserted, then the accounts of the database are
  added, and those the configuration lacked are appended to its list of names.
\<close>

fun ensure_locals :: "config \<Rightarrow> string \<Rightarrow> string list \<Rightarrow> (string \<times> int) list \<Rightarrow> (db, (string \<times> int) list) eff" where
  "ensure_locals cfg pem [] ids = ret ids"
| "ensure_locals cfg pem (u # us) ids =
     bind_eff (EnsureLocalActor cfg u pem) (\<lambda>i. ensure_locals cfg pem us (ids_set ids u i))"

fun merge_locals :: "(string \<times> int) list \<Rightarrow> (string \<times> int) list \<Rightarrow> string list \<Rightarrow> err + ((string \<times> int) list \<times> string list)" where
  "merge_locals [] ids names = Inr (ids, names)"
| "merge_locals ((u, i) # ps) ids names =
     (if map_of ids u \<notin> {None, Some i}
      then Inl (Msg ''local actor: config id differs from database id'')
      else merge_locals ps (ids_set ids u i) (if u \<in> set names then names else names @ [u]))"

definition local_names :: "config \<Rightarrow> string list" where
  "local_names cfg =
     (if LocalUsernames cfg = [] \<and> trim_space (LocalUsername cfg) \<noteq> [] then [LocalUsername cfg] else LocalUsernames cfg)"

definition New_local_actors :: "config \<Rightarrow> string \<Rightarrow> (db, (string \<times> int) list \<times> config) eff" where
  "New_local_actors cfg pem =
     bind_eff (ensure_locals cfg pem (local_names cfg) []) (\<lambda>ids.
       case url_parse (PublicBaseURL cfg) of
         None \<Rightarrow> ret (ids, cfg)
       | Some base \<Rightarrow>
           (if url_hostname base = [] then ret (ids, cfg)
            else bind_eff (wrap_eff ''list local actors'' (ListLocalActorsOnDomain (url_hostname base))) (\<lambda>fromDB.
                 bind_eff (of_res (merge_locals fromDB ids (LocalUsernames cfg))) (\<lambda>(ids', names).
                   ret (ids', cfg\<lparr>LocalUsernames := names\<rparr>)))))"

definition IsLocalActor :: "('pub, 'priv, 'w) handler \<Rightarrow> config \<Rightarrow> string \<Rightarrow> bool" where
  "IsLocalActor h cfg username =
     (case hd_ids h of
        Some ids \<Rightarrow> (case map_of ids username of None \<Rightarrow> False | Some i \<Rightarrow> i \<noteq> 0)
      | None \<Rightarrow> IsLocalUsername cfg username)"

definition LocalActorID :: "('pub, 'priv, 'w) handler \<Rightarrow> string \<Rightarrow> int option" where
  "LocalActorID h username =
     (case hd_ids h of
        None \<Rightarrow> None
      | Some ids \<Rightarrow> (case map_of ids username of None \<Rightarrow> None | Some i \<Rightarrow> if i = 0 then None else Some i))"

definition ids_nonempty :: "('pub, 'priv, 'w) handler \<Rightarrow> bool" where
  "ids_nonempty h \<longleftrightarrow> hd_ids h \<noteq> None \<and> hd_ids h \<noteq> Some []"

section \<open>Fields of an activity\<close>

definition isActivityJSONContentType :: "string \<Rightarrow> bool" where
  "isActivityJSONContentType ct0 =
     (let ct = trim_space ct0
      in if ct = [] then False
         else let base = go_lower (trim_space (cut_before (CHR '';'') ct))
              in base = ''application/activity+json'' \<or> base = ''application/ld+json'')"

definition jsonStringField :: "obj \<Rightarrow> string \<Rightarrow> err + string" where
  "jsonStringField m key =
     (case obj_get m key of
        None \<Rightarrow> Inl (Msg (''missing '' @ key))
      | Some raw \<Rightarrow>
          (case um_string raw of
             None \<Rightarrow> Inl (Msg (''invalid or empty '' @ key))
           | Some s \<Rightarrow> if trim_space s = [] then Inl (Msg (''invalid or empty '' @ key)) else Inr s))"

definition activityTypeString :: "obj \<Rightarrow> err + string" where
  "activityTypeString m =
     (case obj_get m ''type'' of
        None \<Rightarrow> Inl (Msg ''missing type'')
      | Some (JStr s) \<Rightarrow> if s \<noteq> [] then Inr s else Inl (Msg ''invalid type field'')
      | Some (JArr (JStr s # _)) \<Rightarrow> if s \<noteq> [] then Inr s else Inl (Msg ''invalid type field'')
      | Some _ \<Rightarrow> Inl (Msg ''invalid type field''))"

definition actorIRIFromActivity :: "obj \<Rightarrow> err + string" where
  "actorIRIFromActivity m =
     (case obj_get m ''actor'' of
        None \<Rightarrow> Inl (Msg ''missing actor'')
      | Some raw \<Rightarrow>
          (case string_or_id raw of
             Some s \<Rightarrow> Inr s
           | None \<Rightarrow> Inl (Msg ''actor must be an id string or an object with id'')))"

definition signingActorMatchesKeyID :: "string \<Rightarrow> string \<Rightarrow> bool" where
  "signingActorMatchesKeyID keyID actorIRI =
     (case (url_parse keyID, url_parse actorIRI) of
        (Some k, Some a) \<Rightarrow>
          trim_right_slash (url_string (k\<lparr>u_fragment := []\<rparr>)) = trim_right_slash (url_string (a\<lparr>u_fragment := []\<rparr>))
      | _ \<Rightarrow> False)"

definition parseAtHandle :: "string \<Rightarrow> string option" where
  "parseAtHandle handle0 =
     (let hdl = trim_space handle0
      in if \<not> has_prefix hdl ''@'' \<or> length hdl < 2 then None
         else case path_unescape (tl hdl) of
           None \<Rightarrow> None
         | Some u0 \<Rightarrow> (let u = trim_char (CHR ''/'') u0 in if u = [] then None else Some u))"

section \<open>Signed requests\<close>

definition to_request :: "'a request_scheme \<Rightarrow> request" where
  "to_request r = request.truncate r"

definition verifyAuthorizedFetch :: "('pub, 'priv, 'w) handler \<Rightarrow> config \<Rightarrow> 'a request_scheme \<Rightarrow> ('w sys, unit) eff" where
  "verifyAuthorizedFetch h cfg r =
     (if in_header r ''Signature'' = [] then fail (Msg ''missing signature'')
      else bind_eff (of_res (ParseSignatureHeader (in_header r ''Signature''))) (\<lambda>params.
           if param params ''keyid'' = [] then fail (Msg ''missing keyId'')
           else bind_eff (on_net (PublicKeyForKeyID (hd_env h) (hd_client h) (Some (hd_policy h)) (param params ''keyid'') (Some cfg))) (\<lambda>pub.
                of_res (VerifyGet (sigenv_of (hd_env h)) (to_request r) pub))))"

text \<open>\<^verbatim>\<open>requireAuthorizedFetch\<close>: \<open>k\<close> runs if the request may be answered.\<close>

definition requireAuthorizedFetch ::
  "('pub, 'priv, 'w) handler \<Rightarrow> config \<Rightarrow> 'a request_scheme \<Rightarrow> ('w sys, reply) eff \<Rightarrow> ('w sys, reply) eff" where
  "requireAuthorizedFetch h cfg r k =
     (if \<not> RequireAuthorizedFetch cfg then k
      else handle (verifyAuthorizedFetch h cfg r) (\<lambda>_. ret (http_error 401 ''unauthorized'')) (\<lambda>_. k))"

section \<open>Documents\<close>

definition as2_type :: "'a request_scheme \<Rightarrow> string" where
  "as2_type r =
     (let accept = in_header r ''Accept''
      in if contains accept ''application/ld+json'' \<or> contains accept ''application/activity+json''
         then ''application/activity+json; charset=utf-8''
         else ''application/ld+json; profile='' @ [CHR 0x22] @ ''https://www.w3.org/ns/activitystreams'' @ [CHR 0x22] @
              ''; charset=utf-8'')"

definition writeAS2JSON :: "'a request_scheme \<Rightarrow> json \<Rightarrow> reply" where
  "writeAS2JSON r doc = \<lparr>rp_status = 200, rp_type = as2_type r, rp_location = [], rp_body = Doc doc\<rparr>"

definition as2_context :: json where
  "as2_context = JArr [JStr ''https://www.w3.org/ns/activitystreams'', JStr ''https://w3id.org/security/v1'']"

definition public_key_doc :: "string \<Rightarrow> string \<Rightarrow> string \<Rightarrow> json" where
  "public_key_doc keyID owner pem =
     JObj [(''id'', JStr keyID), (''owner'', JStr owner), (''publicKeyPem'', JStr pem), (''type'', JStr ''Key'')]"

definition em_dash :: string where
  "em_dash = [CHR 0xE2, CHR 0x80, CHR 0x94]"

definition stub_pem :: "string \<Rightarrow> string" where
  "stub_pem hint = ''-----BEGIN PUBLIC KEY-----'' @ [CHR 0x0A] @ ''(stub '' @ em_dash @ hint @ '')'' @ [CHR 0x0A] @
     ''-----END PUBLIC KEY-----'' @ [CHR 0x0A]"

definition localActorJSON :: "config \<Rightarrow> string \<Rightarrow> string \<Rightarrow> json" where
  "localActorJSON cfg username pem =
     (let profile = LocalActorProfileURL cfg username;
          publicPEM = (if pem = [] then stub_pem '' set AP_ACTOR_PRIVATE_KEY_PATH'' else pem)
      in JObj [(''@context'', as2_context),
               (''endpoints'', JObj [(''sharedInbox'', JStr (LocalSharedInboxURL cfg))]),
               (''followers'', JStr (LocalActorFollowersURL cfg username)),
               (''following'', JStr (LocalActorFollowingURL cfg username)),
               (''id'', JStr profile),
               (''inbox'', JStr (LocalActorInboxURL cfg username)),
               (''outbox'', JStr (LocalActorOutboxURL cfg username)),
               (''preferredUsername'', JStr username),
               (''publicKey'', public_key_doc (profile @ ''#main-key'') profile publicPEM),
               (''type'', JStr ''Person'')])"

definition instancePreferredUsername :: "config \<Rightarrow> string" where
  "instancePreferredUsername cfg =
     (case url_parse (PublicBaseURL cfg) of
        None \<Rightarrow> ''instance''
      | Some u \<Rightarrow> if url_hostname u = [] then ''instance'' else replace_char (CHR ''.'') [] (url_hostname u))"

definition instanceActorJSON :: "config \<Rightarrow> string \<Rightarrow> json" where
  "instanceActorJSON cfg pem =
     (let i = InstanceActorIRI cfg; 
          publicPEM = (if pem = [] then stub_pem '' configure instance or actor private key'' else pem)
      in JObj [(''@context'', as2_context), (''id'', JStr i), (''inbox'', JStr (LocalSharedInboxURL cfg)),
               (''preferredUsername'', JStr (instancePreferredUsername cfg)),
               (''publicKey'', public_key_doc (InstanceActorKeyID cfg) i publicPEM), (''type'', JStr ''Application'')])"

definition localActorPublicKeyPEM :: "('pub, 'priv, 'w) handler \<Rightarrow> config \<Rightarrow> string \<Rightarrow> ('w sys, string) eff" where
  "localActorPublicKeyPEM h cfg username =
     (if \<not> hd_store h then ret (hd_actorPEM h)
      else case url_parse (trim_space (PublicBaseURL cfg)) of
        None \<Rightarrow> ret (hd_actorPEM h)
      | Some u \<Rightarrow>
          (if url_hostname u = [] then ret (hd_actorPEM h)
           else handle (on_db (ActorPublicKeyPEMForLocalUser (url_hostname u) username))
                  (\<lambda>_. ret (hd_actorPEM h))
                  (\<lambda>pem. if trim_space pem = [] \<or> pem = LocalActorPublicKeyPlaceholder then ret (hd_actorPEM h) else ret pem)))"

section \<open>The handlers that only read\<close>

definition GetLocalActor :: "('pub, 'priv, 'w) handler \<Rightarrow> string \<Rightarrow> incoming \<Rightarrow> ('w sys, reply) eff" where
  "GetLocalActor h hdl r = with_cfg (\<lambda>cfg.
     if r_method r \<noteq> ''GET'' then ret (http_error 405 ''method not allowed'')
     else if PublicBaseURL cfg = [] then ret (http_error 500 ''server not configured'')
     else case parseAtHandle hdl of
       None \<Rightarrow> ret not_found
     | Some username \<Rightarrow>
         (if \<not> IsLocalActor h cfg username then ret not_found
          else bind_eff (localActorPublicKeyPEM h cfg username) (\<lambda>pem.
                 ret (writeAS2JSON r (localActorJSON cfg username pem)))))"

definition GetInstanceActor :: "('pub, 'priv, 'w) handler \<Rightarrow> incoming \<Rightarrow> ('w sys, reply) eff" where
  "GetInstanceActor h r = with_cfg (\<lambda>cfg.
     if r_method r \<noteq> ''GET'' then ret (http_error 405 ''method not allowed'')
     else if PublicBaseURL cfg = [] then ret (http_error 500 ''server not configured'')
     else ret (writeAS2JSON r (instanceActorJSON cfg (hd_instancePEM h))))"

definition webfinger_doc :: "config \<Rightarrow> string \<Rightarrow> string \<Rightarrow> json" where
  "webfinger_doc cfg user host =
     (let profile = LocalActorProfileURL cfg user
      in JObj [(''aliases'', JArr [JStr profile]),
               (''links'', JArr
                  [JObj [(''href'', JStr profile), (''rel'', JStr ''self''), (''type'', JStr ''application/activity+json'')],
                   JObj [(''href'', JStr profile), (''rel'', JStr ''http://webfinger.net/rel/profile-page''), (''type'', JStr ''text/html'')]]),
               (''subject'', JStr (''acct:'' @ user @ ''@'' @ host))])"

definition WebFinger :: "('pub, 'priv, 'w) handler \<Rightarrow> incoming \<Rightarrow> ('w sys, reply) eff" where
  "WebFinger h r = with_cfg (\<lambda>cfg.
     if r_method r \<noteq> ''GET'' then ret (http_error 405 ''method not allowed'')
     else let q = values_get (query_of r) ''resource''
          in if q = [] \<or> \<not> has_prefix q ''acct:'' then ret (http_error 400 ''resource parameter required (acct:...)'')
             else let acct = trim_prefix q ''acct:''
                  in if PublicBaseURL cfg = [] then ret (http_error 500 ''server not configured (AP_PUBLIC_BASE_URL)'')
                     else case url_parse (PublicBaseURL cfg) of
                       None \<Rightarrow> ret (http_error 500 ''invalid AP_PUBLIC_BASE_URL'')
                     | Some base \<Rightarrow>
                         (let host = url_hostname base; user = cut_before (CHR ''@'') acct; domain = cut_after (CHR ''@'') acct
                          in if \<not> cut_found (CHR ''@'') acct \<or> user = [] \<or> domain = [] then ret (http_error 400 ''invalid acct'')
                             else if domain \<noteq> host then ret (http_error 404 ''user not found'')
                             else if \<not> IsLocalActor h cfg user then ret (http_error 404 ''user not found'')
                             else ret \<lparr>rp_status = 200, rp_type = ''application/jrd+json; charset=utf-8'', rp_location = [],
                                       rp_body = Doc (webfinger_doc cfg user host)\<rparr>))"

definition primaryLocalUsername :: "config \<Rightarrow> string" where
  "primaryLocalUsername cfg = (case LocalUsernames cfg of u # _ \<Rightarrow> u | [] \<Rightarrow> LocalUsername cfg)"

definition prefersHTMLCatchall :: "'a request_scheme \<Rightarrow> bool" where
  "prefersHTMLCatchall r =
     (let acc = go_lower (in_header r ''Accept'')
      in acc = [] \<or> (contains acc ''text/html'' \<and> \<not> contains acc ''application/json'' \<and>
           \<not> contains acc ''application/activity+json'' \<and> \<not> contains acc ''application/ld+json''))"

definition quoted :: "string \<Rightarrow> string" where
  "quoted s = [CHR 0x22] @ s @ [CHR 0x22]"

definition html_head :: "string \<Rightarrow> string" where
  "html_head title = ''<!DOCTYPE html><meta charset='' @ quoted ''utf-8'' @ ''><meta name='' @ quoted ''viewport'' @
     '' content='' @ quoted ''width=device-width, initial-scale=1'' @ ''><title>'' @ title @ ''</title>''"

definition html_reply :: "string \<Rightarrow> reply" where
  "html_reply page = \<lparr>rp_status = 200, rp_type = ''text/html; charset=utf-8'', rp_location = [], rp_body = Html page\<rparr>"

definition root_page :: "string \<Rightarrow> string \<Rightarrow> string \<Rightarrow> string" where
  "root_page host prof user =
     html_head host @ ''<p><strong>'' @ host @ ''</strong> '' @ em_dash @
     '' ActivityPub (activitypub-core)</p><ul><li><a href='' @ quoted prof @
     ''>Local profile (@'' @ html_escape user @ '')</a></li><li><a href='' @ quoted ''/.well-known/actor'' @
     ''>Instance actor</a></li></ul>''"

definition GetRoot :: "incoming \<Rightarrow> ('w sys, reply) eff" where
  "GetRoot r = with_cfg (\<lambda>cfg.
     if r_method r \<noteq> ''GET'' then ret (http_error 405 ''method not allowed'')
     else if u_path (r_url r) \<noteq> ''/'' then ret not_found
     else if trim_space (PublicBaseURL cfg) = [] then ret (http_error 503 ''not configured'')
     else let user = primaryLocalUsername cfg
          in if trim_space user = [] then ret not_found
             else let prof = LocalActorProfileURL cfg user
                  in if prefersHTMLCatchall r
                     then let host = trim_suffix (trim_prefix (trim_prefix (trim_space (PublicBaseURL cfg)) ''https://'') ''http://'') ''/''
                          in ret (html_reply (root_page host prof user))
                     else ret (redirect_to 302 prof))"

end
