(* ===== verification/Inbox.thy ===== *)
theory Inbox
  imports Http
begin

text \<open>
  \<^verbatim>\<open>SharedInbox\<close> and \<^verbatim>\<open>LegacyUsersPathInbox\<close> (\<^verbatim>\<open>aphttp/handlers.go\<close>): a signed activity is checked,
  stored and queued for processing.

  The lemmas: what is stored was signed with a key that its actor's document publishes; with the SQL
  queue an activity is stored exactly when its job is; an activity that is known is accepted and
  changes nothing; with another queue an activity can be stored and its job lost.
\<close>

section \<open>Checking\<close>

record 'pub signed_activity =
  sa_pub :: 'pub
  sa_fields :: obj
  sa_raw :: json
  sa_id :: string
  sa_type :: string
  sa_actor :: string

definition reject :: "int \<Rightarrow> string \<Rightarrow> ('s, reply + 'a) eff" where
  "reject code msg = ret (Inl (http_error code msg))"

definition reply_text :: "err \<Rightarrow> string" where
  "reply_text e = (case e of Msg m \<Rightarrow> m | _ \<Rightarrow> error_text e)"

definition parse_activity :: "json option \<Rightarrow> err + (obj \<times> json \<times> string \<times> string \<times> string)" where
  "parse_activity jo =
     (case jo of
        None \<Rightarrow> Inl (Msg ''invalid activity json'')
      | Some j \<Rightarrow>
          (case um_object j of
             None \<Rightarrow> Inl (Msg ''invalid activity json'')
           | Some fs \<Rightarrow>
               bind_res (jsonStringField fs ''id'') (\<lambda>i.
               bind_res (activityTypeString fs) (\<lambda>t.
               bind_res (actorIRIFromActivity fs) (\<lambda>a. Inr (fs, j, i, t, a))))))"

text \<open>Either the reply that ends the request or the activity with the key that signed it.\<close>

definition check_signed ::
  "('pub, 'priv, 'w) handler \<Rightarrow> config \<Rightarrow> incoming \<Rightarrow> ('w sys, reply + 'pub signed_activity) eff" where
  "check_signed h cfg r =
     (if r_method r \<noteq> ''POST'' then reject 405 ''method not allowed''
      else if \<not> isActivityJSONContentType (in_header r ''Content-Type'') then reject 415 ''unsupported content type''
      else let mx = (if hd_inboxMaxBody h \<le> 0 then 1048576 else hd_inboxMaxBody h)
           in case read_body r (mx + 1) of
             Inl _ \<Rightarrow> reject 400 ''read body''
           | Inr bytes \<Rightarrow>
               (if int (length bytes) > mx then reject 413 ''payload too large''
                else if in_header r ''Signature'' = [] then reject 401 ''missing Signature header''
                else case ParseSignatureHeader (in_header r ''Signature'') of
                  Inl _ \<Rightarrow> reject 401 ''invalid Signature header''
                | Inr params \<Rightarrow>
                    (let keyID = param params ''keyid''
                     in if keyID = [] then reject 401 ''missing keyId in signature''
                        else handle (on_net (PublicKeyForKeyID (hd_env h) (hd_client h) (Some (hd_policy h)) keyID (Some cfg)))
                          (\<lambda>_. reject 401 ''could not resolve actor signing key'')
                          (\<lambda>pub.
                             case VerifyRequest (sigenv_of (hd_env h)) (to_request r) bytes pub of
                               Inl _ \<Rightarrow> reject 401 ''invalid digest or HTTP signature''
                             | Inr _ \<Rightarrow>
                                 (case parse_activity (json_decode (hd_env h) bytes) of
                                    Inl e \<Rightarrow> reject 400 (reply_text e)
                                  | Inr (fs, j, i, t, a) \<Rightarrow>
                                      (if \<not> signingActorMatchesKeyID keyID a
                                       then reject 401 ''signature actor does not match activity actor''
                                       else ret (Inr \<lparr>sa_pub = pub, sa_fields = fs, sa_raw = j, sa_id = i, sa_type = t, sa_actor = a\<rparr>)))))))"

section \<open>Storing\<close>

definition process_job :: "int \<Rightarrow> string \<Rightarrow> job" where
  "process_job actDBID activityID =
     \<lparr>jb_type = TypeProcessInboxActivity, jb_payload = JObj [(''activityDbId'', JNum (itoa actDBID))],
      jb_key = activityID, jb_run_after = None\<rparr>"

text \<open>The transaction of the SQL queue; the label of an error is the text of the reply.\<close>

definition store_and_enqueue :: "int \<Rightarrow> string \<Rightarrow> string \<Rightarrow> json \<Rightarrow> (db, unit) eff" where
  "store_and_enqueue remoteID activityID activityType raw =
     transaction
       (bind_eff (wrap_eff ''persist activity'' (InsertInboundActivity remoteID activityID activityType raw)) (\<lambda>(inserted, actDBID).
        if \<not> inserted then ret ()
        else wrap_eff ''enqueue job'' (EnqueueTx (process_job actDBID activityID))))"

definition store_then_enqueue :: "'w sys backend \<Rightarrow> int \<Rightarrow> string \<Rightarrow> string \<Rightarrow> json \<Rightarrow> ('w sys, unit) eff" where
  "store_then_enqueue q remoteID activityID activityType raw =
     bind_eff (wrap_eff ''persist activity'' (on_db (InsertInboundActivity remoteID activityID activityType raw))) (\<lambda>(inserted, actDBID).
       if \<not> inserted then ret ()
       else wrap_eff ''enqueue job'' (q_enqueue q (process_job actDBID activityID)))"

definition error_label :: "err \<Rightarrow> string" where
  "error_label e = (case e of Wrapped m _ \<Rightarrow> m | _ \<Rightarrow> ''internal'')"

definition accept_signed :: "('pub, 'priv, 'w) handler \<Rightarrow> 'pub signed_activity \<Rightarrow> ('w sys, reply) eff" where
  "accept_signed h a =
     (case (hd_store h, hd_queue h) of
        (True, Some impl) \<Rightarrow>
          (case hd_encode_pub h (sa_pub a) of
             Inl _ \<Rightarrow> ret (http_error 500 ''internal key encoding'')
           | Inr signerPEM \<Rightarrow>
               handle (on_db (EnsureRemoteActor (sa_actor a) signerPEM)) (\<lambda>_. ret (http_error 500 ''persist actor'')) (\<lambda>remoteID.
               handle (case impl of
                         SqlQueue \<Rightarrow> on_db (store_and_enqueue remoteID (sa_id a) (sa_type a) (sa_raw a))
                       | OtherQueue q \<Rightarrow> store_then_enqueue q remoteID (sa_id a) (sa_type a) (sa_raw a))
                 (\<lambda>e. ret (http_error 500 (error_label e)))
                 (\<lambda>_. ret (status_only 202))))
      | _ \<Rightarrow> ret (status_only 202))"

definition SharedInbox :: "('pub, 'priv, 'w) handler \<Rightarrow> incoming \<Rightarrow> ('w sys, reply) eff" where
  "SharedInbox h r = with_cfg (\<lambda>cfg.
     bind_eff (check_signed h cfg r) (\<lambda>x. case x of Inl rp \<Rightarrow> ret rp | Inr a \<Rightarrow> accept_signed h a))"

definition LegacyUsersPathInbox :: "('pub, 'priv, 'w) handler \<Rightarrow> string \<Rightarrow> incoming \<Rightarrow> ('w sys, reply) eff" where
  "LegacyUsersPathInbox h raw r = with_cfg (\<lambda>cfg.
     if r_method r \<noteq> ''POST'' then ret (http_error 405 ''method not allowed'')
     else case path_unescape raw of
       None \<Rightarrow> ret not_found
     | Some uname \<Rightarrow>
         (if trim_space uname = [] \<or> \<not> IsLocalActor h cfg uname then ret not_found else SharedInbox h r))"

section \<open>The constraints of the database\<close>

lemma reject_keeps [preserved]: "preserves P (reject code msg)"
  by (simp add: reject_def)

lemma check_signed_keeps [preserved]: "preserves (db_inv P) (check_signed h cfg r)"
  unfolding check_signed_def Let_def by (intro preserved)

lemma store_and_enqueue_wf [preserved]: "preserves db_wf (store_and_enqueue a i t raw)"
  unfolding store_and_enqueue_def by (intro preserved)

lemma store_then_enqueue_wf [preserved]:
  "keeps_on_enqueue db_wf q \<Longrightarrow> preserves (db_inv db_wf) (store_then_enqueue q a i t raw)"
  unfolding store_then_enqueue_def by (intro preserved)

definition queue_keeps :: "(db \<Rightarrow> bool) \<Rightarrow> ('pub, 'priv, 'w) handler \<Rightarrow> bool" where
  "queue_keeps P h \<longleftrightarrow> (\<forall>q. hd_queue h = Some (OtherQueue q) \<longrightarrow> keeps_on_enqueue P q)"

lemma accept_signed_wf [preserved]: "queue_keeps db_wf h \<Longrightarrow> preserves (db_inv db_wf) (accept_signed h a)"
  unfolding accept_signed_def
  by (auto simp: queue_keeps_def split: option.split bool.split sum.split queue_impl.split intro!: preserved)

lemma SharedInbox_wf: "queue_keeps db_wf h \<Longrightarrow> preserves (db_inv db_wf) (SharedInbox h r)"
  unfolding SharedInbox_def by (intro preserved)

section \<open>What is stored was signed\<close>

text \<open>What \<open>check_signed\<close> has established of the activity it lets through.\<close>

definition properly_signed ::
  "('pub, 'priv, 'w) handler \<Rightarrow> config \<Rightarrow> incoming \<Rightarrow> 'w \<Rightarrow> 'pub signed_activity \<Rightarrow> bool" where
  "properly_signed h cfg r net a \<longleftrightarrow>
     (\<exists>params bytes. ParseSignatureHeader (in_header r ''Signature'') = Inr params \<and>
        fst (PublicKeyForKeyID (hd_env h) (hd_client h) (Some (hd_policy h)) (param params ''keyid'') (Some cfg) net) = Inr (sa_pub a) \<and>
        VerifyRequest (sigenv_of (hd_env h)) (to_request r) bytes (sa_pub a) = Inr () \<and>
        parse_activity (json_decode (hd_env h) bytes) = Inr (sa_fields a, sa_raw a, sa_id a, sa_type a, sa_actor a) \<and>
        signingActorMatchesKeyID (param params ''keyid'') (sa_actor a))"

lemma check_signed_ok:
  assumes "check_signed h cfg r s = (Inr (Inr a), s')"
  shows "properly_signed h cfg r (s_net s) a \<and> s_db s' = s_db s \<and> s_cfg s' = s_cfg s"
proof -
  have db: "s_db s' = s_db s"
    using preservesD [OF check_signed_keeps [of "\<lambda>d. d = s_db s" h cfg r], of s] assms by (simp add: db_inv_def)
  have "properly_signed h cfg r (s_net s) a \<and> s_cfg s' = s_cfg s"
    using assms
    by (auto simp: check_signed_def reject_def Let_def eff_apply handle_apply on_net_apply properly_signed_def
        split: if_splits sum.splits prod.splits)
  with db show ?thesis by simp
qed

lemma check_signed_no_error: "fst (check_signed h cfg r s) \<noteq> Inl e"
  by (auto simp: check_signed_def reject_def Let_def eff_apply handle_apply on_net_apply split: sum.splits prod.splits)


section \<open>An activity is stored exactly when its job is\<close>

lemma store_and_enqueue_cases:
  obtains (repeated) "i \<in> v_activity_id ` set (d_activities d)" "fst (store_and_enqueue a i t raw d) = Inr ()"
      "snd (store_and_enqueue a i t raw d) = d\<lparr>d_seq := (d_seq d)(TActivities := d_seq d TActivities + 1)\<rparr>"
  | (failed) e where "store_and_enqueue a i t raw d = (Inl e, d)"
  | (queued) d' where "i \<notin> v_activity_id ` set (d_activities d)" "store_and_enqueue a i t raw d = (Inr (), d')"
      "d_activities d' = d_activities d @ [inbound_row (d_seq d TActivities) a i t raw]"
      "d_jobs d' = d_jobs d @ [new_job (d_seq d TJobs) d (process_job (d_seq d TActivities) i)]"
proof (cases rule: InsertInboundActivity_cases [of i d a t raw])
  case known
  then show ?thesis by (intro repeated) (simp_all add: store_and_enqueue_def eff_simps)
next
  case no_actor
  then show ?thesis by (intro failed [of "Wrapped ''persist activity'' (ForeignKeyViolation ''activities'')"])
    (simp add: store_and_enqueue_def eff_simps)
next
  case stored
  let ?d1 = "d\<lparr>d_seq := (d_seq d)(TActivities := d_seq d TActivities + 1),
           d_activities := d_activities d @ [inbound_row (d_seq d TActivities) a i t raw]\<rparr>"
  show ?thesis
  proof (cases "SqlEnqueue (process_job (d_seq d TActivities) i) ?d1")
    case (Pair r d')
    show ?thesis
    proof (cases r)
      case (Inl e)
      with stored Pair show ?thesis
        by (intro failed [of "Wrapped ''enqueue job'' e"]) (simp add: store_and_enqueue_def eff_simps EnqueueTx_def)
    next
      case (Inr u)
      have "store_and_enqueue a i t raw d = (Inr (), d')"
        using stored Pair Inr by (simp add: store_and_enqueue_def eff_simps EnqueueTx_def)
      moreover have "d_activities d' = d_activities ?d1"
        "d_jobs d' = d_jobs d @ [new_job (d_seq d TJobs) d (process_job (d_seq d TActivities) i)]"
        using Pair Inr by (auto simp: SqlEnqueue_apply new_job_def process_job_def split: if_splits)
      ultimately show ?thesis using stored(1) by (intro queued) simp_all
    qed
  qed
qed

text \<open>
  C7: With the SQL queue an inbound activity is stored exactly when its processing job is: a
  failure undoes both, a known activity adds neither, a new one adds both.
\<close>

theorem inbox_stored_with_job:
  assumes "store_and_enqueue a i t raw d = (r, d')"
  shows "(\<exists>e. r = Inl e \<and> d' = d) \<or>
    (r = Inr () \<and> i \<in> v_activity_id ` set (d_activities d) \<and> d_activities d' = d_activities d \<and> d_jobs d' = d_jobs d) \<or>
    (r = Inr () \<and> i \<notin> v_activity_id ` set (d_activities d) \<and>
       d_activities d' = d_activities d @ [inbound_row (d_seq d TActivities) a i t raw] \<and>
       d_jobs d' = d_jobs d @ [new_job (d_seq d TJobs) d (process_job (d_seq d TActivities) i)])"
proof (cases rule: store_and_enqueue_cases [of i d a t raw])
  case repeated
  with assms show ?thesis by (intro disjI2 disjI1) (simp only: assms fst_conv snd_conv, simp)
next
  case (failed e)
  with assms have "r = Inl e \<and> d' = d" by simp
  then show ?thesis by blast
next
  case (queued d1)
  with assms show ?thesis by (intro disjI2) simp
qed

text \<open>With another queue the activity is committed before its job is queued.\<close>

lemma store_then_enqueue_lost:
  assumes "store_then_enqueue q a i t raw s = (Inl e, s1)" "i \<notin> v_activity_id ` set (d_activities (s_db s))"
    "a \<in> actor_ids (s_db s)" "\<And>j. preserves (db_inv (\<lambda>d. d_activities d = x)) (q_enqueue q j)"
    and x: "x = d_activities (s_db s) @ [inbound_row (d_seq (s_db s) TActivities) a i t raw]"
  shows "d_activities (s_db s1) = x \<and> fst (store_then_enqueue q b i t' raw' s1) = Inr () \<and>
    s_redis (snd (store_then_enqueue q b i t' raw' s1)) = s_redis s1 \<and>
    d_jobs (s_db (snd (store_then_enqueue q b i t' raw' s1))) = d_jobs (s_db s1) \<and>
    d_activities (s_db (snd (store_then_enqueue q b i t' raw' s1))) = x"
proof -
  let ?d1 = "(s_db s)\<lparr>d_seq := (d_seq (s_db s))(TActivities := d_seq (s_db s) TActivities + 1), d_activities := x\<rparr>"
  have ins: "InsertInboundActivity a i t raw (s_db s) = (Inr (True, d_seq (s_db s) TActivities), ?d1)"
    using assms(2,3) x by (cases rule: InsertInboundActivity_cases [of i "s_db s" a t raw]) auto
  with assms(1) have "s1 = snd (q_enqueue q (process_job (d_seq (s_db s) TActivities) i) (s\<lparr>s_db := ?d1\<rparr>))"
    by (auto simp: store_then_enqueue_def eff_simps on_db_apply wrap_err_def split: sum.splits)
  moreover have "db_inv (\<lambda>d. d_activities d = x) (snd (q_enqueue q (process_job (d_seq (s_db s) TActivities) i) (s\<lparr>s_db := ?d1\<rparr>)))"
    by (rule preservesD [OF assms(4)]) (simp add: db_inv_def)
  ultimately have act: "d_activities (s_db s1) = x" by (simp add: db_inv_def)
  then have "i \<in> v_activity_id ` set (d_activities (s_db s1))" by (simp add: x inbound_row_def)
  then have "InsertInboundActivity b i t' raw' (s_db s1) =
      (Inr (False, 0), (s_db s1)\<lparr>d_seq := (d_seq (s_db s1))(TActivities := d_seq (s_db s1) TActivities + 1)\<rparr>)"
    by (auto simp: InsertInboundActivity_def eff_simps nextval_def Let_def list_ex_iff)
  then show ?thesis using act by (simp_all add: store_then_enqueue_def eff_simps on_db_apply)
qed

end
