(* ===== verification/Outbox.thy ===== *)
theory Outbox
  imports Inbox
begin

text \<open>
  \<^verbatim>\<open>aphttp/postoutbox.go\<close> and \<^verbatim>\<open>aphttp/publish_local.go\<close>: a local user's activity is checked, its
  recipients are resolved to inboxes, and it is stored together with its side effects and one
  delivery job per inbox.

  The lemmas: a request without the secret, or for another actor than the local user, changes no
  row; with the SQL queue the activity, its side effects and all its jobs are stored or none is; the
  jobs are exactly one per resolved inbox, with distinct keys, and the worker reads back what was
  put into them; the inboxes are distinct and the instance's own is not among them; an Undo removes
  edges of the local user only.
\<close>

section \<open>Who may post\<close>

definition outboxBearerAuthorized :: "'a request_scheme \<Rightarrow> string \<Rightarrow> bool" where
  "outboxBearerAuthorized r secret =
     (let h = trim_space (in_header r ''Authorization'')
      in if \<not> cut_found (CHR '' '') h \<or> \<not> equal_fold (cut_before (CHR '' '') h) ''Bearer'' then False
         else let tok = trim_space (cut_after (CHR '' '') h)
              in if length tok \<noteq> length secret then False else tok = secret)"

section \<open>The audience\<close>

definition skipAudienceEntry :: "string \<Rightarrow> bool" where
  "skipAudienceEntry s0 =
     (let s = trim_space s0; lower = go_lower s
      in s = [] \<or> contains lower ''#public'' \<or> contains lower ''activitystreams#public'')"

text \<open>The references a member already holds are kept as they are, repeated ones included.\<close>

definition mergeStringIRIsIntoJSONField :: "obj \<Rightarrow> string \<Rightarrow> string list \<Rightarrow> obj" where
  "mergeStringIRIsIntoJSONField raw key add =
     (if add = [] then raw
      else let old = (case obj_get raw key of
                        None \<Rightarrow> []
                      | Some v \<Rightarrow> filter (\<lambda>s. s \<noteq> []) (map trim_space (flattenJSONLDRefs v)));
               elems = add_refs old add
           in if elems = [] then raw else obj_set raw key (JArr (map JStr elems)))"

definition appendFollowerCCForPublicPosts :: "int \<Rightarrow> obj \<Rightarrow> (db, obj) eff" where
  "appendFollowerCCForPublicPosts localActorID raw =
     (if \<not> list_ex skipAudienceEntry (audienceEntries raw) then ret raw
      else bind_eff (ListAcceptedFollowerActorURLs localActorID) (\<lambda>urls.
           ret (mergeStringIRIsIntoJSONField raw ''cc'' urls)))"

text \<open>The loop of \<open>resolveDeliveryInboxes\<close>; \<open>resolved\<close> is also the set of the inboxes seen.\<close>

fun resolve_entries ::
  "('pub, 'priv, 'w) handler \<Rightarrow> config \<Rightarrow> string \<Rightarrow> string list \<Rightarrow> string list \<Rightarrow> ('w, string list) eff" where
  "resolve_entries h cfg normLocal resolved [] = ret resolved"
| "resolve_entries h cfg normLocal resolved (e # es) =
     (if skipAudienceEntry e \<or> IsLocalActorFollowersOrFollowingCollectionIRI (Some cfg) e
      then resolve_entries h cfg normLocal resolved es
      else bind_eff (wrap_eff e (InboxURLFromReference (hd_env h) (hd_client h) (Some (hd_policy h)) e (Some cfg))) (\<lambda>inbox.
           let n = trim_right_slash inbox
           in resolve_entries h cfg normLocal (if n = normLocal \<or> n \<in> set resolved then resolved else resolved @ [n]) es))"

definition resolveDeliveryInboxes ::
  "('pub, 'priv, 'w) handler \<Rightarrow> config \<Rightarrow> obj \<Rightarrow> string \<Rightarrow> ('w, string list) eff" where
  "resolveDeliveryInboxes h cfg raw localSharedInbox =
     resolve_entries h cfg (trim_right_slash localSharedInbox) [] (audienceEntries raw)"

section \<open>Side effects of a local activity\<close>

definition normalizedOutboxActivityType :: "string \<Rightarrow> string" where
  "normalizedOutboxActivityType t0 =
     (let t = trim_space t0 in case after_last (CHR ''#'') t of Some u \<Rightarrow> u | None \<Rightarrow> t)"

definition undoObjectTargetIRI :: "obj \<Rightarrow> err + string" where
  "undoObjectTargetIRI raw =
     (case obj_get raw ''object'' of
        None \<Rightarrow> Inl (Msg ''undo missing object'')
      | Some r \<Rightarrow>
          (case um_string r of
             Some s \<Rightarrow>
               (if trim_space s \<noteq> [] then Inr (trim_space s)
                else if r = JNull then Inl (Msg ''undo object missing id'')
                else Inl (Wrapped ''undo object'' (Msg ''type'')))
           | None \<Rightarrow>
               (case um_object r of
                  None \<Rightarrow> Inl (Wrapped ''undo object'' (Msg ''type''))
                | Some ob \<Rightarrow>
                    (case obj_get ob ''id'' of
                       None \<Rightarrow> Inl (Msg ''undo object missing id'')
                     | Some idRaw \<Rightarrow>
                         (case um_string idRaw of
                            None \<Rightarrow> Inl (Msg ''undo object invalid id'')
                          | Some s \<Rightarrow> if trim_space s = [] then Inl (Msg ''undo object invalid id'') else Inr (trim_space s))))))"

definition recordOutboxUndoEffects :: "int \<Rightarrow> obj \<Rightarrow> (db, unit) eff" where
  "recordOutboxUndoEffects localActorID raw =
     bind_eff (of_res (undoObjectTargetIRI raw)) (\<lambda>target.
     bind_eff (wrap_eff ''undo follow'' (delete_follows target localActorID)) (\<lambda>n. if n > 0 then ret ()
     else bind_eff (wrap_eff ''undo like'' (delete_likes target localActorID)) (\<lambda>n. if n > 0 then ret ()
     else bind_eff (wrap_eff ''undo announce'' (delete_announces target localActorID)) (\<lambda>n. if n > 0 then ret ()
     else bind_eff (wrap_eff ''undo block'' (delete_blocks target localActorID)) (\<lambda>_. ret ())))))"

definition resolveFolloweeActorID :: "config \<Rightarrow> string \<Rightarrow> (db, int) eff" where
  "resolveFolloweeActorID cfg objectIRI =
     handle (ResolveLocalFolloweeFromObjectIRI (Some cfg) objectIRI)
       (\<lambda>_. case url_parse (trim_space (PublicBaseURL cfg)) of
              None \<Rightarrow> fail (Msg ''invalid instance config'')
            | Some base \<Rightarrow>
                (if url_hostname base = [] then fail (Msg ''invalid instance config'')
                 else if (case url_parse (trim_space objectIRI) of
                            None \<Rightarrow> False
                          | Some ob \<Rightarrow> url_hostname ob \<noteq> [] \<and> equal_fold (url_hostname ob) (url_hostname base))
                 then fail (Msg ''follow object is not a local actor'')
                 else EnsureRemoteActor (CanonicalActorURL objectIRI) ''(remote-followee)''))
       (\<lambda>(i, _). ret i)"

text \<open>The value is \<^verbatim>\<open>side != nil && side.enqueueInboxProcess\<close>.\<close>

definition recordOutboxFollowEffects ::
  "config \<Rightarrow> int \<Rightarrow> string \<Rightarrow> string \<Rightarrow> obj \<Rightarrow> (db, bool) eff" where
  "recordOutboxFollowEffects cfg localActorID activityID activityType raw =
     (let t = normalizedOutboxActivityType activityType
      in if equal_fold t ''Follow'' then
           bind_eff (of_res (ObjectIRI raw)) (\<lambda>objIRI.
           bind_eff (resolveFolloweeActorID cfg objIRI) (\<lambda>followeeID.
             if followeeID = localActorID then fail (Msg ''cannot follow self'')
             else if LocalUsernameForInboundFollowObject cfg (CanonicalActorURL objIRI) \<noteq> None then ret True
             else bind_eff (UpsertFollow localActorID followeeID activityID FollowStatePendingRemote) (\<lambda>_. ret False)))
         else if equal_fold t ''Like'' then
           bind_eff (of_res (ObjectIRI raw)) (\<lambda>objIRI.
           bind_eff (UpsertFederatedLike localActorID (CanonicalActorURL objIRI) activityID) (\<lambda>_. ret False))
         else if equal_fold t ''Announce'' then
           bind_eff (of_res (ObjectIRI raw)) (\<lambda>objIRI.
           bind_eff (UpsertFederatedAnnounce localActorID (CanonicalActorURL objIRI) activityID) (\<lambda>_. ret False))
         else if equal_fold t ''Undo'' then bind_eff (recordOutboxUndoEffects localActorID raw) (\<lambda>_. ret False)
         else ret False)"

section \<open>Storing and queueing\<close>

definition outbox_payload :: "string \<Rightarrow> json \<Rightarrow> string \<Rightarrow> json" where
  "outbox_payload inbox body username =
     JObj ([(''inboxUrl'', JStr inbox), (''body'', body)] @
           (if username = [] then [] else [(''signingUsername'', JStr username), (''localUsername'', JStr username)]))"

definition outbox_job :: "string \<Rightarrow> json \<Rightarrow> string \<Rightarrow> string \<Rightarrow> job" where
  "outbox_job username body activityID inbox =
     \<lparr>jb_type = TypeDeliverActivity, jb_payload = outbox_payload inbox body username,
      jb_key = activityID @ ''|'' @ inbox, jb_run_after = None\<rparr>"

text \<open>The rows of an activity; \<open>None\<close> if it was already there.\<close>

definition outbox_store :: "config \<Rightarrow> int \<Rightarrow> string \<Rightarrow> string \<Rightarrow> json \<Rightarrow> obj \<Rightarrow> (db, (int \<times> bool) option) eff" where
  "outbox_store cfg localActorID activityID activityType body raw =
     bind_eff (wrap_eff ''persist activity'' (InsertInboundActivity localActorID activityID activityType body)) (\<lambda>(inserted, actDBID).
       if \<not> inserted then ret None
       else bind_eff (recordOutboxFollowEffects cfg localActorID activityID activityType raw) (\<lambda>side.
            ret (Some (actDBID, side))))"

definition outbox_enqueue ::
  "(job \<Rightarrow> ('s, unit) eff) \<Rightarrow> string \<Rightarrow> json \<Rightarrow> string \<Rightarrow> string list \<Rightarrow> (int \<times> bool) option \<Rightarrow> ('s, unit) eff" where
  "outbox_enqueue enq username body activityID inboxes stored =
     (case stored of
        None \<Rightarrow> ret ()
      | Some (actDBID, side) \<Rightarrow>
          bind_eff (for_each (\<lambda>inbox. wrap_eff ''enqueue delivery'' (enq (outbox_job username body activityID inbox))) inboxes) (\<lambda>_.
            if side then wrap_eff ''enqueue inbox process'' (enq (process_job actDBID activityID)) else ret ()))"

definition persistOutboxAndEnqueue ::
  "'w queue_impl \<Rightarrow> config \<Rightarrow> string \<Rightarrow> int \<Rightarrow> json \<Rightarrow> obj \<Rightarrow> string list \<Rightarrow> ('w sys, unit) eff" where
  "persistOutboxAndEnqueue impl cfg username localActorID body raw inboxes =
     bind_eff (of_res (jsonStringField raw ''id'')) (\<lambda>activityID.
     bind_eff (of_res (activityTypeString raw)) (\<lambda>activityType.
       case impl of
         SqlQueue \<Rightarrow>
           on_db (transaction
             (bind_eff (outbox_store cfg localActorID activityID activityType body raw)
                (outbox_enqueue EnqueueTx username body activityID inboxes)))
       | OtherQueue q \<Rightarrow>
           bind_eff (on_db (transaction (outbox_store cfg localActorID activityID activityType body raw)))
             (outbox_enqueue (q_enqueue q) username body activityID inboxes)))"

section \<open>The two ways in\<close>

text \<open>The fields that both require.\<close>

definition check_outbox :: "config \<Rightarrow> string \<Rightarrow> obj \<Rightarrow> err + unit" where
  "check_outbox cfg username raw =
     bind_res (jsonStringField raw ''id'') (\<lambda>_.
     bind_res (activityTypeString raw) (\<lambda>_.
     bind_res (actorIRIFromActivity raw) (\<lambda>actorIRI.
       if trim_right_slash actorIRI \<noteq> trim_right_slash (LocalActorProfileURL cfg username)
       then Inl (Msg ''activity actor must be the local user'') else Inr ())))"

definition outbox_body :: "('pub, 'priv, 'w) handler \<Rightarrow> config \<Rightarrow> string \<Rightarrow> incoming \<Rightarrow> reply + obj" where
  "outbox_body h cfg username r =
     (if \<not> isActivityJSONContentType (in_header r ''Content-Type'') then Inl (http_error 415 ''unsupported content type'')
      else let mx = (if hd_inboxMaxBody h \<le> 0 then 1048576 else hd_inboxMaxBody h)
           in case read_body r (mx + 1) of
             Inl _ \<Rightarrow> Inl (http_error 400 ''read body'')
           | Inr bytes \<Rightarrow>
               (if int (length bytes) > mx then Inl (http_error 413 ''payload too large'')
                else case (case json_decode (hd_env h) bytes of None \<Rightarrow> None | Some j \<Rightarrow> um_object j) of
                  None \<Rightarrow> Inl (http_error 400 ''invalid activity json'')
                | Some raw \<Rightarrow>
                    (case check_outbox cfg username raw of
                       Inl e \<Rightarrow> Inl (http_error 400 (error_text e))
                     | Inr _ \<Rightarrow> Inr raw)))"

definition outbox_accept ::
  "('pub, 'priv, 'w) handler \<Rightarrow> 'w queue_impl \<Rightarrow> config \<Rightarrow> string \<Rightarrow> int \<Rightarrow> obj \<Rightarrow> ('w sys, reply) eff" where
  "outbox_accept h impl cfg username localActorID raw0 =
     handle (on_db (appendFollowerCCForPublicPosts localActorID raw0)) (\<lambda>e. ret (http_error 500 (error_text e))) (\<lambda>raw.
     handle (on_net (resolveDeliveryInboxes h cfg raw (LocalSharedInboxURL cfg))) (\<lambda>e. ret (http_error 400 (error_text e))) (\<lambda>inboxes.
     handle (persistOutboxAndEnqueue impl cfg username localActorID (marshal_map raw) raw inboxes)
       (\<lambda>e. ret (http_error 500 (error_text e))) (\<lambda>_. ret (status_only 202))))"

definition PostOutbox :: "('pub, 'priv, 'w) handler \<Rightarrow> string \<Rightarrow> incoming \<Rightarrow> ('w sys, reply) eff" where
  "PostOutbox h hdl r = with_cfg (\<lambda>cfg.
     if r_method r \<noteq> ''POST'' then ret (http_error 405 ''method not allowed'')
     else if trim_space (OutboxPostSecret cfg) = [] then ret (http_error 503 ''outbound post not configured'')
     else if \<not> outboxBearerAuthorized r (OutboxPostSecret cfg) then ret (http_error 401 ''unauthorized'')
     else case (if PublicBaseURL cfg = [] \<or> \<not> hd_store h \<or> \<not> ids_nonempty h then None else hd_queue h) of
       None \<Rightarrow> ret (http_error 503 ''server not configured'')
     | Some impl \<Rightarrow>
         (case parseAtHandle hdl of
            None \<Rightarrow> ret not_found
          | Some username \<Rightarrow>
              (if \<not> IsLocalActor h cfg username then ret not_found
               else case LocalActorID h username of
                 None \<Rightarrow> ret (http_error 503 ''server not configured'')
               | Some localActorID \<Rightarrow>
                   (case outbox_body h cfg username r of
                      Inl rp \<Rightarrow> ret rp
                    | Inr raw \<Rightarrow> outbox_accept h impl cfg username localActorID raw))))"

definition PublishLocalActivityBytes ::
  "('pub, 'priv, 'w) handler \<Rightarrow> string \<Rightarrow> json option \<Rightarrow> ('w sys, unit) eff" where
  "PublishLocalActivityBytes h username jo = with_cfg (\<lambda>cfg.
     case (if PublicBaseURL cfg = [] \<or> \<not> hd_store h \<or> \<not> ids_nonempty h then None else hd_queue h) of
       None \<Rightarrow> fail (Msg ''server not configured'')
     | Some impl \<Rightarrow>
         (case LocalActorID h username of
            None \<Rightarrow> fail (Msg (''unknown local user '' @ quoted username))
          | Some localActorID \<Rightarrow>
              (case (case jo of None \<Rightarrow> None | Some j \<Rightarrow> um_object j) of
                 None \<Rightarrow> fail (Msg ''invalid activity json'')
               | Some raw0 \<Rightarrow>
                   bind_eff (of_res (check_outbox cfg username raw0)) (\<lambda>_.
                   bind_eff (on_db (appendFollowerCCForPublicPosts localActorID raw0)) (\<lambda>raw.
                   bind_eff (wrap_eff ''delivery'' (on_net (resolveDeliveryInboxes h cfg raw (LocalSharedInboxURL cfg)))) (\<lambda>inboxes.
                     persistOutboxAndEnqueue impl cfg username localActorID (marshal_map raw) raw inboxes))))))"

section \<open>Addressing\<close>

text \<open>The references that a member holds, as the audience reads them.\<close>

definition member_refs :: "obj \<Rightarrow> string \<Rightarrow> string set" where
  "member_refs raw key =
     (case obj_get raw key of
        None \<Rightarrow> {}
      | Some v \<Rightarrow> {trim_space r |r. r \<in> set (flattenJSONLDRefs v) \<and> trim_space r \<noteq> []})"

lemma flatten_strings: "[] \<notin> set xs \<Longrightarrow> flattenJSONLDRefs (JArr (map JStr xs)) = xs"
  by (induction xs) auto

lemma member_refs_merge:
  "member_refs (mergeStringIRIsIntoJSONField raw key add) k =
     (if k = key then member_refs raw key \<union> {trim_space a |a. a \<in> set add \<and> trim_space a \<noteq> []} else member_refs raw k)"
proof -
  define old where "old = (case obj_get raw key of
                        None \<Rightarrow> []
                      | Some v \<Rightarrow> filter (\<lambda>s. s \<noteq> []) (map trim_space (flattenJSONLDRefs v)))"
  have o: "set old = member_refs raw key" by (auto simp: old_def member_refs_def split: option.splits)
  have t: "trim_space x = x" if "x \<in> set old" for x using that by (auto simp: old_def split: option.splits)
  have e: "set (add_refs old add) = member_refs raw key \<union> {trim_space a |a. a \<in> set add \<and> trim_space a \<noteq> []}"
    by (simp add: set_add_refs o)
  have ne: "[] \<notin> set (add_refs old add)" by (auto simp: set_add_refs old_def split: option.splits)
  have tt: "trim_space x = x" if "x \<in> set (add_refs old add)" for x
    using that t by (auto simp: set_add_refs)
  show ?thesis
  proof (cases "add = []")
    case True
    then show ?thesis by (simp add: mergeStringIRIsIntoJSONField_def)
  next
    case False
    have m: "mergeStringIRIsIntoJSONField raw key add =
        (if add_refs old add = [] then raw else obj_set raw key (JArr (map JStr (add_refs old add))))"
      using False by (simp add: mergeStringIRIsIntoJSONField_def Let_def old_def)
    show ?thesis
    proof (cases "add_refs old add = []")
      case True
      with e m show ?thesis by auto
    next
      case False
      have "{trim_space r |r. r \<in> set (add_refs old add) \<and> trim_space r \<noteq> []} = set (add_refs old add)"
        using tt ne by force
      then have "member_refs (obj_set raw key (JArr (map JStr (add_refs old add)))) k =
          (if k = key then set (add_refs old add) else member_refs raw k)"
        by (simp add: member_refs_def flatten_strings [OF ne] del: flattenJSONLDRefs.simps)
      then show ?thesis using False by (simp only: m e if_False)
    qed
  qed
qed

lemma set_audienceEntries: "set (audienceEntries m) = (\<Union>k \<in> set audience_keys. member_refs m k)"
  by (auto simp: audienceEntries_def audience_foldl member_refs_def split: option.splits)
     (force split: option.splits)+

text \<open>
  Adding recipients to a field of an activity adds exactly them to its audience and drops
  none.
\<close>

theorem merge_audience:
  "set (audienceEntries (mergeStringIRIsIntoJSONField raw ''cc'' add)) =
   set (audienceEntries raw) \<union> {trim_space a |a. a \<in> set add \<and> trim_space a \<noteq> []}"
  by (auto simp: set_audienceEntries member_refs_merge audience_keys_def)

section \<open>The inboxes\<close>

lemma bind_eff_ok': "bind_eff m k s = (Inr y, s') \<Longrightarrow> (\<And>x s1. m s = (Inr x, s1) \<Longrightarrow> k x s1 = (Inr y, s') \<Longrightarrow> P) \<Longrightarrow> P"
  by (auto simp: bind_eff_def split: prod.splits sum.splits)

lemma resolve_entries_distinct:
  assumes "resolve_entries h cfg nl resolved es net = (Inr inboxes, net')" "distinct resolved" "nl \<notin> set resolved"
  shows "distinct inboxes \<and> nl \<notin> set inboxes"
  using assms
proof (induction h cfg nl resolved es arbitrary: net rule: resolve_entries.induct)
  case (1 h cfg nl resolved)
  then show ?case by (simp add: eff_simps)
next
  case (2 h cfg nl resolved e es)
  show ?case
  proof (cases "skipAudienceEntry e \<or> IsLocalActorFollowersOrFollowingCollectionIRI (Some cfg) e")
    case True
    with 2 show ?thesis by simp
  next
    case False
    from 2(3) False obtain i net1 where
      "resolve_entries h cfg nl (if trim_right_slash i = nl \<or> trim_right_slash i \<in> set resolved then resolved
          else resolved @ [trim_right_slash i]) es net1 = (Inr inboxes, net')"
      by (auto simp: Let_def elim!: bind_eff_ok')
    from 2(2) [OF False refl this] show ?thesis by (rule meta_mp) (use 2(4,5) in auto)
  qed
qed

text \<open>
  The inboxes an activity is delivered to are distinct, and the own shared inbox is not
  among them.
\<close>

theorem resolveDeliveryInboxes_distinct:
  "resolveDeliveryInboxes h cfg raw shared net = (Inr inboxes, net') \<Longrightarrow>
   distinct inboxes \<and> trim_right_slash shared \<notin> set inboxes"
  unfolding resolveDeliveryInboxes_def by (rule resolve_entries_distinct) auto

section \<open>Payloads\<close>

text \<open>
  The worker reads from the payload of a delivery job the inbox, the body and the account
  that the outbox wrote into it.
\<close>

theorem unmarshal_outbox_payload:
  "unmarshal_deliver (outbox_payload inbox body username) =
   Some \<lparr>InboxURL = inbox, dp_Body = Some body, dp_LocalUsername = username, dp_SigningUsername = username\<rparr>"
proof -
  have "\<not> equal_fold x y" if "x \<in> set deliver_fields" "y \<in> set deliver_fields" "x \<noteq> y" for x y
  proof -
    have "list_all (\<lambda>x. list_all (\<lambda>y. x = y \<or> \<not> equal_fold x y) deliver_fields) deliver_fields" by code_simp
    with that show ?thesis by (auto simp: list_all_iff)
  qed
  moreover have "equal_fold x x" for x by (simp add: equal_fold_def)
  ultimately show ?thesis
    by (auto simp: unmarshal_deliver_def outbox_payload_def um_struct_string_def um_struct_raw_def deliver_fields_def)
qed

section \<open>The constraints of the database\<close>

lemma audience_keeps [preserved]: "preserves P (appendFollowerCCForPublicPosts a raw)"
  unfolding appendFollowerCCForPublicPosts_def ListAcceptedFollowerActorURLs_def by (intro preserved)

lemma record_effects_wf [preserved]:
  "preserves db_wf (recordOutboxUndoEffects a raw)" "preserves db_wf (resolveFolloweeActorID cfg i)"
  "preserves db_wf (recordOutboxFollowEffects cfg a i t raw)" "preserves db_wf (outbox_store cfg a i t body raw)"
  unfolding outbox_store_def recordOutboxFollowEffects_def recordOutboxUndoEffects_def resolveFolloweeActorID_def Let_def
  by (intro preserved)+

lemma outbox_enqueue_keeps:
  "(\<And>j. preserves P (enq j)) \<Longrightarrow> preserves P (outbox_enqueue enq u body i inboxes x)"
  unfolding outbox_enqueue_def by (intro preserved)

definition impl_keeps :: "(db \<Rightarrow> bool) \<Rightarrow> 'w queue_impl \<Rightarrow> bool" where
  "impl_keeps P impl \<longleftrightarrow> (case impl of SqlQueue \<Rightarrow> True | OtherQueue q \<Rightarrow> keeps_on_enqueue P q)"

lemma persistOutbox_wf [preserved]:
  "impl_keeps db_wf impl \<Longrightarrow> preserves (db_inv db_wf) (persistOutboxAndEnqueue impl cfg u a body raw inboxes)"
  unfolding persistOutboxAndEnqueue_def
  by (cases impl) (auto simp: impl_keeps_def intro!: preserved outbox_enqueue_keeps)

lemma PostOutbox_wf:
  assumes "\<forall>impl. hd_queue h = Some impl \<longrightarrow> impl_keeps db_wf impl"
  shows "preserves (db_inv db_wf) (PostOutbox h hdl r)"
  unfolding PostOutbox_def outbox_accept_def Let_def
  by (intro preserved) (use assms in \<open>auto split: if_splits\<close>)

lemma PublishLocalActivityBytes_wf:
  assumes "\<forall>impl. hd_queue h = Some impl \<longrightarrow> impl_keeps db_wf impl"
  shows "preserves (db_inv db_wf) (PublishLocalActivityBytes h u jo)"
  unfolding PublishLocalActivityBytes_def
  by (intro preserved) (use assms in \<open>auto split: if_splits\<close>)

section \<open>Edges of others\<close>

text \<open>What an activity of a local user leaves alone: the edges of all others, and the objects.\<close>

definition others_edges :: "int \<Rightarrow> db \<Rightarrow> db \<Rightarrow> bool" where
  "others_edges a d0 d \<longleftrightarrow>
     filter (\<lambda>f. f_follower f \<noteq> a) (d_follows d) = filter (\<lambda>f. f_follower f \<noteq> a) (d_follows d0) \<and>
     filter (\<lambda>e. e_actor e \<noteq> a) (d_likes d) = filter (\<lambda>e. e_actor e \<noteq> a) (d_likes d0) \<and>
     filter (\<lambda>e. e_actor e \<noteq> a) (d_announces d) = filter (\<lambda>e. e_actor e \<noteq> a) (d_announces d0) \<and>
     filter (\<lambda>e. e_actor e \<noteq> a) (d_blocks d) = filter (\<lambda>e. e_actor e \<noteq> a) (d_blocks d0) \<and>
     d_objects d = d_objects d0"

lemma filter_update_other:
  "(\<And>r. p r \<Longrightarrow> \<not> q r \<and> \<not> q (f r)) \<Longrightarrow> filter q (update_where p f rs) = filter q rs"
  by (induction rs) (auto simp: update_where_def)

lemma upsert_follow_others:
  assumes "upsert_on follow_pair f_activity n (follow_upd new) new rs = Inr rs'"
  shows "filter (\<lambda>f. f_follower f \<noteq> f_follower new) rs' = filter (\<lambda>f. f_follower f \<noteq> f_follower new) rs"
  using assms(1)
proof (cases rule: follow_tab.upsert_cases)
  case (updated old)
  show ?thesis unfolding updated(4)
    by (rule filter_update_other) (auto simp: follow_pair_def follow_upd_def)
qed auto

lemma upsert_edge_others:
  assumes "upsert_edge n i a ob act rs = Inr rs'"
  shows "filter (\<lambda>e. e_actor e \<noteq> a) rs' = filter (\<lambda>e. e_actor e \<noteq> a) rs"
proof -
  let ?new = "\<lparr>e_id = i, e_actor = a, e_object = ob, e_activity = act\<rparr>"
  have "upsert_on edge_pair e_activity n (edge_upd ?new) ?new rs = Inr rs'"
    using assms by (simp add: upsert_edge_def Let_def)
  then show ?thesis
  proof (cases rule: edge_tab.upsert_cases)
    case (updated old)
    show ?thesis unfolding updated(4)
      by (rule filter_update_other) (auto simp: edge_pair_def edge_upd_def)
  qed auto
qed

lemma upserts_others [preserved]:
  "preserves (others_edges a d0) (UpsertFollow a b act st)"
  "preserves (others_edges a d0) (UpsertFederatedLike a u act)"
  "preserves (others_edges a d0) (UpsertFederatedAnnounce a u act)"
  by (auto simp: UpsertFollow_def UpsertFederatedLike_def UpsertFederatedAnnounce_def nextval_def Let_def bind_res_ok
      others_edges_def upsert_edge_others dest!: upsert_follow_others intro!: preserves_statement split: if_splits)

lemma deletes_others [preserved]:
  "preserves (others_edges a d0) (delete_follows i a)" "preserves (others_edges a d0) (delete_likes i a)"
  "preserves (others_edges a d0) (delete_announces i a)" "preserves (others_edges a d0) (delete_blocks i a)"
  by (auto simp: delete_follows_def delete_likes_def delete_announces_def delete_blocks_def preserves_def
      statement_apply Let_def others_edges_def filter_own_edges)

lemma rows_others [preserved]:
  "preserves (others_edges a d0) (InsertInboundActivity b i t raw)"
  "preserves (others_edges a d0) (EnsureRemoteActor url pem)"
  "preserves (others_edges a d0) (EnqueueTx j)"
proof -
  show "preserves (others_edges a d0) (InsertInboundActivity b i t raw)"
  proof (rule preservesI)
    fix d assume "others_edges a d0 d"
    then show "others_edges a d0 (snd (InsertInboundActivity b i t raw d))"
      by (cases rule: InsertInboundActivity_cases [of i d b t raw]) (simp_all add: others_edges_def)
  qed
  show "preserves (others_edges a d0) (EnsureRemoteActor url pem)"
    unfolding EnsureRemoteActor_def upsert_actor_def Let_def
    by (auto intro!: preserved preserves_statement simp: others_edges_def nextval_def bind_res_ok split: option.split)
  show "preserves (others_edges a d0) (EnqueueTx j)"
    by (auto simp: preserves_def EnqueueTx_def SqlEnqueue_apply others_edges_def)
qed

lemma outbox_own_edges [preserved]:
  "preserves (others_edges a d0) (outbox_store cfg a i t body raw)"
  unfolding outbox_store_def recordOutboxFollowEffects_def recordOutboxUndoEffects_def resolveFolloweeActorID_def Let_def
  by (intro preserved)

text \<open>
  Posting an activity leaves alone the follows, likes, announces and blocks of all other
  accounts, and every object.
\<close>

theorem persistOutbox_own_edges:
  "impl_keeps (others_edges a d0) impl \<Longrightarrow>
   preserves (db_inv (others_edges a d0)) (persistOutboxAndEnqueue impl cfg u a body raw inboxes)"
  unfolding persistOutboxAndEnqueue_def
  by (cases impl) (auto simp: impl_keeps_def intro!: preserved outbox_enqueue_keeps)

section \<open>Jobs\<close>

definition queued_as :: "job \<Rightarrow> job_row \<Rightarrow> bool" where
  "queued_as jb j \<longleftrightarrow> j_type j = jb_type jb \<and> j_payload j = jb_payload jb \<and> j_key j = nullif_empty (jb_key jb) \<and>
     j_status j = Pending \<and> j_attempts j = 0"

lemma EnqueueTx_ok:
  "EnqueueTx jb d = (Inr (), d') \<Longrightarrow> \<exists>j. d_jobs d' = d_jobs d @ [j] \<and> queued_as jb j \<and> d_activities d' = d_activities d"
  by (auto simp: EnqueueTx_def SqlEnqueue_apply queued_as_def new_job_def split: if_splits)

lemma enqueue_each:
  "for_each (\<lambda>x. wrap_eff l (EnqueueTx (f x))) xs d = (Inr (), d') \<Longrightarrow>
   \<exists>js. d_jobs d' = d_jobs d @ js \<and> list_all2 queued_as (map f xs) js \<and> d_activities d' = d_activities d"
proof (induction xs arbitrary: d)
  case Nil
  then show ?case by (auto simp: eff_simps)
next
  case (Cons x xs)
  then obtain d1 where 1: "EnqueueTx (f x) d = (Inr (), d1)"
    and 2: "for_each (\<lambda>x. wrap_eff l (EnqueueTx (f x))) xs d1 = (Inr (), d')"
    by (auto simp: wrap_eff_ok elim!: bind_eff_ok')
  from EnqueueTx_ok [OF 1] Cons.IH [OF 2] show ?case by fastforce
qed

definition outbox_jobs :: "string \<Rightarrow> json \<Rightarrow> string \<Rightarrow> string list \<Rightarrow> int \<times> bool \<Rightarrow> job list" where
  "outbox_jobs username body activityID inboxes p =
     map (outbox_job username body activityID) inboxes @ (if snd p then [process_job (fst p) activityID] else [])"

lemma outbox_enqueue_ok:
  assumes "outbox_enqueue EnqueueTx u body i inboxes (Some p) d = (Inr (), d')"
  shows "\<exists>js. d_jobs d' = d_jobs d @ js \<and> list_all2 queued_as (outbox_jobs u body i inboxes p) js \<and> d_activities d' = d_activities d"
proof -
  obtain d1 where 1: "for_each (\<lambda>x. wrap_eff ''enqueue delivery'' (EnqueueTx (outbox_job u body i x))) inboxes d = (Inr (), d1)"
    and 2: "(if snd p then wrap_eff ''enqueue inbox process'' (EnqueueTx (process_job (fst p) i)) else ret ()) d1 = (Inr (), d')"
    using assms by (auto simp: outbox_enqueue_def split_beta elim!: bind_eff_ok')
  from enqueue_each [OF 1] obtain js where js: "d_jobs d1 = d_jobs d @ js" "d_activities d1 = d_activities d"
    "list_all2 queued_as (map (outbox_job u body i) inboxes) js" by auto
  show ?thesis
  proof (cases "snd p")
    case True
    with 2 have "EnqueueTx (process_job (fst p) i) d1 = (Inr (), d')" by (simp add: wrap_eff_ok)
    from EnqueueTx_ok [OF this] js True show ?thesis by (auto simp: outbox_jobs_def intro: list_all2_appendI)
  next
    case False
    with 2 js show ?thesis by (auto simp: outbox_jobs_def eff_simps)
  qed
qed

definition rows_are :: "job_row list \<Rightarrow> activity_row list \<Rightarrow> db \<Rightarrow> bool" where
  "rows_are js vs d \<longleftrightarrow> d_jobs d = js \<and> d_activities d = vs"

lemma effects_rows [preserved]:
  "preserves (rows_are js vs) (UpsertFollow a b act st)"
  "preserves (rows_are js vs) (UpsertFederatedLike a u act)"
  "preserves (rows_are js vs) (UpsertFederatedAnnounce a u act)"
  "preserves (rows_are js vs) (delete_follows act a)" "preserves (rows_are js vs) (delete_likes act a)"
  "preserves (rows_are js vs) (delete_announces act a)" "preserves (rows_are js vs) (delete_blocks act a)"
  "preserves (rows_are js vs) (EnsureRemoteActor url pem)"
  unfolding UpsertFollow_def UpsertFederatedLike_def UpsertFederatedAnnounce_def delete_follows_def delete_likes_def
    delete_announces_def delete_blocks_def EnsureRemoteActor_def upsert_actor_def Let_def
  by (auto intro!: preserved preserves_statement simp: rows_are_def nextval_def bind_res_ok split: if_splits option.split)

lemma record_rows: "preserves (rows_are js vs) (recordOutboxFollowEffects cfg a i t raw)"
  unfolding recordOutboxFollowEffects_def recordOutboxUndoEffects_def resolveFolloweeActorID_def Let_def
  by (intro preserved)

lemma outbox_store_ok:
  assumes "outbox_store cfg a i t body raw d = (Inr x, d')"
  shows "(x = None \<and> i \<in> v_activity_id ` set (d_activities d) \<and> d_jobs d' = d_jobs d \<and> d_activities d' = d_activities d) \<or>
    (\<exists>side. x = Some (d_seq d TActivities, side) \<and> i \<notin> v_activity_id ` set (d_activities d) \<and> d_jobs d' = d_jobs d \<and>
       d_activities d' = d_activities d @ [inbound_row (d_seq d TActivities) a i t body])"
proof (cases rule: InsertInboundActivity_cases [of i d a t body])
  case known
  with assms show ?thesis by (auto simp: outbox_store_def eff_simps)
next
  case no_actor
  with assms show ?thesis by (simp add: outbox_store_def eff_simps)
next
  case stored
  let ?d1 = "d\<lparr>d_seq := (d_seq d)(TActivities := d_seq d TActivities + 1),
           d_activities := d_activities d @ [inbound_row (d_seq d TActivities) a i t body]\<rparr>"
  have "rows_are (d_jobs d) (d_activities ?d1) (snd (recordOutboxFollowEffects cfg a i t raw ?d1))"
    by (rule preservesD [OF record_rows]) (simp add: rows_are_def)
  with assms stored show ?thesis
    by (auto simp: outbox_store_def eff_simps rows_are_def split: sum.splits)
qed

text \<open>
  C4: With the SQL queue a posted activity is stored together with one delivery job per inbox,
  or nothing is: a failure leaves the state as it was, a known activity adds nothing.
\<close>

theorem persistOutbox_sql:
  assumes "persistOutboxAndEnqueue SqlQueue cfg u a body raw inboxes s = (r, s')" "jsonStringField raw ''id'' = Inr i"
  shows "(\<exists>e. r = Inl e \<and> s' = s) \<or>
    (r = Inr () \<and> i \<in> v_activity_id ` set (d_activities (s_db s)) \<and> d_jobs (s_db s') = d_jobs (s_db s) \<and>
       d_activities (s_db s') = d_activities (s_db s)) \<or>
    (\<exists>t side js. r = Inr () \<and> i \<notin> v_activity_id ` set (d_activities (s_db s)) \<and>
       d_activities (s_db s') = d_activities (s_db s) @ [inbound_row (d_seq (s_db s) TActivities) a i t body] \<and>
       d_jobs (s_db s') = d_jobs (s_db s) @ js \<and>
       list_all2 queued_as (outbox_jobs u body i inboxes (d_seq (s_db s) TActivities, side)) js)"
proof (cases r)
  case (Inl e)
  have "s' = s"
    using assms Inl by (auto simp: persistOutboxAndEnqueue_def eff_simps on_db_def transaction_def split: sum.splits prod.splits)
  with Inl show ?thesis by simp
next
  case (Inr x)
  obtain t where t: "activityTypeString raw = Inr t"
    using assms Inr by (cases "activityTypeString raw") (auto simp: persistOutboxAndEnqueue_def eff_simps)
  define d where "d = s_db s"
  obtain d' where b: "bind_eff (outbox_store cfg a i t body raw) (outbox_enqueue EnqueueTx u body i inboxes) d = (Inr (), d')"
    and s': "s' = s\<lparr>s_db := d'\<rparr>"
    using assms Inr t
    by (auto simp: persistOutboxAndEnqueue_def eff_simps(1-4) bind_apply on_db_def transaction_def d_def
        split: sum.splits prod.splits)
  from b show ?thesis
  proof (rule bind_eff_ok')
    fix y d1
    assume st: "outbox_store cfg a i t body raw d = (Inr y, d1)"
      and en: "outbox_enqueue EnqueueTx u body i inboxes y d1 = (Inr (), d')"
    from outbox_store_ok [OF st] show ?thesis
    proof
      assume y: "y = None \<and> i \<in> v_activity_id ` set (d_activities d) \<and> d_jobs d1 = d_jobs d \<and> d_activities d1 = d_activities d"
      with en have "d' = d1" by (simp add: outbox_enqueue_def eff_simps)
      with y Inr s' show ?thesis by (simp add: d_def)
    next
      assume "\<exists>side. y = Some (d_seq d TActivities, side) \<and> i \<notin> v_activity_id ` set (d_activities d) \<and> d_jobs d1 = d_jobs d \<and>
       d_activities d1 = d_activities d @ [inbound_row (d_seq d TActivities) a i t body]"
      then obtain side where y: "y = Some (d_seq d TActivities, side)" "i \<notin> v_activity_id ` set (d_activities d)"
        "d_jobs d1 = d_jobs d" "d_activities d1 = d_activities d @ [inbound_row (d_seq d TActivities) a i t body]" by blast
      from outbox_enqueue_ok [OF en [unfolded y(1)]] y(2-4) Inr s' show ?thesis by (auto simp: d_def)
    qed
  qed
qed

section \<open>Guards\<close>

lemma PostOutbox_unauthorized:
  "\<not> outboxBearerAuthorized r (OutboxPostSecret (s_cfg s)) \<or> trim_space (OutboxPostSecret (s_cfg s)) = [] \<Longrightarrow>
   snd (PostOutbox h hdl r s) = s"
  by (auto simp: PostOutbox_def with_cfg_def eff_simps)

lemma appendFollowerCC_same: "snd (appendFollowerCCForPublicPosts a raw d) = d"
  using preservesD [OF audience_keeps [of "\<lambda>x. x = d" a raw], of d] by simp


lemma outbox_body_checked:
  "outbox_body h cfg username r = Inr raw \<Longrightarrow> check_outbox cfg username raw = Inr ()"
  by (auto simp: outbox_body_def Let_def split: if_splits option.splits sum.splits)

lemma check_outbox_actor:
  "check_outbox cfg username raw = Inr () \<Longrightarrow>
   \<exists>a. actorIRIFromActivity raw = Inr a \<and> trim_right_slash a = trim_right_slash (LocalActorProfileURL cfg username)"
  by (auto simp: check_outbox_def bind_res_ok split: if_splits)

end
