(* ===== verification/ApGet.thy ===== *)
theory ApGet
  imports Outbox
begin

text \<open>
  The read side of \<^verbatim>\<open>aphttp\<close>: the paged collections (\<^verbatim>\<open>collections_handlers.go\<close>, \<^verbatim>\<open>outbox_handlers.go\<close>),
  activities, objects and tombstones by their IRI (\<^verbatim>\<open>federation_get.go\<close>), host-meta and NodeInfo
  (\<^verbatim>\<open>nodeinfo_hostmeta.go\<close>), and the wrappers that route a request before the mux does
  (\<^verbatim>\<open>atprefix.go\<close>, \<^verbatim>\<open>legacy_middleware.go\<close>, \<^verbatim>\<open>legacy_redirects.go\<close>, \<^verbatim>\<open>cors.go\<close>).

  The lemmas: the \<^verbatim>\<open>first\<close> link of a collection asks for its newest page with the limit of the
  request; a document is served only if a local user owns its row, and a deleted one only as a
  tombstone; a credentialed cross-origin reply names an origin that is allowed; nothing here writes.
\<close>

section \<open>Cursors\<close>

definition parseInt64Ptr :: "string \<Rightarrow> int option" where
  "parseInt64Ptr s0 = (let s = trim_space s0 in if s = [] then None else parse_int64 s)"

definition collectionPageParams :: "qvalues \<Rightarrow> int \<times> int option \<times> int option" where
  "collectionPageParams q =
     (let v = trim_space (values_get q ''limit'');
          limit = (if v = [] then 50 else case parse_int64 v of Some n \<Rightarrow> if n > 0 then n else 50 | None \<Rightarrow> 50)
      in (limit, parseInt64Ptr (values_get q ''max_id''), parseInt64Ptr (values_get q ''since_id'')))"

definition collectionPagingActive :: "qvalues \<Rightarrow> bool" where
  "collectionPagingActive q \<longleftrightarrow>
     parseInt64Ptr (values_get q ''max_id'') \<noteq> None \<or> parseInt64Ptr (values_get q ''since_id'') \<noteq> None"

definition max_int64 :: int where
  "max_int64 = 9223372036854775807"

definition firstCollectionPageURL :: "string \<Rightarrow> int \<Rightarrow> string" where
  "firstCollectionPageURL collBase limit =
     (let plain = collBase @ (if contains collBase ''?'' then ''&'' else ''?'') @
                  ''limit='' @ itoa limit @ ''&max_id='' @ itoa max_int64
      in case url_parse collBase of
           None \<Rightarrow> plain
         | Some u \<Rightarrow>
             (if u_scheme u = [] then plain
              else let q = values_del (values_set (values_set (query_values (u_rawquery u)) ''limit'' (itoa limit))
                                          ''max_id'' (itoa max_int64)) ''since_id''
                   in url_string (u\<lparr>u_rawquery := values_encode q\<rparr>)))"

definition next_link :: "incoming \<Rightarrow> int \<Rightarrow> obj" where
  "next_link r cur =
     (case url_parse (url_string (r_url r)) of
        None \<Rightarrow> []
      | Some u \<Rightarrow>
          [(''next'', JStr (url_string (u\<lparr>u_rawquery :=
              values_encode (values_set (query_values (u_rawquery u)) ''max_id'' (itoa cur))\<rparr>)))])"

definition orderedCollectionPageDoc :: "string \<Rightarrow> string \<Rightarrow> nat \<Rightarrow> string list \<Rightarrow> int option \<Rightarrow> incoming \<Rightarrow> json" where
  "orderedCollectionPageDoc pageCollID partOf tot items nextCur r =
     marshal_map ([(''@context'', JStr ''https://www.w3.org/ns/activitystreams''), (''id'', JStr pageCollID),
        (''type'', JStr ''OrderedCollectionPage''), (''partOf'', JStr partOf), (''totalItems'', JNum (itoa (int tot))),
        (''orderedItems'', JArr (map JStr items))] @
        (case nextCur of None \<Rightarrow> [] | Some c \<Rightarrow> next_link r c))"

definition collection_doc :: "string \<Rightarrow> nat \<Rightarrow> int \<Rightarrow> json" where
  "collection_doc collBase tot limit =
     marshal_map [(''@context'', JStr ''https://www.w3.org/ns/activitystreams''), (''id'', JStr collBase),
        (''type'', JStr ''OrderedCollection''), (''totalItems'', JNum (itoa (int tot))),
        (''first'', JStr (firstCollectionPageURL collBase limit))]"

section \<open>Collections\<close>

text \<open>The three handlers are the same code over another page function.\<close>

definition serve_collection ::
  "(int \<Rightarrow> int \<Rightarrow> int option \<Rightarrow> int option \<Rightarrow> (db, nat \<times> string list \<times> int option) eff) \<Rightarrow> (config \<Rightarrow> string \<Rightarrow> string) \<Rightarrow>
   string \<Rightarrow> ('pub, 'priv, 'w) handler \<Rightarrow> string \<Rightarrow> incoming \<Rightarrow> ('w sys, reply) eff" where
  "serve_collection page base label h hdl r = with_cfg (\<lambda>cfg.
     if r_method r \<noteq> ''GET'' then ret (http_error 405 ''method not allowed'')
     else if PublicBaseURL cfg = [] \<or> \<not> hd_store h \<or> \<not> ids_nonempty h then ret (http_error 503 ''server not configured'')
     else requireAuthorizedFetch h cfg r
       (case parseAtHandle hdl of
          None \<Rightarrow> ret not_found
        | Some username \<Rightarrow>
            (if \<not> IsLocalActor h cfg username then ret not_found
             else case LocalActorID h username of
               None \<Rightarrow> ret (http_error 503 ''server not configured'')
             | Some actorID \<Rightarrow>
                 (case collectionPageParams (query_of r) of
                    (limit, maxID, sinceID) \<Rightarrow>
                      (let collBase = base cfg username
                       in if \<not> collectionPagingActive (query_of r) then
                            handle (on_db (page actorID 1 None None)) (\<lambda>_. ret (http_error 500 label))
                              (\<lambda>(tot, _, _). ret (writeAS2JSON r (collection_doc collBase tot limit)))
                          else
                            handle (on_db (page actorID limit maxID sinceID)) (\<lambda>_. ret (http_error 500 label))
                              (\<lambda>(tot, items, nextCur).
                                 let q = u_rawquery (r_url r);
                                     collID = (if q = [] then collBase else collBase @ ''?'' @ q)
                                 in ret (writeAS2JSON r (orderedCollectionPageDoc collID collBase tot items nextCur r))))))))"

definition GetFollowersCollection :: "('pub, 'priv, 'w) handler \<Rightarrow> string \<Rightarrow> incoming \<Rightarrow> ('w sys, reply) eff" where
  "GetFollowersCollection h hdl r = serve_collection FollowersPage LocalActorFollowersURL ''followers'' h hdl r"

definition GetFollowingCollection :: "('pub, 'priv, 'w) handler \<Rightarrow> string \<Rightarrow> incoming \<Rightarrow> ('w sys, reply) eff" where
  "GetFollowingCollection h hdl r = serve_collection FollowingPage LocalActorFollowingURL ''following'' h hdl r"

definition GetOutbox :: "('pub, 'priv, 'w) handler \<Rightarrow> string \<Rightarrow> incoming \<Rightarrow> ('w sys, reply) eff" where
  "GetOutbox h hdl r = serve_collection OutboxPage LocalActorOutboxURL ''outbox'' h hdl r"

section \<open>Documents by IRI\<close>

definition canonicalIRICandidates :: "string \<Rightarrow> string \<Rightarrow> string list" where
  "canonicalIRICandidates publicBaseURL requestPath =
     (let root = trim_right_slash (trim_space publicBaseURL)
      in if root = [] \<or> requestPath = [] then []
         else let p = (if has_prefix requestPath ''/'' then requestPath else CHR ''/'' # requestPath);
                  full = root @ p
              in add_refs [] [full, if has_suffix full ''/'' then trim_suffix full ''/'' else full @ ''/''])"

definition writeTombstoneGone :: "incoming \<Rightarrow> string \<Rightarrow> reply" where
  "writeTombstoneGone r objectIRI0 =
     (let objectIRI = trim_space objectIRI0
      in if objectIRI = [] then not_found
         else (writeAS2JSON r (marshal_map [(''@context'', JStr ''https://www.w3.org/ns/activitystreams''),
                 (''type'', JStr ''Tombstone''), (''id'', JStr objectIRI)]))\<lparr>rp_status := 410\<rparr>)"

definition publicHostname :: "config \<Rightarrow> string" where
  "publicHostname cfg = (case url_parse (trim_space (PublicBaseURL cfg)) of None \<Rightarrow> [] | Some u \<Rightarrow> url_hostname u)"

definition serveCatchallHostHTML :: "config \<Rightarrow> reply" where
  "serveCatchallHostHTML cfg =
     (let host = publicHostname cfg
      in if host = [] then http_error 404 ''not found''
         else html_reply (html_head (html_escape host) @ ''<h1>'' @ html_escape host @ ''</h1>''))"

text \<open>One lookup that answers with a document, or falls through to the next.\<close>

definition serve_if_local :: "config \<Rightarrow> string \<Rightarrow> reply \<Rightarrow> ('w sys, reply) eff" where
  "serve_if_local cfg actorURL rp =
     (if LocalUsernameForActorURL cfg actorURL = None then ret not_found else ret rp)"

definition serve_gone :: "config \<Rightarrow> incoming \<Rightarrow> string list \<Rightarrow> ('w sys, reply) eff" where
  "serve_gone cfg r candidates =
     handle (on_db (DeletedCreateNoteForFederationGET candidates)) (\<lambda>_. ret (http_error 500 ''deleted activity lookup'')) (\<lambda>(noteIRI, actURL).
     if noteIRI \<noteq> [] then serve_if_local cfg actURL (writeTombstoneGone r noteIRI) else
     handle (on_db (DeletedObjectForFederationGET candidates)) (\<lambda>_. ret (http_error 500 ''deleted object lookup'')) (\<lambda>(objURL, ownerURL).
     if objURL \<noteq> [] then serve_if_local cfg ownerURL (writeTombstoneGone r objURL)
     else if prefersHTMLCatchall r then ret (serveCatchallHostHTML cfg) else ret not_found))"

definition serve_object :: "config \<Rightarrow> incoming \<Rightarrow> string list \<Rightarrow> ('w sys, reply) eff" where
  "serve_object cfg r candidates =
     handle (on_db (GetObjectJSONByIRIs candidates)) (\<lambda>_. ret (http_error 500 ''object lookup'')) (\<lambda>found.
     case found of
       Some (raw, actorURL) \<Rightarrow> serve_if_local cfg actorURL (writeAS2JSON r raw)
     | None \<Rightarrow> serve_gone cfg r candidates)"

definition serve_activity :: "config \<Rightarrow> incoming \<Rightarrow> string list \<Rightarrow> ('w sys, reply) eff" where
  "serve_activity cfg r candidates =
     handle (on_db (GetActivityJSONByIRIs candidates)) (\<lambda>_. ret (http_error 500 ''activity lookup'')) (\<lambda>found.
     case found of
       Some (raw, actorURL) \<Rightarrow> serve_if_local cfg actorURL (writeAS2JSON r raw)
     | None \<Rightarrow> serve_object cfg r candidates)"

definition GetActivityOrObject :: "('pub, 'priv, 'w) handler \<Rightarrow> incoming \<Rightarrow> ('w sys, reply) eff" where
  "GetActivityOrObject h r = with_cfg (\<lambda>cfg.
     if r_method r \<noteq> ''GET'' then ret (http_error 405 ''method not allowed'')
     else requireAuthorizedFetch h cfg r
       (let p = (if u_path (r_url r) = [] then ''/'' else u_path (r_url r))
        in if p = ''/'' then GetRoot r
           else let candidates = canonicalIRICandidates (PublicBaseURL cfg) p
                in if \<not> hd_store h \<or> trim_space (PublicBaseURL cfg) = [] \<or> candidates = [] then ret not_found
                   else serve_activity cfg r candidates))"

section \<open>Host-meta and NodeInfo\<close>

definition escapeXMLAttr :: "string \<Rightarrow> string" where
  "escapeXMLAttr s =
     replace_char (CHR ''<'') ''&lt;'' (replace_char (CHR 0x22) ''&quot;'' (replace_char (CHR ''&'') ''&amp;'' s))"

definition host_meta_xml :: "string \<Rightarrow> string" where
  "host_meta_xml tmpl =
     ''<?xml version='' @ quoted ''1.0'' @ '' encoding='' @ quoted ''UTF-8'' @ ''?>'' @
     ''<XRD xmlns='' @ quoted ''http://docs.oasis-open.org/ns/xri/xrd-1.0'' @ ''>'' @
     ''<Link rel='' @ quoted ''lrdd'' @ '' type='' @ quoted ''application/jrd+json'' @ '' template='' @
     quoted (escapeXMLAttr tmpl) @ '' /></XRD>''"

definition json_reply :: "json \<Rightarrow> reply" where
  "json_reply doc = \<lparr>rp_status = 200, rp_type = ''application/json; charset=utf-8'', rp_location = [], rp_body = Doc doc\<rparr>"

definition HostMeta :: "incoming \<Rightarrow> ('w sys, reply) eff" where
  "HostMeta r = with_cfg (\<lambda>cfg.
     if r_method r \<noteq> ''GET'' then ret (http_error 405 ''method not allowed'')
     else if trim_space (PublicBaseURL cfg) = [] then ret (http_error 503 ''server not configured (AP_PUBLIC_BASE_URL)'')
     else let tmpl = WebFingerTemplateURL cfg; accept = go_lower (in_header r ''Accept'')
          in if contains accept ''json'' \<or> contains accept ''jrd'' then
               ret \<lparr>rp_status = 200, rp_type = ''application/jrd+json; charset=utf-8'', rp_location = [],
                    rp_body = Doc (JObj [(''links'', JArr [JObj [(''rel'', JStr ''lrdd''), (''template'', JStr tmpl)]])])\<rparr>
             else ret \<lparr>rp_status = 200, rp_type = ''application/xrd+xml; charset=utf-8'', rp_location = [],
                    rp_body = Text (host_meta_xml tmpl)\<rparr>)"

definition NodeInfoDiscovery :: "incoming \<Rightarrow> ('w sys, reply) eff" where
  "NodeInfoDiscovery r = with_cfg (\<lambda>cfg.
     if r_method r \<noteq> ''GET'' then ret (http_error 405 ''method not allowed'')
     else if trim_space (PublicBaseURL cfg) = [] then ret (http_error 503 ''server not configured (AP_PUBLIC_BASE_URL)'')
     else ret (json_reply (JObj [(''links'', JArr [JObj
            [(''href'', JStr (trim_right_slash (trim_space (PublicBaseURL cfg)) @ ''/nodeinfo/2.0'')),
             (''rel'', JStr ''http://nodeinfo.diaspora.software/ns/schema/2.0'')]])])))"

definition nodeInfoStats :: "('pub, 'priv, 'w) handler \<Rightarrow> config \<Rightarrow> db \<Rightarrow> nat \<times> nat" where
  "nodeInfoStats h cfg d =
     (let n = (if LocalUsernames cfg = [] \<and> trim_space (LocalUsername cfg) \<noteq> [] then 1 else length (LocalUsernames cfg))
      in if \<not> hd_store h then (n, 0)
         else let users = (case hd_ids h of Some (p # ps) \<Rightarrow> length (p # ps) | _ \<Rightarrow> n)
              in case url_parse (trim_space (PublicBaseURL cfg)) of
                   None \<Rightarrow> (users, 0)
                 | Some u \<Rightarrow>
                     (let domain = url_hostname u
                      in if domain = [] then (users, 0)
                         else let dbUsers = count_where (\<lambda>a. a_domain a = domain) (d_actors d)
                              in (if dbUsers > 0 then dbUsers else users,
                                  count_where (\<lambda>v. list_ex (\<lambda>a. a_id a = v_actor v \<and> a_domain a = domain) (d_actors d)) (d_activities d))))"

definition NodeInfo20 :: "('pub, 'priv, 'w) handler \<Rightarrow> incoming \<Rightarrow> ('w sys, reply) eff" where
  "NodeInfo20 h r = with_cfg (\<lambda>cfg.
     if r_method r \<noteq> ''GET'' then ret (http_error 405 ''method not allowed'')
     else if trim_space (PublicBaseURL cfg) = [] then ret (http_error 503 ''server not configured (AP_PUBLIC_BASE_URL)'')
     else bind_eff (on_db (query (\<lambda>d. Inr (nodeInfoStats h cfg d)))) (\<lambda>(users, posts).
       let n = JNum (itoa (int users));
           desc = (if trim_space (InstanceDescription cfg) = [] then ''ActivityPub (activitypub-core)''
                   else trim_space (InstanceDescription cfg))
       in ret (json_reply (JObj
            [(''metadata'', JObj [(''nodeDescription'', JStr desc), (''nodeName'', JStr (InstanceDisplayName cfg))]),
             (''openRegistrations'', JBool (OpenRegistrations cfg)), (''protocols'', JArr [JStr ''activitypub'']),
             (''services'', JObj [(''inbound'', JArr []), (''outbound'', JArr [])]),
             (''software'', JObj [(''name'', JStr ''activitypub-core''), (''version'', JStr (SoftwareVersion cfg))]),
             (''usage'', JObj [(''localPosts'', JNum (itoa (int posts))),
                (''users'', JObj [(''activeHalfyear'', n), (''activeMonth'', n), (''total'', n)])]),
             (''version'', JStr ''2.0'')]))))"

section \<open>Routing before the mux\<close>

text \<open>\<open>None\<close>: the wrapper leaves the request to the next handler.\<close>

definition tryServeAtPath :: "('pub, 'priv, 'w) handler \<Rightarrow> config \<Rightarrow> incoming \<Rightarrow> ('w sys, reply) eff option" where
  "tryServeAtPath h cfg r =
     (let p = u_path (r_url r)
      in if \<not> has_prefix p ''/@'' then None
         else Some (let rest = trim_prefix p ''/@''
           in if rest = [] then ret not_found
              else let userPart = cut_before (CHR ''/'') rest; subpath = cut_after (CHR ''/'') rest
                   in case path_unescape userPart of
                        None \<Rightarrow> ret not_found
                      | Some username \<Rightarrow>
                          (if username = [] then ret not_found
                           else let hdl = CHR ''@'' # username
                                in if subpath \<noteq> [] then
                                     (let subSeg = cut_before (CHR ''/'') subpath; remainder = cut_after (CHR ''/'') subpath
                                      in if remainder \<noteq> [] then ret not_found
                                         else if subSeg = ''inbox'' then
                                           (if \<not> IsLocalActor h cfg username then ret not_found
                                            else if r_method r = ''POST'' then SharedInbox h r
                                            else ret (http_error 405 ''method not allowed''))
                                         else if subSeg = ''outbox'' \<and> r_method r = ''GET'' then GetOutbox h hdl r
                                         else if subSeg = ''outbox'' \<and> r_method r = ''POST'' then PostOutbox h hdl r
                                         else if subSeg = ''followers'' \<and> r_method r = ''GET'' then GetFollowersCollection h hdl r
                                         else if subSeg = ''following'' \<and> r_method r = ''GET'' then GetFollowingCollection h hdl r
                                         else ret not_found)
                                   else if r_method r \<noteq> ''GET'' then ret (http_error 405 ''method not allowed'')
                                   else GetLocalActor h hdl r)))"

text \<open>\<^verbatim>\<open>/outbox/{name}\<close> and \<^verbatim>\<open>/users/{name}\<close>: the name if it is one segment of a local user.\<close>

definition legacy_name :: "('pub, 'priv, 'w) handler \<Rightarrow> config \<Rightarrow> string \<Rightarrow> string \<Rightarrow> string option" where
  "legacy_name h cfg pfx path =
     (if \<not> has_prefix path pfx then None
      else let rest = trim_prefix path pfx
           in if rest = [] \<or> contains rest ''/'' then None
              else case path_unescape rest of
                     None \<Rightarrow> None
                   | Some username \<Rightarrow> if username = [] \<or> \<not> IsLocalActor h cfg username then None else Some username)"

definition tryLegacyOutbox :: "('pub, 'priv, 'w) handler \<Rightarrow> config \<Rightarrow> incoming \<Rightarrow> reply option" where
  "tryLegacyOutbox h cfg r =
     (if r_method r \<noteq> ''GET'' \<and> r_method r \<noteq> ''POST'' then None
      else map_option (\<lambda>u. redirect_to 308 (LocalActorOutboxURL cfg u)) (legacy_name h cfg ''/outbox/'' (u_path (r_url r))))"

definition tryLegacyUserProfile :: "('pub, 'priv, 'w) handler \<Rightarrow> config \<Rightarrow> incoming \<Rightarrow> reply option" where
  "tryLegacyUserProfile h cfg r =
     (if r_method r \<noteq> ''GET'' then None
      else map_option (\<lambda>u. redirect_to 308 (LocalActorProfileURL cfg u)) (legacy_name h cfg ''/users/'' (u_path (r_url r))))"

definition RedirectInstanceActorAlias :: "incoming \<Rightarrow> ('w sys, reply) eff" where
  "RedirectInstanceActorAlias r = with_cfg (\<lambda>cfg.
     if r_method r \<noteq> ''GET'' then ret (http_error 405 ''method not allowed'')
     else if PublicBaseURL cfg = [] then ret (http_error 500 ''server not configured'')
     else ret (redirect_to 308 (InstanceActorIRI cfg)))"

section \<open>Cross-origin requests\<close>

definition mastodonCORSReflectPath :: "string \<Rightarrow> bool" where
  "mastodonCORSReflectPath path \<longleftrightarrow>
     has_prefix path ''/api/'' \<or> has_prefix path ''/oauth/'' \<or>
     has_prefix path ''/.well-known/oauth-authorization-server'' \<or> has_prefix path ''/.well-known/oauth-protected-resource''"

text \<open>The origin to allow (empty for none) and whether credentials are.\<close>

definition cors_decision :: "string list \<Rightarrow> 'a request_scheme \<Rightarrow> string \<times> bool" where
  "cors_decision allowedOrigins r =
     (let entries = filter (\<lambda>o'. o' \<noteq> []) (map trim_space allowedOrigins);
          origin = trim_space (in_header r ''Origin'')
      in if ''*'' \<in> set entries then
           (if origin \<noteq> [] \<and> mastodonCORSReflectPath (u_path (r_url r)) then (origin, True) else (''*'', False))
         else if origin \<noteq> [] \<and> origin \<in> set entries then (origin, True)
         else ([], False))"

definition cors_headers :: "string \<times> bool \<Rightarrow> (string \<times> string) list" where
  "cors_headers decision =
     (case decision of (allow, credentials) \<Rightarrow>
       if allow = [] then []
       else [(''Access-Control-Allow-Origin'', allow), (''Vary'', ''Origin''),
             (''Access-Control-Allow-Methods'', ''GET, POST, PUT, PATCH, DELETE, OPTIONS''),
             (''Access-Control-Allow-Headers'', ''Authorization, Content-Type, Accept, Idempotency-Key''),
             (''Access-Control-Expose-Headers'', ''Link, X-RateLimit-Limit, X-RateLimit-Remaining, X-RateLimit-Reset''),
             (''Access-Control-Max-Age'', ''86400'')] @
            (if credentials then [(''Access-Control-Allow-Credentials'', ''true'')] else []))"

text \<open>The headers that are added and the reply; a preflight of an allowed origin ends here.\<close>

definition WithCORS ::
  "string list \<Rightarrow> (incoming \<Rightarrow> ('s, reply) eff) \<Rightarrow> incoming \<Rightarrow> ('s, (string \<times> string) list \<times> reply) eff" where
  "WithCORS allowedOrigins next_handler r =
     (if allowedOrigins = [] then bind_eff (next_handler r) (\<lambda>rp. ret ([], rp))
      else let decision = cors_decision allowedOrigins r
           in if r_method r = ''OPTIONS'' \<and> fst decision \<noteq> [] then ret (cors_headers decision, status_only 204)
              else bind_eff (next_handler r) (\<lambda>rp. ret (cors_headers decision, rp)))"

section \<open>URLs with a query\<close>

definition plain_query :: "string \<Rightarrow> bool" where
  "plain_query q \<longleftrightarrow> q \<noteq> [] \<and> list_all (\<lambda>c. is_alnum c \<or> c \<in> set ''-_.~+%&='') q"

lemma plain_queryD:
  assumes "plain_query q" "c \<in> set q"
  shows "c \<noteq> CHR ''#'' \<and> c \<noteq> CHR ''?'' \<and> \<not> (of_char c :: nat) < 32 \<and> (of_char c :: nat) \<noteq> 127"
proof -
  have "is_alnum c \<or> c \<in> set ''-_.~+%&=''"
    using assms by (auto simp: plain_query_def list_all_iff)
  then show ?thesis
  proof
    assume "is_alnum c"
    then show ?thesis using is_alnum_not [of c] is_alnum_not_ctl [of c] by blast
  qed auto
qed

lemma url_parse_http_query:
  assumes s: "s \<in> {''https'', ''http''}" and h: "plain_host h" and p: "plain_path p"
    and unesc: "url_unescape EncPath p = Some path" and q: "plain_query q"
  shows "url_parse (http_url s h p @ CHR ''?'' # q) =
    Some (empty_url\<lparr>u_scheme := s, u_host := h, u_path := path,
                    u_rawpath := (if p = url_escape EncPath path then [] else p), u_rawquery := q\<rparr>)"
proof -
  let ?base = "CHR ''/'' # CHR ''/'' # h @ p"
  let ?rest = "?base @ CHR ''?'' # q"
  have raw: "http_url s h p @ CHR ''?'' # q = s @ CHR '':'' # ?rest" by (simp add: http_url_def)
  have no: "CHR ''#'' \<notin> set (http_url s h p @ CHR ''?'' # q)" "CHR ''?'' \<notin> set ?base"
    using s plain_hostD [OF h] plain_pathD [OF p] plain_queryD [OF q] by (auto simp: http_url_def)
  have ctl: "\<not> has_ctl_byte (http_url s h p @ CHR ''?'' # q)"
  proof -
    have "\<forall>c \<in> set s. \<not> ((of_char c :: nat) < 32 \<or> (of_char c :: nat) = 127)" using s by auto
    moreover have "\<forall>c \<in> set h. \<not> ((of_char c :: nat) < 32 \<or> (of_char c :: nat) = 127)" using plain_hostD [OF h] by blast
    moreover have "\<forall>c \<in> set p. \<not> ((of_char c :: nat) < 32 \<or> (of_char c :: nat) = 127)" using plain_pathD [OF p] by blast
    moreover have "\<forall>c \<in> set q. \<not> ((of_char c :: nat) < 32 \<or> (of_char c :: nat) = 127)" using plain_queryD [OF q] by blast
    ultimately show ?thesis unfolding http_url_def has_ctl_byte_def list_ex_iff by (simp add: ball_Un)
  qed
  have star: "http_url s h p @ CHR ''?'' # q \<noteq> ''*''" using s by (auto simp: http_url_def)
  have lower: "go_lower s = s" using s by (auto simp: go_lower_def lower_char_def)
  have "\<not> has_suffix ?rest ''?''"
  proof
    assume "has_suffix ?rest ''?''"
    then obtain zs where "?rest = zs @ ''?''" by (auto simp: suffix_def)
    then have "last ?rest = last (zs @ ''?'')" by (rule arg_cong)
    then have "last ?rest = CHR ''?''" by simp
    moreover have "q \<noteq> []" using q by (simp add: plain_query_def)
    ultimately show False using plain_queryD [OF q, of "last q"] by simp
  qed
  then have cq: "cut_query ?rest = (?base, False, q)"
    using no(2) by (simp only: cut_query_def cut_plain simp_thms if_False)
  have slash: "CHR ''/'' \<notin> set h" using plain_hostD [OF h] by blast
  have auth: "cut_before (CHR ''/'') (h @ p) = h"
    using p slash by (cases p) (auto simp: plain_path_def cut_before_def takeWhile_no_sep takeWhile_sep)
  have "url_parse_no_fragment (http_url s h p @ CHR ''?'' # q) =
      set_path p (empty_url\<lparr>u_scheme := s, u_host := h, u_rawquery := q\<rparr>)"
    using s ctl star
    by (simp add: url_parse_no_fragment_def raw get_scheme_http [OF s] lower cq [simplified])
       (auto simp: parse_rest_def auth parse_authority_plain [OF h] empty_url_def Let_def)
  then show ?thesis
    using no(1) by (simp add: url_parse_def cut_not_found cut_found_def set_path_def unesc Let_def)
qed

lemma plain_encode: "vs \<noteq> [] \<Longrightarrow> plain_query (values_encode vs)"
proof -
  assume "vs \<noteq> []"
  then have ne: "sort_key fst vs \<noteq> []" by (metis length_0_conv length_sort)
  have j: "c \<in> set (join ''&'' ws) \<Longrightarrow> c = CHR ''&'' \<or> (\<exists>w \<in> set ws. c \<in> set w)" for c ws
    by (induction "''&''" ws rule: join.induct) auto
  have "is_alnum c \<or> c \<in> set ''-_.~+%&=''" if "c \<in> set (values_encode vs)" for c
    using j [OF that [unfolded values_encode_def]] by (auto simp: setting_def dest: set_query_escape)
  moreover have "values_encode vs \<noteq> []"
    using ne unfolding values_encode_def by (cases "sort_key fst vs" rule: remdups_adj.cases) (auto simp: setting_def)
  ultimately show ?thesis by (simp add: plain_query_def list_all_iff)
qed

lemma url_escape_host: "plain_host h \<Longrightarrow> url_escape EncHost h = h"
proof -
  assume h: "plain_host h"
  have "escape_char EncHost c = [c]" if "c \<in> set h" for c
  proof -
    have "is_alnum c \<or> c = CHR ''-'' \<or> c = CHR ''.''" using that h by (auto simp: plain_host_def list_all_iff)
    then show ?thesis by (auto simp: escape_char_def should_escape_def)
  qed
  then have "map (escape_char EncHost) h = map (\<lambda>c. [c]) h" by (intro map_cong) auto
  moreover have "concat (map (\<lambda>c. [c]) h) = h" by (induction h) auto
  ultimately show ?thesis by (simp only: url_escape_def)
qed

lemma url_escaped_path_plain:
  assumes p: "plain_path p" "p \<noteq> []" and unesc: "url_unescape EncPath p = Some (u_path u)"
    and r: "u_rawpath u = (if p = url_escape EncPath (u_path u) then [] else p)"
  shows "url_escaped_path u = p"
proof (cases "p = url_escape EncPath (u_path u)")
  case True
  have "hd (url_escape EncPath ''*'') = CHR ''%''" by (simp add: url_escape_def escape_char_def should_escape_def is_alnum_def)
  with True p have "u_path u \<noteq> ''*''" by (auto simp: plain_path_def)
  with True r show ?thesis by (simp add: url_escaped_path_def)
next
  case False
  have "c \<in> set ''!$&()*+,;=:@[]%'' \<or> c = CHR 0x27 \<or> \<not> should_escape EncPath c" if "c \<in> set p" for c
  proof -
    have "is_alnum c \<or> c \<in> set ''-_.~$&+:=@%/''"
      using that p(1) unfolding plain_path_def list_all_iff by blast
    moreover have "set ''-_.~$&+:=@%/'' = set ''-_.~/'' \<union> set ''$&+:=@%''" by auto
    ultimately have "is_alnum c \<or> c \<in> set ''-_.~/'' \<or> c \<in> set ''$&+:=@%''" by blast
    then show ?thesis
    proof (elim disjE)
      assume "is_alnum c"
      then show ?thesis by (simp add: should_escape_def)
    next
      assume "c \<in> set ''-_.~/''"
      moreover have "\<forall>c \<in> set ''-_.~/''. \<not> should_escape EncPath c" by (simp add: should_escape_def)
      ultimately show ?thesis by blast
    next
      assume "c \<in> set ''$&+:=@%''"
      moreover have "set ''$&+:=@%'' \<subseteq> set ''!$&()*+,;=:@[]%''" by simp
      ultimately show ?thesis by blast
    qed
  qed
  then have "valid_encoded_path p" unfolding valid_encoded_path_def list_all_iff by blast
  with False p(2) unesc r show ?thesis by (simp add: url_escaped_path_def)
qed

lemma url_string_plain:
  assumes "u_scheme u \<noteq> []" "plain_host (u_host u)" "plain_path p" "p \<noteq> []" "url_escaped_path u = p"
    "u_user u = None" "u_opaque u = []" "u_omithost u = False" "u_rawquery u \<noteq> []"
  shows "url_string u = http_url (u_scheme u) (u_host u) p @ CHR ''?'' # u_rawquery u"
proof -
  have "hd p = CHR ''/''" "u_host u \<noteq> []" using assms(2-4) by (auto simp: plain_path_def plain_host_def)
  then show ?thesis
    unfolding url_string_def Let_def assms(5-8) url_escape_host [OF assms(2)]
    using assms(1,4,9) by (simp add: http_url_def)
qed

section \<open>The first page\<close>

text \<open>The IRI of a collection of a local user: the base, the name and a fixed segment.\<close>

lemma collection_http:
  "plain_base c s h \<Longrightarrow> trim_right_slash (PublicBaseURL c) @ ''/@'' @ path_escape u @ seg = http_url s h (''/@'' @ path_escape u @ seg)"
  by (simp add: plain_base_trim) (simp add: plain_base_def http_url_def)

lemma itoa_graphic: "itoa i \<noteq> [] \<and> graphic (hd (itoa i)) \<and> graphic (last (itoa i))"
proof -
  have "graphic c" if "c \<in> set (nat_digits n)" for c n
    using nat_digits_are_digits [of n] that by (auto simp: list_all_iff is_digit_def graphic_def)
  then have "graphic (hd (nat_digits n)) \<and> graphic (last (nat_digits n))" for n
    using nat_digits_nonempty [of n] hd_in_set last_in_set by blast
  moreover have "graphic (CHR ''-'')" by (simp add: graphic_def)
  ultimately show ?thesis
    using nat_digits_nonempty by (simp add: itoa_def)
qed

lemma trim_space_itoa [simp]: "trim_space (itoa i) = itoa i"
  using itoa_graphic [of i] by (intro trim_space_graphic) auto

lemma itoa_ne [simp]: "itoa i \<noteq> []"
  using itoa_graphic [of i] by auto

text \<open>
  The link to the first page of a collection, when it is followed, is read as a request for
  the first page of that collection with the same limit.
\<close>

theorem firstCollectionPageURL_asks:
  assumes c: "plain_base c s h" and seg: "plain_path seg" "CHR ''%'' \<notin> set seg" "seg \<noteq> []"
    and l: "0 < limit" "in_int64 limit"
    and base: "base = trim_right_slash (PublicBaseURL c) @ ''/@'' @ path_escape u @ seg"
  shows "\<exists>v. url_parse (firstCollectionPageURL base limit) = Some v \<and> u_path v = ''/@'' @ u @ seg \<and>
     collectionPageParams (query_values (u_rawquery v)) = (limit, Some max_int64, None) \<and>
     collectionPagingActive (query_values (u_rawquery v))"
proof -
  let ?p = "''/@'' @ path_escape u @ seg"
  let ?q = "values_del (values_set (values_set [] ''limit'' (itoa limit)) ''max_id'' (itoa max_int64)) ''since_id''"
  let ?v = "empty_url\<lparr>u_scheme := s, u_host := h, u_path := ''/@'' @ u @ seg,
      u_rawpath := (if ?p = url_escape EncPath (''/@'' @ u @ seg) then [] else ?p), u_rawquery := values_encode ?q\<rparr>"
  have b: "base = http_url s h ?p" unfolding base by (rule collection_http [OF c])
  have s: "s \<in> {''https'', ''http''}" and h: "plain_host h" using c by (auto simp: plain_base_def)
  have p: "plain_path ?p"
    using plain_path_escape [of u] seg(1) by (auto simp: plain_path_def)
  have un: "url_unescape EncPath ?p = Some (''/@'' @ u @ seg)"
  proof -
    have "url_unescape EncPathSegment (path_escape u @ seg) = map_option (append u) (url_unescape EncPathSegment seg)"
      unfolding path_escape_def by (rule url_unescape_escape_append) simp
    moreover have "url_unescape EncPathSegment seg = Some seg" by (rule url_unescape_plain) (simp_all add: seg)
    ultimately show ?thesis by (simp add: url_unescape_path_mode)
  qed
  have q: "plain_query (values_encode ?q)"
    by (rule plain_encode) (simp add: values_del_def values_set_def)
  then have qn: "values_encode ?q \<noteq> []" by (simp add: plain_query_def)
  have parse: "url_parse base = Some (empty_url\<lparr>u_scheme := s, u_host := h, u_path := ''/@'' @ u @ seg,
      u_rawpath := (if ?p = url_escape EncPath (''/@'' @ u @ seg) then [] else ?p)\<rparr>)"
    unfolding b by (rule url_parse_http [OF s h p un])
  have "firstCollectionPageURL base limit = url_string ?v"
    using s by (auto simp: firstCollectionPageURL_def parse empty_url_def Let_def query_values_def query_settings_def map_filter_simps)
  also have "\<dots> = base @ CHR ''?'' # values_encode ?q"
    using url_string_plain [of ?v ?p] url_escaped_path_plain [of ?p ?v] s h p un qn by (auto simp: empty_url_def b)
  finally have f: "url_parse (firstCollectionPageURL base limit) = Some ?v"
    unfolding b using url_parse_http_query [OF s h p un q] by simp
  have "in_int64 max_int64" by (simp add: in_int64_def max_int64_def)
  then have "collectionPageParams (query_values (values_encode ?q)) = (limit, Some max_int64, None) \<and>
      collectionPagingActive (query_values (values_encode ?q))"
    using l by (simp add: collectionPageParams_def collectionPagingActive_def parseInt64Ptr_def parse_int64_itoa)
  with f show ?thesis by simp
qed

section \<open>Reading does not write\<close>

lemma verifyAuthorizedFetch_keeps [preserved]: "preserves (db_inv P) (verifyAuthorizedFetch h cfg r)"
  unfolding verifyAuthorizedFetch_def by (intro preserved)

lemma requireAuthorizedFetch_keeps [preserved]:
  "preserves (db_inv P) k \<Longrightarrow> preserves (db_inv P) (requireAuthorizedFetch h cfg r k)"
  unfolding requireAuthorizedFetch_def by (intro preserved)

lemma lookups_keep [preserved]:
  "preserves P (GetActivityJSONByIRIs c)" "preserves P (GetObjectJSONByIRIs c)"
  "preserves P (DeletedCreateNoteForFederationGET c)" "preserves P (DeletedObjectForFederationGET c)"
  "preserves P (OutboxPage a l m n)" "preserves P (FollowersPage a l m n)" "preserves P (FollowingPage a l m n)"
  "preserves P (ActorPublicKeyPEMForLocalUser dm u)"
  unfolding GetActivityJSONByIRIs_def GetObjectJSONByIRIs_def DeletedCreateNoteForFederationGET_def
    DeletedObjectForFederationGET_def OutboxPage_def FollowersPage_def FollowingPage_def ActorPublicKeyPEMForLocalUser_def
  by (intro preserved)+

text \<open>
  The handlers of GET requests change nothing in the database.
\<close>

theorem reads_keep:
  "preserves (db_inv P) (GetRoot r) \<and>
   preserves (db_inv P) (GetLocalActor h hdl r) \<and>
   preserves (db_inv P) (GetInstanceActor h r) \<and>
   preserves (db_inv P) (WebFinger h r) \<and>
   preserves (db_inv P) (GetFollowersCollection h hdl r) \<and>
   preserves (db_inv P) (GetFollowingCollection h hdl r) \<and>
   preserves (db_inv P) (GetOutbox h hdl r) \<and>
   preserves (db_inv P) (GetActivityOrObject h r) \<and>
   preserves (db_inv P) (HostMeta r) \<and>
   preserves (db_inv P) (NodeInfoDiscovery r) \<and>
   preserves (db_inv P) (NodeInfo20 h r)"
  unfolding GetRoot_def GetLocalActor_def localActorPublicKeyPEM_def GetInstanceActor_def WebFinger_def
    GetFollowersCollection_def GetFollowingCollection_def GetOutbox_def serve_collection_def GetActivityOrObject_def
    serve_activity_def serve_object_def serve_gone_def serve_if_local_def HostMeta_def NodeInfoDiscovery_def NodeInfo20_def
  by (intro conjI preserved)

section \<open>What is served\<close>

text \<open>
  A document found by its IRI: its row is alive and its actor is local; a tombstone: its row is
  deleted and its actor is local.
\<close>

definition live_local_doc :: "config \<Rightarrow> db \<Rightarrow> string list \<Rightarrow> json \<Rightarrow> bool" where
  "live_local_doc cfg d cands raw \<longleftrightarrow>
     (\<exists>v \<in> set (d_activities d). v_activity_id v \<in> set cands \<and> v_deleted v = None \<and> v_raw v = raw \<and>
        LocalUsernameForActorURL cfg (actor_url_of d (v_actor v)) \<noteq> None) \<or>
     (\<exists>r \<in> set (d_objects d). ob_url r \<in> set cands \<and> ob_deleted r = None \<and> ob_raw r = raw \<and>
        LocalUsernameForActorURL cfg (actor_url_of d (ob_actor r)) \<noteq> None)"

lemma GetActivityJSON_found:
  "GetActivityJSONByIRIs c d = (Inr (Some (raw, u)), d') \<Longrightarrow>
   \<exists>v \<in> set (d_activities d). v_activity_id v \<in> set c \<and> v_deleted v = None \<and> v_raw v = raw \<and> u = actor_url_of d (v_actor v)"
  by (auto simp: GetActivityJSONByIRIs_def eff_simps split: if_splits option.splits dest!: find_someD)

lemma GetObjectJSON_found:
  "GetObjectJSONByIRIs c d = (Inr (Some (raw, u)), d') \<Longrightarrow>
   \<exists>r \<in> set (d_objects d). ob_url r \<in> set c \<and> ob_deleted r = None \<and> ob_raw r = raw \<and> u = actor_url_of d (ob_actor r)"
  by (auto simp: GetObjectJSONByIRIs_def eff_simps split: if_splits option.splits dest!: find_someD)

lemma requireAuthorizedFetch_reply:
  assumes "requireAuthorizedFetch h cfg r k s = (Inr rp, s')" "rp_status rp \<noteq> 401"
  shows "\<exists>s1. k s1 = (Inr rp, s') \<and> s_db s1 = s_db s"
proof (cases "RequireAuthorizedFetch cfg")
  case False
  with assms show ?thesis by (auto simp: requireAuthorizedFetch_def)
next
  case True
  obtain x s1 where v: "verifyAuthorizedFetch h cfg r s = (x, s1)" by (cases rule: prod.exhaust)
  have "s_db s1 = s_db s"
    using preservesD [OF verifyAuthorizedFetch_keeps [of "\<lambda>d. d = s_db s" h cfg r], of s] v by (simp add: db_inv_def)
  with True assms v show ?thesis
    by (cases x) (auto simp: requireAuthorizedFetch_def handle_apply eff_apply http_error_def)
qed

lemma lookup_same:
  "snd (GetActivityJSONByIRIs c d) = d" "snd (GetObjectJSONByIRIs c d) = d"
  "snd (DeletedCreateNoteForFederationGET c d) = d" "snd (DeletedObjectForFederationGET c d) = d"
  by (simp_all add: GetActivityJSONByIRIs_def GetObjectJSONByIRIs_def DeletedCreateNoteForFederationGET_def
      DeletedObjectForFederationGET_def eff_simps)

lemma serve_if_local_doc:
  "serve_if_local cfg u rp s = (Inr rp', s') \<Longrightarrow> rp_status rp' = 200 \<Longrightarrow> LocalUsernameForActorURL cfg u \<noteq> None \<and> rp' = rp"
  by (auto simp: serve_if_local_def eff_apply not_found_def http_error_def split: if_splits)

lemma GetRoot_no_doc: "GetRoot r s = (Inr rp, s') \<Longrightarrow> rp_body rp \<noteq> Doc j"
  by (auto simp: GetRoot_def with_cfg_def eff_apply Let_def http_error_def not_found_def html_reply_def redirect_to_def split: if_splits)

lemma serve_gone_status: "serve_gone cfg r c s = (Inr rp, s') \<Longrightarrow> rp_status rp = 200 \<Longrightarrow> rp_body rp \<noteq> Doc j"
  by (auto simp: serve_gone_def handle_apply on_db_apply eff_apply http_error_def not_found_def writeTombstoneGone_def
      serveCatchallHostHTML_def html_reply_def Let_def dest!: serve_if_local_doc split: sum.splits if_splits)

lemma serve_object_local:
  assumes "serve_object cfg r c s = (Inr rp, s')" "rp_status rp = 200" "rp_body rp = Doc raw"
  shows "live_local_doc cfg (s_db s) c raw"
proof (cases "fst (GetObjectJSONByIRIs c (s_db s))")
  case (Inl e)
  with assms show ?thesis by (auto simp: serve_object_def handle_apply on_db_apply eff_apply http_error_def)
next
  case (Inr found)
  show ?thesis
  proof (cases found)
    case None
    with assms(1) Inr have "serve_gone cfg r c s = (Inr rp, s')"
      by (simp add: serve_object_def handle_apply on_db_apply lookup_same)
    with serve_gone_status assms(2,3) show ?thesis by blast
  next
    case (Some q)
    obtain raw' u where q: "q = (raw', u)" by (cases q)
    have sv: "serve_if_local cfg u (writeAS2JSON r raw') (s\<lparr>s_db := s_db s\<rparr>) = (Inr rp, s')"
      using assms(1) Inr Some q by (simp add: serve_object_def handle_apply on_db_apply lookup_same)
    from serve_if_local_doc [OF sv assms(2)] assms(3) have "raw' = raw" "LocalUsernameForActorURL cfg u \<noteq> None"
      by (auto simp: writeAS2JSON_def)
    moreover have "GetObjectJSONByIRIs c (s_db s) = (Inr (Some (raw', u)), s_db s)"
      using Inr Some q by (simp add: prod_eq_iff lookup_same)
    ultimately show ?thesis using GetObjectJSON_found [of c "s_db s" raw' u "s_db s"] by (auto simp: live_local_doc_def)
  qed
qed

lemma serve_activity_local:
  assumes "serve_activity cfg r c s = (Inr rp, s')" "rp_status rp = 200" "rp_body rp = Doc raw"
  shows "live_local_doc cfg (s_db s) c raw"
proof (cases "fst (GetActivityJSONByIRIs c (s_db s))")
  case (Inl e)
  with assms show ?thesis by (auto simp: serve_activity_def handle_apply on_db_apply eff_apply http_error_def)
next
  case (Inr found)
  show ?thesis
  proof (cases found)
    case None
    with assms(1) Inr have "serve_object cfg r c s = (Inr rp, s')"
      by (simp add: serve_activity_def handle_apply on_db_apply lookup_same)
    from serve_object_local [OF this assms(2,3)] show ?thesis .
  next
    case (Some q)
    obtain raw' u where q: "q = (raw', u)" by (cases q)
    have sv: "serve_if_local cfg u (writeAS2JSON r raw') (s\<lparr>s_db := s_db s\<rparr>) = (Inr rp, s')"
      using assms(1) Inr Some q by (simp add: serve_activity_def handle_apply on_db_apply lookup_same)
    from serve_if_local_doc [OF sv assms(2)] assms(3) have "raw' = raw" "LocalUsernameForActorURL cfg u \<noteq> None"
      by (auto simp: writeAS2JSON_def)
    moreover have "GetActivityJSONByIRIs c (s_db s) = (Inr (Some (raw', u)), s_db s)"
      using Inr Some q by (simp add: prod_eq_iff lookup_same)
    ultimately show ?thesis using GetActivityJSON_found [of c "s_db s" raw' u "s_db s"] by (auto simp: live_local_doc_def)
  qed
qed

text \<open>
  C38: A document that is served for its IRI is the stored activity or object with one of the
  IRIs of the request, it is not deleted, and it belongs to a local account.
\<close>

theorem GetActivityOrObject_local:
  assumes "GetActivityOrObject h r s = (Inr rp, s')" "rp_status rp = 200" "rp_body rp = Doc raw"
  shows "live_local_doc (s_cfg s) (s_db s) (canonicalIRICandidates (PublicBaseURL (s_cfg s)) (u_path (r_url r))) raw"
proof -
  let ?k = "let p = (if u_path (r_url r) = [] then ''/'' else u_path (r_url r))
        in if p = ''/'' then GetRoot r
           else let candidates = canonicalIRICandidates (PublicBaseURL (s_cfg s)) p
                in if \<not> hd_store h \<or> trim_space (PublicBaseURL (s_cfg s)) = [] \<or> candidates = [] then ret not_found
                   else serve_activity (s_cfg s) r candidates"
  have "requireAuthorizedFetch h (s_cfg s) r ?k s = (Inr rp, s')"
    using assms by (auto simp: GetActivityOrObject_def with_cfg_def eff_apply http_error_def split: if_splits)
  then obtain s1 where s1: "?k s1 = (Inr rp, s')" "s_db s1 = s_db s"
    using requireAuthorizedFetch_reply assms(2) by fastforce
  have "serve_activity (s_cfg s) r (canonicalIRICandidates (PublicBaseURL (s_cfg s)) (u_path (r_url r))) s1 = (Inr rp, s')"
    using s1(1) GetRoot_no_doc [of r s1 rp s' raw] assms(2,3)
    by (auto simp: Let_def eff_apply not_found_def http_error_def split: if_splits)
  from serve_activity_local [OF this assms(2,3)] s1(2) show ?thesis by simp
qed

section \<open>Cross-origin requests\<close>

text \<open>
  A response allows credentials only to the origin that asked, and only if that origin is
  configured or, with the wildcard, on the paths of the client API.
\<close>

theorem cors_credentials:
  assumes "cors_decision allowed r = (allow, True)"
  shows "allow = trim_space (in_header r ''Origin'') \<and> allow \<noteq> [] \<and>
    (allow \<in> trim_space ` set allowed \<or>
     (''*'' \<in> trim_space ` set allowed \<and> mastodonCORSReflectPath (u_path (r_url r))))"
  using assms by (auto simp: cors_decision_def Let_def split: if_splits)

end
