(* ===== verification/OAuth.thy ===== *)
theory OAuth
  imports ApGet
begin

text \<open>
  \<^verbatim>\<open>mastodonapi/oauth.go\<close>, \<^verbatim>\<open>mastodonapi/post_apps.go\<close> and the part of \<^verbatim>\<open>mastodonapi/mastodonapi.go\<close> that
  identifies a client: registration of applications, the authorization page, the two token grants,
  PKCE, and the bearer check in front of the client API.  The parsers of media types and of
  multipart bodies, and the password check, are arguments (\<open>server\<close>); random bytes and the clock are
  arguments of the operations that use them.

  The lemmas: a token is issued for a code only to the client the code was issued to, which knows its
  secret and the PKCE verifier, before the code expires, and the code is gone afterwards; the token
  stands for the account that signed in; a failed exchange changes nothing; client credentials give
  no account and only scopes of the application; a code leaves only to a registered address.
\<close>

section \<open>The server\<close>

record ('pub, 'priv, 'w) server =
  sv_h :: "('pub, 'priv, 'w) handler"
  sv_mime :: "string \<Rightarrow> string \<times> (string \<times> string) list \<times> bool"
  sv_multipart :: "string \<Rightarrow> string \<Rightarrow> err + (string \<times> string) list"
  sv_bcrypt :: "string \<Rightarrow> string \<Rightarrow> bool"

definition writeJSONResponse :: "int \<Rightarrow> json \<Rightarrow> reply" where
  "writeJSONResponse status v = (json_reply v)\<lparr>rp_status := status\<rparr>"

definition writeAPIError :: "int \<Rightarrow> string \<Rightarrow> reply" where
  "writeAPIError status message = writeJSONResponse status (JObj [(''error'', JStr message)])"

definition oauthTokenError :: "int \<Rightarrow> string \<Rightarrow> string \<Rightarrow> reply" where
  "oauthTokenError status errCode description =
     writeJSONResponse status (JObj [(''error'', JStr errCode), (''error_description'', JStr description)])"

definition oauthAuthorizeHTML :: "int \<Rightarrow> string \<Rightarrow> reply" where
  "oauthAuthorizeHTML status message =
     (html_reply (html_head ''Authorize'' @ ''<p>'' @ html_escape message @ ''</p>''))\<lparr>rp_status := status\<rparr>"

definition instanceHost :: "config \<Rightarrow> string" where
  "instanceHost cfg = (case url_parse (PublicBaseURL cfg) of None \<Rightarrow> [] | Some u \<Rightarrow> url_hostname u)"

section \<open>Bearer tokens\<close>

definition bearer_token :: "'a request_scheme \<Rightarrow> string option" where
  "bearer_token r =
     (let h = trim_space (in_header r ''Authorization'')
      in if \<not> cut_found (CHR '' '') h \<or> \<not> equal_fold (cut_before (CHR '' '') h) ''Bearer'' then None
         else let tok = trim_space (cut_after (CHR '' '') h) in if tok = [] then None else Some tok)"

definition actorIDFromBearer :: "'a request_scheme \<Rightarrow> (db, int option) eff" where
  "actorIDFromBearer r =
     (case bearer_token r of
        None \<Rightarrow> ret None
      | Some tok \<Rightarrow> handle (ActorIDForAccessToken tok) (\<lambda>_. ret None) (\<lambda>(aid, _, _). ret (if aid = 0 then None else Some aid)))"

definition bearer :: "(incoming \<Rightarrow> int \<Rightarrow> ('w sys, reply) eff) \<Rightarrow> incoming \<Rightarrow> ('w sys, reply) eff" where
  "bearer next_handler r =
     bind_eff (on_db (actorIDFromBearer r)) (\<lambda>x. case x of
       None \<Rightarrow> ret (writeAPIError 401 ''The access token is invalid'')
     | Some aid \<Rightarrow> next_handler r aid)"

section \<open>Forms\<close>

definition form_type :: string where
  "form_type = ''application/x-www-form-urlencoded''"

text \<open>\<^verbatim>\<open>r.ParseForm\<close>: the values of the body come before those of the query.\<close>

definition parse_form :: "('pub, 'priv, 'w) server \<Rightarrow> incoming \<Rightarrow> qvalues option" where
  "parse_form sv r =
     (let post =
        (if r_method r \<notin> {''POST'', ''PUT'', ''PATCH''} then Some []
         else let ct0 = in_header r ''Content-Type'';
                  ct1 = (if ct0 = [] then ''application/octet-stream'' else ct0)
              in case sv_mime sv ct1 of (ct, _, ok) \<Rightarrow>
                   if ct \<noteq> form_type then (if ok then Some [] else None)
                   else case read_body r 10485761 of
                          Inl _ \<Rightarrow> None
                        | Inr b \<Rightarrow> if int (length b) > 10485760 \<or> \<not> ok then None else parse_query b)
      in case (post, parse_query (u_rawquery (r_url r))) of (Some b, Some q) \<Rightarrow> Some (b @ q) | _ \<Rightarrow> None)"

section \<open>Registration\<close>

definition formAppFields :: "qvalues \<Rightarrow> string \<times> string \<times> string \<times> string" where
  "formAppFields vs =
     (trim_space (values_get vs ''client_name''), trim_space (values_get vs ''redirect_uris''),
      trim_space (values_get vs ''scopes''), trim_space (values_get vs ''website''))"

fun all_strings :: "json list \<Rightarrow> string list option" where
  "all_strings [] = Some []"
| "all_strings (j # js) =
     (case (um_string j, all_strings js) of (Some s, Some ss) \<Rightarrow> Some (s # ss) | _ \<Rightarrow> None)"

definition normalizeRedirectURIsJSON :: "json \<Rightarrow> string" where
  "normalizeRedirectURIsJSON raw =
     (case um_string raw of
        Some s \<Rightarrow> trim_space s
      | None \<Rightarrow>
          (case (case um_array raw of None \<Rightarrow> None | Some arr \<Rightarrow> all_strings arr) of
             None \<Rightarrow> []
           | Some arr \<Rightarrow> join [CHR 0x0A] (filter (\<lambda>u. u \<noteq> []) (map trim_space arr))))"

text \<open>A member of another type than string leaves the variable empty.\<close>

definition string_member :: "obj \<Rightarrow> string \<Rightarrow> string" where
  "string_member m k =
     (case obj_get m k of None \<Rightarrow> [] | Some v \<Rightarrow> (case um_string v of None \<Rightarrow> [] | Some s \<Rightarrow> trim_space s))"

definition jsonAppFields :: "obj \<Rightarrow> string \<times> string \<times> string \<times> string" where
  "jsonAppFields m =
     (string_member m ''client_name'',
      (case obj_get m ''redirect_uris'' of None \<Rightarrow> [] | Some v \<Rightarrow> normalizeRedirectURIsJSON v),
      string_member m ''scopes'', string_member m ''website'')"

definition decodeAppsRegistrationRequest ::
  "('pub, 'priv, 'w) server \<Rightarrow> incoming \<Rightarrow> (string \<times> string \<times> string \<times> string) option" where
  "decodeAppsRegistrationRequest sv r =
     (case sv_mime sv (in_header r ''Content-Type'') of (ct0, params, _) \<Rightarrow>
       (let ct = go_lower (trim_space ct0)
        in if has_prefix ct ''multipart/form-data'' then
             (case (parse_form sv r, map_of params ''boundary'') of
                (Some vs, Some boundary) \<Rightarrow>
                  (case sv_multipart sv (in_body r) boundary of
                     Inl _ \<Rightarrow> None
                   | Inr parts \<Rightarrow> Some (formAppFields (vs @ parts)))
              | _ \<Rightarrow> None)
           else if has_prefix ct form_type then map_option formAppFields (parse_form sv r)
           else case read_body r 65536 of
             Inl _ \<Rightarrow> None
           | Inr b \<Rightarrow>
               (if trim_space b = [] then None
                else case json_decode (hd_env (sv_h sv)) b of
                  None \<Rightarrow> None
                | Some j \<Rightarrow> map_option jsonAppFields (um_object j))))"

definition postApps :: "('pub, 'priv, 'w) server \<Rightarrow> string \<Rightarrow> string \<Rightarrow> incoming \<Rightarrow> ('w sys, reply) eff" where
  "postApps sv rnd1 rnd2 r =
     (if r_method r \<noteq> ''POST'' then ret (writeAPIError 405 ''method not allowed'')
      else case decodeAppsRegistrationRequest sv r of
        None \<Rightarrow> ret (writeAPIError 400 ''invalid request body'')
      | Some (name, redirectURIs, scopes0, website) \<Rightarrow>
          (if trim_space redirectURIs = [] then ret (writeAPIError 400 ''redirect_uris required'')
           else let scopes = (if scopes0 = [] then ''read write'' else scopes0)
                in handle (on_db (InsertOAuthApplication rnd1 rnd2 name redirectURIs website scopes))
                     (\<lambda>_. ret (writeAPIError 500 ''could not create app''))
                     (\<lambda>(app, clientSecret).
                        let parts = go_fields (replace_char (CHR 0x0A) '' '' (trim_space redirectURIs));
                            redirectFirst = (case parts of [] \<Rightarrow> trim_space redirectURIs | p # _ \<Rightarrow> p)
                        in ret (writeJSONResponse 200 (JObj
                             [(''client_id'', JStr (ap_client_id app)), (''client_secret'', JStr clientSecret),
                              (''id'', JStr (itoa (ap_id app))), (''name'', JStr (ap_name app)),
                              (''redirect_uri'', JStr redirectFirst), (''redirect_uris'', JStr (trim_space redirectURIs)),
                              (''vapid_key'', JStr []), (''website'', JStr (ap_website app))])))))"

section \<open>Authorization\<close>

text \<open>The escaping of \<^verbatim>\<open>html/template\<close> in text and in quoted attributes.\<close>

definition template_escape :: "string \<Rightarrow> string" where
  "template_escape s = concat (map (\<lambda>c.
     if c = CHR 0x00 then [CHR 0xEF, CHR 0xBF, CHR 0xBD] else if c = CHR 0x22 then ''&#34;'' else if c = CHR ''&'' then ''&amp;''
     else if c = CHR 0x27 then ''&#39;'' else if c = CHR ''+'' then ''&#43;'' else if c = CHR ''<'' then ''&lt;''
     else if c = CHR ''>'' then ''&gt;'' else [c]) s)"

definition hidden_input :: "string \<Rightarrow> string \<Rightarrow> string" where
  "hidden_input name v = ''<input type='' @ quoted ''hidden'' @ '' name='' @ quoted name @ '' value='' @ quoted (template_escape v) @
     ''>'' @ [CHR 0x0A]"

definition oauthFormHTML :: "string \<Rightarrow> qvalues \<Rightarrow> string" where
  "oauthFormHTML host q =
     ''<!DOCTYPE html>'' @ [CHR 0x0A] @ ''<html><head><meta charset='' @ quoted ''utf-8'' @ ''><title>Authorize</title></head><body>'' @
     [CHR 0x0A] @ ''<h1>Sign in '' @ em_dash @ '' @'' @ template_escape host @ ''</h1>'' @ [CHR 0x0A] @
     ''<form method='' @ quoted ''post'' @ '' action='' @ quoted ''/oauth/authorize'' @ ''>'' @ [CHR 0x0A] @
     hidden_input ''client_id'' (values_get q ''client_id'') @ hidden_input ''redirect_uri'' (values_get q ''redirect_uri'') @
     hidden_input ''scope'' (values_get q ''scope'') @ hidden_input ''state'' (values_get q ''state'') @
     hidden_input ''code_challenge'' (values_get q ''code_challenge'') @
     hidden_input ''code_challenge_method'' (values_get q ''code_challenge_method'') @
     hidden_input ''response_type'' ''code'' @
     ''<p><label>Username <input name='' @ quoted ''username'' @ '' autocomplete='' @ quoted ''username'' @ '' required></label></p>'' @
     [CHR 0x0A] @ ''<p><label>Password <input name='' @ quoted ''password'' @ '' type='' @ quoted ''password'' @ '' autocomplete='' @
     quoted ''current-password'' @ '' required></label></p>'' @ [CHR 0x0A] @
     ''<p><button type='' @ quoted ''submit'' @ ''>Authorize</button></p>'' @ [CHR 0x0A] @ ''</form></body></html>'' @ [CHR 0x0A]"

definition getOAuthAuthorize :: "incoming \<Rightarrow> ('w sys, reply) eff" where
  "getOAuthAuthorize r = with_cfg (\<lambda>cfg.
     if r_method r \<noteq> ''GET'' then ret (oauthAuthorizeHTML 405 ''Method not allowed'')
     else let q = query_of r; clientID = values_get q ''client_id''; redirectURI = values_get q ''redirect_uri''
          in if values_get q ''response_type'' \<noteq> ''code'' then ret (oauthAuthorizeHTML 400 ''response_type must be code'')
             else if clientID = [] \<or> redirectURI = [] then ret (oauthAuthorizeHTML 400 ''client_id and redirect_uri are required'')
             else handle (on_db (OAuthApplicationByClientID clientID))
               (\<lambda>_. ret (oauthAuthorizeHTML 400 ''Unknown client_id''))
               (\<lambda>app. if \<not> RedirectURIAllowed (ap_redirect_uris app) redirectURI
                      then ret (oauthAuthorizeHTML 400 ''Invalid redirect_uri'')
                      else ret (html_reply (oauthFormHTML (instanceHost cfg) q))))"

text \<open>\<^verbatim>\<open>u.String()\<close> of a URL that may have a fragment.\<close>

definition url_string_fragment :: "url \<Rightarrow> string" where
  "url_string_fragment u =
     url_string u @ (if u_fragment u = [] then [] else CHR ''#'' # url_escape EncFragment (u_fragment u))"

definition authorized_location :: "url \<Rightarrow> string \<Rightarrow> string \<Rightarrow> string" where
  "authorized_location u code state =
     (let q = values_set (query_values (u_rawquery u)) ''code'' code;
          q' = (if state = [] then q else values_set q ''state'' state)
      in url_string_fragment (u\<lparr>u_rawquery := values_encode q'\<rparr>))"

definition postOAuthAuthorize :: "('pub, 'priv, 'w) server \<Rightarrow> string \<Rightarrow> int \<Rightarrow> incoming \<Rightarrow> ('w sys, reply) eff" where
  "postOAuthAuthorize sv rnd t r = with_cfg (\<lambda>cfg.
     if r_method r \<noteq> ''POST'' then ret (oauthAuthorizeHTML 405 ''Method not allowed'')
     else case parse_form sv r of
       None \<Rightarrow> ret (oauthAuthorizeHTML 400 ''Invalid form'')
     | Some f \<Rightarrow>
         (let redirectURI = values_get f ''redirect_uri''
          in handle (on_db (OAuthApplicationByClientID (values_get f ''client_id'')))
               (\<lambda>_. ret (oauthAuthorizeHTML 400 ''Unknown client_id''))
               (\<lambda>app.
             if \<not> RedirectURIAllowed (ap_redirect_uris app) redirectURI then ret (oauthAuthorizeHTML 400 ''Invalid redirect_uri'')
             else handle (on_db (AuthenticateLocalAccount (sv_bcrypt sv) (instanceHost cfg)
                                   (trim_space (values_get f ''username'')) (values_get f ''password'')))
               (\<lambda>_. ret (oauthAuthorizeHTML 401 ''Invalid username or password''))
               (\<lambda>actorID.
             handle (on_db (InsertAuthorizationCode rnd t (ap_id app) actorID redirectURI
                              (if values_get f ''scope'' = [] then ap_scopes app else values_get f ''scope'')
                              (values_get f ''code_challenge'') (values_get f ''code_challenge_method'')))
               (\<lambda>_. ret (oauthAuthorizeHTML 500 ''Could not create authorization code''))
               (\<lambda>code.
             case url_parse redirectURI of
               None \<Rightarrow> ret (oauthAuthorizeHTML 400 ''Invalid redirect URI'')
             | Some u \<Rightarrow> ret (redirect_to 302 (authorized_location u code (values_get f ''state''))))))))"

section \<open>Parameters of the token endpoint\<close>

definition token_fields :: "string list" where
  "token_fields = [''grant_type'', ''code'', ''client_id'', ''client_secret'', ''redirect_uri'', ''code_verifier'', ''scope'']"

definition merge_value :: "qvalues \<Rightarrow> string \<times> string \<Rightarrow> qvalues" where
  "merge_value vals p = (if values_get vals (fst p) = [] then values_set vals (fst p) (snd p) else vals)"

text \<open>\<^verbatim>\<open>json.Unmarshal\<close> into a struct of strings: a member of another type fails the whole.\<close>

definition mergeJSONFields :: "('pub, 'priv, 'w) server \<Rightarrow> string \<Rightarrow> qvalues \<Rightarrow> qvalues option" where
  "mergeJSONFields sv b vals =
     (case json_decode (hd_env (sv_h sv)) b of
        None \<Rightarrow> None
      | Some j \<Rightarrow>
          (if \<exists>k \<in> set token_fields. um_struct_string k j = None then None
           else Some (foldl merge_value vals
                  (filter (\<lambda>p. snd p \<noteq> []) (map (\<lambda>k. (k, trim_space (the (um_struct_string k j)))) token_fields)))))"

definition mergeForm :: "string \<Rightarrow> qvalues \<Rightarrow> qvalues option" where
  "mergeForm b vals =
     (case parse_query b of
        None \<Rightarrow> None
      | Some q \<Rightarrow> Some (vals @ filter (\<lambda>p. values_get vals (fst p) = []) q))"

definition mergeMultipart :: "('pub, 'priv, 'w) server \<Rightarrow> string \<Rightarrow> string \<Rightarrow> qvalues \<Rightarrow> qvalues option" where
  "mergeMultipart sv b boundary vals =
     (if boundary = [] then None
      else case sv_multipart sv b boundary of Inl _ \<Rightarrow> None | Inr parts \<Rightarrow> Some (foldl merge_value vals parts))"

definition basic_auth :: "'a request_scheme \<Rightarrow> (string \<times> string) option" where
  "basic_auth r =
     (let a = in_header r ''Authorization''
      in if length a < 6 \<or> \<not> equal_fold (take 6 a) ''Basic '' then None
         else case base64_decode (drop 6 a) of
           None \<Rightarrow> None
         | Some cs \<Rightarrow> if cut_found (CHR '':'') cs then Some (cut_before (CHR '':'') cs, cut_after (CHR '':'') cs) else None)"

definition token_body :: "('pub, 'priv, 'w) server \<Rightarrow> incoming \<Rightarrow> string \<Rightarrow> qvalues \<Rightarrow> qvalues option" where
  "token_body sv r body vals =
     (let (ct, params) = (case sv_mime sv (in_header r ''Content-Type'') of (c, ps, ok) \<Rightarrow> if ok then (c, ps) else ([], []));
          looksJSON = has_prefix body ''{'';
          retry = (\<lambda>v. if values_get v ''grant_type'' = [] \<and> looksJSON then mergeJSONFields sv body v else Some v)
      in if has_prefix ct ''multipart/form-data'' then
           Option.bind (if body = [] then Some vals
                        else mergeMultipart sv body (case map_of params ''boundary'' of None \<Rightarrow> [] | Some bd \<Rightarrow> bd) vals) retry
         else if ct = ''application/json'' \<or> has_suffix ct ''+json'' then
           (if body = [] then Some vals else mergeJSONFields sv body vals)
         else if has_prefix ct form_type then
           Option.bind (if body = [] then Some vals else mergeForm body vals) retry
         else if body = [] then Some vals
         else if looksJSON then mergeJSONFields sv body vals
         else mergeForm body vals)"

definition parseOAuthTokenParams :: "('pub, 'priv, 'w) server \<Rightarrow> incoming \<Rightarrow> qvalues option" where
  "parseOAuthTokenParams sv r =
     (case read_body r 1048576 of
        Inl _ \<Rightarrow> None
      | Inr raw \<Rightarrow>
          (let body = trim_prefix (trim_space raw) [CHR 0xEF, CHR 0xBB, CHR 0xBF]
           in case token_body sv r body (query_of r) of
                None \<Rightarrow> None
              | Some vals \<Rightarrow>
                  (case basic_auth r of
                     None \<Rightarrow> Some vals
                   | Some (cid, secret) \<Rightarrow> Some (merge_value (merge_value vals (''client_id'', cid)) (''client_secret'', secret)))))"

section \<open>Tokens\<close>

definition scope_words :: "string \<Rightarrow> string list" where
  "scope_words s = go_fields (replace_char (CHR ''+'') '' '' (trim_space s))"

definition oauthScopesSubset :: "string \<Rightarrow> string \<Rightarrow> bool" where
  "oauthScopesSubset requested allowed \<longleftrightarrow> list_all (\<lambda>s. s \<in> set (scope_words allowed)) (scope_words requested)"

definition writeOAuthTokenOK :: "int \<Rightarrow> string \<Rightarrow> string \<Rightarrow> reply" where
  "writeOAuthTokenOK t rawTok scopes = writeJSONResponse 200 (JObj
     [(''access_token'', JStr rawTok), (''created_at'', JNum (itoa (t div 10 ^ 9))), (''scope'', JStr scopes),
      (''token_type'', JStr ''Bearer'')])"

definition pkceVerify :: "string \<Rightarrow> auth_code \<Rightarrow> err + unit" where
  "pkceVerify verifier row =
     (if Challenge row = [] then Inr ()
      else let v = trim_space verifier
           in if v = [] then Inl (Msg ''code_verifier required'')
              else let meth0 = map upper_char (trim_space (ChallengeMeth row));
                       meth = (if meth0 = [] then ''S256'' else meth0)
                   in if meth = ''S256'' then
                        (if base64_raw_url (sha256 v) \<noteq> Challenge row then Inl (Msg ''invalid code_verifier'') else Inr ())
                      else if meth = ''PLAIN'' then
                        (if v \<noteq> Challenge row then Inl (Msg ''invalid code_verifier'') else Inr ())
                      else Inl (Msg ''unsupported code_challenge_method''))"

text \<open>A transaction whose body answers the request itself when it fails.\<close>

definition commit_if_ok :: "(db, reply + 'a) eff \<Rightarrow> (db, reply + 'a) eff" where
  "commit_if_ok m d = (case m d of (Inr (Inr x), d') \<Rightarrow> (Inr (Inr x), d') | (r, _) \<Rightarrow> (r, d))"

definition exchange_code :: "string \<Rightarrow> app_row \<Rightarrow> string \<Rightarrow> string \<Rightarrow> string \<Rightarrow> (db, reply + (string \<times> string)) eff" where
  "exchange_code rnd app code redirectURI verifier =
     handle (ConsumeAuthorizationCode code redirectURI)
       (\<lambda>_. ret (Inl (oauthTokenError 400 ''invalid_grant'' ''invalid or expired authorization code'')))
       (\<lambda>row.
     if ApplicationID row \<noteq> ap_id app
     then ret (Inl (oauthTokenError 400 ''invalid_grant'' ''authorization code was issued to another client''))
     else case pkceVerify verifier row of
       Inl e \<Rightarrow> ret (Inl (oauthTokenError 400 ''invalid_grant'' (error_text e)))
     | Inr _ \<Rightarrow>
         handle (InsertAccessTokenTx rnd (ApplicationID row) (ac_ActorID row) (ac_Scopes row))
           (\<lambda>_. ret (Inl (oauthTokenError 500 ''server_error'' ''could not create access token'')))
           (\<lambda>rawTok. ret (Inr (rawTok, ac_Scopes row))))"

text \<open>The checks of the client that both grants make.\<close>

definition client_app :: "string \<Rightarrow> string \<Rightarrow> (app_row \<Rightarrow> (db, reply + 'a) eff) \<Rightarrow> (db, reply + 'a) eff" where
  "client_app clientID clientSecret k =
     handle (OAuthApplicationByClientID clientID)
       (\<lambda>_. ret (Inl (oauthTokenError 401 ''invalid_client'' ''unknown client_id'')))
       (\<lambda>app. if \<not> VerifyClientSecret app clientSecret
              then ret (Inl (oauthTokenError 401 ''invalid_client'' ''invalid client_secret'')) else k app)"

definition answer_token :: "int \<Rightarrow> (db, reply + (string \<times> string)) eff \<Rightarrow> (db, reply) eff" where
  "answer_token t m = bind_eff m (\<lambda>x. case x of Inl rp \<Rightarrow> ret rp | Inr (tok, scopes) \<Rightarrow> ret (writeOAuthTokenOK t tok scopes))"

definition postOAuthTokenAuthorizationCode :: "string \<Rightarrow> int \<Rightarrow> qvalues \<Rightarrow> (db, reply) eff" where
  "postOAuthTokenAuthorizationCode rnd t vals =
     (let code = trim_space (values_get vals ''code''); clientID = trim_space (values_get vals ''client_id'');
          redirectURI = trim_space (values_get vals ''redirect_uri''); verifier = trim_space (values_get vals ''code_verifier'')
      in if code = [] \<or> clientID = [] \<or> redirectURI = []
         then ret (oauthTokenError 400 ''invalid_request'' ''code, client_id, and redirect_uri are required'')
         else answer_token t (client_app clientID (values_get vals ''client_secret'')
                (\<lambda>app. commit_if_ok (exchange_code rnd app code redirectURI verifier))))"

definition credentials_token :: "string \<Rightarrow> string \<Rightarrow> string \<Rightarrow> app_row \<Rightarrow> (db, reply + (string \<times> string)) eff" where
  "credentials_token rnd redirectURI scopeReq app =
     (if \<not> RedirectURIAllowed (ap_redirect_uris app) redirectURI
      then ret (Inl (oauthTokenError 400 ''invalid_request'' ''invalid redirect_uri''))
      else if \<not> oauthScopesSubset scopeReq (ap_scopes app)
      then ret (Inl (oauthTokenError 400 ''invalid_scope'' ''The requested scope is invalid, unknown, or malformed.''))
      else commit_if_ok (handle (InsertAppAccessTokenTx rnd (ap_id app) scopeReq)
             (\<lambda>_. ret (Inl (oauthTokenError 500 ''server_error'' ''could not create access token'')))
             (\<lambda>rawTok. ret (Inr (rawTok, scopeReq)))))"

definition postOAuthTokenClientCredentials :: "string \<Rightarrow> int \<Rightarrow> qvalues \<Rightarrow> (db, reply) eff" where
  "postOAuthTokenClientCredentials rnd t vals =
     (let clientID = trim_space (values_get vals ''client_id''); redirectURI = trim_space (values_get vals ''redirect_uri'');
          scope0 = trim_space (values_get vals ''scope''); scopeReq = (if scope0 = [] then ''read'' else scope0)
      in if clientID = [] \<or> redirectURI = []
         then ret (oauthTokenError 400 ''invalid_request'' ''client_id, client_secret, and redirect_uri are required'')
         else answer_token t (client_app clientID (values_get vals ''client_secret'') (credentials_token rnd redirectURI scopeReq)))"

definition postOAuthToken :: "('pub, 'priv, 'w) server \<Rightarrow> string \<Rightarrow> int \<Rightarrow> incoming \<Rightarrow> ('w sys, reply) eff" where
  "postOAuthToken sv rnd t r =
     (if r_method r \<noteq> ''POST'' then ret (oauthTokenError 405 ''invalid_request'' ''method not allowed'')
      else case parseOAuthTokenParams sv r of
        None \<Rightarrow> ret (oauthTokenError 400 ''invalid_request'' ''invalid request body'')
      | Some vals \<Rightarrow>
          (let grantType = trim_space (values_get vals ''grant_type'')
           in if grantType = [] then ret (oauthTokenError 400 ''invalid_request'' ''grant_type is required'')
              else if go_lower grantType = ''authorization_code'' then on_db (postOAuthTokenAuthorizationCode rnd t vals)
              else if go_lower grantType = ''client_credentials'' then on_db (postOAuthTokenClientCredentials rnd t vals)
              else ret (oauthTokenError 400 ''unsupported_grant_type'' ''grant type is not supported'')))"

definition postOAuthRevoke :: "incoming \<Rightarrow> ('w sys, reply) eff" where
  "postOAuthRevoke r =
     (if r_method r \<noteq> ''POST'' then ret (writeAPIError 405 ''method not allowed'')
      else ret (writeJSONResponse 200 (JObj [])))"

section \<open>The exchange of a code\<close>

lemma commit_if_ok_Inr: "commit_if_ok m d = (Inr (Inr x), d') \<longleftrightarrow> m d = (Inr (Inr x), d')"
  by (auto simp: commit_if_ok_def split: prod.splits sum.splits)

lemma commit_if_ok_Inl: "commit_if_ok m d = (Inr (Inl rp), d') \<Longrightarrow> d' = d"
  by (auto simp: commit_if_ok_def split: prod.splits sum.splits)

lemma handle_ok_cases:
  assumes "handle m (\<lambda>e. ret (Inl (g e))) k d = (Inr (Inr x), d')"
  obtains y d1 where "m d = (Inr y, d1)" "k y d1 = (Inr (Inr x), d')"
  using assms by (cases "m d"; cases "fst (m d)") (auto simp: handle_apply eff_apply)

lemma OAuthApplication_found:
  "OAuthApplicationByClientID cid d = (Inr app, d1) \<Longrightarrow> app \<in> set (d_apps d) \<and> ap_client_id app = cid \<and> d1 = d"
  by (auto simp: OAuthApplicationByClientID_def eff_apply dest: select_one_ok)

lemma client_app_ok:
  assumes "client_app cid secret k d = (Inr (Inr x), d')"
  obtains app where "app \<in> set (d_apps d)" "ap_client_id app = cid" "VerifyClientSecret app secret" "k app d = (Inr (Inr x), d')"
proof -
  from assms show ?thesis unfolding client_app_def
  proof (cases rule: handle_ok_cases)
    case (1 app d1)
    with that OAuthApplication_found [OF 1(1)] show ?thesis by (auto simp: eff_apply split: if_splits)
  qed
qed

definition code_spent :: "string \<Rightarrow> string \<Rightarrow> db \<Rightarrow> db \<Rightarrow> code_row \<Rightarrow> bool" where
  "code_spent code uri d d' c \<longleftrightarrow> c \<in> set (d_codes d) \<and> valid_code code uri d c \<and>
     d_codes d' = delete_where (valid_code code uri d) (d_codes d)"

lemma exchange_code_ok:
  assumes "exchange_code rnd app code uri verifier d = (Inr (Inr (tok, scopes)), d')"
  shows "\<exists>c row. code_spent code uri d d' c \<and> oc_app c = ap_id app \<and> scopes = oc_scopes c \<and>
     Challenge row = coalesce (oc_challenge c) \<and> ChallengeMeth row = coalesce (oc_method c) \<and> pkceVerify verifier row = Inr () \<and>
     ActorIDForAccessToken tok d' = (Inr (oc_actor c, ap_id app, scopes), d')"
  using assms unfolding exchange_code_def
proof (cases rule: handle_ok_cases)
  case (1 row d1)
  from ConsumeAuthorizationCode_ok [OF 1(1)] obtain c where c: "c \<in> set (d_codes d)" "valid_code code uri d c"
    "ApplicationID row = oc_app c" "ac_ActorID row = oc_actor c" "ac_Scopes row = oc_scopes c"
    "Challenge row = coalesce (oc_challenge c)" "ChallengeMeth row = coalesce (oc_method c)"
    "d1 = d\<lparr>d_codes := delete_where (valid_code code uri d) (d_codes d)\<rparr>" by blast
  from 1(2) have a: "ApplicationID row = ap_id app" by (auto simp: eff_apply split: if_splits)
  with 1(2) have p: "pkceVerify verifier row = Inr ()" by (cases "pkceVerify verifier row") (auto simp: eff_apply)
  with 1(2) a have "handle (InsertAccessTokenTx rnd (ApplicationID row) (ac_ActorID row) (ac_Scopes row))
           (\<lambda>_. ret (Inl (oauthTokenError 500 ''server_error'' ''could not create access token'')))
           (\<lambda>rawTok. ret (Inr (rawTok, ac_Scopes row))) d1 = (Inr (Inr (tok, scopes)), d')" by simp
  then obtain y d2 where t: "InsertAccessTokenTx rnd (ApplicationID row) (ac_ActorID row) (ac_Scopes row) d1 = (Inr y, d2)"
    and e: "ret (Inr (y, ac_Scopes row)) d2 = (Inr (Inr (tok, scopes)) :: err + reply + string \<times> string, d')"
    by (cases rule: handle_ok_cases)
  have i: "insert_token rnd (ap_id app) (Some (oc_actor c)) (oc_scopes c) d1 = (Inr tok, d')"
    using t e a c by (simp add: InsertAccessTokenTx_def eff_apply)
  have dc: "d_codes d' = d_codes d1"
    using i by (auto simp: insert_token_def Let_def statement_apply nextval_def bind_res_ok split: sum.splits if_splits)
  from insert_token_ok(1) [OF i] c a p e dc show ?thesis
    by (intro exI [of _ c] exI [of _ row]) (auto simp: code_spent_def eff_apply)
qed

lemma answer_token_ok:
  assumes "answer_token t m d = (Inr rp, d')" "rp_status rp = 200" "\<And>rp d1. m d = (Inr (Inl rp), d1) \<Longrightarrow> rp_status rp \<noteq> 200"
  obtains tok scopes where "m d = (Inr (Inr (tok, scopes)), d')" "rp = writeOAuthTokenOK t tok scopes"
  using assms by (cases "m d"; cases "fst (m d)") (auto simp: answer_token_def bind_apply eff_apply split: sum.splits)

lemma token_error_status [simp]: "rp_status (oauthTokenError st c e) = st"
  by (simp add: oauthTokenError_def writeJSONResponse_def)

lemma pkce_reply_status:
  "commit_if_ok (exchange_code rnd app code uri v) d = (Inr (Inl rp), d1) \<Longrightarrow> rp_status rp \<noteq> 200"
  by (auto simp: commit_if_ok_def exchange_code_def handle_apply eff_apply split: prod.splits sum.splits if_splits)

lemma client_app_reply:
  assumes "client_app cid secret k d = (Inr (Inl rp), d1)" "\<And>app d2. k app d = (Inr (Inl rp), d2) \<Longrightarrow> rp_status rp \<noteq> 200"
  shows "rp_status rp \<noteq> 200"
proof (cases "fst (OAuthApplicationByClientID cid d)")
  case (Inl e)
  with assms(1) show ?thesis by (auto simp: client_app_def handle_apply eff_apply)
next
  case (Inr app)
  then have "OAuthApplicationByClientID cid d = (Inr app, d)" by (simp add: OAuthApplicationByClientID_def eff_apply)
  with assms show ?thesis by (auto simp: client_app_def handle_apply eff_apply split: if_splits)
qed

text \<open>
  A code is exchanged only by the application it was issued to, which proves its secret and the
  PKCE verifier; the code is then gone and the token stands for the account and the scopes of the code.
\<close>

lemma code_exchange_ok:
  assumes "postOAuthTokenAuthorizationCode rnd t vals d = (Inr rp, d')" "rp_status rp = 200"
  shows "\<exists>app c tok row. rp = writeOAuthTokenOK t tok (oc_scopes c) \<and>
     app \<in> set (d_apps d) \<and> ap_client_id app = trim_space (values_get vals ''client_id'') \<and>
     VerifyClientSecret app (values_get vals ''client_secret'') \<and>
     code_spent (trim_space (values_get vals ''code'')) (trim_space (values_get vals ''redirect_uri'')) d d' c \<and>
     oc_app c = ap_id app \<and>
     Challenge row = coalesce (oc_challenge c) \<and> ChallengeMeth row = coalesce (oc_method c) \<and>
     pkceVerify (trim_space (values_get vals ''code_verifier'')) row = Inr () \<and>
     ActorIDForAccessToken tok d' = (Inr (oc_actor c, ap_id app, oc_scopes c), d')"
proof -
  let ?code = "trim_space (values_get vals ''code'')" and ?cid = "trim_space (values_get vals ''client_id'')"
  let ?uri = "trim_space (values_get vals ''redirect_uri'')" and ?v = "trim_space (values_get vals ''code_verifier'')"
  let ?m = "client_app ?cid (values_get vals ''client_secret'') (\<lambda>app. commit_if_ok (exchange_code rnd app ?code ?uri ?v))"
  have a: "answer_token t ?m d = (Inr rp, d')"
    using assms by (auto simp: postOAuthTokenAuthorizationCode_def Let_def eff_apply split: if_splits)
  obtain tok scopes where m: "?m d = (Inr (Inr (tok, scopes)), d')" and rp: "rp = writeOAuthTokenOK t tok scopes"
    by (rule answer_token_ok [OF a assms(2)]) (use client_app_reply pkce_reply_status in blast)+
  from m obtain app where app: "app \<in> set (d_apps d)" "ap_client_id app = ?cid"
    "VerifyClientSecret app (values_get vals ''client_secret'')"
    and k: "exchange_code rnd app ?code ?uri ?v d = (Inr (Inr (tok, scopes)), d')"
    by (rule client_app_ok) (auto simp: commit_if_ok_Inr)
  from exchange_code_ok [OF k] rp app show ?thesis by blast
qed

text \<open>An exchange that fails leaves everything as it was, the code included.\<close>

lemma client_app_keeps:
  assumes "\<And>app rp d1. k app d = (Inr (Inl rp), d1) \<Longrightarrow> d1 = d" "client_app cid secret k d = (Inr (Inl rp), d')"
  shows "d' = d"
proof (cases "fst (OAuthApplicationByClientID cid d)")
  case (Inl e)
  with assms(2) show ?thesis by (auto simp: client_app_def handle_apply eff_apply OAuthApplicationByClientID_def)
next
  case (Inr app)
  then have "OAuthApplicationByClientID cid d = (Inr app, d)" by (simp add: OAuthApplicationByClientID_def eff_apply)
  with assms show ?thesis by (auto simp: client_app_def handle_apply eff_apply split: if_splits)
qed

lemma token_ok_status [simp]: "rp_status (writeOAuthTokenOK t tok sc) = 200"
  by (simp add: writeOAuthTokenOK_def writeJSONResponse_def)

text \<open>
  C8: A code is exchanged only by the application it was issued to, which proves its secret and
  the PKCE verifier; the code is then gone and the token stands for the account and the scopes
  of the code.
\<close>

theorem authorization_code_grant:
  assumes "postOAuthTokenAuthorizationCode rnd t vals d = (Inr rp, d')" "rp_status rp = 200"
  shows "\<exists>app c tok row. rp = writeOAuthTokenOK t tok (oc_scopes c) \<and>
     app \<in> set (d_apps d) \<and> ap_client_id app = trim_space (values_get vals ''client_id'') \<and>
     VerifyClientSecret app (values_get vals ''client_secret'') \<and>
     code_spent (trim_space (values_get vals ''code'')) (trim_space (values_get vals ''redirect_uri'')) d d' c \<and>
     oc_app c = ap_id app \<and>
     Challenge row = coalesce (oc_challenge c) \<and> ChallengeMeth row = coalesce (oc_method c) \<and>
     pkceVerify (trim_space (values_get vals ''code_verifier'')) row = Inr () \<and>
     ActorIDForAccessToken tok d' = (Inr (oc_actor c, ap_id app, oc_scopes c), d')"
  by (rule code_exchange_ok [OF assms])

text \<open>
  C9: After a code was exchanged, a second request with it is refused, whoever makes it.
\<close>

theorem code_single_use:
  assumes "distinct (map oc_code (d_codes d))"
    and "postOAuthTokenAuthorizationCode rnd t vals d = (Inr rp, d')" "rp_status rp = 200"
    and "trim_space (values_get vals' ''code'') = trim_space (values_get vals ''code'')"
    and "postOAuthTokenAuthorizationCode rnd' t' vals' d' = (Inr rp', d'')"
  shows "rp_status rp' \<noteq> 200"
proof
  assume "rp_status rp' = 200"
  with code_exchange_ok [OF assms(5)] obtain c' where c': "c' \<in> set (d_codes d')"
    "oc_code c' = trim_space (values_get vals ''code'')"
    using assms(4) by (auto simp: code_spent_def valid_code_def)
  from code_exchange_ok [OF assms(2,3)] obtain c where c: "c \<in> set (d_codes d)"
    "valid_code (trim_space (values_get vals ''code'')) (trim_space (values_get vals ''redirect_uri'')) d c"
    "d_codes d' = delete_where (valid_code (trim_space (values_get vals ''code'')) (trim_space (values_get vals ''redirect_uri'')) d) (d_codes d)"
    by (auto simp: code_spent_def)
  from c' c have "c' \<in> set (d_codes d)" "c' \<noteq> c" by auto
  with distinct_map_inj [OF assms(1), of c' c] c c' show False by (auto simp: valid_code_def)
qed

lemma answer_token_error:
  assumes "answer_token t m d = (Inr rp, d')" "rp_status rp \<noteq> 200" "\<And>rp d1. m d = (Inr (Inl rp), d1) \<Longrightarrow> d1 = d"
  shows "d' = d"
  using assms by (cases "m d"; cases "fst (m d)") (auto simp: answer_token_def bind_apply eff_apply split: sum.splits)

lemma credentials_token_keeps: "credentials_token rnd uri sc app d = (Inr (Inl rp), d1) \<Longrightarrow> d1 = d \<and> rp_status rp \<noteq> 200"
  by (auto simp: credentials_token_def eff_apply commit_if_ok_def handle_apply split: if_splits prod.splits sum.splits)

lemma authorization_code_error:
  assumes "postOAuthTokenAuthorizationCode rnd t vals d = (Inr rp, d')" "rp_status rp \<noteq> 200"
  shows "d' = d"
proof -
  let ?code = "trim_space (values_get vals ''code'')" and ?cid = "trim_space (values_get vals ''client_id'')"
  let ?uri = "trim_space (values_get vals ''redirect_uri'')" and ?v = "trim_space (values_get vals ''code_verifier'')"
  consider "d' = d" | "answer_token t (client_app ?cid (values_get vals ''client_secret'')
      (\<lambda>app. commit_if_ok (exchange_code rnd app ?code ?uri ?v))) d = (Inr rp, d')"
    using assms(1) by (auto simp: postOAuthTokenAuthorizationCode_def Let_def eff_apply split: if_splits)
  then show ?thesis
  proof cases
    case 2
    then show ?thesis
      by (rule answer_token_error [OF _ assms(2)]) (rule client_app_keeps [rotated], assumption, erule commit_if_ok_Inl)
  qed
qed

lemma client_credentials_error:
  assumes "postOAuthTokenClientCredentials rnd t vals d = (Inr rp, d')" "rp_status rp \<noteq> 200"
  shows "d' = d"
proof -
  consider "d' = d" | cid secret uri sc where "answer_token t (client_app cid secret (credentials_token rnd uri sc)) d = (Inr rp, d')"
    using assms(1) by (auto simp: postOAuthTokenClientCredentials_def Let_def eff_apply split: if_splits)
  then show ?thesis
  proof cases
    case 2
    then show ?thesis
      by (rule answer_token_error [OF _ assms(2)]) (rule client_app_keeps [rotated], assumption, drule credentials_token_keeps, simp)
  qed
qed

lemma on_db_result: "on_db m s = (r, s') \<longleftrightarrow> m (s_db s) = (r, s_db s') \<and> s' = s\<lparr>s_db := s_db s'\<rparr>"
  by (cases "m (s_db s)") (auto simp: on_db_apply)

text \<open>
  A token request that is refused changes nothing in the database.
\<close>

theorem token_error_keeps:
  assumes "postOAuthToken sv rnd t r s = (Inr rp, s')" "rp_status rp \<noteq> 200"
  shows "s_db s' = s_db s"
  using assms
  by (auto simp: postOAuthToken_def Let_def eff_apply on_db_result split: if_splits option.splits
      dest: authorization_code_error client_credentials_error)

section \<open>Client credentials\<close>

lemma credentials_token_ok:
  assumes "credentials_token rnd uri sc app d = (Inr (Inr (tok, scopes)), d')"
  shows "RedirectURIAllowed (ap_redirect_uris app) uri \<and> set (scope_words scopes) \<subseteq> set (scope_words (ap_scopes app)) \<and>
    ActorIDForAccessToken tok d' = (Inr (0, ap_id app, scopes), d')"
proof -
  have r: "RedirectURIAllowed (ap_redirect_uris app) uri" "oauthScopesSubset sc (ap_scopes app)"
    using assms by (auto simp: credentials_token_def eff_apply split: if_splits)
  with assms have "handle (InsertAppAccessTokenTx rnd (ap_id app) sc)
             (\<lambda>_. ret (Inl (oauthTokenError 500 ''server_error'' ''could not create access token'')))
             (\<lambda>rawTok. ret (Inr (rawTok, sc))) d = (Inr (Inr (tok, scopes)), d')"
    by (simp add: credentials_token_def commit_if_ok_Inr)
  then obtain y d1 where "InsertAppAccessTokenTx rnd (ap_id app) sc d = (Inr y, d1)"
    "ret (Inr (y, sc)) d1 = (Inr (Inr (tok, scopes)) :: err + reply + string \<times> string, d')"
    by (rule handle_ok_cases)
  then have "insert_token rnd (ap_id app) None sc d = (Inr tok, d')" "scopes = sc"
    by (auto simp: InsertAppAccessTokenTx_def eff_apply)
  with insert_token_ok(1) [of rnd "ap_id app" None sc d tok d'] r show ?thesis
    by (auto simp: oauthScopesSubset_def list_all_iff)
qed

text \<open>
  A client obtains a token without an account only with its secret, a registered redirect
  URI and scopes among those it registered; the token stands for no account.
\<close>

theorem client_credentials_grant:
  assumes "postOAuthTokenClientCredentials rnd t vals d = (Inr rp, d')" "rp_status rp = 200"
  shows "\<exists>app tok scopes. rp = writeOAuthTokenOK t tok scopes \<and>
     app \<in> set (d_apps d) \<and> ap_client_id app = trim_space (values_get vals ''client_id'') \<and>
     VerifyClientSecret app (values_get vals ''client_secret'') \<and>
     RedirectURIAllowed (ap_redirect_uris app) (trim_space (values_get vals ''redirect_uri'')) \<and>
     set (scope_words scopes) \<subseteq> set (scope_words (ap_scopes app)) \<and>
     ActorIDForAccessToken tok d' = (Inr (0, ap_id app, scopes), d')"
proof -
  let ?cid = "trim_space (values_get vals ''client_id'')" and ?uri = "trim_space (values_get vals ''redirect_uri'')"
  obtain sc where a: "answer_token t (client_app ?cid (values_get vals ''client_secret'') (credentials_token rnd ?uri sc)) d = (Inr rp, d')"
    using assms by (auto simp: postOAuthTokenClientCredentials_def Let_def eff_apply split: if_splits)
  obtain tok scopes where m: "client_app ?cid (values_get vals ''client_secret'') (credentials_token rnd ?uri sc) d = (Inr (Inr (tok, scopes)), d')"
    and rp: "rp = writeOAuthTokenOK t tok scopes"
    by (rule answer_token_ok [OF a assms(2)]) (use client_app_reply credentials_token_keeps in blast)+
  from m obtain app where app: "app \<in> set (d_apps d)" "ap_client_id app = ?cid"
    "VerifyClientSecret app (values_get vals ''client_secret'')" "credentials_token rnd ?uri sc app d = (Inr (Inr (tok, scopes)), d')"
    by (rule client_app_ok)
  from credentials_token_ok [OF app(4)] app(1-3) rp show ?thesis by blast
qed

text \<open>Such a token opens no route of the client API.\<close>

lemma actorIDFromBearer_some:
  "actorIDFromBearer r d = (Inr (Some aid), d') \<Longrightarrow>
   \<exists>tok app scopes. bearer_token r = Some tok \<and> aid \<noteq> 0 \<and> fst (ActorIDForAccessToken tok d) = Inr (aid, app, scopes)"
  by (auto simp: actorIDFromBearer_def handle_apply eff_apply split: option.splits sum.splits if_splits)

lemma actorIDFromBearer_keeps [preserved]: "preserves P (actorIDFromBearer r)"
  unfolding actorIDFromBearer_def ActorIDForAccessToken_def by (intro preserved)

text \<open>
  A handler behind the bearer check runs only for a token of the database that belongs to an
  account, and it runs for that account.
\<close>

theorem bearer_needs_account:
  assumes "bearer k r s = (Inr rp, s')" "rp_status rp \<noteq> 401"
  shows "\<exists>tok aid app scopes. bearer_token r = Some tok \<and> aid \<noteq> 0 \<and>
     fst (ActorIDForAccessToken tok (s_db s)) = Inr (aid, app, scopes) \<and> k r aid s = (Inr rp, s')"
proof -
  obtain x d1 where b: "actorIDFromBearer r (s_db s) = (x, d1)" by (cases rule: prod.exhaust)
  have d: "d1 = s_db s" using preservesD [OF actorIDFromBearer_keeps [of "\<lambda>d. d = s_db s" r], of "s_db s"] b by simp
  obtain aid where x: "x = Inr (Some aid)"
    using assms b by (cases x) (auto simp: bearer_def bind_apply on_db_apply eff_apply writeAPIError_def writeJSONResponse_def split: option.splits)
  with assms b d have "k r aid s = (Inr rp, s')" by (simp add: bearer_def bind_apply on_db_apply)
  with actorIDFromBearer_some b x show ?thesis by blast
qed

section \<open>Authorization\<close>

lemma InsertAuthorizationCode_ok:
  assumes "InsertAuthorizationCode rnd t app actor uri sc ch me d = (Inr code, d')"
  shows "\<exists>c. d_codes d' = d_codes d @ [c] \<and> oc_code c = code \<and> oc_app c = app \<and> oc_actor c = actor \<and>
    oc_redirect_uri c = uri \<and> oc_scopes c = sc \<and> oc_expires c = t + code_ttl"
  using assms
  by (auto simp: InsertAuthorizationCode_def Let_def statement_apply nextval_def bind_res_ok insert_on_def split: sum.splits if_splits)

text \<open>How a code row comes from the form \<open>f\<close> of the request.\<close>

definition issued_to :: "('pub, 'priv, 'w) server \<Rightarrow> config \<Rightarrow> db \<Rightarrow> qvalues \<Rightarrow> int \<Rightarrow> app_row \<Rightarrow> code_row \<Rightarrow> bool" where
  "issued_to sv cfg d f t app c \<longleftrightarrow>
     app \<in> set (d_apps d) \<and> ap_client_id app = values_get f ''client_id'' \<and>
     RedirectURIAllowed (ap_redirect_uris app) (values_get f ''redirect_uri'') \<and>
     fst (AuthenticateLocalAccount (sv_bcrypt sv) (instanceHost cfg) (trim_space (values_get f ''username''))
            (values_get f ''password'') d) = Inr (oc_actor c) \<and>
     oc_app c = ap_id app \<and> oc_redirect_uri c = values_get f ''redirect_uri'' \<and> oc_expires c = t + code_ttl \<and>
     oc_scopes c = (if values_get f ''scope'' = [] then ap_scopes app else values_get f ''scope'')"

lemma on_db_ret:
  "(handle (on_db m) (\<lambda>e. ret (h e)) k s = (Inr rp, s')) =
   (case fst (m (s_db s)) of Inl e \<Rightarrow> rp = h e \<and> s' = s\<lparr>s_db := snd (m (s_db s))\<rparr>
    | Inr x \<Rightarrow> k x (s\<lparr>s_db := snd (m (s_db s))\<rparr>) = (Inr rp, s'))"
  by (auto simp: handle_apply on_db_apply eff_apply split: sum.splits)

lemma html_status [simp]: "rp_status (oauthAuthorizeHTML st m) = st"
  by (simp add: oauthAuthorizeHTML_def)

lemma lookups_same_db [simp]:
  "snd (OAuthApplicationByClientID cid d) = d" "snd (AuthenticateLocalAccount b dm u pw d) = d"
  by (simp_all add: OAuthApplicationByClientID_def AuthenticateLocalAccount_def eff_apply)

text \<open>
  C37: A code leaves only to an address the application registered, after the password was
  checked; it is bound to the application, the account, the address and the scopes that were
  asked for.
\<close>

theorem postOAuthAuthorize_code:
  assumes "postOAuthAuthorize sv rnd t r s = (Inr rp, s')" "rp_status rp = 302"
  shows "\<exists>f app c u. parse_form sv r = Some f \<and> issued_to sv (s_cfg s) (s_db s) f t app c \<and>
     d_codes (s_db s') = d_codes (s_db s) @ [c] \<and> url_parse (values_get f ''redirect_uri'') = Some u \<and>
     rp_location rp = authorized_location u (oc_code c) (values_get f ''state'')"
proof -
  have m: "r_method r = ''POST''" using assms by (auto simp: postOAuthAuthorize_def with_cfg_def eff_apply split: if_splits)
  obtain f where f: "parse_form sv r = Some f"
    using assms m by (cases "parse_form sv r") (auto simp: postOAuthAuthorize_def with_cfg_def eff_apply)
  note P = postOAuthAuthorize_def with_cfg_def m f Let_def on_db_ret eff_apply
  obtain app where a: "fst (OAuthApplicationByClientID (values_get f ''client_id'') (s_db s)) = Inr app"
    using assms by (cases "fst (OAuthApplicationByClientID (values_get f ''client_id'') (s_db s))") (auto simp: P)
  then have app: "app \<in> set (d_apps (s_db s))" "ap_client_id app = values_get f ''client_id''"
    using OAuthApplication_found [of "values_get f ''client_id''" "s_db s" app "s_db s"] by (auto simp: prod_eq_iff)
  have ru: "RedirectURIAllowed (ap_redirect_uris app) (values_get f ''redirect_uri'')"
    using assms by (cases "RedirectURIAllowed (ap_redirect_uris app) (values_get f ''redirect_uri'')") (auto simp: P a)
  let ?auth = "AuthenticateLocalAccount (sv_bcrypt sv) (instanceHost (s_cfg s)) (trim_space (values_get f ''username''))
            (values_get f ''password'') (s_db s)"
  obtain actor where au: "fst ?auth = Inr actor" using assms by (cases "fst ?auth") (auto simp: P a ru)
  let ?ins = "InsertAuthorizationCode rnd t (ap_id app) actor (values_get f ''redirect_uri'')
     (if values_get f ''scope'' = [] then ap_scopes app else values_get f ''scope'')
     (values_get f ''code_challenge'') (values_get f ''code_challenge_method'') (s_db s)"
  obtain code where c: "fst ?ins = Inr code" using assms by (cases "fst ?ins") (auto simp: P a ru au)
  obtain u where u: "url_parse (values_get f ''redirect_uri'') = Some u"
    using assms by (cases "url_parse (values_get f ''redirect_uri'')") (auto simp: P a ru au c)
  have e: "rp = redirect_to 302 (authorized_location u code (values_get f ''state''))" "s_db s' = snd ?ins"
    using assms by (auto simp: P a ru au c u)
  have "?ins = (Inr code, s_db s')" using c e(2) by (simp add: prod_eq_iff)
  from InsertAuthorizationCode_ok [OF this] f app ru au u e(1) show ?thesis
    by (auto simp: issued_to_def redirect_to_def)
qed

section \<open>PKCE\<close>


section \<open>Parameters\<close>

text \<open>A parameter of the query is never replaced by the body or by the client's credentials.\<close>

lemma merge_value_keeps: "values_get vals k \<noteq> [] \<Longrightarrow> values_get (merge_value vals p) k = values_get vals k"
  by (auto simp: merge_value_def)

lemma foldl_merge_keeps: "values_get vals k \<noteq> [] \<Longrightarrow> values_get (foldl merge_value vals ps) k = values_get vals k"
  by (induction ps arbitrary: vals) (auto simp: merge_value_keeps)

lemma values_get_append: "values_get vals k \<noteq> [] \<Longrightarrow> values_get (vals @ q) k = values_get vals k"
  by (auto simp: values_get_def map_add_def split: option.splits)

lemma merges_keep:
  "mergeJSONFields sv b vals = Some vals' \<Longrightarrow> values_get vals k \<noteq> [] \<Longrightarrow> values_get vals' k = values_get vals k"
  "mergeForm b vals = Some vals' \<Longrightarrow> values_get vals k \<noteq> [] \<Longrightarrow> values_get vals' k = values_get vals k"
  "mergeMultipart sv b bd vals = Some vals' \<Longrightarrow> values_get vals k \<noteq> [] \<Longrightarrow> values_get vals' k = values_get vals k"
  by (auto simp: mergeJSONFields_def mergeForm_def mergeMultipart_def foldl_merge_keeps values_get_append
      split: option.splits if_splits sum.splits)

lemma token_body_keeps:
  assumes "token_body sv r body vals = Some vals'" "values_get vals k \<noteq> []"
  shows "values_get vals' k = values_get vals k"
proof -
  define retry where "retry = (\<lambda>v. if values_get v ''grant_type'' = [] \<and> has_prefix body ''{'' then mergeJSONFields sv body v else Some v)"
  have retry: "values_get v' k = values_get vals k" if "retry v = Some v'" "values_get v k = values_get vals k" for v v'
    using that assms(2) merges_keep(1) [of sv body v v' k] by (auto simp: retry_def split: if_splits)
  have twice: "values_get vals' k = values_get vals k"
    if h: "Option.bind (if body = [] then Some vals else m) retry = Some vals'" "\<And>v. m = Some v \<Longrightarrow> values_get v k = values_get vals k" for m
  proof -
    obtain v where v: "(if body = [] then Some vals else m) = Some v" "retry v = Some vals'"
      using h(1) unfolding bind_eq_Some_conv by blast
    have "values_get v k = values_get vals k" by (cases "body = []") (use v(1) h(2) in simp_all)
    from retry [OF v(2) this] show ?thesis .
  qed
  obtain ct params where c: "(case sv_mime sv (in_header r ''Content-Type'') of (c, ps, ok) \<Rightarrow> if ok then (c, ps) else ([], [])) = (ct, params)"
    by (cases rule: prod.exhaust)
  let ?multi = "mergeMultipart sv body (case map_of params ''boundary'' of None \<Rightarrow> [] | Some bd \<Rightarrow> bd) vals"
  have "token_body sv r body vals =
     (if has_prefix ct ''multipart/form-data'' then Option.bind (if body = [] then Some vals else ?multi) retry
      else if ct = ''application/json'' \<or> has_suffix ct ''+json'' then (if body = [] then Some vals else mergeJSONFields sv body vals)
      else if has_prefix ct form_type then Option.bind (if body = [] then Some vals else mergeForm body vals) retry
      else if body = [] then Some vals
      else if has_prefix body ''{'' then mergeJSONFields sv body vals else mergeForm body vals)"
    by (simp only: token_body_def c prod.case Let_def retry_def)
  with assms(1) consider "Option.bind (if body = [] then Some vals else ?multi) retry = Some vals'"
    | "Option.bind (if body = [] then Some vals else mergeForm body vals) retry = Some vals'"
    | "Some vals = Some vals'" | "mergeJSONFields sv body vals = Some vals'" | "mergeForm body vals = Some vals'"
    by (simp only: split: if_splits)
  then show ?thesis
  proof cases
    case 1
    then show ?thesis by (rule twice) (rule merges_keep(3) [OF _ assms(2)])
  next
    case 2
    then show ?thesis by (rule twice) (rule merges_keep(2) [OF _ assms(2)])
  next
    case 4
    then show ?thesis by (rule merges_keep(1) [OF _ assms(2)])
  next
    case 5
    then show ?thesis by (rule merges_keep(2) [OF _ assms(2)])
  qed simp
qed

lemma parseOAuthTokenParams_query:
  assumes "parseOAuthTokenParams sv r = Some vals" "values_get (query_of r) k \<noteq> []"
  shows "values_get vals k = values_get (query_of r) k"
proof -
  obtain body v where v: "token_body sv r body (query_of r) = Some v"
    and vals: "vals = v \<or> (\<exists>cid secret. vals = merge_value (merge_value v (''client_id'', cid)) (''client_secret'', secret))"
    using assms(1) by (auto simp: parseOAuthTokenParams_def Let_def split: sum.splits option.splits)
  from token_body_keeps [OF v assms(2)] vals assms(2) show ?thesis by (auto simp: merge_value_keeps)
qed

end
