(* ===== verification/SampleHttp.thy ===== *)
theory SampleHttp
  imports Sample OAuth ApGet Outbox
begin

text \<open>
  Handlers and requests to try the properties of the endpoints on: the server of \<open>Sample\<close> with its
  account, and the requests of \<^verbatim>\<open>bob\<close>, signed with his key.
\<close>

definition strict_policy :: policy where
  "strict_policy = \<lparr>AllowHTTP = False, relaxLocalFetch = False\<rparr>"

definition sample_handler :: "(string, string, request list) handler" where
  "sample_handler = \<lparr>hd_env = sample_fetchenv, hd_client = sample_client, hd_policy = strict_policy,
     hd_inboxMaxBody = 1048576, hd_store = True, hd_queue = Some SqlQueue, hd_ids = Some [(''alice'', 1)],
     hd_actorPEM = ''pub'', hd_instancePEM = ''pub'', hd_encode_pub = (\<lambda>_. Inr ''pub'')\<rparr>"

definition inbox_url :: url where
  "inbox_url = the (url_parse ''https://a.example/inbox'')"

definition bob_key :: string where
  "bob_key = ''https://b.example/bob#key''"

text \<open>The POST as it is before it is signed, and how it arrives.\<close>

definition inbox_post :: request where
  "inbox_post = \<lparr>r_method = ''POST'', r_url = inbox_url, r_host = ''a.example'', r_header = (\<lambda>_. [])\<rparr>"

definition arrived :: "request \<Rightarrow> request" where
  "arrived r = r\<lparr>r_host := u_host (r_url r), r_header := (r_header r)(''Host'' := [])\<rparr>"

definition with_body :: "request \<Rightarrow> string \<Rightarrow> incoming" where
  "with_body r body = request.extend r (incoming.fields body None)"

definition signed_post :: "string \<Rightarrow> request" where
  "signed_post body = projr (SignPost sample_sigenv inbox_post body bob_key ''key'')"

lemma transmitted_arrived: "transmitted r (arrived r)"
  by (simp add: transmitted_def arrived_def request_target_def Let_def)

lemma inbox_url_host: "u_host inbox_url = ''a.example''"
  by code_simp

lemma signed_post: "SignPost sample_sigenv inbox_post body bob_key ''key'' = Inr (signed_post body)"
  "r_header (signed_post body) ''Content-Type'' = [''application/activity+json'']"
  "r_header (signed_post body) ''Signature'' = [signature_value bob_key HeaderOrder ''key!'']"
  "r_method (signed_post body) = ''POST''"
  unfolding signed_post_def
  by (simp_all add: SignPost_def inbox_post_def inbox_url_host Let_def sign_with_def BuildSigningString_def HeaderOrder_def
    signing_line_def header_values_def sample_sigenv_def header_get_def)

lemma sample_keys: "keypair_ok sample_sigenv ''key'' ''key''" "plain_value bob_key" "clock_ok sample_sigenv"
  by (simp_all add: keypair_ok_def sample_sigenv_def plain_value_def bob_key_def clock_ok_def) code_simp

lemma signed_post_verifies: "VerifyRequest sample_sigenv (arrived (signed_post body)) body ''key'' = Inr ()"
  using SignPost_verifies [OF signed_post(1) transmitted_arrived sample_keys, of 0] by (simp add: sample_sigenv_def)

section \<open>A posted activity\<close>

definition posting_cfg :: config where
  "posting_cfg = sample_cfg\<lparr>OutboxPostSecret := ''s3cret''\<rparr>"

definition posting_sys :: "request list sys" where
  "posting_sys = sample_sys\<lparr>s_cfg := posting_cfg\<rparr>"

definition alices_post :: incoming where
  "alices_post = with_body (inbox_post\<lparr>r_header := (\<lambda>_. [])(''Authorization'' := [''Bearer s3cret''],
     ''Content-Type'' := [''application/activity+json''])\<rparr>) ''post''"

section \<open>A client of the Mastodon API\<close>

definition sample_app :: app_row where
  "sample_app = \<lparr>ap_id = 1, ap_client_id = ''app'', ap_secret_hash = hashSecret ''secret'',
     ap_redirect_uris = ''https://app.example/cb'', ap_name = ''App'', ap_website = [], ap_scopes = ''read write''\<rparr>"

definition sample_code :: code_row where
  "sample_code = \<lparr>oc_id = 1, oc_code = ''code'', oc_app = 1, oc_actor = 1, oc_redirect_uri = ''https://app.example/cb'',
     oc_scopes = ''read'', oc_challenge = None, oc_method = None, oc_expires = 100\<rparr>"

definition sample_token :: token_row where
  "sample_token = \<lparr>tk_id = 1, tk_hash = hashSecret ''token'', tk_app = 1, tk_actor = Some 1, tk_scopes = ''read''\<rparr>"

definition client_db :: db where
  "client_db = sample_db\<lparr>d_apps := [sample_app], d_codes := [sample_code], d_tokens := [sample_token],
     d_accounts := [\<lparr>la_actor = 1, la_hash = ''hash''\<rparr>]\<rparr>"

definition client_sys :: "request list sys" where
  "client_sys = sample_sys\<lparr>s_db := client_db\<rparr>"

definition sample_server :: "(string, string, request list) server" where
  "sample_server = \<lparr>sv_h = sample_handler, sv_mime = (\<lambda>ct. (ct, [], True)), sv_multipart = (\<lambda>_ _. Inl (Msg ''multipart'')),
     sv_bcrypt = (\<lambda>h p. h = ''hash'' \<and> p = ''password'')\<rparr>"

lemmas client_rows = sample_app_def sample_code_def sample_token_def client_db_def sample_db_def

end
