(* ===== verification/WitnessesNet.thy ===== *)
theory WitnessesNet
  imports SampleHttp
begin

text \<open>
  The properties of signatures, of outbound requests and of the configuration, applied to the
  sample.
\<close>

section \<open>Signatures\<close>

theorem VerifyRequest_sound_witness:
  "\<exists>names. signed_by sample_sigenv (arrived (signed_post ''like'')) ''key'' names"
  using VerifyRequest_sound [OF signed_post_verifies [of "''like''"]] by blast

theorem SignPost_accepted_witness:
  "VerifyRequest (sample_sigenv\<lparr>now := 60 * 10 ^ 9\<rparr>) (arrived (signed_post ''like'')) ''like'' ''key'' = Inr ()"
  by (rule SignPost_accepted [OF signed_post(1) transmitted_arrived sample_keys]) (simp add: sample_sigenv_def)

definition signed_get :: request where
  "signed_get = projr (SignGet sample_sigenv (inbox_post\<lparr>r_method := ''GET''\<rparr>) bob_key ''key'')"

theorem SignGet_accepted_witness:
  "VerifyGet (sample_sigenv\<lparr>now := 60 * 10 ^ 9\<rparr>) (arrived signed_get) ''key'' = Inr ()"
proof -
  have "SignGet sample_sigenv (inbox_post\<lparr>r_method := ''GET''\<rparr>) bob_key ''key'' = Inr signed_get"
    unfolding signed_get_def
    by (simp add: SignGet_def inbox_post_def inbox_url_host Let_def sign_with_def BuildSigningString_def GETHeaderOrder_def
      signing_line_def header_values_def sample_sigenv_def header_get_def)
  from SignGet_accepted [OF this transmitted_arrived sample_keys, of "60 * 10 ^ 9"] show ?thesis
    by (simp add: sample_sigenv_def)
qed

text \<open>A request whose signature names the date only.\<close>

definition dated_post :: request where
  "dated_post = \<lparr>r_method = ''POST'', r_url = inbox_url, r_host = ''a.example'',
     r_header = (\<lambda>_. [])(''Date'' := [''noon''], ''Digest'' := [DigestHeader ''like''],
       ''Signature'' := [signature_value bob_key [''date''] ''key!''])\<rparr>"

lemma dated_signature:
  "ParseSignatureHeader (req_get dated_post ''Signature'') = Inr [(''keyid'', bob_key), (''algorithm'', ''rsa-sha256''),
     (''headers'', ''date''), (''signature'', base64_encode ''key!'')]"
  using ParseSignatureHeader_signature_value [OF sample_keys(2), of "[''date'']" "''key!''"]
  by (simp add: dated_post_def header_get_def header_values_def plain_value_def)

lemma dated_post_verifies:
  "VerifyRequest sample_sigenv dated_post ''like'' ''key'' = Inr ()" "signed_by sample_sigenv dated_post ''key'' [''date'']"
proof -
  have f: "go_fields ''date'' = [''date'']" "base64_encode ''key!'' \<noteq> []" "verifyDateHeader sample_sigenv ''noon'' = Inr ()"
    "base64_decode (base64_encode ''key!'') = Some ''key!''" by code_simp+
  have b: "BuildSigningString dated_post [''date''] = Inr ''date: noon''"
    by (simp add: BuildSigningString_def signing_line_def dated_post_def header_values_def)
  show "signed_by sample_sigenv dated_post ''key'' [''date'']"
    using dated_signature b f by (simp add: signed_by_def param_def) (simp add: sample_sigenv_def)
  have "verify_signature sample_sigenv (\<lambda>_. Inr ()) dated_post ''key'' = Inr ()"
    using b f by (intro verify_signatureI [OF dated_signature])
      (simp_all add: param_def, simp_all add: sample_sigenv_def dated_post_def header_get_def header_values_def)
  then show "VerifyRequest sample_sigenv dated_post ''like'' ''key'' = Inr ()"
    by (simp add: VerifyRequest_def VerifyDigest_DigestHeader dated_post_def header_get_def header_values_def)
qed

theorem VerifyRequest_other_body_witness:
  "VerifyRequest sample_sigenv (req_set dated_post ''Digest'' (DigestHeader ''forged'')) ''forged'' ''key'' = Inr ()"
proof -
  have "\<forall>n \<in> set [''date'']. go_lower (trim_space n) \<noteq> ''digest''" by code_simp
  with VerifyRequest_other_body [OF dated_post_verifies] show ?thesis by blast
qed

section \<open>Outbound requests\<close>

definition private_lookup :: "string \<Rightarrow> err + ip option list" where
  "private_lookup _ = Inr [Some [93, 184, 216, 34], Some [10, 0, 0, 1]]"


theorem dialContext_mixed_witness:
  "snd (dialContext strict_policy private_lookup (\<lambda>t q. logged (\<lambda>_. Inr ()) (t, q)) ''b.example:443'' []) = []"
proof -
  have f: "split_host_port ''b.example:443'' = Inr (''b.example'', ''443'')" "ParseIP ''b.example'' = None"
    "\<not> public_ip [10, 0, 0, 1]" by code_simp+
  show ?thesis
    by (rule conjunct1 [OF dialContext_mixed [OF _ f(1,2) _ _ f(3)]], simp_all add: strict_policy_def private_lookup_def) simp
qed

theorem inboxURLFromReference_result_witness:
  "inbox_result (Some strict_policy) ''https://b.example/inbox''"
proof -
  have "fst (inboxURLFromReference sample_fetchenv sample_client (Some strict_policy) (Some sample_cfg) 5 [] ''https://b.example/bob'' [])
    = Inr ''https://b.example/inbox''" by code_simp
  then show ?thesis by (rule inboxURLFromReference_result)
qed

section \<open>Configuration\<close>

theorem LocalUsernameForActorURL_profile_witness:
  "LocalUsernameForActorURL sample_cfg (LocalActorProfileURL sample_cfg ''alice'') = Some ''alice''"
proof -
  have "config_wf sample_cfg" "plain_base sample_cfg ''https'' ''a.example''" "''alice'' \<in> set (LocalUsernames sample_cfg)"
    by code_simp+
  then show ?thesis by (rule LocalUsernameForActorURL_profile)
qed

end
