(* ===== verification/WitnessesQueue.thy ===== *)
theory WitnessesQueue
  imports Sample
begin

text \<open>The properties of the queues, of the worker, of the pages and of the likes, applied to the sample.\<close>

section \<open>Queues\<close>

theorem job_life_cycle_witness:
  "\<exists>j' \<in> set (d_jobs (fold run_sql [CallDequeue, CallNack 2 True] sample_db)). job_steps waiting_row j' \<and> j_id j' = 2"
proof -
  have "waiting_row \<in> set (d_jobs sample_db)" "j_id waiting_row = 2" by (simp_all add: sample_db_def waiting_row_def)
  with job_life_cycle [OF sample_db_wf, of waiting_row "[CallDequeue, CallNack 2 True]"] show ?thesis by auto
qed

theorem due_jobs_handed_out_witness:
  "fst (snd (run_calls SqlEnqueue SqlDequeue (replicate 1 Deq) sample_db)) =
     {#(TypeProcessInboxActivity, JObj [(''activityDbId'', JNum ''1'')])#}"
proof -
  obtain acc out d' where r: "run_calls SqlEnqueue SqlDequeue (replicate 1 Deq) sample_db = (acc, out, d')"
    by (metis prod_cases3)
  have d: "filter (due (d_now sample_db)) (d_jobs sample_db) = [waiting_row]"
    by (simp add: sample_db_def due_def deliver_row_def waiting_row_def)
  then have "length (filter (due (d_now sample_db)) (d_jobs sample_db)) \<le> 1" by simp
  from due_jobs_handed_out [OF sample_db_wf this r, unfolded d] r show ?thesis by (simp add: waiting_row_def)
qed

definition noop_job :: job where
  "noop_job = \<lparr>jb_type = TypeNoop, jb_payload = JNull, jb_key = ''noop'', jb_run_after = None\<rparr>"

theorem sql_queue_conserves_witness:
  "case run_calls SqlEnqueue SqlDequeue [Enq noop_job, Deq, Enq noop_job, Deq] sample_db of (acc, out, d') \<Rightarrow>
     sql_waiting sample_db + acc = out + sql_waiting d'"
proof -
  obtain acc out d' where r: "run_calls SqlEnqueue SqlDequeue [Enq noop_job, Deq, Enq noop_job, Deq] sample_db = (acc, out, d')"
    by (metis prod_cases3)
  show ?thesis unfolding r prod.case by (rule sql_queue_conserves [OF sample_db_wf r])
qed

theorem RedisDequeue_youngest_witness:
  "\<exists>l. fst (RedisDequeue (snd (RedisEnqueue noop_job (snd (RedisEnqueue (noop_job\<lparr>jb_type := TypeDeliverActivity\<rparr>)
     \<lparr>rd_id = 0, rd_list = []\<rparr>))))) = Inr (Some l) \<and> ls_type l = TypeNoop"
proof -
  let ?s1 = "RedisEnqueue (noop_job\<lparr>jb_type := TypeDeliverActivity\<rparr>) \<lparr>rd_id = 0, rd_list = []\<rparr>"
  let ?s2 = "RedisEnqueue noop_job (snd ?s1)"
  obtain l s3 where l: "RedisDequeue (snd ?s2) = (Inr (Some l), s3)"
    by (simp add: RedisDequeue_def RedisEnqueue_def statement_apply Let_def)
  from RedisDequeue_youngest [of _ _ "fst ?s1" "snd ?s1" noop_job "fst ?s2" "snd ?s2", OF _ _ l] l
  show ?thesis by (simp add: noop_job_def)
qed

section \<open>The worker\<close>

theorem nextDelivery_delay_exact_witness: "nextDelivery_delay 3 sample_cfg = 240 * 10 ^ 9"
proof -
  have "backoff_max sample_cfg * 1000000000 < 2 ^ 62" "backoff_init sample_cfg = 30" "backoff_max sample_cfg = 3600"
    by code_simp+
  with nextDelivery_delay_exact [of 3 sample_cfg] show ?thesis by simp
qed

lemma sample_attempts: "attempts_below (delivery_max (s_cfg sample_sys)) (d_jobs (s_db sample_sys))"
  by (simp add: attempts_below_def sample_sys_def sample_db_def deliver_row_def waiting_row_def delivery_max_def
      sample_cfg_def TypeDeliverActivity_def TypeProcessInboxActivity_def)

theorem worker_loop_invariant_witness: "db_wf (s_db (worker_runs sample_env 3 sample_sys))"
  using worker_loop_invariant [OF sample_sys_wf sample_attempts] by blast

definition sample_lease :: lease where
  "sample_lease = \<lparr>ls_id = 1, ls_type = TypeDeliverActivity, ls_payload = j_payload deliver_row, ls_attempts = 1\<rparr>"


theorem worker_step_requeues_witness:
  "\<exists>j' \<in> set (d_jobs (s_db (worker_step sample_env (lift_sql sql_backend) sample_sys))).
     j_id j' = 2 \<and> j_attempts j' = 1 \<and> due 10 j'"
proof -
  let ?l = "\<lparr>ls_id = 2, ls_type = TypeProcessInboxActivity, ls_payload = j_payload waiting_row, ls_attempts = 0\<rparr>"
  let ?d1 = "snd (SqlDequeue sample_db)"
  let ?p = "ProcessLease sample_env (lift_sql sql_backend) ?l (sample_sys\<lparr>s_db := ?d1\<rparr>)"
  have l: "SqlDequeue (s_db sample_sys) = (Inr (Some ?l), ?d1)"
    by (simp add: sample_sys_def) code_simp
  have "case ?p of (Inl e, s2) \<Rightarrow> d_jobs (s_db s2) = [deliver_row, waiting_row\<lparr>j_status := Processing, j_locked := Some 10\<rparr>] \<and>
      d_now (s_db s2) = 10 | _ \<Rightarrow> False" by code_simp
  then obtain e s2 where p: "?p = (Inl e, s2)" "d_now (s_db s2) = 10"
    "waiting_row\<lparr>j_status := Processing, j_locked := Some 10\<rparr> \<in> set (d_jobs (s_db s2))"
    by (auto split: prod.splits sum.splits)
  from worker_step_requeues [OF l _ p(1,3)] p(2) show ?thesis
    by (auto simp: processing_def waiting_row_def TypeProcessInboxActivity_def TypeDeliverActivity_def)
qed

section \<open>Pages\<close>

theorem OutboxPage_complete_witness:
  "all_pages 2 (\<lambda>c. fst (OutboxPage 2 1 c None sample_db)) None = [''https://b.example/a/1'']"
proof -
  have "length (d_activities sample_db) < 2" by (simp add: sample_db_def)
  from OutboxPage_complete [OF sample_db_wf this] show ?thesis
    by (simp add: sample_db_def bobs_activity_def order_desc_def)
qed

definition followed_db :: db where
  "followed_db = sample_db\<lparr>d_follows := [follow_of_alice\<lparr>f_state := ''accepted''\<rparr>]\<rparr>"

lemma followed_db_wf: "db_wf followed_db"
  unfolding db_wf_def actors_wf_def activities_wf_def objects_wf_def follows_wf_def edges_wf_def bookmarks_wf_def
    accounts_wf_def jobs_wf_def keyed_jobs_def actor_ids_def activity_ids_def follow_pair_def edge_pair_def
  by (simp add: followed_db_def sample_db_def sample_rows)

theorem FollowersPage_complete_witness:
  "all_pages 2 (\<lambda>c. fst (FollowersPage 1 1 c None followed_db)) None = [''https://b.example/bob'']"
proof -
  have "length (d_follows followed_db) < 2" by (simp add: followed_db_def)
  from FollowersPage_complete [OF followed_db_wf this] show ?thesis
    by (simp add: followed_db_def sample_db_def follow_of_alice_def order_desc_def) code_simp
qed

section \<open>Likes\<close>

theorem like_not_counted_witness:
  "fst (CountFederatedLikesOnObjectURL ''https://a.example/n/1/'' (snd (UpsertFederatedLike 2 ''https://a.example/n/1/'' ''l'' sample_db))) =
   fst (CountFederatedLikesOnObjectURL ''https://a.example/n/1/'' sample_db)"
proof -
  have "fst (UpsertFederatedLike 2 ''https://a.example/n/1/'' ''l'' sample_db) = Inr ()"
    "CanonicalActorURL ''https://a.example/n/1/'' \<noteq> ''https://a.example/n/1/''" by code_simp+
  then show ?thesis by (intro like_not_counted) (simp_all add: prod_eq_iff)
qed

end
