(* ===== verification/WitnessesHttp.thy ===== *)
theory WitnessesHttp
  imports SampleHttp
begin

text \<open>The properties of the federation endpoints, applied to the sample.\<close>

section \<open>The inbox\<close>

definition bobs_post :: incoming where
  "bobs_post = with_body (arrived (signed_post ''like'')) ''like''"

definition bobs_like :: "string signed_activity" where
  "bobs_like = \<lparr>sa_pub = ''key'', sa_fields = the (um_object like_document), sa_raw = like_document,
     sa_id = ''https://b.example/likes/1'', sa_type = ''Like'', sa_actor = ''https://b.example/bob''\<rparr>"

lemma bobs_post_parts:
  "r_method bobs_post = ''POST''" "in_header bobs_post ''Content-Type'' = ''application/activity+json''"
  "in_header bobs_post ''Signature'' = signature_value bob_key HeaderOrder ''key!''"
  "read_body bobs_post n = read_limited \<lparr>rs_status = 200, rs_body = ''like'', rs_read_err = None\<rparr> n"
  "to_request bobs_post = arrived (signed_post ''like'')"
  using signed_post [of "''like''"]
  by (simp_all add: bobs_post_def with_body_def in_header_def header_get_def header_values_def arrived_def read_body_def
      request.defs incoming.defs to_request_def)

lemma bobs_post_checked:
  "\<exists>net. check_signed sample_handler sample_cfg bobs_post sample_sys = (Inr (Inr bobs_like), sample_sys\<lparr>s_net := net\<rparr>)"
proof -
  have k: "fst (PublicKeyForKeyID sample_fetchenv sample_client (Some strict_policy) bob_key (Some sample_cfg) []) = Inr ''key''"
    by code_simp
  have p: "parse_activity (json_decode sample_fetchenv ''like'') =
      Inr (sa_fields bobs_like, sa_raw bobs_like, sa_id bobs_like, sa_type bobs_like, sa_actor bobs_like)" by code_simp
  have m: "signingActorMatchesKeyID bob_key (sa_actor bobs_like)" "isActivityJSONContentType ''application/activity+json''"
    "signature_value bob_key HeaderOrder ''key!'' \<noteq> []" "bob_key \<noteq> []" by code_simp+
  have s: "ParseSignatureHeader (signature_value bob_key HeaderOrder ''key!'') = Inr [(''keyid'', bob_key),
      (''algorithm'', ''rsa-sha256''), (''headers'', join '' '' HeaderOrder), (''signature'', base64_encode ''key!'')]"
    by (rule ParseSignatureHeader_signature_value [OF sample_keys(2) plain_value_headers(1)])
  have e: "sigenv_of sample_fetchenv = sample_sigenv" by (simp add: sigenv_of_def sample_fetchenv_def sigenv.defs fetchenv.defs)
  have h: "hd_env sample_handler = sample_fetchenv" "hd_client sample_handler = sample_client"
    "hd_policy sample_handler = strict_policy" "hd_inboxMaxBody sample_handler = 1048576" "s_net sample_sys = []"
    by (simp_all add: sample_handler_def sample_sys_def)
  have sa: "bobs_like = \<lparr>sa_pub = ''key'', sa_fields = sa_fields bobs_like, sa_raw = sa_raw bobs_like, sa_id = sa_id bobs_like,
      sa_type = sa_type bobs_like, sa_actor = sa_actor bobs_like\<rparr>" by (simp add: bobs_like_def)
  show ?thesis
    by (rule exI, subst sa)
      (simp add: check_signed_def bobs_post_parts m s h read_limited_def param_def handle_apply on_net_apply k e
        signed_post_verifies p eff_apply)
qed


theorem inbox_stored_with_job_witness:
  "case store_and_enqueue 2 ''https://b.example/likes/1'' ''Like'' like_document sample_db of (r, d') \<Rightarrow>
     d_activities d' = d_activities sample_db @ [inbound_row 10 2 ''https://b.example/likes/1'' ''Like'' like_document] \<and>
     d_jobs d' = d_jobs sample_db @ [new_job 10 sample_db (process_job 10 ''https://b.example/likes/1'')]"
proof -
  obtain r d' where e: "store_and_enqueue 2 ''https://b.example/likes/1'' ''Like'' like_document sample_db = (r, d')" by force
  have "fst (store_and_enqueue 2 ''https://b.example/likes/1'' ''Like'' like_document sample_db) = Inr ()" by code_simp
  then have "r = Inr ()" by (simp add: e)
  moreover have "''https://b.example/likes/1'' \<notin> v_activity_id ` set (d_activities sample_db)" "d_seq sample_db = (\<lambda>_. 10)"
    by (simp_all add: sample_db_def bobs_activity_def)
  ultimately show ?thesis using inbox_stored_with_job [OF e] by (simp add: e)
qed

section \<open>The outbox\<close>

definition post_fields :: obj where
  "post_fields = the (um_object post_document)"

theorem persistOutbox_sql_witness:
  "\<exists>j. d_jobs (s_db (snd (persistOutboxAndEnqueue SqlQueue sample_cfg ''alice'' 1 post_document post_fields
      [''https://b.example/inbox''] sample_sys))) = d_jobs sample_db @ [j]"
proof -
  let ?p = "persistOutboxAndEnqueue SqlQueue sample_cfg ''alice'' 1 post_document post_fields [''https://b.example/inbox''] sample_sys"
  have i: "jsonStringField post_fields ''id'' = Inr ''https://a.example/c/1''" by code_simp
  have r: "fst ?p = Inr ()" by code_simp
  have len: "length (d_jobs (s_db (snd ?p))) = 3" "length (d_activities (s_db (snd ?p))) = 2" by code_simp+
  have "d_jobs (s_db (snd ?p)) = d_jobs sample_db \<or> (\<exists>js. d_jobs (s_db (snd ?p)) = d_jobs sample_db @ js)"
  proof -
    obtain r' s' where e: "?p = (r', s')" by force
    have "s_db sample_sys = sample_db" by (simp add: sample_sys_def)
    with persistOutbox_sql [OF e i] r e show ?thesis by auto
  qed
  then show ?thesis using len by (auto simp: sample_db_def length_Suc_conv)
qed


theorem resolveDeliveryInboxes_distinct_witness:
  "distinct [''https://b.example/inbox''] \<and> trim_right_slash ''https://a.example/inbox'' \<notin> {''https://b.example/inbox''}"
proof -
  have "fst (resolveDeliveryInboxes sample_handler sample_cfg post_fields ''https://a.example/inbox'' []) = Inr [''https://b.example/inbox'']"
    by code_simp
  then obtain net where "resolveDeliveryInboxes sample_handler sample_cfg post_fields ''https://a.example/inbox'' [] =
      (Inr [''https://b.example/inbox''], net)" by (metis prod.collapse)
  from resolveDeliveryInboxes_distinct [OF this] show ?thesis by simp
qed

theorem persistOutbox_own_edges_witness:
  "preserves (db_inv (others_edges 1 sample_db))
     (persistOutboxAndEnqueue SqlQueue sample_cfg ''alice'' 1 post_document post_fields [''https://b.example/inbox''])"
  by (rule persistOutbox_own_edges) (simp add: impl_keeps_def)

section \<open>Documents and collections\<close>

theorem firstCollectionPageURL_asks_witness:
  "\<exists>v. url_parse (firstCollectionPageURL (LocalActorFollowersURL sample_cfg ''alice'') 20) = Some v \<and>
     collectionPageParams (query_values (u_rawquery v)) = (20, Some max_int64, None)"
proof -
  have "plain_base sample_cfg ''https'' ''a.example''" "plain_path ''/followers''" "CHR ''%'' \<notin> set ''/followers''"
    "''/followers'' \<noteq> []" "(0 :: int) < 20" "in_int64 20"
    "LocalActorFollowersURL sample_cfg ''alice'' = trim_right_slash (PublicBaseURL sample_cfg) @ ''/@'' @ path_escape ''alice'' @ ''/followers''"
    by code_simp+
  from firstCollectionPageURL_asks [OF this] show ?thesis by blast
qed

definition alices_activity :: activity_row where
  "alices_activity = \<lparr>v_id = 2, v_activity_id = ''https://a.example/c/1'', v_actor = 1, v_type = ''Create'', v_raw = post_document, v_deleted = None\<rparr>"

definition posted_sys :: "request list sys" where
  "posted_sys = sample_sys\<lparr>s_db := sample_db\<lparr>d_activities := [alices_activity]\<rparr>\<rparr>"

definition get_activity :: incoming where
  "get_activity = with_body \<lparr>r_method = ''GET'', r_url = the (url_parse ''https://a.example/c/1''), r_host = ''a.example'', r_header = (\<lambda>_. [])\<rparr> []"

theorem GetActivityOrObject_local_witness:
  "live_local_doc sample_cfg (sample_db\<lparr>d_activities := [alices_activity]\<rparr>)
     (canonicalIRICandidates ''https://a.example'' ''/c/1'') post_document"
proof -
  let ?g = "GetActivityOrObject sample_handler get_activity posted_sys"
  have "case fst ?g of Inr rp \<Rightarrow> rp_status rp = 200 \<and> rp_body rp = Doc post_document | _ \<Rightarrow> False" by code_simp
  then obtain rp where "?g = (Inr rp, snd ?g)" "rp_status rp = 200" "rp_body rp = Doc post_document"
    by (cases ?g) (auto split: sum.splits)
  from GetActivityOrObject_local [OF this] have l: "live_local_doc (s_cfg posted_sys) (s_db posted_sys)
      (canonicalIRICandidates (PublicBaseURL (s_cfg posted_sys)) (u_path (r_url get_activity))) post_document" .
  have "s_cfg posted_sys = sample_cfg" "s_db posted_sys = sample_db\<lparr>d_activities := [alices_activity]\<rparr>"
    "PublicBaseURL sample_cfg = ''https://a.example''"
    by (simp_all add: posted_sys_def sample_sys_def sample_cfg_def)
  moreover have "u_path (r_url get_activity) = ''/c/1''" by code_simp
  ultimately show ?thesis using l by simp
qed

theorem cors_credentials_witness:
  "''https://app.example'' \<in> trim_space ` set [''https://app.example '']"
proof -
  have d: "cors_decision [''https://app.example ''] (inbox_post\<lparr>r_header := (\<lambda>_. [])(''Origin'' := [''https://app.example''])\<rparr>) =
      (''https://app.example'', True)" by code_simp
  have "''*'' \<notin> trim_space ` set [''https://app.example '']" by code_simp
  with cors_credentials [OF d] show ?thesis by blast
qed

end
