(* ===== verification/WitnessesOAuth.thy ===== *)
theory WitnessesOAuth
  imports SampleHttp
begin

text \<open>The properties of the authorization of clients, applied to the sample.\<close>

definition code_db :: db where
  "code_db = client_db\<lparr>d_tokens := []\<rparr>"

definition code_form :: qvalues where
  "code_form = [(''code'', ''code''), (''client_id'', ''app''), (''client_secret'', ''secret''),
     (''redirect_uri'', ''https://app.example/cb'')]"

lemma code_form_values [simp]:
  "trim_space (values_get code_form ''code'') = ''code''" "trim_space (values_get code_form ''client_id'') = ''app''"
  "values_get code_form ''client_secret'' = ''secret''"
  "trim_space (values_get code_form ''redirect_uri'') = ''https://app.example/cb''"
  "trim_space (values_get code_form ''code_verifier'') = []" "trim_space (values_get code_form ''scope'') = []"
  by code_simp+

lemma code_exchanged:
  "\<exists>rp d'. postOAuthTokenAuthorizationCode ''rnd'' 0 code_form code_db = (Inr rp, d') \<and> rp_status rp = 200"
  by (simp add: postOAuthTokenAuthorizationCode_def Let_def answer_token_def client_app_def OAuthApplicationByClientID_def
      select_one_def VerifyClientSecret_def commit_if_ok_def exchange_code_def ConsumeAuthorizationCode_def valid_code_def
      pkceVerify_def InsertAccessTokenTx_def insert_token_def nextval_def insert_on_def app_exists_def actor_exists_def
      coalesce_def code_db_def client_rows eff_simps statement_apply bind_apply sample_rows writeOAuthTokenOK_def
      writeJSONResponse_def)

theorem authorization_code_grant_witness:
  "\<exists>c \<in> set (d_codes code_db). oc_code c = ''code'' \<and> (\<exists>d' tok. ActorIDForAccessToken tok d' = (Inr (oc_actor c, 1, oc_scopes c), d'))"
proof -
  obtain rp d' where g: "postOAuthTokenAuthorizationCode ''rnd'' 0 code_form code_db = (Inr rp, d')" "rp_status rp = 200"
    using code_exchanged by blast
  have "d_apps code_db = [sample_app]" "ap_id sample_app = 1" by (simp_all add: code_db_def client_rows)
  then show ?thesis using authorization_code_grant [OF g] by (force simp: code_spent_def valid_code_def)
qed

theorem code_single_use_witness:
  "\<exists>d'. \<forall>rp'. fst (postOAuthTokenAuthorizationCode ''rnd2'' 1 code_form d') = Inr rp' \<longrightarrow> rp_status rp' \<noteq> 200"
proof -
  obtain rp d' where g: "postOAuthTokenAuthorizationCode ''rnd'' 0 code_form code_db = (Inr rp, d')" "rp_status rp = 200"
    using code_exchanged by blast
  have "distinct (map oc_code (d_codes code_db))" by (simp add: code_db_def client_db_def)
  from code_single_use [OF this g refl] have "rp_status rp' \<noteq> 200"
    if "fst (postOAuthTokenAuthorizationCode ''rnd2'' 1 code_form d') = Inr rp'" for rp'
    using that by (metis prod.collapse)
  then show ?thesis by blast
qed

definition unknown_client :: incoming where
  "unknown_client = with_body \<lparr>r_method = ''POST'', r_url = the (url_parse
       ''https://a.example/oauth/token?grant_type=client_credentials&client_id=nobody&redirect_uri=x''),
     r_host = ''a.example'', r_header = (\<lambda>_. [])\<rparr> []"

theorem token_error_keeps_witness:
  "s_db (snd (postOAuthToken sample_server ''rnd'' 0 unknown_client sample_sys)) = sample_db"
proof -
  let ?p = "postOAuthToken sample_server ''rnd'' 0 unknown_client sample_sys"
  have "case fst ?p of Inr rp \<Rightarrow> rp_status rp = 401 | _ \<Rightarrow> False" by code_simp
  then obtain rp where "?p = (Inr rp, snd ?p)" "rp_status rp \<noteq> 200" by (cases ?p) (auto split: sum.splits)
  from token_error_keeps [OF this] show ?thesis by (simp add: sample_sys_def)
qed

theorem client_credentials_grant_witness:
  "\<exists>d' tok scopes. ActorIDForAccessToken tok d' = (Inr (0, 1, scopes), d') \<and> set (scope_words scopes) \<subseteq> set (scope_words ''read write'')"
proof -
  have "RedirectURIAllowed ''https://app.example/cb'' ''https://app.example/cb''" "oauthScopesSubset ''read'' ''read write''"
    by code_simp+
  then have "\<exists>rp d'. postOAuthTokenClientCredentials ''rnd'' 0 code_form code_db = (Inr rp, d') \<and> rp_status rp = 200"
    by (simp add: postOAuthTokenClientCredentials_def Let_def answer_token_def client_app_def OAuthApplicationByClientID_def
      select_one_def VerifyClientSecret_def commit_if_ok_def credentials_token_def InsertAppAccessTokenTx_def insert_token_def
      nextval_def insert_on_def app_exists_def code_db_def client_rows eff_simps statement_apply bind_apply
      writeOAuthTokenOK_def writeJSONResponse_def)
  then obtain rp d' where g: "postOAuthTokenClientCredentials ''rnd'' 0 code_form code_db = (Inr rp, d')" "rp_status rp = 200"
    by blast
  have "d_apps code_db = [sample_app]" "ap_id sample_app = 1" "ap_scopes sample_app = ''read write''"
    by (simp_all add: code_db_def client_rows)
  then show ?thesis using client_credentials_grant [OF g] by auto
qed

definition bearer_get :: incoming where
  "bearer_get = with_body (inbox_post\<lparr>r_method := ''GET'', r_header := (\<lambda>_. [])(''Authorization'' := [''Bearer token''])\<rparr>) []"

theorem bearer_needs_account_witness:
  "\<exists>tok aid app scopes. bearer_token bearer_get = Some tok \<and> aid \<noteq> 0 \<and> fst (ActorIDForAccessToken tok client_db) = Inr (aid, app, scopes)"
proof -
  have b: "bearer_token bearer_get = Some ''token''" by code_simp
  then have "bearer (\<lambda>r aid. ret (status_only 200)) bearer_get client_sys = (Inr (status_only 200), client_sys)"
    by (simp add: bearer_def actorIDFromBearer_def ActorIDForAccessToken_def select_one_def client_sys_def client_rows
      eff_simps bind_apply on_db_apply)
  from bearer_needs_account [OF this] show ?thesis by (auto simp: status_only_def client_sys_def)
qed

definition login_form :: incoming where
  "login_form = with_body (inbox_post\<lparr>r_header := (\<lambda>_. [])(''Content-Type'' := [form_type])\<rparr>)
     ''client_id=app&redirect_uri=https%3A%2F%2Fapp.example%2Fcb&username=alice&password=password&scope=read''"

theorem postOAuthAuthorize_code_witness:
  "\<exists>f app c. issued_to sample_server sample_cfg (code_db\<lparr>d_codes := []\<rparr>) f 0 app c \<and> oc_scopes c = ''read''"
proof -
  let ?f = "[(''client_id'', ''app''), (''redirect_uri'', ''https://app.example/cb''), (''username'', ''alice''),
     (''password'', ''password''), (''scope'', ''read'')]"
  let ?d = "code_db\<lparr>d_codes := []\<rparr>"
  let ?s = "sample_sys\<lparr>s_db := ?d\<rparr>"
  have f: "parse_form sample_server login_form = Some ?f" "r_method login_form = ''POST''" by code_simp+
  have v: "values_get ?f ''client_id'' = ''app''" "values_get ?f ''redirect_uri'' = ''https://app.example/cb''"
    "trim_space (values_get ?f ''username'') = ''alice''" "values_get ?f ''password'' = ''password''"
    "values_get ?f ''scope'' = ''read''" "RedirectURIAllowed ''https://app.example/cb'' ''https://app.example/cb''"
    "instanceHost sample_cfg = ''a.example''" by code_simp+
  have "url_parse ''https://app.example/cb'' \<noteq> None" by code_simp
  then obtain u where u: "url_parse ''https://app.example/cb'' = Some u" by blast
  let ?p = "postOAuthAuthorize sample_server ''rnd'' 0 login_form ?s"
  have a: "OAuthApplicationByClientID ''app'' ?d = (Inr sample_app, ?d)"
    by (simp add: OAuthApplicationByClientID_def select_one_def code_db_def client_rows eff_simps)
  have l: "AuthenticateLocalAccount (sv_bcrypt sample_server) ''a.example'' ''alice'' ''password'' ?d = (Inr 1, ?d)"
    by (simp add: AuthenticateLocalAccount_def select_one_def code_db_def client_rows sample_rows sample_server_def eff_simps)
  have r: "ap_redirect_uris sample_app = ''https://app.example/cb''" "ap_id sample_app = 1" by (simp_all add: sample_app_def)
  have "\<exists>code. fst (InsertAuthorizationCode ''rnd'' 0 1 1 ''https://app.example/cb'' ''read'' ch me ?d) = Inr code" for ch me
    by (simp add: InsertAuthorizationCode_def Let_def insert_on_def app_exists_def actor_exists_def nextval_def code_db_def
      client_rows sample_rows statement_apply)
  then obtain code where c: "fst (InsertAuthorizationCode ''rnd'' 0 1 1 ''https://app.example/cb'' ''read''
      (values_get ?f ''code_challenge'') (values_get ?f ''code_challenge_method'') ?d) = Inr code" by blast
  have q: "s_cfg ?s = sample_cfg" "s_db ?s = ?d" by (simp_all add: sample_sys_def)
  have "\<exists>rp. fst ?p = Inr rp \<and> rp_status rp = 302"
    unfolding postOAuthAuthorize_def with_cfg_def
    by (simp only: f option.case Let_def q) (simp add: v u r handle_apply on_db_apply a l c eff_apply redirect_to_def)
  then obtain rp where p: "?p = (Inr rp, snd ?p)" "rp_status rp = 302" by (metis prod.collapse)
  from postOAuthAuthorize_code [OF p] f(1) obtain app c where
    "issued_to sample_server (s_cfg ?s) (s_db ?s) ?f 0 app c" by auto
  moreover from this v have "oc_scopes c = ''read''" by (simp add: issued_to_def)
  ultimately show ?thesis unfolding q by blast
qed

end
