(* ===== verification/Blobs.thy ===== *)
theory Blobs
  imports Outbox ApGet
begin

text \<open>
  The storage of media (\<^verbatim>\<open>blobs/blobs.go\<close>, \<^verbatim>\<open>blobs/fs/fs.go\<close>) and the two endpoints of \<^verbatim>\<open>aphttp/media.go\<close>.
  A \<open>blob_store\<close> is the interface \<^verbatim>\<open>blobs.Store\<close>; \<open>fs_store root\<close> is the implementation on a local
  directory, over a file system that maps cleaned paths to files and directories.  The state of a
  process with a blob store is a \<open>site\<close>: the \<open>sys\<close> of the other handlers and the state of the blobs.
  The random bytes of a key are an argument.  The theory ends with the contract \<open>blob_spec\<close> that the
  endpoints rely on and its interpretation on the directory.
\<close>

section \<open>Paths\<close>

text \<open>\<^verbatim>\<open>path/filepath\<close> on Unix: \<^verbatim>\<open>Clean\<close>, \<^verbatim>\<open>Join\<close>, \<^verbatim>\<open>Dir\<close>, \<^verbatim>\<open>Ext\<close>.  A path is rooted or not, and has components.\<close>

definition dotdot :: string where
  "dotdot = ''..''"

definition clean_step :: "bool \<Rightarrow> string list \<Rightarrow> string \<Rightarrow> string list" where
  "clean_step rooted cs c =
     (if c = [] \<or> c = ''.'' then cs
      else if c = dotdot
           then (if cs = [] then (if rooted then [] else [dotdot])
                 else if last cs = dotdot then cs @ [dotdot] else butlast cs)
           else cs @ [c])"

definition clean_comps :: "bool \<Rightarrow> string list \<Rightarrow> string list" where
  "clean_comps rooted cs = foldl (clean_step rooted) [] cs"

definition rooted :: "string \<Rightarrow> bool" where
  "rooted p = has_prefix p ''/''"

definition path_string :: "bool \<Rightarrow> string list \<Rightarrow> string" where
  "path_string rt cs = (if rt then CHR ''/'' # join ''/'' cs else if cs = [] then ''.'' else join ''/'' cs)"

definition path_comps :: "string \<Rightarrow> string list" where
  "path_comps p = clean_comps (rooted p) (split_on (CHR ''/'') p)"

definition filepath_clean :: "string \<Rightarrow> string" where
  "filepath_clean p = path_string (rooted p) (path_comps p)"

definition filepath_join :: "string \<Rightarrow> string \<Rightarrow> string" where
  "filepath_join a b =
     (if a \<noteq> [] then filepath_clean (a @ ''/'' @ b) else if b \<noteq> [] then filepath_clean b else [])"

definition filepath_ext :: "string \<Rightarrow> string" where
  "filepath_ext p =
     (let base = (case after_last (CHR ''/'') p of None \<Rightarrow> p | Some b \<Rightarrow> b)
      in case after_last (CHR ''.'') base of None \<Rightarrow> [] | Some e \<Rightarrow> CHR ''.'' # e)"

section \<open>The file system\<close>

datatype node = File string | Dir

type_synonym files = "(string \<times> node) list"

definition set_node :: "string \<Rightarrow> node \<Rightarrow> files \<Rightarrow> files" where
  "set_node p n fs = (p, n) # filter (\<lambda>e. fst e \<noteq> p) fs"

definition unset_node :: "string \<Rightarrow> files \<Rightarrow> files" where
  "unset_node p fs = filter (\<lambda>e. fst e \<noteq> p) fs"

definition ErrNotExist :: err where "ErrNotExist = Msg ''file does not exist''"
definition ErrInvalid :: err where "ErrInvalid = Msg ''invalid argument''"

text \<open>The directories above a cleaned path, outermost first; the root and what is above the working directory exist.\<close>

definition parents :: "string \<Rightarrow> string list" where
  "parents p = (let cs = path_comps p in map (\<lambda>i. path_string (rooted p) (take i cs)) [0..<length cs])"

definition node_at :: "files \<Rightarrow> string \<Rightarrow> node option" where
  "node_at fs p = (if list_all (\<lambda>c. c = dotdot) (path_comps p) then Some Dir else map_of fs p)"

fun mkdirs :: "string list \<Rightarrow> (files, unit) eff" where
  "mkdirs [] = ret ()"
| "mkdirs (p # ps) =
     bind_eff (\<lambda>fs. case node_at fs p of
         Some Dir \<Rightarrow> (Inr (), fs)
       | Some (File _) \<Rightarrow> (Inl (Msg ''not a directory''), fs)
       | None \<Rightarrow> (Inr (), set_node p Dir fs)) (\<lambda>_. mkdirs ps)"

definition write_file :: "string \<Rightarrow> string \<Rightarrow> (files, unit) eff" where
  "write_file p x fs = (if node_at fs p = Some Dir then (Inl (Msg ''is a directory''), fs) else (Inr (), set_node p (File x) fs))"

definition rename_file :: "string \<Rightarrow> string \<Rightarrow> (files, unit) eff" where
  "rename_file old new fs =
     (if node_at fs new = Some Dir then (Inl (Msg ''file exists''), fs)
      else case map_of fs old of
        None \<Rightarrow> (Inl ErrNotExist, fs)
      | Some n \<Rightarrow> (Inr (), set_node new n (unset_node old fs)))"

definition open_file :: "files \<Rightarrow> string \<Rightarrow> err + (err + string)" where
  "open_file fs p =
     (if list_ex (\<lambda>q. case node_at fs q of Some (File _) \<Rightarrow> True | _ \<Rightarrow> False) (parents p) then Inl (Msg ''not a directory'')
      else case node_at fs p of
        None \<Rightarrow> Inl ErrNotExist
      | Some Dir \<Rightarrow> Inr (Inl (Msg ''is a directory''))
      | Some (File x) \<Rightarrow> Inr (Inr x))"

section \<open>Blob stores\<close>

text \<open>
  \<^verbatim>\<open>Put\<close> takes what reading the content gives and what the context says when it has been written;
  \<^verbatim>\<open>Get\<close> gives what reading the open blob gives, and its content type.
\<close>

record 'b blob_store =
  b_put :: "err option \<Rightarrow> string \<Rightarrow> string \<Rightarrow> err + string \<Rightarrow> ('b, unit) eff"
  b_get :: "string \<Rightarrow> ('b, (err + string) \<times> string) eff"
  b_delete :: "string \<Rightarrow> ('b, unit) eff"

definition safePath :: "string \<Rightarrow> string \<Rightarrow> err + string" where
  "safePath root key =
     (let clean = filepath_clean (trim_prefix key ''/'')
      in if clean = dotdot \<or> has_prefix clean (dotdot @ ''/'') then Inl ErrInvalid
         else Inr (filepath_join root clean))"

definition remove_file :: "string \<Rightarrow> (files, unit) eff" where
  "remove_file p fs = (Inr (), unset_node p fs)"

definition FS_Put :: "string \<Rightarrow> err option \<Rightarrow> string \<Rightarrow> string \<Rightarrow> err + string \<Rightarrow> (files, unit) eff" where
  "FS_Put root ctx key contentType content =
     bind_eff (of_res (safePath root key)) (\<lambda>path.
     bind_eff (mkdirs (parents path)) (\<lambda>_.
       let tmp = path @ ''.tmp''
       in bind_eff (write_file tmp []) (\<lambda>_.
          case content of
            Inl e \<Rightarrow> bind_eff (remove_file tmp) (\<lambda>_. fail e)
          | Inr x \<Rightarrow> bind_eff (write_file tmp x) (\<lambda>_.
              case ctx of
                Some e \<Rightarrow> bind_eff (remove_file tmp) (\<lambda>_. fail e)
              | None \<Rightarrow> rename_file tmp path))))"

definition FS_Get :: "string \<Rightarrow> string \<Rightarrow> (files, (err + string) \<times> string) eff" where
  "FS_Get root key =
     bind_eff (of_res (safePath root key)) (\<lambda>path.
     bind_eff (query (\<lambda>fs. open_file fs path)) (\<lambda>file. ret (file, ''application/octet-stream'')))"

text \<open>\<^verbatim>\<open>os.Remove\<close>: a file, or an empty directory.\<close>

definition FS_Delete :: "string \<Rightarrow> string \<Rightarrow> (files, unit) eff" where
  "FS_Delete root key =
     bind_eff (of_res (safePath root key)) (\<lambda>path fs.
       case open_file fs path of
         Inl e \<Rightarrow> (Inl e, fs)
       | Inr (Inr _) \<Rightarrow> (Inr (), unset_node path fs)
       | Inr (Inl _) \<Rightarrow>
           (if list_ex (\<lambda>e. path \<in> set (parents (fst e))) fs \<or> map_of fs path = None
            then (Inl (Msg ''directory not empty''), fs) else (Inr (), unset_node path fs)))"

definition fs_store :: "string \<Rightarrow> files blob_store" where
  "fs_store root = \<lparr>b_put = FS_Put root, b_get = FS_Get root, b_delete = FS_Delete root\<rparr>"

section \<open>The state with blobs\<close>

record ('w, 'b) site =
  st_sys :: "'w sys"
  st_blobs :: 'b

definition on_sys :: "('w sys, 'a) eff \<Rightarrow> (('w, 'b) site, 'a) eff" where
  "on_sys m s = (case m (st_sys s) of (r, x) \<Rightarrow> (r, s\<lparr>st_sys := x\<rparr>))"

definition on_blobs :: "('b, 'a) eff \<Rightarrow> (('w, 'b) site, 'a) eff" where
  "on_blobs m s = (case m (st_blobs s) of (r, x) \<Rightarrow> (r, s\<lparr>st_blobs := x\<rparr>))"

definition site_cfg :: "(config \<Rightarrow> (('w, 'b) site, 'a) eff) \<Rightarrow> (('w, 'b) site, 'a) eff" where
  "site_cfg k s = k (s_cfg (st_sys s)) s"

section \<open>The endpoints\<close>

definition hex_char :: "nat \<Rightarrow> char" where
  "hex_char n = char_of (if n < 10 then 48 + n else 87 + n)"

definition hex_encode :: "string \<Rightarrow> string" where
  "hex_encode s = concat (map (\<lambda>c. [hex_char (of_char c div 16), hex_char (of_char c mod 16)]) s)"

definition randomHexKey :: "string \<Rightarrow> string" where
  "randomHexKey rnd = hex_encode rnd"

definition mediaBearerAuthorized :: "'a request_scheme \<Rightarrow> string \<Rightarrow> bool" where
  "mediaBearerAuthorized r secret = outboxBearerAuthorized r secret"

definition media_max :: "config \<Rightarrow> int" where
  "media_max cfg = (if MediaMaxUploadBytes cfg \<le> 0 then 10485760 else MediaMaxUploadBytes cfg)"

definition content_type_or_octets :: "string \<Rightarrow> string" where
  "content_type_or_octets ct = (if trim_space ct = [] then ''application/octet-stream'' else trim_space ct)"

definition PostMediaUpload :: "'b blob_store option \<Rightarrow> string \<Rightarrow> incoming \<Rightarrow> (('w, 'b) site, reply) eff" where
  "PostMediaUpload blobs rnd r = site_cfg (\<lambda>cfg.
     if r_method r \<noteq> ''POST'' then ret (http_error 405 ''method not allowed'')
     else case blobs of
       None \<Rightarrow> ret (http_error 503 ''media upload not configured'')
     | Some b \<Rightarrow>
         (if trim_space (MediaUploadSecret cfg) = [] then ret (http_error 503 ''media upload not configured'')
          else if \<not> mediaBearerAuthorized r (MediaUploadSecret cfg) then ret (http_error 401 ''unauthorized'')
          else case read_body r (media_max cfg + 1) of
            Inl _ \<Rightarrow> ret (http_error 400 ''read body'')
          | Inr body \<Rightarrow>
              (if int (length body) > media_max cfg then ret (http_error 413 ''payload too large'')
               else let ct = content_type_or_octets (in_header r ''Content-Type'');
                        key = randomHexKey rnd
                    in handle (on_blobs (b_put b None key ct (Inr body)))
                         (\<lambda>_. ret (http_error 500 ''store blob''))
                         (\<lambda>_. ret (json_reply (JObj [(''mediaType'', JStr ct),
                               (''url'', JStr (trim_right_slash (PublicBaseURL cfg) @ ''/media/'' @ key))]))))))"

definition media_key_char :: "char \<Rightarrow> bool" where
  "media_key_char c = (let n = of_char c :: nat
     in (97 \<le> n \<and> n \<le> 122) \<or> (65 \<le> n \<and> n \<le> 90) \<or> (48 \<le> n \<and> n \<le> 57) \<or> c = CHR ''/'' \<or> c = CHR ''-'' \<or> c = CHR ''_'' \<or> c = CHR ''.'')"

definition safeMediaKey :: "string \<Rightarrow> bool" where
  "safeMediaKey k \<longleftrightarrow> k \<noteq> [] \<and> \<not> contains k ''..'' \<and> list_all media_key_char k"

text \<open>\<^verbatim>\<open>GetMedia\<close>: a reading error after the headers is not reported; the body is empty then.\<close>

definition GetMedia :: "'b blob_store option \<Rightarrow> string \<Rightarrow> incoming \<Rightarrow> (('w, 'b) site, reply) eff" where
  "GetMedia blobs pathkey r =
     (if r_method r \<noteq> ''GET'' then ret (http_error 405 ''method not allowed'')
      else case blobs of
        None \<Rightarrow> ret not_found
      | Some b \<Rightarrow>
          (let key = trim_char (CHR ''/'') (trim_space pathkey)
           in if \<not> safeMediaKey key then ret not_found
              else handle (on_blobs (b_get b key))
                (\<lambda>e. ret (if e = ErrNotExist then not_found else http_error 500 ''media''))
                (\<lambda>(rc, ct). ret \<lparr>rp_status = 200, rp_type = ct, rp_location = [],
                    rp_body = Bytes (case rc of Inl _ \<Rightarrow> [] | Inr x \<Rightarrow> x)\<rparr>)))"

definition StoreBlob :: "'b blob_store option \<Rightarrow> string \<Rightarrow> string \<Rightarrow> string \<Rightarrow> ('b, string) eff" where
  "StoreBlob blobs rnd contentType data =
     (case blobs of
        None \<Rightarrow> fail (Msg ''blob store not configured'')
      | Some b \<Rightarrow>
          (if data = [] then fail (Msg ''empty body'')
           else let key = randomHexKey rnd
                in bind_eff (b_put b None key (content_type_or_octets contentType) (Inr data)) (\<lambda>_. ret key)))"

section \<open>Facts about paths\<close>

definition plain_comp :: "string \<Rightarrow> bool" where
  "plain_comp c \<longleftrightarrow> c \<noteq> [] \<and> c \<noteq> ''.'' \<and> c \<noteq> dotdot \<and> CHR ''/'' \<notin> set c"

text \<open>A clean path: only leading components are \<^verbatim>\<open>..\<close>, and none in a rooted path.\<close>

definition clean_form :: "bool \<Rightarrow> string list \<Rightarrow> bool" where
  "clean_form rt cs \<longleftrightarrow> (\<exists>n ds. cs = replicate n dotdot @ ds \<and> (rt \<longrightarrow> n = 0) \<and> list_all plain_comp ds)"

lemma clean_step_plain [simp]: "plain_comp c \<Longrightarrow> clean_step rt cs c = cs @ [c]"
  by (auto simp: clean_step_def plain_comp_def)

lemma clean_steps_plain: "list_all plain_comp ds \<Longrightarrow> foldl (clean_step rt) cs ds = cs @ ds"
  by (induction ds arbitrary: cs) auto

lemma clean_steps_dotdot: "foldl (clean_step False) (replicate k dotdot) (replicate n dotdot) = replicate (k + n) dotdot"
proof (induction n arbitrary: k)
  case (Suc n)
  have "clean_step False (replicate k dotdot) dotdot = replicate (Suc k) dotdot"
    by (cases k) (auto simp: clean_step_def dotdot_def replicate_append_same)
  with Suc [of "Suc k"] show ?case by simp
qed simp

lemma clean_step_form:
  assumes "clean_form rt cs" "CHR ''/'' \<notin> set c"
  shows "clean_form rt (clean_step rt cs c)"
proof -
  obtain n ds where d: "cs = replicate n dotdot @ ds" "rt \<longrightarrow> n = 0" "list_all plain_comp ds"
    using assms(1) unfolding clean_form_def by blast
  consider (skip) "c = [] \<or> c = ''.''" | (up) "c = dotdot" | (plain) "plain_comp c"
    using assms(2) by (auto simp: plain_comp_def)
  then show ?thesis
  proof cases
    case skip
    then show ?thesis using assms(1) by (auto simp: clean_step_def dotdot_def)
  next
    case plain
    with d have "cs @ [c] = replicate n dotdot @ (ds @ [c]) \<and> list_all plain_comp (ds @ [c])" by simp
    with plain d(2) show ?thesis unfolding clean_form_def by (metis clean_step_plain)
  next
    case up
    show ?thesis
    proof (cases ds rule: rev_cases)
      case Nil
      with d have cs: "cs = replicate n dotdot" by simp
      have "clean_step rt cs c = (if rt then [] else replicate (Suc n) dotdot)"
        using d(2) up unfolding cs by (cases n) (auto simp: clean_step_def dotdot_def replicate_append_same)
      moreover have "clean_form rt (if rt then [] else replicate (Suc n) dotdot)"
        unfolding clean_form_def by (intro exI [of _ "if rt then 0 else Suc n"] exI [of _ "[]"]) simp
      ultimately show ?thesis by simp
    next
      case (snoc es e)
      with d have "plain_comp e" by simp
      then have "clean_step rt cs c = replicate n dotdot @ es"
        using up unfolding d(1) snoc by (auto simp: clean_step_def plain_comp_def dotdot_def butlast_append)
      with d snoc show ?thesis by (auto simp: clean_form_def)
    qed
  qed
qed

lemma path_comps_form: "clean_form (rooted p) (path_comps p)"
proof -
  have "clean_form rt (foldl (clean_step rt) cs ws)" if "clean_form rt cs" "\<forall>w \<in> set ws. CHR ''/'' \<notin> set w" for rt cs ws
    using that by (induction ws arbitrary: cs) (auto intro: clean_step_form)
  moreover have "clean_form (rooted p) []" by (simp add: clean_form_def)
  ultimately show ?thesis unfolding path_comps_def clean_comps_def using split_on_no_sep by blast
qed

lemma clean_form_no_slash: "clean_form rt cs \<Longrightarrow> c \<in> set cs \<Longrightarrow> c \<noteq> [] \<and> CHR ''/'' \<notin> set c"
proof -
  assume f: "clean_form rt cs" and c: "c \<in> set cs"
  obtain n ds where "cs = replicate n dotdot @ ds" "list_all plain_comp ds"
    using f unfolding clean_form_def by blast
  with c have "c = dotdot \<or> plain_comp c" by (auto simp: list_all_iff)
  then show ?thesis by (auto simp: plain_comp_def dotdot_def)
qed

lemma join_hd: "cs \<noteq> [] \<Longrightarrow> hd cs \<noteq> [] \<Longrightarrow> hd (join sep cs) = hd (hd cs) \<and> join sep cs \<noteq> []"
  by (cases "(sep, cs)" rule: join.cases) auto

lemma rooted_path_string:
  assumes "clean_form rt cs"
  shows "rooted (path_string rt cs) = rt"
proof (cases "rt \<or> cs = []")
  case False
  then have c: "hd cs \<noteq> []" "CHR ''/'' \<notin> set (hd cs)"
    using clean_form_no_slash [OF assms, of "hd cs"] by auto
  then have "hd (join ''/'' cs) = hd (hd cs)" "join ''/'' cs \<noteq> []" using join_hd False by blast+
  moreover have "hd (hd cs) \<noteq> CHR ''/''" using c by (metis hd_in_set)
  ultimately show ?thesis using False
    by (cases "join ''/'' cs") (auto simp: path_string_def rooted_def)
qed (auto simp: path_string_def rooted_def)

text \<open>Reading a cleaned path below a path that is already read adds its components.\<close>

lemma foldl_path_string:
  assumes "list_all plain_comp cs"
  shows "foldl (clean_step rt) ds (split_on (CHR ''/'') (path_string rt' cs)) = ds @ cs"
proof -
  have skip: "clean_step rt ds [] = ds" "clean_step rt ds ''.'' = ds" for ds by (simp_all add: clean_step_def)
  have split: "split_on (CHR ''/'') (join ''/'' cs) = cs" if "cs \<noteq> []"
    using split_on_join [OF that] assms by (simp add: list_all_iff plain_comp_def)
  show ?thesis
    by (cases "cs = []") (auto simp: path_string_def split skip clean_steps_plain [OF assms])
qed

lemma path_comps_string:
  assumes "clean_form rt cs"
  shows "path_comps (path_string rt cs) = cs"
proof -
  obtain n ds where d: "cs = replicate n dotdot @ ds" "rt \<longrightarrow> n = 0" "list_all plain_comp ds"
    using assms unfolding clean_form_def by blast
  show ?thesis
  proof (cases n)
    case 0
    with d have "cs = ds" by simp
    with d(3) foldl_path_string [of cs rt "[]" rt] rooted_path_string [OF assms] show ?thesis
      by (simp add: path_comps_def clean_comps_def)
  next
    case (Suc m)
    with d have rt: "\<not> rt" and ne: "cs \<noteq> []" by auto
    then have "split_on (CHR ''/'') (path_string rt cs) = cs"
      using split_on_join [OF ne] clean_form_no_slash [OF assms] by (simp add: path_string_def)
    moreover have "foldl (clean_step rt) [] cs = cs"
      using rt d clean_steps_dotdot [of 0 n] by (simp add: clean_steps_plain)
    ultimately show ?thesis
      using rooted_path_string [OF assms] by (simp add: path_comps_def clean_comps_def)
  qed
qed

lemma filepath_clean_comps: "path_comps (filepath_clean p) = path_comps p" "rooted (filepath_clean p) = rooted p"
  unfolding filepath_clean_def by (simp_all add: path_comps_string rooted_path_string path_comps_form)

lemma filepath_clean_idem: "filepath_clean (filepath_clean p) = filepath_clean p"
  unfolding filepath_clean_def [of "filepath_clean p"] filepath_clean_comps by (simp add: filepath_clean_def)

text \<open>
  The path of a key is below the directory of the store: it is the path of the directory with
  further components, none of which leads upwards, whatever the key is.
\<close>

lemma safePath_below:
  assumes "safePath root key = Inr p" "root \<noteq> []"
  shows "\<exists>ks. p = path_string (rooted root) (path_comps root @ ks) \<and> ks = path_comps (trim_prefix key ''/'') \<and>
    list_all plain_comp ks"
proof -
  let ?k = "trim_prefix key ''/''"
  let ?c = "filepath_clean ?k"
  have c: "?c \<noteq> dotdot" "\<not> has_prefix ?c (dotdot @ ''/'')" and p: "p = filepath_clean (root @ ''/'' @ ?c)"
    using assms by (auto simp: safePath_def Let_def filepath_join_def split: if_splits)
  obtain n ds where d: "path_comps ?k = replicate n dotdot @ ds" "rooted ?k \<longrightarrow> n = 0" "list_all plain_comp ds"
    using path_comps_form [of ?k] unfolding clean_form_def by blast
  have "n = 0"
  proof (cases n)
    case (Suc m)
    with d(2) have r: "\<not> rooted ?k" by simp
    have "path_comps ?k = dotdot # replicate m dotdot @ ds" using d(1) Suc by simp
    with r have "?c = join ''/'' (dotdot # replicate m dotdot @ ds)" by (simp add: filepath_clean_def path_string_def)
    then have "?c = dotdot \<or> has_prefix ?c (dotdot @ ''/'')"
      by (cases "replicate m dotdot @ ds") simp_all
    with c show ?thesis by blast
  qed simp
  with d have ks: "path_comps ?k = ds" "list_all plain_comp ds" by simp_all
  have "split_on (CHR ''/'') (root @ ''/'' @ ?c) = split_on (CHR ''/'') root @ split_on (CHR ''/'') ?c"
    using split_on_append [of "CHR ''/''" root ?c] by simp
  moreover have "rooted (root @ ''/'' @ ?c) = rooted root" using assms(2) by (cases root) (auto simp: rooted_def)
  moreover have "?c = path_string (rooted ?k) ds" using ks by (simp add: filepath_clean_def)
  ultimately have "path_comps (root @ ''/'' @ ?c) = path_comps root @ ds" "rooted (root @ ''/'' @ ?c) = rooted root"
    using foldl_path_string [OF ks(2)] by (simp_all add: path_comps_def clean_comps_def)
  with p ks show ?thesis by (simp add: filepath_clean_def)
qed


section \<open>The contract of a blob store\<close>

text \<open>
  What the endpoints rely on, for the keys they make: \<open>content\<close> is what the store holds, and the
  operations look it up, replace it and remove it at one key.
\<close>

locale blob_spec =
  fixes st :: "'b blob_store" and inv :: "'b \<Rightarrow> bool" and key_ok :: "string \<Rightarrow> bool"
    and content :: "'b \<Rightarrow> string \<Rightarrow> string option" and served_type :: string
  assumes put: "inv s \<Longrightarrow> key_ok k \<Longrightarrow> \<exists>s'. b_put st None k ct (Inr x) s = (Inr (), s') \<and> inv s' \<and>
        (\<forall>k'. key_ok k' \<longrightarrow> content s' k' = (if k' = k then Some x else content s k'))"
    and get: "inv s \<Longrightarrow> key_ok k \<Longrightarrow> b_get st k s =
        (case content s k of None \<Rightarrow> Inl ErrNotExist | Some x \<Rightarrow> Inr (Inr x, served_type), s)"
    and delete: "inv s \<Longrightarrow> key_ok k \<Longrightarrow> content s k \<noteq> None \<Longrightarrow> \<exists>s'. b_delete st k s = (Inr (), s') \<and> inv s' \<and>
        (\<forall>k'. key_ok k' \<longrightarrow> content s' k' = (if k' = k then None else content s k'))"
begin

lemma get_after_put:
  assumes "inv s" "key_ok k" "b_put st None k ct (Inr x) s = (r, s')" "key_ok k'"
  shows "fst (b_get st k' s') = (if k' = k then Inr (Inr x, served_type) else fst (b_get st k' s))"
proof -
  have "inv s'" "content s' k' = (if k' = k then Some x else content s k')"
    using put [OF assms(1,2), of ct x] assms(3,4) by auto
  with assms show ?thesis by (simp add: get)
qed

lemma get_after_delete:
  assumes "inv s" "key_ok k" "content s k \<noteq> None" "b_delete st k s = (r, s')" "key_ok k'"
  shows "fst (b_get st k' s') = (if k' = k then Inl ErrNotExist else fst (b_get st k' s))"
proof -
  have "inv s'" "content s' k' = (if k' = k then None else content s k')"
    using delete [OF assms(1,2,3)] assms(4,5) by auto
  with assms show ?thesis by (simp add: get)
qed

text \<open>What is put under a key stays there through any number of uploads under other keys.\<close>

fun put_all :: "(string \<times> string \<times> string) list \<Rightarrow> ('b, unit) eff" where
  "put_all [] = ret ()"
| "put_all ((k, ct, x) # us) = bind_eff (b_put st None k ct (Inr x)) (\<lambda>_. put_all us)"

lemma content_put_all:
  assumes "inv s" "\<forall>u \<in> set us. key_ok (fst u)"
  shows "fst (put_all us s) = Inr () \<and> inv (snd (put_all us s)) \<and>
     (\<forall>k. key_ok k \<longrightarrow> content (snd (put_all us s)) k =
        (case map_of (rev (map (\<lambda>(k, ct, x). (k, x)) us)) k of None \<Rightarrow> content s k | Some x \<Rightarrow> Some x))"
  using assms
proof (induction us arbitrary: s)
  case (Cons u us)
  obtain k ct x where u: "u = (k, ct, x)" by (cases u)
  obtain s1 where s1: "b_put st None k ct (Inr x) s = (Inr (), s1)" "inv s1"
    "\<And>k'. key_ok k' \<Longrightarrow> content s1 k' = (if k' = k then Some x else content s k')"
    using put [of s k ct x] Cons.prems u by auto
  from Cons.IH [OF s1(2)] Cons.prems(2) s1 show ?case
    by (auto simp: u eff_simps map_add_def split: option.splits)
qed (simp add: eff_simps)

lemma upload:
  assumes "inv (st_blobs s)" "key_ok (randomHexKey rnd)" "PostMediaUpload (Some st) rnd r s = (Inr rep, s')" "rp_status rep = 200"
  shows "\<exists>body. read_body r (media_max (s_cfg (st_sys s)) + 1) = Inr body \<and> int (length body) \<le> media_max (s_cfg (st_sys s)) \<and>
    mediaBearerAuthorized r (MediaUploadSecret (s_cfg (st_sys s))) \<and> trim_space (MediaUploadSecret (s_cfg (st_sys s))) \<noteq> [] \<and>
    st_sys s' = st_sys s \<and> inv (st_blobs s') \<and>
    (\<forall>k. key_ok k \<longrightarrow> fst (b_get st k (st_blobs s')) =
       (if k = randomHexKey rnd then Inr (Inr body, served_type) else fst (b_get st k (st_blobs s))))"
proof -
  let ?ct = "content_type_or_octets (in_header r ''Content-Type'')"
  from assms(3,4) obtain body where b: "read_body r (media_max (s_cfg (st_sys s)) + 1) = Inr body"
      "\<not> int (length body) > media_max (s_cfg (st_sys s))" "mediaBearerAuthorized r (MediaUploadSecret (s_cfg (st_sys s)))"
      "trim_space (MediaUploadSecret (s_cfg (st_sys s))) \<noteq> []" "r_method r = ''POST''"
    by (auto simp: PostMediaUpload_def site_cfg_def eff_simps http_error_def split: if_splits sum.splits)
  obtain b' where b': "b_put st None (randomHexKey rnd) ?ct (Inr body) (st_blobs s) = (Inr (), b')" "inv b'"
    using put [OF assms(1,2), of ?ct body] by blast
  from assms(3) b b'(1) have s': "s' = s\<lparr>st_blobs := b'\<rparr>"
    by (auto simp: PostMediaUpload_def site_cfg_def eff_simps http_error_def Let_def on_blobs_def split: if_splits)
  with b b' get_after_put [OF assms(1,2) b'(1)] show ?thesis by simp
qed

end

section \<open>The directory keeps the contract\<close>

definition hex_key :: "string \<Rightarrow> bool" where
  "hex_key k \<longleftrightarrow> k \<noteq> [] \<and> list_all (\<lambda>c. c \<in> set ''0123456789abcdef'') k"

definition blob_path :: "string \<Rightarrow> string \<Rightarrow> string" where
  "blob_path root k = path_string (rooted root) (path_comps root @ [k])"

definition fs_content :: "string \<Rightarrow> files \<Rightarrow> string \<Rightarrow> string option" where
  "fs_content root fs k = (case map_of fs (blob_path root k) of Some (File x) \<Rightarrow> Some x | _ \<Rightarrow> None)"

text \<open>The directory can be made where it is, and no directory has the name of a blob.\<close>

definition fs_inv :: "string \<Rightarrow> files \<Rightarrow> bool" where
  "fs_inv root fs \<longleftrightarrow> root \<noteq> [] \<and>
     list_all (\<lambda>i. case node_at fs (path_string (rooted root) (take i (path_comps root))) of Some (File _) \<Rightarrow> False | _ \<Rightarrow> True)
       [0..<Suc (length (path_comps root))] \<and>
     (\<forall>k. hex_key k \<longrightarrow> map_of fs (blob_path root k) \<noteq> Some Dir \<and> map_of fs (blob_path root k @ ''.tmp'') \<noteq> Some Dir)"

lemma hex_key_plain: "hex_key k \<Longrightarrow> plain_comp k \<and> plain_comp (k @ ''.tmp'') \<and> CHR ''.'' \<notin> set k"
proof -
  assume h: "hex_key k"
  then have "CHR ''.'' \<notin> set k \<and> CHR ''/'' \<notin> set k \<and> k \<noteq> []" unfolding hex_key_def list_all_iff by fastforce
  then show ?thesis by (cases k) (auto simp: plain_comp_def dotdot_def)
qed

lemma path_string_snoc: "path_string rt (cs @ [c]) @ t = path_string rt (cs @ [c @ t])"
proof -
  have "join sep (cs @ [c]) @ t = join sep (cs @ [c @ t])" for sep
  proof (induction cs)
    case (Cons a cs)
    then show ?case by (cases cs) auto
  qed simp
  then show ?thesis by (simp add: path_string_def)
qed

lemma blob_path_comps:
  assumes "plain_comp c"
  shows "path_comps (blob_path root c) = path_comps root @ [c] \<and> rooted (blob_path root c) = rooted root"
proof -
  have "clean_form (rooted root) (path_comps root @ [c])"
    using clean_step_form [OF path_comps_form, of c root] assms by (simp add: plain_comp_def [of c])
  then show ?thesis unfolding blob_path_def by (simp add: path_comps_string rooted_path_string)
qed

lemma blob_path_tmp: "blob_path root k @ ''.tmp'' = blob_path root (k @ ''.tmp'')"
  by (simp add: blob_path_def path_string_snoc)

lemma blob_path_inj: "plain_comp c \<Longrightarrow> plain_comp c' \<Longrightarrow> blob_path root c = blob_path root c' \<longleftrightarrow> c = c'"
  by (metis append1_eq_conv blob_path_comps)

lemma blob_path_node: "plain_comp c \<Longrightarrow> node_at fs (blob_path root c) = map_of fs (blob_path root c)"
  by (simp add: node_at_def blob_path_comps plain_comp_def)

definition root_dirs :: "string \<Rightarrow> string list" where
  "root_dirs root = map (\<lambda>i. path_string (rooted root) (take i (path_comps root))) [0..<Suc (length (path_comps root))]"

lemma parents_blob_path: "plain_comp c \<Longrightarrow> parents (blob_path root c) = root_dirs root"
  by (auto simp: parents_def root_dirs_def blob_path_comps Let_def)

lemma root_dirs_not_blob:
  assumes "plain_comp c"
  shows "blob_path root c \<notin> set (root_dirs root)"
proof
  assume "blob_path root c \<in> set (root_dirs root)"
  then obtain i where e: "blob_path root c = path_string (rooted root) (take i (path_comps root))" "i \<le> length (path_comps root)"
    unfolding root_dirs_def set_map by (metis (no_types, lifting) atLeastLessThan_iff imageE less_Suc_eq_le set_upt)
  obtain n ds where d: "path_comps root = replicate n dotdot @ ds" "rooted root \<longrightarrow> n = 0" "list_all plain_comp ds"
    using path_comps_form [of root] unfolding clean_form_def by blast
  have "take i (path_comps root) = replicate (min i n) dotdot @ take (i - n) ds" by (simp add: d(1))
  moreover have "list_all plain_comp (take (i - n) ds)" using d(3) by (auto simp: list_all_iff dest: in_set_takeD)
  ultimately have "clean_form (rooted root) (take i (path_comps root))"
    unfolding clean_form_def using d(2) by (metis min_0R)
  with e(1) have "path_comps (blob_path root c) = take i (path_comps root)" by (simp add: path_comps_string)
  with e(2) blob_path_comps [OF assms, of root] have "length (take i (path_comps root)) = Suc (length (path_comps root))"
    by (metis length_append_singleton)
  then show False by simp
qed

lemma safePath_hex:
  assumes "hex_key k" "root \<noteq> []"
  shows "safePath root k = Inr (blob_path root k)"
proof -
  have k: "plain_comp k" "CHR ''.'' \<notin> set k" using hex_key_plain [OF assms(1)] by auto
  then have r: "\<not> rooted k" "trim_prefix k ''/'' = k" by (cases k; auto simp: plain_comp_def rooted_def trim_prefix_def)+
  have c: "path_comps k = [k]"
    using k(1) split_on_id [of "CHR ''/''" k] by (simp add: path_comps_def clean_comps_def plain_comp_def [of k])
  then have "filepath_clean k = k" using r by (simp add: filepath_clean_def path_string_def)
  moreover have "\<not> has_prefix k (dotdot @ ''/'')" using k by (auto simp: dotdot_def prefix_def)
  ultimately obtain p where "safePath root k = Inr p" using k r by (simp add: safePath_def plain_comp_def)
  with safePath_below [OF this assms(2)] c r show ?thesis by (simp add: blob_path_def)
qed

definition not_file :: "files \<Rightarrow> string \<Rightarrow> bool" where
  "not_file fs p \<longleftrightarrow> (case node_at fs p of Some (File _) \<Rightarrow> False | _ \<Rightarrow> True)"

lemma fs_inv_iff: "fs_inv root fs \<longleftrightarrow> root \<noteq> [] \<and> (\<forall>p \<in> set (root_dirs root). not_file fs p) \<and>
    (\<forall>k. hex_key k \<longrightarrow> map_of fs (blob_path root k) \<noteq> Some Dir \<and> map_of fs (blob_path root k @ ''.tmp'') \<noteq> Some Dir)"
  unfolding fs_inv_def root_dirs_def not_file_def list_all_iff set_map ball_simps(9) [symmetric] by simp

lemma map_of_filter_fst: "map_of (filter (\<lambda>e. fst e \<noteq> p) fs) q = (if q = p then None else map_of fs q)"
  by (induction fs) auto

lemma map_of_set_node [simp]: "map_of (set_node p n fs) q = (if q = p then Some n else map_of fs q)"
  by (simp add: set_node_def map_of_filter_fst)

lemma map_of_unset_node [simp]: "map_of (unset_node p fs) q = (if q = p then None else map_of fs q)"
  by (simp add: unset_node_def map_of_filter_fst)

lemma mkdirs_ok:
  assumes "\<forall>p \<in> set ps. not_file fs p"
  shows "\<exists>fs'. mkdirs ps fs = (Inr (), fs') \<and> (\<forall>q. map_of fs' q = map_of fs q \<or> q \<in> set ps \<and> map_of fs' q = Some Dir)"
  using assms
proof (induction ps arbitrary: fs)
  case (Cons p ps)
  let ?fs = "if node_at fs p = None then set_node p Dir fs else fs"
  have nf: "not_file ?fs q" if "not_file fs q" for q
    using that by (auto simp: not_file_def node_at_def split: if_splits option.splits node.splits)
  have "mkdirs (p # ps) fs = mkdirs ps ?fs"
    using Cons.prems by (auto simp: not_file_def eff_simps split: option.splits node.splits)
  moreover obtain fs' where "mkdirs ps ?fs = (Inr (), fs')"
    "\<forall>q. map_of fs' q = map_of ?fs q \<or> q \<in> set ps \<and> map_of fs' q = Some Dir"
    using Cons.IH [of ?fs] Cons.prems nf by auto
  ultimately show ?case by (auto split: if_splits)
qed (simp add: eff_simps)

lemma fs_inv_blob:
  assumes "fs_inv root fs" "hex_key k"
  shows "map_of fs (blob_path root k) \<noteq> Some Dir" "map_of fs (blob_path root k @ ''.tmp'') \<noteq> Some Dir"
    "\<And>p. p \<in> set (root_dirs root) \<Longrightarrow> not_file fs p" "root \<noteq> []"
  using assms unfolding fs_inv_iff by auto

lemma hex_paths:
  assumes "hex_key k" "hex_key k'"
  shows "blob_path root k = blob_path root k' \<longleftrightarrow> k = k'" "blob_path root k \<noteq> blob_path root k' @ ''.tmp''"
    "blob_path root k @ ''.tmp'' = blob_path root k' @ ''.tmp'' \<longleftrightarrow> k = k'"
    "blob_path root k \<notin> set (root_dirs root)" "blob_path root k @ ''.tmp'' \<notin> set (root_dirs root)"
proof -
  note h = hex_key_plain [OF assms(1)] hex_key_plain [OF assms(2)]
  show "blob_path root k = blob_path root k' \<longleftrightarrow> k = k'" using h by (simp add: blob_path_inj)
  then show "blob_path root k @ ''.tmp'' = blob_path root k' @ ''.tmp'' \<longleftrightarrow> k = k'" by simp
  have "k \<noteq> k' @ ''.tmp''" using h by auto
  then show "blob_path root k \<noteq> blob_path root k' @ ''.tmp''" unfolding blob_path_tmp using h by (simp add: blob_path_inj)
  show "blob_path root k \<notin> set (root_dirs root)" "blob_path root k @ ''.tmp'' \<notin> set (root_dirs root)"
    unfolding blob_path_tmp using h by (simp_all add: root_dirs_not_blob)
qed

lemma FS_Put_apply:
  assumes "fs_inv root fs" "hex_key k"
  shows "\<exists>fs'. FS_Put root None k ct (Inr x) fs = (Inr (), fs') \<and>
    (\<forall>q. map_of fs' q = (if q = blob_path root k then Some (File x) else if q = blob_path root k @ ''.tmp'' then None
       else map_of fs q) \<or> q \<in> set (root_dirs root) \<and> map_of fs' q = Some Dir)"
proof -
  let ?p = "blob_path root k" and ?t = "blob_path root k @ ''.tmp''"
  have pl: "plain_comp k" "plain_comp (k @ ''.tmp'')" using hex_key_plain [OF assms(2)] by auto
  obtain fs1 where fs1: "mkdirs (root_dirs root) fs = (Inr (), fs1)"
    "\<forall>q. map_of fs1 q = map_of fs q \<or> q \<in> set (root_dirs root) \<and> map_of fs1 q = Some Dir"
    using mkdirs_ok [of "root_dirs root" fs] fs_inv_blob(3) [OF assms(1,2)] by blast
  have nd: "node_at g ?t = map_of g ?t" "node_at g ?p = map_of g ?p" for g
    unfolding blob_path_tmp using pl by (simp_all add: blob_path_node)
  have dirs: "map_of fs1 ?p \<noteq> Some Dir" "map_of fs1 ?t \<noteq> Some Dir"
    using fs1(2) fs_inv_blob(1,2) [OF assms(1,2)] hex_paths(4,5) [OF assms(2,2)] by metis+
  have ne: "?t \<noteq> ?p" by simp
  have "FS_Put root None k ct (Inr x) fs = (Inr (), set_node ?p (File x) (unset_node ?t (set_node ?t (File x) (set_node ?t (File []) fs1))))"
    using dirs by (simp add: FS_Put_def safePath_hex [OF assms(2) fs_inv_blob(4) [OF assms(1,2)]] eff_simps parents_blob_path [OF pl(1)] fs1(1)
      Let_def write_file_def rename_file_def nd)
  with fs1(2) ne show ?thesis by auto
qed

lemma fs_content_get:
  assumes "fs_inv root fs" "hex_key k"
  shows "FS_Get root k fs =
    (case fs_content root fs k of None \<Rightarrow> Inl ErrNotExist | Some x \<Rightarrow> Inr (Inr x, ''application/octet-stream''), fs)"
proof -
  have pl: "plain_comp k" using hex_key_plain [OF assms(2)] by auto
  have "\<not> list_ex (\<lambda>q. case node_at fs q of Some (File _) \<Rightarrow> True | _ \<Rightarrow> False) (root_dirs root)"
    using fs_inv_blob(3) [OF assms(1,2)] unfolding list_ex_iff not_file_def by (fastforce split: option.splits node.splits)
  with fs_inv_blob(1) [OF assms(1,2)] show ?thesis
    by (auto simp: FS_Get_def safePath_hex [OF assms(2) fs_inv_blob(4) [OF assms(1,2)]] eff_simps open_file_def parents_blob_path [OF pl]
      blob_path_node [OF pl] fs_content_def split: option.splits node.splits)
qed

lemma fs_put_contract:
  assumes "fs_inv root fs" "hex_key k"
  shows "\<exists>fs'. FS_Put root None k ct (Inr x) fs = (Inr (), fs') \<and> fs_inv root fs' \<and>
    (\<forall>k'. hex_key k' \<longrightarrow> fs_content root fs' k' = (if k' = k then Some x else fs_content root fs k'))"
proof -
  obtain fs' where p: "FS_Put root None k ct (Inr x) fs = (Inr (), fs')"
    and m: "\<And>q. map_of fs' q = (if q = blob_path root k then Some (File x) else if q = blob_path root k @ ''.tmp'' then None
       else map_of fs q) \<or> q \<in> set (root_dirs root) \<and> map_of fs' q = Some Dir"
    using FS_Put_apply [OF assms, of ct x] by blast
  have blob: "map_of fs' (blob_path root k') = (if k' = k then Some (File x) else map_of fs (blob_path root k'))"
    and tmp: "map_of fs' (blob_path root k' @ ''.tmp'') =
      (if k' = k then None else map_of fs (blob_path root k' @ ''.tmp''))" if "hex_key k'" for k'
    using m [of "blob_path root k'"] m [of "blob_path root k' @ ''.tmp''"] hex_paths [OF that assms(2), of root]
      hex_paths(2) [OF assms(2) that, of root] by auto
  have "not_file fs' q" if "q \<in> set (root_dirs root)" for q
  proof -
    have "q \<noteq> blob_path root k" "q \<noteq> blob_path root k @ ''.tmp''"
      using hex_paths(4,5) [OF assms(2,2), of root] that by auto
    with m [of q] have "map_of fs' q = map_of fs q \<or> map_of fs' q = Some Dir" by auto
    with fs_inv_blob(3) [OF assms(1,2) that] show ?thesis
      by (auto simp: not_file_def node_at_def split: option.splits node.splits if_splits)
  qed
  moreover have "map_of fs' (blob_path root k') \<noteq> Some Dir \<and> map_of fs' (blob_path root k' @ ''.tmp'') \<noteq> Some Dir"
    if "hex_key k'" for k' using blob [OF that] tmp [OF that] fs_inv_blob(1,2) [OF assms(1) that] by auto
  ultimately have "fs_inv root fs'" unfolding fs_inv_iff using fs_inv_blob(4) [OF assms(1,2)] by blast
  with p blob show ?thesis by (auto simp: fs_content_def)
qed

lemma fs_delete_contract:
  assumes "fs_inv root fs" "hex_key k" "fs_content root fs k \<noteq> None"
  shows "\<exists>fs'. FS_Delete root k fs = (Inr (), fs') \<and> fs_inv root fs' \<and>
    (\<forall>k'. hex_key k' \<longrightarrow> fs_content root fs' k' = (if k' = k then None else fs_content root fs k'))"
proof -
  have pl: "plain_comp k" using hex_key_plain [OF assms(2)] by auto
  obtain x where x: "fs_content root fs k = Some x" using assms(3) by auto
  then have "open_file fs (blob_path root k) = Inr (Inr x)"
    using fs_content_get [OF assms(1,2)] by (simp add: FS_Get_def safePath_hex [OF assms(2) fs_inv_blob(4) [OF assms(1,2)]] eff_simps split: sum.splits)
  then have d: "FS_Delete root k fs = (Inr (), unset_node (blob_path root k) fs)"
    by (simp add: FS_Delete_def safePath_hex [OF assms(2) fs_inv_blob(4) [OF assms(1,2)]] eff_simps)
  have "not_file (unset_node (blob_path root k) fs) q" if "q \<in> set (root_dirs root)" for q
    using fs_inv_blob(3) [OF assms(1,2) that] by (auto simp: not_file_def node_at_def split: option.splits node.splits if_splits)
  then have "fs_inv root (unset_node (blob_path root k) fs)"
    unfolding fs_inv_iff using fs_inv_blob(1,2,4) [OF assms(1)] assms(2) by simp
  with d show ?thesis by (auto simp: fs_content_def hex_paths(1) [OF _ assms(2)])
qed

text \<open>The interface, on any directory.\<close>

interpretation fsblob: blob_spec "fs_store root" "fs_inv root" hex_key "fs_content root" "''application/octet-stream''"
  for root
proof (unfold_locales, goal_cases)
  case (1 s k ct x)
  then show ?case using fs_put_contract [of root s k ct x] by (simp add: fs_store_def)
next
  case (2 s k)
  then show ?case using fs_content_get [of root s k] by (simp add: fs_store_def)
next
  case (3 s k)
  then show ?case using fs_delete_contract [of root s k] by (simp add: fs_store_def)
qed

section \<open>Media in and out\<close>

lemma hex_char_hex: "n < 16 \<Longrightarrow> hex_char n \<in> set ''0123456789abcdef''"
proof -
  have "list_all (\<lambda>n. hex_char n \<in> set ''0123456789abcdef'') [0..<16]" by code_simp
  then show "n < 16 \<Longrightarrow> ?thesis" by (simp add: list_all_iff)
qed

lemma hex_encode_all:
  assumes "\<And>n. n < 16 \<Longrightarrow> P (hex_char n)"
  shows "list_all P (hex_encode rnd)"
proof -
  have "of_char c div 16 < (16 :: nat)" for c :: char using of_char_less [of c] by auto
  then show ?thesis unfolding hex_encode_def by (induction rnd) (simp_all add: assms)
qed

lemma hex_encode_key: "rnd \<noteq> [] \<Longrightarrow> hex_key (randomHexKey rnd)"
  using hex_encode_all [of "\<lambda>c. c \<in> set ''0123456789abcdef''" rnd] hex_char_hex
  by (cases rnd) (simp_all add: hex_key_def randomHexKey_def hex_encode_def del: list.set)

lemma hex_key_served:
  assumes "hex_key k"
  shows "trim_char (CHR ''/'') (trim_space k) = k" "safeMediaKey k"
proof -
  have h: "\<forall>c \<in> set k. c \<in> set ''0123456789abcdef''" and ne: "k \<noteq> []" using assms by (auto simp: hex_key_def list_all_iff)
  have "list_all (\<lambda>c. graphic c \<and> media_key_char c \<and> c \<noteq> CHR ''/'' \<and> c \<noteq> CHR ''.'') ''0123456789abcdef''" by code_simp
  with h have g: "\<forall>c \<in> set k. graphic c \<and> media_key_char c \<and> c \<noteq> CHR ''/'' \<and> c \<noteq> CHR ''.''"
    unfolding list_all_iff by blast
  then have t: "trim_space k = k" using ne by (intro trim_space_graphic) auto
  have "hd k \<noteq> CHR ''/''" "last k \<noteq> CHR ''/''" using g ne by auto
  with t show "trim_char (CHR ''/'') (trim_space k) = k"
    unfolding trim_char_def using ne by (cases k) (auto simp: trim_right_char_id)
  have "\<not> contains k ''..''"
  proof
    assume "contains k ''..''"
    then have "CHR ''.'' \<in> set k" unfolding contains_iff using set_mono_sublist by fastforce
    with g show False by blast
  qed
  with g ne show "safeMediaKey k" by (simp add: safeMediaKey_def list_all_iff)
qed

lemma GetMedia_hex:
  assumes "hex_key k" "r_method g = ''GET''"
  shows "fst (GetMedia (Some b) k g s) = (case fst (b_get b k (st_blobs s)) of
      Inl e \<Rightarrow> Inr (if e = ErrNotExist then not_found else http_error 500 ''media'')
    | Inr (rc, ct) \<Rightarrow> Inr \<lparr>rp_status = 200, rp_type = ct, rp_location = [], rp_body = Bytes (case rc of Inl _ \<Rightarrow> [] | Inr x \<Rightarrow> x)\<rparr>)"
  using assms(2)
  by (simp add: GetMedia_def hex_key_served [OF assms(1)] eff_simps on_blobs_def case_prod_beta split: sum.splits)

text \<open>
  C12: An upload that is answered with 200 came with the secret and within the size limit, and the
  bytes are served at the new key from then on, while every other key serves what it served before.
  They are served as \<^verbatim>\<open>application/octet-stream\<close> whatever type the upload had.
\<close>

theorem uploads_served:
  assumes "fs_inv root (st_blobs s)" "rnd \<noteq> []" "PostMediaUpload (Some (fs_store root)) rnd r s = (Inr rep, s')"
    and "rp_status rep = 200" "r_method g = ''GET''"
  shows "\<exists>body. read_body r (media_max (s_cfg (st_sys s)) + 1) = Inr body \<and> int (length body) \<le> media_max (s_cfg (st_sys s)) \<and>
    mediaBearerAuthorized r (MediaUploadSecret (s_cfg (st_sys s))) \<and> st_sys s' = st_sys s \<and>
    (\<forall>k. hex_key k \<longrightarrow> fst (GetMedia (Some (fs_store root)) k g s') =
      (if k = randomHexKey rnd
       then Inr \<lparr>rp_status = 200, rp_type = ''application/octet-stream'', rp_location = [], rp_body = Bytes body\<rparr>
       else fst (GetMedia (Some (fs_store root)) k g s)))"
proof -
  obtain body where b: "read_body r (media_max (s_cfg (st_sys s)) + 1) = Inr body" "int (length body) \<le> media_max (s_cfg (st_sys s))"
      "mediaBearerAuthorized r (MediaUploadSecret (s_cfg (st_sys s)))" "st_sys s' = st_sys s"
    and g: "\<And>k. hex_key k \<Longrightarrow> fst (b_get (fs_store root) k (st_blobs s')) =
       (if k = randomHexKey rnd then Inr (Inr body, ''application/octet-stream'') else fst (b_get (fs_store root) k (st_blobs s)))"
    using fsblob.upload [OF assms(1) hex_encode_key [OF assms(2)] assms(3,4)] by blast
  have "fst (GetMedia (Some (fs_store root)) k g s') =
      (if k = randomHexKey rnd
       then Inr \<lparr>rp_status = 200, rp_type = ''application/octet-stream'', rp_location = [], rp_body = Bytes body\<rparr>
       else fst (GetMedia (Some (fs_store root)) k g s))" if "hex_key k" for k
    unfolding GetMedia_hex [OF that assms(5)] g [OF that] by simp
  with b show ?thesis by blast
qed

text \<open>
  The path of a key lies below the directory of the store: it is the path of the directory with
  further components, none of which is \<^verbatim>\<open>..\<close> or contains a slash, whatever the key is.
\<close>

theorem safePath_inside:
  assumes "safePath root key = Inr p" "root \<noteq> []"
  shows "\<exists>ks. path_comps p = path_comps root @ ks \<and> rooted p = rooted root \<and>
    (\<forall>c \<in> set ks. c \<noteq> [] \<and> c \<noteq> ''.'' \<and> c \<noteq> ''..'' \<and> CHR ''/'' \<notin> set c)"
proof -
  obtain ks where p: "p = path_string (rooted root) (path_comps root @ ks)" "list_all plain_comp ks"
    using safePath_below [OF assms] by blast
  have "clean_form rt (cs @ ks)" if "clean_form rt cs" "list_all plain_comp ks" for rt cs
    using that
  proof (induction ks arbitrary: cs)
    case (Cons c ks)
    have "clean_form rt (cs @ [c])" using clean_step_form [OF Cons.prems(1), of c] Cons.prems(2) by (simp add: plain_comp_def)
    with Cons.IH [of "cs @ [c]"] Cons.prems(2) show ?case by simp
  qed simp
  with p path_comps_form have "clean_form (rooted root) (path_comps root @ ks)" by blast
  with p show ?thesis by (auto simp: path_comps_string rooted_path_string list_all_iff plain_comp_def dotdot_def)
qed

end
