(* ===== verification/Statuses.thy ===== *)
theory Statuses
  imports OAuth Blobs
begin

text \<open>
  How the Mastodon client API shows the data of the server (\<^verbatim>\<open>mastodonapi\<close>: \<^verbatim>\<open>mastodonapi.go\<close>
  \<^verbatim>\<open>accountMap\<close>, \<^verbatim>\<open>json_helpers.go\<close>, \<^verbatim>\<open>status_resolve.go\<close>, \<^verbatim>\<open>timeline_status.go\<close>,
  \<^verbatim>\<open>timeline_status_present.go\<close>): accounts, media attachments and statuses as JSON entities.  They
  read the database only.  A status shows the status it quotes, which shows the one it quotes, and so
  on without a bound: \<open>mastodonStatusPresentation\<close> is a partial function, whose value is \<open>None\<close> where the Go
  recursion does not end, and a handler that runs into it ends in the error \<open>stack_overflow\<close>, which
  stands for the crash of the process.

  \<open>api\<close> is the server with what the rendering asks of the clock: the text of the present time and, as
  the model has no such column, the text of the time an actor was created.  \<open>api_pool\<close> is
  \<^verbatim>\<open>s.Pool != nil\<close>, \<open>api_decode\<close> the first JSON value of a text (\<^verbatim>\<open>json.Decoder\<close>),
  \<open>api_letter\<close> says of a character outside ASCII, given by its UTF-8 bytes, whether it is a letter or a
  number (\<^verbatim>\<open>unicode.IsLetter\<close>, \<^verbatim>\<open>unicode.IsNumber\<close>).
\<close>

record ('pub, 'priv, 'w) api = "('pub, 'priv, 'w) server" +
  api_pool :: bool
  api_now :: string
  api_created :: "int \<Rightarrow> string"
  api_decode :: "string \<Rightarrow> json option"
  api_letter :: "string \<Rightarrow> bool"

section \<open>Replies\<close>

definition writeJSONObjectOK :: "obj \<Rightarrow> reply" where
  "writeJSONObjectOK m = writeJSONResponse 200 (marshal_map m)"

definition writeJSONArrayOK :: "json list \<Rightarrow> reply" where
  "writeJSONArrayOK xs = writeJSONResponse 200 (JArr xs)"

abbreviation method_not_allowed :: reply where
  "method_not_allowed \<equiv> writeAPIError 405 ''method not allowed''"

abbreviation record_not_found :: reply where
  "record_not_found \<equiv> writeAPIError 404 ''Record not found''"

text \<open>The id in a path: \<^verbatim>\<open>strconv.ParseInt(raw, 10, 64)\<close>, at least 1.\<close>

definition path_id :: "string \<Rightarrow> int option" where
  "path_id raw = (case parse_int64 raw of None \<Rightarrow> None | Some i \<Rightarrow> if i < 1 then None else Some i)"

definition timelineLimit :: "'a request_scheme \<Rightarrow> int" where
  "timelineLimit r =
     (let l = trim_space (values_get (query_of r) ''limit'')
      in if l = [] then 20
         else case parse_int64 l of
           None \<Rightarrow> 20
         | Some n \<Rightarrow> if n < 1 then 20 else if n > 80 then 80 else n)"

section \<open>Members of a decoded object\<close>

text \<open>\<^verbatim>\<open>s, _ := m[k].(string)\<close>, \<^verbatim>\<open>m[k].(map[string]any)\<close>, \<^verbatim>\<open>b, ok := m[k].(bool)\<close>.\<close>

definition str_at :: "obj \<Rightarrow> string \<Rightarrow> string" where
  "str_at m k = (case obj_get m k of Some (JStr s) \<Rightarrow> s | _ \<Rightarrow> [])"

definition obj_at :: "obj \<Rightarrow> string \<Rightarrow> obj option" where
  "obj_at m k = (case obj_get m k of Some (JObj ob) \<Rightarrow> Some ob | _ \<Rightarrow> None)"

definition true_at :: "obj \<Rightarrow> string \<Rightarrow> bool" where
  "true_at m k \<longleftrightarrow> obj_get m k = Some (JBool True)"

text \<open>
  \<^verbatim>\<open>int64(v)\<close> of a JSON number: the integer part of the literal.  The rounding of the literal to a
  double, which changes nothing up to 2^53, is left out.
\<close>

definition number_int :: "string \<Rightarrow> int" where
  "number_int lit =
     (let neg = has_prefix lit ''-''; body = trim_prefix lit ''-'';
          mant = takeWhile (\<lambda>c. c \<noteq> CHR ''e'' \<and> c \<noteq> CHR ''E'') body;
          ex = tl (dropWhile (\<lambda>c. c \<noteq> CHR ''e'' \<and> c \<noteq> CHR ''E'') body);
          ip = cut_before (CHR ''.'') mant; fp = cut_after (CHR ''.'') mant;
          e = (case parse_int64 ex of None \<Rightarrow> 0 | Some x \<Rightarrow> x) - int (length fp);
          m = int (digits_value (ip @ fp));
          n = (if e \<ge> 0 then m * 10 ^ nat e else m div 10 ^ nat (- e))
      in if neg then - n else n)"

definition objectIsNote :: "obj \<Rightarrow> bool" where
  "objectIsNote ob =
     (case obj_get ob ''type'' of
        Some (JStr t) \<Rightarrow> equal_fold (trim_space t) ''Note''
      | Some (JArr xs) \<Rightarrow> list_ex (\<lambda>e. case e of JStr s \<Rightarrow> has_suffix (trim_space s) ''Note'' | _ \<Rightarrow> False) xs
      | _ \<Rightarrow> False)"

record resolved_status =
  rs_row :: activity_row
  rs_note :: obj
  rs_note_iri :: string
  rs_author_iri :: string

definition is_create_row :: "activity_row \<Rightarrow> bool" where
  "is_create_row row \<longleftrightarrow> equal_fold (trim_space (v_type row)) ''create''"

definition resolveCreateStatusRow :: "activity_row \<Rightarrow> resolved_status option" where
  "resolveCreateStatusRow row =
     (if \<not> is_create_row row then None
      else case um_object (v_raw row) of
        None \<Rightarrow> None
      | Some act \<Rightarrow>
          (case obj_at act ''object'' of
             None \<Rightarrow> None
           | Some note \<Rightarrow>
               (if \<not> objectIsNote note \<or> trim_space (str_at note ''id'') = [] then None
                else Some \<lparr>rs_row = row, rs_note = note, rs_note_iri = trim_space (str_at note ''id''),
                       rs_author_iri = trim_space (str_at note ''attributedTo'')\<rparr>)))"

section \<open>Accounts\<close>

definition json_int :: "int \<Rightarrow> json" where
  "json_int n = JNum (itoa n)"

definition account_entity :: "string \<Rightarrow> string \<Rightarrow> string \<Rightarrow> string \<Rightarrow> string \<Rightarrow> string \<Rightarrow> string \<Rightarrow> obj" where
  "account_entity ident uname acct display created note profile =
     [(''acct'', JStr acct), (''avatar'', JStr []), (''avatar_static'', JStr []), (''bot'', JBool False),
      (''created_at'', JStr created), (''discoverable'', JBool False), (''display_name'', JStr display),
      (''emojis'', JArr []), (''fields'', JArr []), (''followers_count'', json_int 0), (''following_count'', json_int 0),
      (''group'', JBool False), (''header'', JStr []), (''header_static'', JStr []), (''id'', JStr ident),
      (''last_status_at'', JNull), (''locked'', JBool False), (''noindex'', JBool False), (''note'', JStr note),
      (''roles'', JArr []), (''statuses_count'', json_int 0), (''url'', JStr profile), (''username'', JStr uname)]"

definition accountMap :: "('pub, 'priv, 'w) api \<Rightarrow> db \<Rightarrow> int \<Rightarrow> err + obj" where
  "accountMap api d actorID =
     (case fst (ActorForMastodon actorID d) of
        Inl e \<Rightarrow> Inl e
      | Inr a \<Rightarrow> Inr (account_entity (itoa (a_id a)) (a_username a) (a_username a @ ''@'' @ a_domain a)
                        (a_username a) (api_created api (a_id a)) [] (a_url a)))"

section \<open>Media attachments\<close>

text \<open>\<^verbatim>\<open>path.Base\<close>.\<close>

definition path_base :: "string \<Rightarrow> string" where
  "path_base p =
     (if p = [] then ''.''
      else let q = trim_right_slash p
           in if q = [] then ''/'' else case after_last (CHR ''/'') q of None \<Rightarrow> q | Some b \<Rightarrow> b)"

definition mastodonMediaTypeFromMIME :: "string \<Rightarrow> string" where
  "mastodonMediaTypeFromMIME m = (if has_prefix (go_lower m) ''image/'' then ''image'' else ''unknown'')"

definition media_description :: "media_row \<Rightarrow> string" where
  "media_description mr = (case md_description mr of None \<Rightarrow> [] | Some s \<Rightarrow> s)"

definition attachment_type :: "obj \<Rightarrow> string" where
  "attachment_type doc =
     (if str_at doc ''mediaType'' \<noteq> [] then str_at doc ''mediaType''
      else if str_at doc ''mimeType'' \<noteq> [] then str_at doc ''mimeType'' else ''application/octet-stream'')"

definition attachment_desc :: "('pub, 'priv, 'w) api \<Rightarrow> db \<Rightarrow> int \<Rightarrow> obj \<Rightarrow> int \<Rightarrow> json" where
  "attachment_desc api d author doc mid =
     (if str_at doc ''name'' \<noteq> [] then JStr (str_at doc ''name'')
      else if mid > 0 \<and> api_pool api
           then case fst (GetMastodonMediaForActor mid author d) of
                  Inl _ \<Rightarrow> JNull
                | Inr mr \<Rightarrow> if media_description mr = [] then JNull else JStr (media_description mr)
      else JNull)"

definition media_attachment :: "('pub, 'priv, 'w) api \<Rightarrow> db \<Rightarrow> int \<Rightarrow> json \<Rightarrow> json option" where
  "media_attachment api d author el =
     (case el of
        JObj doc \<Rightarrow>
          (let u = trim_space (str_at doc ''url'')
           in if u = [] then None
              else case url_parse u of
                None \<Rightarrow> None
              | Some pu \<Rightarrow>
                  (let key = trim_char (CHR ''/'') (path_base (u_path pu))
                   in if key = [] \<or> key = ''.'' then None
                      else let mid = (if api_pool api
                                      then case fst (LookupMastodonMediaIDByBlobKey author key d) of Inl _ \<Rightarrow> 0 | Inr i \<Rightarrow> i
                                      else 0)
                           in Some (JObj
                                [(''blurhash'', JNull), (''description'', attachment_desc api d author doc mid),
                                 (''id'', JStr (itoa mid)), (''meta'', JObj []), (''preview_remote_url'', JNull),
                                 (''preview_url'', JStr u), (''remote_url'', JNull), (''sensitive'', JBool (true_at doc ''sensitive'')),
                                 (''text_url'', JStr u), (''type'', JStr (mastodonMediaTypeFromMIME (attachment_type doc))),
                                 (''url'', JStr u)])))
      | _ \<Rightarrow> None)"

definition mediaAttachmentsForNote :: "('pub, 'priv, 'w) api \<Rightarrow> db \<Rightarrow> int \<Rightarrow> obj \<Rightarrow> json list" where
  "mediaAttachmentsForNote api d author note =
     (case obj_get note ''attachment'' of
        Some (JArr xs) \<Rightarrow> List.map_filter (media_attachment api d author) xs
      | _ \<Rightarrow> [])"

section \<open>Statuses\<close>

definition publishedFromNoteOrCreate :: "('pub, 'priv, 'w) api \<Rightarrow> obj \<Rightarrow> obj \<Rightarrow> string" where
  "publishedFromNoteOrCreate api act note =
     (if trim_space (str_at note ''published'') \<noteq> [] then str_at note ''published''
      else if trim_space (str_at act ''published'') \<noteq> [] then str_at act ''published''
      else api_now api)"

definition noteVisibilityKey :: string where "noteVisibilityKey = ''_visibility''"
definition noteDirectRecipientsKey :: string where "noteDirectRecipientsKey = ''_directRecipientActorIds''"
definition internalInReplyToActivityKey :: string where "internalInReplyToActivityKey = ''_inReplyToActivityId''"
definition noteSensitiveKey :: string where "noteSensitiveKey = ''_sensitive''"
definition noteSpoilerTextKey :: string where "noteSpoilerTextKey = ''_spoiler_text''"
definition quotedStatusActivityKey :: string where "quotedStatusActivityKey = ''_quotedStatusActivityId''"

definition note_visibility :: "obj \<Rightarrow> string" where
  "note_visibility note =
     (let vis = trim_space (go_lower (str_at note noteVisibilityKey)) in if vis = [] then ''public'' else vis)"

definition note_spoiler :: "obj \<Rightarrow> string" where
  "note_spoiler note =
     (if trim_space (str_at note noteSpoilerTextKey) \<noteq> [] then str_at note noteSpoilerTextKey
      else case obj_get note ''summary'' of Some (JStr s) \<Rightarrow> s | _ \<Rightarrow> str_at note noteSpoilerTextKey)"

definition attachment_sensitive :: "json \<Rightarrow> bool" where
  "attachment_sensitive el = (case el of JObj m \<Rightarrow> true_at m ''sensitive'' | _ \<Rightarrow> False)"

definition status_entity :: "int \<Rightarrow> string \<Rightarrow> obj \<Rightarrow> json list \<Rightarrow> obj \<Rightarrow> obj" where
  "status_entity ident created acct media note =
     [(''account'', JObj acct), (''bookmarked'', JBool False), (''card'', JNull),
      (''content'', JStr (str_at note ''content'')), (''created_at'', JStr created), (''emojis'', JArr []),
      (''favourited'', JBool False), (''favourites_count'', json_int 0), (''id'', JStr (itoa ident)),
      (''language'', JStr ''en''), (''media_attachments'', JArr media), (''mentions'', JArr []),
      (''muted'', JBool False), (''pinned'', JBool False), (''poll'', JNull), (''reblogged'', JBool False),
      (''reblogs_count'', json_int 0), (''replies_count'', json_int 0),
      (''sensitive'', JBool (true_at note noteSensitiveKey \<or> true_at note ''sensitive'' \<or> list_ex attachment_sensitive media)),
      (''spoiler_text'', JStr (note_spoiler note)), (''tags'', JArr []),
      (''uri'', JStr (str_at note ''id'')), (''url'', JStr (str_at note ''id'')),
      (''visibility'', JStr (note_visibility note))]"

definition mastodonStatusFromCreateRow :: "('pub, 'priv, 'w) api \<Rightarrow> db \<Rightarrow> activity_row \<Rightarrow> obj option" where
  "mastodonStatusFromCreateRow api d row =
     (case um_object (v_raw row) of
        None \<Rightarrow> None
      | Some act \<Rightarrow>
          (case obj_at act ''object'' of
             None \<Rightarrow> None
           | Some note \<Rightarrow>
               (if \<not> objectIsNote note then None
                else case accountMap api d (v_actor row) of
                  Inl _ \<Rightarrow> None
                | Inr acct \<Rightarrow>
                    Some (status_entity (v_id row) (publishedFromNoteOrCreate api act note) acct
                            (mediaAttachmentsForNote api d (v_actor row) note) note))))"

text \<open>The counts and the flags of the viewer; \<open>0\<close> is no viewer.\<close>

definition with_counts :: "db \<Rightarrow> string \<Rightarrow> obj \<Rightarrow> obj" where
  "with_counts d noteIRI m =
     (let m1 = (case fst (CountFederatedLikesOnObjectURL noteIRI d) of
                  Inl _ \<Rightarrow> m | Inr n \<Rightarrow> obj_set m ''favourites_count'' (json_int (int n)))
      in case fst (CountFederatedAnnouncesOnObjectURL noteIRI d) of
           Inl _ \<Rightarrow> m1 | Inr n \<Rightarrow> obj_set m1 ''reblogs_count'' (json_int (int n)))"

definition or_false :: "err + bool \<Rightarrow> bool" where
  "or_false r = (case r of Inl _ \<Rightarrow> False | Inr b \<Rightarrow> b)"

definition with_viewer :: "db \<Rightarrow> int \<Rightarrow> string \<Rightarrow> obj \<Rightarrow> obj" where
  "with_viewer d viewer noteIRI m =
     (let m1 = obj_set m ''favourited'' (JBool (or_false (fst (ActorHasLikedObject viewer noteIRI d))));
          m2 = obj_set m1 ''reblogged'' (JBool (or_false (fst (ActorHasAnnouncedObject viewer noteIRI d))))
      in case parse_int64 (str_at m ''id'') of
           None \<Rightarrow> m2
         | Some sid \<Rightarrow> obj_set m2 ''bookmarked'' (JBool (or_false (fst (StatusBookmarked viewer sid d)))))"

definition social_view :: "db \<Rightarrow> int \<Rightarrow> obj \<Rightarrow> obj" where
  "social_view d viewer m =
     (let noteIRI = trim_space (str_at m ''uri'')
      in if noteIRI = [] then m
         else let m1 = with_counts d noteIRI m in if viewer > 0 then with_viewer d viewer noteIRI m1 else m1)"

definition quoted_id :: "json \<Rightarrow> int option" where
  "quoted_id raw =
     (case um_object raw of
        None \<Rightarrow> None
      | Some act \<Rightarrow>
          (case obj_at act ''object'' of
             None \<Rightarrow> None
           | Some note \<Rightarrow>
               (case obj_get note quotedStatusActivityKey of
                  Some (JNum lit) \<Rightarrow> if number_int lit < 1 then None else Some (number_int lit)
                | _ \<Rightarrow> None)))"

definition quoted_row :: "db \<Rightarrow> activity_row \<Rightarrow> activity_row option" where
  "quoted_row d row =
     (case quoted_id (v_raw row) of
        None \<Rightarrow> None
      | Some qid \<Rightarrow>
          (case fst (GetActivityByID qid d) of
             Inl _ \<Rightarrow> None
           | Inr q \<Rightarrow> if v_deleted q \<noteq> None then None else Some q))"

partial_function (option) mastodonStatusPresentation ::
  "('pub, 'priv, 'w) api \<Rightarrow> db \<Rightarrow> activity_row \<Rightarrow> int \<Rightarrow> obj option option" where
  "mastodonStatusPresentation api d row viewer =
     (if v_deleted row \<noteq> None then Some None
      else case mastodonStatusFromCreateRow api d row of
        None \<Rightarrow> Some None
      | Some m \<Rightarrow>
          (if \<not> api_pool api then Some (Some m)
           else case quoted_row d row of
             None \<Rightarrow> Some (Some (social_view d viewer m))
           | Some q \<Rightarrow>
               Option.bind (mastodonStatusPresentation api d q 0) (\<lambda>shown.
                 Some (Some (case shown of
                     None \<Rightarrow> social_view d viewer m
                   | Some st \<Rightarrow> obj_set (social_view d viewer m) ''quoted_status'' (marshal_map st))))))"

definition stack_overflow :: err where
  "stack_overflow = Msg ''goroutine stack exceeds 1000000000-byte limit''"

definition present :: "('pub, 'priv, 'w) api \<Rightarrow> activity_row \<Rightarrow> int \<Rightarrow> ('w sys, obj option) eff" where
  "present api row viewer =
     on_db (query (\<lambda>d. case mastodonStatusPresentation api d row viewer of
       None \<Rightarrow> Inl stack_overflow | Some st \<Rightarrow> Inr st))"

text \<open>The statuses of a list of rows; those that cannot be shown are left out.\<close>

fun present_all :: "('pub, 'priv, 'w) api \<Rightarrow> (obj \<Rightarrow> obj) \<Rightarrow> activity_row list \<Rightarrow> int \<Rightarrow> ('w sys, json list) eff" where
  "present_all api f [] viewer = ret []"
| "present_all api f (row # rows) viewer =
     bind_eff (present api row viewer) (\<lambda>st.
     bind_eff (present_all api f rows viewer) (\<lambda>sts.
       ret (case st of None \<Rightarrow> sts | Some m \<Rightarrow> marshal_map (f m) # sts)))"

definition writeStatusPresentation :: "('pub, 'priv, 'w) api \<Rightarrow> activity_row \<Rightarrow> int \<Rightarrow> ('w sys, reply) eff" where
  "writeStatusPresentation api row viewer =
     bind_eff (present api row viewer) (\<lambda>st. case st of
       None \<Rightarrow> ret record_not_found
     | Some m \<Rightarrow> ret (writeJSONResponse 200 (marshal_map m)))"

section \<open>When a status can be shown\<close>

definition next_shown :: "('pub, 'priv, 'w) api \<Rightarrow> db \<Rightarrow> activity_row \<Rightarrow> activity_row option" where
  "next_shown api d row =
     (if v_deleted row \<noteq> None \<or> mastodonStatusFromCreateRow api d row = None \<or> \<not> api_pool api then None else quoted_row d row)"

fun quoted_at :: "('pub, 'priv, 'w) api \<Rightarrow> db \<Rightarrow> nat \<Rightarrow> activity_row \<Rightarrow> activity_row option" where
  "quoted_at api d 0 row = Some row"
| "quoted_at api d (Suc n) row = (case next_shown api d row of None \<Rightarrow> None | Some q \<Rightarrow> quoted_at api d n q)"

lemma presentation_step:
  "(\<exists>y. mastodonStatusPresentation api d row viewer = Some y) \<longleftrightarrow>
   (case next_shown api d row of None \<Rightarrow> True | Some q \<Rightarrow> \<exists>y. mastodonStatusPresentation api d q 0 = Some y)"
  unfolding mastodonStatusPresentation.simps [of api d row viewer] next_shown_def
  by (auto simp: Option.bind_eq_Some_conv split: option.splits)

lemma presentation_returnsI:
  "quoted_at api d n row = None \<Longrightarrow> \<exists>y. mastodonStatusPresentation api d row viewer = Some y"
proof (induction n arbitrary: row viewer)
  case (Suc n)
  then show ?case unfolding presentation_step [of api d row viewer] by (auto split: option.splits)
qed simp

lemma presentation_returnsD:
  assumes "mastodonStatusPresentation api d row viewer = Some y"
  shows "\<exists>n. quoted_at api d n row = None"
  using _ assms
proof (rule mastodonStatusPresentation.raw_induct [where P = "\<lambda>api d row viewer y. \<exists>n. quoted_at api d n row = None"], goal_cases)
  case (1 f api d row viewer y)
  show ?case
  proof (cases "next_shown api d row")
    case None
    then show ?thesis by (intro exI [of _ 1]) simp
  next
    case (Some q)
    with 1(2) obtain z where "f api d q 0 = Some z"
      by (auto simp: next_shown_def Option.bind_eq_Some_conv split: if_splits option.splits)
    with 1(1) obtain n where "quoted_at api d n q = None" by blast
    with Some show ?thesis by (intro exI [of _ "Suc n"]) simp
  qed
qed


lemma quoted_at_cycle:
  assumes "quoted_at api d (Suc k) row = Some row"
  shows "\<exists>q. quoted_at api d n row = Some q"
proof -
  have add: "quoted_at api d (m + n) row = Option.bind (quoted_at api d m row) (quoted_at api d n)" for m n row
    by (induction m arbitrary: row) (auto split: option.splits)
  have mult: "quoted_at api d (n * Suc k) row = Some row" for n
  proof (induction n)
    case (Suc n)
    have "quoted_at api d (Suc n * Suc k) row = Option.bind (quoted_at api d (n * Suc k) row) (quoted_at api d (Suc k))"
      unfolding add [symmetric] by (simp only: mult_Suc add.commute)
    then show ?case using Suc assms by simp
  qed simp
  obtain m where "n + m = n * Suc k" by (metis le_add1 le_add_diff_inverse mult_Suc_right)
  with mult [of n] add [of n m row] have "Option.bind (quoted_at api d n row) (quoted_at api d m) = Some row" by simp
  then show ?thesis by (auto simp: Option.bind_eq_Some_conv)
qed

text \<open>Older statuses only: then every status can be shown.\<close>

definition quotes_older :: "db \<Rightarrow> bool" where
  "quotes_older d \<longleftrightarrow> (\<forall>v \<in> set (d_activities d). case quoted_id (v_raw v) of None \<Rightarrow> True | Some i \<Rightarrow> i < v_id v)"

lemma quoted_id_pos: "quoted_id raw = Some i \<Longrightarrow> i \<ge> 1"
  by (auto simp: quoted_id_def split: option.splits json.splits if_splits)

lemma quoted_row_stored:
  "quoted_row d v = Some q \<Longrightarrow> quoted_id (v_raw v) = Some (v_id q) \<and> q \<in> set (d_activities d) \<and> v_id q \<ge> 1"
  by (auto simp: quoted_row_def GetActivityByID_def eff_simps wrap_err_def split: option.splits if_splits sum.splits
      dest!: select_one_ok dest: quoted_id_pos)

lemma quotes_older_ends:
  assumes "quotes_older d" "v \<in> set (d_activities d)"
  shows "\<exists>n. quoted_at api d n v = None"
  using assms(2)
proof (induction "nat (v_id v)" arbitrary: v rule: less_induct)
  case less
  show ?case
  proof (cases "next_shown api d v")
    case None
    then show ?thesis by (intro exI [of _ 1]) simp
  next
    case (Some q)
    then have q: "quoted_row d v = Some q" by (simp add: next_shown_def split: if_splits)
    with assms(1) less.prems quoted_row_stored [OF q] have "v_id q < v_id v" by (auto simp: quotes_older_def)
    with quoted_row_stored [OF q] less.hyps [of q] obtain n where "quoted_at api d n q = None" by auto
    with Some show ?thesis by (intro exI [of _ "Suc n"]) simp
  qed
qed

lemma quotes_older_shown:
  "quotes_older d \<Longrightarrow> v \<in> set (d_activities d) \<Longrightarrow> \<exists>y. mastodonStatusPresentation api d v viewer = Some y"
  using quotes_older_ends presentation_returnsI by metis

section \<open>The types of the entities\<close>

text \<open>What a client expects of an entity: its members and their JSON types.\<close>

datatype jty = TString | TNumber | TBool | TNullable jty | TArray jty | TObject "(string \<times> jty) list" | TAny

fun has_ty :: "jty \<Rightarrow> json \<Rightarrow> bool" where
  "has_ty TString j = (case j of JStr _ \<Rightarrow> True | _ \<Rightarrow> False)"
| "has_ty TNumber j = (case j of JNum _ \<Rightarrow> True | _ \<Rightarrow> False)"
| "has_ty TBool j = (case j of JBool _ \<Rightarrow> True | _ \<Rightarrow> False)"
| "has_ty (TNullable t) j = (j = JNull \<or> has_ty t j)"
| "has_ty (TArray t) j = (case j of JArr xs \<Rightarrow> list_all (has_ty t) xs | _ \<Rightarrow> False)"
| "has_ty (TObject fs) j =
     (case j of JObj ob \<Rightarrow> list_all (\<lambda>p. case obj_get ob (fst p) of None \<Rightarrow> False | Some v \<Rightarrow> has_ty (snd p) v) fs | _ \<Rightarrow> False)"
| "has_ty TAny j = True"

definition account_ty :: jty where
  "account_ty = TObject
     [(''acct'', TString), (''avatar'', TString), (''avatar_static'', TString), (''bot'', TBool), (''created_at'', TString),
      (''discoverable'', TBool), (''display_name'', TString), (''emojis'', TArray TAny), (''fields'', TArray TAny),
      (''followers_count'', TNumber), (''following_count'', TNumber), (''group'', TBool), (''header'', TString),
      (''header_static'', TString), (''id'', TString), (''last_status_at'', TNullable TString), (''locked'', TBool),
      (''noindex'', TBool), (''note'', TString), (''roles'', TArray TAny), (''statuses_count'', TNumber), (''url'', TString),
      (''username'', TString)]"

definition media_ty :: jty where
  "media_ty = TObject
     [(''blurhash'', TNullable TString), (''description'', TNullable TString), (''id'', TString), (''meta'', TObject []),
      (''preview_remote_url'', TNullable TString), (''preview_url'', TNullable TString), (''remote_url'', TNullable TString),
      (''sensitive'', TBool), (''text_url'', TNullable TString), (''type'', TString), (''url'', TNullable TString)]"

definition status_members :: "(string \<times> jty) list" where
  "status_members =
     [(''account'', account_ty), (''bookmarked'', TBool), (''card'', TNullable TAny), (''content'', TString),
      (''created_at'', TString), (''emojis'', TArray TAny), (''favourited'', TBool), (''favourites_count'', TNumber),
      (''id'', TString), (''language'', TNullable TString), (''media_attachments'', TArray media_ty), (''mentions'', TArray TAny),
      (''muted'', TBool), (''pinned'', TBool), (''poll'', TNullable TAny), (''reblogged'', TBool), (''reblogs_count'', TNumber),
      (''replies_count'', TNumber), (''sensitive'', TBool), (''spoiler_text'', TString), (''tags'', TArray TAny),
      (''uri'', TString), (''url'', TString), (''visibility'', TString)]"

definition status_ty :: jty where
  "status_ty = TObject status_members"

lemma account_entity_ty: "has_ty account_ty (JObj (account_entity i u a n c t p))"
  by (simp add: account_ty_def account_entity_def obj_get_def json_int_def)

lemma attachment_desc_ty: "has_ty (TNullable TString) (attachment_desc api d author doc mid)"
  by (simp add: attachment_desc_def split: sum.splits)

lemma media_attachment_ty:
  assumes "media_attachment api d author el = Some j"
  shows "has_ty media_ty j"
proof -
  obtain doc where doc: "el = JObj doc" using assms by (cases el) (simp_all add: media_attachment_def)
  obtain u mid where j: "j = JObj
      [(''blurhash'', JNull), (''description'', attachment_desc api d author doc mid),
       (''id'', JStr (itoa mid)), (''meta'', JObj []), (''preview_remote_url'', JNull),
       (''preview_url'', JStr u), (''remote_url'', JNull), (''sensitive'', JBool (true_at doc ''sensitive'')),
       (''text_url'', JStr u), (''type'', JStr (mastodonMediaTypeFromMIME (attachment_type doc))), (''url'', JStr u)]"
    using assms unfolding doc by (auto simp: media_attachment_def Let_def split: if_splits option.splits)
  have "has_ty (TNullable TString) (attachment_desc api d author doc mid)" by (rule attachment_desc_ty)
  then show ?thesis unfolding j media_ty_def by (simp add: obj_get_def)
qed

lemma mediaAttachments_ty: "list_all (has_ty media_ty) (mediaAttachmentsForNote api d author note)"
  unfolding mediaAttachmentsForNote_def list_all_iff
  by (auto simp: map_filter_def dest: media_attachment_ty split: option.splits json.splits)

lemma status_entity_ty:
  assumes "has_ty account_ty (JObj acct)" "list_all (has_ty media_ty) media"
  shows "has_ty status_ty (JObj (status_entity ident created acct media note))"
  using assms unfolding status_ty_def status_members_def status_entity_def json_int_def by (simp add: obj_get_def)

lemma mastodonStatus_ty: "mastodonStatusFromCreateRow api d row = Some m \<Longrightarrow> has_ty status_ty (JObj m)"
  by (auto simp: mastodonStatusFromCreateRow_def accountMap_def account_entity_ty mediaAttachments_ty intro!: status_entity_ty
      split: option.splits if_splits sum.splits)

text \<open>Setting a member to a value of its type keeps the type.\<close>

lemma has_ty_obj_set:
  assumes "has_ty (TObject fs) (JObj m)" "\<And>t. (k, t) \<in> set fs \<Longrightarrow> has_ty t v"
  shows "has_ty (TObject fs) (JObj (obj_set m k v))"
  using assms by (auto simp: list_all_iff)

lemma status_keys: "distinct (map fst status_members)"
  by (simp add: status_members_def)

lemma has_ty_status_set:
  "has_ty status_ty (JObj m) \<Longrightarrow> map_of status_members k \<in> {None, Some t} \<Longrightarrow> has_ty t v \<Longrightarrow> has_ty status_ty (JObj (obj_set m k v))"
  unfolding status_ty_def
  by (rule has_ty_obj_set) (auto simp: map_of_eq_None_iff map_of_is_SomeI [OF status_keys] rev_image_eqI)

lemma social_view_get:
  "k \<notin> {''favourites_count'', ''reblogs_count'', ''favourited'', ''reblogged'', ''bookmarked''} \<Longrightarrow>
   obj_get (social_view d viewer m) k = obj_get m k"
  by (auto simp: social_view_def with_counts_def with_viewer_def Let_def split: sum.split option.split)

lemma status_member_ty:
  "map_of status_members ''favourites_count'' = Some TNumber" "map_of status_members ''reblogs_count'' = Some TNumber"
  "map_of status_members ''favourited'' = Some TBool" "map_of status_members ''reblogged'' = Some TBool"
  "map_of status_members ''bookmarked'' = Some TBool" "map_of status_members ''quoted_status'' = None"
  by code_simp+

lemma status_set_number:
  assumes "has_ty status_ty (JObj m)" "k \<in> {''favourites_count'', ''reblogs_count''}"
  shows "has_ty status_ty (JObj (obj_set m k (json_int i)))"
proof (rule has_ty_status_set [OF assms(1), of k TNumber])
  show "map_of status_members k \<in> {None, Some TNumber}" using assms(2) by (elim insertE emptyE) (simp_all only: status_member_ty insert_iff simp_thms)
qed (simp add: json_int_def)

lemma status_set_bool:
  assumes "has_ty status_ty (JObj m)" "k \<in> {''favourited'', ''reblogged'', ''bookmarked''}"
  shows "has_ty status_ty (JObj (obj_set m k (JBool b)))"
proof (rule has_ty_status_set [OF assms(1), of k TBool])
  show "map_of status_members k \<in> {None, Some TBool}" using assms(2) by (elim insertE emptyE) (simp_all only: status_member_ty insert_iff simp_thms)
qed simp

lemma with_counts_ty: "has_ty status_ty (JObj m) \<Longrightarrow> has_ty status_ty (JObj (with_counts d iri m))"
  unfolding with_counts_def Let_def by (simp add: status_set_number del: has_ty.simps split: sum.split)

lemma with_viewer_ty: "has_ty status_ty (JObj m) \<Longrightarrow> has_ty status_ty (JObj (with_viewer d viewer iri m))"
  unfolding with_viewer_def Let_def by (simp add: status_set_bool del: has_ty.simps split: option.split)

lemma social_view_ty: "has_ty status_ty (JObj m) \<Longrightarrow> has_ty status_ty (JObj (social_view d viewer m))"
  unfolding social_view_def Let_def by (simp add: with_counts_ty with_viewer_ty del: has_ty.simps)

lemma has_ty_marshal: "has_ty (TObject fs) (marshal_map m) = has_ty (TObject fs) (JObj m)"
proof -
  obtain gs where gs: "marshal_map m = JObj gs" by (simp add: marshal_map_def)
  then have "obj_get gs k = obj_get m k" for k using obj_get_marshal_map [of m gs k] by simp
  with gs show ?thesis by simp
qed

text \<open>A status entity, with the status it quotes if it shows one.\<close>

inductive status_json :: "json \<Rightarrow> bool" where
  plain: "has_ty status_ty (JObj m) \<Longrightarrow> obj_get m ''quoted_status'' = None \<Longrightarrow> status_json (JObj m)"
| quoting: "has_ty status_ty (JObj m) \<Longrightarrow> obj_get m ''quoted_status'' = Some q \<Longrightarrow> status_json q \<Longrightarrow> status_json (JObj m)"

inductive_cases status_jsonE: "status_json (JObj m)"

lemma status_json_marshal:
  assumes "status_json (JObj m)"
  shows "status_json (marshal_map m)"
proof -
  obtain gs where gs: "marshal_map m = JObj gs" by (simp add: marshal_map_def)
  then have "obj_get gs k = obj_get m k" for k using obj_get_marshal_map [of m gs k] by simp
  moreover have "has_ty status_ty (JObj gs) = has_ty status_ty (JObj m)"
    using has_ty_marshal [of status_members m] gs by (simp only: status_ty_def)
  ultimately show ?thesis using assms gs by (auto elim!: status_jsonE intro: status_json.intros)
qed

lemma not_quoting: "mastodonStatusFromCreateRow api d row = Some m \<Longrightarrow> obj_get m ''quoted_status'' = None"
  by (auto simp: mastodonStatusFromCreateRow_def status_entity_def obj_get_def split: option.splits if_splits sum.splits)

lemma status_json_quoting:
  assumes "has_ty status_ty (JObj m)" "status_json q"
  shows "status_json (JObj (obj_set m ''quoted_status'' q))"
proof (rule status_json.quoting [where q = q])
  show "has_ty status_ty (JObj (obj_set m ''quoted_status'' q))"
    by (rule has_ty_status_set [OF assms(1), of _ TAny]) (simp_all only: status_member_ty insert_iff simp_thms has_ty.simps)
qed (simp_all only: obj_get_set simp_thms if_True assms(2))

text \<open>
  C22: Every status that is shown is a status entity: it has the members that a client expects, with
  their types, whatever the note is, and so has the status it quotes, and the status that one quotes.
\<close>

theorem presentation_typed:
  assumes "mastodonStatusPresentation api d row viewer = Some (Some m)"
  shows "status_json (marshal_map m)"
proof -
  have "\<forall>m. shown = Some m \<longrightarrow> status_json (JObj m)" if "mastodonStatusPresentation api d row viewer = Some shown" for shown
    using _ that
  proof (rule mastodonStatusPresentation.raw_induct [where P = "\<lambda>api d row viewer y. \<forall>m. y = Some m \<longrightarrow> status_json (JObj m)"], goal_cases)
    case (1 f api d row viewer y)
    show ?case
    proof (intro allI impI)
      fix m assume y: "y = Some m"
      with 1(2) obtain m0 where m0: "mastodonStatusFromCreateRow api d row = Some m0"
        by (auto split: if_splits option.splits)
      have ty: "has_ty status_ty (JObj m0)" by (rule mastodonStatus_ty [OF m0])
      have no: "obj_get (social_view d viewer m0) ''quoted_status'' = None"
        using not_quoting [OF m0] by (simp add: social_view_get)
      show "status_json (JObj m)"
      proof (cases "api_pool api \<and> quoted_row d row \<noteq> None")
        case False
        with 1(2) m0 y have "m = m0 \<or> m = social_view d viewer m0" by (auto split: if_splits option.splits)
        then show ?thesis using ty no not_quoting [OF m0] social_view_ty by (metis status_json.plain)
      next
        case True
        then obtain q where q: "quoted_row d row = Some q" by auto
        with 1(2) m0 y True obtain sh where sh: "f api d q 0 = Some sh"
          and m: "m = (case sh of None \<Rightarrow> social_view d viewer m0
                       | Some st \<Rightarrow> obj_set (social_view d viewer m0) ''quoted_status'' (marshal_map st))"
          by (auto simp: Option.bind_eq_Some_conv split: if_splits)
        from 1(1) [OF sh] ty no show ?thesis
          unfolding m by (cases sh) (auto intro: status_json.plain status_json_quoting social_view_ty status_json_marshal
              simp del: has_ty.simps)
      qed
    qed
  qed
  with assms show ?thesis by (blast intro: status_json_marshal)
qed

end
