(* ===== verification/StatusApi.thy ===== *)
theory StatusApi
  imports Statuses
begin

text \<open>
  The status endpoints of the Mastodon client API: posting (\<^verbatim>\<open>mastodonapi.go\<close> \<^verbatim>\<open>postStatuses\<close>), showing
  and deleting (\<^verbatim>\<open>v1_handlers.go\<close>), favourites, reblogs and bookmarks
  (\<^verbatim>\<open>status_social_handlers.go\<close>).  A handler takes the id of the path, the request and the account
  of the token; random bytes are arguments.  The activities go through \<^verbatim>\<open>PublishLocalActivityBytes\<close>.
\<close>

section \<open>Building activities\<close>

definition newIRI :: "string \<Rightarrow> string \<Rightarrow> string \<Rightarrow> string" where
  "newIRI root kind rnd = trim_right_slash root @ ''/#/'' @ kind @ ''/'' @ hex_encode rnd"

definition htmlEscapeBasic :: "string \<Rightarrow> string" where
  "htmlEscapeBasic s = concat (map (\<lambda>c.
     if c = CHR ''&'' then ''&amp;'' else if c = CHR ''<'' then ''&lt;'' else if c = CHR ''>'' then ''&gt;''
     else if c = CHR 0x22 then ''&quot;'' else [c]) s)"

definition public_collection :: string where
  "public_collection = ''https://www.w3.org/ns/activitystreams#Public''"

definition as_context :: json where
  "as_context = JStr ''https://www.w3.org/ns/activitystreams''"

abbreviation json_strings :: "string list \<Rightarrow> json" where
  "json_strings xs \<equiv> JArr (map JStr xs)"

definition api_root :: "config \<Rightarrow> string" where
  "api_root cfg = trim_right_slash (PublicBaseURL cfg)"

text \<open>The server of the handler without the fields of the API.\<close>

definition api_handler :: "('pub, 'priv, 'w) api \<Rightarrow> ('pub, 'priv, 'w) handler" where
  "api_handler api = sv_h api"

definition publish ::
  "('pub, 'priv, 'w) api \<Rightarrow> string \<Rightarrow> obj \<Rightarrow> ('w sys, reply) eff \<Rightarrow> ('w sys, reply) eff" where
  "publish api uname act k =
     handle (PublishLocalActivityBytes (api_handler api) uname (Some (marshal_map act)))
       (\<lambda>e. ret (writeAPIError 400 (error_text e))) (\<lambda>_. k)"

section \<open>Likes and announces\<close>

text \<open>What both start with: the local account of the token and the status of the path.\<close>

definition with_own_account ::
  "('pub, 'priv, 'w) api \<Rightarrow> int \<Rightarrow> reply \<Rightarrow> reply \<Rightarrow> (config \<Rightarrow> string \<Rightarrow> ('w sys, reply) eff) \<Rightarrow> ('w sys, reply) eff" where
  "with_own_account api actorID unknown foreign k = with_cfg (\<lambda>cfg.
     handle (on_db (ActorForMastodon actorID)) (\<lambda>_. ret unknown) (\<lambda>a.
       if \<not> IsLocalActor (api_handler api) cfg (a_username a) then ret foreign else k cfg (a_username a)))"

definition with_status ::
  "string \<Rightarrow> (resolved_status \<Rightarrow> ('w sys, reply) eff) \<Rightarrow> ('w sys, reply) eff" where
  "with_status rid k =
     (case path_id rid of
        None \<Rightarrow> ret record_not_found
      | Some statusID \<Rightarrow>
          handle (on_db (GetActivityByID statusID)) (\<lambda>_. ret record_not_found) (\<lambda>row.
            case resolveCreateStatusRow row of None \<Rightarrow> ret record_not_found | Some res \<Rightarrow> k res))"

definition like_activity :: "string \<Rightarrow> string \<Rightarrow> resolved_status \<Rightarrow> obj" where
  "like_activity likeID prof res =
     [(''@context'', as_context), (''actor'', JStr prof), (''id'', JStr likeID), (''object'', JStr (rs_note_iri res)),
      (''to'', json_strings [rs_author_iri res]), (''type'', JStr ''Like'')]"

definition undo_activity :: "string \<Rightarrow> string \<Rightarrow> string \<Rightarrow> obj" where
  "undo_activity undoID prof target =
     [(''@context'', as_context), (''actor'', JStr prof), (''id'', JStr undoID), (''object'', JStr target), (''type'', JStr ''Undo'')]"

definition announce_activity :: "string \<Rightarrow> string \<Rightarrow> string \<Rightarrow> string \<Rightarrow> resolved_status \<Rightarrow> obj" where
  "announce_activity annID prof published followers res =
     [(''@context'', JArr [as_context]), (''actor'', JStr prof),
      (''cc'', json_strings (followers # (if rs_author_iri res = [] then [] else [rs_author_iri res]))),
      (''id'', JStr annID), (''object'', JStr (rs_note_iri res)), (''published'', JStr published),
      (''to'', json_strings [public_collection]), (''type'', JStr ''Announce'')]"

definition postStatusSocialLike ::
  "('pub, 'priv, 'w) api \<Rightarrow> string \<Rightarrow> bool \<Rightarrow> string \<Rightarrow> incoming \<Rightarrow> int \<Rightarrow> ('w sys, reply) eff" where
  "postStatusSocialLike api rnd favour rid r actorID =
     (if r_method r \<noteq> ''POST'' then ret method_not_allowed
      else if \<not> api_pool api then ret (writeAPIError 500 ''database not configured'')
      else with_own_account api actorID record_not_found record_not_found (\<lambda>cfg uname.
           with_status rid (\<lambda>res.
             let newID = newIRI (api_root cfg) ''activities'' rnd; prof = LocalActorProfileURL cfg uname;
                 shown = writeStatusPresentation api (rs_row res) actorID
             in if favour then
                  bind_eff (on_db (ActorHasLikedObject actorID (rs_note_iri res))) (\<lambda>exists.
                    if exists then shown
                    else if rs_author_iri res = []
                    then ret (writeAPIError 400 ''cannot resolve note author for like addressing'')
                    else publish api uname (like_activity newID prof res) shown)
                else
                  handle (on_db (FederatedLikeActivityID actorID (rs_note_iri res)))
                    (\<lambda>e. ret (if errors_is_no_rows e then record_not_found else writeAPIError 500 ''could not load like''))
                    (\<lambda>likeAct. publish api uname (undo_activity newID prof likeAct) shown))))"

definition postStatusSocialReblog ::
  "('pub, 'priv, 'w) api \<Rightarrow> string \<Rightarrow> bool \<Rightarrow> string \<Rightarrow> incoming \<Rightarrow> int \<Rightarrow> ('w sys, reply) eff" where
  "postStatusSocialReblog api rnd reblog rid r actorID =
     (if r_method r \<noteq> ''POST'' then ret method_not_allowed
      else if \<not> api_pool api then ret (writeAPIError 500 ''database not configured'')
      else with_own_account api actorID record_not_found record_not_found (\<lambda>cfg uname.
           with_status rid (\<lambda>res.
             let newID = newIRI (api_root cfg) ''activities'' rnd; prof = LocalActorProfileURL cfg uname;
                 shown = writeStatusPresentation api (rs_row res) actorID
             in if reblog then
                  bind_eff (on_db (ActorHasAnnouncedObject actorID (rs_note_iri res))) (\<lambda>exists.
                    if exists then shown
                    else publish api uname
                      (announce_activity newID prof (api_now api) (LocalActorFollowersURL cfg uname) res) shown)
                else
                  handle (on_db (FederatedAnnounceActivityID actorID (rs_note_iri res)))
                    (\<lambda>e. ret (if errors_is_no_rows e then record_not_found else writeAPIError 500 ''could not load announce''))
                    (\<lambda>annAct. publish api uname (undo_activity newID prof annAct) shown))))"

section \<open>Bookmarks\<close>

definition postStatusBookmarkToggle ::
  "('pub, 'priv, 'w) api \<Rightarrow> bool \<Rightarrow> string \<Rightarrow> incoming \<Rightarrow> int \<Rightarrow> ('w sys, reply) eff" where
  "postStatusBookmarkToggle api add rid r actorID =
     (if r_method r \<noteq> ''POST'' then ret method_not_allowed
      else if \<not> api_pool api then ret (writeAPIError 500 ''database not configured'')
      else case path_id rid of
        None \<Rightarrow> ret record_not_found
      | Some statusID \<Rightarrow>
          handle (on_db (GetActivityByID statusID)) (\<lambda>_. ret record_not_found) (\<lambda>row.
            if \<not> is_create_row row then ret record_not_found
            else if add
            then handle (on_db (UpsertStatusBookmark actorID statusID)) (\<lambda>_. ret (writeAPIError 500 ''could not bookmark''))
                   (\<lambda>_. writeStatusPresentation api row actorID)
            else handle (on_db (DeleteStatusBookmark actorID statusID)) (\<lambda>_. ret (writeAPIError 500 ''could not unbookmark''))
                   (\<lambda>_. writeStatusPresentation api row actorID)))"

definition getBookmarks :: "('pub, 'priv, 'w) api \<Rightarrow> incoming \<Rightarrow> int \<Rightarrow> ('w sys, reply) eff" where
  "getBookmarks api r actorID =
     (if r_method r \<noteq> ''GET'' then ret method_not_allowed
      else if \<not> api_pool api then ret (writeJSONArrayOK [])
      else handle (on_db (ListBookmarkedStatusActivityIDs actorID (timelineLimit r)))
        (\<lambda>_. ret (writeAPIError 500 ''could not load bookmarks'')) (\<lambda>ids.
        bind_eff (on_db (query (\<lambda>d. Inr (List.map_filter (\<lambda>sid.
            case fst (GetActivityByID sid d) of Inl _ \<Rightarrow> None | Inr row \<Rightarrow> Some row) ids)))) (\<lambda>rows.
        bind_eff (present_all api (\<lambda>m. obj_set m ''bookmarked'' (JBool True)) rows actorID) (\<lambda>out.
          ret (writeJSONArrayOK out)))))"

definition liked_row :: "db \<Rightarrow> activity_row \<Rightarrow> activity_row option" where
  "liked_row d likeRow =
     (case um_object (v_raw likeRow) of
        None \<Rightarrow> None
      | Some fs \<Rightarrow>
          (case ObjectIRI fs of
             Inl _ \<Rightarrow> None
           | Inr objIRI \<Rightarrow> (case fst (FindCreateActivityByObjectNoteIRI objIRI d) of Inl _ \<Rightarrow> None | Inr row \<Rightarrow> Some row)))"

definition getFavourites :: "('pub, 'priv, 'w) api \<Rightarrow> incoming \<Rightarrow> int \<Rightarrow> ('w sys, reply) eff" where
  "getFavourites api r actorID =
     (if r_method r \<noteq> ''GET'' then ret method_not_allowed
      else if \<not> api_pool api then ret (writeJSONArrayOK [])
      else handle (on_db (ListRecentLikeActivitiesForActor actorID (timelineLimit r)))
        (\<lambda>_. ret (writeAPIError 500 ''could not load favourites'')) (\<lambda>likes.
        bind_eff (on_db (query (\<lambda>d. Inr (List.map_filter (liked_row d) likes)))) (\<lambda>rows.
        bind_eff (present_all api (\<lambda>m. obj_set m ''favourited'' (JBool True)) rows actorID) (\<lambda>out.
          ret (writeJSONArrayOK out)))))"

definition account_list :: "('pub, 'priv, 'w) api \<Rightarrow> db \<Rightarrow> int list \<Rightarrow> json list" where
  "account_list api d ids =
     List.map_filter (\<lambda>aid. case accountMap api d aid of Inl _ \<Rightarrow> None | Inr m \<Rightarrow> Some (marshal_map m)) ids"

definition getStatusSocialAccounts :: "('pub, 'priv, 'w) api \<Rightarrow> bool \<Rightarrow> string \<Rightarrow> incoming \<Rightarrow> ('w sys, reply) eff" where
  "getStatusSocialAccounts api likes rid r =
     (if r_method r \<noteq> ''GET'' then ret method_not_allowed
      else if \<not> api_pool api then ret (writeJSONArrayOK [])
      else with_status rid (\<lambda>res.
        handle (on_db (if likes then ListActorIDsWhoLikedObject (rs_note_iri res) (timelineLimit r)
                       else ListActorIDsWhoAnnouncedObject (rs_note_iri res) (timelineLimit r)))
          (\<lambda>_. ret (writeAPIError 500 ''could not load accounts'')) (\<lambda>ids.
          bind_eff (on_db (query (\<lambda>d. Inr (account_list api d ids)))) (\<lambda>out. ret (writeJSONArrayOK out)))))"

section \<open>Showing and deleting\<close>

definition getStatus :: "('pub, 'priv, 'w) api \<Rightarrow> string \<Rightarrow> incoming \<Rightarrow> ('w sys, reply) eff" where
  "getStatus api rid r =
     (if r_method r \<noteq> ''GET'' then ret method_not_allowed
      else if \<not> api_pool api then ret record_not_found
      else case path_id rid of
        None \<Rightarrow> ret record_not_found
      | Some dbID \<Rightarrow>
          handle (on_db (GetActivityByID dbID)) (\<lambda>_. ret record_not_found) (\<lambda>row.
            if v_deleted row \<noteq> None \<or> \<not> is_create_row row then ret record_not_found
            else writeStatusPresentation api row 0))"

text \<open>The parents of a reply, oldest first: at most \<open>n\<close> steps, and none twice.\<close>

fun ancestor_steps :: "nat \<Rightarrow> db \<Rightarrow> activity_row \<Rightarrow> int set \<Rightarrow> activity_row list \<Rightarrow> activity_row list" where
  "ancestor_steps 0 d cur seen chain = chain"
| "ancestor_steps (Suc n) d cur seen chain =
     (case resolveCreateStatusRow cur of
        None \<Rightarrow> chain
      | Some res \<Rightarrow>
          (let parentIRI = trim_space (str_at (rs_note res) ''inReplyTo'')
           in if parentIRI = [] then chain
              else case fst (FindCreateActivityByObjectNoteIRI parentIRI d) of
                Inl _ \<Rightarrow> chain
              | Inr parent \<Rightarrow>
                  (if v_deleted parent \<noteq> None \<or> v_id parent \<in> seen then chain
                   else ancestor_steps n d parent (insert (v_id parent) seen) (parent # chain))))"

definition ancestorCreateChain :: "('pub, 'priv, 'w) api \<Rightarrow> db \<Rightarrow> activity_row \<Rightarrow> activity_row list" where
  "ancestorCreateChain api d start = (if \<not> api_pool api then [] else ancestor_steps 64 d start {} [])"

definition getStatusContext :: "('pub, 'priv, 'w) api \<Rightarrow> string \<Rightarrow> incoming \<Rightarrow> ('w sys, reply) eff" where
  "getStatusContext api rid r =
     (if r_method r \<noteq> ''GET'' then ret method_not_allowed
      else if \<not> api_pool api then ret (writeJSONObjectOK [(''ancestors'', JArr []), (''descendants'', JArr [])])
      else case path_id rid of
        None \<Rightarrow> ret record_not_found
      | Some dbID \<Rightarrow>
          handle (on_db (GetActivityByID dbID)) (\<lambda>_. ret record_not_found) (\<lambda>row.
            if v_deleted row \<noteq> None then ret record_not_found
            else case resolveCreateStatusRow row of
              None \<Rightarrow> ret record_not_found
            | Some res \<Rightarrow>
                bind_eff (on_db (query (\<lambda>d. Inr (ancestorCreateChain api d row)))) (\<lambda>ancRows.
                handle (on_db (ListCreateActivitiesReplyingToNoteIRI (rs_note_iri res) 80))
                  (\<lambda>_. ret (writeAPIError 500 ''could not load context'')) (\<lambda>descRows.
                bind_eff (on_db (actorIDFromBearer r)) (\<lambda>aid.
                  let viewer = (case aid of None \<Rightarrow> 0 | Some i \<Rightarrow> i)
                  in bind_eff (present_all api (\<lambda>m. m) ancRows viewer) (\<lambda>ancestors.
                     bind_eff (present_all api (\<lambda>m. m) descRows viewer) (\<lambda>descendants.
                       ret (writeJSONObjectOK [(''ancestors'', JArr ancestors), (''descendants'', JArr descendants)]))))))))"

definition delete_activity :: "string \<Rightarrow> string \<Rightarrow> resolved_status \<Rightarrow> obj" where
  "delete_activity delID prof res =
     [(''@context'', as_context), (''actor'', JStr prof), (''id'', JStr delID), (''object'', JStr (rs_note_iri res)),
      (''to'', json_strings [public_collection]), (''type'', JStr ''Delete'')]"

definition cleared_status :: "obj \<Rightarrow> obj" where
  "cleared_status st = obj_set (obj_set (obj_set st ''content'' (JStr [])) ''text'' (JStr [])) ''media_attachments'' (JArr [])"

definition deleteStatus :: "('pub, 'priv, 'w) api \<Rightarrow> string \<Rightarrow> string \<Rightarrow> incoming \<Rightarrow> int \<Rightarrow> ('w sys, reply) eff" where
  "deleteStatus api rnd rid r actorID =
     (if r_method r \<noteq> ''DELETE'' then ret method_not_allowed
      else if \<not> api_pool api then ret record_not_found
      else case path_id rid of
        None \<Rightarrow> ret record_not_found
      | Some dbID \<Rightarrow>
          handle (on_db (GetActivityByID dbID)) (\<lambda>_. ret record_not_found) (\<lambda>row.
            if v_actor row \<noteq> actorID then ret (writeAPIError 403 ''not allowed'')
            else if v_deleted row \<noteq> None then ret record_not_found
            else case resolveCreateStatusRow row of
              None \<Rightarrow> ret record_not_found
            | Some res \<Rightarrow>
                with_own_account api actorID (writeAPIError 403 ''not a local account'') (writeAPIError 403 ''not a local account'')
                  (\<lambda>cfg uname.
                    bind_eff (present api row actorID) (\<lambda>st. case st of
                      None \<Rightarrow> ret (writeAPIError 500 ''could not build status'')
                    | Some m \<Rightarrow>
                        publish api uname
                          (delete_activity (newIRI (api_root cfg) ''activities'' rnd) (LocalActorProfileURL cfg uname) res)
                          (handle (on_db (SoftDeleteActivityForActor dbID actorID))
                            (\<lambda>_. ret (writeAPIError 500 ''could not delete''))
                            (\<lambda>_. ret (writeJSONResponse 200 (marshal_map (cleared_status m)))))))))"

definition postStatusActionNotFound :: "incoming \<Rightarrow> int \<Rightarrow> ('w sys, reply) eff" where
  "postStatusActionNotFound r actorID = ret (if r_method r \<noteq> ''POST'' then method_not_allowed else record_not_found)"

section \<open>Posting\<close>

record status_form =
  sf_text :: string
  sf_visibility :: string
  sf_quoted :: "int option"
  sf_reply :: "int option"
  sf_media :: "int list"
  sf_direct :: "int list"
  sf_sensitive :: bool
  sf_spoiler :: string

fun um_bool :: "json \<Rightarrow> bool option" where
  "um_bool (JBool b) = Some b"
| "um_bool JNull = Some False"
| "um_bool _ = None"

fun um_int64s :: "json list \<Rightarrow> int list option" where
  "um_int64s [] = Some []"
| "um_int64s (x # xs) = (case um_int64 x of None \<Rightarrow> None | Some i \<Rightarrow> map_option ((#) i) (um_int64s xs))"

definition um_int64_array :: "json \<Rightarrow> int list option" where
  "um_int64_array j = (case um_array j of None \<Rightarrow> None | Some xs \<Rightarrow> um_int64s xs)"

definition parseBoolish :: "string \<Rightarrow> bool" where
  "parseBoolish s0 = (let s = trim_space (go_lower s0) in s = ''1'' \<or> s = ''true'' \<or> s = ''yes'' \<or> s = ''on'')"

text \<open>The members of the struct \<^verbatim>\<open>statusCreateJSON\<close>; a member of another type fails the decoding.\<close>

definition status_of_json :: "json \<Rightarrow> status_form option" where
  "status_of_json j =
     (case um_object j of
        None \<Rightarrow> None
      | Some ob \<Rightarrow>
          (case (struct_field um_string ''status'' [] ob, struct_field um_string ''visibility'' [] ob,
                 struct_field (\<lambda>v. map_option Some (um_int64 v)) ''quoted_status_id'' None ob,
                 struct_field (\<lambda>v. map_option Some (um_int64 v)) ''in_reply_to_id'' None ob,
                 struct_field um_int64_array ''media_ids'' [] ob, struct_field um_int64_array ''direct_account_ids'' [] ob,
                 struct_field um_bool ''sensitive'' False ob, struct_field um_string ''spoiler_text'' [] ob) of
             (Some text, Some vis, Some qid, Some rid, Some media, Some direct, Some sens, Some spoiler) \<Rightarrow>
               Some \<lparr>sf_text = text,
                 sf_visibility = (if trim_space vis = [] then ''public'' else trim_space (go_lower vis)),
                 sf_quoted = qid, sf_reply = rid, sf_media = media, sf_direct = direct, sf_sensitive = sens,
                 sf_spoiler = trim_space spoiler\<rparr>
           | _ \<Rightarrow> None))"

definition form_id :: "qvalues \<Rightarrow> string \<Rightarrow> int option" where
  "form_id vs k =
     (let q = trim_space (values_get vs k)
      in if q = [] then None else case parse_int64 q of None \<Rightarrow> None | Some n \<Rightarrow> if n > 0 then Some n else None)"

definition status_of_form :: "qvalues \<Rightarrow> status_form" where
  "status_of_form vs =
     (let v = trim_space (go_lower (values_get vs ''visibility''))
      in \<lparr>sf_text = values_get vs ''status'', sf_visibility = (if v = [] then ''public'' else v),
          sf_quoted = form_id vs ''quoted_status_id'', sf_reply = form_id vs ''in_reply_to_id'', sf_media = [], sf_direct = [],
          sf_sensitive = parseBoolish (values_get vs ''sensitive''), sf_spoiler = trim_space (values_get vs ''spoiler_text'')\<rparr>)"

text \<open>\<^verbatim>\<open>json.NewDecoder(io.LimitReader(r.Body, n)).Decode\<close>: the first value of the body.\<close>

definition decode_body :: "('pub, 'priv, 'w) api \<Rightarrow> incoming \<Rightarrow> json option" where
  "decode_body api r = (case read_body r 1048576 of Inl _ \<Rightarrow> None | Inr b \<Rightarrow> api_decode api b)"

definition status_request :: "('pub, 'priv, 'w) api \<Rightarrow> incoming \<Rightarrow> reply + status_form" where
  "status_request api r =
     (if contains (go_lower (in_header r ''Content-Type'')) ''application/json''
      then (case Option.bind (decode_body api r) status_of_json of
              None \<Rightarrow> Inl (writeAPIError 400 ''invalid json'') | Some f \<Rightarrow> Inr f)
      else (case parse_form (server.truncate api) r of
              None \<Rightarrow> Inl (writeAPIError 400 ''invalid form'') | Some vs \<Rightarrow> Inr (status_of_form vs)))"

definition status_checks :: "config \<Rightarrow> status_form \<Rightarrow> reply option" where
  "status_checks cfg f =
     (if trim_space (sf_text f) = [] \<and> sf_media f = [] \<and> trim_space (sf_spoiler f) = []
      then Some (writeAPIError 400 ''Validation failed: Text can't be blank'')
      else if int (length (sf_media f)) > EffectiveMediaMaxAttachmentsPerStatus (Some cfg)
      then Some (writeAPIError 422 ''Validation failed: Too many media attachments'')
      else if sf_visibility f \<notin> {''public'', ''unlisted'', ''private'', ''direct''}
      then Some (writeAPIError 400 ''invalid visibility'')
      else None)"

fun direct_recipients :: "db \<Rightarrow> int list \<Rightarrow> string list option" where
  "direct_recipients d [] = Some []"
| "direct_recipients d (aid # ids) =
     (if aid < 1 then direct_recipients d ids
      else case fst (ActorProfileByID aid d) of
        Inl _ \<Rightarrow> None
      | Inr (aurl, _, _) \<Rightarrow>
          (if trim_space aurl = [] then None
           else map_option ((#) (trim_right_slash (trim_space aurl))) (direct_recipients d ids)))"

definition status_audience :: "db \<Rightarrow> string \<Rightarrow> status_form \<Rightarrow> reply + (string list \<times> string list)" where
  "status_audience d followers f =
     (if sf_visibility f = ''public'' then Inr ([public_collection], [followers])
      else if sf_visibility f = ''unlisted'' then Inr ([followers], [public_collection])
      else if sf_visibility f = ''private'' then Inr ([followers], [])
      else case direct_recipients d (sf_direct f) of
        None \<Rightarrow> Inl (writeAPIError 422 ''invalid direct recipient'')
      | Some to \<Rightarrow>
          (if to = [] then Inl (writeAPIError 422 ''direct visibility requires direct_account_ids'') else Inr (to, [])))"

text \<open>The attachments, and whether one is sensitive.\<close>

fun status_media :: "db \<Rightarrow> string \<Rightarrow> int \<Rightarrow> int list \<Rightarrow> reply + (json list \<times> bool)" where
  "status_media d root actorID [] = Inr ([], False)"
| "status_media d root actorID (mid # mids) =
     (if mid < 1 then status_media d root actorID mids
      else case fst (GetMastodonMediaForActor mid actorID d) of
        Inl _ \<Rightarrow> Inl (writeAPIError 422 ''invalid media_ids'')
      | Inr mr \<Rightarrow>
          (if md_state mr \<noteq> MediaProcessingComplete then Inl (writeAPIError 422 ''media is still processing'')
           else case status_media d root actorID mids of
             Inl e \<Rightarrow> Inl e
           | Inr (docs, sens) \<Rightarrow>
               Inr (marshal_map ([(''type'', JStr ''Document''), (''mediaType'', JStr (md_type mr)),
                                  (''url'', JStr (root @ ''/media/'' @ md_key mr))] @
                       (if media_description mr = [] then [] else [(''name'', JStr (media_description mr))]) @
                       (if md_sensitive mr then [(''sensitive'', JBool True)] else [])) # docs,
                    md_sensitive mr \<or> sens)))"

text \<open>The note that a status refers to, which must be a Create of one.\<close>

definition referred_status :: "db \<Rightarrow> int \<Rightarrow> resolved_status option" where
  "referred_status d i =
     (case fst (GetActivityByID i d) of
        Inl _ \<Rightarrow> None
      | Inr row \<Rightarrow> if \<not> is_create_row row then None else resolveCreateStatusRow row)"

definition quote_html :: "int \<Rightarrow> string \<Rightarrow> string" where
  "quote_html i iri = ''<p><span class='' @ quoted ''quote-inline'' @ ''><a href='' @ quoted (htmlEscapeBasic iri) @
     ''>['' @ itoa i @ '']</a></span></p>''"

definition status_content :: "status_form \<Rightarrow> string" where
  "status_content f =
     (let text = trim_space (sf_text f) in if text = [] then ''<p></p>'' else ''<p>'' @ htmlEscapeBasic text @ ''</p>'')"

definition base_note :: "string \<Rightarrow> string \<Rightarrow> string list \<Rightarrow> string list \<Rightarrow> status_form \<Rightarrow> obj" where
  "base_note noteID prof to cc f =
     (let spoiler = trim_space (sf_spoiler f)
      in [(''type'', JStr ''Note''), (''id'', JStr noteID), (''attributedTo'', JStr prof),
          (''content'', JStr (status_content f)), (''to'', json_strings to), (''cc'', json_strings cc)] @
         (if spoiler = [] then [] else [(''summary'', JStr spoiler)]) @
         [(noteVisibilityKey, JStr (sf_visibility f))] @
         (if sf_visibility f = ''direct'' then [(noteDirectRecipientsKey, JArr (map json_int (sf_direct f)))] else []))"

definition with_attachments :: "status_form \<Rightarrow> json list \<Rightarrow> bool \<Rightarrow> obj \<Rightarrow> obj" where
  "with_attachments f docs mediaSensitive note =
     (let sens = (sf_sensitive f \<or> mediaSensitive);
          n1 = (if docs = [] then note else obj_set note ''attachment'' (JArr docs));
          n2 = obj_set n1 noteSensitiveKey (JBool sens);
          n3 = (if sens then obj_set n2 ''sensitive'' (JBool True) else n2)
      in obj_set n3 noteSpoilerTextKey (JStr (trim_space (sf_spoiler f))))"

definition positive_id :: "int option \<Rightarrow> int option" where
  "positive_id x = (case x of None \<Rightarrow> None | Some i \<Rightarrow> if i > 0 then Some i else None)"

definition with_quote :: "db \<Rightarrow> int option \<Rightarrow> obj \<Rightarrow> obj option" where
  "with_quote d x note =
     (case positive_id x of
        None \<Rightarrow> Some note
      | Some i \<Rightarrow>
          (case referred_status d i of
             None \<Rightarrow> None
           | Some res \<Rightarrow>
               Some (obj_set (obj_set (obj_set note quotedStatusActivityKey (json_int i)) ''quoteUri'' (JStr (rs_note_iri res)))
                 ''content'' (JStr (str_at note ''content'' @ quote_html i (rs_note_iri res))))))"

definition with_reply :: "db \<Rightarrow> int option \<Rightarrow> obj \<Rightarrow> obj option" where
  "with_reply d x note =
     (case positive_id x of
        None \<Rightarrow> Some note
      | Some i \<Rightarrow>
          (case referred_status d i of
             None \<Rightarrow> None
           | Some res \<Rightarrow>
               Some (obj_set (obj_set note ''inReplyTo'' (JStr (rs_note_iri res))) internalInReplyToActivityKey (json_int i))))"

definition create_activity :: "string \<Rightarrow> string \<Rightarrow> string list \<Rightarrow> string list \<Rightarrow> obj \<Rightarrow> obj" where
  "create_activity actID prof to cc note =
     [(''@context'', JArr [as_context]), (''actor'', JStr prof), (''cc'', json_strings cc), (''id'', JStr actID),
      (''object'', marshal_map note), (''to'', json_strings to), (''type'', JStr ''Create'')]"

text \<open>The Create that a request asks for, or the reply that refuses it; the database is only read.\<close>

definition status_activity ::
  "config \<Rightarrow> db \<Rightarrow> string \<Rightarrow> string \<Rightarrow> string \<Rightarrow> int \<Rightarrow> status_form \<Rightarrow> reply + obj" where
  "status_activity cfg d uname actID noteID actorID f =
     (case status_checks cfg f of
        Some rp \<Rightarrow> Inl rp
      | None \<Rightarrow>
          (case status_audience d (LocalActorFollowersURL cfg uname) f of
             Inl rp \<Rightarrow> Inl rp
           | Inr (to, cc) \<Rightarrow>
               (case status_media d (api_root cfg) actorID (sf_media f) of
                  Inl rp \<Rightarrow> Inl rp
                | Inr (docs, sens) \<Rightarrow>
                    (let prof = LocalActorProfileURL cfg uname
                     in case Option.bind (with_quote d (sf_quoted f) (with_attachments f docs sens (base_note noteID prof to cc f)))
                               (with_reply d (sf_reply f)) of
                          None \<Rightarrow> Inl record_not_found
                        | Some note \<Rightarrow> Inr (create_activity actID prof to cc note)))))"

text \<open>The reply of a post that went out: the status as it was stored.\<close>

definition posted_status :: "('pub, 'priv, 'w) api \<Rightarrow> int \<Rightarrow> string \<Rightarrow> ('w sys, reply) eff" where
  "posted_status api actorID actID =
     handle (bind_eff (on_db (ActivityIDByActorAndActivityIRI actorID actID)) (\<lambda>i. on_db (GetActivityByID i)))
       (\<lambda>_. ret (writeAPIError 500 ''could not load posted status'')) (\<lambda>row.
       bind_eff (present api row actorID) (\<lambda>st. case st of
         None \<Rightarrow> ret (writeAPIError 500 ''could not build status'')
       | Some m \<Rightarrow> ret (writeJSONResponse 200 (marshal_map m))))"

definition postStatuses ::
  "('pub, 'priv, 'w) api \<Rightarrow> string \<Rightarrow> string \<Rightarrow> incoming \<Rightarrow> int \<Rightarrow> ('w sys, reply) eff" where
  "postStatuses api rnd1 rnd2 r actorID =
     (if r_method r \<noteq> ''POST'' then ret method_not_allowed
      else with_own_account api actorID record_not_found (writeAPIError 403 ''not a local account'') (\<lambda>cfg uname.
        case status_request api r of
          Inl rp \<Rightarrow> ret rp
        | Inr f \<Rightarrow>
            (let actID = newIRI (api_root cfg) ''activities'' rnd1; noteID = newIRI (api_root cfg) ''objects'' rnd2
             in bind_eff (on_db (query (\<lambda>d. Inr (status_activity cfg d uname actID noteID actorID f)))) (\<lambda>x. case x of
                  Inl rp \<Rightarrow> ret rp
                | Inr create \<Rightarrow> publish api uname create (posted_status api actorID actID)))))"

section \<open>What the handlers keep\<close>

definition api_keeps :: "(db \<Rightarrow> bool) \<Rightarrow> ('pub, 'priv, 'w) api \<Rightarrow> bool" where
  "api_keeps P api \<longleftrightarrow> (\<forall>impl. hd_queue (sv_h api) = Some impl \<longrightarrow> impl_keeps P impl)"

lemma present_keeps [preserved]: "preserves P (present api row viewer)"
  unfolding present_def on_db_def preserves_def query_def by simp

lemma present_all_keeps [preserved]: "preserves P (present_all api f rows viewer)"
  by (induction api f rows viewer rule: present_all.induct) (auto intro!: preserved)

lemma writeStatusPresentation_keeps [preserved]: "preserves P (writeStatusPresentation api row viewer)"
  unfolding writeStatusPresentation_def by (intro preserved)

lemma queries_keep [preserved]:
  "preserves P (GetActivityByID i)" "preserves P (ActorForMastodon i)" "preserves P (ActorHasLikedObject i u)"
  "preserves P (ActorHasAnnouncedObject i u)" "preserves P (FederatedLikeActivityID i u)" "preserves P (FederatedAnnounceActivityID i u)"
  "preserves P (ActivityIDByActorAndActivityIRI i u)" "preserves P (ListBookmarkedStatusActivityIDs i n)"
  "preserves P (ListRecentLikeActivitiesForActor i n)" "preserves P (ListActorIDsWhoLikedObject u n)"
  "preserves P (ListActorIDsWhoAnnouncedObject u n)" "preserves P (ListCreateActivitiesReplyingToNoteIRI u n)"
  "preserves P (actorIDFromBearer r)"
  unfolding GetActivityByID_def ActorForMastodon_def ActorHasLikedObject_def ActorHasAnnouncedObject_def FederatedLikeActivityID_def
    FederatedAnnounceActivityID_def ActivityIDByActorAndActivityIRI_def ListBookmarkedStatusActivityIDs_def
    ListRecentLikeActivitiesForActor_def ListActorIDsWhoLikedObject_def ListActorIDsWhoAnnouncedObject_def
    ListCreateActivitiesReplyingToNoteIRI_def actorIDFromBearer_def ActorIDForAccessToken_def Let_def
  by (intro preserved)+

lemma posted_status_keeps [preserved]: "preserves P (posted_status api a i)"
proof -
  have q: "preserves P (on_db m)" if "\<And>Q. preserves Q m" for m :: "(db, 'x) eff"
    using that [of "\<lambda>d. d = _"] by (auto simp: preserves_def on_db_apply)
  show ?thesis unfolding posted_status_def by (intro preserved q)
qed

end
