(* ===== verification/ClientMisc.thy ===== *)
theory ClientMisc
  imports StatusApi
begin

text \<open>
  The endpoints of the client API that keep no state: the documents about the instance
  (\<^verbatim>\<open>mastodonapi/instance.go\<close>), tags (\<^verbatim>\<open>v1_handlers_tags.go\<close>) and the stubs that clients probe
  (\<^verbatim>\<open>v1_handlers_more.go\<close>, \<^verbatim>\<open>v1_handlers_rest.go\<close>, \<^verbatim>\<open>v1_stubs.go\<close>, \<^verbatim>\<open>client_stubs.go\<close>).
\<close>

section \<open>The instance\<close>

definition mastodonCompatibleVersion :: string where
  "mastodonCompatibleVersion = ''4.3.0+activitypub-core''"

definition instanceImageSizeLimit :: "config \<Rightarrow> int" where
  "instanceImageSizeLimit cfg = (if MediaMaxUploadBytes cfg \<le> 0 then 10485760 else MediaMaxUploadBytes cfg)"

definition instanceV1Payload :: "config \<Rightarrow> json" where
  "instanceV1Payload cfg =
     (let host = instanceHost cfg; root = trim_right_slash (trim_space (PublicBaseURL cfg))
      in JObj
         [(''approval_required'', JBool True),
          (''configuration'', JObj
            [(''accounts'', JObj
               [(''max_featured_tags'', json_int 0),
                (''max_pinned_statuses'', json_int 0)]),
             (''media_attachments'', JObj
               [(''image_size_limit'', json_int (instanceImageSizeLimit cfg)),
                (''supported_mime_types'', json_strings (EffectiveMediaAllowedMIMETypes (Some cfg)))]),
             (''statuses'', JObj
               [(''characters_reserved_per_url'', json_int 23),
                (''max_characters'', json_int 500),
                (''max_media_attachments'', json_int (EffectiveMediaMaxAttachmentsPerStatus (Some cfg)))]),
             (''urls'', JObj []),
             (''vapid'', JObj
               [(''public_key'', JNull)])]),
          (''contact_account'', JNull),
          (''description'', JStr []),
          (''domain'', JStr host),
          (''email'', JStr []),
          (''invites_enabled'', JBool False),
          (''languages'', JArr [JStr ''en'']),
          (''registrations'', JBool False),
          (''rules'', JArr []),
          (''short_description'', JStr []),
          (''stats'', JObj
            [(''domain_count'', json_int 0),
             (''status_count'', json_int 0),
             (''user_count'', json_int 0)]),
          (''thumbnail'', JNull),
          (''title'', JStr host),
          (''uri'', JStr (if root = [] then host else root)),
          (''urls'', JObj []),
          (''version'', JStr mastodonCompatibleVersion)])"

definition instanceV2Payload :: "config \<Rightarrow> json" where
  "instanceV2Payload cfg =
     (let host = instanceHost cfg
      in JObj
         [(''api_versions'', JObj
            [(''mastodon'', json_int 1)]),
          (''configuration'', JObj
            [(''accounts'', JObj
               [(''max_featured_tags'', json_int 0),
                (''max_pinned_statuses'', json_int 0)]),
             (''limited_federation'', JBool False),
             (''media_attachments'', JObj
               [(''description_limit'', json_int (if MediaDescriptionLimit cfg > 0 then MediaDescriptionLimit cfg else 1500)),
                (''image_matrix_limit'', json_int 33177600),
                (''image_size_limit'', json_int (instanceImageSizeLimit cfg)),
                (''supported_mime_types'', json_strings (EffectiveMediaAllowedMIMETypes (Some cfg))),
                (''video_frame_rate_limit'', json_int 120),
                (''video_matrix_limit'', json_int 8294400),
                (''video_size_limit'', json_int 104857600)]),
             (''polls'', JObj
               [(''max_characters_per_option'', json_int 50),
                (''max_expiration'', json_int 2629746),
                (''max_options'', json_int 4),
                (''min_expiration'', json_int 300)]),
             (''statuses'', JObj
               [(''characters_reserved_per_url'', json_int 23),
                (''max_characters'', json_int 500),
                (''max_media_attachments'', json_int (EffectiveMediaMaxAttachmentsPerStatus (Some cfg)))]),
             (''translation'', JObj
               [(''enabled'', JBool False)]),
             (''urls'', JObj []),
             (''vapid'', JObj
               [(''public_key'', JStr [])])]),
          (''contact'', JObj
            [(''account'', JNull),
             (''email'', JStr [])]),
          (''description'', JStr []),
          (''domain'', JStr host),
          (''icon'', JArr []),
          (''languages'', JArr [JStr ''en'']),
          (''registrations'', JObj
            [(''approval_required'', JBool True),
             (''enabled'', JBool False),
             (''message'', JNull),
             (''reason_required'', JBool False),
             (''url'', JNull)]),
          (''rules'', JArr []),
          (''source_url'', JStr ''https://github.com/mastodon-site/activitypub-core''),
          (''thumbnail'', JObj
            [(''blurhash'', JNull),
             (''url'', JNull),
             (''versions'', JObj [])]),
          (''title'', JStr host),
          (''usage'', JObj
            [(''users'', JObj
               [(''active_month'', json_int 0)])]),
          (''version'', JStr mastodonCompatibleVersion)])"

text \<open>The three documents need the host of the instance.\<close>

definition instance_reply :: "(config \<Rightarrow> json) \<Rightarrow> incoming \<Rightarrow> ('w sys, reply) eff" where
  "instance_reply payload r =
     (if r_method r \<noteq> ''GET'' then ret method_not_allowed
      else with_cfg (\<lambda>cfg. ret (if instanceHost cfg = [] then writeAPIError 503 ''Instance is unavailable''
        else writeJSONResponse 200 (payload cfg))))"

definition getInstance :: "incoming \<Rightarrow> ('w sys, reply) eff" where
  "getInstance r = instance_reply instanceV1Payload r"

definition getInstanceV2 :: "incoming \<Rightarrow> ('w sys, reply) eff" where
  "getInstanceV2 r = instance_reply instanceV2Payload r"

definition getInstanceExtendedDescription :: "incoming \<Rightarrow> ('w sys, reply) eff" where
  "getInstanceExtendedDescription r =
     instance_reply (\<lambda>_. JObj [(''content'', JStr []), (''updated_at'', JNull)]) r"

definition getOAuthAuthorizationServer :: "incoming \<Rightarrow> ('w sys, reply) eff" where
  "getOAuthAuthorizationServer r =
     (if r_method r \<noteq> ''GET'' then ret method_not_allowed
      else with_cfg (\<lambda>cfg.
        let base = trim_right_slash (trim_space (PublicBaseURL cfg))
        in ret (if base = [] then writeAPIError 503 ''Instance is unavailable''
                else writeJSONResponse 200 (JObj
                  [(''authorization_endpoint'', JStr (base @ ''/oauth/authorize'')),
                   (''code_challenge_methods_supported'', json_strings [''S256'', ''plain'']),
                   (''grant_types_supported'', json_strings [''authorization_code'', ''client_credentials'']),
                   (''issuer'', JStr base),
                   (''response_modes_supported'', json_strings [''query'']),
                   (''response_types_supported'', json_strings [''code'']),
                   (''scopes_supported'', json_strings [''read'', ''write'', ''follow'']),
                   (''token_endpoint'', JStr (base @ ''/oauth/token'')),
                   (''token_endpoint_auth_methods_supported'', json_strings [''client_secret_post'', ''client_secret_basic''])]))))"

section \<open>Tags\<close>

definition tag_reply :: "string \<Rightarrow> bool \<Rightarrow> ('w sys, reply) eff" where
  "tag_reply name following = with_cfg (\<lambda>cfg.
     let root = trim_right_slash (trim_space (PublicBaseURL cfg))
     in ret (writeJSONObjectOK
          [(''following'', JBool following), (''history'', JArr []), (''name'', JStr name),
           (''url'', JStr (if root \<noteq> [] \<and> name \<noteq> [] then root @ ''/tags/'' @ name else []))]))"

definition getTag :: "string \<Rightarrow> incoming \<Rightarrow> ('w sys, reply) eff" where
  "getTag name r = (if r_method r \<noteq> ''GET'' then ret method_not_allowed else tag_reply name False)"

definition postTagFollow :: "string \<Rightarrow> incoming \<Rightarrow> int \<Rightarrow> ('w sys, reply) eff" where
  "postTagFollow name r actorID = (if r_method r \<noteq> ''POST'' then ret method_not_allowed else tag_reply name True)"

definition postTagUnfollow :: "string \<Rightarrow> incoming \<Rightarrow> int \<Rightarrow> ('w sys, reply) eff" where
  "postTagUnfollow name r actorID = (if r_method r \<noteq> ''POST'' then ret method_not_allowed else tag_reply name False)"

section \<open>Endpoints without a state\<close>

text \<open>They check the method, read and drop the body, and answer the same always.\<close>

definition stub :: "string \<Rightarrow> reply \<Rightarrow> incoming \<Rightarrow> ('w sys, reply) eff" where
  "stub method rp r = ret (if r_method r \<noteq> method then method_not_allowed else rp)"

definition v1StubBearerEmptyObject :: "incoming \<Rightarrow> int \<Rightarrow> ('w sys, reply) eff" where
  "v1StubBearerEmptyObject r actorID = ret (writeJSONObjectOK [])"

definition v1ForbiddenAdmin :: "incoming \<Rightarrow> ('w sys, reply) eff" where
  "v1ForbiddenAdmin r = ret (writeAPIError 403 ''This action is outside the authorized scope'')"

subsection \<open>Instance\<close>

definition getInstancePeers :: "incoming \<Rightarrow> ('w sys, reply) eff" where
  "getInstancePeers r = stub ''GET'' (writeJSONArrayOK []) r"

definition getInstanceActivity :: "incoming \<Rightarrow> ('w sys, reply) eff" where
  "getInstanceActivity r = stub ''GET'' (writeJSONObjectOK [(''logins'', JStr ''0''), (''registrations'', JStr ''0''), (''statuses'', JStr ''0''), (''week'', JArr [])]) r"

definition getInstanceRules :: "incoming \<Rightarrow> ('w sys, reply) eff" where
  "getInstanceRules r = stub ''GET'' (writeJSONArrayOK []) r"

definition getInstanceTranslationLanguages :: "incoming \<Rightarrow> ('w sys, reply) eff" where
  "getInstanceTranslationLanguages r = stub ''GET'' (writeJSONArrayOK []) r"

definition getInstanceDomainBlocks :: "incoming \<Rightarrow> ('w sys, reply) eff" where
  "getInstanceDomainBlocks r = stub ''GET'' (writeJSONArrayOK []) r"

subsection \<open>Markers and notifications\<close>

definition getMarkers :: "incoming \<Rightarrow> int \<Rightarrow> ('w sys, reply) eff" where
  "getMarkers r actorID = stub ''GET'' (writeJSONObjectOK []) r"

definition postMarkers :: "incoming \<Rightarrow> int \<Rightarrow> ('w sys, reply) eff" where
  "postMarkers r actorID = stub ''POST'' (writeJSONObjectOK []) r"

definition getNotifications :: "incoming \<Rightarrow> int \<Rightarrow> ('w sys, reply) eff" where
  "getNotifications r actorID = stub ''GET'' (writeJSONArrayOK []) r"

definition getNotificationsUnreadCount :: "incoming \<Rightarrow> int \<Rightarrow> ('w sys, reply) eff" where
  "getNotificationsUnreadCount r actorID = stub ''GET'' (writeJSONObjectOK [(''count'', json_int 0)]) r"

definition getNotificationByID :: "incoming \<Rightarrow> int \<Rightarrow> ('w sys, reply) eff" where
  "getNotificationByID r actorID = stub ''GET'' record_not_found r"

definition postNotificationsClear :: "incoming \<Rightarrow> int \<Rightarrow> ('w sys, reply) eff" where
  "postNotificationsClear r actorID = stub ''POST'' (writeJSONObjectOK []) r"

definition postNotificationsDismiss :: "incoming \<Rightarrow> int \<Rightarrow> ('w sys, reply) eff" where
  "postNotificationsDismiss r actorID = stub ''POST'' (writeJSONObjectOK []) r"

definition postNotificationDismissByID :: "incoming \<Rightarrow> int \<Rightarrow> ('w sys, reply) eff" where
  "postNotificationDismissByID r actorID = stub ''POST'' (writeJSONObjectOK []) r"

subsection \<open>Polls and push\<close>

definition getPoll :: "incoming \<Rightarrow> ('w sys, reply) eff" where
  "getPoll r = stub ''GET'' record_not_found r"

definition postPollVotes :: "incoming \<Rightarrow> int \<Rightarrow> ('w sys, reply) eff" where
  "postPollVotes r actorID = stub ''POST'' record_not_found r"

definition getPushSubscription :: "incoming \<Rightarrow> int \<Rightarrow> ('w sys, reply) eff" where
  "getPushSubscription r actorID = stub ''GET'' record_not_found r"

definition postPushSubscription :: "incoming \<Rightarrow> int \<Rightarrow> ('w sys, reply) eff" where
  "postPushSubscription r actorID = stub ''POST'' (writeAPIError 501 ''Push subscriptions are not implemented'') r"

definition putPushSubscription :: "incoming \<Rightarrow> int \<Rightarrow> ('w sys, reply) eff" where
  "putPushSubscription r actorID = stub ''PUT'' record_not_found r"

definition deletePushSubscription :: "incoming \<Rightarrow> int \<Rightarrow> ('w sys, reply) eff" where
  "deletePushSubscription r actorID = stub ''DELETE'' (writeJSONObjectOK []) r"

subsection \<open>Conversations, follow requests, reports, streaming\<close>

definition deleteConversation :: "incoming \<Rightarrow> int \<Rightarrow> ('w sys, reply) eff" where
  "deleteConversation r actorID = stub ''DELETE'' (writeJSONObjectOK []) r"

definition postConversationsReadBulk :: "incoming \<Rightarrow> int \<Rightarrow> ('w sys, reply) eff" where
  "postConversationsReadBulk r actorID = stub ''POST'' (writeJSONObjectOK []) r"

definition postConversationReadByID :: "incoming \<Rightarrow> int \<Rightarrow> ('w sys, reply) eff" where
  "postConversationReadByID r actorID = stub ''POST'' record_not_found r"

definition postFollowRequestAuthorize :: "incoming \<Rightarrow> int \<Rightarrow> ('w sys, reply) eff" where
  "postFollowRequestAuthorize r actorID = stub ''POST'' (writeJSONObjectOK []) r"

definition postFollowRequestReject :: "incoming \<Rightarrow> int \<Rightarrow> ('w sys, reply) eff" where
  "postFollowRequestReject r actorID = stub ''POST'' (writeJSONObjectOK []) r"

definition postReports :: "incoming \<Rightarrow> int \<Rightarrow> ('w sys, reply) eff" where
  "postReports r actorID = stub ''POST'' (writeJSONObjectOK [(''id'', JStr ''0'')]) r"

definition getStreaming :: "incoming \<Rightarrow> ('w sys, reply) eff" where
  "getStreaming r = stub ''GET'' (writeAPIError 501 ''Streaming API is not implemented'') r"

subsection \<open>Scheduled statuses and announcements\<close>

definition getScheduledStatuses :: "incoming \<Rightarrow> int \<Rightarrow> ('w sys, reply) eff" where
  "getScheduledStatuses r actorID = stub ''GET'' (writeJSONArrayOK []) r"

definition postScheduledStatuses :: "incoming \<Rightarrow> int \<Rightarrow> ('w sys, reply) eff" where
  "postScheduledStatuses r actorID = stub ''POST'' (writeAPIError 501 ''Scheduled statuses are not implemented'') r"

definition getScheduledStatus :: "incoming \<Rightarrow> int \<Rightarrow> ('w sys, reply) eff" where
  "getScheduledStatus r actorID = stub ''GET'' record_not_found r"

definition putScheduledStatus :: "incoming \<Rightarrow> int \<Rightarrow> ('w sys, reply) eff" where
  "putScheduledStatus r actorID = stub ''PUT'' record_not_found r"

definition deleteScheduledStatus :: "incoming \<Rightarrow> int \<Rightarrow> ('w sys, reply) eff" where
  "deleteScheduledStatus r actorID = stub ''DELETE'' (writeJSONObjectOK []) r"

definition postAnnouncementDismiss :: "incoming \<Rightarrow> int \<Rightarrow> ('w sys, reply) eff" where
  "postAnnouncementDismiss r actorID = stub ''POST'' (writeJSONObjectOK []) r"

definition deleteAnnouncementDismiss :: "incoming \<Rightarrow> int \<Rightarrow> ('w sys, reply) eff" where
  "deleteAnnouncementDismiss r actorID = stub ''DELETE'' (writeJSONObjectOK []) r"

subsection \<open>Discovery, endorsements, featured tags\<close>

definition getFamiliarFollowers :: "incoming \<Rightarrow> int \<Rightarrow> ('w sys, reply) eff" where
  "getFamiliarFollowers r actorID = stub ''GET'' (writeJSONArrayOK []) r"

definition getDirectory :: "incoming \<Rightarrow> ('w sys, reply) eff" where
  "getDirectory r = stub ''GET'' (writeJSONArrayOK []) r"

definition getSuggestionsV1 :: "incoming \<Rightarrow> ('w sys, reply) eff" where
  "getSuggestionsV1 r = stub ''GET'' (writeJSONArrayOK []) r"

definition postAccountPin :: "incoming \<Rightarrow> int \<Rightarrow> ('w sys, reply) eff" where
  "postAccountPin r actorID = stub ''POST'' (writeAPIError 501 ''Pinned accounts are not implemented'') r"

definition postAccountUnpin :: "incoming \<Rightarrow> int \<Rightarrow> ('w sys, reply) eff" where
  "postAccountUnpin r actorID = stub ''POST'' (writeAPIError 501 ''Pinned accounts are not implemented'') r"

definition postStatusTranslateStub :: "incoming \<Rightarrow> int \<Rightarrow> ('w sys, reply) eff" where
  "postStatusTranslateStub r actorID = stub ''POST'' (writeAPIError 501 ''Translation is not implemented'') r"

definition postFeaturedTag :: "incoming \<Rightarrow> int \<Rightarrow> ('w sys, reply) eff" where
  "postFeaturedTag r actorID = stub ''POST'' (writeJSONObjectOK [(''id'', JStr ''0''), (''name'', JStr []), (''statuses_count'', json_int 0), (''url'', JStr [])]) r"

definition deleteFeaturedTag :: "incoming \<Rightarrow> int \<Rightarrow> ('w sys, reply) eff" where
  "deleteFeaturedTag r actorID = stub ''DELETE'' (writeJSONObjectOK [(''name'', JStr []), (''statuses_count'', json_int 0), (''url'', JStr [])]) r"

definition v1StubGETEmptyArray :: "incoming \<Rightarrow> ('w sys, reply) eff" where
  "v1StubGETEmptyArray r = stub ''GET'' (writeJSONArrayOK []) r"

definition v1StubBearerEmptyArray :: "incoming \<Rightarrow> int \<Rightarrow> ('w sys, reply) eff" where
  "v1StubBearerEmptyArray r actorID = stub ''GET'' (writeJSONArrayOK []) r"

definition getCustomEmojis :: "incoming \<Rightarrow> ('w sys, reply) eff" where
  "getCustomEmojis r = stub ''GET'' (writeJSONArrayOK []) r"

definition getAnnouncements :: "incoming \<Rightarrow> ('w sys, reply) eff" where
  "getAnnouncements r = stub ''GET'' (writeJSONArrayOK []) r"

definition getPreferences :: "incoming \<Rightarrow> int \<Rightarrow> ('w sys, reply) eff" where
  "getPreferences r actorID = stub ''GET'' (writeJSONObjectOK [(''posting:default:language'', JNull), (''posting:default:sensitive'', JBool False),
     (''posting:default:visibility'', JStr ''public''), (''reading:autoplay:gifs'', JBool False),
     (''reading:expand:media'', JStr ''default''), (''reading:expand:spoilers'', JBool False)]) r"

end
