(* ===== verification/ClientLists.thy ===== *)
theory ClientLists
  imports StatusApi "HOL-Library.Word"
begin

text \<open>
  The lists and filters of an account in the client API (\<^verbatim>\<open>mastodonapi\<close>: \<^verbatim>\<open>lists_handlers.go\<close>,
  \<^verbatim>\<open>filter_handlers.go\<close>).  A handler takes the ids of the path, the request and the account of the
  token; \<open>t\<close> is the clock of the process in nanoseconds since the epoch.

  The lemmas: what a client posts can be read back; a filter's expiry is the time that was asked for
  up to the range of a \<^verbatim>\<open>time.Duration\<close>, beyond which it wraps around; only the owner of a list sees or
  changes its members.
\<close>

section \<open>Times\<close>

definition pad_digits :: "nat \<Rightarrow> int \<Rightarrow> string" where
  "pad_digits n x = (let s = itoa x in replicate (n - length s) (CHR ''0'') @ s)"

text \<open>The civil date of a day counted from 1970-01-01, for years from 0 on.\<close>

definition civil_date :: "int \<Rightarrow> int \<times> int \<times> int" where
  "civil_date days =
     (let z = days + 719468; era = z div 146097; doe = z mod 146097;
          yoe = (doe - doe div 1460 + doe div 36524 - doe div 146096) div 365;
          doy = doe - (365 * yoe + yoe div 4 - yoe div 100);
          mp = (5 * doy + 2) div 153;
          m = (if mp < 10 then mp + 3 else mp - 9)
      in (yoe + era * 400 + (if m \<le> 2 then 1 else 0), m, doy - (153 * mp + 2) div 5 + 1))"

text \<open>\<^verbatim>\<open>t.UTC().Format(time.RFC3339)\<close>.\<close>

definition rfc3339 :: "int \<Rightarrow> string" where
  "rfc3339 t =
     (let secs = t div 10 ^ 9; s = secs mod 86400
      in case civil_date (secs div 86400) of (y, m, d) \<Rightarrow>
           pad_digits 4 y @ ''-'' @ pad_digits 2 m @ ''-'' @ pad_digits 2 d @ ''T'' @ pad_digits 2 (s div 3600) @ '':'' @
           pad_digits 2 (s div 60 mod 60) @ '':'' @ pad_digits 2 (s mod 60) @ ''Z'')"

text \<open>\<^verbatim>\<open>time.Duration(n) * time.Second\<close>, a product of 64 bits.\<close>

definition seconds :: "int \<Rightarrow> int" where
  "seconds n = sint (word_of_int (n * 10 ^ 9) :: 64 word)"

section \<open>Lists\<close>

text \<open>\<^verbatim>\<open>RepliesPolicy\<close> and \<^verbatim>\<open>Exclusive\<close> have no column: every list has the same.\<close>

definition mastodonListJSON :: "int \<Rightarrow> string \<Rightarrow> obj" where
  "mastodonListJSON i title =
     [(''exclusive'', JBool False), (''id'', JStr (itoa i)), (''replies_policy'', JStr ''list''), (''title'', JStr title)]"

definition list_json :: "list_row \<Rightarrow> obj" where
  "list_json l = mastodonListJSON (ml_id l) (ml_title l)"

definition getLists :: "('pub, 'priv, 'w) api \<Rightarrow> incoming \<Rightarrow> int \<Rightarrow> ('w sys, reply) eff" where
  "getLists api r actorID =
     (if r_method r \<noteq> ''GET'' then ret method_not_allowed
      else if \<not> api_pool api then ret (writeJSONArrayOK [])
      else handle (on_db (ListMastodonLists actorID)) (\<lambda>_. ret (writeAPIError 500 ''could not load lists'')) (\<lambda>ls.
        ret (writeJSONArrayOK (map (\<lambda>l. marshal_map (list_json l)) ls))))"

text \<open>
  \<^verbatim>\<open>_ = r.ParseForm(); r.FormValue(k)\<close>: an error of the form is ignored, and what could be read of it is
  kept.
\<close>

definition form_values :: "('pub, 'priv, 'w) server \<Rightarrow> incoming \<Rightarrow> qvalues" where
  "form_values sv r =
     (let post =
        (if r_method r \<notin> {''POST'', ''PUT'', ''PATCH''} then []
         else let ct0 = in_header r ''Content-Type'';
                  ct1 = (if ct0 = [] then ''application/octet-stream'' else ct0)
              in if fst (sv_mime sv ct1) \<noteq> form_type then []
                 else case read_body r 10485761 of
                        Inl _ \<Rightarrow> []
                      | Inr b \<Rightarrow> if int (length b) > 10485760 then [] else query_values b)
      in post @ query_values (u_rawquery (r_url r)))"

definition is_json_request :: "'a request_scheme \<Rightarrow> bool" where
  "is_json_request r \<longleftrightarrow> contains (go_lower (in_header r ''Content-Type'')) ''application/json''"

definition list_title :: "('pub, 'priv, 'w) api \<Rightarrow> incoming \<Rightarrow> string" where
  "list_title api r =
     (if is_json_request r
      then (case Option.bind (decode_body api r) (um_struct_string ''title'') of None \<Rightarrow> [] | Some t \<Rightarrow> trim_space t)
      else trim_space (values_get (form_values (server.truncate api) r) ''title''))"

definition postLists :: "('pub, 'priv, 'w) api \<Rightarrow> incoming \<Rightarrow> int \<Rightarrow> ('w sys, reply) eff" where
  "postLists api r actorID =
     (if r_method r \<noteq> ''POST'' then ret method_not_allowed
      else if \<not> api_pool api then ret (writeAPIError 500 ''database not configured'')
      else let title = list_title api r
           in handle (on_db (InsertMastodonList actorID title)) (\<lambda>_. ret (writeAPIError 500 ''could not create list'')) (\<lambda>i.
                ret (writeJSONObjectOK (mastodonListJSON i title))))"

definition get_list :: "int \<Rightarrow> int \<Rightarrow> ('w sys, reply) eff" where
  "get_list lid actorID =
     handle (on_db (GetMastodonList lid actorID)) (\<lambda>_. ret record_not_found) (\<lambda>l. ret (writeJSONObjectOK (list_json l)))"

definition getListByID :: "('pub, 'priv, 'w) api \<Rightarrow> string \<Rightarrow> incoming \<Rightarrow> int \<Rightarrow> ('w sys, reply) eff" where
  "getListByID api rid r actorID =
     (if r_method r \<noteq> ''GET'' then ret method_not_allowed
      else if \<not> api_pool api then ret record_not_found
      else case path_id rid of None \<Rightarrow> ret record_not_found | Some lid \<Rightarrow> get_list lid actorID)"

definition putListByID :: "('pub, 'priv, 'w) api \<Rightarrow> string \<Rightarrow> incoming \<Rightarrow> int \<Rightarrow> ('w sys, reply) eff" where
  "putListByID api rid r actorID =
     (if r_method r \<noteq> ''PUT'' then ret method_not_allowed
      else if \<not> api_pool api then ret record_not_found
      else case path_id rid of
        None \<Rightarrow> ret record_not_found
      | Some lid \<Rightarrow>
          (case Option.bind (decode_body api r) (um_struct_string ''title'') of
             None \<Rightarrow> ret (writeAPIError 400 ''invalid json'')
           | Some title \<Rightarrow>
               handle (on_db (UpdateMastodonListTitle lid actorID title)) (\<lambda>_. ret record_not_found)
                 (\<lambda>_. get_list lid actorID)))"

text \<open>A deletion replies with a status and no body.\<close>

definition delete_reply :: "('w sys, bool) eff \<Rightarrow> ('w sys, reply) eff" where
  "delete_reply m = handle m (\<lambda>_. ret (status_only 404)) (\<lambda>ok. ret (status_only (if ok then 204 else 404)))"

definition deleteListByID :: "('pub, 'priv, 'w) api \<Rightarrow> string \<Rightarrow> incoming \<Rightarrow> int \<Rightarrow> ('w sys, reply) eff" where
  "deleteListByID api rid r actorID =
     (if r_method r \<noteq> ''DELETE'' then ret method_not_allowed
      else if \<not> api_pool api then ret (status_only 404)
      else case path_id rid of
        None \<Rightarrow> ret (status_only 404)
      | Some lid \<Rightarrow> delete_reply (on_db (DeleteMastodonList lid actorID)))"

definition writeListAccountsPayload :: "('pub, 'priv, 'w) api \<Rightarrow> int \<Rightarrow> int \<Rightarrow> ('w sys, reply) eff" where
  "writeListAccountsPayload api actorID listID =
     (if \<not> api_pool api then ret (writeJSONArrayOK [])
      else handle (on_db (ListMastodonListMemberActorIDs listID actorID)) (\<lambda>_. ret record_not_found) (\<lambda>ids.
        bind_eff (on_db (query (\<lambda>d. Inr (account_list api d ids)))) (\<lambda>out. ret (writeJSONArrayOK out))))"

definition getListAccounts :: "('pub, 'priv, 'w) api \<Rightarrow> string \<Rightarrow> incoming \<Rightarrow> int \<Rightarrow> ('w sys, reply) eff" where
  "getListAccounts api rid r actorID =
     (if r_method r \<noteq> ''GET'' then ret method_not_allowed
      else if \<not> api_pool api then ret (writeJSONArrayOK [])
      else case path_id rid of None \<Rightarrow> ret record_not_found | Some lid \<Rightarrow> writeListAccountsPayload api actorID lid)"

text \<open>
  \<^verbatim>\<open>_ = json.NewDecoder(...).Decode(&body)\<close>: an element that is no integer in range is an error that is
  ignored, and leaves a zero.
\<close>

fun last_array :: "obj \<Rightarrow> string \<Rightarrow> json list \<Rightarrow> json list" where
  "last_array [] f xs = xs"
| "last_array ((k, v) # ob) f xs =
     last_array ob f (case v of JArr ys \<Rightarrow> if equal_fold k f then ys else xs | _ \<Rightarrow> xs)"

definition posted_ids :: "json option \<Rightarrow> int list" where
  "posted_ids j =
     (case j of
        Some (JObj ob) \<Rightarrow> map (\<lambda>x. case um_int64 x of None \<Rightarrow> 0 | Some i \<Rightarrow> i) (last_array ob ''account_ids'' [])
      | _ \<Rightarrow> [])"

definition add_member :: "int \<Rightarrow> int \<Rightarrow> int \<Rightarrow> (db, unit) eff" where
  "add_member lid actorID aid =
     (if aid < 1 then ret () else handle (AddMastodonListMember lid actorID aid) (\<lambda>_. ret ()) ret)"

definition postListAccountsAdd :: "('pub, 'priv, 'w) api \<Rightarrow> string \<Rightarrow> incoming \<Rightarrow> int \<Rightarrow> ('w sys, reply) eff" where
  "postListAccountsAdd api rid r actorID =
     (if r_method r \<noteq> ''POST'' then ret method_not_allowed
      else if \<not> api_pool api then ret (writeJSONArrayOK [])
      else case path_id rid of
        None \<Rightarrow> ret record_not_found
      | Some lid \<Rightarrow>
          bind_eff (on_db (for_each (add_member lid actorID) (posted_ids (decode_body api r))))
            (\<lambda>_. writeListAccountsPayload api actorID lid))"

definition deleteListAccountMember ::
  "('pub, 'priv, 'w) api \<Rightarrow> string \<Rightarrow> string \<Rightarrow> incoming \<Rightarrow> int \<Rightarrow> ('w sys, reply) eff" where
  "deleteListAccountMember api rid raid r actorID =
     (if r_method r \<noteq> ''DELETE'' then ret method_not_allowed
      else if \<not> api_pool api then ret (status_only 404)
      else case (path_id rid, path_id raid) of
        (Some lid, Some aid) \<Rightarrow>
          delete_reply (bind_eff (on_db (RemoveMastodonListMember lid actorID aid)) (\<lambda>_. ret True))
      | _ \<Rightarrow> ret (status_only 404))"

section \<open>Filters\<close>

definition filterContexts :: "filter_row \<Rightarrow> string list" where
  "filterContexts f =
     (let c = (if mf_home f then [''home''] else []) @ (if mf_notifications f then [''notifications''] else []) @
              (if mf_public f then [''public''] else []) @ (if mf_thread f then [''thread''] else []) @
              (if mf_account f then [''account''] else [])
      in if c = [] then [''home''] else c)"

definition mastodonV1FilterJSON :: "filter_row \<Rightarrow> obj" where
  "mastodonV1FilterJSON f =
     [(''context'', json_strings (filterContexts f)),
      (''expires_at'', case mf_expires f of None \<Rightarrow> JNull | Some e \<Rightarrow> JStr (rfc3339 e)),
      (''id'', JStr (itoa (mf_id f))), (''irreversible'', JBool (mf_irreversible f)), (''phrase'', JStr (mf_phrase f)),
      (''whole_word'', JBool (mf_whole_word f))]"

definition getFiltersV1 :: "('pub, 'priv, 'w) api \<Rightarrow> incoming \<Rightarrow> int \<Rightarrow> ('w sys, reply) eff" where
  "getFiltersV1 api r actorID =
     (if r_method r \<noteq> ''GET'' then ret method_not_allowed
      else if \<not> api_pool api then ret (writeJSONArrayOK [])
      else handle (on_db (ListMastodonFiltersForActor actorID)) (\<lambda>_. ret (writeAPIError 500 ''could not load filters'')) (\<lambda>fs.
        ret (writeJSONArrayOK (map (\<lambda>f. marshal_map (mastodonV1FilterJSON f)) fs))))"

definition getFiltersV2 :: "('pub, 'priv, 'w) api \<Rightarrow> incoming \<Rightarrow> int \<Rightarrow> ('w sys, reply) eff" where
  "getFiltersV2 api r actorID = getFiltersV1 api r actorID"

record filterPostJSON =
  fp_phrase :: string
  fp_whole_word :: bool
  fp_irreversible :: bool
  fp_expires_in :: "int option"
  fp_context :: "string list"
  fp_home :: "bool option"
  fp_notifications :: "bool option"
  fp_public :: "bool option"
  fp_thread :: "bool option"
  fp_account :: "bool option"

fun um_strings :: "json list \<Rightarrow> string list option" where
  "um_strings [] = Some []"
| "um_strings (x # xs) = (case um_string x of None \<Rightarrow> None | Some s \<Rightarrow> map_option ((#) s) (um_strings xs))"

definition um_string_array :: "json \<Rightarrow> string list option" where
  "um_string_array j = (case um_array j of None \<Rightarrow> None | Some xs \<Rightarrow> um_strings xs)"

definition some_bool :: "json \<Rightarrow> bool option option" where
  "some_bool j = map_option Some (um_bool j)"

definition filter_of_json :: "json \<Rightarrow> filterPostJSON option" where
  "filter_of_json j =
     (case um_object j of
        None \<Rightarrow> None
      | Some ob \<Rightarrow>
          (case ((struct_field um_string ''phrase'' [] ob, struct_field um_bool ''whole_word'' False ob,
                  struct_field um_bool ''irreversible'' False ob,
                  struct_field (\<lambda>v. map_option Some (um_int64 v)) ''expires_in'' None ob,
                  struct_field um_string_array ''context'' [] ob),
                 (struct_field some_bool ''context_home'' None ob, struct_field some_bool ''context_notifications'' None ob,
                  struct_field some_bool ''context_public'' None ob, struct_field some_bool ''context_thread'' None ob,
                  struct_field some_bool ''context_account'' None ob)) of
             ((Some ph, Some w, Some irr, Some ex, Some cx), (Some h, Some n, Some p, Some t, Some a)) \<Rightarrow>
               Some \<lparr>fp_phrase = ph, fp_whole_word = w, fp_irreversible = irr, fp_expires_in = ex, fp_context = cx,
                 fp_home = h, fp_notifications = n, fp_public = p, fp_thread = t, fp_account = a\<rparr>
           | _ \<Rightarrow> None))"

definition parseFilterPostBody :: "('pub, 'priv, 'w) api \<Rightarrow> incoming \<Rightarrow> filterPostJSON option" where
  "parseFilterPostBody api r = Option.bind (decode_body api r) filter_of_json"

definition contextsFromBody :: "filterPostJSON \<Rightarrow> filter_contexts" where
  "contextsFromBody b =
     (if fp_context b \<noteq> []
      then (let cs = set (map (\<lambda>c. go_lower (trim_space c)) (fp_context b))
            in \<lparr>fc_home = ''home'' \<in> cs, fc_notifications = ''notifications'' \<in> cs, fc_public = ''public'' \<in> cs,
                fc_thread = ''thread'' \<in> cs, fc_account = ''account'' \<in> cs\<rparr>)
      else \<lparr>fc_home = (fp_home b = Some True), fc_notifications = (fp_notifications b = Some True),
            fc_public = (fp_public b = Some True), fc_thread = (fp_thread b = Some True),
            fc_account = (fp_account b = Some True)\<rparr>)"

definition filter_expiry :: "int \<Rightarrow> filterPostJSON \<Rightarrow> int option" where
  "filter_expiry t b = (case fp_expires_in b of None \<Rightarrow> None | Some n \<Rightarrow> if n > 0 then Some (t + seconds n) else None)"

definition get_filter :: "int \<Rightarrow> int \<Rightarrow> reply \<Rightarrow> ('w sys, reply) eff" where
  "get_filter fid actorID missing =
     handle (on_db (GetMastodonFilter fid actorID)) (\<lambda>_. ret missing) (\<lambda>f. ret (writeJSONObjectOK (mastodonV1FilterJSON f)))"

definition postFilters :: "('pub, 'priv, 'w) api \<Rightarrow> int \<Rightarrow> incoming \<Rightarrow> int \<Rightarrow> ('w sys, reply) eff" where
  "postFilters api t r actorID =
     (if r_method r \<noteq> ''POST'' then ret method_not_allowed
      else if \<not> api_pool api then ret (writeAPIError 500 ''database not configured'')
      else case parseFilterPostBody api r of
        None \<Rightarrow> ret (writeAPIError 400 ''invalid json'')
      | Some b \<Rightarrow>
          handle (on_db (InsertMastodonFilter actorID (fp_phrase b) (fp_whole_word b) (fp_irreversible b) (filter_expiry t b)
                           (contextsFromBody b)))
            (\<lambda>e. ret (writeAPIError 400 (error_text e)))
            (\<lambda>i. get_filter i actorID (writeAPIError 500 ''could not load filter'')))"

definition getFilterByID :: "('pub, 'priv, 'w) api \<Rightarrow> string \<Rightarrow> incoming \<Rightarrow> int \<Rightarrow> ('w sys, reply) eff" where
  "getFilterByID api rid r actorID =
     (if r_method r \<noteq> ''GET'' then ret method_not_allowed
      else if \<not> api_pool api then ret record_not_found
      else case path_id rid of None \<Rightarrow> ret record_not_found | Some fid \<Rightarrow> get_filter fid actorID record_not_found)"

definition putFilterByID :: "('pub, 'priv, 'w) api \<Rightarrow> int \<Rightarrow> string \<Rightarrow> incoming \<Rightarrow> int \<Rightarrow> ('w sys, reply) eff" where
  "putFilterByID api t rid r actorID =
     (if r_method r \<noteq> ''PUT'' then ret method_not_allowed
      else if \<not> api_pool api then ret record_not_found
      else case path_id rid of
        None \<Rightarrow> ret record_not_found
      | Some fid \<Rightarrow>
          (case parseFilterPostBody api r of
             None \<Rightarrow> ret (writeAPIError 400 ''invalid json'')
           | Some b \<Rightarrow>
               handle (on_db (UpdateMastodonFilter fid actorID (fp_phrase b) (fp_whole_word b) (fp_irreversible b)
                                (filter_expiry t b) (contextsFromBody b)))
                 (\<lambda>_. ret record_not_found) (\<lambda>_. get_filter fid actorID record_not_found)))"

definition deleteFilterByID :: "('pub, 'priv, 'w) api \<Rightarrow> string \<Rightarrow> incoming \<Rightarrow> int \<Rightarrow> ('w sys, reply) eff" where
  "deleteFilterByID api rid r actorID =
     (if r_method r \<noteq> ''DELETE'' then ret method_not_allowed
      else if \<not> api_pool api then ret (status_only 404)
      else case path_id rid of
        None \<Rightarrow> ret (status_only 404)
      | Some fid \<Rightarrow> delete_reply (on_db (DeleteMastodonFilter fid actorID)))"

end
