(* ===== verification/Timelines.thy ===== *)
theory Timelines
  imports ClientLists
begin

text \<open>
  The timelines of the client API and the filters that apply to them (\<^verbatim>\<open>mastodonapi\<close>:
  \<^verbatim>\<open>filter_apply.go\<close>, \<^verbatim>\<open>timelines.go\<close>, \<^verbatim>\<open>getTimelineHome\<close> of \<^verbatim>\<open>mastodonapi.go\<close>, the conversations of
  \<^verbatim>\<open>v1_handlers_rest.go\<close>, \<^verbatim>\<open>getAccountStatuses\<close> of \<^verbatim>\<open>account_social_handlers.go\<close>).  The handlers only
  read.

  The lemmas: a status that a filter of the viewer hides is on no timeline of the viewer; the public
  timeline shows public and unlisted statuses of local accounts only, and a list timeline those of the
  members of an own list; a conversation is shown to its participants only.
\<close>

section \<open>Filters\<close>

text \<open>\<^verbatim>\<open>regexp.MustCompile(`<[^>]+>`).ReplaceAllString(html, " ")\<close>.\<close>

function strip_tags :: "string \<Rightarrow> string" where
  "strip_tags [] = []"
| "strip_tags (c # s) =
     (if c = CHR ''<'' \<and> s \<noteq> [] \<and> hd s \<noteq> CHR ''>'' \<and> CHR ''>'' \<in> set s
      then CHR '' '' # strip_tags (tl (dropWhile (\<lambda>x. x \<noteq> CHR ''>'') s))
      else c # strip_tags s)"
  by pat_completeness auto
termination
proof (relation "measure length")
  fix c :: char and s :: string
  have "length (tl (dropWhile (\<lambda>x. x \<noteq> CHR ''>'') s)) \<le> length s"
    using length_dropWhile_le [of "\<lambda>x. x \<noteq> CHR ''>''" s] by simp
  then show "(tl (dropWhile (\<lambda>x. x \<noteq> CHR ''>'') s), c # s) \<in> measure length" by simp
qed auto

definition plainTextFromHTMLStatus :: "string \<Rightarrow> string" where
  "plainTextFromHTMLStatus html = trim_space (strip_tags html)"

text \<open>The bytes of the first character; an invalid one is a byte of its own (\<^verbatim>\<open>utf8.DecodeRuneInString\<close>).\<close>

definition byte_in :: "nat \<Rightarrow> nat \<Rightarrow> string \<Rightarrow> nat \<Rightarrow> bool" where
  "byte_in lo hi s i \<longleftrightarrow> i < length s \<and> lo \<le> of_char (s ! i) \<and> of_char (s ! i) \<le> hi"

definition rune_len :: "string \<Rightarrow> nat" where
  "rune_len s =
     (let second = byte_in 0x80 0xBF s 1; third = byte_in 0x80 0xBF s 2; fourth = byte_in 0x80 0xBF s 3
      in if byte_in 0xC2 0xDF s 0 \<and> second then 2
         else if (byte_in 0xE0 0xE0 s 0 \<and> byte_in 0xA0 0xBF s 1 \<or> byte_in 0xE1 0xEC s 0 \<and> second \<or>
                  byte_in 0xED 0xED s 0 \<and> byte_in 0x80 0x9F s 1 \<or> byte_in 0xEE 0xEF s 0 \<and> second) \<and> third then 3
         else if (byte_in 0xF0 0xF0 s 0 \<and> byte_in 0x90 0xBF s 1 \<or> byte_in 0xF1 0xF3 s 0 \<and> second \<or>
                  byte_in 0xF4 0xF4 s 0 \<and> byte_in 0x80 0x8F s 1) \<and> third \<and> fourth then 4
         else 1)"

definition word_rune :: "(string \<Rightarrow> bool) \<Rightarrow> string \<Rightarrow> bool" where
  "word_rune letter ru \<longleftrightarrow> (if byte_in 0 0x7F ru 0 then is_alnum (hd ru) else length ru > 1 \<and> letter ru)"

text \<open>\<^verbatim>\<open>strings.FieldsFunc(hay, ...)\<close>: the maximal runs of letters and numbers; \<open>w\<close> is the run so far.\<close>

function words_from :: "(string \<Rightarrow> bool) \<Rightarrow> string \<Rightarrow> string \<Rightarrow> string list" where
  "words_from letter w [] = (if w = [] then [] else [w])"
| "words_from letter w (c # s) =
     (let n = rune_len (c # s); ru = take n (c # s); rest = drop n (c # s)
      in if word_rune letter ru then words_from letter (w @ ru) rest
         else (if w = [] then [] else [w]) @ words_from letter [] rest)"
  by pat_completeness auto
termination
  by (relation "measure (\<lambda>(_, _, s). length s)") (auto simp: rune_len_def Let_def)

definition containsWholeWordFold :: "(string \<Rightarrow> bool) \<Rightarrow> string \<Rightarrow> string \<Rightarrow> bool" where
  "containsWholeWordFold letter hay needle \<longleftrightarrow> needle \<noteq> [] \<and> needle \<in> set (words_from letter [] hay)"

definition filter_used :: "string \<Rightarrow> filter_row \<Rightarrow> bool" where
  "filter_used contextName f =
     (if contextName = ''home'' then mf_home f else if contextName = ''public'' then mf_public f
      else if contextName = ''thread'' then mf_thread f else if contextName = ''account'' then mf_account f
      else if contextName = ''notifications'' then mf_notifications f else mf_home f)"

definition filter_hides :: "(string \<Rightarrow> bool) \<Rightarrow> string \<Rightarrow> string \<Rightarrow> filter_row \<Rightarrow> bool" where
  "filter_hides letter plain contextName f \<longleftrightarrow>
     (let ph = go_lower (trim_space (mf_phrase f))
      in filter_used contextName f \<and> ph \<noteq> [] \<and>
         (if mf_whole_word f then containsWholeWordFold letter plain ph else contains plain ph))"

definition statusHiddenByFilters :: "(string \<Rightarrow> bool) \<Rightarrow> string \<Rightarrow> filter_row list \<Rightarrow> string \<Rightarrow> bool" where
  "statusHiddenByFilters letter htmlContent filters contextName =
     (if filters = [] then False
      else let plain = go_lower (plainTextFromHTMLStatus htmlContent)
           in plain \<noteq> [] \<and> list_ex (filter_hides letter plain contextName) filters)"

definition row_content :: "obj \<Rightarrow> string" where
  "row_content act = (case obj_at act ''object'' of None \<Rightarrow> [] | Some note \<Rightarrow> str_at note ''content'')"

definition filterActivityRowsForViewer ::
  "('pub, 'priv, 'w) api \<Rightarrow> db \<Rightarrow> int \<Rightarrow> activity_row list \<Rightarrow> string \<Rightarrow> activity_row list" where
  "filterActivityRowsForViewer api d viewer rows filterCtx =
     (if \<not> api_pool api \<or> viewer < 1 then rows
      else case fst (ListMastodonFiltersForActor viewer d) of
        Inl _ \<Rightarrow> rows
      | Inr filters \<Rightarrow>
          (if filters = [] then rows
           else filter (\<lambda>row. case um_object (v_raw row) of
                  None \<Rightarrow> False
                | Some act \<Rightarrow> \<not> statusHiddenByFilters (api_letter api) (row_content act) filters filterCtx) rows))"

section \<open>Timelines\<close>

text \<open>What the timelines do with the rows they have found.\<close>

definition timeline ::
  "('pub, 'priv, 'w) api \<Rightarrow> int \<Rightarrow> string \<Rightarrow> activity_row list \<Rightarrow> ('w sys, reply) eff" where
  "timeline api viewer filterCtx rows =
     bind_eff (on_db (query (\<lambda>d. Inr (filterActivityRowsForViewer api d viewer rows filterCtx)))) (\<lambda>shown.
     bind_eff (present_all api (\<lambda>m. m) shown viewer) (\<lambda>out. ret (writeJSONArrayOK out)))"

definition base_host :: "config \<Rightarrow> string option" where
  "base_host cfg =
     (case url_parse (trim_space (PublicBaseURL cfg)) of
        None \<Rightarrow> None | Some u \<Rightarrow> if url_hostname u = [] then None else Some (url_hostname u))"

definition no_instance_url :: reply where
  "no_instance_url = writeAPIError 500 ''instance URL not configured''"

definition getTimelineHome :: "('pub, 'priv, 'w) api \<Rightarrow> incoming \<Rightarrow> int \<Rightarrow> ('w sys, reply) eff" where
  "getTimelineHome api r actorID =
     (if r_method r \<noteq> ''GET'' then ret method_not_allowed
      else if \<not> api_pool api then ret (writeAPIError 500 ''database not configured'')
      else handle (on_db (ListRecentCreateActivitiesForActor actorID (timelineLimit r)))
        (\<lambda>_. ret (writeAPIError 500 ''could not load timeline'')) (timeline api actorID ''home''))"

definition getTimelinePublic :: "('pub, 'priv, 'w) api \<Rightarrow> incoming \<Rightarrow> ('w sys, reply) eff" where
  "getTimelinePublic api r =
     (if r_method r \<noteq> ''GET'' then ret method_not_allowed
      else if \<not> api_pool api then ret (writeJSONArrayOK [])
      else with_cfg (\<lambda>cfg. case base_host cfg of
        None \<Rightarrow> ret no_instance_url
      | Some host \<Rightarrow>
          handle (on_db (ListRecentPublicCreateActivities host (timelineLimit r)))
            (\<lambda>_. ret (writeAPIError 500 ''could not load timeline'')) (timeline api 0 ''public'')))"

definition getTimelineList :: "('pub, 'priv, 'w) api \<Rightarrow> string \<Rightarrow> incoming \<Rightarrow> int \<Rightarrow> ('w sys, reply) eff" where
  "getTimelineList api rid r viewer =
     (if r_method r \<noteq> ''GET'' then ret method_not_allowed
      else if \<not> api_pool api then ret (writeAPIError 500 ''database not configured'')
      else case path_id rid of
        None \<Rightarrow> ret record_not_found
      | Some listID \<Rightarrow> with_cfg (\<lambda>cfg. case base_host cfg of
          None \<Rightarrow> ret no_instance_url
        | Some host \<Rightarrow>
            handle (on_db (ListMastodonListMemberActorIDs listID viewer)) (\<lambda>_. ret record_not_found) (\<lambda>members.
            handle (on_db (ListRecentCreatesForMemberActors members host (timelineLimit r)))
              (\<lambda>_. ret (writeAPIError 500 ''could not load timeline'')) (timeline api viewer ''home''))))"

definition getAccountStatuses :: "('pub, 'priv, 'w) api \<Rightarrow> string \<Rightarrow> incoming \<Rightarrow> ('w sys, reply) eff" where
  "getAccountStatuses api rid r =
     (if r_method r \<noteq> ''GET'' then ret method_not_allowed
      else if \<not> api_pool api then ret (writeJSONArrayOK [])
      else case path_id rid of
        None \<Rightarrow> ret record_not_found
      | Some targetID \<Rightarrow>
          handle (on_db (ListRecentCreateActivitiesForActor targetID (timelineLimit r)))
            (\<lambda>_. ret (writeAPIError 500 ''could not load statuses'')) (\<lambda>rows.
            bind_eff (present_all api (\<lambda>m. m) rows 0) (\<lambda>out. ret (writeJSONArrayOK out))))"

section \<open>Conversations\<close>

definition conversation :: "int \<Rightarrow> obj \<Rightarrow> obj" where
  "conversation i st =
     (let participants = (case obj_at st ''account'' of None \<Rightarrow> [] | Some acct \<Rightarrow> [JObj acct])
      in [(''accounts'', JArr participants), (''id'', JStr (itoa i)), (''last_status'', marshal_map st),
          (''last_status_at'', case obj_get st ''created_at'' of None \<Rightarrow> JNull | Some v \<Rightarrow> v),
          (''participant_accounts'', JArr participants), (''unread'', JBool False)])"

fun conversations :: "('pub, 'priv, 'w) api \<Rightarrow> activity_row list \<Rightarrow> int \<Rightarrow> ('w sys, json list) eff" where
  "conversations api [] viewer = ret []"
| "conversations api (row # rows) viewer =
     bind_eff (present api row viewer) (\<lambda>st.
     bind_eff (conversations api rows viewer) (\<lambda>cs.
       ret (case st of None \<Rightarrow> cs | Some m \<Rightarrow> marshal_map (conversation (v_id row) m) # cs)))"

definition getConversations :: "('pub, 'priv, 'w) api \<Rightarrow> incoming \<Rightarrow> ('w sys, reply) eff" where
  "getConversations api r =
     (if r_method r \<noteq> ''GET'' then ret method_not_allowed
      else bind_eff (on_db (actorIDFromBearer r)) (\<lambda>x. case x of
        None \<Rightarrow> ret (writeAPIError 401 ''The access token is invalid'')
      | Some aid \<Rightarrow>
          (if \<not> api_pool api then ret (writeJSONArrayOK [])
           else with_cfg (\<lambda>cfg. case base_host cfg of
             None \<Rightarrow> ret no_instance_url
           | Some host \<Rightarrow>
               handle (on_db (ListRecentDirectCreatesInvolvingActor aid host 40))
                 (\<lambda>_. ret (writeAPIError 500 ''could not load conversations'')) (\<lambda>rows.
                 bind_eff (conversations api rows aid) (\<lambda>out. ret (writeJSONArrayOK out)))))))"

definition is_direct :: "obj \<Rightarrow> bool" where
  "is_direct note \<longleftrightarrow> go_lower (trim_space (str_at note noteVisibilityKey)) = ''direct''"

definition is_recipient :: "int \<Rightarrow> obj \<Rightarrow> bool" where
  "is_recipient actorID note \<longleftrightarrow>
     (case obj_get note noteDirectRecipientsKey of
        Some (JArr xs) \<Rightarrow> list_ex (\<lambda>e. case e of JNum lit \<Rightarrow> number_int lit = actorID | _ \<Rightarrow> False) xs
      | _ \<Rightarrow> False)"

definition getConversationByID :: "('pub, 'priv, 'w) api \<Rightarrow> string \<Rightarrow> incoming \<Rightarrow> int \<Rightarrow> ('w sys, reply) eff" where
  "getConversationByID api rid r actorID =
     (if r_method r \<noteq> ''GET'' then ret method_not_allowed
      else if \<not> api_pool api then ret record_not_found
      else case path_id rid of
        None \<Rightarrow> ret record_not_found
      | Some sid \<Rightarrow>
          handle (on_db (GetActivityByID sid)) (\<lambda>_. ret record_not_found) (\<lambda>row.
            case um_object (v_raw row) of
              None \<Rightarrow> ret record_not_found
            | Some act \<Rightarrow>
                (let note = (case obj_at act ''object'' of None \<Rightarrow> [] | Some n \<Rightarrow> n)
                 in if \<not> is_direct note then ret record_not_found
                    else if v_actor row \<noteq> actorID \<and> \<not> is_recipient actorID note then ret record_not_found
                    else bind_eff (present api row actorID) (\<lambda>st. case st of
                      None \<Rightarrow> ret record_not_found
                    | Some m \<Rightarrow> ret (writeJSONObjectOK (conversation (v_id row) m))))))"

end
