(* ===== verification/StatusFacts.thy ===== *)
theory StatusFacts
  imports StatusApi
begin

text \<open>
  What the status endpoints guarantee: they keep the constraints of the schema and the statuses of
  other accounts; own posts keep every status showable; a direct status goes to its recipients only;
  the chain of ancestors is bounded and repeats nothing; bookmarks are toggled exactly.
\<close>

section \<open>Publishing\<close>

lemma preserves_bind_val:
  "preserves P m \<Longrightarrow> (\<And>x s. fst (m s) = Inr x \<Longrightarrow> preserves P (k x)) \<Longrightarrow> preserves P (bind_eff m k)"
  unfolding preserves_def by (auto simp: bind_apply split: sum.split prod.split)

lemma append_object: "fst (appendFollowerCCForPublicPosts a raw d) = Inr raw' \<Longrightarrow> obj_get raw' ''object'' = obj_get raw ''object''"
  by (auto simp: appendFollowerCCForPublicPosts_def ListAcceptedFollowerActorURLs_def eff_simps mergeStringIRIsIntoJSONField_def
      Let_def split: if_splits)

lemma publish_keeps:
  assumes q: "\<And>impl. hd_queue h = Some impl \<Longrightarrow> impl_keeps P impl"
    and store: "\<And>cfg a i t raw. obj_get raw ''object'' = obj_get act ''object'' \<Longrightarrow> preserves P (outbox_store cfg a i t (marshal_map raw) raw)"
    and job: "\<And>j. preserves P (EnqueueTx j)"
  shows "preserves (db_inv P) (PublishLocalActivityBytes h u (Some (marshal_map act)))"
proof -
  have persist: "preserves (db_inv P) (persistOutboxAndEnqueue impl cfg u a (marshal_map raw) raw inboxes)"
    if "hd_queue h = Some impl" "obj_get raw ''object'' = obj_get act ''object''" for impl cfg a raw inboxes
    unfolding persistOutboxAndEnqueue_def using q [OF that(1)] that(2)
    by (cases impl) (auto simp: impl_keeps_def intro!: preserved outbox_enqueue_keeps store job)
  have get: "obj_get raw0 ''object'' = obj_get act ''object''" if "um_object (marshal_map act) = Some raw0" for raw0
    by (rule obj_get_marshal_map [OF that])
  have app: "obj_get raw ''object'' = obj_get act ''object''"
    if "fst (on_db (appendFollowerCCForPublicPosts a raw0) s) = Inr raw" "um_object (marshal_map act) = Some raw0" for a raw0 raw s
    using append_object [of a raw0 _ raw] that get by (simp add: on_db_apply)
  have core: "preserves (db_inv P)
      (bind_eff (of_res (check_outbox cfg u raw0)) (\<lambda>_.
       bind_eff (on_db (appendFollowerCCForPublicPosts a raw0)) (\<lambda>raw.
       bind_eff (wrap_eff ''delivery'' (on_net (resolveDeliveryInboxes h cfg raw (LocalSharedInboxURL cfg)))) (\<lambda>inboxes.
         persistOutboxAndEnqueue impl cfg u a (marshal_map raw) raw inboxes))))"
    if "hd_queue h = Some impl" "um_object (marshal_map act) = Some raw0" for cfg raw0 a impl
  proof (rule preserves_bind [OF _ preserves_bind_val])
    fix s raw assume "fst (on_db (appendFollowerCCForPublicPosts a raw0) s) = Inr raw"
    with that show "preserves (db_inv P)
       (bind_eff (wrap_eff ''delivery'' (on_net (resolveDeliveryInboxes h cfg raw (LocalSharedInboxURL cfg)))) (\<lambda>inboxes.
         persistOutboxAndEnqueue impl cfg u a (marshal_map raw) raw inboxes))"
      by (intro preserves_bind persist app) (intro preserved)
  qed (intro preserved)+
  show ?thesis
    unfolding PublishLocalActivityBytes_def option.case by (rule preserves_with_cfg) (auto intro!: preserves_option core split: if_splits)
qed

section \<open>Quotes stay older\<close>

definition acts_are :: "activity_row list \<Rightarrow> int \<Rightarrow> db \<Rightarrow> bool" where
  "acts_are vs n d \<longleftrightarrow> d_activities d = vs \<and> d_seq d TActivities = n"

lemma effects_acts [preserved]:
  "preserves (acts_are vs n) (UpsertFollow a b act st)"
  "preserves (acts_are vs n) (UpsertFederatedLike a u act)"
  "preserves (acts_are vs n) (UpsertFederatedAnnounce a u act)"
  "preserves (acts_are vs n) (delete_follows act a)" "preserves (acts_are vs n) (delete_likes act a)"
  "preserves (acts_are vs n) (delete_announces act a)" "preserves (acts_are vs n) (delete_blocks act a)"
  "preserves (acts_are vs n) (EnsureRemoteActor url pem)" "preserves (acts_are vs n) (UpsertStatusBookmark a i)"
  "preserves (acts_are vs n) (DeleteStatusBookmark a i)"
  unfolding UpsertFollow_def UpsertFederatedLike_def UpsertFederatedAnnounce_def delete_follows_def delete_likes_def
    delete_announces_def delete_blocks_def EnsureRemoteActor_def upsert_actor_def UpsertStatusBookmark_def DeleteStatusBookmark_def
    Let_def
  by (auto intro!: preserved preserves_statement simp: acts_are_def nextval_def bind_res_ok split: if_splits option.split)

lemma EnqueueTx_acts [preserved]: "preserves (acts_are vs n) (EnqueueTx j)"
  by (auto simp: preserves_def EnqueueTx_def SqlEnqueue_apply acts_are_def)

lemma record_acts [preserved]: "preserves (acts_are vs n) (recordOutboxFollowEffects cfg a i t raw)"
  unfolding recordOutboxFollowEffects_def recordOutboxUndoEffects_def resolveFolloweeActorID_def Let_def
  by (intro preserved)

text \<open>Every quote is of an older row, and ids below \<open>n\<close> have been given out.\<close>

definition quotes_inv :: "int \<Rightarrow> db \<Rightarrow> bool" where
  "quotes_inv n d \<longleftrightarrow> db_wf d \<and> quotes_older d \<and> n \<le> d_seq d TActivities"

lemma quotes_inv_keep:
  assumes "preserves db_wf m" "\<And>vs k. preserves (acts_are vs k) m"
  shows "preserves (quotes_inv n) m"
proof (rule preservesI)
  fix d assume q: "quotes_inv n d"
  then have "acts_are (d_activities d) (d_seq d TActivities) (snd (m d))"
    using preservesD [OF assms(2) [of "d_activities d" "d_seq d TActivities"], of d] by (simp add: acts_are_def)
  with q preservesD [OF assms(1), of d] show "quotes_inv n (snd (m d))"
    by (simp add: quotes_inv_def quotes_older_def acts_are_def)
qed

lemma insert_quotes:
  assumes "\<And>q. quoted_id raw = Some q \<Longrightarrow> q < n"
  shows "preserves (quotes_inv n) (InsertInboundActivity a iri t raw)"
proof (rule preservesI)
  fix d assume q: "quotes_inv n d"
  have w: "db_wf (snd (InsertInboundActivity a iri t raw d))"
    using q by (intro preservesD [OF InsertInboundActivity_wf]) (simp add: quotes_inv_def)
  show "quotes_inv n (snd (InsertInboundActivity a iri t raw d))"
  proof (cases rule: InsertInboundActivity_cases [of iri d a t raw])
    case known
    with q w show ?thesis by (simp add: quotes_inv_def quotes_older_def)
  next
    case no_actor
    with q w show ?thesis by (simp add: quotes_inv_def)
  next
    case stored
    with q w assms show ?thesis by (auto simp: quotes_inv_def quotes_older_def inbound_row_def split: option.splits)
  qed
qed

lemma outbox_store_quotes:
  assumes "\<And>q. quoted_id body = Some q \<Longrightarrow> q < n"
  shows "preserves (quotes_inv n) (outbox_store cfg a i t body raw)"
  unfolding outbox_store_def
  by (intro preserved insert_quotes [OF assms] quotes_inv_keep [OF record_effects_wf(3) record_acts])

lemma quoted_id_string:
  assumes "obj_get raw ''object'' = Some (JStr x)"
  shows "quoted_id (marshal_map raw) = None"
proof -
  obtain gs where gs: "um_object (marshal_map raw) = Some gs" by (simp add: marshal_map_def)
  from obj_get_marshal_map [OF gs, of "''object''"] assms show ?thesis by (simp add: quoted_id_def gs obj_at_def)
qed

section \<open>A contract of the handlers\<close>

text \<open>
  A condition on the database that storing an activity about an IRI, queueing and bookmarking keep is
  kept by the handlers that like, announce, delete and bookmark.
\<close>

locale posting_keeps =
  fixes P :: "db \<Rightarrow> bool"
  assumes store_iri: "obj_get raw ''object'' = Some (JStr x) \<Longrightarrow> preserves P (outbox_store cfg a i t (marshal_map raw) raw)"
    and job: "preserves P (EnqueueTx j)"
    and bookmark: "preserves P (UpsertStatusBookmark a v)" "preserves P (DeleteStatusBookmark a v)"
    and soft_delete: "preserves P (SoftDeleteActivityForActor v a)"
begin

lemma publish_iri:
  assumes "api_keeps P api" "obj_get act ''object'' = Some (JStr x)" "preserves (db_inv P) k"
  shows "preserves (db_inv P) (publish api u act k)"
  unfolding publish_def api_handler_def
proof (intro preserves_handle assms(3))
  show "preserves (db_inv P) (PublishLocalActivityBytes (sv_h api) u (Some (marshal_map act)))"
  proof (rule publish_keeps)
    show "impl_keeps P impl" if "hd_queue (sv_h api) = Some impl" for impl using assms(1) that by (simp add: api_keeps_def)
    show "preserves P (outbox_store cfg a i t (marshal_map raw) raw)" if "obj_get raw ''object'' = obj_get act ''object''" for cfg a i t raw
      using that assms(2) by (intro store_iri) simp
  qed (rule job)
qed simp

lemma like_keeps: "api_keeps P api \<Longrightarrow> preserves (db_inv P) (postStatusSocialLike api rnd favour rid r a)"
  unfolding postStatusSocialLike_def with_own_account_def with_status_def Let_def
  by (intro preserved publish_iri; (simp add: like_activity_def undo_activity_def obj_get_Cons)?)

lemma reblog_keeps: "api_keeps P api \<Longrightarrow> preserves (db_inv P) (postStatusSocialReblog api rnd reblog rid r a)"
  unfolding postStatusSocialReblog_def with_own_account_def with_status_def Let_def
  by (intro preserved publish_iri; (simp add: announce_activity_def undo_activity_def obj_get_Cons)?)

lemma bookmark_keeps: "preserves (db_inv P) (postStatusBookmarkToggle api add rid r a)"
  unfolding postStatusBookmarkToggle_def by (intro preserved bookmark)

lemma delete_keeps: "api_keeps P api \<Longrightarrow> preserves (db_inv P) (deleteStatus api rnd rid r a)"
  unfolding deleteStatus_def with_own_account_def
  by (intro preserved publish_iri soft_delete; (simp add: delete_activity_def obj_get_Cons)?)

end

interpretation wf_post: posting_keeps db_wf
  by unfold_locales (intro preserved)+

lemma soft_delete_quotes: "preserves (quotes_inv n) (SoftDeleteActivityForActor v a)"
proof (rule preservesI)
  fix d assume q: "quotes_inv n d"
  then have "db_wf (snd (SoftDeleteActivityForActor v a d))"
    by (intro preservesD [OF SoftDeleteActivityForActor_wf]) (simp add: quotes_inv_def)
  with q show "quotes_inv n (snd (SoftDeleteActivityForActor v a d))"
    by (auto simp: quotes_inv_def quotes_older_def SoftDeleteActivityForActor_def eff_simps Let_def set_update_where
        split: option.splits)
qed

interpretation quotes_post: posting_keeps "quotes_inv n" for n
proof (unfold_locales, goal_cases)
  case (1 raw x cfg a i t)
  then show ?case by (intro outbox_store_quotes) (simp add: quoted_id_string)
next
  case (2 j)
  show ?case by (rule quotes_inv_keep; intro preserved)
next
  case (3 a v)
  show ?case by (rule quotes_inv_keep; intro preserved)
next
  case (4 a v)
  show ?case by (rule quotes_inv_keep; intro preserved)
next
  case (5 v a)
  show ?case by (rule soft_delete_quotes)
qed

lemma digit_not_sep: "is_digit c \<Longrightarrow> c \<noteq> CHR ''e'' \<and> c \<noteq> CHR ''E'' \<and> c \<noteq> CHR ''.'' \<and> c \<noteq> CHR ''-''"
  by (auto simp: is_digit_def)

lemma number_int_itoa: "i \<ge> 0 \<Longrightarrow> number_int (itoa i) = i"
proof -
  assume i: "i \<ge> 0"
  let ?s = "nat_digits (nat i)"
  have d: "\<forall>c \<in> set ?s. c \<noteq> CHR ''e'' \<and> c \<noteq> CHR ''E'' \<and> c \<noteq> CHR ''.'' \<and> c \<noteq> CHR ''-''"
    using nat_digits_are_digits [of "nat i"] digit_not_sep by (auto simp: list_all_iff)
  have tw: "takeWhile (\<lambda>c. c \<noteq> CHR ''e'' \<and> c \<noteq> CHR ''E'') ?s = ?s" "dropWhile (\<lambda>c. c \<noteq> CHR ''e'' \<and> c \<noteq> CHR ''E'') ?s = []"
    using d by (simp_all add: takeWhile_eq_all_conv dropWhile_eq_Nil_conv)
  have dot: "cut_before (CHR ''.'') ?s = ?s" "cut_after (CHR ''.'') ?s = []"
  proof -
    have nd: "CHR ''.'' \<notin> set ?s" using d by blast
    show "cut_before (CHR ''.'') ?s = ?s" unfolding cut_before_def by (rule takeWhile_no_sep [OF nd])
    show "cut_after (CHR ''.'') ?s = []" unfolding cut_after_def by (simp add: dropWhile_no_sep [OF nd])
  qed
  have np: "\<not> has_prefix x ''-''" if "\<forall>c \<in> set x. c \<noteq> CHR ''-''" for x using that by (cases x) auto
  have "\<not> has_prefix ?s ''-''" by (rule np) (use d in blast)
  then have neg: "\<not> has_prefix ?s ''-''" "trim_prefix ?s ''-'' = ?s" unfolding trim_prefix_def by (simp_all only: if_False not_False_eq_True)
  have "parse_int64 [] = None" by (simp add: parse_int64_def)
  moreover have "itoa i = ?s" using i by (simp add: itoa_def)
  ultimately show ?thesis
    unfolding number_int_def Let_def using i by (simp add: neg tw dot digits_value_nat_digits)
qed

text \<open>The row a status quotes is one that is there.\<close>

lemma referred_stored:
  assumes "referred_status d i = Some res"
  shows "i \<in> v_id ` set (d_activities d)"
proof -
  obtain row where "fst (GetActivityByID i d) = Inr row"
    using assms by (auto simp: referred_status_def split: sum.splits)
  then have "v_id row = i" "row \<in> set (d_activities d)"
    by (auto simp: GetActivityByID_def eff_simps wrap_err_def split: sum.splits dest!: select_one_ok)
  then show ?thesis by blast
qed

lemma quote_key_fresh: "obj_get (with_attachments f docs sens (base_note noteID prof to cc f)) quotedStatusActivityKey = None"
  by (simp add: with_attachments_def base_note_def Let_def obj_get_def quotedStatusActivityKey_def noteSensitiveKey_def
      noteSpoilerTextKey_def noteVisibilityKey_def noteDirectRecipientsKey_def
      obj_get_set [unfolded obj_get_def])

lemma with_quote_key:
  assumes "with_quote d x note = Some note'" "obj_get note quotedStatusActivityKey = None"
    "obj_get note' quotedStatusActivityKey = Some j"
  shows "\<exists>i. j = json_int i \<and> i > 0 \<and> i \<in> v_id ` set (d_activities d)"
proof (cases "positive_id x")
  case None
  with assms show ?thesis by (simp add: with_quote_def)
next
  case (Some i)
  with assms(1) obtain res where r: "referred_status d i = Some res"
    and n: "note' = obj_set (obj_set (obj_set note quotedStatusActivityKey (json_int i)) ''quoteUri'' (JStr (rs_note_iri res)))
                 ''content'' (JStr (str_at note ''content'' @ quote_html i (rs_note_iri res)))"
    by (auto simp: with_quote_def split: option.splits)
  have "obj_get note' quotedStatusActivityKey = Some (json_int i)" unfolding n by (simp add: quotedStatusActivityKey_def)
  moreover have "i > 0" using Some by (auto simp: positive_id_def split: option.splits if_splits)
  ultimately show ?thesis using assms(3) referred_stored [OF r] by auto
qed

lemma with_reply_key: "with_reply d x note = Some note' \<Longrightarrow> obj_get note' quotedStatusActivityKey = obj_get note quotedStatusActivityKey"
  by (auto simp: with_reply_def quotedStatusActivityKey_def internalInReplyToActivityKey_def split: option.splits)

lemma quoted_id_create: "quoted_id (marshal_map (create_activity actID prof to cc note)) =
   (case obj_get note quotedStatusActivityKey of Some (JNum lit) \<Rightarrow> if number_int lit < 1 then None else Some (number_int lit) | _ \<Rightarrow> None)"
proof -
  obtain gs where gs: "um_object (marshal_map (create_activity actID prof to cc note)) = Some gs" by (simp add: marshal_map_def)
  obtain ns where ns: "marshal_map note = JObj ns" "um_object (marshal_map note) = Some ns" by (simp add: marshal_map_def)
  have "obj_get gs ''object'' = Some (JObj ns)"
    unfolding obj_get_marshal_map [OF gs] by (simp add: create_activity_def obj_get_Cons ns)
  then show ?thesis using obj_get_marshal_map [OF ns(2)] by (simp add: quoted_id_def gs obj_at_def)
qed

lemma status_activity_quotes:
  assumes "status_activity cfg d uname actID noteID a f = Inr create" "quoted_id (marshal_map create) = Some q"
  shows "q \<in> v_id ` set (d_activities d)"
proof -
  obtain to cc docs sens nt where
    n: "Option.bind (with_quote d (sf_quoted f) (with_attachments f docs sens (base_note noteID (LocalActorProfileURL cfg uname) to cc f)))
          (with_reply d (sf_reply f)) = Some nt"
    and c: "create = create_activity actID (LocalActorProfileURL cfg uname) to cc nt"
    using assms(1) by (auto simp: status_activity_def Let_def split: option.splits sum.splits prod.splits)
  then obtain n1 where n1: "with_quote d (sf_quoted f) (with_attachments f docs sens (base_note noteID (LocalActorProfileURL cfg uname) to cc f)) = Some n1"
    "with_reply d (sf_reply f) n1 = Some nt" by (auto simp: Option.bind_eq_Some_conv)
  obtain lit where lit: "obj_get nt quotedStatusActivityKey = Some (JNum lit)" "q = number_int lit"
    using assms(2) unfolding c quoted_id_create by (auto split: option.splits json.splits if_splits)
  with with_reply_key [OF n1(2)] with_quote_key [OF n1(1) quote_key_fresh, of "JNum lit"]
  obtain i where "JNum lit = json_int i" "i > 0" "i \<in> v_id ` set (d_activities d)" by auto
  with lit(2) number_int_itoa [of i] show ?thesis by (simp add: json_int_def)
qed

lemma postStatuses_cases:
  obtains (kept) "s_db (snd (postStatuses api r1 r2 r a s)) = s_db s"
  | (posted) cfg uname f create where
      "status_activity cfg (s_db s) uname (newIRI (api_root cfg) ''activities'' r1) (newIRI (api_root cfg) ''objects'' r2) a f = Inr create"
      "postStatuses api r1 r2 r a s = publish api uname create (posted_status api a (newIRI (api_root cfg) ''activities'' r1)) s"
proof (cases "r_method r = ''POST'' \<and> \<not> (\<exists>e. fst (ActorForMastodon a (s_db s)) = Inl e)")
  case False
  then show ?thesis
    by (intro kept) (auto simp: postStatuses_def with_own_account_def with_cfg_def eff_simps ActorForMastodon_def)
next
  case True
  then obtain ar where m: "r_method r = ''POST''" and ar: "ActorForMastodon a (s_db s) = (Inr ar, s_db s)"
    by (cases "fst (ActorForMastodon a (s_db s))") (auto simp: ActorForMastodon_def eff_simps split: sum.splits)
  show ?thesis
  proof (cases "IsLocalActor (api_handler api) (s_cfg s) (a_username ar)")
    case False
    with m ar show ?thesis by (intro kept) (simp add: postStatuses_def with_own_account_def with_cfg_def eff_simps)
  next
    case l: True
    show ?thesis
    proof (cases "status_request api r")
      case (Inl rp)
      with m ar l show ?thesis by (intro kept) (simp add: postStatuses_def with_own_account_def with_cfg_def eff_simps)
    next
      case (Inr f)
      let ?x = "status_activity (s_cfg s) (s_db s) (a_username ar) (newIRI (api_root (s_cfg s)) ''activities'' r1)
          (newIRI (api_root (s_cfg s)) ''objects'' r2) a f"
      have e: "postStatuses api r1 r2 r a s = (case ?x of Inl rp \<Rightarrow> ret rp | Inr create \<Rightarrow> publish api (a_username ar) create
          (posted_status api a (newIRI (api_root (s_cfg s)) ''activities'' r1))) s"
        using m ar l Inr by (simp add: postStatuses_def with_own_account_def with_cfg_def eff_simps Let_def)
      show ?thesis
      proof (cases ?x)
        case (Inl rp)
        then show ?thesis by (intro kept) (simp add: e eff_simps)
      next
        case (Inr create)
        with e show ?thesis by (intro posted) simp_all
      qed
    qed
  qed
qed

lemma quoted_id_object:
  assumes "obj_get raw ''object'' = obj_get raw' ''object''"
  shows "quoted_id (marshal_map raw) = quoted_id (marshal_map raw')"
proof -
  obtain gs gs' where g: "um_object (marshal_map raw) = Some gs" "um_object (marshal_map raw') = Some gs'" by (simp add: marshal_map_def)
  then have "obj_at gs ''object'' = obj_at gs' ''object''"
    using assms obj_get_marshal_map [OF g(1)] obj_get_marshal_map [OF g(2)] by (simp add: obj_at_def)
  with g show ?thesis by (simp add: quoted_id_def)
qed

text \<open>
  C11: Posting a status never makes one that cannot be shown: while every stored status quotes older
  ones only, it is so after the post, and every stored status can then be shown to every viewer.
\<close>

theorem own_posts_showable:
  assumes "db_wf (s_db s)" "quotes_older (s_db s)" "\<forall>n. api_keeps (quotes_inv n) api"
  shows "quotes_older (s_db (snd (postStatuses api r1 r2 r a s))) \<and>
    (\<forall>v \<in> set (d_activities (s_db (snd (postStatuses api r1 r2 r a s)))). \<forall>viewer.
       \<exists>y. mastodonStatusPresentation api (s_db (snd (postStatuses api r1 r2 r a s))) v viewer = Some y)"
proof -
  let ?n = "d_seq (s_db s) TActivities"
  have inv: "db_inv (quotes_inv ?n) s" using assms(1,2) by (simp add: db_inv_def quotes_inv_def)
  have "quotes_older (s_db (snd (postStatuses api r1 r2 r a s)))"
  proof (cases rule: postStatuses_cases [of api r1 r2 r a s])
    case kept
    with assms(2) show ?thesis by simp
  next
    case (posted cfg uname f create)
    have "preserves (db_inv (quotes_inv ?n)) (PublishLocalActivityBytes (sv_h api) uname (Some (marshal_map create)))"
    proof (rule publish_keeps)
      show "impl_keeps (quotes_inv ?n) impl" if "hd_queue (sv_h api) = Some impl" for impl
        using assms(3) that by (simp add: api_keeps_def)
      show "preserves (quotes_inv ?n) (outbox_store cfg a i t (marshal_map raw) raw)"
        if "obj_get raw ''object'' = obj_get create ''object''" for cfg a i t raw
      proof (rule outbox_store_quotes)
        fix q assume "quoted_id (marshal_map raw) = Some q"
        with quoted_id_object [OF that] status_activity_quotes [OF posted(1)] have "q \<in> v_id ` set (d_activities (s_db s))" by simp
        with assms(1) show "q < ?n" by (auto simp: db_wf_def activities_wf_def)
      qed
    qed (rule quotes_post.job)
    then have "preserves (db_inv (quotes_inv ?n)) (publish api uname create (posted_status api a (newIRI (api_root cfg) ''activities'' r1)))"
      unfolding publish_def api_handler_def by (intro preserved)
    from preservesD [OF this inv] have "db_inv (quotes_inv ?n) (snd (postStatuses api r1 r2 r a s))" by (simp only: posted(2))
    then show ?thesis by (simp add: db_inv_def quotes_inv_def)
  qed
  then show ?thesis using quotes_older_shown by blast
qed

section \<open>Own statuses only\<close>

definition has_activity :: "activity_row \<Rightarrow> db \<Rightarrow> bool" where
  "has_activity v d \<longleftrightarrow> v \<in> set (d_activities d)"

lemma acts_keep_activity: "(\<And>vs n. preserves (acts_are vs n) m) \<Longrightarrow> preserves (has_activity v) m"
  unfolding preserves_def acts_are_def has_activity_def by metis

lemma insert_keeps_activity: "preserves (has_activity v) (InsertInboundActivity b i t raw)"
proof (rule preservesI)
  fix d :: db assume "has_activity v d"
  then show "has_activity v (snd (InsertInboundActivity b i t raw d))"
    by (cases rule: InsertInboundActivity_cases [of i d b t raw]) (simp_all add: has_activity_def)
qed

lemma publish_keeps_activity:
  assumes "api_keeps (has_activity v) api"
  shows "preserves (db_inv (has_activity v)) (PublishLocalActivityBytes (sv_h api) u (Some (marshal_map act)))"
proof (rule publish_keeps)
  show "impl_keeps (has_activity v) impl" if "hd_queue (sv_h api) = Some impl" for impl using assms that by (simp add: api_keeps_def)
  show "preserves (has_activity v) (outbox_store cfg b i t (marshal_map raw) raw)" for cfg b i t raw
    unfolding outbox_store_def by (intro preserved insert_keeps_activity acts_keep_activity record_acts)
qed (intro acts_keep_activity EnqueueTx_acts)

lemma delete_others:
  assumes "api_keeps (has_activity v) api" "v_actor v \<noteq> a"
  shows "preserves (db_inv (has_activity v)) (deleteStatus api rnd rid r a)"
proof -
  have del: "preserves (has_activity v) (SoftDeleteActivityForActor i a)" for i
    unfolding preserves_def SoftDeleteActivityForActor_def statement_apply Let_def has_activity_def using assms(2)
    by (auto simp: set_update_where)
  have pub: "preserves (db_inv (has_activity v)) (publish api u act k)" if "preserves (db_inv (has_activity v)) k" for u act k
    unfolding publish_def api_handler_def using that publish_keeps_activity [OF assms(1)] by (intro preserved)
  show ?thesis
    unfolding deleteStatus_def with_own_account_def by (intro preserved pub del)
qed

lemma present_apply: "present api row viewer s =
   (case mastodonStatusPresentation api (s_db s) row viewer of None \<Rightarrow> (Inl stack_overflow, s) | Some st \<Rightarrow> (Inr st, s))"
  by (simp add: present_def eff_simps split: option.split)

lemma deleteStatus_answered:
  assumes "deleteStatus api rnd rid r a s = (Inr rep, s')" "rp_status rep = 200" "\<forall>v. api_keeps (has_activity v) api"
  shows "\<exists>row \<in> set (d_activities (s_db s)). path_id rid = Some (v_id row) \<and> v_actor row = a \<and> v_deleted row = None \<and>
         (is_create row \<longrightarrow> (\<exists>t. row\<lparr>v_deleted := Some t\<rparr> \<in> set (d_activities (s_db s'))))"
proof -
  have m: "r_method r = ''DELETE''" "api_pool api"
    using assms(1,2) by (auto simp: deleteStatus_def eff_simps writeAPIError_def writeJSONResponse_def split: if_splits)
  obtain i where i: "path_id rid = Some i"
    using assms(1,2) m by (cases "path_id rid") (auto simp: deleteStatus_def eff_simps writeAPIError_def writeJSONResponse_def)
  obtain row where row: "fst (GetActivityByID i (s_db s)) = Inr row"
    using assms(1,2) m i
    by (cases "fst (GetActivityByID i (s_db s))")
       (auto simp: deleteStatus_def eff_simps GetActivityByID_def writeAPIError_def writeJSONResponse_def)
  then have get: "GetActivityByID i (s_db s) = (Inr row, s_db s)" by (simp add: GetActivityByID_def eff_simps)
  from row have mem: "v_id row = i" "row \<in> set (d_activities (s_db s))"
    by (auto simp: GetActivityByID_def eff_simps wrap_err_def split: sum.splits dest!: select_one_ok)
  have own: "v_actor row = a" "v_deleted row = None"
    using assms(1,2) m i get by (auto simp: deleteStatus_def eff_simps writeAPIError_def writeJSONResponse_def split: if_splits)
  have "is_create row \<longrightarrow> (\<exists>t. row\<lparr>v_deleted := Some t\<rparr> \<in> set (d_activities (s_db s')))"
  proof
    assume c: "is_create row"
    obtain rs where rs: "resolveCreateStatusRow row = Some rs"
      using assms(1,2) m i get own
      by (cases "resolveCreateStatusRow row") (auto simp: deleteStatus_def eff_simps writeAPIError_def writeJSONResponse_def)
    obtain ar where ar: "ActorForMastodon a (s_db s) = (Inr ar, s_db s)" "IsLocalActor (sv_h api) (s_cfg s) (a_username ar)"
      using assms(1,2) m i get own rs
      by (cases "fst (ActorForMastodon a (s_db s))")
         (auto simp: deleteStatus_def eff_simps ActorForMastodon_def with_own_account_def with_cfg_def writeAPIError_def writeJSONResponse_def
           api_handler_def split: if_splits)
    obtain sts where st: "mastodonStatusPresentation api (s_db s) row a = Some (Some sts)"
      using assms(1,2) m i get own rs ar
      by (auto simp: deleteStatus_def eff_simps present_apply with_own_account_def with_cfg_def writeAPIError_def writeJSONResponse_def
           api_handler_def split: option.splits)
    define act where "act = delete_activity (newIRI (api_root (s_cfg s)) ''activities'' rnd) (LocalActorProfileURL (s_cfg s) (a_username ar)) rs"
    obtain s1 where s1: "PublishLocalActivityBytes (sv_h api) (a_username ar) (Some (marshal_map act)) s = (Inr (), s1)"
      using assms(1,2) m i get own rs ar st
      by (cases "PublishLocalActivityBytes (sv_h api) (a_username ar) (Some (marshal_map act)) s"; cases "fst (PublishLocalActivityBytes (sv_h api) (a_username ar) (Some (marshal_map act)) s)")
         (auto simp: deleteStatus_def eff_simps present_apply with_own_account_def with_cfg_def publish_def act_def writeAPIError_def
           writeJSONResponse_def api_handler_def)
    have s': "s' = snd (on_db (SoftDeleteActivityForActor i a) s1)"
      using assms(1) m i get own rs ar st s1
      by (auto simp: deleteStatus_def eff_simps present_apply with_own_account_def with_cfg_def publish_def act_def
           api_handler_def SoftDeleteActivityForActor_def Let_def)
    have "row \<in> set (d_activities (s_db s1))"
      using preservesD [OF publish_keeps_activity [of row api "a_username ar" act], of s] assms(3) s1 mem
      by (simp add: db_inv_def has_activity_def)
    then show "\<exists>t. row\<lparr>v_deleted := Some t\<rparr> \<in> set (d_activities (s_db s'))"
      unfolding s' using c own mem
      by (auto simp: on_db_apply SoftDeleteActivityForActor_def eff_simps Let_def intro!: exI [of _ "d_now (s_db s1)"] update_where_mem)
  qed
  with mem own i show ?thesis by blast
qed

text \<open>
  C10: Deleting a status touches own statuses only: whatever the request, the activities of all other
  accounts stay as they are; and if it is answered with 200, the status of the path belongs to the
  account of the token, was not deleted, and is marked deleted now.
\<close>

theorem deleteStatus_own:
  assumes "deleteStatus api rnd rid r a s = (res, s')" "\<forall>v. api_keeps (has_activity v) api"
  shows "(\<forall>v \<in> set (d_activities (s_db s)). v_actor v \<noteq> a \<longrightarrow> v \<in> set (d_activities (s_db s'))) \<and>
    (\<forall>rep. res = Inr rep \<and> rp_status rep = 200 \<longrightarrow>
      (\<exists>row \<in> set (d_activities (s_db s)). path_id rid = Some (v_id row) \<and> v_actor row = a \<and> v_deleted row = None \<and>
         (is_create row \<longrightarrow> (\<exists>t. row\<lparr>v_deleted := Some t\<rparr> \<in> set (d_activities (s_db s'))))))"
proof (intro conjI ballI impI allI)
  fix v assume "v \<in> set (d_activities (s_db s))" "v_actor v \<noteq> a"
  then show "v \<in> set (d_activities (s_db s'))"
    using preservesD [OF delete_others [of v api a rnd rid r], of s] assms by (simp add: db_inv_def has_activity_def)
next
  fix rep assume "res = Inr rep \<and> rp_status rep = 200"
  with deleteStatus_answered [of api rnd rid r a s rep s'] assms
  show "\<exists>row \<in> set (d_activities (s_db s)). path_id rid = Some (v_id row) \<and> v_actor row = a \<and> v_deleted row = None \<and>
         (is_create row \<longrightarrow> (\<exists>t. row\<lparr>v_deleted := Some t\<rparr> \<in> set (d_activities (s_db s'))))" by blast
qed

section \<open>To whom a status goes\<close>

lemma flatten_strings_set: "set (flattenJSONLDRefs (JArr (map JStr xs))) = set xs - {[]}"
  by (induction xs) auto

lemma create_audience:
  "set (audienceEntries (create_activity actID prof to cc nt)) = trim_space ` (set to \<union> set cc) - {[]}"
proof -
  let ?act = "create_activity actID prof to cc nt"
  have get: "obj_get ?act ''to'' = Some (json_strings to)" "obj_get ?act ''cc'' = Some (json_strings cc)"
    "obj_get ?act ''bto'' = None" "obj_get ?act ''bcc'' = None" "obj_get ?act ''audience'' = None"
    by (simp_all add: create_activity_def obj_get_def)
  have strs: "{trim_space r |r. r \<in> set (flattenJSONLDRefs (json_strings xs)) \<and> trim_space r \<noteq> []} = trim_space ` set xs - {[]}" for xs
    unfolding flatten_strings_set by auto
  have refs: "member_refs (create_activity actID prof to cc nt) k =
      (if k = ''to'' then trim_space ` set to - {[]} else if k = ''cc'' then trim_space ` set cc - {[]} else {})"
    if "k \<in> set audience_keys" for k
    using that unfolding audience_keys_def member_refs_def
    by (simp only: list.set) (elim insertE emptyE; simp add: get strs del: flattenJSONLDRefs.simps)
  have "set (audienceEntries (create_activity actID prof to cc nt)) =
      (\<Union>k \<in> set audience_keys. if k = ''to'' then trim_space ` set to - {[]} else if k = ''cc'' then trim_space ` set cc - {[]} else {})"
    unfolding set_audienceEntries by (rule SUP_cong [OF refl refs])
  then show ?thesis by (auto simp: audience_keys_def)
qed

definition profile_refs :: "db \<Rightarrow> int list \<Rightarrow> string set" where
  "profile_refs d ids = {trim_right_slash (trim_space (a_url p)) |p. p \<in> set (d_actors d) \<and> a_id p \<in> set ids}"

lemma direct_recipients_refs: "direct_recipients d ids = Some to \<Longrightarrow> set to \<subseteq> profile_refs d ids"
proof (induction ids arbitrary: to)
  case (Cons i ids)
  show ?case
  proof (cases "i < 1")
    case True
    with Cons show ?thesis by (fastforce simp: profile_refs_def)
  next
    case False
    with Cons.prems obtain aurl u h to' where p: "fst (ActorProfileByID i d) = Inr (aurl, u, h)"
      and to': "direct_recipients d ids = Some to'" "to = trim_right_slash (trim_space aurl) # to'"
      by (auto split: sum.splits if_splits)
    from p obtain ar where "ar \<in> set (d_actors d)" "a_id ar = i" "a_url ar = aurl"
      by (auto simp: ActorProfileByID_def eff_simps split: sum.splits dest!: select_one_ok)
    with Cons.IH [OF to'(1)] to'(2) show ?thesis by (fastforce simp: profile_refs_def)
  qed
qed simp


section \<open>Ancestors\<close>

text \<open>Each row is the parent of the next.\<close>

definition parent_of :: "db \<Rightarrow> activity_row \<Rightarrow> activity_row \<Rightarrow> bool" where
  "parent_of d v p \<longleftrightarrow> (\<exists>res. resolveCreateStatusRow v = Some res \<and> trim_space (str_at (rs_note res) ''inReplyTo'') \<noteq> [] \<and>
     fst (FindCreateActivityByObjectNoteIRI (trim_space (str_at (rs_note res) ''inReplyTo'')) d) = Inr p)"

fun thread :: "db \<Rightarrow> activity_row list \<Rightarrow> bool" where
  "thread d (p # v # vs) \<longleftrightarrow> parent_of d v p \<and> thread d (v # vs)"
| "thread d vs \<longleftrightarrow> True"

lemma ancestor_steps_facts:
  assumes "thread d (chain @ rest)" "hd (chain @ rest) = cur" "chain @ rest \<noteq> []" "seen = v_id ` set chain" "distinct (map v_id chain)"
  shows "\<exists>ps. ancestor_steps n d cur seen chain = ps @ chain \<and> length ps \<le> n \<and> thread d ((ps @ chain) @ rest) \<and>
    distinct (map v_id (ps @ chain)) \<and> (\<forall>p \<in> set ps. v_deleted p = None)"
  using assms
proof (induction n arbitrary: cur seen chain)
  case (Suc n)
  show ?case
  proof (cases "ancestor_steps (Suc n) d cur seen chain = chain")
    case True
    with Suc.prems show ?thesis by (intro exI [of _ "[]"]) simp
  next
    case False
    then obtain res p where r: "resolveCreateStatusRow cur = Some res" "trim_space (str_at (rs_note res) ''inReplyTo'') \<noteq> []"
      "fst (FindCreateActivityByObjectNoteIRI (trim_space (str_at (rs_note res) ''inReplyTo'')) d) = Inr p"
      "v_deleted p = None" "v_id p \<notin> seen"
      and e: "ancestor_steps (Suc n) d cur seen chain = ancestor_steps n d p (insert (v_id p) seen) (p # chain)"
      by (auto simp: Let_def split: option.splits sum.splits if_splits)
    have "parent_of d cur p" using r by (auto simp: parent_of_def)
    with Suc.prems(1,2,3) have t: "thread d ((p # chain) @ rest)" by (cases "chain @ rest") auto
    obtain ps where ps: "ancestor_steps n d p (insert (v_id p) seen) (p # chain) = ps @ p # chain" "length ps \<le> n"
      "thread d ((ps @ p # chain) @ rest)" "distinct (map v_id (ps @ p # chain))" "\<forall>q \<in> set ps. v_deleted q = None"
      using Suc.IH [of "p # chain" p "insert (v_id p) seen"] t r(5) Suc.prems(4,5) by auto
    with e r(4) show ?thesis by (intro exI [of _ "ps @ [p]"]) simp
  qed
qed (intro exI [of _ "[]"], simp)

text \<open>
  C29: The ancestors of a status are a thread: each is the parent of the next and the last the parent
  of the status; there are at most 64, none twice, none deleted, even if replies refer to each other
  in a circle.
\<close>

theorem ancestors_thread:
  "thread d (ancestorCreateChain api d v @ [v]) \<and> length (ancestorCreateChain api d v) \<le> 64 \<and>
   distinct (map v_id (ancestorCreateChain api d v)) \<and> list_all (\<lambda>p. v_deleted p = None) (ancestorCreateChain api d v)"
  using ancestor_steps_facts [of d "[]" "[v]" v "{}" 64]
  by (auto simp: ancestorCreateChain_def list_all_iff simp del: ancestor_steps.simps)

section \<open>Bookmarks\<close>

definition bookmarks_of :: "db \<Rightarrow> (int \<times> int) set" where
  "bookmarks_of d = bookmark_pair ` set (d_bookmarks d)"

lemma StatusBookmarked_iff: "fst (StatusBookmarked a i d) = Inr ((a, i) \<in> bookmarks_of d)"
  by (auto simp: StatusBookmarked_def eff_simps count_where_pos bookmarks_of_def bookmark_pair_def)

lemma UpsertStatusBookmark_pairs:
  assumes "UpsertStatusBookmark a i d = (Inr (), d')"
  shows "bookmarks_of d' = insert (a, i) (bookmarks_of d)"
proof -
  let ?new = "\<lparr>bm_id = d_seq d TBookmarks, bm_actor = a, bm_status = i, bm_created = d_now d\<rparr>"
  obtain rs where "upsert_on bookmark_pair bookmark_pair ''status_bookmarks'' (bookmark_upd ?new) ?new (d_bookmarks d) = Inr rs"
    "d_bookmarks d' = rs"
    using assms by (auto simp: UpsertStatusBookmark_def eff_simps nextval_def Let_def bind_res_ok split: if_splits sum.splits)
  with bookmark_tab.upsert_key_mem show ?thesis by (simp add: bookmarks_of_def bookmark_pair_def [of ?new])
qed

lemma DeleteStatusBookmark_pairs:
  "DeleteStatusBookmark a i d = (r, d') \<Longrightarrow> bookmarks_of d' = bookmarks_of d - {(a, i)}"
  by (auto simp: DeleteStatusBookmark_def eff_simps Let_def bookmarks_of_def bookmark_pair_def image_iff)

lemma writeStatusPresentation_state: "snd (writeStatusPresentation api row viewer s) = s"
  using preservesD [OF writeStatusPresentation_keeps [of "\<lambda>x. x = s" api row viewer], of s] by simp

text \<open>
  Bookmarking and its undoing do exactly that: after a toggle that is answered with 200 the
  status of the path is bookmarked by the account, or is not, and every other bookmark is as it was;
  so that undoing a new bookmark restores the bookmarks.
\<close>

theorem bookmark_toggled:
  assumes "postStatusBookmarkToggle api add rid r a s = (Inr rep, s')" "rp_status rep = 200"
  shows "\<exists>i. path_id rid = Some i \<and> bookmarks_of (s_db s') =
    (if add then insert (a, i) (bookmarks_of (s_db s)) else bookmarks_of (s_db s) - {(a, i)})"
proof -
  have m: "r_method r = ''POST''" "api_pool api"
    using assms by (auto simp: postStatusBookmarkToggle_def eff_simps writeAPIError_def writeJSONResponse_def split: if_splits)
  obtain i where i: "path_id rid = Some i"
    using assms m by (cases "path_id rid") (auto simp: postStatusBookmarkToggle_def eff_simps writeAPIError_def writeJSONResponse_def)
  obtain row where row: "GetActivityByID i (s_db s) = (Inr row, s_db s)"
    using assms m i by (cases "fst (GetActivityByID i (s_db s))")
      (auto simp: postStatusBookmarkToggle_def eff_simps GetActivityByID_def writeAPIError_def writeJSONResponse_def)
  have c: "is_create_row row"
    using assms m i row by (auto simp: postStatusBookmarkToggle_def eff_simps writeAPIError_def writeJSONResponse_def split: if_splits)
  show ?thesis
  proof (cases add)
    case True
    obtain u d' where u: "UpsertStatusBookmark a i (s_db s) = (u, d')" by fastforce
    with assms m i row c True obtain x where "u = Inr x"
      by (cases u) (auto simp: postStatusBookmarkToggle_def eff_simps writeAPIError_def writeJSONResponse_def)
    with assms m i row c True u have "s' = snd (writeStatusPresentation api row a (s\<lparr>s_db := d'\<rparr>))"
      by (simp add: postStatusBookmarkToggle_def eff_simps)
    with UpsertStatusBookmark_pairs [of a i "s_db s" d'] u \<open>u = Inr x\<close> i True show ?thesis
      by (simp add: writeStatusPresentation_state)
  next
    case False
    obtain u d' where u: "DeleteStatusBookmark a i (s_db s) = (u, d')" by fastforce
    with assms m i row c False obtain x where "u = Inr x"
      by (cases u) (auto simp: postStatusBookmarkToggle_def eff_simps writeAPIError_def writeJSONResponse_def)
    with assms m i row c False u have "s' = snd (writeStatusPresentation api row a (s\<lparr>s_db := d'\<rparr>))"
      by (simp add: postStatusBookmarkToggle_def eff_simps)
    with DeleteStatusBookmark_pairs [OF u] i False show ?thesis by (simp add: writeStatusPresentation_state)
  qed
qed

end
