(* ===== verification/TimelineFacts.thy ===== *)
theory TimelineFacts
  imports Timelines StatusFacts
begin

text \<open>
  What the timelines and conversations show, and what the lists and filters keep: see the claims.
\<close>

section \<open>Shown statuses\<close>

text \<open>A JSON status shows a row: it is the presentation of that row.\<close>

definition shows_row :: "('pub, 'priv, 'w) api \<Rightarrow> db \<Rightarrow> int \<Rightarrow> json \<Rightarrow> activity_row \<Rightarrow> bool" where
  "shows_row api d viewer j v \<longleftrightarrow>
     (\<exists>m. mastodonStatusPresentation api d v viewer = Some (Some m) \<and> j = marshal_map m)"

definition member_of :: "json \<Rightarrow> string \<Rightarrow> json option" where
  "member_of j k = (case j of JObj ob \<Rightarrow> obj_get ob k | _ \<Rightarrow> None)"

lemma member_of_marshal [simp]: "member_of (marshal_map m) k = obj_get m k"
proof -
  obtain gs where gs: "marshal_map m = JObj gs" by (simp add: marshal_map_def)
  then show ?thesis using obj_get_marshal_map [of m gs k] by (simp add: member_of_def)
qed

lemma present_all_shows:
  "present_all api (\<lambda>m. m) rows viewer s = (Inr out, s') \<Longrightarrow>
   s' = s \<and> length out \<le> length rows \<and> (\<forall>j \<in> set out. \<exists>v \<in> set rows. shows_row api (s_db s) viewer j v)"
proof (induction rows arbitrary: out s')
  case (Cons row rows)
  from Cons.prems obtain st sts where st: "mastodonStatusPresentation api (s_db s) row viewer = Some st"
    and sts: "present_all api (\<lambda>m. m) rows viewer s = (Inr sts, s')"
    and out: "out = (case st of None \<Rightarrow> sts | Some m \<Rightarrow> marshal_map m # sts)"
    by (auto simp: bind_apply present_apply eff_apply prod_eq_iff split: option.splits sum.splits)
  from Cons.IH [OF sts] st show ?case
    unfolding out by (cases st) (auto simp: shows_row_def)
qed (simp add: eff_apply)

text \<open>What a shown status shows of its row.\<close>

lemma shown_members:
  assumes "shows_row api d viewer j v"
  obtains act nt where "um_object (v_raw v) = Some act" "obj_at act ''object'' = Some nt" "v_deleted v = None"
    "member_of j ''content'' = Some (JStr (str_at nt ''content''))" "member_of j ''id'' = Some (JStr (itoa (v_id v)))"
    "member_of j ''visibility'' = Some (JStr (note_visibility nt))"
proof -
  from assms obtain m where m: "mastodonStatusPresentation api d v viewer = Some (Some m)" and j: "j = marshal_map m"
    by (auto simp: shows_row_def)
  from m have del: "v_deleted v = None" by (subst (asm) mastodonStatusPresentation.simps) (simp split: if_splits)
  from m del obtain m0 where m0: "mastodonStatusFromCreateRow api d v = Some m0"
    by (subst (asm) mastodonStatusPresentation.simps) (simp split: option.splits)
  have get: "obj_get m k = obj_get m0 k" if "k \<in> {''content'', ''id'', ''visibility''}" for k
  proof -
    have soc: "obj_get (social_view d viewer m0) k = obj_get m0 k" using that by (intro social_view_get) auto
    have nq: "k \<noteq> ''quoted_status''" using that by auto
    from m del m0 have "m = m0 \<or> m = social_view d viewer m0 \<or> (\<exists>q. m = obj_set (social_view d viewer m0) ''quoted_status'' q)"
      by (subst (asm) mastodonStatusPresentation.simps)
        (auto simp: Option.bind_eq_Some_conv split: if_splits option.splits)
    with soc nq show ?thesis by auto
  qed
  from m0 obtain act nt c acct media where act: "um_object (v_raw v) = Some act" "obj_at act ''object'' = Some nt"
    and m0e: "m0 = status_entity (v_id v) c acct media nt"
    by (auto simp: mastodonStatusFromCreateRow_def split: option.splits if_splits sum.splits)
  have ent: "obj_get m0 ''content'' = Some (JStr (str_at nt ''content''))" "obj_get m0 ''id'' = Some (JStr (itoa (v_id v)))"
    "obj_get m0 ''visibility'' = Some (JStr (note_visibility nt))"
    unfolding m0e status_entity_def by (simp_all add: obj_get_def)
  show thesis
    by (rule that [OF act del]) (simp_all add: j get ent)
qed

lemma timeline_shows:
  assumes "timeline api viewer c rows s = (Inr rp, s')"
  obtains out where "s' = s" "rp = writeJSONArrayOK out" "length out \<le> length rows"
    "\<And>j. j \<in> set out \<Longrightarrow> \<exists>v \<in> set (filterActivityRowsForViewer api (s_db s) viewer rows c). shows_row api (s_db s) viewer j v"
proof -
  let ?rs = "filterActivityRowsForViewer api (s_db s) viewer rows c"
  from assms obtain out where p: "present_all api (\<lambda>m. m) ?rs viewer s = (Inr out, s')" and rp: "rp = writeJSONArrayOK out"
    by (auto simp: timeline_def bind_apply on_db_apply eff_apply prod_eq_iff split: sum.splits)
  have "length ?rs \<le> length rows"
    by (auto simp: filterActivityRowsForViewer_def split: sum.split intro: le_trans [OF length_filter_le])
  with present_all_shows [OF p] rp that [of out] show ?thesis by auto
qed

section \<open>Filters hide\<close>

lemma filtered_rows:
  assumes "v \<in> set (filterActivityRowsForViewer api d viewer rows c)" "api_pool api" "viewer \<ge> 1"
    and f: "f \<in> set (d_filters d)" "mf_owner f = viewer" "active_filter (d_now d) f"
  shows "v \<in> set rows" "\<exists>act fs. um_object (v_raw v) = Some act \<and> f \<in> set fs \<and> \<not> statusHiddenByFilters (api_letter api) (row_content act) fs c"
proof -
  let ?fs = "sort_key mf_id (filter (\<lambda>f. mf_owner f = viewer \<and> active_filter (d_now d) f) (d_filters d))"
  have "fst (ListMastodonFiltersForActor viewer d) = Inr ?fs" by (simp add: ListMastodonFiltersForActor_def eff_apply)
  moreover have "f \<in> set ?fs" using f by simp
  moreover from this have "?fs \<noteq> []" by (metis empty_iff empty_set)
  ultimately have v: "v \<in> set (filter (\<lambda>row. case um_object (v_raw row) of None \<Rightarrow> False
       | Some act \<Rightarrow> \<not> statusHiddenByFilters (api_letter api) (row_content act) ?fs c) rows)"
    using assms(1-3) by (simp add: filterActivityRowsForViewer_def del: set_filter)
  then show "v \<in> set rows" by simp
  from v obtain act where "um_object (v_raw v) = Some act" "\<not> statusHiddenByFilters (api_letter api) (row_content act) ?fs c"
    by (auto split: option.splits)
  with \<open>f \<in> set ?fs\<close> show "\<exists>act fs. um_object (v_raw v) = Some act \<and> f \<in> set fs \<and> \<not> statusHiddenByFilters (api_letter api) (row_content act) fs c"
    by blast
qed

lemma filter_rows_subset: "set (filterActivityRowsForViewer api d viewer rows c) \<subseteq> set rows"
  by (auto simp: filterActivityRowsForViewer_def split: sum.splits)

lemma contains_Nil_right: "contains [] p \<longleftrightarrow> p = []"
  by (cases p) auto

lemma filter_hides_empty: "\<not> filter_hides letter [] c f"
  by (auto simp: filter_hides_def containsWholeWordFold_def contains_Nil_right Let_def)

lemma not_hidden:
  assumes "\<not> statusHiddenByFilters letter html fs c" "f \<in> set fs"
  shows "\<not> filter_hides letter (go_lower (plainTextFromHTMLStatus html)) c f"
proof (cases "go_lower (plainTextFromHTMLStatus html) = []")
  case True
  then show ?thesis by (simp only: filter_hides_empty not_False_eq_True)
next
  case False
  from assms(2) have "fs \<noteq> []" by (metis empty_iff empty_set)
  with assms False show ?thesis unfolding statusHiddenByFilters_def Let_def list_ex_iff by (simp only: if_False) blast
qed

definition json_content :: "json \<Rightarrow> string" where
  "json_content j = (case member_of j ''content'' of Some (JStr s) \<Rightarrow> s | _ \<Rightarrow> [])"

definition shown_text :: "json \<Rightarrow> string" where
  "shown_text j = go_lower (plainTextFromHTMLStatus (json_content j))"

lemma timeline_hides:
  assumes "timeline api viewer c rows s = (Inr rp, s')" "rp_body rp = Doc (JArr out)" "j \<in> set out"
    and "api_pool api" "viewer \<ge> 1"
    and f: "f \<in> set (d_filters (s_db s))" "mf_owner f = viewer" "active_filter (d_now (s_db s)) f"
  shows "\<not> filter_hides (api_letter api) (shown_text j) c f"
proof -
  obtain out' where rp: "rp = writeJSONArrayOK out'"
    and sh: "\<And>j. j \<in> set out' \<Longrightarrow> \<exists>v \<in> set (filterActivityRowsForViewer api (s_db s) viewer rows c). shows_row api (s_db s) viewer j v"
    by (rule timeline_shows [OF assms(1)]) (rule that)
  from rp assms(2) have "out' = out" by (simp add: writeJSONArrayOK_def writeJSONResponse_def json_reply_def)
  with sh [of j] assms(3) obtain v where v: "v \<in> set (filterActivityRowsForViewer api (s_db s) viewer rows c)" "shows_row api (s_db s) viewer j v"
    by blast
  from filtered_rows(2) [OF v(1) assms(4,5) f] obtain act fs where act: "um_object (v_raw v) = Some act" "f \<in> set fs"
    and nh: "\<not> statusHiddenByFilters (api_letter api) (row_content act) fs c" by blast
  obtain act' nt where act': "um_object (v_raw v) = Some act'" "obj_at act' ''object'' = Some nt"
    and c: "member_of j ''content'' = Some (JStr (str_at nt ''content''))" by (rule shown_members [OF v(2)]) blast
  from act act' have "json_content j = row_content act" by (simp only: json_content_def c row_content_def option.case json.case option.inject)
  with not_hidden [OF nh act(2)] show ?thesis by (simp only: shown_text_def not_False_eq_True)
qed


section \<open>From the handlers to the rows\<close>

lemma reply_bodies [simp]:
  "rp_body (writeAPIError c m) = Doc (JObj [(''error'', JStr m)])" "rp_body (writeJSONArrayOK xs) = Doc (JArr xs)"
  "rp_status (writeAPIError c m) = c" "rp_status (writeJSONArrayOK xs) = 200" "rp_status (writeJSONObjectOK ob) = 200"
  "rp_status (writeJSONResponse c v) = c" "rp_body (writeJSONObjectOK ob) = Doc (marshal_map ob)"
  by (simp_all add: writeAPIError_def writeJSONArrayOK_def writeJSONResponse_def json_reply_def writeJSONObjectOK_def)

lemma home_rows:
  assumes "getTimelineHome api r a s = (Inr rp, s')" "rp_body rp = Doc (JArr out)"
  shows "api_pool api \<and> timeline api a ''home''
    (limit_rows (clamp_limit 20 80 (timelineLimit r)) (order_desc v_id
       (filter (\<lambda>v. v_actor v = a \<and> is_create v \<and> v_deleted v = None) (d_activities (s_db s))))) s = (Inr rp, s')"
  using assms by (auto simp: getTimelineHome_def ListRecentCreateActivitiesForActor_def eff_simps split: if_splits)

lemma list_rows_shown:
  assumes "getTimelineList api rid r a s = (Inr rp, s')" "rp_body rp = Doc (JArr out)"
  shows "\<exists>listID host members rows. api_pool api \<and> path_id rid = Some listID \<and> base_host (s_cfg s) = Some host \<and>
    fst (ListMastodonListMemberActorIDs listID a (s_db s)) = Inr members \<and>
    fst (ListRecentCreatesForMemberActors members host (timelineLimit r) (s_db s)) = Inr rows \<and>
    timeline api a ''home'' rows s = (Inr rp, s')"
proof -
  from assms obtain listID host where i: "api_pool api" "path_id rid = Some listID" "base_host (s_cfg s) = Some host"
    and h: "handle (on_db (ListMastodonListMemberActorIDs listID a)) (\<lambda>_. ret record_not_found) (\<lambda>members.
       handle (on_db (ListRecentCreatesForMemberActors members host (timelineLimit r)))
         (\<lambda>_. ret (writeAPIError 500 ''could not load timeline'')) (timeline api a ''home'')) s = (Inr rp, s')"
    by (auto simp: getTimelineList_def with_cfg_def eff_apply no_instance_url_def split: if_splits option.splits)
  have same: "snd (ListMastodonListMemberActorIDs listID a d) = d" for d
    by (auto simp: ListMastodonListMemberActorIDs_def GetMastodonList_def eff_simps split: sum.splits)
  have same2: "snd (ListRecentCreatesForMemberActors ms host n d) = d" for ms n d
    by (simp add: ListRecentCreatesForMemberActors_def eff_simps Let_def)
  from h assms(2) obtain members where m: "fst (ListMastodonListMemberActorIDs listID a (s_db s)) = Inr members"
    and h2: "handle (on_db (ListRecentCreatesForMemberActors members host (timelineLimit r)))
         (\<lambda>_. ret (writeAPIError 500 ''could not load timeline'')) (timeline api a ''home'') s = (Inr rp, s')"
    by (auto simp: handle_apply on_db_apply same eff_apply split: sum.splits)
  from h2 assms(2) obtain rows where "fst (ListRecentCreatesForMemberActors members host (timelineLimit r) (s_db s)) = Inr rows"
    "timeline api a ''home'' rows s = (Inr rp, s')"
    by (auto simp: handle_apply on_db_apply same2 eff_apply split: sum.splits)
  with i m show ?thesis by blast
qed


lemma public_rows:
  assumes "getTimelinePublic api r s = (Inr rp, s')" "rp_body rp = Doc (JArr out)" "api_pool api"
  shows "\<exists>host rows. base_host (s_cfg s) = Some host \<and>
    fst (ListRecentPublicCreateActivities host (timelineLimit r) (s_db s)) = Inr rows \<and>
    timeline api 0 ''public'' rows s = (Inr rp, s')"
proof -
  have same: "snd (ListRecentPublicCreateActivities host n d) = d" for host n d
    by (simp add: ListRecentPublicCreateActivities_def eff_simps Let_def)
  from assms show ?thesis
    by (auto simp: getTimelinePublic_def with_cfg_def handle_apply on_db_apply same eff_apply no_instance_url_def
        split: if_splits option.splits sum.splits)
qed

lemma listed_note:
  assumes "listed_visibility v" "um_object (v_raw v) = Some act" "obj_at act ''object'' = Some nt"
  shows "note_visibility nt \<in> {''public'', ''unlisted''}"
proof -
  have raw: "raw_object_text v k = json_arrow_text (Some (JObj nt)) k" for k
    using assms(2,3) by (cases "v_raw v") (auto simp: raw_object_text_def obj_at_def split: option.splits json.splits)
  have low: "trim_space (go_lower ''public'') = ''public''" "trim_space (go_lower ''unlisted'') = ''unlisted''" "trim_space (go_lower []) = []"
    by code_simp+
  show ?thesis
  proof (cases "obj_get nt noteVisibilityKey")
    case None
    then show ?thesis by (simp add: note_visibility_def str_at_def low Let_def)
  next
    case (Some w)
    show ?thesis
    proof (cases w)
      case (JStr x)
      with Some assms(1) have "x = ''public'' \<or> x = ''unlisted''"
        by (simp add: listed_visibility_def raw json_arrow_text_def noteVisibilityKey_def)
      with Some JStr low show ?thesis by (auto simp: note_visibility_def str_at_def Let_def)
    qed (use Some low in \<open>simp_all add: note_visibility_def str_at_def Let_def\<close>)
  qed
qed

text \<open>
  The public timeline shows statuses of accounts of this instance that are not deleted and whose
  visibility is public or unlisted, and no more of them than the limit of the request.
\<close>

theorem public_timeline:
  assumes "getTimelinePublic api r s = (Inr rp, s')" "rp_body rp = Doc (JArr out)" "api_pool api"
  shows "int (length out) \<le> timelineLimit r \<and>
    (\<forall>j \<in> set out. member_of j ''visibility'' \<in> {Some (JStr ''public''), Some (JStr ''unlisted'')} \<and>
       (\<exists>host v. base_host (s_cfg s) = Some host \<and> v \<in> set (d_activities (s_db s)) \<and> shows_row api (s_db s) 0 j v \<and>
          v_deleted v = None \<and> author_on_domain (s_db s) (trim_space host) v))"
proof -
  from public_rows [OF assms] obtain host rows where host: "base_host (s_cfg s) = Some host"
    and rows: "fst (ListRecentPublicCreateActivities host (timelineLimit r) (s_db s)) = Inr rows"
    and t: "timeline api 0 ''public'' rows s = (Inr rp, s')" by blast
  obtain out' where rp: "rp = writeJSONArrayOK out'" and len: "length out' \<le> length rows"
    and sh: "\<And>j. j \<in> set out' \<Longrightarrow> \<exists>v \<in> set (filterActivityRowsForViewer api (s_db s) 0 rows ''public''). shows_row api (s_db s) 0 j v"
    by (rule timeline_shows [OF t]) (rule that)
  from rp assms(2) have out: "out' = out" by simp
  have lim: "1 \<le> timelineLimit r \<and> timelineLimit r \<le> 80"
    by (auto simp: timelineLimit_def Let_def split: option.splits)
  from rows lim have len2: "int (length rows) \<le> timelineLimit r"
    and mem: "\<And>v. v \<in> set rows \<Longrightarrow> v \<in> set (d_activities (s_db s)) \<and> v_deleted v = None \<and>
       author_on_domain (s_db s) (trim_space host) v \<and> listed_visibility v"
    by (auto simp: ListRecentPublicCreateActivities_def eff_apply limit_rows_def clamp_limit_def Let_def
        split: if_splits dest!: in_set_takeD)
  show ?thesis
  proof (intro conjI ballI)
    show "int (length out) \<le> timelineLimit r" using len len2 unfolding out by linarith
  next
    fix j assume "j \<in> set out"
    with sh [of j] out obtain v where "v \<in> set (filterActivityRowsForViewer api (s_db s) 0 rows ''public'')"
      and v: "shows_row api (s_db s) 0 j v" by blast
    with filter_rows_subset have "v \<in> set rows" by blast
    note m = mem [OF this]
    obtain act nt where "um_object (v_raw v) = Some act" "obj_at act ''object'' = Some nt"
      and vis: "member_of j ''visibility'' = Some (JStr (note_visibility nt))" by (rule shown_members [OF v]) blast
    with m listed_note [of v act nt] show "member_of j ''visibility'' \<in> {Some (JStr ''public''), Some (JStr ''unlisted'')}" by auto
    show "\<exists>host v. base_host (s_cfg s) = Some host \<and> v \<in> set (d_activities (s_db s)) \<and> shows_row api (s_db s) 0 j v \<and>
          v_deleted v = None \<and> author_on_domain (s_db s) (trim_space host) v" using host m v by blast
  qed
qed

section \<open>Conversations\<close>

text \<open>
  C25: A conversation is shown only to the author of its direct status and to the accounts the status
  is addressed to, and not after it was deleted.
\<close>

theorem conversation_private:
  assumes "getConversationByID api rid r a s = (Inr rp, s')" "rp_status rp = 200"
  shows "\<exists>v \<in> set (d_activities (s_db s)). path_id rid = Some (v_id v) \<and> v_deleted v = None \<and>
    (\<exists>act nt. um_object (v_raw v) = Some act \<and> obj_at act ''object'' = Some nt \<and> is_direct nt \<and>
       (v_actor v = a \<or> is_recipient a nt))"
proof -
  have same: "snd (GetActivityByID i d) = d" for i d by (simp add: GetActivityByID_def eff_simps)
  have no: "\<not> is_direct []" by code_simp
  from assms obtain i v act where i: "path_id rid = Some i" and g: "fst (GetActivityByID i (s_db s)) = Inr v"
    and act: "um_object (v_raw v) = Some act"
    and d: "is_direct (case obj_at act ''object'' of None \<Rightarrow> [] | Some n \<Rightarrow> n)"
      "v_actor v = a \<or> is_recipient a (case obj_at act ''object'' of None \<Rightarrow> [] | Some n \<Rightarrow> n)"
    and p: "bind_eff (present api v a) (\<lambda>st. case st of None \<Rightarrow> ret record_not_found
         | Some m \<Rightarrow> ret (writeJSONObjectOK (conversation (v_id v) m))) s = (Inr rp, s')"
    by (auto simp: getConversationByID_def handle_apply on_db_apply same eff_apply Let_def
        split: if_splits option.splits sum.splits)
  from g have v: "v \<in> set (d_activities (s_db s))" "v_id v = i"
    by (auto simp: GetActivityByID_def eff_simps wrap_err_def split: sum.splits dest!: select_one_ok)
  from p assms(2) have "\<exists>m. mastodonStatusPresentation api (s_db s) v a = Some (Some m)"
    by (auto simp: bind_apply present_apply eff_apply split: option.splits)
  then have del: "v_deleted v = None" by (subst (asm) mastodonStatusPresentation.simps) (simp split: if_splits)
  from d(1) no obtain nt where "obj_at act ''object'' = Some nt" by (cases "obj_at act ''object''") auto
  with d act v i del show ?thesis by auto
qed

end
