(* ===== verification/ListFacts.thy ===== *)
theory ListFacts
  imports ClientLists
begin

text \<open>
  What the endpoints of lists and filters keep and give back: an account changes its own lists, their
  members and its own filters only, whatever it sends; a filter that was posted is what is read back,
  and lasts as long as was asked for.
\<close>

section \<open>Lists of other accounts\<close>

definition lists_wf :: "db \<Rightarrow> bool" where
  "lists_wf d \<longleftrightarrow> distinct (map ml_id (d_lists d)) \<and> (\<forall>l \<in> set (d_lists d). ml_id l < d_seq d TLists)"

definition foreign_list :: "int \<Rightarrow> db \<Rightarrow> int \<Rightarrow> bool" where
  "foreign_list a d i \<longleftrightarrow> (\<exists>l \<in> set (d_lists d). ml_id l = i \<and> ml_owner l \<noteq> a)"

definition foreign_members :: "int \<Rightarrow> db \<Rightarrow> (int \<times> int) list" where
  "foreign_members a d = filter (\<lambda>m. foreign_list a d (fst m)) (d_members d)"

text \<open>The lists, filters and media of the other accounts are \<open>x\<close>, the members of their lists are \<open>ms\<close>.\<close>

definition foreign_inv :: "int \<Rightarrow> list_row list \<times> filter_row list \<times> media_row list \<Rightarrow> (int \<times> int) list \<Rightarrow> db \<Rightarrow> bool" where
  "foreign_inv a x ms d \<longleftrightarrow> lists_wf d \<and> others_rows a d = x \<and> foreign_members a d = ms"

lemma foreign_not_own:
  "lists_wf d \<Longrightarrow> foreign_list a d i \<Longrightarrow> l \<in> set (d_lists d) \<Longrightarrow> \<not> own_list i a l"
  by (auto simp: foreign_list_def own_list_def lists_wf_def dest: distinct_map_inj)

lemma foreign_others: "foreign_list a d i \<longleftrightarrow> (\<exists>l \<in> set (lists.others a (d_lists d)). ml_id l = i)"
  by (auto simp: foreign_list_def lists.others_def)

lemma foreign_keep:
  assumes "lists.others a (d_lists d') = lists.others a (d_lists d)"
    and "filter (\<lambda>m. foreign_list a d (fst m)) (d_members d') = filter (\<lambda>m. foreign_list a d (fst m)) (d_members d)"
  shows "foreign_members a d' = foreign_members a d"
  using assms by (simp add: foreign_members_def foreign_others)

lemma get_list_one:
  "fst (GetMastodonList i a d) = Inr l \<Longrightarrow> l \<in> set (d_lists d) \<and> own_list i a l"
  by (auto simp: GetMastodonList_def eff_apply dest: select_one_ok)

lemma GetMastodonList_same [simp]: "snd (GetMastodonList i a d) = d"
  by (simp add: GetMastodonList_def eff_apply)

lemma insert_list_foreign: "preserves (foreign_inv a x ms) (InsertMastodonList a t)"
  unfolding InsertMastodonList_def Let_def
proof (rule preserves_statement, goal_cases)
  case (1 d y d')
  let ?new = "\<lparr>ml_id = d_seq d TLists, ml_owner = a, ml_title = (if trim_space t = [] then ''New list'' else trim_space t)\<rparr>"
  from 1(2) have d': "d' = d\<lparr>d_seq := (d_seq d)(TLists := d_seq d TLists + 1), d_lists := d_lists d @ [?new]\<rparr>"
    by (auto simp: nextval_def split: if_splits)
  have o: "lists.others a (d_lists d') = lists.others a (d_lists d)" by (simp add: d' lists.others_insert)
  have "lists_wf d'" using 1(1) by (auto simp: foreign_inv_def lists_wf_def d')
  moreover have "foreign_members a d' = foreign_members a d" by (rule foreign_keep [OF o]) (simp add: d')
  ultimately show ?case using 1(1) o by (simp add: foreign_inv_def others_rows_def d')
qed

lemma update_list_foreign: "preserves (foreign_inv a x ms) (UpdateMastodonListTitle i a t)"
proof -
  have st: "preserves (foreign_inv a x ms) (statement (\<lambda>d. Inr (count_where (own_list i a) (d_lists d),
      d\<lparr>d_lists := update_where (own_list i a) (\<lambda>l. l\<lparr>ml_title := t'\<rparr>) (d_lists d)\<rparr>)))" for t'
  proof (rule preserves_statement, goal_cases)
    case (1 d y d')
    then have d': "d' = d\<lparr>d_lists := update_where (own_list i a) (\<lambda>l. l\<lparr>ml_title := t'\<rparr>) (d_lists d)\<rparr>" by simp
    have o: "lists.others a (d_lists d') = lists.others a (d_lists d)" by (simp add: d' lists.others_update)
    have "lists_wf d'"
      using 1(1) lists.idents_update [of "\<lambda>l. l\<lparr>ml_title := t'\<rparr>" "own_list i a" "d_lists d"]
      by (auto simp: foreign_inv_def lists_wf_def d' set_update_where)
    moreover have "foreign_members a d' = foreign_members a d" by (rule foreign_keep [OF o]) (simp add: d')
    ultimately show ?case using 1(1) o by (simp add: foreign_inv_def others_rows_def d')
  qed
  show ?thesis unfolding UpdateMastodonListTitle_def Let_def by (intro preserved st)
qed

lemma delete_list_foreign: "preserves (foreign_inv a x ms) (DeleteMastodonList i a)"
  unfolding DeleteMastodonList_def Let_def
proof (rule preserves_statement, goal_cases)
  case (1 d y d')
  then have d': "d' = d\<lparr>d_lists := delete_where (own_list i a) (d_lists d),
      d_members := (if count_where (own_list i a) (d_lists d) > 0 then delete_where (\<lambda>m. fst m = i) (d_members d) else d_members d)\<rparr>"
    by (auto split: if_splits)
  have o: "lists.others a (d_lists d') = lists.others a (d_lists d)" by (simp add: d' lists.others_delete)
  have wf: "lists_wf d" using 1(1) by (simp add: foreign_inv_def)
  then have "lists_wf d'" by (auto simp: lists_wf_def d' distinct_map_delete_where)
  moreover have "foreign_members a d' = foreign_members a d"
    by (rule foreign_keep [OF o])
      (use foreign_not_own [OF wf] in \<open>auto simp: d' delete_where_def count_where_pos intro!: filter_cong\<close>)
  ultimately show ?case using 1(1) o by (simp add: foreign_inv_def others_rows_def d')
qed

lemma add_member_foreign: "preserves (foreign_inv a x ms) (AddMastodonListMember i a b)"
proof (rule preservesI)
  fix d assume inv: "foreign_inv a x ms d"
  show "foreign_inv a x ms (snd (AddMastodonListMember i a b d))"
  proof (cases "fst (GetMastodonList i a d)")
    case (Inl e)
    then show ?thesis using inv by (simp add: AddMastodonListMember_def bind_apply)
  next
    case (Inr l)
    have wf: "lists_wf d" using inv by (simp add: foreign_inv_def)
    have nf: "\<not> foreign_list a d i" using get_list_one [OF Inr] foreign_not_own [OF wf, of a i l] by auto
    have "snd (AddMastodonListMember i a b d) = d \<or> snd (AddMastodonListMember i a b d) = d\<lparr>d_members := d_members d @ [(i, b)]\<rparr>"
      using Inr by (simp add: AddMastodonListMember_def eff_simps)
    then show ?thesis
    proof
      assume d': "snd (AddMastodonListMember i a b d) = d\<lparr>d_members := d_members d @ [(i, b)]\<rparr>"
      have "foreign_members a (d\<lparr>d_members := d_members d @ [(i, b)]\<rparr>) = foreign_members a d"
        by (rule foreign_keep) (simp_all add: nf)
      with inv show ?thesis unfolding d' by (simp add: foreign_inv_def others_rows_def lists_wf_def)
    qed (simp add: inv)
  qed
qed

lemma remove_member_foreign: "preserves (foreign_inv a x ms) (RemoveMastodonListMember i a b)"
proof (rule preservesI)
  fix d assume inv: "foreign_inv a x ms d"
  show "foreign_inv a x ms (snd (RemoveMastodonListMember i a b d))"
  proof (cases "fst (GetMastodonList i a d)")
    case (Inl e)
    then show ?thesis using inv by (simp add: RemoveMastodonListMember_def bind_apply)
  next
    case (Inr l)
    have wf: "lists_wf d" using inv by (simp add: foreign_inv_def)
    have nf: "\<not> foreign_list a d i" using get_list_one [OF Inr] foreign_not_own [OF wf, of a i l] by auto
    obtain ms' where d': "snd (RemoveMastodonListMember i a b d) = d\<lparr>d_members := ms'\<rparr>"
      and ms': "ms' = delete_where (\<lambda>m. m = (i, b) \<and> list_ex (own_list i a) (d_lists d)) (d_members d)"
      using Inr by (simp add: RemoveMastodonListMember_def eff_simps)
    have "foreign_members a (d\<lparr>d_members := ms'\<rparr>) = foreign_members a d"
      by (rule foreign_keep) (use nf in \<open>auto simp: ms' delete_where_def intro!: filter_cong\<close>)
    with inv show ?thesis unfolding d' by (simp add: foreign_inv_def others_rows_def lists_wf_def)
  qed
qed

lemma filters_foreign:
  "preserves (foreign_inv a x ms) (InsertMastodonFilter a ph w irr ex c)"
  "preserves (foreign_inv a x ms) (UpdateMastodonFilter i a ph w irr ex c)"
  "preserves (foreign_inv a x ms) (DeleteMastodonFilter i a)"
proof -
  have same: "foreign_inv a x ms d'" if "foreign_inv a x ms d" "d_lists d' = d_lists d" "d_members d' = d_members d"
    "d_seq d' TLists = d_seq d TLists" "filters.others a (d_filters d') = filters.others a (d_filters d)" "d_media d' = d_media d" for d d'
    using that by (simp add: foreign_inv_def lists_wf_def others_rows_def foreign_members_def foreign_list_def)
  show "preserves (foreign_inv a x ms) (InsertMastodonFilter a ph w irr ex c)"
    unfolding InsertMastodonFilter_def Let_def
    by (intro preserves_if preserves_basic preserves_statement, erule same)
      (auto simp: nextval_def filters.others_insert split: if_splits)
  show "preserves (foreign_inv a x ms) (UpdateMastodonFilter i a ph w irr ex c)"
    unfolding UpdateMastodonFilter_def Let_def
    by (intro preserved preserves_statement preserves_basic, erule same)
      (auto simp: filters.others_update set_filter_def)
  show "preserves (foreign_inv a x ms) (DeleteMastodonFilter i a)"
    unfolding DeleteMastodonFilter_def
    by (intro preserves_statement, erule same) (auto simp: filters.others_delete)
qed


lemma queries_lists [preserved]:
  "preserves P (ListMastodonLists a)" "preserves P (GetMastodonList i a)" "preserves P (ListMastodonListMemberActorIDs i a)"
  "preserves P (ListMastodonFiltersForActor a)" "preserves P (GetMastodonFilter i a)"
  unfolding ListMastodonLists_def GetMastodonList_def ListMastodonListMemberActorIDs_def ListMastodonFiltersForActor_def
    GetMastodonFilter_def
  by (intro preserved)+

lemmas foreign_kept = insert_list_foreign update_list_foreign delete_list_foreign add_member_foreign remove_member_foreign
  filters_foreign

lemma on_db_keeps: "preserves P m \<Longrightarrow> preserves (db_inv P) (on_db m)"
  by (simp add: preserves_def db_inv_def on_db_apply)

lemma writeListAccountsPayload_keeps [preserved]: "preserves (db_inv P) (writeListAccountsPayload api a i)"
  unfolding writeListAccountsPayload_def by (intro preserved on_db_keeps)

text \<open>
  C28: Whatever an account sends to the endpoints of lists and filters, the lists and filters of all
  other accounts, and the members of their lists, stay as they are.
\<close>

theorem list_handlers_own:
  "preserves (db_inv (foreign_inv a x ms)) (postLists api r a) \<and>
   preserves (db_inv (foreign_inv a x ms)) (putListByID api rid r a) \<and>
   preserves (db_inv (foreign_inv a x ms)) (deleteListByID api rid r a) \<and>
   preserves (db_inv (foreign_inv a x ms)) (postListAccountsAdd api rid r a) \<and>
   preserves (db_inv (foreign_inv a x ms)) (deleteListAccountMember api rid raid r a) \<and>
   preserves (db_inv (foreign_inv a x ms)) (postFilters api t r a) \<and>
   preserves (db_inv (foreign_inv a x ms)) (putFilterByID api t rid r a) \<and>
   preserves (db_inv (foreign_inv a x ms)) (deleteFilterByID api rid r a)"
  unfolding postLists_def putListByID_def deleteListByID_def postListAccountsAdd_def deleteListAccountMember_def postFilters_def
    putFilterByID_def deleteFilterByID_def delete_reply_def get_list_def get_filter_def add_member_def Let_def
  by (intro conjI preserved on_db_keeps foreign_kept)

section \<open>Filters\<close>

definition filters_fresh :: "db \<Rightarrow> bool" where
  "filters_fresh d \<longleftrightarrow> (\<forall>f \<in> set (d_filters d). mf_id f < d_seq d TFilters) \<and> 1 \<le> d_seq d TFilters \<and> d_seq d TFilters < 2 ^ 63"

lemma seconds_small: "0 < n \<Longrightarrow> n \<le> 9223372036 \<Longrightarrow> seconds n = n * 10 ^ 9"
proof -
  have "sint (word_of_int k :: 64 word) = k" if "0 < k" "k \<le> 9223372036000000000" for k
    unfolding sint_sbintrunc' using that by (intro signed_take_bit_int_eq_self) simp_all
  from this [of "n * 10 ^ 9"] show "0 < n \<Longrightarrow> n \<le> 9223372036 \<Longrightarrow> seconds n = n * 10 ^ 9"
    unfolding seconds_def by (simp del: of_int_mult)
qed

text \<open>From 9223372037 seconds on, which is 292 years, the product wraps around.\<close>

lemma seconds_wraps: "seconds 9223372037 = - 9223372036709551616"
  by code_simp

lemma path_id_itoa: "1 \<le> i \<Longrightarrow> i < 2 ^ 63 \<Longrightarrow> path_id (itoa i) = Some i"
  by (simp add: path_id_def parse_int64_itoa in_int64_def)

text \<open>
  A filter that was posted with success is stored for the account that posted it, with the phrase
  trimmed; it can be read back under its id with the same answer; and if an expiry was asked for that
  a duration can hold, it applies until that many seconds after the post.
\<close>

theorem filter_posted:
  assumes post: "postFilters api t r a s = (Inr rp, s')" "rp_status rp = 200" "filters_fresh (s_db s)"
  shows "\<exists>b f. parseFilterPostBody api r = Some b \<and> f \<in> set (d_filters (s_db s')) \<and> mf_owner f = a \<and>
    mf_phrase f = trim_space (fp_phrase b) \<and> mf_phrase f \<noteq> [] \<and> rp = writeJSONObjectOK (mastodonV1FilterJSON f) \<and>
    (\<forall>r'. r_method r' = ''GET'' \<longrightarrow> getFilterByID api (itoa (mf_id f)) r' a s' = (Inr rp, s')) \<and>
    (\<forall>n. fp_expires_in b = Some n \<and> 0 < n \<and> n \<le> 9223372036 \<longrightarrow> (\<forall>u. active_filter u f \<longleftrightarrow> u < t + n * 10 ^ 9))"
proof -
  let ?d = "s_db s"
  from post(1,2) obtain b where b: "parseFilterPostBody api r = Some b" and pool: "api_pool api"
    and h: "handle (on_db (InsertMastodonFilter a (fp_phrase b) (fp_whole_word b) (fp_irreversible b) (filter_expiry t b) (contextsFromBody b)))
       (\<lambda>e. ret (writeAPIError 400 (error_text e))) (\<lambda>i. get_filter i a (writeAPIError 500 ''could not load filter'')) s = (Inr rp, s')"
    by (auto simp: postFilters_def eff_apply writeAPIError_def writeJSONResponse_def json_reply_def split: if_splits option.splits)
  define c where "c = default_contexts (contextsFromBody b)"
  define f where "f = \<lparr>mf_id = d_seq ?d TFilters, mf_owner = a, mf_phrase = trim_space (fp_phrase b), mf_whole_word = fp_whole_word b,
      mf_irreversible = fp_irreversible b, mf_expires = filter_expiry t b, mf_home = fc_home c,
      mf_notifications = fc_notifications c, mf_public = fc_public c, mf_thread = fc_thread c, mf_account = fc_account c\<rparr>"
  define d' where "d' = ?d\<lparr>d_seq := (d_seq ?d)(TFilters := d_seq ?d TFilters + 1), d_filters := d_filters ?d @ [f]\<rparr>"
  have ins: "trim_space (fp_phrase b) \<noteq> [] \<and> InsertMastodonFilter a (fp_phrase b) (fp_whole_word b) (fp_irreversible b) (filter_expiry t b)
      (contextsFromBody b) ?d = (Inr (d_seq ?d TFilters), d')"
    using h post(2)
    by (auto simp: handle_apply on_db_apply InsertMastodonFilter_def eff_apply statement_apply nextval_def Let_def writeAPIError_def
        writeJSONResponse_def json_reply_def f_def d'_def c_def split: if_splits)
  have old: "find (own_filter (d_seq ?d TFilters) a) (d_filters ?d) = None"
    using post(3) by (auto simp: find_None_iff own_filter_def filters_fresh_def)
  have sel: "select_one (own_filter (d_seq ?d TFilters) a) (d_filters d') = Inr f"
    by (simp add: d'_def select_one_def find_append old) (simp add: f_def own_filter_def)
  from h ins have g: "get_filter (d_seq ?d TFilters) a (writeAPIError 500 ''could not load filter'') (s\<lparr>s_db := d'\<rparr>) = (Inr rp, s')"
    by (simp add: handle_apply on_db_apply)
  then have rp: "rp = writeJSONObjectOK (mastodonV1FilterJSON f)" and s': "s' = s\<lparr>s_db := d'\<rparr>"
    by (simp_all add: get_filter_def handle_apply on_db_apply GetMastodonFilter_def eff_apply sel)
  have seq: "1 \<le> d_seq ?d TFilters" "d_seq ?d TFilters < 2 ^ 63" using post(3) by (auto simp: filters_fresh_def)
  have again: "getFilterByID api (itoa (mf_id f)) r' a s' = (Inr rp, s')" if "r_method r' = ''GET''" for r'
    using that pool path_id_itoa [OF seq]
    by (simp add: getFilterByID_def f_def [THEN arg_cong [where f = mf_id]] get_filter_def handle_apply on_db_apply
        GetMastodonFilter_def eff_apply s' sel rp)
  have expires: "active_filter u f \<longleftrightarrow> u < t + n * 10 ^ 9" if "fp_expires_in b = Some n" "0 < n" "n \<le> 9223372036" for n u
    using that by (simp add: active_filter_def f_def filter_expiry_def seconds_small)
  show ?thesis
    by (rule exI [of _ b], rule exI [of _ f]) (use b ins rp again expires in \<open>auto simp: s' d'_def f_def\<close>)
qed

end
