(* ===== verification/MediaApi.thy ===== *)
theory MediaApi
  imports ClientLists
begin

text \<open>
  The media endpoints of the client API (\<^verbatim>\<open>mastodonapi/media_handlers.go\<close>): uploads, blocking and
  asynchronous, and the description and state of an upload.  An upload goes to the blob store and to
  the table of media; the asynchronous one is marked complete by a goroutine, which is a step of its
  own (\<open>finish_media\<close>) on the id that the handler returns.  The parser of multipart bodies is an
  argument: from the boundary, the limited body and the error that ends it, it gives the parts and
  the error that follows the last of them.

  The lemmas: what is stored has an allowed type and a size within the limit, belongs to the account
  and is served under the key of its row; an asynchronous upload is shown as partial until its
  goroutine has run, and complete after it.
\<close>

section \<open>Types\<close>

definition mime_norm :: "string \<Rightarrow> string" where
  "mime_norm s = trim_space (go_lower s)"

definition mimeAllowed :: "string list \<Rightarrow> string \<Rightarrow> bool" where
  "mimeAllowed cfgMime fileCT0 =
     (let fileCT = mime_norm fileCT0 in if fileCT = [] then False else list_ex (\<lambda>a. fileCT = mime_norm a) cfgMime)"

definition inferMIMEFromFilename :: "string \<Rightarrow> string" where
  "inferMIMEFromFilename name =
     (let ext = go_lower (trim_space (filepath_ext name))
      in if ext = ''.jpg'' \<or> ext = ''.jpeg'' then ''image/jpeg''
         else if ext = ''.png'' then ''image/png''
         else if ext = ''.gif'' then ''image/gif''
         else if ext = ''.webp'' then ''image/webp'' else [])"

definition effectiveUploadContentType :: "string \<Rightarrow> string \<Rightarrow> string" where
  "effectiveUploadContentType declared filename =
     (let d = mime_norm declared
      in if d \<noteq> [] \<and> d \<noteq> ''application/octet-stream'' then trim_space declared
         else if inferMIMEFromFilename filename \<noteq> [] then inferMIMEFromFilename filename
         else if trim_space declared = [] then ''application/octet-stream'' else trim_space declared)"

section \<open>Reading an upload\<close>

record part =
  pt_name :: string
  pt_type :: string
  pt_filename :: string
  pt_disposition :: string
  pt_body :: string
  pt_err :: "err option"

type_synonym part_parser = "string \<Rightarrow> string \<Rightarrow> err option \<Rightarrow> part list \<times> err option"

record parsedMediaUpload =
  FileBody :: string
  FileContentType :: string
  FileName :: string
  Description :: string
  Sensitive :: bool

definition no_upload :: parsedMediaUpload where
  "no_upload = \<lparr>FileBody = [], FileContentType = [], FileName = [], Description = [], Sensitive = False\<rparr>"

definition read_part :: "part \<Rightarrow> int \<Rightarrow> err + string" where
  "read_part p n = read_limited \<lparr>rs_status = 200, rs_body = pt_body p, rs_read_err = pt_err p\<rparr> n"

definition part_filename :: "('pub, 'priv, 'w) api \<Rightarrow> part \<Rightarrow> string \<Rightarrow> string" where
  "part_filename api p old =
     (if pt_filename p \<noteq> [] then pt_filename p
      else let cd = trim_space (pt_disposition p)
           in if cd = [] then old
              else case sv_mime api cd of (_, params, ok) \<Rightarrow>
                if ok then (case map_of params ''filename'' of None \<Rightarrow> [] | Some f \<Rightarrow> f) else old)"

definition octets_if_empty :: "string \<Rightarrow> string" where
  "octets_if_empty ct = (if ct = [] then ''application/octet-stream'' else ct)"

fun read_parts :: "('pub, 'priv, 'w) api \<Rightarrow> int \<Rightarrow> part list \<Rightarrow> parsedMediaUpload \<Rightarrow> err + parsedMediaUpload" where
  "read_parts api mx [] out = Inr out"
| "read_parts api mx (p # ps) out =
     (if pt_name p = ''file''
      then bind_res (read_part p (mx + 1)) (\<lambda>b. read_parts api mx ps
        (out\<lparr>FileContentType := octets_if_empty (pt_type p), FileName := part_filename api p (FileName out), FileBody := b\<rparr>))
      else if pt_name p = ''description''
      then bind_res (read_part p 65536) (\<lambda>b. read_parts api mx ps (out\<lparr>Description := trim_space b\<rparr>))
      else if pt_name p = ''sensitive''
      then bind_res (read_part p 256) (\<lambda>b. read_parts api mx ps (out\<lparr>Sensitive := parseBoolish b\<rparr>))
      else read_parts api mx ps out)"

definition errMissingMultipartBoundary :: err where
  "errMissingMultipartBoundary = Msg ''missing multipart boundary''"

definition readMediaUpload :: "('pub, 'priv, 'w) api \<Rightarrow> part_parser \<Rightarrow> incoming \<Rightarrow> int \<Rightarrow> err + parsedMediaUpload" where
  "readMediaUpload api parser r mx =
     (let ct = in_header r ''Content-Type''
      in case sv_mime api ct of (mediaType, params, ok) \<Rightarrow>
        if \<not> ok then Inl (Msg ''mime'')
        else if has_prefix mediaType ''multipart/''
        then (case map_of params ''boundary'' of
                None \<Rightarrow> Inl errMissingMultipartBoundary
              | Some boundary \<Rightarrow>
                  (case parser boundary (take (nat (mx + 1)) (in_body r))
                          (if int (length (in_body r)) \<ge> mx + 1 then None else in_read_err r) of
                     (ps, e) \<Rightarrow> bind_res (read_parts api mx ps no_upload) (\<lambda>out.
                        case e of Some x \<Rightarrow> Inl x | None \<Rightarrow> Inr out)))
        else bind_res (read_body r (mx + 1)) (\<lambda>b. Inr (no_upload\<lparr>FileContentType := octets_if_empty ct, FileBody := b\<rparr>)))"

section \<open>The endpoints\<close>

definition mastodonMediaAttachmentMap :: "config \<Rightarrow> media_row \<Rightarrow> obj" where
  "mastodonMediaAttachmentMap cfg mr =
     (let url = (if md_state mr = MediaProcessingComplete then JStr (api_root cfg @ ''/media/'' @ md_key mr) else JNull)
      in [(''blurhash'', JNull),
          (''description'', if media_description mr = [] then JNull else JStr (media_description mr)),
          (''id'', JStr (itoa (md_id mr))), (''meta'', JObj []), (''preview_remote_url'', JNull), (''preview_url'', url),
          (''remote_url'', JNull), (''sensitive'', JBool (md_sensitive mr)), (''text_url'', JNull),
          (''type'', JStr (mastodonMediaTypeFromMIME (md_type mr))), (''url'', url)])"

definition writeMediaAttachment :: "config \<Rightarrow> media_row \<Rightarrow> int \<Rightarrow> reply" where
  "writeMediaAttachment cfg mr status = writeJSONResponse status (marshal_map (mastodonMediaAttachmentMap cfg mr))"

definition invalid_file :: string where
  "invalid_file = ''Validation failed: File content type is invalid, File is invalid''"

text \<open>What is wrong with an upload, before anything is stored.\<close>

definition upload_checks :: "config \<Rightarrow> parsedMediaUpload \<Rightarrow> reply option" where
  "upload_checks cfg p =
     (if FileBody p = [] then Some (writeAPIError 400 ''empty upload'')
      else if int (length (FileBody p)) > media_max cfg then Some (writeAPIError 413 ''payload too large'')
      else if \<not> mimeAllowed (EffectiveMediaAllowedMIMETypes (Some cfg)) (effectiveUploadContentType (FileContentType p) (FileName p))
      then Some (writeAPIError 422 invalid_file)
      else None)"

text \<open>The reply, and the id that the goroutine is started for.\<close>

definition handleMediaPost ::
  "('pub, 'priv, 'w) api \<Rightarrow> part_parser \<Rightarrow> 'b blob_store option \<Rightarrow> string \<Rightarrow> bool \<Rightarrow> incoming \<Rightarrow> int \<Rightarrow>
   (('w, 'b) site, reply \<times> int option) eff" where
  "handleMediaPost api parser blobs rnd v2 r actorID = site_cfg (\<lambda>cfg.
     if r_method r \<noteq> ''POST'' then ret (method_not_allowed, None)
     else if \<not> api_pool api then ret (writeAPIError 500 ''database not configured'', None)
     else case readMediaUpload api parser r (media_max cfg) of
       Inl e \<Rightarrow> ret (writeAPIError 400 (if e = errMissingMultipartBoundary then ''missing boundary'' else ''invalid content type''), None)
     | Inr p \<Rightarrow>
         (case upload_checks cfg p of
            Some rp \<Rightarrow> ret (rp, None)
          | None \<Rightarrow>
              (let fileCT = effectiveUploadContentType (FileContentType p) (FileName p);
                   async = (v2 \<and> MediaAsyncUpload cfg);
                   size = int (length (FileBody p))
               in handle (on_blobs (StoreBlob blobs rnd fileCT (FileBody p)))
                    (\<lambda>_. ret (writeAPIError 503 ''media storage not available'', None)) (\<lambda>key.
                    handle (on_sys (on_db (InsertMastodonMedia actorID key fileCT size (Description p) (Sensitive p)
                                             (if async then MediaProcessingPending else MediaProcessingComplete))))
                      (\<lambda>_. ret (writeAPIError 500 ''could not record media'', None)) (\<lambda>mid.
                      if async
                      then ret (writeMediaAttachment cfg
                             \<lparr>md_id = mid, md_actor = actorID, md_key = key, md_type = fileCT, md_size = size,
                              md_description = Some (Description p), md_sensitive = Sensitive p,
                              md_state = MediaProcessingPending\<rparr> 202, Some mid)
                      else handle (on_sys (on_db (GetMastodonMediaForActor mid actorID)))
                             (\<lambda>_. ret (writeAPIError 500 ''could not load media'', None))
                             (\<lambda>mr. ret (writeMediaAttachment cfg mr 200, None)))))))"

definition postAPIMedia ::
  "('pub, 'priv, 'w) api \<Rightarrow> part_parser \<Rightarrow> 'b blob_store option \<Rightarrow> string \<Rightarrow> incoming \<Rightarrow> int \<Rightarrow> (('w, 'b) site, reply \<times> int option) eff" where
  "postAPIMedia api parser blobs rnd r actorID = handleMediaPost api parser blobs rnd False r actorID"

definition postAPIMediaV2 ::
  "('pub, 'priv, 'w) api \<Rightarrow> part_parser \<Rightarrow> 'b blob_store option \<Rightarrow> string \<Rightarrow> incoming \<Rightarrow> int \<Rightarrow> (('w, 'b) site, reply \<times> int option) eff" where
  "postAPIMediaV2 api parser blobs rnd r actorID = handleMediaPost api parser blobs rnd True r actorID"

text \<open>The goroutine of an asynchronous upload; its error is dropped.\<close>

definition finish_media :: "int \<Rightarrow> ('w sys, unit) eff" where
  "finish_media mid = handle (on_db (SetMastodonMediaProcessingState mid MediaProcessingComplete)) (\<lambda>_. ret ()) ret"

definition media_changes :: "json \<Rightarrow> (string option \<times> bool option) option" where
  "media_changes j =
     (case um_object j of
        None \<Rightarrow> None
      | Some ob \<Rightarrow>
          (case (struct_field (\<lambda>v. map_option Some (um_string v)) ''description'' None ob, struct_field some_bool ''sensitive'' None ob) of
             (Some ds, Some se) \<Rightarrow> Some (ds, se)
           | _ \<Rightarrow> None))"

definition putAPIMedia :: "('pub, 'priv, 'w) api \<Rightarrow> string \<Rightarrow> incoming \<Rightarrow> int \<Rightarrow> ('w sys, reply) eff" where
  "putAPIMedia api rid r actorID =
     (if r_method r \<noteq> ''PUT'' then ret method_not_allowed
      else if \<not> api_pool api then ret (writeAPIError 500 ''database not configured'')
      else case path_id rid of
        None \<Rightarrow> ret record_not_found
      | Some mid \<Rightarrow>
          (case Option.bind (decode_body api r) media_changes of
             None \<Rightarrow> ret (writeAPIError 400 ''invalid json'')
           | Some (ds, se) \<Rightarrow>
               (if ds = None \<and> se = None then ret (writeAPIError 400 ''invalid json'')
                else handle (on_db (UpdateMastodonMediaMetadata mid actorID ds se)) (\<lambda>_. ret record_not_found) (\<lambda>_.
                     handle (on_db (GetMastodonMediaForActor mid actorID)) (\<lambda>_. ret record_not_found) (\<lambda>mr.
                       with_cfg (\<lambda>cfg. ret (writeMediaAttachment cfg mr 200)))))))"

definition getAPIMedia :: "('pub, 'priv, 'w) api \<Rightarrow> string \<Rightarrow> incoming \<Rightarrow> int \<Rightarrow> ('w sys, reply) eff" where
  "getAPIMedia api rid r actorID =
     (if r_method r \<noteq> ''GET'' then ret method_not_allowed
      else if \<not> api_pool api then ret record_not_found
      else case path_id rid of
        None \<Rightarrow> ret record_not_found
      | Some mid \<Rightarrow>
          handle (on_db (GetMastodonMediaForActor mid actorID)) (\<lambda>_. ret record_not_found) (\<lambda>mr.
            with_cfg (\<lambda>cfg.
              if md_state mr = MediaProcessingFailed then ret (writeAPIError 422 invalid_file)
              else if md_state mr = MediaProcessingPending then ret (writeMediaAttachment cfg mr 206)
              else ret (writeMediaAttachment cfg mr 200))))"

end
