(* ===== verification/MediaFacts.thy ===== *)
theory MediaFacts
  imports MediaApi TimelineFacts ListFacts
begin

text \<open>
  What an upload through the client API leaves behind, and how an asynchronous one goes on.
\<close>

section \<open>The blob of an upload\<close>

context blob_spec
begin

lemma store_blob:
  assumes "inv s" "key_ok (randomHexKey rnd)" "data \<noteq> []"
  shows "\<exists>s'. StoreBlob (Some st) rnd ct data s = (Inr (randomHexKey rnd), s') \<and> inv s' \<and>
    fst (b_get st (randomHexKey rnd) s') = Inr (Inr data, served_type)"
proof -
  from put [OF assms(1,2), of "content_type_or_octets ct" data] obtain s' where
    s': "b_put st None (randomHexKey rnd) (content_type_or_octets ct) (Inr data) s = (Inr (), s')" "inv s'"
    by blast
  with get_after_put [OF assms(1,2) s'(1) assms(2)] assms(3) show ?thesis
    by (simp add: StoreBlob_def bind_apply eff_apply Let_def)
qed

end

lemma on_sys_apply [eff_simps]: "on_sys m s = (fst (m (st_sys s)), s\<lparr>st_sys := snd (m (st_sys s))\<rparr>)"
  by (simp add: on_sys_def case_prod_beta)

lemma on_blobs_apply [eff_simps]: "on_blobs m s = (fst (m (st_blobs s)), s\<lparr>st_blobs := snd (m (st_blobs s))\<rparr>)"
  by (simp add: on_blobs_def case_prod_beta)

text \<open>The row that an upload inserts.\<close>

definition upload_row :: "db \<Rightarrow> int \<Rightarrow> string \<Rightarrow> string \<Rightarrow> parsedMediaUpload \<Rightarrow> string \<Rightarrow> media_row" where
  "upload_row d a key ct p state =
     \<lparr>md_id = d_seq d TMedia, md_actor = a, md_key = key, md_type = ct, md_size = int (length (FileBody p)),
      md_description = nullif_trim (Description p), md_sensitive = Sensitive p, md_state = state\<rparr>"

definition insert_media :: "media_row \<Rightarrow> db \<Rightarrow> db" where
  "insert_media m d = d\<lparr>d_seq := (d_seq d)(TMedia := d_seq d TMedia + 1), d_media := d_media d @ [m]\<rparr>"

lemma InsertMastodonMedia_apply:
  "state \<noteq> [] \<Longrightarrow> InsertMastodonMedia a key ct (int (length (FileBody p))) (Description p) (Sensitive p) state d =
   (if actor_exists d a then (Inr (d_seq d TMedia), insert_media (upload_row d a key ct p state) d)
    else (Inl (ForeignKeyViolation ''mastodon_media''), d))"
  by (simp add: InsertMastodonMedia_def Let_def statement_apply nextval_def upload_row_def insert_media_def actor_exists_def)

lemma states_ne [simp]: "MediaProcessingPending \<noteq> []" "MediaProcessingComplete \<noteq> []"
  "MediaProcessingPending \<noteq> MediaProcessingComplete" "MediaProcessingPending \<noteq> MediaProcessingFailed"
  "MediaProcessingComplete \<noteq> MediaProcessingFailed" "MediaProcessingComplete \<noteq> MediaProcessingPending"
  by (simp_all add: MediaProcessingPending_def MediaProcessingComplete_def MediaProcessingFailed_def)

lemma upload_checks_ok:
  "upload_checks cfg p = None \<longleftrightarrow> FileBody p \<noteq> [] \<and> int (length (FileBody p)) \<le> media_max cfg \<and>
     mimeAllowed (EffectiveMediaAllowedMIMETypes (Some cfg)) (effectiveUploadContentType (FileContentType p) (FileName p))"
  by (auto simp: upload_checks_def)

lemma upload_checks_status: "upload_checks cfg p = Some rp \<Longrightarrow> rp_status rp \<in> {400, 413, 422}"
  by (auto simp: upload_checks_def split: if_splits)

lemma media_reply_status [simp]: "rp_status (writeMediaAttachment cfg m c) = c"
  by (simp add: writeMediaAttachment_def)

text \<open>What a post that was accepted did.\<close>

lemma handleMediaPost_ok:
  assumes "handleMediaPost api parser (Some (fs_store root)) rnd v2 r a s = (Inr (rp, g), s')"
    and "rp_status rp \<in> {200, 202}" "fs_inv root (st_blobs s)" "rnd \<noteq> []"
  shows "\<exists>p state. readMediaUpload api parser r (media_max (s_cfg (st_sys s))) = Inr p \<and>
    upload_checks (s_cfg (st_sys s)) p = None \<and> api_pool api \<and>
    st_sys s' = (st_sys s)\<lparr>s_db := insert_media (upload_row (s_db (st_sys s)) a (randomHexKey rnd)
       (effectiveUploadContentType (FileContentType p) (FileName p)) p state) (s_db (st_sys s))\<rparr> \<and>
    fst (b_get (fs_store root) (randomHexKey rnd) (st_blobs s')) = Inr (Inr (FileBody p), ''application/octet-stream'') \<and>
    (rp_status rp = 202 \<longrightarrow> state = MediaProcessingPending \<and> g = Some (d_seq (s_db (st_sys s)) TMedia)) \<and>
    (rp_status rp = 200 \<longrightarrow> state = MediaProcessingComplete)"
proof -
  let ?cfg = "s_cfg (st_sys s)" and ?d = "s_db (st_sys s)"
  from assms(1,2) obtain p where p: "readMediaUpload api parser r (media_max ?cfg) = Inr p" and ok: "upload_checks ?cfg p = None"
    and pool: "api_pool api" and meth: "r_method r = ''POST''"
    by (auto simp: handleMediaPost_def site_cfg_def eff_apply dest: upload_checks_status split: if_splits sum.splits option.splits)
  define ct where "ct = effectiveUploadContentType (FileContentType p) (FileName p)"
  define async where "async = (v2 \<and> MediaAsyncUpload ?cfg)"
  define state where "state = (if async then MediaProcessingPending else MediaProcessingComplete)"
  define m where "m = upload_row ?d a (randomHexKey rnd) ct p state"
  have st: "state \<noteq> []" by (simp add: state_def)
  obtain b' where b': "StoreBlob (Some (fs_store root)) rnd ct (FileBody p) (st_blobs s) = (Inr (randomHexKey rnd), b')"
      "fst (b_get (fs_store root) (randomHexKey rnd) b') = Inr (Inr (FileBody p), ''application/octet-stream'')"
    using fsblob.store_blob [OF assms(3) hex_encode_key [OF assms(4)]] ok by (auto simp: upload_checks_ok)
  let ?s1 = "s\<lparr>st_blobs := b'\<rparr>"
  have run: "handleMediaPost api parser (Some (fs_store root)) rnd v2 r a s =
     (handle (on_sys (on_db (InsertMastodonMedia a (randomHexKey rnd) ct (int (length (FileBody p))) (Description p) (Sensitive p) state)))
                      (\<lambda>_. ret (writeAPIError 500 ''could not record media'', None)) (\<lambda>mid.
                      if async
                      then ret (writeMediaAttachment ?cfg
                             \<lparr>md_id = mid, md_actor = a, md_key = randomHexKey rnd, md_type = ct, md_size = int (length (FileBody p)),
                              md_description = Some (Description p), md_sensitive = Sensitive p,
                              md_state = MediaProcessingPending\<rparr> 202, Some mid)
                      else handle (on_sys (on_db (GetMastodonMediaForActor mid a)))
                             (\<lambda>_. ret (writeAPIError 500 ''could not load media'', None))
                             (\<lambda>mr. ret (writeMediaAttachment ?cfg mr 200, None)))) ?s1"
    unfolding handleMediaPost_def site_cfg_def Let_def
    by (simp add: meth pool p ok handle_apply [of "on_blobs m" for m] on_blobs_apply b' ct_def [symmetric] async_def [symmetric] state_def)
  from run assms(1,2) have ex: "actor_exists ?d a"
    by (auto simp: handle_apply on_sys_apply on_db_apply InsertMastodonMedia_apply [OF st] eff_apply split: if_splits)
  have sys: "s' = ?s1\<lparr>st_sys := (st_sys s)\<lparr>s_db := insert_media m ?d\<rparr>\<rparr> \<and>
      (if async then rp_status rp = 202 \<and> g = Some (d_seq ?d TMedia) else rp_status rp \<noteq> 202)"
    using run assms(1)
    by (auto simp: handle_apply on_sys_apply on_db_apply InsertMastodonMedia_apply [OF st] ex eff_apply m_def
        GetMastodonMediaForActor_def split: if_splits sum.splits)
  with p ok b' pool assms(2) show ?thesis
    by (intro exI [of _ p] exI [of _ state]) (auto simp: m_def ct_def state_def split: if_splits)
qed



section \<open>The two steps of an asynchronous upload\<close>

definition media_fresh :: "db \<Rightarrow> bool" where
  "media_fresh d \<longleftrightarrow> (\<forall>m \<in> set (d_media d). md_id m < d_seq d TMedia) \<and> 1 \<le> d_seq d TMedia \<and> d_seq d TMedia < 2 ^ 63"

definition media_url :: "json \<Rightarrow> json option" where
  "media_url j = member_of j ''url''"

lemma media_url_map [simp]:
  "media_url (marshal_map (mastodonMediaAttachmentMap cfg m)) =
     Some (if md_state m = MediaProcessingComplete then JStr (api_root cfg @ ''/media/'' @ md_key m) else JNull)"
proof -
  have "obj_get (mastodonMediaAttachmentMap cfg m) ''url'' =
      Some (if md_state m = MediaProcessingComplete then JStr (api_root cfg @ ''/media/'' @ md_key m) else JNull)"
    unfolding mastodonMediaAttachmentMap_def Let_def by (simp add: obj_get_def)
  then show ?thesis by (simp add: media_url_def)
qed

lemma getAPIMedia_row:
  assumes "api_pool api" "r_method r = ''GET''" "path_id rid = Some (md_id m)" "own_media (md_id m) a m"
    and "\<forall>x \<in> set ms. \<not> own_media (md_id m) a x" "d_media (s_db s) = ms @ [m]" "md_state m \<noteq> MediaProcessingFailed"
  shows "getAPIMedia api rid r a s =
    (Inr (writeMediaAttachment (s_cfg s) m (if md_state m = MediaProcessingPending then 206 else 200)), s)"
proof -
  have "find (own_media (md_id m) a) ms = None" using assms(5) by (simp add: find_None_iff)
  then have "select_one (own_media (md_id m) a) (d_media (s_db s)) = Inr m"
    using assms(4) by (simp add: assms(6) select_one_def find_append)
  then show ?thesis
    using assms(1-3,7)
    by (simp add: getAPIMedia_def handle_apply on_db_apply GetMastodonMediaForActor_def eff_apply with_cfg_def)
qed

text \<open>
  C27: An asynchronous upload goes through two states.  After the post the attachment is there without a
  URL and is reported as partial; once its goroutine has run it is complete and has the URL of its
  blob.
\<close>

theorem async_upload:
  assumes "handleMediaPost api parser (Some (fs_store root)) rnd v2 r a s = (Inr (rp, g), s')"
    and "rp_status rp = 202" "fs_inv root (st_blobs s)" "rnd \<noteq> []" "media_fresh (s_db (st_sys s))" "r_method q = ''GET''"
  shows "\<exists>mid x. g = Some mid \<and>
    fst (getAPIMedia api (itoa mid) q a (st_sys s')) = Inr (writeJSONResponse 206 x) \<and> media_url x = Some JNull \<and>
    (\<exists>y. fst (getAPIMedia api (itoa mid) q a (snd (finish_media mid (st_sys s')))) = Inr (writeJSONResponse 200 y) \<and>
      media_url y = Some (JStr (api_root (s_cfg (st_sys s)) @ ''/media/'' @ randomHexKey rnd)))"
proof -
  let ?d = "s_db (st_sys s)" and ?cfg = "s_cfg (st_sys s)"
  from assms(2) have s2: "rp_status rp \<in> {200, 202}" by simp
  obtain p state where pool: "api_pool api" and g: "g = Some (d_seq ?d TMedia)" and stt: "state = MediaProcessingPending"
    and sys: "st_sys s' = (st_sys s)\<lparr>s_db := insert_media (upload_row ?d a (randomHexKey rnd)
       (effectiveUploadContentType (FileContentType p) (FileName p)) p state) ?d\<rparr>"
    using handleMediaPost_ok [OF assms(1) s2 assms(3,4)] assms(2) by blast
  define m where "m = upload_row ?d a (randomHexKey rnd) (effectiveUploadContentType (FileContentType p) (FileName p)) p MediaProcessingPending"
  define m' where "m' = m\<lparr>md_state := MediaProcessingComplete\<rparr>"
  have ids: "md_id m = d_seq ?d TMedia" "md_id m' = d_seq ?d TMedia" "md_actor m = a" "md_actor m' = a" "md_key m' = randomHexKey rnd"
    "md_state m = MediaProcessingPending" "md_state m' = MediaProcessingComplete"
    by (simp_all add: m_def m'_def upload_row_def)
  have old: "\<forall>x \<in> set (d_media ?d). md_id x \<noteq> d_seq ?d TMedia" using assms(5) by (auto simp: media_fresh_def)
  have pid: "path_id (itoa (d_seq ?d TMedia)) = Some (d_seq ?d TMedia)"
    using assms(5) by (intro path_id_itoa) (auto simp: media_fresh_def)
  have d1: "d_media (s_db (st_sys s')) = d_media ?d @ [m]" "s_cfg (st_sys s') = ?cfg" by (simp_all add: sys insert_media_def m_def stt)
  have one: "getAPIMedia api (itoa (d_seq ?d TMedia)) q a (st_sys s') = (Inr (writeMediaAttachment ?cfg m 206), st_sys s')"
    using getAPIMedia_row [OF pool assms(6), of _ m a "d_media ?d" "st_sys s'"] pid old d1 ids by (simp add: own_media_def)
  let ?s2 = "snd (finish_media (d_seq ?d TMedia) (st_sys s'))"
  have upd: "update_where (\<lambda>x. md_id x = d_seq ?d TMedia) (\<lambda>x. x\<lparr>md_state := MediaProcessingComplete\<rparr>) (d_media ?d @ [m]) = d_media ?d @ [m']"
    using old ids by (simp add: update_where_def m'_def map_idI)
  have d2: "d_media (s_db ?s2) = d_media ?d @ [m']" "s_cfg ?s2 = ?cfg"
    by (simp_all add: finish_media_def SetMastodonMediaProcessingState_def update_media_def handle_apply on_db_apply bind_apply
        statement_apply eff_apply d1 upd split: sum.split)
  have two: "getAPIMedia api (itoa (d_seq ?d TMedia)) q a ?s2 = (Inr (writeMediaAttachment ?cfg m' 200), ?s2)"
    using getAPIMedia_row [OF pool assms(6), of _ m' a "d_media ?d" ?s2] pid old d2 ids by (simp add: own_media_def)
  show ?thesis
    by (rule exI [of _ "d_seq ?d TMedia"], rule exI [of _ "marshal_map (mastodonMediaAttachmentMap ?cfg m)"], intro conjI
        exI [of _ "marshal_map (mastodonMediaAttachmentMap ?cfg m')"])
      (simp_all add: g one two writeMediaAttachment_def ids)
qed

section \<open>Refused uploads\<close>

text \<open>
  An upload that is refused for its method, form, size or type leaves the server as it was.
\<close>

theorem upload_refused:
  assumes "handleMediaPost api parser blobs rnd v2 r a s = (Inr (rp, g), s')" "rp_status rp \<in> {400, 405, 413, 422}"
  shows "s' = s \<and> g = None"
  using assms
  by (auto simp: handleMediaPost_def site_cfg_def eff_apply handle_apply Let_def split: if_splits sum.splits option.splits prod.splits)

end
