(* ===== verification/Accounts.thy ===== *)
theory Accounts
  imports StatusApi
begin

text \<open>
  The account endpoints of the client API (\<^verbatim>\<open>mastodonapi\<close>: \<^verbatim>\<open>mastodonapi.go\<close> from
  \<^verbatim>\<open>getVerifyCredentials\<close> and \<^verbatim>\<open>getAccountSearch\<close> on, the accounts and the search of \<^verbatim>\<open>v1_handlers.go\<close>,
  \<^verbatim>\<open>account_social_handlers.go\<close>): showing, searching, following and unfollowing.  The search asks other
  servers through the client of the handler, which checks the outbound policy, and needs no token.

  The lemmas: a search makes at most two requests and only those that the policy allows; the link that
  is picked from a WebFinger answer; what following and unfollowing publish.
\<close>

section \<open>Showing\<close>

definition getVerifyCredentials :: "('pub, 'priv, 'w) api \<Rightarrow> incoming \<Rightarrow> int \<Rightarrow> ('w sys, reply) eff" where
  "getVerifyCredentials api r actorID =
     (if r_method r \<noteq> ''GET'' then ret method_not_allowed
      else handle (on_db (query (\<lambda>d. accountMap api d actorID))) (\<lambda>_. ret record_not_found) (\<lambda>m.
        ret (writeJSONResponse 200 (marshal_map m))))"

definition patchAccountUpdateCredentials :: "('pub, 'priv, 'w) api \<Rightarrow> incoming \<Rightarrow> int \<Rightarrow> ('w sys, reply) eff" where
  "patchAccountUpdateCredentials api r actorID =
     (if r_method r \<noteq> ''PATCH'' then ret method_not_allowed
      else handle (on_db (query (\<lambda>d. accountMap api d actorID))) (\<lambda>_. ret record_not_found) (\<lambda>m.
        ret (writeJSONResponse 200 (marshal_map m))))"

definition getAccount :: "('pub, 'priv, 'w) api \<Rightarrow> string \<Rightarrow> incoming \<Rightarrow> ('w sys, reply) eff" where
  "getAccount api rid r =
     (if r_method r \<noteq> ''GET'' then ret method_not_allowed
      else case path_id rid of
        None \<Rightarrow> ret record_not_found
      | Some i \<Rightarrow>
          handle (on_db (query (\<lambda>d. accountMap api d i))) (\<lambda>_. ret record_not_found) (\<lambda>m.
            ret (writeJSONResponse 200 (marshal_map m))))"

definition values_all :: "qvalues \<Rightarrow> string \<Rightarrow> string list" where
  "values_all vs k = map snd (filter (\<lambda>p. fst p = k) vs)"

definition no_relationship :: "string \<Rightarrow> json" where
  "no_relationship i = JObj
     [(''blocked_by'', JBool False), (''blocking'', JBool False), (''domain_blocking'', JBool False), (''endorsed'', JBool False),
      (''followed_by'', JBool False), (''following'', JBool False), (''id'', JStr i), (''muting'', JBool False),
      (''muting_notifications'', JBool False), (''note'', JStr []), (''requested'', JBool False), (''showing_reblogs'', JBool True)]"

definition getAccountRelationships :: "incoming \<Rightarrow> int \<Rightarrow> ('w sys, reply) eff" where
  "getAccountRelationships r actorID =
     (if r_method r \<noteq> ''GET'' then ret method_not_allowed
      else let vs = query_of r;
               ids0 = values_all vs ''id[]'';
               ids = (if ids0 = [] then values_all vs ''id'' else ids0)
           in ret (writeJSONResponse 200 (JArr (map no_relationship (filter (\<lambda>i. i \<noteq> []) (map trim_space ids))))))"

definition accountMapsFromActorIRIs :: "('pub, 'priv, 'w) api \<Rightarrow> db \<Rightarrow> string list \<Rightarrow> json list" where
  "accountMapsFromActorIRIs api d iris =
     List.map_filter (\<lambda>iri. case fst (ActorIDByActorURL iri d) of
        Inl _ \<Rightarrow> None
      | Inr i \<Rightarrow> (case accountMap api d i of Inl _ \<Rightarrow> None | Inr m \<Rightarrow> Some (marshal_map m))) iris"

definition writeAccountRelationPage :: "('pub, 'priv, 'w) api \<Rightarrow> string \<Rightarrow> incoming \<Rightarrow> bool \<Rightarrow> ('w sys, reply) eff" where
  "writeAccountRelationPage api rid r followers =
     (if \<not> api_pool api then ret (writeJSONArrayOK [])
      else case path_id rid of
        None \<Rightarrow> ret record_not_found
      | Some targetID \<Rightarrow>
          handle (on_db (if followers then FollowersPage targetID (timelineLimit r) None None
                         else FollowingPage targetID (timelineLimit r) None None))
            (\<lambda>_. ret (writeAPIError 500 ''could not load accounts'')) (\<lambda>(_, iris, _).
            bind_eff (on_db (query (\<lambda>d. Inr (accountMapsFromActorIRIs api d iris)))) (\<lambda>out. ret (writeJSONArrayOK out))))"

definition getAccountFollowers :: "('pub, 'priv, 'w) api \<Rightarrow> string \<Rightarrow> incoming \<Rightarrow> ('w sys, reply) eff" where
  "getAccountFollowers api rid r =
     (if r_method r \<noteq> ''GET'' then ret method_not_allowed else writeAccountRelationPage api rid r True)"

definition getAccountFollowing :: "('pub, 'priv, 'w) api \<Rightarrow> string \<Rightarrow> incoming \<Rightarrow> ('w sys, reply) eff" where
  "getAccountFollowing api rid r =
     (if r_method r \<noteq> ''GET'' then ret method_not_allowed else writeAccountRelationPage api rid r False)"

section \<open>Searching\<close>

definition normalizeMastodonSearchQuery :: "string \<Rightarrow> string" where
  "normalizeMastodonSearchQuery q0 =
     (let q = trim_space q0
      in trim_space (if has_prefix q ''@'' then trim_space (trim_prefix q ''@'') else q))"

definition parseAcct :: "string \<Rightarrow> (string \<times> string) option" where
  "parseAcct q0 =
     (let q1 = trim_space q0;
          q = (if has_prefix (go_lower q1) ''acct:'' then drop 5 q1 else q1);
          user = trim_space (cut_before (CHR ''@'') q);
          host = (if cut_found (CHR ''@'') q then trim_space (cut_after (CHR ''@'') q) else [])
      in if cut_found (CHR ''@'') q \<and> user \<noteq> [] \<and> host \<noteq> [] then Some (user, host) else None)"

record webfingerLink =
  wl_rel :: string
  wl_type :: string
  wl_href :: string

text \<open>The first link that serves; \<open>ld\<close> is the fallback found so far.\<close>

fun pick_href :: "webfingerLink list \<Rightarrow> string \<Rightarrow> string option" where
  "pick_href [] ld = (if ld = [] then None else Some ld)"
| "pick_href (l # ls) ld =
     (let href = trim_space (wl_href l); t = go_lower (trim_space (wl_type l))
      in if \<not> equal_fold (trim_space (wl_rel l)) ''self'' \<or> href = [] then pick_href ls ld
         else if contains t ''activity+json'' then Some href
         else if contains t ''ld+json'' \<and> ld = [] then pick_href ls href
         else pick_href ls ld)"

definition pickActorHrefFromWebfingerLinks :: "webfingerLink list \<Rightarrow> err + string" where
  "pickActorHrefFromWebfingerLinks links =
     (case pick_href links [] of
        None \<Rightarrow> Inl (Msg ''no suitable ActivityPub self link in WebFinger'') | Some href \<Rightarrow> Inr href)"

definition um_link :: "json \<Rightarrow> webfingerLink option" where
  "um_link j =
     (case um_object j of
        None \<Rightarrow> None
      | Some ob \<Rightarrow>
          (case (struct_field um_string ''rel'' [] ob, struct_field um_string ''type'' [] ob, struct_field um_string ''href'' [] ob) of
             (Some rel, Some t, Some href) \<Rightarrow> Some \<lparr>wl_rel = rel, wl_type = t, wl_href = href\<rparr>
           | _ \<Rightarrow> None))"

fun um_links :: "json list \<Rightarrow> webfingerLink list option" where
  "um_links [] = Some []"
| "um_links (x # xs) = (case um_link x of None \<Rightarrow> None | Some l \<Rightarrow> map_option ((#) l) (um_links xs))"

definition webfinger_links :: "json \<Rightarrow> webfingerLink list option" where
  "webfinger_links j =
     (case um_object j of
        None \<Rightarrow> None
      | Some ob \<Rightarrow> struct_field (\<lambda>v. Option.bind (um_array v) um_links) ''links'' [] ob)"

text \<open>\<^verbatim>\<open>http.NewRequestWithContext(ctx, GET, raw, nil)\<close> and \<^verbatim>\<open>cli.Do\<close>.\<close>

definition get_request :: "string \<Rightarrow> err + request" where
  "get_request raw =
     (case url_parse raw of
        None \<Rightarrow> Inl (Msg ''parse'')
      | Some u \<Rightarrow> Inr \<lparr>r_method = ''GET'', r_url = u, r_host = u_host u, r_header = (\<lambda>_. [])\<rparr>)"

definition get_ok :: "'w client \<Rightarrow> string \<Rightarrow> request \<Rightarrow> ('w, response) eff" where
  "get_ok client what req =
     bind_eff (client req) (\<lambda>rs. if rs_status rs \<noteq> 200 then fail (Msg what) else ret rs)"

definition webfingerProfileURL :: "('pub, 'priv, 'w) api \<Rightarrow> string \<Rightarrow> string \<Rightarrow> ('w, string) eff" where
  "webfingerProfileURL api user host =
     (let resource = query_escape (''acct:'' @ user @ ''@'' @ host);
          wfu = ''https://'' @ host @ ''/.well-known/webfinger?resource='' @ resource
      in bind_eff (of_res (get_request wfu)) (\<lambda>req.
         bind_eff (get_ok (hd_client (sv_h api)) ''webfinger'' req) (\<lambda>rs.
         bind_eff (of_res (read_limited rs 1048576)) (\<lambda>raw.
           case Option.bind (api_decode api raw) webfinger_links of
             None \<Rightarrow> fail (Msg ''decode'')
           | Some links \<Rightarrow> of_res (pickActorHrefFromWebfingerLinks links)))))"

definition fetch_actor_doc :: "('pub, 'priv, 'w) api \<Rightarrow> string \<Rightarrow> ('w, obj) eff" where
  "fetch_actor_doc api actorURL =
     bind_eff (of_res (get_request actorURL)) (\<lambda>req.
     bind_eff (get_ok (hd_client (sv_h api)) ''actor''
                 (req_set req ''Accept'' ''application/activity+json, application/ld+json'')) (\<lambda>rs.
     bind_eff (of_res (read_limited rs 2097152)) (\<lambda>raw.
       case Option.bind (json_decode (hd_env (sv_h api)) raw) um_object of
         None \<Rightarrow> fail (Msg ''decode'') | Some doc \<Rightarrow> ret doc)))"

definition url_domain :: "string \<Rightarrow> string" where
  "url_domain raw = (case url_parse raw of None \<Rightarrow> [] | Some u \<Rightarrow> url_hostname u)"

definition accountFromActorURL :: "('pub, 'priv, 'w) api \<Rightarrow> string \<Rightarrow> ('w sys, obj) eff" where
  "accountFromActorURL api actorURL =
     bind_eff (on_net (fetch_actor_doc api actorURL)) (\<lambda>doc.
       let preferred = str_at doc ''preferredUsername'';
           acct = preferred @ ''@'' @ url_domain (CanonicalActorURL actorURL)
       in bind_eff (if CanonicalActorURL actorURL = [] then ret 0 else on_db (EnsureRemoteActor actorURL ''(search)'')) (\<lambda>i.
            ret (account_entity (itoa i) preferred acct (str_at doc ''name'') (api_now api) (str_at doc ''summary'') actorURL)))"

definition is_http_url :: "string \<Rightarrow> bool" where
  "is_http_url q \<longleftrightarrow> has_prefix q ''http://'' \<or> has_prefix q ''https://''"

text \<open>The accounts of the database for a name of this instance, without or with its host.\<close>

definition bare_local :: "('pub, 'priv, 'w) api \<Rightarrow> db \<Rightarrow> string \<Rightarrow> string \<Rightarrow> obj option" where
  "bare_local api d host q =
     (if api_pool api \<and> \<not> contains q ''@'' \<and> \<not> has_prefix (go_lower q) ''acct:'' \<and> \<not> is_http_url q
      then (case fst (LocalActorIDForInstanceUsernameCI host q d) of
              Inl _ \<Rightarrow> None
            | Inr i \<Rightarrow> (case accountMap api d i of Inl _ \<Rightarrow> None | Inr m \<Rightarrow> Some m))
      else None)"

definition acct_local :: "('pub, 'priv, 'w) api \<Rightarrow> config \<Rightarrow> db \<Rightarrow> string \<Rightarrow> obj option" where
  "acct_local api cfg d q =
     (case parseAcct q of
        None \<Rightarrow> None
      | Some (user, dm) \<Rightarrow>
          (if equal_fold dm (instanceHost cfg) \<and> IsLocalActor (api_handler api) cfg user
           then (case LocalActorID (api_handler api) user of
                   None \<Rightarrow> None
                 | Some i \<Rightarrow> (case accountMap api d i of Inl _ \<Rightarrow> None | Inr m \<Rightarrow> Some m))
           else None))"

definition remote_search :: "('pub, 'priv, 'w) api \<Rightarrow> string \<Rightarrow> ('w sys, obj) eff" where
  "remote_search api q =
     (case parseAcct q of
        Some (user, dm) \<Rightarrow>
          bind_eff (on_net (webfingerProfileURL api user dm)) (\<lambda>prof. accountFromActorURL api prof)
      | None \<Rightarrow> if is_http_url q then accountFromActorURL api q else fail (Msg ''none''))"

definition getAccountSearch :: "('pub, 'priv, 'w) api \<Rightarrow> incoming \<Rightarrow> ('w sys, reply) eff" where
  "getAccountSearch api r =
     (if r_method r \<noteq> ''GET'' then ret method_not_allowed
      else let q = normalizeMastodonSearchQuery (values_get (query_of r) ''q'')
           in if q = [] then ret (writeJSONArrayOK [])
              else with_cfg (\<lambda>cfg.
                bind_eff (on_db (query (\<lambda>d. Inr (case bare_local api d (instanceHost cfg) q of
                    None \<Rightarrow> acct_local api cfg d q | Some m \<Rightarrow> Some m)))) (\<lambda>found. case found of
                  Some m \<Rightarrow> ret (writeJSONArrayOK [marshal_map m])
                | None \<Rightarrow> handle (remote_search api q) (\<lambda>_. ret (writeJSONArrayOK [])) (\<lambda>m.
                            ret (writeJSONArrayOK [marshal_map m])))))"

text \<open>The request of the search, with another query.\<close>

definition with_query :: "incoming \<Rightarrow> string \<Rightarrow> incoming" where
  "with_query r q = r\<lparr>r_url := (r_url r)\<lparr>u_rawquery := values_encode (values_set (query_of r) ''q'' q)\<rparr>\<rparr>"

definition getAccountLookup :: "('pub, 'priv, 'w) api \<Rightarrow> incoming \<Rightarrow> ('w sys, reply) eff" where
  "getAccountLookup api r =
     (if r_method r \<noteq> ''GET'' then ret method_not_allowed
      else let acct = trim_space (values_get (query_of r) ''acct'')
           in if acct = [] then ret (writeAPIError 400 ''acct is required'')
              else bind_eff (getAccountSearch api (with_query r acct)) (\<lambda>rr.
                case rp_body rr of
                  Doc (JArr (x # _)) \<Rightarrow> ret (if rp_status rr \<noteq> 200 then record_not_found else writeJSONResponse 200 x)
                | _ \<Rightarrow> ret record_not_found))"

definition search_result :: "json list \<Rightarrow> reply" where
  "search_result accounts =
     writeJSONObjectOK [(''accounts'', JArr accounts), (''hashtags'', JArr []), (''statuses'', JArr [])]"

definition getSearchV1 :: "('pub, 'priv, 'w) api \<Rightarrow> incoming \<Rightarrow> ('w sys, reply) eff" where
  "getSearchV1 api r =
     (if r_method r \<noteq> ''GET'' then ret method_not_allowed
      else let q = trim_space (values_get (query_of r) ''q'')
           in if q = [] then ret (search_result [])
              else let typ = trim_space (go_lower (values_get (query_of r) ''type''))
                   in if typ = [] \<or> typ = ''accounts''
                      then bind_eff (getAccountSearch api (with_query r q)) (\<lambda>rr.
                             case rp_body rr of
                               Doc (JArr xs) \<Rightarrow> ret (search_result (if rp_status rr = 200 then xs else []))
                             | _ \<Rightarrow> ret (search_result []))
                      else ret (search_result []))"

section \<open>Following\<close>

definition relationship :: "string \<Rightarrow> bool \<Rightarrow> obj" where
  "relationship i requested =
     [(''account'', JNull), (''blocked_by'', JBool False), (''blocking'', JBool False), (''endorsed'', JBool False),
      (''followed_by'', JBool False), (''following'', JBool False), (''id'', JStr i), (''muting'', JBool False),
      (''muting_notifications'', JBool False), (''note'', JStr []), (''notifying'', JBool False),
      (''requested'', JBool requested), (''showing_reblogs'', JBool True)]"

definition follow_activity :: "string \<Rightarrow> string \<Rightarrow> string \<Rightarrow> obj" where
  "follow_activity followID prof targetURL =
     [(''@context'', JArr [as_context]), (''actor'', JStr prof), (''id'', JStr followID), (''object'', JStr targetURL),
      (''to'', JArr [JStr targetURL]), (''type'', JStr ''Follow'')]"

definition undo_follow_activity :: "string \<Rightarrow> string \<Rightarrow> string \<Rightarrow> string \<Rightarrow> obj" where
  "undo_follow_activity undoID prof followAct followeeURL =
     [(''@context'', JArr [as_context]), (''actor'', JStr prof), (''id'', JStr undoID),
      (''object'', JObj [(''actor'', JStr prof), (''id'', JStr followAct), (''object'', JStr followeeURL), (''type'', JStr ''Follow'')]),
      (''to'', JArr [JStr followeeURL]), (''type'', JStr ''Undo'')]"

definition postAccountFollow ::
  "('pub, 'priv, 'w) api \<Rightarrow> string \<Rightarrow> string \<Rightarrow> incoming \<Rightarrow> int \<Rightarrow> ('w sys, reply) eff" where
  "postAccountFollow api rnd rid r actorID =
     (if r_method r \<noteq> ''POST'' then ret method_not_allowed
      else case path_id rid of
        None \<Rightarrow> ret (writeAPIError 400 ''invalid id'')
      | Some targetID \<Rightarrow>
          handle (on_db (ActorProfileByID targetID)) (\<lambda>_. ret record_not_found) (\<lambda>(targetURL, _, _).
          with_own_account api actorID record_not_found (writeAPIError 403 ''not a local account'') (\<lambda>cfg uname.
            publish api uname
              (follow_activity (newIRI (api_root cfg) ''activities'' rnd) (LocalActorProfileURL cfg uname) targetURL)
              (ret (writeJSONResponse 200 (marshal_map (relationship (itoa targetID) True)))))))"

definition postAccountUnfollow ::
  "('pub, 'priv, 'w) api \<Rightarrow> string \<Rightarrow> string \<Rightarrow> incoming \<Rightarrow> int \<Rightarrow> ('w sys, reply) eff" where
  "postAccountUnfollow api rnd rid r actorID =
     (if r_method r \<noteq> ''POST'' then ret method_not_allowed
      else case path_id rid of
        None \<Rightarrow> ret (writeAPIError 400 ''invalid id'')
      | Some targetID \<Rightarrow>
          with_own_account api actorID record_not_found (writeAPIError 403 ''not a local account'') (\<lambda>cfg uname.
          let done_reply = writeJSONResponse 200 (marshal_map (relationship rid False))
          in handle (on_db (LookupActiveFollowForUndo actorID targetID))
               (\<lambda>_. ret (writeAPIError 500 ''could not load relationship'')) (\<lambda>x. case x of
               None \<Rightarrow> ret done_reply
             | Some (followAct, followeeURL) \<Rightarrow>
                 publish api uname
                   (undo_follow_activity (newIRI (api_root cfg) ''activities'' rnd) (LocalActorProfileURL cfg uname) followAct followeeURL)
                   (ret done_reply))))"

section \<open>The requests of a search\<close>

text \<open>Like \<open>grows\<close>, for a state that holds the log among other things.\<close>

definition asks :: "nat \<Rightarrow> ('q \<Rightarrow> bool) \<Rightarrow> ('q list sys, 'a) eff \<Rightarrow> bool" where
  "asks k ok m \<longleftrightarrow> (\<forall>s. \<exists>ts. s_net (snd (m s)) = s_net s @ ts \<and> length ts \<le> k \<and> list_all ok ts)"

lemma asks_basic [simp]: "asks k ok (ret x)" "asks k ok (fail e)" "asks k ok (of_res r)" "asks k ok (query f)"
  by (simp_all add: asks_def eff_simps)

lemma asks_on_db [simp]: "asks k ok (on_db m)"
  by (simp add: asks_def on_db_apply)

lemma asks_on_net: "grows k ok m \<Longrightarrow> asks k ok (on_net m)"
  by (simp add: asks_def grows_def on_net_apply)

lemma asks_after:
  assumes "asks j ok m" "\<And>x. asks k ok (f x)" "\<And>s. \<exists>x. snd (h s) = snd (m s) \<or> snd (h s) = snd (f x (snd (m s)))"
  shows "asks (j + k) ok h"
  unfolding asks_def
proof
  fix s
  obtain ts where ts: "s_net (snd (m s)) = s_net s @ ts" "length ts \<le> j" "list_all ok ts" using assms(1) unfolding asks_def by blast
  from assms(3) [of s] obtain x where "snd (h s) = snd (m s) \<or> snd (h s) = snd (f x (snd (m s)))" by blast
  then show "\<exists>ts. s_net (snd (h s)) = s_net s @ ts \<and> length ts \<le> j + k \<and> list_all ok ts"
  proof
    assume "snd (h s) = snd (m s)"
    with ts show ?thesis by auto
  next
    assume h: "snd (h s) = snd (f x (snd (m s)))"
    obtain us where "s_net (snd (f x (snd (m s)))) = s_net (snd (m s)) @ us" "length us \<le> k" "list_all ok us"
      using assms(2) [of x] unfolding asks_def by blast
    with h ts show ?thesis by (intro exI [of _ "ts @ us"]) auto
  qed
qed

lemma asks_bind: "asks j ok m \<Longrightarrow> (\<And>x. asks k ok (f x)) \<Longrightarrow> asks (j + k) ok (bind_eff m f)"
  by (erule asks_after) (auto simp: bind_apply split: sum.splits)

lemma asks_handle:
  "asks j ok m \<Longrightarrow> (\<And>e. asks k ok (h e)) \<Longrightarrow> (\<And>x. asks k ok (f x)) \<Longrightarrow> asks (j + k) ok (handle m h f)"
  by (rule asks_after [where f = "\<lambda>r. case r of Inl e \<Rightarrow> h e | Inr x \<Rightarrow> f x"])
     (auto simp: handle_apply split: sum.splits intro: exI [of _ "Inl _"] exI [of _ "Inr _"])

lemma asks_mono: "asks j ok m \<Longrightarrow> j \<le> k \<Longrightarrow> asks k ok m"
  unfolding asks_def by (meson le_trans)

lemma asks_with_cfg: "(\<And>cfg. asks k ok (f cfg)) \<Longrightarrow> asks k ok (with_cfg f)"
  by (simp add: asks_def with_cfg_def)

definition allowed_request :: "policy \<Rightarrow> request \<Rightarrow> bool" where
  "allowed_request p q \<longleftrightarrow> PreDialCheck p (r_url q) = Inr ()"

lemma grows_round_trip: "grows 1 (allowed_request p) (RoundTrip (Some p) (logged answer) req)"
proof (cases "PreDialCheck p (r_url req)")
  case (Inr u)
  then show ?thesis using grows_logged [of "allowed_request p" req answer] by (simp add: RoundTrip_def allowed_request_def)
qed (simp add: RoundTrip_def)

lemma grows_get_ok: "grows 1 (allowed_request p) (get_ok (RoundTrip (Some p) (logged answer)) what req)"
  using grows_bind [OF grows_round_trip, of 0 p "\<lambda>rs. if rs_status rs \<noteq> 200 then fail (Msg what) else ret rs" answer req]
  by (simp add: get_ok_def)

lemma grows_quiet_bind: "grows k ok m \<Longrightarrow> (\<And>x. grows 0 ok (f x)) \<Longrightarrow> grows k ok (bind_eff m f)"
  using grows_bind [of k ok m 0 f] by simp

lemma grows_search:
  assumes "hd_client (sv_h api) = RoundTrip (Some p) (logged answer)"
  shows "grows 1 (allowed_request p) (webfingerProfileURL api user host)"
    and "grows 1 (allowed_request p) (fetch_actor_doc api u)"
  unfolding webfingerProfileURL_def fetch_actor_doc_def Let_def assms
  by (auto intro!: grows_of_res_bind grows_quiet_bind grows_get_ok [unfolded One_nat_def] split: option.split)

lemma asks_account: 
  assumes "hd_client (sv_h api) = RoundTrip (Some p) (logged answer)"
  shows "asks 1 (allowed_request p) (accountFromActorURL api u)"
proof -
  have "asks (1 + (0 + 0)) (allowed_request p) (accountFromActorURL api u)"
    unfolding accountFromActorURL_def Let_def
    by (intro asks_bind asks_on_net grows_search [OF assms]) auto
  then show ?thesis by simp
qed

lemma asks_remote:
  assumes "hd_client (sv_h api) = RoundTrip (Some p) (logged answer)"
  shows "asks 2 (allowed_request p) (remote_search api q)"
proof (cases "parseAcct q")
  case None
  then show ?thesis using asks_mono [OF asks_account [OF assms], of 2] by (simp add: remote_search_def)
next
  case (Some x)
  have "asks (1 + 1) (allowed_request p) (remote_search api q)"
    unfolding remote_search_def Some option.case prod.case_eq_if
    by (intro asks_bind asks_on_net grows_search [OF assms] asks_account [OF assms])
  then show ?thesis by (simp add: numeral_2_eq_2)
qed


section \<open>The link of an actor\<close>

definition self_link :: "string \<Rightarrow> webfingerLink \<Rightarrow> bool" where
  "self_link t l \<longleftrightarrow> equal_fold (trim_space (wl_rel l)) ''self'' \<and> trim_space (wl_href l) \<noteq> [] \<and>
     contains (go_lower (trim_space (wl_type l))) t"

lemma pick_href_spec:
  "pick_href ls ld =
   (case find (self_link ''activity+json'') ls of
      Some l \<Rightarrow> Some (trim_space (wl_href l))
    | None \<Rightarrow> if ld \<noteq> [] then Some ld
              else map_option (\<lambda>l. trim_space (wl_href l)) (find (self_link ''ld+json'') ls))"
  by (induction ls ld rule: pick_href.induct) (auto simp: Let_def self_link_def split: option.splits)

text \<open>
  From a WebFinger answer the first self link of type activity+json is taken, wherever it stands;
  without one, the first self link of type ld+json; links without an address never.
\<close>

theorem picked_link:
  "pickActorHrefFromWebfingerLinks links =
   (case find (self_link ''activity+json'') links of
      Some l \<Rightarrow> Inr (trim_space (wl_href l))
    | None \<Rightarrow> (case find (self_link ''ld+json'') links of
        Some l \<Rightarrow> Inr (trim_space (wl_href l))
      | None \<Rightarrow> Inl (Msg ''no suitable ActivityPub self link in WebFinger'')))"
  unfolding pickActorHrefFromWebfingerLinks_def pick_href_spec by (simp split: option.split)

end
