(* ===== verification/Server.thy ===== *)
theory Server
  imports ClientMisc TimelineFacts ListFacts MediaFacts Accounts
begin

text \<open>
  The HTTP server of \<^verbatim>\<open>cmd/apd\<close>: the routes of the federation endpoints (\<^verbatim>\<open>aphttp/handlers.go\<close>
  \<^verbatim>\<open>Mount\<close>) and of the client API (\<^verbatim>\<open>mastodonapi/v1_routes.go\<close>), the choice among them
  (\<^verbatim>\<open>http.ServeMux\<close>) and the wrappers in front of it.  A request takes the state of the site to a reply
  and the next state; \<open>rnd\<close> gives the random bytes a request draws and \<open>t\<close> the clock.  Metrics and the
  instrumentation change no reply and are left out.

  The lemmas: whatever arrives, the constraints of the schema hold afterwards; without a valid token a
  request to the client API changes nothing, except through the endpoints that issue tokens and the
  search.
\<close>

section \<open>The mux\<close>

datatype seg = Lit string | Wild string | Multi string

definition parse_seg :: "string \<Rightarrow> seg" where
  "parse_seg w =
     (if \<not> has_prefix w ''{'' then Lit w
      else let name = trim_suffix (trim_prefix w ''{'') ''}''
           in if has_suffix name ''...'' then Multi (trim_suffix name ''...'') else Wild name)"

definition path_segs :: "string \<Rightarrow> string list" where
  "path_segs p = split_on (CHR ''/'') (trim_prefix p ''/'')"

definition pattern_segs :: "string \<Rightarrow> seg list" where
  "pattern_segs p = map parse_seg (path_segs p)"

definition seg_unescape :: "string \<Rightarrow> string" where
  "seg_unescape s = (case path_unescape s of None \<Rightarrow> s | Some x \<Rightarrow> x)"

fun match_segs :: "seg list \<Rightarrow> string list \<Rightarrow> qvalues option" where
  "match_segs [] [] = Some []"
| "match_segs [Multi n] ss = Some [(n, seg_unescape (join ''/'' ss))]"
| "match_segs (Lit l # ps) (s # ss) = (if l = seg_unescape s then match_segs ps ss else None)"
| "match_segs (Wild n # ps) (s # ss) =
     (if s = [] then None else map_option ((#) (n, seg_unescape s)) (match_segs ps ss))"
| "match_segs _ _ = None"

text \<open>At the first difference a literal comes before a wildcard, and that before the rest of a path.\<close>

fun seg_rank :: "seg \<Rightarrow> nat" where
  "seg_rank (Lit _) = 0"
| "seg_rank (Wild _) = 1"
| "seg_rank (Multi _) = 2"

fun more_specific :: "seg list \<Rightarrow> seg list \<Rightarrow> bool" where
  "more_specific (p # ps) (q # qs) =
     (seg_rank p < seg_rank q \<or> seg_rank p = seg_rank q \<and> more_specific ps qs)"
| "more_specific _ _ = False"

text \<open>An endpoint that anybody may ask, or one behind \<^verbatim>\<open>s.bearer\<close>.\<close>

datatype ('w, 'b) endpoint =
    Open "qvalues \<Rightarrow> incoming \<Rightarrow> (('w, 'b) site, reply) eff"
  | Bearer "qvalues \<Rightarrow> incoming \<Rightarrow> int \<Rightarrow> (('w, 'b) site, reply) eff"

type_synonym ('w, 'b) route = "string \<times> string \<times> ('w, 'b) endpoint"

fun best_match :: "('w, 'b) route list \<Rightarrow> string \<Rightarrow> string list \<Rightarrow> ('w, 'b) route option \<Rightarrow> ('w, 'b) route option" where
  "best_match [] meth ss found = found"
| "best_match (rt # rts) meth ss found =
     (if fst rt = meth \<and> match_segs (pattern_segs (fst (snd rt))) ss \<noteq> None \<and>
         (case found of None \<Rightarrow> True | Some f \<Rightarrow> more_specific (pattern_segs (fst (snd rt))) (pattern_segs (fst (snd f))))
      then best_match rts meth ss (Some rt) else best_match rts meth ss found)"

text \<open>A pattern for GET also serves HEAD, if there is none for HEAD.\<close>

definition find_route :: "('w, 'b) route list \<Rightarrow> string \<Rightarrow> string \<Rightarrow> ('w, 'b) route option" where
  "find_route rts meth p =
     (case best_match rts meth (path_segs p) None of
        Some rt \<Rightarrow> Some rt
      | None \<Rightarrow> if meth = ''HEAD'' then best_match rts ''GET'' (path_segs p) None else None)"

text \<open>\<^verbatim>\<open>exactMatch\<close>: the rest of a path that a pattern matches is empty.\<close>

definition exact_match :: "('w, 'b) route option \<Rightarrow> string \<Rightarrow> bool" where
  "exact_match x p =
     (case x of
        None \<Rightarrow> False
      | Some (_, pat, _) \<Rightarrow>
          (case last (pattern_segs pat) of
             Multi _ \<Rightarrow> has_suffix p ''/'' \<and> length (pattern_segs pat) = count_list p (CHR ''/'')
           | _ \<Rightarrow> True))"

definition clean_path :: "string \<Rightarrow> string" where
  "clean_path p =
     (let q = (if has_prefix p ''/'' then p else CHR ''/'' # p); np = filepath_clean q
      in if has_suffix q ''/'' \<and> np \<noteq> ''/'' then np @ ''/'' else np)"

definition mux_redirect :: "incoming \<Rightarrow> string \<Rightarrow> reply" where
  "mux_redirect r p = redirect_to 301 (url_string (empty_url\<lparr>u_path := p, u_rawquery := u_rawquery (r_url r)\<rparr>))"

definition run_endpoint :: "('w, 'b) endpoint \<Rightarrow> qvalues \<Rightarrow> incoming \<Rightarrow> (('w, 'b) site, reply) eff" where
  "run_endpoint e vs r =
     (case e of
        Open f \<Rightarrow> f vs r
      | Bearer f \<Rightarrow>
          bind_eff (on_sys (on_db (actorIDFromBearer r))) (\<lambda>x. case x of
            None \<Rightarrow> ret (writeAPIError 401 ''The access token is invalid'')
          | Some aid \<Rightarrow> f vs r aid))"

definition ServeMux :: "('w, 'b) route list \<Rightarrow> incoming \<Rightarrow> (('w, 'b) site, reply) eff" where
  "ServeMux rts r =
     (let esc = url_escaped_path (r_url r); p = clean_path esc; found = find_route rts (r_method r) p
      in if \<not> exact_match found p \<and> \<not> has_suffix p ''/'' \<and> exact_match (find_route rts (r_method r) (p @ ''/'')) (p @ ''/'')
         then ret (mux_redirect r (clean_path (u_path (r_url r)) @ ''/''))
         else if p \<noteq> esc then ret (mux_redirect r p)
         else case found of
           Some (_, pat, e) \<Rightarrow>
             run_endpoint e (case match_segs (pattern_segs pat) (path_segs p) of None \<Rightarrow> [] | Some vs \<Rightarrow> vs) r
         | None \<Rightarrow>
             ret (if list_ex (\<lambda>rt. match_segs (pattern_segs (fst (snd rt))) (path_segs p) \<noteq> None) rts
                  then http_error 405 ''Method Not Allowed'' else not_found))"

section \<open>The routes\<close>

definition path_value :: "qvalues \<Rightarrow> string \<Rightarrow> string" where
  "path_value vs k = values_get vs k"

abbreviation pv :: "qvalues \<Rightarrow> string" where
  "pv vs \<equiv> path_value vs ''id''"

definition first_reply :: "(('w, 'b) site, reply \<times> int option) eff \<Rightarrow> (('w, 'b) site, reply) eff" where
  "first_reply m = bind_eff m (\<lambda>x. ret (fst x))"

text \<open>Instance, search and sessions.\<close>

definition session_routes :: "('pub, 'priv, 'w) api \<Rightarrow> (nat \<Rightarrow> string) \<Rightarrow> int \<Rightarrow> ('w, 'b) route list" where
  "session_routes api rnd t =
     [(''GET'', ''/.well-known/oauth-authorization-server'', Open (\<lambda>vs r. on_sys (getOAuthAuthorizationServer r))),
      (''POST'', ''/api/v1/apps'', Open (\<lambda>vs r. on_sys (postApps (server.truncate api) (rnd 0) (rnd 1) r))),
      (''GET'', ''/oauth/authorize'', Open (\<lambda>vs r. on_sys (getOAuthAuthorize r))),
      (''POST'', ''/oauth/authorize'', Open (\<lambda>vs r. on_sys (postOAuthAuthorize (server.truncate api) (rnd 0) t r))),
      (''POST'', ''/oauth/token'', Open (\<lambda>vs r. on_sys (postOAuthToken (server.truncate api) (rnd 0) t r))),
      (''POST'', ''/oauth/revoke'', Open (\<lambda>vs r. on_sys (postOAuthRevoke r))),
      (''GET'', ''/api/v1/instance'', Open (\<lambda>vs r. on_sys (getInstance r))),
      (''GET'', ''/api/v2/instance'', Open (\<lambda>vs r. on_sys (getInstanceV2 r))),
      (''GET'', ''/api/v2/search'', Open (\<lambda>vs r. on_sys (getSearchV1 api r))),
      (''GET'', ''/api/v2/filters'', Bearer (\<lambda>vs r a. on_sys (getFiltersV2 api r a))),
      (''GET'', ''/api/v2/suggestions'', Open (\<lambda>vs r. on_sys (getSuggestionsV1 r))),
      (''GET'', ''/api/v1/instance/extended_description'', Open (\<lambda>vs r. on_sys (getInstanceExtendedDescription r))),
      (''GET'', ''/api/v1/instance/peers'', Open (\<lambda>vs r. on_sys (getInstancePeers r))),
      (''GET'', ''/api/v1/instance/activity'', Open (\<lambda>vs r. on_sys (getInstanceActivity r))),
      (''GET'', ''/api/v1/instance/rules'', Open (\<lambda>vs r. on_sys (getInstanceRules r))),
      (''GET'', ''/api/v1/instance/translation_languages'', Open (\<lambda>vs r. on_sys (getInstanceTranslationLanguages r))),
      (''GET'', ''/api/v1/instance/domain_blocks'', Open (\<lambda>vs r. on_sys (getInstanceDomainBlocks r)))]"

text \<open>Accounts.\<close>

definition account_routes :: "('pub, 'priv, 'w) api \<Rightarrow> (nat \<Rightarrow> string) \<Rightarrow> ('w, 'b) route list" where
  "account_routes api rnd =
     [(''GET'', ''/api/v1/accounts/verify_credentials'', Bearer (\<lambda>vs r a. on_sys (getVerifyCredentials api r a))),
      (''PATCH'', ''/api/v1/accounts/update_credentials'',
         Bearer (\<lambda>vs r a. on_sys (patchAccountUpdateCredentials api r a))),
      (''GET'', ''/api/v1/accounts/search'', Open (\<lambda>vs r. on_sys (getAccountSearch api r))),
      (''GET'', ''/api/v1/accounts/lookup'', Open (\<lambda>vs r. on_sys (getAccountLookup api r))),
      (''GET'', ''/api/v1/accounts/familiar_followers'', Bearer (\<lambda>vs r a. on_sys (getFamiliarFollowers r a))),
      (''GET'', ''/api/v1/accounts/relationships'', Bearer (\<lambda>vs r a. on_sys (getAccountRelationships r a))),
      (''POST'', ''/api/v1/accounts/{id}/follow'', Bearer (\<lambda>vs r a. on_sys (postAccountFollow api (rnd 0) (pv vs) r a))),
      (''POST'', ''/api/v1/accounts/{id}/unfollow'',
         Bearer (\<lambda>vs r a. on_sys (postAccountUnfollow api (rnd 0) (pv vs) r a))),
      (''POST'', ''/api/v1/accounts/{id}/block'', Bearer (\<lambda>vs r a. on_sys (v1StubBearerEmptyObject r a))),
      (''POST'', ''/api/v1/accounts/{id}/unblock'', Bearer (\<lambda>vs r a. on_sys (v1StubBearerEmptyObject r a))),
      (''POST'', ''/api/v1/accounts/{id}/mute'', Bearer (\<lambda>vs r a. on_sys (v1StubBearerEmptyObject r a))),
      (''POST'', ''/api/v1/accounts/{id}/unmute'', Bearer (\<lambda>vs r a. on_sys (v1StubBearerEmptyObject r a))),
      (''POST'', ''/api/v1/accounts/{id}/pin'', Bearer (\<lambda>vs r a. on_sys (postAccountPin r a))),
      (''POST'', ''/api/v1/accounts/{id}/unpin'', Bearer (\<lambda>vs r a. on_sys (postAccountUnpin r a))),
      (''POST'', ''/api/v1/accounts/{id}/note'', Bearer (\<lambda>vs r a. on_sys (v1StubBearerEmptyObject r a))),
      (''GET'', ''/api/v1/accounts/{id}/statuses'', Open (\<lambda>vs r. on_sys (getAccountStatuses api (pv vs) r))),
      (''GET'', ''/api/v1/accounts/{id}/followers'', Open (\<lambda>vs r. on_sys (getAccountFollowers api (pv vs) r))),
      (''GET'', ''/api/v1/accounts/{id}/following'', Open (\<lambda>vs r. on_sys (getAccountFollowing api (pv vs) r))),
      (''GET'', ''/api/v1/accounts/{id}/lists'', Open (\<lambda>vs r. on_sys (v1StubGETEmptyArray r))),
      (''GET'', ''/api/v1/accounts/{id}/identity_proofs'', Open (\<lambda>vs r. on_sys (v1StubGETEmptyArray r))),
      (''GET'', ''/api/v1/accounts/{id}/featured_tags'', Open (\<lambda>vs r. on_sys (v1StubGETEmptyArray r))),
      (''GET'', ''/api/v1/accounts/{id}'', Open (\<lambda>vs r. on_sys (getAccount api (pv vs) r)))]"

text \<open>Statuses, timelines and tags.\<close>

definition status_routes :: "('pub, 'priv, 'w) api \<Rightarrow> (nat \<Rightarrow> string) \<Rightarrow> ('w, 'b) route list" where
  "status_routes api rnd =
     [(''POST'', ''/api/v1/statuses'', Bearer (\<lambda>vs r a. on_sys (postStatuses api (rnd 0) (rnd 1) r a))),
      (''GET'', ''/api/v1/statuses/{id}/context'', Open (\<lambda>vs r. on_sys (getStatusContext api (pv vs) r))),
      (''GET'', ''/api/v1/statuses/{id}/favourited_by'',
         Open (\<lambda>vs r. on_sys (getStatusSocialAccounts api True (pv vs) r))),
      (''GET'', ''/api/v1/statuses/{id}/reblogged_by'',
         Open (\<lambda>vs r. on_sys (getStatusSocialAccounts api False (pv vs) r))),
      (''POST'', ''/api/v1/statuses/{id}/favourite'',
         Bearer (\<lambda>vs r a. on_sys (postStatusSocialLike api (rnd 0) True (pv vs) r a))),
      (''POST'', ''/api/v1/statuses/{id}/unfavourite'',
         Bearer (\<lambda>vs r a. on_sys (postStatusSocialLike api (rnd 0) False (pv vs) r a))),
      (''POST'', ''/api/v1/statuses/{id}/reblog'',
         Bearer (\<lambda>vs r a. on_sys (postStatusSocialReblog api (rnd 0) True (pv vs) r a))),
      (''POST'', ''/api/v1/statuses/{id}/unreblog'',
         Bearer (\<lambda>vs r a. on_sys (postStatusSocialReblog api (rnd 0) False (pv vs) r a))),
      (''POST'', ''/api/v1/statuses/{id}/bookmark'',
         Bearer (\<lambda>vs r a. on_sys (postStatusBookmarkToggle api True (pv vs) r a))),
      (''POST'', ''/api/v1/statuses/{id}/unbookmark'',
         Bearer (\<lambda>vs r a. on_sys (postStatusBookmarkToggle api False (pv vs) r a))),
      (''POST'', ''/api/v1/statuses/{id}/mute'', Bearer (\<lambda>vs r a. on_sys (v1StubBearerEmptyObject r a))),
      (''POST'', ''/api/v1/statuses/{id}/unmute'', Bearer (\<lambda>vs r a. on_sys (v1StubBearerEmptyObject r a))),
      (''POST'', ''/api/v1/statuses/{id}/pin'', Bearer (\<lambda>vs r a. on_sys (postStatusActionNotFound r a))),
      (''POST'', ''/api/v1/statuses/{id}/unpin'', Bearer (\<lambda>vs r a. on_sys (postStatusActionNotFound r a))),
      (''POST'', ''/api/v1/statuses/{id}/translate'', Bearer (\<lambda>vs r a. on_sys (postStatusTranslateStub r a))),
      (''DELETE'', ''/api/v1/statuses/{id}'', Bearer (\<lambda>vs r a. on_sys (deleteStatus api (rnd 0) (pv vs) r a))),
      (''GET'', ''/api/v1/statuses/{id}'', Open (\<lambda>vs r. on_sys (getStatus api (pv vs) r))),
      (''GET'', ''/api/v1/timelines/home'', Bearer (\<lambda>vs r a. on_sys (getTimelineHome api r a))),
      (''GET'', ''/api/v1/timelines/public'', Open (\<lambda>vs r. on_sys (getTimelinePublic api r))),
      (''GET'', ''/api/v1/timelines/tag/{tag}'', Open (\<lambda>vs r. on_sys (v1StubGETEmptyArray r))),
      (''GET'', ''/api/v1/timelines/list/{id}'', Bearer (\<lambda>vs r a. on_sys (getTimelineList api (pv vs) r a))),
      (''GET'', ''/api/v1/tags/{name}'', Open (\<lambda>vs r. on_sys (getTag (path_value vs ''name'') r))),
      (''POST'', ''/api/v1/tags/{name}/follow'', Bearer (\<lambda>vs r a. on_sys (postTagFollow (path_value vs ''name'') r a))),
      (''POST'', ''/api/v1/tags/{name}/unfollow'',
         Bearer (\<lambda>vs r a. on_sys (postTagUnfollow (path_value vs ''name'') r a)))]"

text \<open>Lists, media, polls and filters.\<close>

definition list_routes :: "('pub, 'priv, 'w) api \<Rightarrow> part_parser \<Rightarrow> 'b blob_store option \<Rightarrow> (nat \<Rightarrow> string) \<Rightarrow> int \<Rightarrow> ('w, 'b) route list" where
  "list_routes api parser blobs rnd t =
     [(''GET'', ''/api/v1/lists'', Bearer (\<lambda>vs r a. on_sys (getLists api r a))),
      (''POST'', ''/api/v1/lists'', Bearer (\<lambda>vs r a. on_sys (postLists api r a))),
      (''GET'', ''/api/v1/lists/{id}/accounts'', Bearer (\<lambda>vs r a. on_sys (getListAccounts api (pv vs) r a))),
      (''POST'', ''/api/v1/lists/{id}/accounts'', Bearer (\<lambda>vs r a. on_sys (postListAccountsAdd api (pv vs) r a))),
      (''DELETE'', ''/api/v1/lists/{id}/accounts/{account_id}'',
         Bearer (\<lambda>vs r a. on_sys (deleteListAccountMember api (pv vs) (path_value vs ''account_id'') r a))),
      (''GET'', ''/api/v1/lists/{id}'', Bearer (\<lambda>vs r a. on_sys (getListByID api (pv vs) r a))),
      (''PUT'', ''/api/v1/lists/{id}'', Bearer (\<lambda>vs r a. on_sys (putListByID api (pv vs) r a))),
      (''DELETE'', ''/api/v1/lists/{id}'', Bearer (\<lambda>vs r a. on_sys (deleteListByID api (pv vs) r a))),
      (''POST'', ''/api/v1/media'', Bearer (\<lambda>vs r a. first_reply (postAPIMedia api parser blobs (rnd 0) r a))),
      (''POST'', ''/api/v2/media'', Bearer (\<lambda>vs r a. first_reply (postAPIMediaV2 api parser blobs (rnd 0) r a))),
      (''PUT'', ''/api/v1/media/{id}'', Bearer (\<lambda>vs r a. on_sys (putAPIMedia api (pv vs) r a))),
      (''GET'', ''/api/v1/media/{id}'', Bearer (\<lambda>vs r a. on_sys (getAPIMedia api (pv vs) r a))),
      (''GET'', ''/api/v1/polls/{id}'', Open (\<lambda>vs r. on_sys (getPoll r))),
      (''POST'', ''/api/v1/polls/{id}/votes'', Bearer (\<lambda>vs r a. on_sys (postPollVotes r a))),
      (''GET'', ''/api/v1/filters'', Bearer (\<lambda>vs r a. on_sys (getFiltersV1 api r a))),
      (''POST'', ''/api/v1/filters'', Bearer (\<lambda>vs r a. on_sys (postFilters api t r a))),
      (''GET'', ''/api/v1/filters/{id}'', Bearer (\<lambda>vs r a. on_sys (getFilterByID api (pv vs) r a))),
      (''PUT'', ''/api/v1/filters/{id}'', Bearer (\<lambda>vs r a. on_sys (putFilterByID api t (pv vs) r a))),
      (''DELETE'', ''/api/v1/filters/{id}'', Bearer (\<lambda>vs r a. on_sys (deleteFilterByID api (pv vs) r a)))]"

text \<open>Discovery, notifications, markers and announcements.\<close>

definition notice_routes :: "('pub, 'priv, 'w) api \<Rightarrow> ('w, 'b) route list" where
  "notice_routes api =
     [(''GET'', ''/api/v1/search'', Open (\<lambda>vs r. on_sys (getSearchV1 api r))),
      (''GET'', ''/api/v1/directory'', Open (\<lambda>vs r. on_sys (getDirectory r))),
      (''GET'', ''/api/v1/suggestions'', Open (\<lambda>vs r. on_sys (getSuggestionsV1 r))),
      (''GET'', ''/api/v1/streaming'', Open (\<lambda>vs r. on_sys (getStreaming r))),
      (''GET'', ''/api/v1/notifications'', Bearer (\<lambda>vs r a. on_sys (getNotifications r a))),
      (''GET'', ''/api/v1/notifications/unread_count'', Bearer (\<lambda>vs r a. on_sys (getNotificationsUnreadCount r a))),
      (''POST'', ''/api/v1/notifications/clear'', Bearer (\<lambda>vs r a. on_sys (postNotificationsClear r a))),
      (''POST'', ''/api/v1/notifications/dismiss'', Bearer (\<lambda>vs r a. on_sys (postNotificationsDismiss r a))),
      (''POST'', ''/api/v1/notifications/{id}/dismiss'', Bearer (\<lambda>vs r a. on_sys (postNotificationDismissByID r a))),
      (''GET'', ''/api/v1/notifications/{id}'', Bearer (\<lambda>vs r a. on_sys (getNotificationByID r a))),
      (''GET'', ''/api/v1/markers'', Bearer (\<lambda>vs r a. on_sys (getMarkers r a))),
      (''POST'', ''/api/v1/markers'', Bearer (\<lambda>vs r a. on_sys (postMarkers r a))),
      (''GET'', ''/api/v1/preferences'', Bearer (\<lambda>vs r a. on_sys (getPreferences r a))),
      (''GET'', ''/api/v1/custom_emojis'', Open (\<lambda>vs r. on_sys (getCustomEmojis r))),
      (''GET'', ''/api/v1/announcements'', Open (\<lambda>vs r. on_sys (getAnnouncements r))),
      (''POST'', ''/api/v1/announcements/{id}/dismiss'', Bearer (\<lambda>vs r a. on_sys (postAnnouncementDismiss r a))),
      (''DELETE'', ''/api/v1/announcements/{id}/dismiss'', Bearer (\<lambda>vs r a. on_sys (deleteAnnouncementDismiss r a)))]"

text \<open>The rest.\<close>

definition other_routes :: "('pub, 'priv, 'w) api \<Rightarrow> ('w, 'b) route list" where
  "other_routes api =
     [(''GET'', ''/api/v1/follow_requests'', Open (\<lambda>vs r. on_sys (v1StubGETEmptyArray r))),
      (''POST'', ''/api/v1/follow_requests/{id}/authorize'', Bearer (\<lambda>vs r a. on_sys (postFollowRequestAuthorize r a))),
      (''POST'', ''/api/v1/follow_requests/{id}/reject'', Bearer (\<lambda>vs r a. on_sys (postFollowRequestReject r a))),
      (''GET'', ''/api/v1/favourites'', Bearer (\<lambda>vs r a. on_sys (getFavourites api r a))),
      (''GET'', ''/api/v1/bookmarks'', Bearer (\<lambda>vs r a. on_sys (getBookmarks api r a))),
      (''GET'', ''/api/v1/mutes'', Bearer (\<lambda>vs r a. on_sys (v1StubBearerEmptyArray r a))),
      (''GET'', ''/api/v1/blocks'', Bearer (\<lambda>vs r a. on_sys (v1StubBearerEmptyArray r a))),
      (''GET'', ''/api/v1/domain_blocks'', Open (\<lambda>vs r. on_sys (v1StubGETEmptyArray r))),
      (''GET'', ''/api/v1/trends/tags'', Open (\<lambda>vs r. on_sys (v1StubGETEmptyArray r))),
      (''GET'', ''/api/v1/trends/statuses'', Open (\<lambda>vs r. on_sys (v1StubGETEmptyArray r))),
      (''GET'', ''/api/v1/trends/links'', Open (\<lambda>vs r. on_sys (v1StubGETEmptyArray r))),
      (''GET'', ''/api/v1/push/subscription'', Bearer (\<lambda>vs r a. on_sys (getPushSubscription r a))),
      (''POST'', ''/api/v1/push/subscription'', Bearer (\<lambda>vs r a. on_sys (postPushSubscription r a))),
      (''PUT'', ''/api/v1/push/subscription'', Bearer (\<lambda>vs r a. on_sys (putPushSubscription r a))),
      (''DELETE'', ''/api/v1/push/subscription'', Bearer (\<lambda>vs r a. on_sys (deletePushSubscription r a))),
      (''GET'', ''/api/v1/scheduled_statuses'', Bearer (\<lambda>vs r a. on_sys (getScheduledStatuses r a))),
      (''POST'', ''/api/v1/scheduled_statuses'', Bearer (\<lambda>vs r a. on_sys (postScheduledStatuses r a))),
      (''GET'', ''/api/v1/scheduled_statuses/{id}'', Bearer (\<lambda>vs r a. on_sys (getScheduledStatus r a))),
      (''PUT'', ''/api/v1/scheduled_statuses/{id}'', Bearer (\<lambda>vs r a. on_sys (putScheduledStatus r a))),
      (''DELETE'', ''/api/v1/scheduled_statuses/{id}'', Bearer (\<lambda>vs r a. on_sys (deleteScheduledStatus r a))),
      (''GET'', ''/api/v1/conversations'', Open (\<lambda>vs r. on_sys (getConversations api r))),
      (''POST'', ''/api/v1/conversations/read'', Bearer (\<lambda>vs r a. on_sys (postConversationsReadBulk r a))),
      (''GET'', ''/api/v1/conversations/{id}'', Bearer (\<lambda>vs r a. on_sys (getConversationByID api (pv vs) r a))),
      (''DELETE'', ''/api/v1/conversations/{id}'', Bearer (\<lambda>vs r a. on_sys (deleteConversation r a))),
      (''POST'', ''/api/v1/conversations/{id}/read'', Bearer (\<lambda>vs r a. on_sys (postConversationReadByID r a))),
      (''POST'', ''/api/v1/reports'', Bearer (\<lambda>vs r a. on_sys (postReports r a))),
      (''GET'', ''/api/v1/followed_tags'', Open (\<lambda>vs r. on_sys (v1StubGETEmptyArray r))),
      (''POST'', ''/api/v1/featured_tags'', Bearer (\<lambda>vs r a. on_sys (postFeaturedTag r a))),
      (''DELETE'', ''/api/v1/featured_tags/{id}'', Bearer (\<lambda>vs r a. on_sys (deleteFeaturedTag r a))),
      (''GET'', ''/api/v1/endorsements'', Open (\<lambda>vs r. on_sys (v1StubGETEmptyArray r))),
      (''GET'', ''/api/v1/featured_tags'', Open (\<lambda>vs r. on_sys (v1StubGETEmptyArray r)))]"

definition admin_routes :: "('w, 'b) route list" where
  "admin_routes = map (\<lambda>m. (m, ''/api/v1/admin/{path...}'', Open (\<lambda>vs r. on_sys (v1ForbiddenAdmin r))))
     [''GET'', ''HEAD'', ''POST'', ''PUT'', ''PATCH'', ''DELETE'', ''OPTIONS'']"

definition mountMastodon ::
  "('pub, 'priv, 'w) api \<Rightarrow> part_parser \<Rightarrow> 'b blob_store option \<Rightarrow> (nat \<Rightarrow> string) \<Rightarrow> int \<Rightarrow> ('w, 'b) route list" where
  "mountMastodon api parser blobs rnd t =
     session_routes api rnd t @ account_routes api rnd @ status_routes api rnd @ notice_routes api @
     list_routes api parser blobs rnd t @ other_routes api @ admin_routes"

text \<open>\<^verbatim>\<open>aphttp.Mount\<close>.\<close>

definition Mount ::
  "('pub, 'priv, 'w) handler \<Rightarrow> 'b blob_store option \<Rightarrow> (nat \<Rightarrow> string) \<Rightarrow> ('w, 'b) route list" where
  "Mount h blobs rnd =
     [(''GET'', ''/.well-known/webfinger'', Open (\<lambda>vs r. on_sys (WebFinger h r))),
      (''GET'', ''/.well-known/host-meta'', Open (\<lambda>vs r. on_sys (HostMeta r))),
      (''GET'', ''/.well-known/nodeinfo'', Open (\<lambda>vs r. on_sys (NodeInfoDiscovery r))),
      (''GET'', ''/nodeinfo/2.0'', Open (\<lambda>vs r. on_sys (NodeInfo20 h r))),
      (''GET'', ''/.well-known/actor'', Open (\<lambda>vs r. on_sys (GetInstanceActor h r))),
      (''GET'', ''/actor'', Open (\<lambda>vs r. on_sys (RedirectInstanceActorAlias r))),
      (''POST'', ''/media'', Open (\<lambda>vs r. PostMediaUpload blobs (rnd 0) r)),
      (''GET'', ''/media/{key...}'', Open (\<lambda>vs r. GetMedia blobs (path_value vs ''key'') r)),
      (''POST'', ''/inbox'', Open (\<lambda>vs r. on_sys (SharedInbox h r))),
      (''POST'', ''/users/{username}/inbox'', Open (\<lambda>vs r. on_sys (LegacyUsersPathInbox h (path_value vs ''username'') r))),
      (''GET'', ''/{path...}'', Open (\<lambda>vs r. on_sys (GetActivityOrObject h r)))]"

definition ok_text :: reply where
  "ok_text = \<lparr>rp_status = 200, rp_type = ''text/plain; charset=utf-8'', rp_location = [], rp_body = Text ''ok''\<rparr>"

definition Health :: "incoming \<Rightarrow> ('w sys, reply) eff" where
  "Health r = ret ok_text"

text \<open>\<open>None\<close> is an interface without a store in it; otherwise what the ping of the store gives.\<close>

definition Ready :: "(err + unit) option \<Rightarrow> incoming \<Rightarrow> ('w sys, reply) eff" where
  "Ready ping r =
     (case ping of
        None \<Rightarrow> ret ok_text
      | Some (Inl _) \<Rightarrow> ret (http_error 503 ''db down'')
      | Some (Inr _) \<Rightarrow> ret ok_text)"

text \<open>
  \<^verbatim>\<open>apd\<close> passes its pointer to \<^verbatim>\<open>Ready\<close> also when it is nil: the interface is not nil then, and the
  method dereferences the pointer.
\<close>

definition nil_dereference :: err where
  "nil_dereference = Msg ''invalid memory address or nil pointer dereference''"

definition apd_ready :: "('pub, 'priv, 'w) handler \<Rightarrow> err + unit \<Rightarrow> incoming \<Rightarrow> ('w sys, reply) eff" where
  "apd_ready h ping r = (if hd_store h then Ready (Some ping) r else fail nil_dereference)"

definition apd_routes ::
  "('pub, 'priv, 'w) api \<Rightarrow> part_parser \<Rightarrow> 'b blob_store option \<Rightarrow> err + unit \<Rightarrow> (nat \<Rightarrow> string) \<Rightarrow> int \<Rightarrow> ('w, 'b) route list" where
  "apd_routes api parser blobs ping rnd t =
     [(''GET'', ''/health/live'', Open (\<lambda>vs r. on_sys (Health r))),
      (''GET'', ''/health/ready'', Open (\<lambda>vs r. on_sys (apd_ready (sv_h api) ping r)))] @
     Mount (sv_h api) blobs rnd @ (if hd_store (sv_h api) then mountMastodon api parser blobs rnd t else [])"

section \<open>The wrappers\<close>

definition WithAtPaths ::
  "('pub, 'priv, 'w) handler \<Rightarrow> (incoming \<Rightarrow> (('w, 'b) site, reply) eff) \<Rightarrow> incoming \<Rightarrow> (('w, 'b) site, reply) eff" where
  "WithAtPaths h next_handler r = site_cfg (\<lambda>cfg.
     case tryServeAtPath h cfg r of Some m \<Rightarrow> on_sys m | None \<Rightarrow> next_handler r)"

definition WithLegacy ::
  "('pub, 'priv, 'w) handler \<Rightarrow> (incoming \<Rightarrow> (('w, 'b) site, reply) eff) \<Rightarrow> incoming \<Rightarrow> (('w, 'b) site, reply) eff" where
  "WithLegacy h next_handler r = site_cfg (\<lambda>cfg.
     case tryLegacyOutbox h cfg r of Some rp \<Rightarrow> ret rp | None \<Rightarrow>
     (case tryLegacyUserProfile h cfg r of Some rp \<Rightarrow> ret rp | None \<Rightarrow> next_handler r))"

text \<open>The handler of the server: the headers of CORS and the reply.\<close>

definition apd_handler ::
  "('pub, 'priv, 'w) api \<Rightarrow> part_parser \<Rightarrow> 'b blob_store option \<Rightarrow> err + unit \<Rightarrow> (nat \<Rightarrow> string) \<Rightarrow> int \<Rightarrow> incoming \<Rightarrow>
   (('w, 'b) site, (string \<times> string) list \<times> reply) eff" where
  "apd_handler api parser blobs ping rnd t r = site_cfg (\<lambda>cfg.
     WithCORS (CORSAllowOrigins cfg)
       (WithLegacy (sv_h api) (WithAtPaths (sv_h api) (ServeMux (apd_routes api parser blobs ping rnd t)))) r)"

end
