(* ===== verification/ServerFacts.thy ===== *)
theory ServerFacts
  imports Server
begin

text \<open>
  What holds of the server as a whole: the schema is kept by every request, and the client API writes
  nothing without a token.
\<close>

section \<open>The tables of the client keep the schema\<close>

text \<open>A change outside the tables that \<open>db_wf\<close> speaks of.\<close>

definition same_core :: "db \<Rightarrow> db \<Rightarrow> bool" where
  "same_core d d' \<longleftrightarrow>
     d_actors d' = d_actors d \<and> d_activities d' = d_activities d \<and> d_objects d' = d_objects d \<and> d_follows d' = d_follows d \<and>
     d_likes d' = d_likes d \<and> d_announces d' = d_announces d \<and> d_blocks d' = d_blocks d \<and> d_bookmarks d' = d_bookmarks d \<and>
     d_accounts d' = d_accounts d \<and> d_jobs d' = d_jobs d \<and>
     (\<forall>t \<in> {TActors, TActivities, TFollows, TJobs}. d_seq d' t = d_seq d t)"

lemma same_core_wf: "same_core d d' \<Longrightarrow> db_wf d \<Longrightarrow> db_wf d'"
  by (simp add: same_core_def db_wf_def actor_ids_def activity_ids_def)

lemma statement_core:
  "(\<And>d x d'. f d = Inr (x, d') \<Longrightarrow> same_core d d') \<Longrightarrow> preserves db_wf (statement f)"
  by (rule preserves_statement) (blast intro: same_core_wf)

lemma client_tables_wf [preserved]:
  "preserves db_wf (InsertOAuthApplication r1 r2 n u w sc)" "preserves db_wf (InsertAuthorizationCode rnd t ap a u sc ch cm)"
  "preserves db_wf (ConsumeAuthorizationCode c u)" "preserves db_wf (insert_token rnd ap ao sc)"
  "preserves db_wf (InsertMastodonList a tt)" "preserves db_wf (UpdateMastodonListTitle i a tt)" "preserves db_wf (DeleteMastodonList i a)"
  "preserves db_wf (AddMastodonListMember i a b)" "preserves db_wf (RemoveMastodonListMember i a b)"
  "preserves db_wf (InsertMastodonFilter a ph whole irr ex c')" "preserves db_wf (UpdateMastodonFilter i a ph whole irr ex c')"
  "preserves db_wf (DeleteMastodonFilter i a)" "preserves db_wf (InsertMastodonMedia a k ct n' ds se st)"
  "preserves db_wf (UpdateMastodonMediaMetadata i a ds' se')"
  unfolding InsertOAuthApplication_def InsertAuthorizationCode_def ConsumeAuthorizationCode_def insert_token_def InsertMastodonList_def
    UpdateMastodonListTitle_def DeleteMastodonList_def AddMastodonListMember_def RemoveMastodonListMember_def InsertMastodonFilter_def
    UpdateMastodonFilter_def DeleteMastodonFilter_def InsertMastodonMedia_def UpdateMastodonMediaMetadata_def
    UpdateMastodonMediaDescription_def update_media_def Let_def
  by (intro preserved preserves_basic statement_core;
      auto simp: same_core_def nextval_def bind_res_ok split: if_splits prod.splits)+

section \<open>Handlers that only read\<close>

lemma on_db_reads: "(\<And>Q. preserves Q m) \<Longrightarrow> preserves P (on_db m)"
proof -
  assume m: "\<And>Q. preserves Q m"
  have "snd (m d) = d" for d using m [of "\<lambda>x. x = d"] by (simp add: preserves_def)
  then show ?thesis by (simp add: preserves_def on_db_apply)
qed

lemma more_queries_keep [preserved]:
  "preserves P (ListMastodonLists i)" "preserves P (GetMastodonList i j)" "preserves P (ListMastodonListMemberActorIDs i j)"
  "preserves P (ListMastodonFiltersForActor i)" "preserves P (GetMastodonFilter i j)" "preserves P (GetMastodonMediaForActor i j)"
  "preserves P (ListRecentCreateActivitiesForActor i k)" "preserves P (ListRecentPublicCreateActivities u k)"
  "preserves P (ListRecentCreatesForMemberActors is u k)" "preserves P (ListRecentDirectCreatesInvolvingActor i u k)"
  "preserves P (ActorProfileByID i)" "preserves P (FollowersPage i k x y)" "preserves P (FollowingPage i k x y)"
  "preserves P (LookupActiveFollowForUndo i j)"
  unfolding ListMastodonLists_def GetMastodonList_def ListMastodonListMemberActorIDs_def ListMastodonFiltersForActor_def
    GetMastodonFilter_def GetMastodonMediaForActor_def ListRecentCreateActivitiesForActor_def ListRecentPublicCreateActivities_def
    ListRecentCreatesForMemberActors_def ListRecentDirectCreatesInvolvingActor_def ActorProfileByID_def FollowersPage_def
    FollowingPage_def LookupActiveFollowForUndo_def Let_def
  by (intro preserved)+

lemma conversations_keep [preserved]: "preserves P (conversations api rows viewer)"
  by (induction api rows viewer rule: conversations.induct) (auto intro!: preserved)

lemma timeline_keeps [preserved]: "preserves P (timeline api viewer c rows)"
  unfolding timeline_def by (intro preserved on_db_reads)

named_theorems reading

lemma status_reads [reading]:
  "preserves P (getStatus api rid r)" "preserves P (getStatusContext api rid r)"
  "preserves P (getStatusSocialAccounts api likes rid r)" "preserves P (getBookmarks api r a)" "preserves P (getFavourites api r a)"
  "preserves P (getTimelineHome api r a)" "preserves P (getTimelinePublic api r)" "preserves P (getTimelineList api rid r a)"
  "preserves P (getAccountStatuses api rid r)" "preserves P (getConversations api r)" "preserves P (getConversationByID api rid r a)"
  unfolding getStatus_def getStatusContext_def getStatusSocialAccounts_def getBookmarks_def getFavourites_def with_status_def
    getTimelineHome_def getTimelinePublic_def getTimelineList_def getAccountStatuses_def getConversations_def
    getConversationByID_def Let_def
  by (intro preserved on_db_reads)+

lemma action_reads [reading]: "preserves P (postStatusActionNotFound r a)"
  unfolding postStatusActionNotFound_def by (intro preserved)

lemma account_reads [reading]:
  "preserves P (getVerifyCredentials api r a)" "preserves P (patchAccountUpdateCredentials api r a)" "preserves P (getAccount api rid r)"
  "preserves P (getAccountRelationships r a)" "preserves P (getAccountFollowers api rid r)" "preserves P (getAccountFollowing api rid r)"
  unfolding getVerifyCredentials_def patchAccountUpdateCredentials_def getAccount_def getAccountRelationships_def
    getAccountFollowers_def getAccountFollowing_def writeAccountRelationPage_def Let_def
  by (intro preserved on_db_reads)+

lemma list_reads [reading]:
  "preserves P (getLists api r a)" "preserves P (getListByID api rid r a)" "preserves P (getListAccounts api rid r a)"
  "preserves P (getFiltersV1 api r a)" "preserves P (getFiltersV2 api r a)" "preserves P (getFilterByID api rid r a)"
  "preserves P (getAPIMedia api rid r a)"
  unfolding getLists_def getListByID_def getListAccounts_def get_list_def writeListAccountsPayload_def getFiltersV1_def getFiltersV2_def
    getFilterByID_def get_filter_def getAPIMedia_def
  by (intro preserved on_db_reads)+

lemma misc_reads [reading]:
  "preserves P (getInstance r)" "preserves P (getInstanceV2 r)" "preserves P (getInstanceExtendedDescription r)"
  "preserves P (getOAuthAuthorizationServer r)" "preserves P (getTag x r)" "preserves P (postTagFollow x r a)"
  "preserves P (postTagUnfollow x r a)" "preserves P (v1StubBearerEmptyObject r a)" "preserves P (v1ForbiddenAdmin r)"
  "preserves P (getInstancePeers r)" "preserves P (getInstanceActivity r)" "preserves P (getInstanceRules r)"
  "preserves P (getInstanceTranslationLanguages r)" "preserves P (getInstanceDomainBlocks r)" "preserves P (getMarkers r a)"
  "preserves P (postMarkers r a)" "preserves P (getNotifications r a)" "preserves P (getNotificationsUnreadCount r a)"
  "preserves P (getNotificationByID r a)" "preserves P (postNotificationsClear r a)" "preserves P (postNotificationsDismiss r a)"
  "preserves P (postNotificationDismissByID r a)" "preserves P (getPoll r)" "preserves P (postPollVotes r a)"
  "preserves P (getPushSubscription r a)" "preserves P (postPushSubscription r a)" "preserves P (putPushSubscription r a)"
  "preserves P (deletePushSubscription r a)" "preserves P (deleteConversation r a)" "preserves P (postConversationsReadBulk r a)"
  "preserves P (postConversationReadByID r a)" "preserves P (postFollowRequestAuthorize r a)"
  "preserves P (postFollowRequestReject r a)" "preserves P (postReports r a)" "preserves P (getStreaming r)"
  "preserves P (getScheduledStatuses r a)" "preserves P (postScheduledStatuses r a)" "preserves P (getScheduledStatus r a)"
  "preserves P (putScheduledStatus r a)" "preserves P (deleteScheduledStatus r a)" "preserves P (postAnnouncementDismiss r a)"
  "preserves P (deleteAnnouncementDismiss r a)" "preserves P (getFamiliarFollowers r a)" "preserves P (getDirectory r)"
  "preserves P (getSuggestionsV1 r)" "preserves P (postAccountPin r a)" "preserves P (postAccountUnpin r a)"
  "preserves P (postStatusTranslateStub r a)" "preserves P (postFeaturedTag r a)" "preserves P (deleteFeaturedTag r a)"
  "preserves P (v1StubGETEmptyArray r)" "preserves P (v1StubBearerEmptyArray r a)" "preserves P (getCustomEmojis r)"
  "preserves P (getAnnouncements r)" "preserves P (getPreferences r a)"
  unfolding
    getInstance_def getInstanceV2_def getInstanceExtendedDescription_def getOAuthAuthorizationServer_def getTag_def
    postTagFollow_def postTagUnfollow_def v1StubBearerEmptyObject_def v1ForbiddenAdmin_def getInstancePeers_def
    getInstanceActivity_def getInstanceRules_def getInstanceTranslationLanguages_def getInstanceDomainBlocks_def getMarkers_def
    postMarkers_def getNotifications_def getNotificationsUnreadCount_def getNotificationByID_def postNotificationsClear_def
    postNotificationsDismiss_def postNotificationDismissByID_def getPoll_def postPollVotes_def getPushSubscription_def
    postPushSubscription_def putPushSubscription_def deletePushSubscription_def deleteConversation_def
    postConversationsReadBulk_def postConversationReadByID_def postFollowRequestAuthorize_def postFollowRequestReject_def
    postReports_def getStreaming_def getScheduledStatuses_def postScheduledStatuses_def getScheduledStatus_def
    putScheduledStatus_def deleteScheduledStatus_def postAnnouncementDismiss_def deleteAnnouncementDismiss_def
    getFamiliarFollowers_def getDirectory_def getSuggestionsV1_def postAccountPin_def postAccountUnpin_def
    postStatusTranslateStub_def postFeaturedTag_def deleteFeaturedTag_def v1StubGETEmptyArray_def v1StubBearerEmptyArray_def
    getCustomEmojis_def getAnnouncements_def getPreferences_def instance_reply_def tag_reply_def stub_def Let_def
  by (intro preserved)+

text \<open>The endpoints of sessions that write nothing.\<close>

lemma session_queries_keep [preserved]:
  "preserves P (OAuthApplicationByClientID c)" "preserves P (AuthenticateLocalAccount bc host u pw)"
  unfolding OAuthApplicationByClientID_def AuthenticateLocalAccount_def LocalActorIDForInstanceUsernameCI_def Let_def
  by (intro preserved)+

lemma session_reads [reading]:
  "preserves P (getOAuthAuthorize r)" "preserves P (postOAuthRevoke r)"
  unfolding getOAuthAuthorize_def postOAuthRevoke_def Let_def
  by (intro preserved on_db_reads)+

section \<open>Handlers that write\<close>

text \<open>A case distinction on the value that a transaction ends with.\<close>

lemma commit_keeps [preserved]: "preserves P m \<Longrightarrow> preserves P (commit_if_ok m)"
  by (auto simp: preserves_def commit_if_ok_def split: prod.splits sum.splits)

lemma session_writes_wf:
  "preserves (db_inv db_wf) (postApps sv r1 r2 r)" "preserves (db_inv db_wf) (postOAuthAuthorize sv rnd t r)"
  "preserves (db_inv db_wf) (postOAuthToken sv rnd t r)"
  unfolding postApps_def postOAuthAuthorize_def postOAuthToken_def postOAuthTokenAuthorizationCode_def
    postOAuthTokenClientCredentials_def answer_token_def client_app_def exchange_code_def credentials_token_def
    InsertAccessTokenTx_def InsertAppAccessTokenTx_def Let_def
  by (intro preserved)+

lemma list_writes_wf:
  "preserves (db_inv db_wf) (postLists api r a)" "preserves (db_inv db_wf) (putListByID api rid r a)"
  "preserves (db_inv db_wf) (deleteListByID api rid r a)" "preserves (db_inv db_wf) (postListAccountsAdd api rid r a)"
  "preserves (db_inv db_wf) (deleteListAccountMember api rid raid r a)" "preserves (db_inv db_wf) (postFilters api t r a)"
  "preserves (db_inv db_wf) (putFilterByID api t rid r a)" "preserves (db_inv db_wf) (deleteFilterByID api rid r a)"
  "preserves (db_inv db_wf) (putAPIMedia api rid r a)"
  unfolding postLists_def putListByID_def get_list_def deleteListByID_def delete_reply_def postListAccountsAdd_def add_member_def
    deleteListAccountMember_def writeListAccountsPayload_def postFilters_def putFilterByID_def get_filter_def deleteFilterByID_def
    putAPIMedia_def
  by (intro preserved)+

lemma publish_wf:
  assumes "api_keeps db_wf api" "preserves (db_inv db_wf) k"
  shows "preserves (db_inv db_wf) (publish api u act k)"
  unfolding publish_def api_handler_def
  using assms by (intro preserved PublishLocalActivityBytes_wf) (simp_all add: api_keeps_def)

lemma status_writes_wf:
  assumes "api_keeps db_wf api"
  shows "preserves (db_inv db_wf) (postStatuses api r1 r2 r a)" "preserves (db_inv db_wf) (postAccountFollow api r1 rid r a)"
    "preserves (db_inv db_wf) (postAccountUnfollow api r1 rid r a)"
  unfolding postStatuses_def postAccountFollow_def postAccountUnfollow_def with_own_account_def Let_def
  by (intro preserved publish_wf [OF assms])+

lemma on_net_keeps [preserved]: "preserves (db_inv P) (on_net m)"
  by (simp add: preserves_def on_net_apply db_inv_def)

lemma search_wf:
  "preserves (db_inv db_wf) (getAccountSearch api r)" "preserves (db_inv db_wf) (getAccountLookup api r)"
  "preserves (db_inv db_wf) (getSearchV1 api r)"
proof -
  have a: "preserves (db_inv db_wf) (accountFromActorURL api u)" for u
    unfolding accountFromActorURL_def Let_def by (intro preserved)
  have s: "preserves (db_inv db_wf) (getAccountSearch api r)" for r
    unfolding getAccountSearch_def remote_search_def Let_def by (intro preserved a)
  show "preserves (db_inv db_wf) (getAccountSearch api r)" by (rule s)
  show "preserves (db_inv db_wf) (getAccountLookup api r)" "preserves (db_inv db_wf) (getSearchV1 api r)"
    unfolding getAccountLookup_def getSearchV1_def Let_def
    by (auto split: json.splits list.splits body.splits if_splits intro!: preserved s)
qed

section \<open>The schema is kept by every request\<close>

definition site_inv :: "(db \<Rightarrow> bool) \<Rightarrow> ('w, 'b) site \<Rightarrow> bool" where
  "site_inv P s \<longleftrightarrow> P (s_db (st_sys s))"

lemma on_sys_keeps [preserved]: "preserves (db_inv P) m \<Longrightarrow> preserves (site_inv P) (on_sys m)"
  by (simp add: preserves_def on_sys_apply site_inv_def db_inv_def)

lemma on_blobs_keeps [preserved]: "preserves (site_inv P) (on_blobs m)"
  by (simp add: preserves_def on_blobs_apply site_inv_def)

lemma site_cfg_keeps [preserved]: "(\<And>c. preserves P (k c)) \<Longrightarrow> preserves P (site_cfg k)"
  by (simp add: preserves_def site_cfg_def)

lemma media_wf [preserved]:
  "preserves (site_inv db_wf) (handleMediaPost api parser blobs rnd v2 r a)" "preserves (site_inv P) (PostMediaUpload blobs rnd r)"
  "preserves (site_inv P) (GetMedia blobs k r)"
  unfolding handleMediaPost_def PostMediaUpload_def GetMedia_def Let_def
  by (intro preserved)+

text \<open>What a route must do, whatever the path and the account.\<close>

definition route_keeps :: "(('w, 'b) site \<Rightarrow> bool) \<Rightarrow> ('w, 'b) route \<Rightarrow> bool" where
  "route_keeps P rt \<longleftrightarrow>
     (case snd (snd rt) of Open f \<Rightarrow> \<forall>vs r. preserves P (f vs r) | Bearer f \<Rightarrow> \<forall>vs r a. preserves P (f vs r a))"

lemma route_keepsI:
  "(\<And>vs r. preserves (db_inv P) (f vs r)) \<Longrightarrow> route_keeps (site_inv P) (m, p, Open (\<lambda>vs r. on_sys (f vs r)))"
  "(\<And>vs r a. preserves (db_inv P) (g vs r a)) \<Longrightarrow> route_keeps (site_inv P) (m, p, Bearer (\<lambda>vs r a. on_sys (g vs r a)))"
  "(\<And>vs r. preserves (site_inv P) (f' vs r)) \<Longrightarrow> route_keeps (site_inv P) (m, p, Open f')"
  "(\<And>vs r a. preserves (site_inv P) (g' vs r a)) \<Longrightarrow> route_keeps (site_inv P) (m, p, Bearer g')"
  by (simp_all add: route_keeps_def on_sys_keeps)

lemma best_match_in: "best_match rts meth ss found = Some rt \<Longrightarrow> found = Some rt \<or> rt \<in> set rts \<and> fst rt = meth \<and>
    match_segs (pattern_segs (fst (snd rt))) ss \<noteq> None"
  by (induction rts meth ss found rule: best_match.induct) (auto split: if_splits)

lemma find_route_in:
  "find_route rts meth p = Some rt \<Longrightarrow> rt \<in> set rts \<and> (fst rt = meth \<or> meth = ''HEAD'' \<and> fst rt = ''GET'') \<and>
    match_segs (pattern_segs (fst (snd rt))) (path_segs p) \<noteq> None"
  by (auto simp: find_route_def split: option.splits if_splits dest!: best_match_in)

lemma actorIDFromBearer_reads: "preserves P (on_sys (on_db (actorIDFromBearer r)))"
proof -
  have q: "snd (actorIDFromBearer r d) = d" for d
    using preservesD [OF queries_keep(13), of "\<lambda>x. x = d" d] by simp
  show ?thesis by (simp add: preserves_def on_sys_apply on_db_apply q)
qed

lemma run_endpoint_keeps: "route_keeps P rt \<Longrightarrow> preserves P (run_endpoint (snd (snd rt)) vs r)"
  by (cases "snd (snd rt)")
     (auto simp: run_endpoint_def route_keeps_def split: option.split intro!: preserves_bind actorIDFromBearer_reads preserves_basic)

lemma ServeMux_keeps: "list_all (route_keeps P) rts \<Longrightarrow> preserves P (ServeMux rts r)"
proof -
  assume a: "list_all (route_keeps P) rts"
  have "preserves P (run_endpoint e vs r)" if "find_route rts meth p = Some (m, pat, e)" for meth p m pat e vs
    using run_endpoint_keeps [of P "(m, pat, e)"] a find_route_in [OF that] by (auto simp: list_all_iff)
  then show ?thesis
    unfolding ServeMux_def Let_def by (auto intro!: preserves_basic split: option.split)
qed

lemma routes_keep_intros:
  "list_all Q []" "Q x \<Longrightarrow> list_all Q xs \<Longrightarrow> list_all Q (x # xs)"
  by simp_all

lemma session_routes_keep: "list_all (route_keeps (site_inv db_wf)) (session_routes api rnd t)"
  unfolding session_routes_def
  by (intro routes_keep_intros route_keepsI(1,2) reading session_writes_wf search_wf)

lemma account_routes_keep:
  "api_keeps db_wf api \<Longrightarrow> list_all (route_keeps (site_inv db_wf)) (account_routes api rnd)"
  unfolding account_routes_def
  by (intro routes_keep_intros route_keepsI(1,2) reading search_wf status_writes_wf)

lemma status_routes_keep:
  "api_keeps db_wf api \<Longrightarrow> list_all (route_keeps (site_inv db_wf)) (status_routes api rnd)"
  unfolding status_routes_def
  by (intro routes_keep_intros route_keepsI(1,2) reading status_writes_wf wf_post.like_keeps wf_post.reblog_keeps
      wf_post.bookmark_keeps wf_post.delete_keeps)

lemma upload_route_keeps:
  "route_keeps (site_inv db_wf) (m, p, Bearer (\<lambda>vs r a. first_reply (postAPIMedia api parser blobs rnd r a)))"
  "route_keeps (site_inv db_wf) (m, p, Bearer (\<lambda>vs r a. first_reply (postAPIMediaV2 api parser blobs rnd r a)))"
  unfolding first_reply_def postAPIMedia_def postAPIMediaV2_def by (intro route_keepsI(4) preserved)+

lemma list_routes_keep: "list_all (route_keeps (site_inv db_wf)) (list_routes api parser blobs rnd t)"
  unfolding list_routes_def
  by (intro routes_keep_intros upload_route_keeps route_keepsI(1,2) reading list_writes_wf)

lemma other_routes_keep:
  "list_all (route_keeps (site_inv db_wf)) (notice_routes api)" "list_all (route_keeps (site_inv db_wf)) (other_routes api)"
  unfolding notice_routes_def other_routes_def
  by (intro routes_keep_intros route_keepsI(1,2) reading search_wf)+

lemma mountMastodon_keeps:
  "api_keeps db_wf api \<Longrightarrow> list_all (route_keeps (site_inv db_wf)) (mountMastodon api parser blobs rnd t)"
  unfolding mountMastodon_def admin_routes_def list_all_append list.map
  by (intro conjI session_routes_keep account_routes_keep status_routes_keep list_routes_keep other_routes_keep
      routes_keep_intros route_keepsI(1) reading)

lemma ap_reads [reading]:
  "preserves (db_inv P) (WebFinger h r)" "preserves (db_inv P) (HostMeta r)" "preserves (db_inv P) (NodeInfoDiscovery r)"
  "preserves (db_inv P) (NodeInfo20 h r)" "preserves (db_inv P) (GetInstanceActor h r)" "preserves (db_inv P) (GetActivityOrObject h r)"
  "preserves (db_inv P) (GetLocalActor h hdl r)" "preserves (db_inv P) (GetOutbox h hdl r)"
  "preserves (db_inv P) (GetFollowersCollection h hdl r)" "preserves (db_inv P) (GetFollowingCollection h hdl r)"
  by (simp_all add: reads_keep)

lemma server_reads [reading]:
  "preserves P (RedirectInstanceActorAlias r)" "preserves P (Health r)" "preserves P (apd_ready h ping r)"
  unfolding RedirectInstanceActorAlias_def Health_def apd_ready_def Ready_def
  by (auto intro!: preserves_with_cfg preserves_basic split: option.split sum.split)

lemma api_queue: "api_keeps db_wf api \<Longrightarrow> queue_keeps db_wf (sv_h api)"
  by (auto simp: api_keeps_def queue_keeps_def impl_keeps_def)

lemma inbox_wf:
  "api_keeps db_wf api \<Longrightarrow> preserves (db_inv db_wf) (SharedInbox (sv_h api) r)"
  "api_keeps db_wf api \<Longrightarrow> preserves (db_inv db_wf) (LegacyUsersPathInbox (sv_h api) u r)"
  unfolding LegacyUsersPathInbox_def Let_def by (intro preserved SharedInbox_wf api_queue; assumption)+

lemma apd_routes_keep:
  "api_keeps db_wf api \<Longrightarrow> list_all (route_keeps (site_inv db_wf)) (apd_routes api parser blobs ping rnd t)"
  unfolding apd_routes_def Mount_def list_all_append
  by (intro conjI routes_keep_intros route_keepsI reading inbox_wf media_wf; simp add: mountMastodon_keeps)

lemma at_path_keeps:
  assumes "api_keeps db_wf api" "tryServeAtPath (sv_h api) cfg r = Some m"
  shows "preserves (db_inv db_wf) m"
proof -
  have o: "preserves (db_inv db_wf) (PostOutbox (sv_h api) hdl r)" for hdl
    using assms(1) by (intro PostOutbox_wf) (simp add: api_keeps_def)
  show ?thesis using assms(2)
    by (auto simp: tryServeAtPath_def Let_def intro!: preserves_basic inbox_wf(1) [OF assms(1)] o ap_reads
        split: if_splits option.splits)
qed

lemma WithCORS_keeps: "(\<And>r. preserves P (k r)) \<Longrightarrow> preserves P (WithCORS origins k r)"
  unfolding WithCORS_def Let_def by (intro preserved)


section \<open>What writes without a token\<close>

definition open_writes :: "(string \<times> string) list" where
  "open_writes =
     [(''POST'', ''/api/v1/apps''), (''POST'', ''/oauth/authorize''), (''POST'', ''/oauth/token''),
      (''GET'', ''/api/v1/accounts/search''), (''GET'', ''/api/v1/accounts/lookup''),
      (''GET'', ''/api/v1/search''), (''GET'', ''/api/v2/search''),
      (''POST'', ''/inbox''), (''POST'', ''/users/{username}/inbox'')]"

text \<open>
  An open route that is not among them keeps every condition on the database; one that is does so for a
  HEAD request, which a GET route gets too.
\<close>

definition open_route_reads :: "('w, 'b) route \<Rightarrow> bool" where
  "open_route_reads rt \<longleftrightarrow>
     (case snd (snd rt) of
        Open f \<Rightarrow> (\<forall>P vs r. (fst rt, fst (snd rt)) \<in> set open_writes \<and> (r_method r = ''HEAD'' \<longrightarrow> fst rt \<noteq> ''GET'') \<or>
          preserves (site_inv P) (f vs r))
      | Bearer f \<Rightarrow> True)"

lemma open_reads:
  "(\<And>P vs r. preserves (db_inv P) (f vs r)) \<Longrightarrow> open_route_reads (m, p, Open (\<lambda>vs r. on_sys (f vs r)))"
  "(\<And>P vs r. preserves (site_inv P) (f' vs r)) \<Longrightarrow> open_route_reads (m, p, Open f')"
  "open_route_reads (m, p, Bearer g)"
  "(m, p) \<in> set open_writes \<Longrightarrow> m \<noteq> ''GET'' \<Longrightarrow> open_route_reads (m, p, Open f')"
  by (simp_all add: open_route_reads_def on_sys_keeps)

text \<open>The searches check the method before anything else.\<close>

lemma search_method:
  "(m, p) \<in> set open_writes \<Longrightarrow> open_route_reads (m, p, Open (\<lambda>vs r. on_sys (getAccountSearch api r)))"
  "(m, p) \<in> set open_writes \<Longrightarrow> open_route_reads (m, p, Open (\<lambda>vs r. on_sys (getAccountLookup api r)))"
  "(m, p) \<in> set open_writes \<Longrightarrow> open_route_reads (m, p, Open (\<lambda>vs r. on_sys (getSearchV1 api r)))"
  by (auto simp: open_route_reads_def getAccountSearch_def getAccountLookup_def getSearchV1_def intro!: on_sys_keeps preserves_basic)

lemma open_writes_in:
  "(''POST'', ''/api/v1/apps'') \<in> set open_writes" "(''POST'', ''/oauth/authorize'') \<in> set open_writes"
  "(''POST'', ''/oauth/token'') \<in> set open_writes" "(''GET'', ''/api/v1/accounts/search'') \<in> set open_writes"
  "(''GET'', ''/api/v1/accounts/lookup'') \<in> set open_writes" "(''GET'', ''/api/v1/search'') \<in> set open_writes"
  "(''GET'', ''/api/v2/search'') \<in> set open_writes" "(''POST'', ''/inbox'') \<in> set open_writes"
  "(''POST'', ''/users/{username}/inbox'') \<in> set open_writes" "''POST'' \<noteq> ''GET''"
  by (simp_all add: open_writes_def)

lemmas open_intros = routes_keep_intros search_method open_writes_in open_reads(3,1)

lemma mountMastodon_open: "list_all open_route_reads (mountMastodon api parser blobs rnd t)"
proof -
  have "list_all open_route_reads (session_routes api rnd t)"
    unfolding session_routes_def by (intro open_intros open_reads(4) reading)
  moreover have "list_all open_route_reads (account_routes api rnd)"
    unfolding account_routes_def by (intro open_intros reading)
  moreover have "list_all open_route_reads (status_routes api rnd)"
    unfolding status_routes_def by (intro open_intros reading)
  moreover have "list_all open_route_reads (list_routes api parser blobs rnd t)"
    unfolding list_routes_def by (intro open_intros reading)
  moreover have "list_all open_route_reads (notice_routes api)" "list_all open_route_reads (other_routes api)"
    unfolding notice_routes_def other_routes_def by (intro open_intros reading)+
  moreover have "list_all open_route_reads admin_routes"
    unfolding admin_routes_def list.map by (intro open_intros reading)
  ultimately show ?thesis by (simp add: mountMastodon_def)
qed

lemma apd_routes_open: "list_all open_route_reads (apd_routes api parser blobs ping rnd t)"
proof -
  have "list_all open_route_reads (Mount (sv_h api) blobs rnd)"
    unfolding Mount_def by (intro open_intros open_reads(4) reading open_reads(2) media_wf)
  moreover have "list_all open_route_reads
      [(''GET'', ''/health/live'', Open (\<lambda>vs r. on_sys (Health r))), (''GET'', ''/health/ready'', Open (\<lambda>vs r. on_sys (apd_ready (sv_h api) ping r)))]"
    by (intro open_intros reading)
  ultimately show ?thesis by (simp add: apd_routes_def mountMastodon_open)
qed

text \<open>What the mux does without a token.\<close>

definition asks_open_write :: "incoming \<Rightarrow> bool" where
  "asks_open_write r \<longleftrightarrow>
     (\<exists>(m, p) \<in> set open_writes. r_method r = m \<and>
        match_segs (pattern_segs p) (path_segs (clean_path (url_escaped_path (r_url r)))) \<noteq> None)"

lemma ServeMux_no_token:
  assumes "list_all open_route_reads rts" "fst (actorIDFromBearer r (s_db (st_sys s))) = Inr None" "\<not> asks_open_write r"
  shows "s_db (st_sys (snd (ServeMux rts r s))) = s_db (st_sys s)"
proof -
  let ?p = "clean_path (url_escaped_path (r_url r))"
  have d: "snd (actorIDFromBearer r d) = d" for d
    using preservesD [OF queries_keep(13), of "\<lambda>x. x = d" d] by simp
  have "s_db (st_sys (snd (run_endpoint e vs r s))) = s_db (st_sys s)"
    if f: "find_route rts (r_method r) ?p = Some (m, pat, e)" for m pat e vs
  proof (cases e)
    case (Bearer g)
    then show ?thesis
      using assms(2) by (simp add: run_endpoint_def bind_apply on_sys_apply on_db_apply d eff_apply)
  next
    case (Open g)
    note in_rts = find_route_in [OF f, simplified]
    have "open_route_reads (m, pat, e)" using in_rts assms(1) by (auto simp: list_all_iff)
    moreover have "\<not> ((m, pat) \<in> set open_writes \<and> (r_method r = ''HEAD'' \<longrightarrow> m \<noteq> ''GET''))"
      using assms(3) in_rts by (auto simp: asks_open_write_def)
    ultimately have "preserves (site_inv (\<lambda>x. x = s_db (st_sys s))) (g vs r)" by (auto simp: open_route_reads_def Open)
    then show ?thesis by (auto simp: run_endpoint_def Open preserves_def site_inv_def)
  qed
  then show ?thesis unfolding ServeMux_def Let_def by (auto simp: eff_apply split: option.split)
qed

text \<open>
  C6: Without the token of an account no request changes the database, except the requests that
  register a client or issue codes and tokens, the searches, and the ones that deliver to an inbox or
  post to an outbox, which are signed or authorized otherwise.
\<close>

theorem token_needed:
  assumes "fst (actorIDFromBearer r (s_db (st_sys s))) = Inr None" "\<not> asks_open_write r"
    and "\<not> (has_prefix (u_path (r_url r)) ''/@'' \<and> r_method r = ''POST'')"
  shows "s_db (st_sys (snd (apd_handler api parser blobs ping rnd t r s))) = s_db (st_sys s)"
proof -
  let ?P = "site_inv (\<lambda>x. x = s_db (st_sys s))"
  have at: "preserves ?P (on_sys m)" if "tryServeAtPath (sv_h api) cfg r = Some m" for cfg m
    using that assms(3)
    by (auto simp: tryServeAtPath_def Let_def intro!: on_sys_keeps preserves_basic ap_reads split: if_splits option.splits)
  have mux: "?P (snd (ServeMux (apd_routes api parser blobs ping rnd t) r s))"
    using ServeMux_no_token [OF apd_routes_open assms(1,2)] by (simp add: site_inv_def)
  have s0: "?P s" by (simp add: site_inv_def)
  have "?P (snd (WithLegacy (sv_h api) (WithAtPaths (sv_h api) (ServeMux (apd_routes api parser blobs ping rnd t))) r s))"
    unfolding WithLegacy_def WithAtPaths_def site_cfg_def
    using mux s0 preservesD [OF at s0] by (auto simp: eff_apply split: option.split)
  then show ?thesis
    using s0 by (auto simp: apd_handler_def site_cfg_def WithCORS_def Let_def bind_apply eff_apply site_inv_def split: sum.split)
qed

section \<open>What a search writes\<close>

text \<open>
  A search that shows the actor of a profile URL replaces the public key that is stored for that
  actor, if it is known, by the text (search): of whatever actor, local ones included, and whoever asks.
  No other actor changes.
\<close>

theorem search_overwrites_key:
  assumes "accountFromActorURL api u s = (Inr m, s')" "CanonicalActorURL u \<noteq> []"
    and "a \<in> set (d_actors (s_db s))" "a_url a = trim_right_slash u"
  shows "d_actors (s_db s') = update_where (\<lambda>x. a_url x = trim_right_slash u) (\<lambda>x. x\<lparr>a_pem := ''(search)''\<rparr>) (d_actors (s_db s))"
proof -
  from assms(1,2) obtain i d' where "EnsureRemoteActor u ''(search)'' (s_db s) = (Inr i, d')" and s': "s_db s' = d'"
    by (cases "EnsureRemoteActor u ''(search)'' (s_db s)")
      (auto simp: accountFromActorURL_def Let_def bind_apply on_net_apply on_db_apply eff_apply split: sum.splits)
  then obtain row where r: "upsert_actor a_url actor_name remote_upd row (s_db s) = (Inr i, d')"
    and row: "\<And>i. a_url (row i) = trim_right_slash u" "\<And>i. a_pem (row i) = ''(search)''"
    by (auto simp: EnsureRemoteActor_def wrap_eff_ok eff_apply split: option.splits if_splits)
  have "find (\<lambda>x. a_url x = trim_right_slash u) (d_actors (s_db s)) \<noteq> None" using assms(3,4) by (auto simp: find_None_iff)
  then obtain old where "find (\<lambda>x. a_url x = trim_right_slash u) (d_actors (s_db s)) = Some old" by blast
  with upsert_actor_ok(1) [OF r] show ?thesis
    by (auto simp: upsert_on_def row s' remote_upd_def [abs_def] split: if_splits)
qed

end
