(* ===== verification/SampleApi.thy ===== *)
theory SampleApi
  imports SampleHttp ServerFacts
begin

text \<open>
  A client API to try its properties on: the server of \<open>SampleHttp\<close> with a database and
  a status of \<^verbatim>\<open>alice\<close>, an empty directory for blobs, and requests of clients.
\<close>

definition sample_api :: "(string, string, request list) api" where
  "sample_api = server.extend sample_server (api.fields True ''2024-01-02T03:04:05Z'' (\<lambda>_. ''2024-01-01T00:00:00Z'')
     (\<lambda>s. if s = ''direct'' then Some (JObj [(''status'', JStr ''hello''), (''visibility'', JStr ''direct''),
                                            (''direct_account_ids'', JArr [JNum ''2''])])
          else if s = ''list'' then Some (JObj [(''title'', JStr ''Friends'')]) else None)
     (\<lambda>_. True))"

lemma sample_api_parts [simp]:
  "sv_h sample_api = sample_handler" "api_pool sample_api" "server.truncate sample_api = sample_server"
  by (simp_all add: sample_api_def server.defs api.defs sample_server_def)

lemma sample_api_keeps: "api_keeps P sample_api"
  by (simp add: api_keeps_def impl_keeps_def sample_handler_def)

definition client_get :: "string \<Rightarrow> incoming" where
  "client_get u = with_body \<lparr>r_method = ''GET'', r_url = the (url_parse (''https://a.example'' @ u)), r_host = ''a.example'',
     r_header = (\<lambda>_. [])\<rparr> []"

definition json_body :: "string \<Rightarrow> string \<Rightarrow> incoming" where
  "json_body method b = with_body \<lparr>r_method = method, r_url = inbox_url, r_host = ''a.example'',
     r_header = (\<lambda>_. [])(''Content-Type'' := [''application/json''])\<rparr> b"

section \<open>A status\<close>

definition note_of_alice :: "string \<Rightarrow> json" where
  "note_of_alice vis = JObj [(''id'', JStr ''https://a.example/n/1''), (''type'', JStr ''Note''),
     (''attributedTo'', JStr ''https://a.example/@alice''), (''content'', JStr ''<p>hello bob</p>''),
     (noteVisibilityKey, JStr vis), (noteDirectRecipientsKey, JArr [JNum ''2''])]"

definition status_of_alice :: "string \<Rightarrow> activity_row" where
  "status_of_alice vis = \<lparr>v_id = 5, v_activity_id = ''https://a.example/c/5'', v_actor = 1, v_type = ''Create'',
     v_raw = JObj [(''type'', JStr ''Create''), (''object'', note_of_alice vis)], v_deleted = None\<rparr>"

definition spoiler_filter :: filter_row where
  "spoiler_filter = \<lparr>mf_id = 1, mf_owner = 1, mf_phrase = ''spoiler'', mf_whole_word = True, mf_irreversible = False, mf_expires = None,
     mf_home = True, mf_notifications = False, mf_public = False, mf_thread = False, mf_account = False\<rparr>"

definition status_db :: "string \<Rightarrow> db" where
  "status_db vis = sample_db\<lparr>d_activities := [bobs_activity ''Like'' [], status_of_alice vis], d_filters := [spoiler_filter]\<rparr>"

definition status_sys :: "string \<Rightarrow> request list sys" where
  "status_sys vis = sample_sys\<lparr>s_db := status_db vis\<rparr>"

definition status_site :: "string \<Rightarrow> (request list, files) site" where
  "status_site vis = \<lparr>st_sys = status_sys vis, st_blobs = []\<rparr>"

lemma status_db_wf: "db_wf (status_db vis)"
  unfolding db_wf_def actors_wf_def activities_wf_def objects_wf_def follows_wf_def edges_wf_def bookmarks_wf_def
    accounts_wf_def jobs_wf_def keyed_jobs_def actor_ids_def activity_ids_def follow_pair_def edge_pair_def
  by (simp add: status_db_def sample_db_def sample_rows status_of_alice_def)

lemma no_blobs: "fs_inv ''/blobs'' []"
proof -
  have "list_all (\<lambda>i. case node_at [] (path_string (rooted ''/blobs'') (take i (path_comps ''/blobs''))) of Some (File _) \<Rightarrow> False | _ \<Rightarrow> True)
     [0..<Suc (length (path_comps ''/blobs''))]" by code_simp
  then show ?thesis by (simp add: fs_inv_def)
qed

definition upload :: incoming where
  "upload = with_body \<lparr>r_method = ''POST'', r_url = the (url_parse ''https://a.example/media''), r_host = ''a.example'',
     r_header = (\<lambda>_. [])(''Authorization'' := [''Bearer s3cret''], ''Content-Type'' := [''image/png''])\<rparr> ''png''"

definition upload_site :: "(request list, files) site" where
  "upload_site = \<lparr>st_sys = sample_sys\<lparr>s_cfg := sample_cfg\<lparr>MediaUploadSecret := ''s3cret'', MediaAsyncUpload := True\<rparr>\<rparr>, st_blobs = []\<rparr>"

end
