(* ===== verification/WitnessesApi.thy ===== *)
theory WitnessesApi
  imports SampleApi
begin

text \<open>The properties of the client API and of the server as a whole, applied to the sample.\<close>

section \<open>The server\<close>

definition no_parts :: part_parser where
  "no_parts b x e = ([], e)"


theorem token_needed_witness:
  "s_db (st_sys (snd (apd_handler sample_api no_parts (Some (fs_store ''/blobs'')) (Inr ()) (\<lambda>_. ''rnd'') 0
     (client_get ''/api/v1/timelines/home'') (status_site ''public'')))) = status_db ''public''"
proof -
  let ?r = "client_get ''/api/v1/timelines/home''"
  have "bearer_token ?r = None" by code_simp
  then have a: "fst (actorIDFromBearer ?r (s_db (st_sys (status_site ''public'')))) = Inr None"
    by (simp add: actorIDFromBearer_def eff_apply)
  have m: "\<not> asks_open_write ?r" by code_simp
  have p: "\<not> (has_prefix (u_path (r_url ?r)) ''/@'' \<and> r_method ?r = ''POST'')" by code_simp
  show ?thesis unfolding token_needed [OF a m p] by (simp add: status_site_def status_sys_def)
qed

section \<open>Statuses\<close>

lemma quotes_older_status: "quotes_older (status_db vis)"
  by (simp add: quotes_older_def status_db_def bobs_activity_def status_of_alice_def quoted_id_def note_of_alice_def
      obj_at_def obj_get_def noteVisibilityKey_def noteDirectRecipientsKey_def quotedStatusActivityKey_def)

theorem own_posts_showable_witness:
  "quotes_older (s_db (snd (postStatuses sample_api ''a'' ''b'' (json_body ''POST'' ''direct'') 1 (status_sys ''public''))))"
proof -
  have "db_wf (s_db (status_sys ''public''))" "quotes_older (s_db (status_sys ''public''))"
    by (simp_all add: status_sys_def status_db_wf quotes_older_status)
  from own_posts_showable [OF this] sample_api_keeps show ?thesis by blast
qed

lemma shownI:
  assumes "mastodonStatusFromCreateRow api d v \<noteq> None" "quoted_id (v_raw v) = None" "v_deleted v = None"
  shows "\<exists>m. mastodonStatusPresentation api d v viewer = Some (Some m)"
  using assms by (subst mastodonStatusPresentation.simps) (auto simp: quoted_row_def)

lemma shown_public: "\<exists>m. mastodonStatusPresentation sample_api (status_db ''public'') (status_of_alice ''public'') 1 = Some (Some m)"
  by (rule shownI) code_simp+

lemma shown_direct: "\<exists>m. mastodonStatusPresentation sample_api (status_db ''direct'') (status_of_alice ''direct'') 2 = Some (Some m)"
  by (rule shownI) code_simp+

lemma status_parts [simp]:
  "GetActivityByID 5 (status_db vis) = (Inr (status_of_alice vis), status_db vis)" "v_actor (status_of_alice vis) = 1"
  "v_deleted (status_of_alice vis) = None" "ActorForMastodon 1 (status_db vis) = (Inr alice, status_db vis)"
  "s_cfg (status_sys vis) = sample_cfg" "s_db (status_sys vis) = status_db vis" "(status_sys vis)\<lparr>s_db := status_db vis\<rparr> = status_sys vis"
  by (simp_all add: GetActivityByID_def ActorForMastodon_def select_one_def eff_simps status_db_def sample_db_def status_of_alice_def
      sample_rows status_sys_def sample_sys_def)

lemma path_5: "path_id ''5'' = Some 5"
  by code_simp

theorem presentation_typed_witness:
  "\<exists>m. mastodonStatusPresentation sample_api (status_db ''public'') (status_of_alice ''public'') 1 = Some (Some m) \<and>
     status_json (marshal_map m)"
  using shown_public presentation_typed by blast


definition delete_request :: incoming where
  "delete_request = with_body \<lparr>r_method = ''DELETE'', r_url = inbox_url, r_host = ''a.example'', r_header = (\<lambda>_. [])\<rparr> []"

theorem deleteStatus_own_witness:
  "\<exists>t. (status_of_alice ''public'')\<lparr>v_deleted := Some t\<rparr> \<in>
     set (d_activities (s_db (snd (deleteStatus sample_api ''rnd'' ''5'' delete_request 1 (status_sys ''public'')))))"
proof -
  let ?p = "deleteStatus sample_api ''rnd'' ''5'' delete_request 1 (status_sys ''public'')"
  let ?v = "status_of_alice ''public''" and ?d = "status_db ''public''"
  obtain m where m: "mastodonStatusPresentation sample_api ?d ?v 1 = Some (Some m)" using shown_public by blast
  define res where "res = the (resolveCreateStatusRow ?v)"
  have "resolveCreateStatusRow ?v \<noteq> None" by code_simp
  then have r: "resolveCreateStatusRow ?v = Some res" by (auto simp: res_def)
  have c: "IsLocalActor sample_handler sample_cfg (a_username alice)" "r_method delete_request = ''DELETE''"
    by code_simp+
  have "fst (PublishLocalActivityBytes sample_handler (a_username alice) (Some (marshal_map (delete_activity
      (newIRI (api_root sample_cfg) ''activities'' ''rnd'') (LocalActorProfileURL sample_cfg (a_username alice))
      (the (resolveCreateStatusRow ?v))))) (status_sys ''public'')) = Inr ()" by code_simp
  then have pub: "fst (PublishLocalActivityBytes sample_handler (a_username alice) (Some (marshal_map (delete_activity
      (newIRI (api_root sample_cfg) ''activities'' ''rnd'') (LocalActorProfileURL sample_cfg (a_username alice)) res))) (status_sys ''public'')) = Inr ()"
    by (simp add: res_def)
  have "\<exists>rp. fst ?p = Inr rp \<and> rp_status rp = 200"
    by (simp add: deleteStatus_def path_5 c r m pub handle_apply bind_apply on_db_apply present_apply with_own_account_def with_cfg_def publish_def
        api_handler_def SoftDeleteActivityForActor_def Let_def statement_apply eff_apply writeJSONResponse_def split: option.split)
  then obtain rp where p: "?p = (Inr rp, snd ?p)" "rp_status rp = 200" by (metis prod.collapse)
  from deleteStatus_own [OF p(1)] sample_api_keeps p(2) obtain row where
    row: "row \<in> set (d_activities (status_db ''public''))" "path_id ''5'' = Some (v_id row)"
      "is_create row \<longrightarrow> (\<exists>t. row\<lparr>v_deleted := Some t\<rparr> \<in> set (d_activities (s_db (snd ?p))))"
    by (auto simp: status_sys_def)
  from row(1,2) path_5 have "row = status_of_alice ''public''" by (auto simp: status_db_def bobs_activity_def)
  moreover have "is_create (status_of_alice ''public'')" by code_simp
  ultimately show ?thesis using row(3) by blast
qed

section \<open>Timelines\<close>

theorem conversation_private_witness:
  "\<exists>v \<in> set (d_activities (status_db ''direct'')). v_id v = 5 \<and>
     (\<exists>act nt. um_object (v_raw v) = Some act \<and> obj_at act ''object'' = Some nt \<and> is_direct nt \<and> (v_actor v = 2 \<or> is_recipient 2 nt))"
proof -
  let ?v = "status_of_alice ''direct''" and ?d = "status_db ''direct''"
  let ?p = "getConversationByID sample_api ''5'' (client_get ''/api/v1/conversations/5'') 2 (status_sys ''direct'')"
  obtain m where m: "mastodonStatusPresentation sample_api ?d ?v 2 = Some (Some m)" using shown_direct by blast
  have "r_method (client_get ''/api/v1/conversations/5'') = ''GET''" by code_simp
  moreover have "case um_object (v_raw ?v) of None \<Rightarrow> False | Some act \<Rightarrow> (case obj_at act ''object'' of None \<Rightarrow> False
      | Some n \<Rightarrow> is_direct n \<and> is_recipient 2 n)" by code_simp
  ultimately have "\<exists>rp. fst ?p = Inr rp \<and> rp_status rp = 200"
    by (auto simp: getConversationByID_def path_5 m handle_apply bind_apply on_db_apply present_apply eff_apply writeJSONObjectOK_def
        writeJSONResponse_def split: option.splits)
  then obtain rp where p: "?p = (Inr rp, snd ?p)" "rp_status rp = 200" by (metis prod.collapse)
  from conversation_private [OF p] path_5 show ?thesis by auto
qed

end
