(* ===== verification/WitnessesMedia.thy ===== *)
theory WitnessesMedia
  imports WitnessesApi
begin

text \<open>The properties of uploads, applied to the sample: one upload, stored and fetched again, and one
  upload through the client API.\<close>

section \<open>Media\<close>

lemma upload_parts:
  "r_method upload = ''POST''" "read_body upload (media_max (s_cfg (st_sys upload_site)) + 1) = Inr ''png''"
  "mediaBearerAuthorized upload (MediaUploadSecret (s_cfg (st_sys upload_site)))"
  "trim_space (MediaUploadSecret (s_cfg (st_sys upload_site))) \<noteq> []" "media_max (s_cfg (st_sys upload_site)) = 10485760"
  by code_simp+

lemma upload_body: "read_body upload 10485761 = Inr ''png''"
  using upload_parts(2) by (simp add: upload_parts(5))

theorem uploads_served_witness:
  "fst (GetMedia (Some (fs_store ''/blobs'')) (randomHexKey ''rnd'') (client_get ''/media/726e64'')
     (snd (PostMediaUpload (Some (fs_store ''/blobs'')) ''rnd'' upload upload_site))) =
     Inr \<lparr>rp_status = 200, rp_type = ''application/octet-stream'', rp_location = [], rp_body = Bytes ''png''\<rparr>"
proof -
  let ?p = "PostMediaUpload (Some (fs_store ''/blobs'')) ''rnd'' upload upload_site"
  have b: "fst (b_put (fs_store ''/blobs'') None (randomHexKey ''rnd'') (content_type_or_octets (in_header upload ''Content-Type'')) (Inr ''png'') []) = Inr ()"
    by code_simp
  have bl: "st_blobs upload_site = []" by (simp add: upload_site_def)
  have "\<exists>rp. fst ?p = Inr rp \<and> rp_status rp = 200"
    using b by (simp add: PostMediaUpload_def site_cfg_def upload_parts upload_body Let_def handle_apply on_blobs_apply bl eff_apply json_reply_def)
  then obtain rp where p: "?p = (Inr rp, snd ?p)" "rp_status rp = 200" by (metis prod.collapse)
  have i: "fs_inv ''/blobs'' (st_blobs upload_site)" unfolding bl by (rule no_blobs)
  have g: "r_method (client_get ''/media/726e64'') = ''GET''" by code_simp
  have r: "''rnd'' \<noteq> []" by simp
  have "hex_key (randomHexKey ''rnd'')" by code_simp
  with uploads_served [OF i r p g] upload_parts(2) show ?thesis by auto
qed

text \<open>An upload through the client API, answered at once or before it is complete.\<close>

definition api_upload :: incoming where
  "api_upload = with_body \<lparr>r_method = ''POST'', r_url = the (url_parse ''https://a.example/api/v2/media''), r_host = ''a.example'',
     r_header = (\<lambda>_. [])(''Content-Type'' := [''image/png''])\<rparr> ''png''"

definition png_upload :: parsedMediaUpload where
  "png_upload = \<lparr>FileBody = ''png'', FileContentType = ''image/png'', FileName = [], Description = [], Sensitive = False\<rparr>"

definition api_post :: "bool \<Rightarrow> (err + (reply \<times> int option)) \<times> (request list, files) site" where
  "api_post v2 = handleMediaPost sample_api no_parts (Some (fs_store ''/blobs'')) ''rnd'' v2 api_upload 1 upload_site"

lemma api_upload_parts:
  "r_method api_upload = ''POST''" "effectiveUploadContentType ''image/png'' [] = ''image/png''"
  "upload_checks (s_cfg (st_sys upload_site)) png_upload = None" "readMediaUpload sample_api no_parts api_upload 10485760 = Inr png_upload"
  by code_simp+

lemma api_post_ok:
  "\<exists>rp g s'. api_post v2 = (Inr (rp, g), s') \<and> rp_status rp = (if v2 then 202 else 200)"
proof -
  have s: "st_blobs upload_site = []" "MediaAsyncUpload (s_cfg (st_sys upload_site))" "s_db (st_sys upload_site) = sample_db"
    by (simp_all add: upload_site_def sample_sys_def)
  have d: "actor_exists sample_db 1" by (simp add: actor_exists_def sample_db_def sample_rows)
  have "hex_key (randomHexKey ''rnd'')" by (rule hex_encode_key) simp
  from fsblob.store_blob [OF no_blobs this, of "''png''" "''image/png''"] obtain b where
    b: "StoreBlob (Some (fs_store ''/blobs'')) ''rnd'' ''image/png'' ''png'' [] = (Inr (randomHexKey ''rnd''), b)" by auto
  have m: "select_one (own_media (d_seq sample_db TMedia) 1) (d_media (insert_media (upload_row sample_db 1 key ct png_upload st) sample_db)) =
      Inr (upload_row sample_db 1 key ct png_upload st)" for key ct st
    by (simp add: insert_media_def upload_row_def sample_db_def own_media_def select_one_def)
  have f: "FileBody png_upload = ''png''" "FileContentType png_upload = ''image/png''" "FileName png_upload = []"
    by (simp_all add: png_upload_def)
  have ins: "InsertMastodonMedia 1 key ct 3 (Description png_upload) (Sensitive png_upload) st sample_db =
      (Inr (d_seq sample_db TMedia), insert_media (upload_row sample_db 1 key ct png_upload st) sample_db)" if "st \<noteq> []" for key ct st
    using InsertMastodonMedia_apply [OF that, of 1 key ct png_upload sample_db] by (simp add: f d)
  show ?thesis
    unfolding api_post_def handleMediaPost_def site_cfg_def
    by (simp add: api_upload_parts upload_parts(5) s d b m f Let_def handle_apply on_blobs_apply on_sys_apply on_db_apply
        GetMastodonMediaForActor_def ins eff_apply writeMediaAttachment_def)
qed


theorem async_upload_witness:
  "\<exists>x mid. fst (getAPIMedia sample_api (itoa mid) (client_get ''/media/1'') 1 (st_sys (snd (api_post True)))) = Inr (writeJSONResponse 206 x) \<and>
     media_url x = Some JNull"
proof -
  obtain rp g s' where p: "handleMediaPost sample_api no_parts (Some (fs_store ''/blobs'')) ''rnd'' True api_upload 1 upload_site =
      (Inr (rp, g), s')" "rp_status rp = 202" "snd (api_post True) = s'"
    using api_post_ok [of True] by (auto simp: api_post_def)
  have i: "fs_inv ''/blobs'' (st_blobs upload_site)" using no_blobs by (simp add: upload_site_def)
  have g: "r_method (client_get ''/media/1'') = ''GET''" by code_simp
  have r: "''rnd'' \<noteq> []" by simp
  have f: "media_fresh (s_db (st_sys upload_site))" by (simp add: media_fresh_def upload_site_def sample_sys_def sample_db_def)
  from async_upload [OF p(1,2) i r f g] show ?thesis unfolding p(3) by blast
qed

end
