(* ===== verification/WitnessesSearch.thy ===== *)
theory WitnessesSearch
  imports WitnessesApi
begin

text \<open>The properties of filters and of the search, applied to the sample.\<close>

section \<open>Filters\<close>


section \<open>The search\<close>

definition searching_api :: "(string, string, request list) api" where
  "searching_api = sample_api\<lparr>sv_h := sample_handler\<lparr>hd_client := RoundTrip (Some strict_policy) sample_client\<rparr>\<rparr>"


theorem search_overwrites_key_witness:
  "bob\<lparr>a_pem := ''(search)''\<rparr> \<in> set (d_actors (s_db (snd (accountFromActorURL sample_api ''https://b.example/bob'' sample_sys))))"
proof -
  let ?p = "accountFromActorURL sample_api ''https://b.example/bob'' sample_sys"
  have "case fst ?p of Inr _ \<Rightarrow> True | _ \<Rightarrow> False" by code_simp
  then obtain m where p: "?p = (Inr m, snd ?p)" by (cases ?p) (auto split: sum.splits)
  have c: "CanonicalActorURL ''https://b.example/bob'' \<noteq> []" by code_simp
  have b: "bob \<in> set (d_actors (s_db sample_sys))" by (simp add: sample_sys_def sample_db_def)
  have "a_url bob = trim_right_slash ''https://b.example/bob''" by code_simp
  from search_overwrites_key [OF p c b this] b this show ?thesis by (auto simp: update_where_def image_iff)
qed

end
