(* ===== verification/Federation.thy ===== *)
theory Federation
  imports Inbox Outbox
begin

text \<open>
  Two servers.  The outside world of the sender's worker is the state of the receiver: what the worker
  posts arrives at the receiver's inbox, whose status answers the delivery.

  The lemmas: a signed POST of this program passes the checks of the inbox of this program; a delivery
  job of the outbox, when the worker processes it, leaves the activity in the database of the receiver
  together with the job that processes it there.
\<close>

section \<open>The wire\<close>

text \<open>How a request arrives: the Host header moves to \<^verbatim>\<open>r.Host\<close>, the body follows.\<close>

definition arrival :: "request \<Rightarrow> string \<Rightarrow> incoming" where
  "arrival r bytes =
     \<lparr>r_method = r_method r, r_url = r_url r, r_host = u_host (r_url r), r_header = (r_header r)(''Host'' := []),
      in_body = bytes, in_read_err = None\<rparr>"

text \<open>The inbox of a server as the transport of another, for one body.\<close>

definition peer :: "('pub, 'priv, 'v) handler \<Rightarrow> string \<Rightarrow> 'v sys client" where
  "peer h bytes req =
     bind_eff (SharedInbox h (arrival req bytes)) (\<lambda>rp. ret \<lparr>rs_status = rp_status rp, rs_body = [], rs_read_err = None\<rparr>)"

lemma arrival_parts [simp]:
  "r_method (arrival r b) = r_method r" "in_header (arrival r b) k = header_get ((r_header r)(''Host'' := [])) k"
  "read_body (arrival r b) n = read_limited \<lparr>rs_status = 200, rs_body = b, rs_read_err = None\<rparr> n"
  by (simp_all add: arrival_def in_header_def read_body_def)

lemma transmitted_arrival: "transmitted r (to_request (arrival r b))"
  by (simp add: transmitted_def arrival_def to_request_def request.defs request_target_def Let_def)

lemma SignPost_headers:
  assumes "SignPost env r bytes keyID priv = Inr r'" "r_header r = (\<lambda>_. [])"
  obtains sig where "r_header r' ''Signature'' = [signature_value keyID HeaderOrder sig]"
    "r_header r' ''Content-Type'' = [''application/activity+json'']" "r_method r' = r_method r" "r_url r' = r_url r"
proof -
  from assms obtain sig where "r' = req_set (req_set (req_set (req_set (req_set r ''Host'' (u_host (r_url r)))
      ''Content-Type'' ''application/activity+json'') ''Digest'' (DigestHeader bytes)) ''Date'' (format_time env (now env)))
      ''Signature'' (signature_value keyID HeaderOrder sig)"
    by (auto simp: SignPost_def sign_with_def bind_res_ok Let_def header_get_def header_values_def split: if_splits option.splits)
  then show thesis by (intro that [of sig]) simp_all
qed

section \<open>The inbox accepts what the worker signs\<close>

definition inbox_max :: "('pub, 'priv, 'w) handler \<Rightarrow> int" where
  "inbox_max h = (if hd_inboxMaxBody h \<le> 0 then 1048576 else hd_inboxMaxBody h)"

lemma read_limited_short: "int (length b) \<le> m \<Longrightarrow> read_limited \<lparr>rs_status = k, rs_body = b, rs_read_err = None\<rparr> (m + 1) = Inr b"
  by (simp add: read_limited_def)

lemma no_key_without_id: "fst (PublicKeyForKeyID env client po [] co net) \<noteq> Inr pub"
proof -
  have "case url_parse [] of None \<Rightarrow> True | Some u \<Rightarrow> u_scheme u = []" by code_simp
  then show ?thesis by (auto simp: PublicKeyForKeyID_def eff_apply split: option.splits)
qed

lemma check_signed_accepts:
  assumes sg: "SignPost env r bytes keyID priv = Inr req" "r_header r = (\<lambda>_. [])" "r_method r = ''POST''"
    and key: "keypair_ok env pub priv" "plain_value keyID" "clock_ok env"
    and h: "sigenv_of (hd_env h) = env\<lparr>now := n\<rparr>" "\<bar>n - now env\<bar> \<le> 299 * 10 ^ 9" "int (length bytes) \<le> inbox_max h"
    and pk: "fst (PublicKeyForKeyID (hd_env h) (hd_client h) (Some (hd_policy h)) keyID (Some cfg) (s_net s)) = Inr pub"
    and act: "parse_activity (json_decode (hd_env h) bytes) = Inr (fs, j, i, t, a)" "signingActorMatchesKeyID keyID a"
  shows "\<exists>net. check_signed h cfg (arrival req bytes) s =
    (Inr (Inr \<lparr>sa_pub = pub, sa_fields = fs, sa_raw = j, sa_id = i, sa_type = t, sa_actor = a\<rparr>), s\<lparr>s_net := net\<rparr>)"
proof -
  obtain sig where r: "r_header req ''Signature'' = [signature_value keyID HeaderOrder sig]"
      "r_header req ''Content-Type'' = [''application/activity+json'']" "r_method req = ''POST''"
    using SignPost_headers [OF sg(1,2)] sg(3) by metis
  have ct: "isActivityJSONContentType ''application/activity+json''" by code_simp
  have v: "VerifyRequest (sigenv_of (hd_env h)) (to_request (arrival req bytes)) bytes pub = Inr ()"
    unfolding h(1) by (rule SignPost_verifies [OF sg(1) transmitted_arrival key h(2)])
  have ps: "ParseSignatureHeader (signature_value keyID HeaderOrder sig) = Inr [(''keyid'', keyID),
      (''algorithm'', ''rsa-sha256''), (''headers'', join '' '' HeaderOrder), (''signature'', base64_encode sig)]"
    by (rule ParseSignatureHeader_signature_value [OF key(2) plain_value_headers(1)])
  have ne: "signature_value keyID HeaderOrder sig \<noteq> []" by (simp add: signature_value_def qparam_def)
  have k: "keyID \<noteq> []" using pk no_key_without_id by metis
  have b: "read_limited \<lparr>rs_status = 200, rs_body = bytes, rs_read_err = None\<rparr> (inbox_max h + 1) = Inr bytes"
    by (rule read_limited_short [OF h(3)])
  show ?thesis
    using h(3) by (intro exI [of _ "snd (PublicKeyForKeyID (hd_env h) (hd_client h) (Some (hd_policy h)) keyID (Some cfg) (s_net s))"])
      (simp add: check_signed_def inbox_max_def [symmetric] header_get_def header_values_def r ct b ne ps k param_def
        handle_apply on_net_apply pk v act eff_apply)
qed

text \<open>The keyId of a delivery names the account that signs it.\<close>

lemma profile_key:
  assumes "plain_base c s h"
  shows "signingActorMatchesKeyID (LocalActorProfileURL c u @ ''#main-key'') (LocalActorProfileURL c u)"
    "plain_value (LocalActorProfileURL c u @ ''#main-key'')"
proof -
  let ?p = "LocalActorProfileURL c u"
  have b: "s \<in> {''https'', ''http''}" "plain_host h" using assms by (simp_all add: plain_base_def)
  have p: "plain_path (''/@'' @ path_escape u)" using plain_path_escape [of u] by simp
  have nh: "x \<notin> set h" "x \<notin> set (''/@'' @ path_escape u)" if "x \<in> {CHR ''#'', CHR 0x22, CHR 0x5C}" for x
    using that b(2) p by (auto simp: plain_host_def plain_path_def list_all_iff is_alnum_def Let_def)
  have no: "x \<notin> set ?p" if "x \<in> {CHR ''#'', CHR 0x22, CHR 0x5C}" for x
    using that b(1) nh [OF that] unfolding profile_http [OF assms] http_url_def by auto
  have "url_unescape EncPath (''/@'' @ path_escape u) = Some (''/@'' @ u)"
    using url_unescape_path_escape [of u "[]"] by simp
  then obtain v where v: "url_parse ?p = Some v" "u_fragment v = []"
    using url_parse_http [OF b p] unfolding profile_http [OF assms] by (auto simp: empty_url_def)
  have "url_parse_no_fragment ?p = Some v"
    using v(1) no [of "CHR ''#''"] cut_not_found [of "CHR ''#''" ?p] by (simp add: url_parse_def cut_found_def split: option.splits)
  then have "url_parse (?p @ ''#main-key'') = Some (v\<lparr>u_fragment := ''main-key''\<rparr>)"
    using no [of "CHR ''#''"] by (simp add: url_parse_def cut_before_append cut_after_append)
  then show "signingActorMatchesKeyID (?p @ ''#main-key'') ?p"
    by (simp add: signingActorMatchesKeyID_def v)
  show "plain_value (?p @ ''#main-key'')" using no by (simp add: plain_value_def)
qed


section \<open>The first arrival is stored with its job\<close>

lemma store_and_enqueue_first:
  assumes "i \<notin> v_activity_id ` set (d_activities d)" "a \<in> actor_ids d" "Some i \<notin> j_key ` set (d_jobs d)"
  shows "\<exists>q. store_and_enqueue a i t raw d = (Inr (), q) \<and> d_actors q = d_actors d \<and>
    inbound_row (d_seq d TActivities) a i t raw \<in> set (d_activities q) \<and>
    new_job (d_seq d TJobs) d (process_job (d_seq d TActivities) i) \<in> set (d_jobs q)"
proof (cases rule: InsertInboundActivity_cases [of i d a t raw])
  case stored
  then show ?thesis using assms(3)
    by (simp add: store_and_enqueue_def eff_simps EnqueueTx_def SqlEnqueue_apply process_job_def new_job_def)
qed (use assms(1,2) in blast)+

text \<open>What the receiver has of an activity after its first arrival: the row and the job.\<close>

definition arrived_at :: "db \<Rightarrow> string \<Rightarrow> json \<Rightarrow> string \<Rightarrow> bool" where
  "arrived_at d i j actor \<longleftrightarrow>
     (\<exists>v \<in> set (d_activities d). v_activity_id v = i \<and> v_raw v = j \<and> v_deleted v = None \<and>
        (\<exists>a \<in> set (d_actors d). a_id a = v_actor v \<and> a_url a = trim_right_slash actor) \<and>
        (\<exists>q \<in> set (d_jobs d). j_type q = TypeProcessInboxActivity \<and> j_status q = Pending \<and>
           process_inbox_payload (j_payload q) = Inr (v_id v)))"

lemma accept_signed_stores:
  assumes "hd_store h" "hd_queue h = Some SqlQueue" "hd_encode_pub h (sa_pub a) = Inr pem"
    and "fst (EnsureRemoteActor (sa_actor a) pem (s_db s)) = Inr aid"
    and "sa_id a \<notin> v_activity_id ` set (d_activities (s_db s))" "Some (sa_id a) \<notin> j_key ` set (d_jobs (s_db s))"
    and "1 \<le> d_seq (s_db s) TActivities" "d_seq (s_db s) TActivities < 2 ^ 63"
  shows "\<exists>s'. accept_signed h a s = (Inr (status_only 202), s') \<and> arrived_at (s_db s') (sa_id a) (sa_raw a) (sa_actor a)"
proof -
  let ?n = "d_seq (s_db s) TActivities"
  obtain d where e: "EnsureRemoteActor (sa_actor a) pem (s_db s) = (Inr aid, d)" using assms(4) by (metis prod.collapse)
  obtain x where x: "x \<in> set (d_actors d)" "a_id x = aid" "a_url x = trim_right_slash (sa_actor a)"
    using EnsureRemoteActor_result [OF e] by blast
  obtain row where "upsert_actor a_url actor_name remote_upd row (s_db s) = (Inr aid, d)"
    using e by (auto simp: EnsureRemoteActor_def wrap_eff_ok eff_apply split: option.splits if_splits)
  note d = upsert_actor_ok(2) [OF this]
  have keep: "d_activities d = d_activities (s_db s)" "d_jobs d = d_jobs (s_db s)" "d_seq d TActivities = ?n"
    by (subst d, simp)+
  have "aid \<in> actor_ids d" using x(1,2) by (auto simp: actor_ids_def)
  with assms(5,6) keep store_and_enqueue_first [of "sa_id a" d aid "sa_type a" "sa_raw a"]
  obtain q where q: "store_and_enqueue aid (sa_id a) (sa_type a) (sa_raw a) d = (Inr (), q)" "d_actors q = d_actors d"
    "inbound_row ?n aid (sa_id a) (sa_type a) (sa_raw a) \<in> set (d_activities q)"
    "new_job (d_seq d TJobs) d (process_job ?n (sa_id a)) \<in> set (d_jobs q)" by auto
  have "process_inbox_payload (JObj [(''activityDbId'', JNum (itoa ?n))]) = Inr ?n"
    using assms(7,8) by (simp add: process_inbox_payload_def um_struct_int64_def equal_fold_def parse_int64_itoa in_int64_def)
  then have "arrived_at q (sa_id a) (sa_raw a) (sa_actor a)"
    unfolding arrived_at_def using q(2-4) x
    by (intro bexI [OF _ q(3)] conjI bexI [OF _ q(4)]) (auto simp: inbound_row_def new_job_def process_job_def)
  then show ?thesis
    by (simp add: accept_signed_def assms(1-3) handle_apply on_db_apply e q(1) eff_apply)
qed


section \<open>From the outbox of one server to the inbox of the other\<close>

text \<open>
  The account of the sender and its key; what the receiver needs to check the signature: the same
  signature scheme, a clock that is less than five minutes off, and the key from the actor document;
  what it needs to store the activity.
\<close>

definition can_sign :: "('pub, 'priv, 'w) workenv \<Rightarrow> 'w sys \<Rightarrow> string \<Rightarrow> string \<Rightarrow> 'priv \<Rightarrow> bool" where
  "can_sign env s host user priv \<longleftrightarrow>
     user \<noteq> [] \<and> trim_space user = user \<and> (\<exists>scheme. plain_base (s_cfg s) scheme host) \<and>
     fst (check_signer env (s_cfg s) host user s) = Inr () \<and> fst (delivery_key env (s_cfg s) host user s) = Inr priv"

definition can_check :: "('pub, 'priv) sigenv \<Rightarrow> ('pub, 'priv, 'v) handler \<Rightarrow> 'v sys \<Rightarrow> string \<Rightarrow> 'pub \<Rightarrow> 'priv \<Rightarrow> bool" where
  "can_check env h t keyID pub priv \<longleftrightarrow>
     keypair_ok env pub priv \<and> clock_ok env \<and>
     sigenv_of (hd_env h) = env\<lparr>now := now (hd_env h)\<rparr> \<and> \<bar>now (hd_env h) - now env\<bar> \<le> 299 * 10 ^ 9 \<and>
     fst (PublicKeyForKeyID (hd_env h) (hd_client h) (Some (hd_policy h)) keyID (Some (s_cfg t)) (s_net t)) = Inr pub"

definition can_store :: "('pub, 'priv, 'v) handler \<Rightarrow> db \<Rightarrow> 'pub \<Rightarrow> string \<Rightarrow> string \<Rightarrow> bool" where
  "can_store h d pub actor i \<longleftrightarrow>
     hd_store h \<and> hd_queue h = Some SqlQueue \<and>
     (\<exists>pem aid. hd_encode_pub h pub = Inr pem \<and> fst (EnsureRemoteActor actor pem d) = Inr aid) \<and>
     i \<notin> v_activity_id ` set (d_activities d) \<and> Some i \<notin> j_key ` set (d_jobs d) \<and>
     1 \<le> d_seq d TActivities \<and> d_seq d TActivities < 2 ^ 63"

lemma on_db_query: "preserves P (on_db (query f))" "preserves P (on_db (fail e))"
  by (simp_all add: preserves_def on_db_apply eff_apply)

lemma signer_reads: "snd (check_signer env cfg host user s) = s" "snd (delivery_key env cfg host user s) = s"
proof -
  have "preserves (\<lambda>t. t = s) (check_signer env cfg host user)" "preserves (\<lambda>t. t = s) (delivery_key env cfg host user)"
    unfolding check_signer_def delivery_key_def stored_key_def LocalActorUsernameExists_def ActorPrivateKeyPEMForLocalUser_def
      Let_def if_distrib [of on_db]
    by (intro preserved on_db_query)+
  then show "snd (check_signer env cfg host user s) = s" "snd (delivery_key env cfg host user s) = s"
    using preservesD [of "\<lambda>t. t = s" _ s] by blast+
qed

lemma can_signD:
  "can_sign env s host user priv \<Longrightarrow>
   check_signer env (s_cfg s) host user s = (Inr (), s) \<and> delivery_key env (s_cfg s) host user s = (Inr priv, s)"
  by (simp add: can_sign_def prod_eq_iff signer_reads)

lemma peer_accepts:
  assumes sg: "SignPost env r bytes keyID priv = Inr req" "r_header r = (\<lambda>_. [])" "r_method r = ''POST''" "plain_value keyID"
    and check: "can_check env h t keyID pub priv" and store: "can_store h (s_db t) pub a i"
    and act: "parse_activity (json_decode (hd_env h) bytes) = Inr (fs, j, i, ty, a)" "signingActorMatchesKeyID keyID a"
    and len: "int (length bytes) \<le> inbox_max h"
  shows "\<exists>t'. peer h bytes req t = (Inr \<lparr>rs_status = 202, rs_body = [], rs_read_err = None\<rparr>, t') \<and> arrived_at (s_db t') i j a"
proof -
  let ?a = "\<lparr>sa_pub = pub, sa_fields = fs, sa_raw = j, sa_id = i, sa_type = ty, sa_actor = a\<rparr>"
  obtain net where c: "check_signed h (s_cfg t) (arrival req bytes) t = (Inr (Inr ?a), t\<lparr>s_net := net\<rparr>)"
    using check_signed_accepts [OF sg(1-3) _ sg(4) _ _ _ len _ act] check unfolding can_check_def by blast
  obtain pem aid where e: "hd_encode_pub h pub = Inr pem" "fst (EnsureRemoteActor a pem (s_db t)) = Inr aid"
    using store unfolding can_store_def by blast
  obtain t' where "accept_signed h ?a (t\<lparr>s_net := net\<rparr>) = (Inr (status_only 202), t')" "arrived_at (s_db t') i j a"
    using accept_signed_stores [of h ?a pem "t\<lparr>s_net := net\<rparr>" aid] store e by (auto simp: can_store_def)
  with c show ?thesis
    by (simp add: peer_def SharedInbox_def with_cfg_def bind_apply eff_apply status_only_def)
qed

text \<open>
  C34: A delivery job of the outbox reaches the inbox of a receiver that runs the same program, that can
  check the signature and has not seen the activity: the job succeeds, and the receiver has the
  activity, byte for byte, under the actor who posted it, with the job that will process it.
\<close>

theorem delivered:
  fixes env :: "('pub, 'priv, 'v sys) workenv" and h :: "('pub, 'priv, 'v) handler"
  assumes lease: "ls_type l = TypeDeliverActivity" "ls_payload l = outbox_payload inbox body user" "inbox \<noteq> []"
    and wire: "we_base_client env = peer h (we_render env body)"
    and sign: "can_sign env s host user priv"
    and sent: "NewSignedPost (sigenv_of (pe_fetch env)) inbox (we_render env body) (LocalActorProfileURL (s_cfg s) user @ ''#main-key'') priv = Inr req"
      "PreDialCheck (PolicyFromConfig (Some (s_cfg s))) (r_url req) = Inr ()"
    and body: "json_decode (hd_env h) (we_render env body) = Some body" "int (length (we_render env body)) \<le> inbox_max h"
      "parse_activity (Some body) = Inr (fs, body, i, ty, LocalActorProfileURL (s_cfg s) user)"
    and check: "can_check (sigenv_of (pe_fetch env)) h (s_net s) (LocalActorProfileURL (s_cfg s) user @ ''#main-key'') pub priv"
    and store: "can_store h (s_db (s_net s)) pub (LocalActorProfileURL (s_cfg s) user) i"
  shows "\<exists>s'. ProcessLease env q l s = (Inr (), s') \<and> s_db s' = s_db s \<and>
     arrived_at (s_db (s_net s')) i body (LocalActorProfileURL (s_cfg s) user)"
proof -
  let ?k = "LocalActorProfileURL (s_cfg s) user @ ''#main-key''" and ?b = "we_render env body"
  obtain scheme where base: "plain_base (s_cfg s) scheme host" using sign by (auto simp: can_sign_def)
  have b: "scheme \<in> {''https'', ''http''}" "plain_host host" "PublicBaseURL (s_cfg s) = http_url scheme host []"
    using base by (simp_all add: plain_base_def)
  obtain v where v: "url_parse (PublicBaseURL (s_cfg s)) = Some v" "u_host v = host"
    using url_parse_http [OF b(1,2), of "[]" "[]"] unfolding b(3) by (auto simp: plain_path_def)
  obtain u where "SignPost (sigenv_of (pe_fetch env))
      \<lparr>r_method = ''POST'', r_url = u, r_host = u_host u, r_header = (\<lambda>_. [])\<rparr> ?b ?k priv = Inr req"
    using sent(1) by (auto simp: NewSignedPost_def split: option.splits)
  from peer_accepts [OF this _ _ profile_key(2) [OF base] check store _ profile_key(1) [OF base] body(2)] body(1,3)
  obtain t' where t: "peer h ?b req (s_net s) = (Inr \<lparr>rs_status = 202, rs_body = [], rs_read_err = None\<rparr>, t')"
    "arrived_at (s_db t') i body (LocalActorProfileURL (s_cfg s) user)" by auto
  have c: "NewHTTPClient env (s_cfg s) req (s_net s) = (Inr \<lparr>rs_status = 202, rs_body = [], rs_read_err = None\<rparr>, t')"
    using t(1) by (simp add: NewHTTPClient_def RoundTrip_def sent(2) wire)
  have base_ne: "PublicBaseURL (s_cfg s) \<noteq> []" using b by (auto simp: http_url_def)
  have "DeliverActivity env (s_cfg s) (NewHTTPClient env (s_cfg s)) (outbox_payload inbox body user) s = (Inr (), s\<lparr>s_net := t'\<rparr>)"
    using sign can_signD [OF sign] lease(3) base_ne c
    by (simp add: DeliverActivity_def unmarshal_outbox_payload signingUsernameForDelivery_def v url_hostname_plain b(2)
        bind_apply can_sign_def sent(1) on_net_apply eff_apply delivery_result_def)
  then have "ProcessLease env q l s = (Inr (), s\<lparr>s_net := t'\<rparr>)"
    by (simp add: ProcessLease_def with_cfg_def lease TypeNoop_def TypeDeliverActivity_def)
  with t(2) show ?thesis by (cases s) simp
qed

end
