(* ===== verification/WitnessesFederation.thy ===== *)
theory WitnessesFederation
  imports Federation SampleHttp
begin

text \<open>Two servers: \<^verbatim>\<open>a.example\<close> with \<^verbatim>\<open>alice\<close> sends, \<^verbatim>\<open>b.example\<close> with \<^verbatim>\<open>bob\<close> receives.\<close>

definition alice_document :: json where
  "alice_document = JObj [(''id'', JStr ''https://a.example/@alice''), (''inbox'', JStr ''https://a.example/inbox''),
     (''publicKey'', JObj [(''id'', JStr ''https://a.example/@alice#main-key''), (''publicKeyPem'', JStr ''pub'')])]"

definition receiver_env :: "(string, string) fetchenv" where
  "receiver_env = sigenv.extend (sample_sigenv\<lparr>now := 10 ^ 9\<rparr>)
     (fetchenv.fields (\<lambda>s. if s = ''actor'' then Some alice_document else if s = ''post'' then Some post_document else None)
        (\<lambda>_. Inr ''key'') (\<lambda>_. Inr ''key''))"

definition receiver :: "(string, string, request list) handler" where
  "receiver = sample_handler\<lparr>hd_env := receiver_env\<rparr>"

definition receiver_sys :: "request list sys" where
  "receiver_sys = \<lparr>s_db = sample_db\<lparr>d_actors := [bob], d_activities := [], d_jobs := [], d_likes := [], d_follows := [], d_objects := []\<rparr>,
     s_redis = \<lparr>rd_id = 0, rd_list = []\<rparr>, s_net = [],
     s_cfg = sample_cfg\<lparr>PublicBaseURL := ''https://b.example'', LocalUsername := ''bob'', LocalUsernames := [''bob'']\<rparr>\<rparr>"

definition sender_env :: "(string, string, request list sys) workenv" where
  "sender_env = \<lparr>pe_fetch = sample_fetchenv, pe_client = None, pe_policy = None, we_has_pool = True, we_render = (\<lambda>_. ''post''),
     we_parse_private_key = (\<lambda>_. Inr ''key''), we_base_client = peer receiver ''post''\<rparr>"

definition sender_sys :: "request list sys sys" where
  "sender_sys = \<lparr>s_db = sample_db, s_redis = \<lparr>rd_id = 0, rd_list = []\<rparr>, s_net = receiver_sys, s_cfg = sample_cfg\<rparr>"

definition delivery :: lease where
  "delivery = \<lparr>ls_id = 7, ls_type = TypeDeliverActivity, ls_payload = outbox_payload ''https://b.example/inbox'' post_document ''alice'', ls_attempts = 1\<rparr>"

definition inbox_of_b :: url where
  "inbox_of_b = the (url_parse ''https://b.example/inbox'')"

lemma delivery_names:
  "LocalActorProfileURL sample_cfg ''alice'' = ''https://a.example/@alice''" "plain_base sample_cfg ''https'' ''a.example''"
  "url_parse ''https://b.example/inbox'' = Some inbox_of_b" "url_parse (url_string inbox_of_b) \<noteq> None" "u_host inbox_of_b = ''b.example''"
  "PreDialCheck (PolicyFromConfig (Some sample_cfg)) inbox_of_b = Inr ()"
  by code_simp+

lemma delivery_signed:
  "\<exists>req. NewSignedPost sample_sigenv ''https://b.example/inbox'' ''post'' (''https://a.example/@alice'' @ ''#main-key'') ''key'' = Inr req \<and>
     r_url req = inbox_of_b"
  using delivery_names(3-5)
  by (auto simp: NewSignedPost_def SignPost_def Let_def sign_with_def BuildSigningString_def HeaderOrder_def
      signing_line_def header_values_def sample_sigenv_def header_get_def)

lemma delivery_signer: "can_sign sender_env sender_sys ''a.example'' ''alice'' ''key''"
proof -
  have "fst (check_signer sender_env sample_cfg ''a.example'' ''alice'' sender_sys) = Inr ()"
    "fst (delivery_key sender_env sample_cfg ''a.example'' ''alice'' sender_sys) = Inr ''key''" "trim_space ''alice'' = ''alice''"
    by code_simp+
  moreover have "s_cfg sender_sys = sample_cfg" by (simp add: sender_sys_def)
  ultimately show ?thesis using delivery_names(2) by (auto simp: can_sign_def)
qed

lemma delivery_checked:
  "can_check sample_sigenv receiver receiver_sys (''https://a.example/@alice'' @ ''#main-key'') ''key'' ''key''"
proof -
  have "fst (PublicKeyForKeyID (hd_env receiver) (hd_client receiver) (Some (hd_policy receiver)) (''https://a.example/@alice'' @ ''#main-key'')
      (Some (s_cfg receiver_sys)) (s_net receiver_sys)) = Inr ''key''" by code_simp
  then show ?thesis using sample_keys
    by (simp add: can_check_def receiver_def receiver_env_def sample_sigenv_def sigenv_of_def sigenv.defs fetchenv.defs)
qed

lemma delivery_stored: "can_store receiver (s_db receiver_sys) ''key'' ''https://a.example/@alice'' ''https://a.example/c/1''"
proof -
  have "case EnsureRemoteActor ''https://a.example/@alice'' ''pub'' (s_db receiver_sys) of (Inr i, _) \<Rightarrow> True | _ \<Rightarrow> False" by code_simp
  then obtain aid where "fst (EnsureRemoteActor ''https://a.example/@alice'' ''pub'' (s_db receiver_sys)) = Inr aid"
    by (auto split: prod.splits sum.splits)
  then show ?thesis
    by (auto simp: can_store_def receiver_def sample_handler_def receiver_sys_def sample_db_def)
qed

theorem delivered_witness:
  "\<exists>s'. ProcessLease sender_env (lift_sql sql_backend) delivery sender_sys = (Inr (), s') \<and> s_db s' = sample_db \<and>
     arrived_at (s_db (s_net s')) ''https://a.example/c/1'' post_document ''https://a.example/@alice''"
proof -
  let ?fs = "the (um_object post_document)"
  obtain req where r: "NewSignedPost sample_sigenv ''https://b.example/inbox'' ''post'' (''https://a.example/@alice'' @ ''#main-key'') ''key'' = Inr req"
    "r_url req = inbox_of_b" using delivery_signed by blast
  have e: "sigenv_of (pe_fetch sender_env) = sample_sigenv" "s_cfg sender_sys = sample_cfg" "s_net sender_sys = receiver_sys"
    "s_db sender_sys = sample_db" "we_render sender_env post_document = ''post''" "we_base_client sender_env = peer receiver ''post''"
    by (simp_all add: sender_env_def sender_sys_def sigenv_of_def sample_fetchenv_def sigenv.defs fetchenv.defs)
  have p: "parse_activity (Some post_document) = Inr (?fs, post_document, ''https://a.example/c/1'', ''Create'', ''https://a.example/@alice'')"
    "json_decode (hd_env receiver) ''post'' = Some post_document" "int (length ''post'') \<le> inbox_max receiver" by code_simp+
  show ?thesis
    using delivered [where env = sender_env and h = receiver and l = delivery and s = sender_sys and body = post_document
        and inbox = "''https://b.example/inbox''" and user = "''alice''" and host = "''a.example''" and priv = "''key''" and pub = "''key''"
        and req = req and fs = ?fs and i = "''https://a.example/c/1''" and ty = "''Create''" and q = "lift_sql sql_backend"]
      delivery_signer delivery_checked delivery_stored r p delivery_names(6)
    by (simp add: e delivery_names(1) delivery_def)
qed

end
