(* ===== verification/Commands.thy ===== *)
theory Commands
  imports Blobs
begin

text \<open>
  The start of the processes: \<^verbatim>\<open>aphttp.New\<close>, the set-up of \<^verbatim>\<open>cmd/apd\<close> and \<^verbatim>\<open>cmd/apw\<close> up to their servers and
  loops, and the command \<^verbatim>\<open>cmd/apadmin create-user\<close>.  \<^verbatim>\<open>log.Fatal\<close> ends the process: it is an error.
  Connections, migrations, keys and the S3 client are calls of libraries: parameters.

  The lemmas: after the start the local accounts of the server are exactly the actors of its domain,
  with their ids; an account that was created can log in, and its deliveries are signed with its new
  key; a password that cannot be hashed leaves the actor with a new key and without that password.
\<close>

section \<open>Flags\<close>

text \<open>\<^verbatim>\<open>flag.FlagSet\<close> with string flags: \<^verbatim>\<open>-name value\<close>, \<^verbatim>\<open>-name=value\<close>, one dash or two; the rest are arguments.\<close>

fun parse_flags :: "string list \<Rightarrow> string list \<Rightarrow> (string \<Rightarrow> string) \<Rightarrow> err + (string \<Rightarrow> string)" where
  "parse_flags names [] vs = Inr vs"
| "parse_flags names (a # rest) vs =
     (if length a < 2 \<or> hd a \<noteq> CHR ''-'' \<or> a = ''--'' then Inr vs
      else let name = drop (if has_prefix a ''--'' then 2 else 1) a; key = cut_before (CHR ''='') name
           in if name = [] \<or> hd name = CHR ''-'' \<or> hd name = CHR ''='' then Inl (Msg ''bad flag syntax'')
              else if key \<notin> set names then Inl (Msg ''flag provided but not defined'')
              else if cut_found (CHR ''='') name then parse_flags names rest (vs(key := cut_after (CHR ''='') name))
              else case rest of
                [] \<Rightarrow> Inl (Msg ''flag needs an argument'')
              | v # others \<Rightarrow> parse_flags names others (vs(key := v)))"

section \<open>The command that creates an account\<close>

record 'priv cmdenv =
  ce_connect :: "string \<Rightarrow> err + unit"
  ce_generate :: "err + 'priv"
  ce_private_pem :: "'priv \<Rightarrow> err + string"
  ce_public_pem :: "'priv \<Rightarrow> err + string"
  ce_bcrypt :: "string \<Rightarrow> err + string"

definition create_user :: "'priv cmdenv \<Rightarrow> config \<Rightarrow> string \<Rightarrow> string \<Rightarrow> (db, int) eff" where
  "create_user ce cfg username password =
     bind_eff (of_res (ce_generate ce)) (\<lambda>priv.
     bind_eff (of_res (ce_private_pem ce priv)) (\<lambda>privPEM.
     bind_eff (of_res (ce_public_pem ce priv)) (\<lambda>pubPEM.
     bind_eff (UpsertLocalActor cfg username pubPEM) (\<lambda>i.
     bind_eff (SetActorRSAKeypair i privPEM pubPEM) (\<lambda>_.
     bind_eff (UpsertLocalAccountPassword (ce_bcrypt ce) i password) (\<lambda>_. ret i))))))"

definition createUserCmd :: "'priv cmdenv \<Rightarrow> (string \<Rightarrow> string) \<Rightarrow> string list \<Rightarrow> (db, int) eff" where
  "createUserCmd ce env args =
     bind_eff (of_res (parse_flags [''username'', ''password''] args (\<lambda>_. []))) (\<lambda>fl.
       if fl ''username'' = [] \<or> fl ''password'' = [] then fail (Msg ''create-user requires -username and -password'')
       else bind_eff (of_res (Load env)) (\<lambda>cfg.
         if DatabaseURL cfg = [] then fail (Msg ''AP_DATABASE_URL required'')
         else if PublicBaseURL cfg = [] then fail (Msg ''AP_PUBLIC_BASE_URL required'')
         else bind_eff (of_res (ce_connect ce (DatabaseURL cfg))) (\<lambda>_.
           create_user ce cfg (fl ''username'') (fl ''password''))))"

text \<open>\<^verbatim>\<open>os.Args\<close> starts with the name of the program.\<close>

definition apadmin :: "'priv cmdenv \<Rightarrow> (string \<Rightarrow> string) \<Rightarrow> string list \<Rightarrow> (db, int) eff" where
  "apadmin ce env args =
     (case args of
        _ # cmd # rest \<Rightarrow> (if cmd = ''create-user'' then createUserCmd ce env rest else fail (Msg ''unknown command''))
      | _ \<Rightarrow> fail (Msg ''usage: apadmin create-user -username NAME -password PASS''))"

section \<open>The start of the server\<close>

record ('pub, 'priv, 'w) startenv =
  se_fetch :: "('pub, 'priv) fetchenv"
  se_transport :: "'w client"
  se_encode_pub :: "'pub \<Rightarrow> err + string"
  se_actor_pem :: "config \<Rightarrow> err + string"
  se_public_pem :: "'priv \<Rightarrow> err + string"
  se_connect :: "string \<Rightarrow> err + unit"
  se_migrate :: "string \<Rightarrow> string \<Rightarrow> err + unit"
  se_redis_url :: "string \<Rightarrow> err + unit"
  se_s3 :: "config \<Rightarrow> err + files blob_store"

text \<open>
  \<^verbatim>\<open>New\<close>.  The public key of the actor document comes from the configured files; the instance actor has
  the same key unless it has a file of its own.
\<close>

definition instance_pem :: "('pub, 'priv, 'w) startenv \<Rightarrow> config \<Rightarrow> string \<Rightarrow> err + string" where
  "instance_pem se cfg actorPEM =
     (if trim_space (InstanceActorPrivateKeyPath cfg) = [] then Inr actorPEM
      else bind_res (wrap_err ''instance actor key'' (load_private_key (se_fetch se) (InstanceActorPrivateKeyPath cfg))) (se_public_pem se))"

definition NewHandler ::
  "('pub, 'priv, 'w) startenv \<Rightarrow> config \<Rightarrow> bool \<Rightarrow> 'w queue_impl option \<Rightarrow> (db, ('pub, 'priv, 'w) handler \<times> config) eff" where
  "NewHandler se cfg st q =
     bind_eff (of_res (if ActorPrivateKeyPath cfg \<noteq> [] then se_actor_pem se cfg else Inr [])) (\<lambda>actorPEM.
     bind_eff (of_res (instance_pem se cfg actorPEM)) (\<lambda>instancePEM.
     bind_eff (if st then bind_eff (New_local_actors cfg actorPEM) (\<lambda>(ids, c). ret (Some ids, c)) else ret (None, cfg)) (\<lambda>(ids, c).
       ret (\<lparr>hd_env = se_fetch se, hd_client = RoundTrip (Some (PolicyFromConfig (Some cfg))) (se_transport se),
             hd_policy = PolicyFromConfig (Some cfg), hd_inboxMaxBody = InboxMaxBody cfg, hd_store = st, hd_queue = q,
             hd_ids = ids, hd_actorPEM = actorPEM, hd_instancePEM = instancePEM, hd_encode_pub = se_encode_pub se\<rparr>, c))))"

definition migrations_dir :: "(string \<Rightarrow> string) \<Rightarrow> string" where
  "migrations_dir env = (if env ''AP_MIGRATIONS_DIR'' \<noteq> [] then env ''AP_MIGRATIONS_DIR'' else ''db/migrations'')"

text \<open>\<^verbatim>\<open>redis.ParseURL\<close> and the client.\<close>

definition redis_queue_of :: "('pub, 'priv, 'w) startenv \<Rightarrow> config \<Rightarrow> err + redis backend" where
  "redis_queue_of se cfg =
     (if RedisURL cfg = [] then Inl (Msg ''AP_REDIS_URL required for redis queue backend'')
      else bind_res (wrap_err ''redis url'' (se_redis_url se (RedisURL cfg))) (\<lambda>_. Inr redis_backend))"

definition apd_queue :: "('pub, 'priv, 'w) startenv \<Rightarrow> config \<Rightarrow> bool \<Rightarrow> err + 'w queue_impl option" where
  "apd_queue se cfg st =
     bind_res
       (if QueueBackend cfg = ''sql'' then Inr (if st then Some SqlQueue else None)
        else if QueueBackend cfg = ''redis'' then bind_res (redis_queue_of se cfg) (\<lambda>b. Inr (Some (OtherQueue (lift_redis b))))
        else Inl (Msg ''unknown queue backend''))
       (\<lambda>q. if st \<and> q = None
            then Inl (Msg ''AP_DATABASE_URL set but queue backend is sql without postgres pool'')
            else Inr q)"

definition mkdir_all :: "string \<Rightarrow> (files, unit) eff" where
  "mkdir_all p = (if p = [] then fail ErrNotExist else mkdirs (parents (filepath_clean p) @ [filepath_clean p]))"

definition mustBlobStore :: "('pub, 'priv, 'w) startenv \<Rightarrow> config \<Rightarrow> (files, files blob_store) eff" where
  "mustBlobStore se cfg =
     (if BlobBackend cfg = ''filesystem'' then
        bind_eff (wrap_eff ''blob fs root'' (mkdir_all (BlobFSRoot cfg))) (\<lambda>_. ret (fs_store (BlobFSRoot cfg)))
      else if BlobBackend cfg = ''s3'' then of_res (wrap_err ''aws config'' (se_s3 se cfg))
      else fail (Msg ''unknown blob backend''))"

definition set_cfg :: "config \<Rightarrow> ('w sys, unit) eff" where
  "set_cfg cfg s = (Inr (), s\<lparr>s_cfg := cfg\<rparr>)"

text \<open>The start of \<^verbatim>\<open>apd\<close> until it listens: the handler, which \<open>apd_handler\<close> serves, and its blob store.\<close>

definition apd_start ::
  "('pub, 'priv, 'w) startenv \<Rightarrow> (string \<Rightarrow> string) \<Rightarrow> (('w, files) site, ('pub, 'priv, 'w) handler \<times> files blob_store) eff" where
  "apd_start se env =
     bind_eff (of_res (wrap_err ''config'' (Load env))) (\<lambda>cfg.
     let st = (DatabaseURL cfg \<noteq> [])
     in bind_eff (of_res (if st then bind_res (wrap_err ''postgres'' (se_connect se (DatabaseURL cfg))) (\<lambda>_.
                                   wrap_err ''migrate'' (se_migrate se (DatabaseURL cfg) (migrations_dir env)))
                          else Inr ())) (\<lambda>_.
        bind_eff (of_res (apd_queue se cfg st)) (\<lambda>q.
        bind_eff (on_blobs (mustBlobStore se cfg)) (\<lambda>blobs.
        bind_eff (on_sys (on_db (wrap_eff ''aphttp'' (NewHandler se cfg st q)))) (\<lambda>(h, c).
        bind_eff (on_sys (set_cfg c)) (\<lambda>_. ret (h, blobs)))))))"

text \<open>The start of \<^verbatim>\<open>apw\<close> until its loops run: the queue, and the names of the database in the configuration.\<close>

definition apw_start ::
  "('pub, 'priv, 'w) startenv \<Rightarrow> (string \<Rightarrow> string) \<Rightarrow> ('w sys, 'w sys backend) eff" where
  "apw_start se env =
     bind_eff (of_res (wrap_err ''config'' (Load env))) (\<lambda>cfg.
       if DatabaseURL cfg = [] \<and> QueueBackend cfg = ''sql'' then fail (Msg ''AP_DATABASE_URL required for sql queue backend'')
       else bind_eff (of_res (if DatabaseURL cfg \<noteq> [] then wrap_err ''postgres'' (se_connect se (DatabaseURL cfg)) else Inr ())) (\<lambda>_.
            bind_eff (of_res
              (if QueueBackend cfg = ''sql'' then
                 bind_res (wrap_err ''migrate'' (se_migrate se (DatabaseURL cfg) (migrations_dir env))) (\<lambda>_. Inr (lift_sql sql_backend))
               else if QueueBackend cfg = ''redis'' then bind_res (redis_queue_of se cfg) (\<lambda>b. Inr (lift_redis b))
               else Inl (Msg ''unknown queue backend''))) (\<lambda>q.
            bind_eff (if DatabaseURL cfg \<noteq> []
                      then wrap_eff ''augment local usernames'' (on_db (AugmentLocalUsernamesFromDB cfg)) else ret cfg) (\<lambda>c.
            bind_eff (set_cfg c) (\<lambda>_. ret q)))))"

end
