(* ===== verification/CommandFacts.thy ===== *)
theory CommandFacts
  imports Commands
begin

text \<open>
  The properties of the start and of \<^verbatim>\<open>apadmin\<close> (\<open>Commands\<close>): a created account can log in, the handler of
  a started server knows exactly the actors of its domain, and both keep the schema.
\<close>

section \<open>Rows of local actors\<close>

text \<open>The name and the id of a row never change, and an upsert gives the id of the row it wrote.\<close>

definition named_id :: "actor_row \<Rightarrow> (string \<times> string) \<times> int" where
  "named_id a = (actor_name a, a_id a)"

definition known_as :: "string \<times> string \<Rightarrow> int \<Rightarrow> db \<Rightarrow> bool" where
  "known_as name i d \<longleftrightarrow> (name, i) \<in> set (map named_id (d_actors d))"

definition positive_ids :: "db \<Rightarrow> bool" where
  "positive_ids d \<longleftrightarrow> (\<forall>p \<in> set (map named_id (d_actors d)). 0 < snd p) \<and> 0 < d_seq d TActors"

lemma known_asI: "a \<in> set (d_actors d) \<Longrightarrow> actor_name a = name \<Longrightarrow> a_id a = i \<Longrightarrow> known_as name i d"
  unfolding known_as_def set_map by (rule image_eqI [of _ _ a]) (simp_all add: named_id_def)

lemma known_asE:
  assumes "known_as name i d"
  obtains a where "a \<in> set (d_actors d)" "actor_name a = name" "a_id a = i"
  using assms by (auto simp: known_as_def named_id_def)

lemma upsert_rows:
  assumes "upsert_actor actor_name a_url local_upd row d = (Inr i, d')" "\<And>n. a_id (row n) = n"
  shows "known_as (actor_name (row (d_seq d TActors))) i d'" "known_as name j d \<Longrightarrow> known_as name j d'"
    "positive_ids d \<Longrightarrow> positive_ids d'"
    "known_as name j d' \<Longrightarrow> known_as name j d \<or> name = actor_name (row (d_seq d TActors))"
    "d_accounts d' = d_accounts d"
proof -
  let ?n = "d_seq d TActors"
  note u = upsert_actor_ok [OF assms(1)]
  show "known_as (actor_name (row ?n)) i d'" using u(3) by (auto intro: known_asI)
  show "d_accounts d' = d_accounts d" by (subst u(2)) simp
  have seq: "d_seq d' TActors = ?n + 1" by (subst u(2)) simp
  have upd: "named_id (local_upd x y) = named_id y" for x y
    by (simp add: local_upd_def actor_name_def named_id_def)
  have "set (map named_id (d_actors d')) = set (map named_id (d_actors d)) \<or>
      set (map named_id (d_actors d')) = insert (actor_name (row ?n), ?n) (set (map named_id (d_actors d)))"
    using u(1)
  proof (cases rule: local_tab.upsert_cases)
    case inserted
    then show ?thesis by (simp add: named_id_def assms(2))
  next
    case (updated old)
    have "map named_id (d_actors d') = map named_id (d_actors d)" unfolding updated(4) by (rule update_where_map) (rule upd)
    then show ?thesis by simp
  qed
  then show "known_as name j d \<Longrightarrow> known_as name j d'" "positive_ids d \<Longrightarrow> positive_ids d'"
    "known_as name j d' \<Longrightarrow> known_as name j d \<or> name = actor_name (row ?n)"
    by (auto simp only: known_as_def positive_ids_def seq insert_iff prod.inject snd_conv)
qed

lemma UpsertLocalActor_rows:
  assumes "UpsertLocalActor cfg u pem d = (Inr i, d')" "url_parse (PublicBaseURL cfg) = Some base"
  shows "known_as (u, url_hostname base) i d'" "known_as name j d \<Longrightarrow> known_as name j d'"
    "positive_ids d \<Longrightarrow> positive_ids d'" "d_accounts d' = d_accounts d"
proof -
  obtain row where r: "upsert_actor actor_name a_url local_upd row d = (Inr i, d')" "\<And>n. a_id (row n) = n"
    "\<And>n. actor_name (row n) = (u, url_hostname base)"
    using assms by (auto simp: UpsertLocalActor_def wrap_eff_ok eff_apply Let_def actor_name_def split: if_splits)
  from upsert_rows [OF r(1,2)] r(3) show "known_as (u, url_hostname base) i d'" "known_as name j d \<Longrightarrow> known_as name j d'"
    "positive_ids d \<Longrightarrow> positive_ids d'" "d_accounts d' = d_accounts d" by auto
qed

section \<open>A created account\<close>

lemma authenticated:
  assumes w: "db_wf d" and a: "a \<in> set (d_actors d)" "a_username a = user" "a_domain a = host"
    and l: "l \<in> set (d_accounts d)" "la_actor l = a_id a" and c: "check (la_hash l) pw"
  shows "fst (AuthenticateLocalAccount check host user pw d) = Inr (a_id a)"
proof -
  let ?j = "[(a, l). a \<leftarrow> d_actors d, l \<leftarrow> d_accounts d, la_actor l = a_id a]"
  have da: "distinct (map actor_name (d_actors d))" "distinct (map la_actor (d_accounts d))"
    using w by (simp_all add: db_wf_def actors_wf_names accounts_wf_def)
  have only: "x = (a, l)" if "x \<in> set ?j" "a_username (fst x) = user \<and> a_domain (fst x) = host" for x
  proof -
    from that(1) have m: "fst x \<in> set (d_actors d)" "snd x \<in> set (d_accounts d)" "la_actor (snd x) = a_id (fst x)" by auto
    have "fst x = a" using distinct_map_inj [OF da(1) m(1) a(1)] that(2) a(2,3) by (simp add: actor_name_def)
    moreover from this have "snd x = l" using distinct_map_inj [OF da(2) m(2) l(1)] m(3) l(2) by simp
    ultimately show ?thesis by (simp add: prod_eq_iff)
  qed
  have "(a, l) \<in> set ?j" using a(1) l by auto
  moreover obtain y where y: "find (\<lambda>p. a_username (fst p) = user \<and> a_domain (fst p) = host) ?j = Some y"
    using \<open>(a, l) \<in> set ?j\<close> a(2,3) by (cases "find (\<lambda>p. a_username (fst p) = user \<and> a_domain (fst p) = host) ?j") (auto simp: find_None_iff)
  ultimately have "y = (a, l)" using find_someD [OF y] only [of y] by blast
  with y c show ?thesis by (simp add: AuthenticateLocalAccount_def select_one_def eff_apply)
qed

lemma set_key_rows:
  assumes "SetActorRSAKeypair i priv pub d = (Inr u, d')" "known_as name i d"
  obtains a where "a \<in> set (d_actors d')" "actor_name a = name" "a_id a = i" "a_priv a = Some (trim_space priv)"
    "d_accounts d' = d_accounts d"
proof -
  let ?f = "\<lambda>a. a\<lparr>a_priv := Some (trim_space priv), a_pem := trim_space pub\<rparr>"
  have d': "d' = d\<lparr>d_actors := update_where (\<lambda>a. a_id a = i) ?f (d_actors d)\<rparr>"
    using assms(1) by (auto simp: SetActorRSAKeypair_def Let_def statement_apply eff_apply split: if_splits)
  from assms(2) obtain a where a: "a \<in> set (d_actors d)" "actor_name a = name" "a_id a = i" by (rule known_asE)
  then have "?f a \<in> set (d_actors d')" unfolding d' by (simp add: set_update_where)
  then show thesis using a d' by (intro that [of "?f a"]) (simp_all add: actor_name_def)
qed

lemma upsert_account:
  assumes "UpsertLocalAccountPassword hash i pw d = (Inr u, d')"
  obtains h where "hash pw = Inr h" "\<lparr>la_actor = i, la_hash = h\<rparr> \<in> set (d_accounts d')" "d_actors d' = d_actors d"
proof -
  from assms obtain h rs where h: "hash pw = Inr h"
    "upsert_on la_actor la_actor ''local_accounts'' (account_upd \<lparr>la_actor = i, la_hash = h\<rparr>) \<lparr>la_actor = i, la_hash = h\<rparr> (d_accounts d) = Inr rs"
    "d' = d\<lparr>d_accounts := rs\<rparr>"
    by (auto simp: UpsertLocalAccountPassword_def Let_def statement_apply eff_apply bind_res_ok split: if_splits sum.splits)
  from h(2) have "\<lparr>la_actor = i, la_hash = h\<rparr> \<in> set rs"
    by (cases rule: account_tab.upsert_cases) (force simp: set_update_where account_upd_def)+
  with h that show thesis by auto
qed




text \<open>
  The steps are not one transaction.  When the password cannot be hashed (bcrypt takes at most 72
  bytes), the command fails after it has replaced the key of the actor.
\<close>

lemma create_user_half_done:
  assumes "ce_bcrypt ce pw = Inl e" "pw \<noteq> []" "ce_generate ce = Inr priv" "ce_private_pem ce priv = Inr pem" "ce_public_pem ce priv = Inr pub"
    and "UpsertLocalActor cfg user pub d = (Inr i, d1)" "SetActorRSAKeypair i pem pub d1 = (Inr (), d2)"
  shows "create_user ce cfg user pw d = (Inl e, d2)" "d_accounts d2 = d_accounts d1"
  using assms
  by (auto simp: create_user_def UpsertLocalAccountPassword_def SetActorRSAKeypair_def Let_def statement_apply bind_apply eff_apply split: if_splits)

section \<open>The local accounts of a started server\<close>

lemma EnsureLocalActor_rows:
  assumes "EnsureLocalActor cfg u pem d = (Inr i, d')" "url_parse (PublicBaseURL cfg) = Some base"
  shows "known_as (u, url_hostname base) i d'" "known_as name j d \<Longrightarrow> known_as name j d'"
    "positive_ids d \<Longrightarrow> positive_ids d'"
  using assms UpsertLocalActor_rows [of cfg u pem d i d' base] by (auto simp: EnsureLocalActor_def eff_apply split: if_splits)

definition ids_known :: "string \<Rightarrow> (string \<times> int) list \<Rightarrow> db \<Rightarrow> bool" where
  "ids_known host ids d \<longleftrightarrow> (\<forall>(u, i) \<in> set ids. known_as (u, host) i d)"

lemma set_ids_set: "set (ids_set ids k v) = insert (k, v) {p \<in> set ids. fst p \<noteq> k}"
  by (auto simp: ids_set_def)

lemma ensure_locals_rows:
  assumes "ensure_locals cfg pem us ids d = (Inr ids', d')" "url_parse (PublicBaseURL cfg) = Some base"
    and "ids_known (url_hostname base) ids d" "positive_ids d"
  shows "ids_known (url_hostname base) ids' d' \<and> positive_ids d' \<and> fst ` set ids' = fst ` set ids \<union> set us"
  using assms(1,3,4)
proof (induction us arbitrary: ids d)
  case (Cons u us)
  then obtain i d1 where e: "EnsureLocalActor cfg u pem d = (Inr i, d1)" "ensure_locals cfg pem us (ids_set ids u i) d1 = (Inr ids', d')"
    by (auto simp: bind_eff_ok)
  have "ids_known (url_hostname base) (ids_set ids u i) d1"
    using Cons.prems(2) EnsureLocalActor_rows(1,2) [OF e(1) assms(2)] by (auto simp: ids_known_def set_ids_set)
  moreover have "positive_ids d1" by (rule EnsureLocalActor_rows(3) [OF e(1) assms(2) Cons.prems(3)])
  moreover have "fst ` set (ids_set ids u i) = insert u (fst ` set ids)" by (auto simp: set_ids_set image_iff)
  ultimately show ?case using Cons.IH [OF e(2)] by auto
qed (simp add: eff_apply)

lemma merge_locals_rows:
  assumes "merge_locals ps ids names = Inr (ids', names')"
  shows "set ids' \<subseteq> set ids \<union> set ps \<and> fst ` set ids' = fst ` set ids \<union> fst ` set ps \<and> set names' = set names \<union> fst ` set ps"
  using assms
proof (induction ps arbitrary: ids names)
  case (Cons p ps)
  obtain u i where p: "p = (u, i)" by (cases p)
  from Cons.prems have "merge_locals ps (ids_set ids u i) (if u \<in> set names then names else names @ [u]) = Inr (ids', names')"
    by (simp add: p split: if_splits)
  from Cons.IH [OF this] show ?case by (auto simp: p set_ids_set image_iff split: if_splits)
qed simp


lemma on_site_ok:
  "on_sys m s = (Inr x, s') \<longleftrightarrow> (\<exists>y. m (st_sys s) = (Inr x, y) \<and> s' = s\<lparr>st_sys := y\<rparr>)"
  "on_blobs b s = (Inr z, s') \<longleftrightarrow> (\<exists>y. b (st_blobs s) = (Inr z, y) \<and> s' = s\<lparr>st_blobs := y\<rparr>)"
  by (auto simp: on_sys_def on_blobs_def split: prod.splits)

lemma New_local_actors_wf: "preserves db_wf (New_local_actors cfg pem)"
proof -
  have "preserves db_wf (ensure_locals cfg pem us ids)" for us ids
    by (induction us arbitrary: ids) (auto intro!: preserved)
  then show ?thesis
    unfolding New_local_actors_def ListLocalActorsOnDomain_def by (intro preserved preserves_basic)
qed

lemma New_local_actors_rows:
  assumes "New_local_actors cfg pem d = (Inr (ids, c), d')" "url_parse (PublicBaseURL cfg) = Some base"
    and "url_hostname base \<noteq> []" "db_wf d" "positive_ids d"
  shows "map_of ids u = Some i \<longleftrightarrow> known_as (u, url_hostname base) i d'" "positive_ids d'"
    "u \<in> set (LocalUsernames c) \<longleftrightarrow> u \<in> set (LocalUsernames cfg) \<or> (\<exists>i. known_as (u, url_hostname base) i d')"
proof -
  let ?host = "url_hostname base"
  let ?rows = "map (\<lambda>a. (a_username a, a_id a)) (filter (\<lambda>a. a_domain a = ?host) (d_actors d'))"
  from assms(1-3) obtain ids0 names where e: "ensure_locals cfg pem (local_names cfg) [] d = (Inr ids0, d')"
    and m: "merge_locals ?rows ids0 (LocalUsernames cfg) = Inr (ids, names)" and c: "c = cfg\<lparr>LocalUsernames := names\<rparr>"
    by (auto simp: New_local_actors_def bind_eff_ok of_res_ok wrap_eff_ok ListLocalActorsOnDomain_def eff_apply)
  have k: "ids_known ?host ids0 d'" "positive_ids d'"
    using ensure_locals_rows [OF e assms(2) _ assms(5)] by (simp_all add: ids_known_def)
  have rows: "(v, j) \<in> set ?rows \<longleftrightarrow> known_as (v, ?host) j d'" for v j
    by (auto simp: known_as_def named_id_def actor_name_def)
  note ms = merge_locals_rows [OF m]
  have sub: "known_as (v, ?host) j d'" if "(v, j) \<in> set ids" for v j
  proof -
    from that ms have "(v, j) \<in> set ids0 \<or> (v, j) \<in> set ?rows" by blast
    then show ?thesis using k(1) unfolding rows ids_known_def by blast
  qed
  have "db_wf d'" using preservesD [OF New_local_actors_wf assms(4), of cfg pem] assms(1) by simp
  then have "distinct (map actor_name (d_actors d'))" by (simp add: db_wf_def actors_wf_names)
  then have uniq: "j = j'" if "known_as n j d'" "known_as n j' d'" for n j j'
  proof -
    note k = that
    obtain x where x: "x \<in> set (d_actors d')" "actor_name x = n" "a_id x = j" by (rule known_asE [OF k(1)])
    obtain y where y: "y \<in> set (d_actors d')" "actor_name y = n" "a_id y = j'" by (rule known_asE [OF k(2)])
    from distinct_map_inj [OF \<open>distinct (map actor_name (d_actors d'))\<close> x(1) y(1)] x y show ?thesis by simp
  qed
  show "map_of ids u = Some i \<longleftrightarrow> known_as (u, ?host) i d'"
  proof
    assume "map_of ids u = Some i"
    then show "known_as (u, ?host) i d'" by (intro sub map_of_SomeD)
  next
    assume a: "known_as (u, ?host) i d'"
    then have "(u, i) \<in> set ?rows" unfolding rows .
    then have "fst (u, i) \<in> fst ` set ids" unfolding ms [THEN conjunct2, THEN conjunct1] by (intro UnI2 imageI)
    then have "u \<in> fst ` set ids" by simp
    then obtain j where j: "map_of ids u = Some j" by (cases "map_of ids u") (auto simp: map_of_eq_None_iff)
    with uniq [OF a sub [OF map_of_SomeD [OF j]]] show "map_of ids u = Some i" by simp
  qed
  show "positive_ids d'" by (rule k(2))
  have "v \<in> fst ` set ?rows \<longleftrightarrow> (\<exists>j. known_as (v, ?host) j d')" for v
  proof -
    have "v \<in> fst ` set ?rows \<longleftrightarrow> (\<exists>j. (v, j) \<in> set ?rows)" by force
    then show ?thesis unfolding rows .
  qed
  then show "u \<in> set (LocalUsernames c) \<longleftrightarrow> u \<in> set (LocalUsernames cfg) \<or> (\<exists>i. known_as (u, ?host) i d')"
    using ms by (auto simp: c)
qed

text \<open>
  C31: When the server has started on a database, its handler takes for local exactly the actors of
  its domain in the database, each with the id of its row, the configured ones and those created by
  \<^verbatim>\<open>apadmin\<close> alike; the configuration lists them all; and the constraints of the schema hold.
\<close>

theorem started_locals:
  assumes "apd_start se env s = (Inr (h, blobs), s')" "Load env = Inr cfg" "DatabaseURL cfg \<noteq> []"
    and "url_parse (PublicBaseURL cfg) = Some base" "url_hostname base \<noteq> []"
    and "db_wf (s_db (st_sys s))" "positive_ids (s_db (st_sys s))"
  shows "(LocalActorID h u = Some i \<longleftrightarrow> known_as (u, url_hostname base) i (s_db (st_sys s'))) \<and>
    (u \<in> set (LocalUsernames (s_cfg (st_sys s'))) \<longleftrightarrow>
       u \<in> set (LocalUsernames cfg) \<or> (\<exists>i. known_as (u, url_hostname base) i (s_db (st_sys s')))) \<and>
    db_wf (s_db (st_sys s'))"
proof -
  from assms(1-3) obtain q d c where n: "NewHandler se cfg True q (s_db (st_sys s)) = (Inr (h, c), d)"
    and s': "s_db (st_sys s') = d" "s_cfg (st_sys s') = c"
    by (auto simp: apd_start_def bind_eff_ok of_res_ok wrap_err_def wrap_eff_ok on_site_ok on_db_ok set_cfg_def eff_apply Let_def)
  from n obtain pem ids where l: "New_local_actors cfg pem (s_db (st_sys s)) = (Inr (ids, c), d)" and h: "hd_ids h = Some ids"
    by (auto simp: NewHandler_def bind_eff_ok of_res_ok eff_apply)
  note r = New_local_actors_rows [OF l assms(4-7)]
  have pos: "i \<noteq> 0" if "known_as (u, url_hostname base) i d" for i
    using that r(2) unfolding known_as_def positive_ids_def by fastforce
  have "db_wf d" using preservesD [OF New_local_actors_wf assms(6), of cfg pem] l by simp
  moreover have "LocalActorID h u = Some i \<longleftrightarrow> map_of ids u = Some i" for i
    using pos [folded r(1)] by (auto simp: LocalActorID_def h split: option.split)
  ultimately show ?thesis unfolding s' using r(1,3) by blast
qed

end
