(* ===== verification/WitnessesStart.thy ===== *)
theory WitnessesStart
  imports CommandFacts SampleHttp
begin

text \<open>The command \<^verbatim>\<open>create-user\<close> and the start of the server, on the sample.\<close>

definition sample_getenv :: "string \<Rightarrow> string" where
  "sample_getenv k =
     (if k = ''AP_DATABASE_URL'' then ''postgres://db'' else if k = ''AP_PUBLIC_BASE_URL'' then ''https://a.example''
      else if k = ''AP_BLOB_FS_ROOT'' then ''/blobs'' else [])"

definition sample_cmdenv :: "string cmdenv" where
  "sample_cmdenv = \<lparr>ce_connect = (\<lambda>_. Inr ()), ce_generate = Inr ''key'', ce_private_pem = (\<lambda>k. Inr (''private '' @ k)),
     ce_public_pem = (\<lambda>k. Inr (''public '' @ k)), ce_bcrypt = (\<lambda>p. if length p > 72 then Inl (Msg ''password length'') else Inr (''hash '' @ p))\<rparr>"


definition sample_startenv :: "(string, string, request list) startenv" where
  "sample_startenv = \<lparr>se_fetch = sample_fetchenv, se_transport = sample_client, se_encode_pub = (\<lambda>_. Inr ''pub''),
     se_actor_pem = (\<lambda>_. Inr ''pub''), se_public_pem = (\<lambda>_. Inr ''pub''), se_connect = (\<lambda>_. Inr ()), se_migrate = (\<lambda>_ _. Inr ()),
     se_redis_url = (\<lambda>_. Inr ()), se_s3 = (\<lambda>_. Inl (Msg ''no S3 here''))\<rparr>"

definition start_site :: "(request list, files) site" where
  "start_site = \<lparr>st_sys = sample_sys, st_blobs = []\<rparr>"

theorem started_locals_witness:
  "\<exists>h blobs s'. apd_start sample_startenv sample_getenv start_site = (Inr (h, blobs), s') \<and>
     (LocalActorID h ''alice'' = Some 1 \<longleftrightarrow> known_as (''alice'', ''a.example'') 1 (s_db (st_sys s'))) \<and> db_wf (s_db (st_sys s'))"
proof -
  let ?p = "apd_start sample_startenv sample_getenv start_site"
  have "case fst ?p of Inl _ \<Rightarrow> False | Inr _ \<Rightarrow> True" by code_simp
  then obtain h blobs where p: "?p = (Inr (h, blobs), snd ?p)" by (cases ?p) (auto split: sum.splits)
  have "case Load sample_getenv of Inl _ \<Rightarrow> False
      | Inr c \<Rightarrow> DatabaseURL c \<noteq> [] \<and> (case url_parse (PublicBaseURL c) of None \<Rightarrow> False | Some u \<Rightarrow> url_hostname u = ''a.example'')"
    by code_simp
  then obtain cfg base where c: "Load sample_getenv = Inr cfg" "DatabaseURL cfg \<noteq> []" "url_parse (PublicBaseURL cfg) = Some base"
    "url_hostname base = ''a.example''" by (auto split: sum.splits option.splits)
  have w: "db_wf (s_db (st_sys start_site))" "positive_ids (s_db (st_sys start_site))"
    using sample_sys_wf by (simp_all add: start_site_def sample_sys_def positive_ids_def sample_db_def named_id_def sample_rows)
  have "(LocalActorID h ''alice'' = Some 1 \<longleftrightarrow> known_as (''alice'', url_hostname base) 1 (s_db (st_sys (snd ?p)))) \<and>
      db_wf (s_db (st_sys (snd ?p)))"
    using started_locals [OF p c(1,2,3) _ w, of "''alice''" 1] c(4) by simp
  with p c(4) show ?thesis by metis
qed

end
