(* ===== verification/Spec2Isabelle.thy ===== *)
theory Spec2Isabelle
  imports WitnessesNet WitnessesQueue WitnessesHttp WitnessesOAuth WitnessesMedia WitnessesSearch WitnessesFederation WitnessesStart
begin

text \<open>
  \<^bold>\<open>A model of activitypub-core.\<close>  The program is an ActivityPub server in Go.  It receives signed
  activities from other servers, stores them, processes them in a worker, posts the activities of
  its own accounts, delivers them, serves documents, collections and media, and serves the Mastodon
  client API: log-in, statuses, timelines, lists, filters, media, conversations, search.  Two
  processes share a database and a job queue: \<^verbatim>\<open>cmd/apd\<close> answers HTTP, \<^verbatim>\<open>cmd/apw\<close> runs jobs; the
  command \<^verbatim>\<open>cmd/apadmin\<close> creates accounts.

  \<^bold>\<open>How the code is modelled.\<close>  A function that can fail is an \<open>err + 'a\<close> (\<open>Prelude\<close>); a function
  with effects is an \<open>('s, 'a) eff\<close>, a state transformer whose value is such a result; a Go early
  return or error branch is a branch of the definition.  The state \<open>db\<close> has one list of records per
  table (\<open>Db\<close>), the state \<open>'w sys\<close> of the process adds the Redis list, the outside world \<open>'w\<close> and the
  configuration, which the worker updates (\<open>InboxProc\<close>); \<open>('w, 'b) site\<close> adds the blobs (\<open>Blobs\<close>).  A
  transaction that fails restores the state.  A handler is an effect from a request to a reply; the
  routes of the server are lists of method, pattern and handler (\<open>Server\<close>).  Strings are byte
  strings, Go integers of 64 bits are integers with the wrap-around written out where it can occur.
  Every definition that is mapped to code is executable.

  \<^bold>\<open>Theories\<close>, in the order of the calls:
  \<^item> \<open>Prelude\<close>: errors, effects, preservation (the collection \<open>preserved\<close>), lists as tables.
  \<^item> \<open>GoStrings\<close>, \<open>GoUrl\<close>, \<open>GoQuery\<close>, \<open>GoJson\<close>, \<open>GoCrypto\<close>, \<open>GoNet\<close>: what the source uses of the
    standard library: \<^verbatim>\<open>strings\<close>, \<^verbatim>\<open>strconv\<close>, \<^verbatim>\<open>net/url\<close>, \<^verbatim>\<open>encoding/json\<close> on JSON values, base64,
    SHA-256, \<^verbatim>\<open>net.IP\<close>.
  \<^item> \<open>As2\<close> (\<^verbatim>\<open>internal/as2\<close>), \<open>Config\<close> (\<^verbatim>\<open>internal/config\<close>), \<open>HttpSig\<close> (\<^verbatim>\<open>internal/httpsig\<close>), \<open>Fetch\<close>
    (\<^verbatim>\<open>internal/fetch\<close>).
  \<^item> \<open>Db\<close> (\<^verbatim>\<open>db/migrations\<close>), \<open>StoreEdges\<close>, \<open>StoreActors\<close>, \<open>Paging\<close>, \<open>StoreClient\<close> (\<^verbatim>\<open>store\<close>).
  \<^item> \<open>Queue\<close> (\<^verbatim>\<open>queue\<close>), \<open>InboxProc\<close> (\<^verbatim>\<open>internal/inboxproc\<close>), \<open>Worker\<close> (\<^verbatim>\<open>internal/worker\<close> and the loop of
    \<^verbatim>\<open>cmd/apw\<close>).
  \<^item> \<open>Http\<close>, \<open>Inbox\<close>, \<open>Outbox\<close>, \<open>ApGet\<close> (\<^verbatim>\<open>aphttp\<close>), \<open>Blobs\<close> (\<^verbatim>\<open>aphttp/media.go\<close>, \<^verbatim>\<open>blobs\<close>).
  \<^item> \<open>Federation\<close>: two servers, the worker of one posting to the inbox of the other.
  \<^item> \<^verbatim>\<open>mastodonapi\<close>: \<open>OAuth\<close> (applications, tokens), \<open>Statuses\<close> (the JSON of accounts and statuses),
    \<open>StatusApi\<close> (posting, deleting, favourites, reblogs, bookmarks, threads), \<open>ClientLists\<close> (lists and
    filters), \<open>Timelines\<close> (timelines, filtering, conversations), \<open>MediaApi\<close>, \<open>Accounts\<close> (accounts,
    relationships, search), \<open>ClientMisc\<close> (instance data and the endpoints with fixed answers).
  \<^item> \<open>StatusFacts\<close>, \<open>ListFacts\<close>, \<open>TimelineFacts\<close>, \<open>MediaFacts\<close>: the properties of these.
  \<^item> \<open>Server\<close>: the routing tables of \<^verbatim>\<open>aphttp.Mount\<close>, \<^verbatim>\<open>mastodonapi.Mount\<close> and \<^verbatim>\<open>cmd/apd\<close>, the choice of
    the route, the wrappers; \<open>ServerFacts\<close>: what holds of every request.
  \<^item> \<open>Commands\<close>, \<open>CommandFacts\<close>: the start of the processes, \<^verbatim>\<open>apadmin create-user\<close>.
  \<^item> \<open>Sample\<close>, \<open>SampleHttp\<close>, \<open>SampleApi\<close>: a small instance; \<open>WitnessesNet\<close>, \<open>WitnessesQueue\<close>,
    \<open>WitnessesHttp\<close>, \<open>WitnessesOAuth\<close>, \<open>WitnessesApi\<close>, \<open>WitnessesMedia\<close>, \<open>WitnessesSearch\<close>,
    \<open>WitnessesFederation\<close>, \<open>WitnessesStart\<close>: the properties applied to it.
  \<^item> this theory: the properties of inbox processing as a whole.

  \<^bold>\<open>What is shown.\<close>
  \<^item> Who may do what: an activity is stored only if a key published by its actor signed it; updates,
    deletes, answers to follows and undos touch rows of their own actor only; an outbox takes posts
    with its secret only; tokens stand for the account and the scopes they were issued for; without a
    token no request changes the database but the ones listed; statuses, lists, filters and media are
    changed by their owner only; a conversation is shown to those who take part.
  \<^item> The schema: every request to the server, by whatever route, and every turn of the worker keeps
    the unique and foreign keys.
  \<^item> Jobs: the SQL queue implements the life cycle \<open>job_step\<close> and loses nothing; an activity is
    stored exactly when its jobs are; attempts are bounded; the back-off is exact.
  \<^item> Federation: what the outbox of one server queues, its worker delivers, and the inbox of another
    server stores with its job.
  \<^item> The network: the dialer reaches public addresses only; inbox discovery and searches send a
    bounded number of requests, which the policy allows.
  \<^item> The client API: what is shown is a status entity; showing a status returns exactly if its quotes
    end, and posting keeps it so; a status is addressed as its visibility says; filters hide; threads
    are bounded; uploads are served as they came.
  \<^item> Round trips: signing and verifying, the payload of a delivery, links between pages, uploads.
  \<^item> The start: the server knows the actors of its domain; a created account can log in.

  \<^bold>\<open>Interfaces.\<close>  \<open>queue_spec\<close> (\<open>Queue\<close>) is what both backends promise; \<open>upsert_table\<close> (\<open>Db\<close>) is what
  an upsert does, for every table that has one; \<open>owned_rows\<close> (\<open>StoreClient\<close>) is the ownership of client
  rows; \<open>blob_spec\<close> (\<open>Blobs\<close>) is what a blob store promises; \<open>posting_keeps\<close> (\<open>StatusFacts\<close>) is what an
  invariant needs to survive the posting of an activity.  Each is interpreted on the model's own
  definitions.

  \<^bold>\<open>Bounds.\<close>  The recursion of inbox discovery counts down \<^verbatim>\<open>maxInboxResolutionSteps\<close>, the one of the
  ancestors of a status its limit of 64; \<open>all_pages\<close> takes a number of pages that exceeds the rows of
  the table, which the properties state as a hypothesis; the loop of the worker is any number of
  turns.  \<open>mastodonStatusPresentation\<close> recurses without a bound, as the code does: it is a partial
  function, whose value \<open>None\<close> is the recursion that does not end.  Nothing else has fuel.

  \<^bold>\<open>Parameters.\<close>  RSA signing and verification and the HTTP date format (\<open>sigenv\<close>), JSON text and PEM
  decoding (\<open>fetchenv\<close>), bcrypt, MIME and multipart parsing (\<open>server\<close>, \<open>part_parser\<close>), decoding into Go
  structs and Unicode letters (\<open>api\<close>), the name resolver, the remote servers (\<open>client\<close>), the clock and
  the random bytes of a request, connections, migrations and the S3 client (\<open>startenv\<close>).

  \<^bold>\<open>Not modelled.\<close>  Concurrency inside a transaction (the database serialises them); connection
  pools, timeouts, TLS, metrics, traces and logs (\<^verbatim>\<open>observability\<close>), migrations (\<^verbatim>\<open>migrate\<close>): calls of
  libraries; the S3 store (\<^verbatim>\<open>blobs/s3\<close>), which only calls its library; PEM files
  (\<^verbatim>\<open>internal/actorkey\<close>); headers of replies other than the content type, the location and CORS.
  Numbers in JSON are their literals, so ids above \<open>2 ^ 53\<close>, which Go reads as floats in some places,
  are outside the model there.
\<close>

section \<open>Inbound activities\<close>

lemma db_inv_keeps: "(\<And>P. preserves (db_inv P) m) \<Longrightarrow> s_db (snd (m s)) = s_db s"
  using preservesD [of "db_inv (\<lambda>d. d = s_db s)" m s] by (simp add: db_inv_def)

text \<open>
  Processing an inbound activity, whatever it says and wherever it fails, keeps every
  constraint of the schema: keys stay unique and references stay valid.
\<close>

theorem inbox_keeps_schema:
  "preserves (db_inv db_wf) (ProcessInboxActivity env (lift_sql sql_backend) i)"
  by (rule ProcessInboxActivity_wf [OF sql_keeps_on_enqueue])

text \<open>
  C1: An Update or a Delete never touches a live object of another actor: the row stays in the
  table exactly as it was, whatever IRI the activity names.
\<close>

theorem update_delete_own_objects:
  assumes "ob_actor r \<noteq> v_actor row" "ob_deleted r = None"
  shows "preserves (db_inv (has_object r)) (handleUpdate cfg row fs) \<and>
         preserves (db_inv (has_object r)) (handleDelete cfg row fs)"
  using assms by (intro conjI foreign_objects_kept) (simp_all add: foreign_live_def)

definition delete_fs :: obj where
  "delete_fs = [(''type'', JStr ''Delete''), (''actor'', JStr ''https://b.example/bob''),
     (''object'', JStr ''https://b.example/notes/1'')]"

theorem update_delete_own_objects_witness:
  "has_object carols_note (s_db (snd (handleDelete sample_cfg (bobs_activity ''Delete'' delete_fs) delete_fs sample_sys)))"
proof -
  have "db_inv (has_object carols_note) sample_sys"
    using sample_sys_wf by (simp add: db_inv_def has_object_def sample_sys_def sample_db_def)
  moreover have "preserves (db_inv (has_object carols_note))
      (handleDelete sample_cfg (bobs_activity ''Delete'' delete_fs) delete_fs :: (request list sys, unit) eff)"
    by (rule update_delete_own_objects [THEN conjunct2]) (simp_all add: sample_rows)
  ultimately have "db_inv (has_object carols_note)
      (snd (handleDelete sample_cfg (bobs_activity ''Delete'' delete_fs) delete_fs sample_sys))"
    by (rule preservesD [rotated])
  then show ?thesis by (simp only: db_inv_def)
qed

text \<open>
  C14: An Accept or a Reject changes the state of a follow only if its actor is the followee of that
  follow: exactly the rows with that activity IRI and that followee get the new state.
\<close>

theorem only_followee_answers:
  assumes "db_wf (s_db s)" "ObjectIRI fs = Inr target"
  shows "s_db (snd (handleAccept row fs s)) =
           (s_db s)\<lparr>d_follows := map (answered target FollowStateAccepted (v_actor row)) (d_follows (s_db s))\<rparr> \<and>
         s_db (snd (handleReject row fs s)) =
           (s_db s)\<lparr>d_follows := map (answered target FollowStateRejected (v_actor row)) (d_follows (s_db s))\<rparr>"
  unfolding handleAccept_def handleReject_def using answer_follow_apply [OF assms] by simp

definition accept_fs :: obj where
  "accept_fs = [(''type'', JStr ''Accept''), (''object'', JStr ''https://a.example/f/2'')]"

theorem only_followee_answers_witness:
  "d_follows (s_db (snd (handleAccept (bobs_activity ''Accept'' accept_fs) accept_fs sample_sys))) =
     [follow_of_alice, follow_of_carol] \<and>
   d_follows (s_db (snd (handleAccept ((bobs_activity ''Accept'' accept_fs)\<lparr>v_actor := 3\<rparr>) accept_fs sample_sys))) =
     [follow_of_alice, follow_of_carol\<lparr>f_state := ''accepted''\<rparr>]"
proof -
  have o: "ObjectIRI accept_fs = Inr ''https://a.example/f/2''" by code_simp
  show ?thesis
    unfolding only_followee_answers [OF sample_sys_wf o, THEN conjunct1]
    by (simp add: sample_sys_def sample_db_def answered_def sample_rows FollowStateAccepted_def)
qed

text \<open>
  C15: An Undo removes edges of its own actor only, adds none, and changes nothing else.
\<close>

theorem undo_own_edges: "preserves (db_inv (has_edges_but (v_actor row) d0)) (handleUndo row fs)"
  by (rule handleUndo_own_edges)

text \<open>
  C16: When an inbound Follow is processed without an error and follows are accepted automatically,
  the object was resolved to a local account, there is exactly one follow of the pair, it is
  accepted and carries the IRI of the activity, and the Accept for it, signed by the followee, is
  queued for delivery.
\<close>

theorem follow_accepted:
  assumes "db_wf (s_db s)" "FollowAutoAccept cfg"
    and "fst (handleFollow env (lift_sql sql_backend) cfg row fs s) = Inr ()"
  shows "\<exists>iri followee user url f. ObjectIRI fs = Inr iri \<and>
     fst (ResolveLocalFolloweeFromObjectIRI (Some cfg) iri (s_db s)) = Inr (followee, user) \<and>
     filter (\<lambda>f. f_follower f = v_actor row \<and> f_followee f = followee)
       (d_follows (s_db (snd (handleFollow env (lift_sql sql_backend) cfg row fs s)))) = [f] \<and>
     f_state f = FollowStateAccepted \<and> f_activity f = v_activity_id row \<and>
     accept_queued (s_db (snd (handleFollow env (lift_sql sql_backend) cfg row fs s))) url user (v_activity_id row)"
proof -
  from assms(3) have "handleFollow env (lift_sql sql_backend) cfg row fs s =
      (Inr (), snd (handleFollow env (lift_sql sql_backend) cfg row fs s))" by (metis prod.collapse)
  from handleFollow_accepts [OF assms(1,2) this] show ?thesis .
qed

definition follow_fs :: obj where
  "follow_fs = [(''type'', JStr ''Follow''), (''actor'', JStr ''https://b.example/bob''),
     (''object'', JStr ''https://a.example/@alice'')]"

theorem follow_accepted_witness:
  "\<exists>f. f \<in> set (d_follows (s_db (snd (handleFollow sample_procenv (lift_sql sql_backend) sample_cfg
      (bobs_activity ''Follow'' follow_fs) follow_fs sample_sys)))) \<and> f_follower f = 2 \<and> f_state f = ''accepted''"
proof -
  let ?row = "bobs_activity ''Follow'' follow_fs"
  have "fst (handleFollow sample_procenv (lift_sql sql_backend) sample_cfg ?row follow_fs sample_sys) = Inr ()"
    by code_simp
  moreover have "FollowAutoAccept sample_cfg" by (simp add: sample_cfg_def)
  ultimately obtain followee f where "filter (\<lambda>f. f_follower f = v_actor ?row \<and> f_followee f = followee)
      (d_follows (s_db (snd (handleFollow sample_procenv (lift_sql sql_backend) sample_cfg ?row follow_fs sample_sys)))) = [f]"
    "f_state f = FollowStateAccepted"
    using follow_accepted [OF sample_sys_wf] by blast
  from arg_cong [OF this(1), of set] this(2) show ?thesis
    by (auto simp: bobs_activity_def FollowStateAccepted_def)
qed

text \<open>
  An activity addressed to recipients of other servers only has no effect: a Create, Update,
  Delete, Like, Announce or Block leaves the database as it is.
\<close>

theorem elsewhere_no_effect:
  assumes "\<not> activityShouldApplySideEffects (Some cfg) fs"
  shows "s_db (snd (handleCreate env cfg row fs s)) = s_db s \<and> s_db (snd (handleUpdate cfg row fs s)) = s_db s \<and>
    s_db (snd (handleDelete cfg row fs s)) = s_db s \<and> s_db (snd (handleLike cfg row fs s)) = s_db s \<and>
    s_db (snd (handleAnnounce cfg row fs s)) = s_db s \<and> s_db (snd (handleBlock cfg row fs s)) = s_db s"
  by (intro conjI db_inv_keeps elsewhere_keeps assms)

definition elsewhere_fs :: obj where
  "elsewhere_fs = [(''type'', JStr ''Like''), (''object'', JStr ''https://a.example/n/1''), (''to'', JStr ''https://b.example/carol'')]"

theorem elsewhere_no_effect_witness:
  "s_db (snd (handleLike sample_cfg (bobs_activity ''Like'' elsewhere_fs) elsewhere_fs sample_sys)) = sample_db"
proof -
  have "\<not> activityShouldApplySideEffects (Some sample_cfg) elsewhere_fs" by code_simp
  then have "s_db (snd (handleLike sample_cfg (bobs_activity ''Like'' elsewhere_fs) elsewhere_fs sample_sys)) = s_db sample_sys"
    using elsewhere_no_effect [of sample_cfg elsewhere_fs sample_procenv "bobs_activity ''Like'' elsewhere_fs" sample_sys] by blast
  then show ?thesis by (simp add: sample_sys_def)
qed

text \<open>
  A Create that applies here and succeeds has stored its object under its id, owned by the
  actor of the activity, who is the actor the object is attributed to; this holds whoever owned a
  row of that id before.
\<close>

theorem create_stores_object:
  assumes "handleCreate env cfg row fs s = (Inr (), s')" "activityShouldApplySideEffects (Some cfg) fs"
    and "ObjectFieldIDType (obj_get fs ''object'') = Inr (i, typ, Some js)"
  shows "(\<exists>r \<in> set (d_objects (s_db s')). ob_url r = i \<and> ob_actor r = v_actor row \<and> ob_raw r = js \<and> ob_deleted r = None) \<and>
     (\<exists>actorIRI signer. ActorIRIFromActivity fs = Inr actorIRI \<and> ObjectAttributedToMatches js actorIRI \<and>
        fst (actorURLByDBID (v_actor row) (s_db s)) = Inr signer \<and> actorsMatch actorIRI signer)"
  using assms by (rule handleCreate_stores)

definition takeover_note :: json where
  "takeover_note = JObj [(''id'', JStr ''https://b.example/notes/1''), (''type'', JStr ''Note''), (''content'', JStr ''bob was here'')]"

definition takeover_fs :: obj where
  "takeover_fs = [(''type'', JStr ''Create''), (''actor'', JStr ''https://b.example/bob''), (''object'', takeover_note)]"

theorem create_stores_object_witness:
  "\<exists>r \<in> set (d_objects (s_db (snd (handleCreate sample_procenv sample_cfg (bobs_activity ''Create'' takeover_fs) takeover_fs sample_sys)))).
     ob_url r = ob_url carols_note \<and> ob_actor r = 2 \<and> ob_raw r = takeover_note"
proof -
  let ?row = "bobs_activity ''Create'' takeover_fs"
  have "fst (handleCreate sample_procenv sample_cfg ?row takeover_fs sample_sys) = Inr ()" by code_simp
  then have "handleCreate sample_procenv sample_cfg ?row takeover_fs sample_sys =
      (Inr (), snd (handleCreate sample_procenv sample_cfg ?row takeover_fs sample_sys))" by (metis prod.collapse)
  moreover have "activityShouldApplySideEffects (Some sample_cfg) takeover_fs" by code_simp
  moreover have "ObjectFieldIDType (obj_get takeover_fs ''object'') = Inr (''https://b.example/notes/1'', ''Note'', Some takeover_note)"
    by code_simp
  ultimately show ?thesis
    using create_stores_object [of sample_procenv sample_cfg ?row takeover_fs sample_sys] by (auto simp: sample_rows)
qed

end
